(* ===== verification/Choruz_Prelude.thy ===== *)
theory Choruz_Prelude
  imports Main "HOL-Library.AList" "HOL-Library.Char_ord" "HOL-Library.List_Lexorder"
    "HOL-Library.Word"
begin

text \<open>
  Shared vocabulary of the development: the model's scalar types, the error type of
  \<^verbatim>\<open>crates/choruz-common/src/lib.rs\<close>, the parts of Rust's standard library the
  modelled code uses (strings, \<^verbatim>\<open>HashMap\<close>, \<^verbatim>\<open>BTreeMap\<close>), and the
  environment the code reads (fresh identifiers and the clock).

  Scope of strings: a Rust \<^verbatim>\<open>String\<close> is a \<^typ>\<open>string\<close> over ASCII
  characters, so that byte length, character count and byte offsets agree and
  \<^verbatim>\<open>trim\<close>, \<^verbatim>\<open>to_lowercase\<close> and \<^verbatim>\<open>is_control\<close> are
  the ASCII restrictions of the Unicode operations. Rust orders strings bytewise, which is
  the lexicographic order of \<open>HOL-Library.List_Lexorder\<close> over \<open>HOL-Library.Char_ord\<close>.
\<close>

section \<open>Scalars, errors and results\<close>

type_synonym u64 = "64 word"

text \<open>A \<^verbatim>\<open>DateTime<Utc>\<close> is the number of nanoseconds since the Unix epoch.\<close>

type_synonym timestamp = int

datatype app_error =
    Unauthorized string
  | NotFound string
  | Conflict string
  | Validation string
  | Forbidden string
  | RateLimited u64
  | Internal string

type_synonym 'a app_result = "app_error + 'a"

named_theorems op_defs \<open>unfolding rules of the operations\<close>
named_theorems inv_defs \<open>unfolding rules of the invariants\<close>

text \<open>
  An operation that may also panic (\<^verbatim>\<open>expect\<close>, an index out of range) ends in one of
  three ways; \<open>exec_bind\<close> is the sequencing of \<^verbatim>\<open>?\<close>.
\<close>

datatype ('e, 'a) exec = Ret 'a | Fail 'e | Panic string

fun exec_bind :: "('e, 'a) exec \<Rightarrow> ('a \<Rightarrow> ('e, 'b) exec) \<Rightarrow> ('e, 'b) exec" where
  "exec_bind (Ret x) f = f x"
| "exec_bind (Fail e) f = Fail e"
| "exec_bind (Panic m) f = Panic m"

fun exec_of_result :: "'e + 'a \<Rightarrow> ('e, 'a) exec" where
  "exec_of_result (Inr x) = Ret x"
| "exec_of_result (Inl e) = Fail e"

fun expect_some :: "string \<Rightarrow> 'a option \<Rightarrow> ('e, 'a) exec" where
  "expect_some m (Some x) = Ret x"
| "expect_some m None = Panic m"

fun exec_map :: "('a \<Rightarrow> ('e, 'b) exec) \<Rightarrow> 'a list \<Rightarrow> ('e, 'b list) exec" where
  "exec_map f [] = Ret []"
| "exec_map f (x # xs) = exec_bind (f x) (\<lambda>y. exec_bind (exec_map f xs) (\<lambda>ys. Ret (y # ys)))"

lemma exec_map_Ret: "(\<And>x. x \<in> set xs \<Longrightarrow> f x = Ret (g x)) \<Longrightarrow> exec_map f xs = Ret (map g xs)"
  by (induction xs) simp_all

lemma exec_bind_eq_Ret: "exec_bind r f = Ret y \<longleftrightarrow> (\<exists>x. r = Ret x \<and> f x = Ret y)"
  by (cases r) simp_all

lemma exec_bind_eq_Panic:
  "exec_bind r f = Panic m \<longleftrightarrow> r = Panic m \<or> (\<exists>x. r = Ret x \<and> f x = Panic m)"
  by (cases r) simp_all

lemma exec_bind_eq_Fail:
  "exec_bind r f = Fail e \<longleftrightarrow> r = Fail e \<or> (\<exists>x. r = Ret x \<and> f x = Fail e)"
  by (cases r) simp_all

lemma exec_map_not_Fail: "(\<And>x. x \<in> set xs \<Longrightarrow> f x \<noteq> Fail e) \<Longrightarrow> exec_map f xs \<noteq> Fail e"
  by (induction xs) (auto simp: exec_bind_eq_Fail)

lemma expect_some_not_Fail [simp]: "expect_some m x \<noteq> Fail e"
  by (cases x) simp_all

lemma exec_of_result_eq_Fail [simp]: "exec_of_result r = Fail e \<longleftrightarrow> r = Inl e"
  by (cases r) simp_all

lemma exec_of_result_not_Panic [simp]: "exec_of_result r \<noteq> Panic m"
  by (cases r) simp_all

lemma exec_of_result_eq_Ret [simp]: "exec_of_result r = Ret x \<longleftrightarrow> r = Inr x"
  by (cases r) simp_all

text \<open>
  A stateful operation: the way it ends and the state it leaves. What was written before an error
  stays written.
\<close>

type_synonym ('s, 'e, 'a) st_exec = "'s \<Rightarrow> ('e, 'a) exec \<times> 's"

definition st_ret :: "'a \<Rightarrow> ('s, 'e, 'a) st_exec" where
  "st_ret x s = (Ret x, s)"

definition st_lift :: "('e, 'a) exec \<Rightarrow> ('s, 'e, 'a) st_exec" where
  "st_lift r s = (r, s)"

definition st_call :: "('s \<Rightarrow> ('e + 'a) \<times> 's) \<Rightarrow> ('s, 'e, 'a) st_exec" where
  "st_call f s = (case f s of (r, s') \<Rightarrow> (exec_of_result r, s'))"

definition st_bind :: "('s, 'e, 'a) st_exec \<Rightarrow> ('a \<Rightarrow> ('s, 'e, 'b) st_exec) \<Rightarrow> ('s, 'e, 'b) st_exec" where
  "st_bind m f s = (case m s of (r, s') \<Rightarrow>
     (case r of Ret x \<Rightarrow> f x s' | Fail e \<Rightarrow> (Fail e, s') | Panic p \<Rightarrow> (Panic p, s')))"

lemma st_bind_Ret: "st_bind m f s = (Ret y, t) \<longleftrightarrow> (\<exists>x u. m s = (Ret x, u) \<and> f x u = (Ret y, t))"
  by (auto simp: st_bind_def split: prod.splits exec.splits)

definition no_panic :: "('e, 'a) exec \<times> 's \<Rightarrow> bool" where
  "no_panic r \<longleftrightarrow> (case fst r of Panic _ \<Rightarrow> False | _ \<Rightarrow> True)"

lemma no_panicD: "no_panic r \<Longrightarrow> fst r \<noteq> Panic p"
  by (auto simp: no_panic_def)

lemma no_panic_bind [intro!]:
  "no_panic (m s) \<Longrightarrow> (\<And>x u. m s = (Ret x, u) \<Longrightarrow> no_panic (f x u)) \<Longrightarrow> no_panic (st_bind m f s)"
  by (auto simp: st_bind_def no_panic_def split: prod.splits exec.splits)

lemma no_panic_simps [simp]:
  "no_panic (st_call f s)" "no_panic (st_ret x s)" "no_panic (st_lift (Ret x) s)" "no_panic (st_lift (Fail e) s)"
  "no_panic (Ret x, s)" "no_panic (Fail e, s)"
  by (simp_all add: no_panic_def st_call_def st_ret_def st_lift_def split: prod.splits exec.splits sum.splits)

lemma st_bind_simps [simp]:
  "m s = (Ret x, t) \<Longrightarrow> st_bind m f s = f x t"
  "m s = (Fail e, t) \<Longrightarrow> st_bind m f s = (Fail e, t)"
  "m s = (Panic p, t) \<Longrightarrow> st_bind m f s = (Panic p, t)"
  by (simp_all add: st_bind_def)

lemma st_ret_eq [simp]: "st_ret x s = (r, t) \<longleftrightarrow> r = Ret x \<and> t = s"
  by (auto simp: st_ret_def)

lemma st_lift_eq [simp]: "st_lift q s = (r, t) \<longleftrightarrow> q = r \<and> t = s"
  by (auto simp: st_lift_def)

lemma st_call_Ret [simp]: "st_call f s = (Ret x, t) \<longleftrightarrow> f s = (Inr x, t)"
  by (auto simp: st_call_def split: prod.splits)

text \<open>
  Reading the state, updating it, checking it and drawing from it; and the weakest precondition of
  an operation for a condition on how it ends and on the state it leaves.
\<close>

definition st_ask :: "('s \<Rightarrow> 'e + 'a) \<Rightarrow> ('s, 'e, 'a) st_exec" where
  "st_ask f s = (exec_of_result (f s), s)"

definition st_get :: "('s \<Rightarrow> 'a) \<Rightarrow> ('s, 'e, 'a) st_exec" where
  "st_get f s = (Ret (f s), s)"

definition st_upd :: "('s \<Rightarrow> 's) \<Rightarrow> ('s, 'e, unit) st_exec" where
  "st_upd f s = (Ret (), f s)"

definition st_draw :: "('s \<Rightarrow> 'a \<times> 's) \<Rightarrow> ('s, 'e, 'a) st_exec" where
  "st_draw f s = (case f s of (x, s') \<Rightarrow> (Ret x, s'))"

definition st_guard :: "('s \<Rightarrow> bool) \<Rightarrow> 'e \<Rightarrow> ('s, 'e, unit) st_exec" where
  "st_guard P e s = (if P s then Ret () else Fail e, s)"

definition st_expect :: "string \<Rightarrow> ('s \<Rightarrow> 'a option) \<Rightarrow> ('s, 'e, 'a) st_exec" where
  "st_expect m f s = (expect_some m (f s), s)"

definition st_wp :: "('s, 'e, 'a) st_exec \<Rightarrow> (('e, 'a) exec \<Rightarrow> 's \<Rightarrow> bool) \<Rightarrow> 's \<Rightarrow> bool" where
  "st_wp m Q s \<longleftrightarrow> (case m s of (r, s') \<Rightarrow> Q r s')"

named_theorems wp \<open>weakest preconditions\<close>

lemma st_wpI: "st_wp m Q s \<Longrightarrow> m s = (r, t) \<Longrightarrow> Q r t"
  by (simp add: st_wp_def)

lemma st_wpD: "(\<And>r t. m s = (r, t) \<Longrightarrow> Q r t) \<Longrightarrow> st_wp m Q s"
  by (simp add: st_wp_def split: prod.split)

lemma st_wp_mono: "st_wp m P s \<Longrightarrow> (\<And>r t. P r t \<Longrightarrow> Q r t) \<Longrightarrow> st_wp m Q s"
  by (auto simp: st_wp_def split: prod.splits)

lemma st_wp_bind [wp]:
  "st_wp (st_bind m f) Q s =
     st_wp m (\<lambda>r t. case r of Ret x \<Rightarrow> st_wp (f x) Q t | Fail e \<Rightarrow> Q (Fail e) t | Panic p \<Rightarrow> Q (Panic p) t) s"
  by (simp add: st_wp_def st_bind_def split: prod.split exec.split)

lemma st_wp_ret [wp]: "st_wp (st_ret x) Q s = Q (Ret x) s"
  by (simp add: st_wp_def st_ret_def)

lemma st_wp_lift [wp]: "st_wp (st_lift r) Q s = Q r s"
  by (simp add: st_wp_def st_lift_def)

lemma st_wp_get [wp]: "st_wp (st_get g) Q s = Q (Ret (g s)) s"
  by (simp add: st_wp_def st_get_def)

lemma st_wp_upd [wp]: "st_wp (st_upd u) Q s = Q (Ret ()) (u s)"
  by (simp add: st_wp_def st_upd_def)

lemma st_wp_guard [wp]:
  "st_wp (st_guard P e) Q s = ((P s \<longrightarrow> Q (Ret ()) s) \<and> (\<not> P s \<longrightarrow> Q (Fail e) s))"
  by (simp add: st_wp_def st_guard_def)

lemma exec_case_const [simp]: "(case r of Ret x \<Rightarrow> q | Fail e \<Rightarrow> q | Panic p \<Rightarrow> q) = q"
  by (cases r) simp_all

lemma case_exec_of_result [wp]:
  "(case exec_of_result r of Ret x \<Rightarrow> f x | Fail e \<Rightarrow> g e | Panic p \<Rightarrow> h p) =
     ((\<forall>x. r = Inr x \<longrightarrow> f x) \<and> (\<forall>e. r = Inl e \<longrightarrow> g e))"
  by (cases r) auto

lemma st_wp_if [wp]: "st_wp (if b then m else n) Q s = (if b then st_wp m Q s else st_wp n Q s)"
  by simp

lemma st_wp_ask [wp]:
  "st_wp (st_ask h) Q s = ((\<forall>x. h s = Inr x \<longrightarrow> Q (Ret x) s) \<and> (\<forall>e. h s = Inl e \<longrightarrow> Q (Fail e) s))"
  by (cases "h s") (simp_all add: st_wp_def st_ask_def)

lemma st_wp_expect [wp]:
  "st_wp (st_expect m g) Q s = ((\<forall>x. g s = Some x \<longrightarrow> Q (Ret x) s) \<and> (g s = None \<longrightarrow> Q (Panic m) s))"
  by (cases "g s") (simp_all add: st_wp_def st_expect_def)

lemma st_wp_call:
  "st_wp (st_call h) Q s = (case h s of (r, t) \<Rightarrow> Q (exec_of_result r) t)"
  by (simp add: st_wp_def st_call_def split: prod.split)

lemma st_wp_draw: "st_wp (st_draw h) Q s = (case h s of (x, t) \<Rightarrow> Q (Ret x) t)"
  by (simp add: st_wp_def st_draw_def split: prod.split)

section \<open>The environment: identifiers and the clock\<close>

text \<open>
  \<^verbatim>\<open>Uuid::now_v7\<close> and \<^verbatim>\<open>Utc::now\<close> are outside the repository. The
  \<open>env\<close> record is the parameter that stands for them: the n-th identifier the process
  draws and the n-th reading of the clock. The number of draws made so far is part of
  every component's state (\<open>world\<close>, the parent of the state records), so two
  draws never share an index.
\<close>

record env =
  env_uuid :: "nat \<Rightarrow> string"
  env_clock :: "nat \<Rightarrow> timestamp"

record world =
  ids_drawn :: nat
  clock_reads :: nat

definition new_id :: "'e env_scheme \<Rightarrow> 'w world_scheme \<Rightarrow> string \<times> 'w world_scheme" where
  "new_id E s = (env_uuid E (ids_drawn s), s\<lparr>ids_drawn := Suc (ids_drawn s)\<rparr>)"

definition now :: "'e env_scheme \<Rightarrow> 'w world_scheme \<Rightarrow> timestamp \<times> 'w world_scheme" where
  "now E s = (env_clock E (clock_reads s), s\<lparr>clock_reads := Suc (clock_reads s)\<rparr>)"

section \<open>Rust strings\<close>

definition is_whitespace :: "char \<Rightarrow> bool" where
  "is_whitespace c \<longleftrightarrow> c \<in> set [CHR 0x09, CHR 0x0A, CHR 0x0B, CHR 0x0C, CHR 0x0D, CHR '' '']"

definition upper_alphabet :: string where
  "upper_alphabet = ''ABCDEFGHIJKLMNOPQRSTUVWXYZ''"

definition lower_alphabet :: string where
  "lower_alphabet = ''abcdefghijklmnopqrstuvwxyz''"

definition digit_alphabet :: string where
  "digit_alphabet = ''0123456789''"

definition is_ascii_digit :: "char \<Rightarrow> bool" where
  "is_ascii_digit c \<longleftrightarrow> c \<in> set digit_alphabet"

definition is_ascii_alphabetic :: "char \<Rightarrow> bool" where
  "is_ascii_alphabetic c \<longleftrightarrow> c \<in> set upper_alphabet \<or> c \<in> set lower_alphabet"

definition is_ascii_alphanumeric :: "char \<Rightarrow> bool" where
  "is_ascii_alphanumeric c \<longleftrightarrow> is_ascii_alphabetic c \<or> is_ascii_digit c"

definition is_control :: "char \<Rightarrow> bool" where
  "is_control c \<longleftrightarrow> (of_char c :: nat) < 32 \<or> (of_char c :: nat) = 127"

definition lower_char :: "char \<Rightarrow> char" where
  "lower_char c = (case map_of (zip upper_alphabet lower_alphabet) c of None \<Rightarrow> c | Some d \<Rightarrow> d)"

definition to_lowercase :: "string \<Rightarrow> string" where
  "to_lowercase s = map lower_char s"

definition trim_start :: "string \<Rightarrow> string" where
  "trim_start s = dropWhile is_whitespace s"

definition trim :: "string \<Rightarrow> string" where
  "trim s = rev (dropWhile is_whitespace (rev (trim_start s)))"

definition trim_start_matches :: "char \<Rightarrow> string \<Rightarrow> string" where
  "trim_start_matches c s = dropWhile (\<lambda>d. d = c) s"

definition starts_with :: "'a list \<Rightarrow> 'a list \<Rightarrow> bool" where
  "starts_with s p \<longleftrightarrow> take (length p) s = p"

fun contains_str :: "'a list \<Rightarrow> 'a list \<Rightarrow> bool" where
  "contains_str [] p \<longleftrightarrow> p = []"
| "contains_str (c # s) p \<longleftrightarrow> starts_with (c # s) p \<or> contains_str s p"

text \<open>\<^verbatim>\<open>str::split\<close> with a character predicate: the maximal runs between separators.\<close>

fun split_on :: "('a \<Rightarrow> bool) \<Rightarrow> 'a list \<Rightarrow> 'a list list" where
  "split_on P [] = [[]]"
| "split_on P (c # s) =
     (if P c then [] # split_on P s
      else case split_on P s of [] \<Rightarrow> [[c]] | t # ts \<Rightarrow> (c # t) # ts)"

lemma length_to_lowercase [simp]: "length (to_lowercase s) = length s"
  by (simp add: to_lowercase_def)

lemma to_lowercase_empty_iff [simp]: "to_lowercase s = [] \<longleftrightarrow> s = []"
  by (simp add: to_lowercase_def)

lemma dropWhile_idem [simp]: "dropWhile P (dropWhile P xs) = dropWhile P xs"
  by (induction xs) auto

lemma dropWhile_rev_dropWhile_fix:
  assumes "dropWhile P xs = xs"
  shows "dropWhile P (rev (dropWhile P (rev xs))) = rev (dropWhile P (rev xs))"
proof (cases xs)
  case Nil
  then show ?thesis by simp
next
  case (Cons x ys)
  with assms have "\<not> P x"
    by (metis dropWhile.simps(2) dropWhile_eq_self_iff list.distinct(1) list.sel(1))
  have "rev (dropWhile P (rev xs)) = x # rev (dropWhile P (rev ys))"
  proof (cases "\<forall>y\<in>set ys. P y")
    case True
    then have "dropWhile P (rev ys @ [x]) = [x]"
      using \<open>\<not> P x\<close> by (subst dropWhile_append2) auto
    moreover from True have "dropWhile P (rev ys) = []" by simp
    ultimately show ?thesis using Cons by simp
  next
    case False
    then obtain y where "y \<in> set (rev ys)" "\<not> P y" by auto
    then show ?thesis using Cons by (simp add: dropWhile_append1)
  qed
  with \<open>\<not> P x\<close> show ?thesis by simp
qed

lemma trim_trim [simp]: "trim (trim s) = trim s"
  by (simp add: trim_def trim_start_def dropWhile_rev_dropWhile_fix)

lemma starts_with_iff_prefix: "starts_with s p \<longleftrightarrow> (\<exists>t. s = p @ t)"
  by (metis append_eq_conv_conj append_take_drop_id starts_with_def)

text \<open>\<^verbatim>\<open>i64::to_string\<close>\<close>

fun show_nat :: "nat \<Rightarrow> string" where
  "show_nat n = (if n < 10 then [digit_alphabet ! n] else show_nat (n div 10) @ [digit_alphabet ! (n mod 10)])"

declare show_nat.simps [simp del]

definition show_int :: "int \<Rightarrow> string" where
  "show_int n = (if n < 0 then CHR ''-'' # show_nat (nat (- n)) else show_nat (nat n))"

lemma show_nat_unfold: "show_nat n = (if n < 10 then [] else show_nat (n div 10)) @ [digit_alphabet ! (n mod 10)]"
  by (subst show_nat.simps) simp

lemma show_nat_not_Nil: "show_nat n \<noteq> []"
  by (subst show_nat_unfold) simp

lemma digit_inj: "i < 10 \<Longrightarrow> j < 10 \<Longrightarrow> digit_alphabet ! i = digit_alphabet ! j \<Longrightarrow> i = j"
  by (simp add: nth_eq_iff_index_eq digit_alphabet_def)

lemma show_nat_inj: "show_nat m = show_nat n \<Longrightarrow> m = n"
proof (induction m arbitrary: n rule: less_induct)
  case (less m)
  from less.prems have eq: "(if m < 10 then [] else show_nat (m div 10)) = (if n < 10 then [] else show_nat (n div 10))"
    "m mod 10 = n mod 10"
    by (subst (asm) (1 2) show_nat_unfold; auto dest: digit_inj [of "m mod 10" "n mod 10", rotated 2])+
  show ?case
  proof (cases "m < 10")
    case True
    with eq show ?thesis by (auto simp: show_nat_not_Nil show_nat_not_Nil [symmetric] split: if_splits)
  next
    case False
    with eq(1) have "\<not> n < 10" "show_nat (m div 10) = show_nat (n div 10)" by (auto simp: show_nat_not_Nil split: if_splits)
    with less.IH [of "m div 10" "n div 10"] False have "m div 10 = n div 10" by simp
    with eq(2) show ?thesis by (metis div_mult_mod_eq)
  qed
qed

text \<open>The number a string of ASCII digits stands for.\<close>

definition digit_value :: "char \<Rightarrow> nat" where
  "digit_value c = length (takeWhile (\<lambda>d. d \<noteq> c) digit_alphabet)"

definition parse_digits :: "string \<Rightarrow> nat" where
  "parse_digits ds = foldl (\<lambda>n c. n * 10 + digit_value c) 0 ds"

lemma digit_value_nth: "i < 10 \<Longrightarrow> digit_value (digit_alphabet ! i) = i"
  by (auto simp: digit_value_def digit_alphabet_def less_Suc_eq numeral_eq_Suc)

lemma parse_digits_snoc: "parse_digits (ds @ [d]) = parse_digits ds * 10 + digit_value d"
  by (simp add: parse_digits_def)

lemma parse_show_nat: "parse_digits (show_nat n) = n"
proof (induction n rule: less_induct)
  case (less n)
  have "parse_digits (if n < 10 then [] else show_nat (n div 10)) = n div 10"
    using less by (simp add: parse_digits_def)
  then show ?case by (subst show_nat_unfold) (simp add: parse_digits_snoc digit_value_nth)
qed

lemma show_nat_digits: "list_all is_ascii_digit (show_nat n)"
proof (induction n rule: less_induct)
  case (less n)
  have "list_all is_ascii_digit (if n < 10 then [] else show_nat (n div 10))" using less by simp
  moreover have "digit_alphabet ! (n mod 10) \<in> set digit_alphabet" by (rule nth_mem) (simp add: digit_alphabet_def)
  ultimately show ?case by (subst show_nat_unfold) (simp add: is_ascii_digit_def)
qed

section \<open>Limited, ordered results\<close>

text \<open>\<^verbatim>\<open>ORDER BY f LIMIT n\<close> never returns a row and omits an earlier one.\<close>

lemma sorted_take_closed:
  assumes "c \<in> set (take n (sort_key f xs))" "d \<in> set xs" "f d < f c"
  shows "d \<in> set (take n (sort_key f xs))"
proof (rule ccontr)
  let ?ys = "sort_key f xs"
  assume out: "d \<notin> set (take n ?ys)"
  have "d \<in> set ?ys" using assms(2) by simp
  then have "d \<in> set (drop n ?ys)"
    using out by (metis Un_iff append_take_drop_id set_append)
  moreover have "sorted (map f (take n ?ys @ drop n ?ys))"
    unfolding append_take_drop_id by (rule sorted_sort_key)
  moreover have "sorted (map f (as @ bs)) \<Longrightarrow> x \<in> set as \<Longrightarrow> y \<in> set bs \<Longrightarrow> f x \<le> f y" for as bs x y
    by (auto simp: sorted_append)
  ultimately have "f c \<le> f d"
    using assms(1) by blast
  with assms(3) show False by simp
qed

section \<open>Rust maps\<close>

text \<open>
  A \<^verbatim>\<open>HashMap\<close> and a \<^verbatim>\<open>BTreeMap\<close> are association lists with distinct
  keys: the list order is the iteration order. For a \<^verbatim>\<open>BTreeMap\<close> the keys are
  strictly increasing. A \<^verbatim>\<open>HashMap\<close> iterates in an unspecified order; the model
  keeps insertion order, one of the orders the program may show, and the properties that
  concern iteration over a \<^verbatim>\<open>HashMap\<close> are stated so that they do not depend on it.
\<close>

type_synonym ('k, 'v) hash_map = "('k \<times> 'v) list"
type_synonym ('k, 'v) btree_map = "('k \<times> 'v) list"

abbreviation hm_get :: "('k, 'v) hash_map \<Rightarrow> 'k \<Rightarrow> 'v option" where
  "hm_get m k \<equiv> map_of m k"

abbreviation hm_insert :: "'k \<Rightarrow> 'v \<Rightarrow> ('k, 'v) hash_map \<Rightarrow> ('k, 'v) hash_map" where
  "hm_insert k v m \<equiv> AList.update k v m"

abbreviation hm_remove :: "'k \<Rightarrow> ('k, 'v) hash_map \<Rightarrow> ('k, 'v) hash_map" where
  "hm_remove k m \<equiv> AList.delete k m"

definition hm_keys :: "('k, 'v) hash_map \<Rightarrow> 'k list" where
  "hm_keys m = map fst m"

definition hm_values :: "('k, 'v) hash_map \<Rightarrow> 'v list" where
  "hm_values m = map snd m"

definition hm_wf :: "('k, 'v) hash_map \<Rightarrow> bool" where
  "hm_wf m \<longleftrightarrow> distinct (map fst m)"

definition bt_insert :: "'k::linorder \<Rightarrow> 'v \<Rightarrow> ('k, 'v) btree_map \<Rightarrow> ('k, 'v) btree_map" where
  "bt_insert k v m =
     takeWhile (\<lambda>p. fst p < k) m @ (k, v) # dropWhile (\<lambda>p. fst p \<le> k) m"

definition bt_wf :: "('k::linorder, 'v) btree_map \<Rightarrow> bool" where
  "bt_wf m \<longleftrightarrow> sorted_wrt (<) (map fst m)"

definition bt_of_list :: "('k::linorder \<times> 'v) list \<Rightarrow> ('k, 'v) btree_map" where
  "bt_of_list ps = fold (\<lambda>(k, v). bt_insert k v) ps []"

text \<open>\<^verbatim>\<open>collect::<HashMap<_, _>>()\<close>: a later entry replaces an earlier one.\<close>

definition hm_of_list :: "('k \<times> 'v) list \<Rightarrow> ('k, 'v) hash_map" where
  "hm_of_list ps = fold (\<lambda>(k, v). AList.update k v) ps []"

text \<open>\<^verbatim>\<open>map.entry(k).or_insert(v)\<close>: keep an existing entry, else insert.\<close>

definition or_insert :: "('m \<Rightarrow> 'k \<Rightarrow> 'v option) \<Rightarrow> ('k \<Rightarrow> 'v \<Rightarrow> 'm \<Rightarrow> 'm) \<Rightarrow> 'k \<Rightarrow> 'v \<Rightarrow> 'm \<Rightarrow> 'm" where
  "or_insert get ins k v m = (case get m k of None \<Rightarrow> ins k v m | Some _ \<Rightarrow> m)"

text \<open>The contract both map types promise, and what their clients derive from it.\<close>

locale rust_map =
  fixes get :: "'m \<Rightarrow> 'k \<Rightarrow> 'v option"
    and ins :: "'k \<Rightarrow> 'v \<Rightarrow> 'm \<Rightarrow> 'm"
    and del :: "'k \<Rightarrow> 'm \<Rightarrow> 'm"
    and keys :: "'m \<Rightarrow> 'k list"
    and wf_map :: "'m \<Rightarrow> bool"
  assumes get_ins: "wf_map m \<Longrightarrow> get (ins k v m) = (get m)(k \<mapsto> v)"
    and get_del: "wf_map m \<Longrightarrow> get (del k m) = (get m)(k := None)"
    and keys_get: "wf_map m \<Longrightarrow> set (keys m) = dom (get m)"
    and keys_distinct: "wf_map m \<Longrightarrow> distinct (keys m)"
    and wf_ins: "wf_map m \<Longrightarrow> wf_map (ins k v m)"
    and wf_del: "wf_map m \<Longrightarrow> wf_map (del k m)"
begin

lemma wf_or_insert: "wf_map m \<Longrightarrow> wf_map (or_insert get ins k v m)"
  by (simp add: or_insert_def wf_ins split: option.splits)

lemma get_or_insert:
  "wf_map m \<Longrightarrow> get (or_insert get ins k v m) = (if get m k = None then (get m)(k \<mapsto> v) else get m)"
  by (auto simp: or_insert_def get_ins split: option.splits)

lemma fold_or_insert:
  assumes "wf_map m"
  shows "wf_map (fold (\<lambda>(k, v). or_insert get ins k v) ps m) \<and>
         get (fold (\<lambda>(k, v). or_insert get ins k v) ps m) = map_of ps ++ get m"
  using assms
proof (induction ps arbitrary: m)
  case Nil
  then show ?case by simp
next
  case (Cons p ps)
  obtain k v where p: "p = (k, v)" by (cases p)
  let ?m = "or_insert get ins k v m"
  have "wf_map ?m" using Cons.prems by (rule wf_or_insert)
  with Cons.IH have IH: "wf_map (fold (\<lambda>(k, v). or_insert get ins k v) ps ?m)"
      "get (fold (\<lambda>(k, v). or_insert get ins k v) ps ?m) = map_of ps ++ get ?m"
    by blast+
  have "map_of ps ++ get ?m = map_of (p # ps) ++ get m"
    by (rule ext) (simp add: p get_or_insert [OF Cons.prems] map_add_def split: option.splits)
  with IH(2) have "get (fold (\<lambda>(k, v). or_insert get ins k v) (p # ps) m) = map_of (p # ps) ++ get m"
    by (simp only: p fold_simps comp_apply prod.case)
  with IH(1) show ?case by (simp only: p fold_simps comp_apply prod.case)
qed

lemma keys_ins: "wf_map m \<Longrightarrow> set (keys (ins k v m)) = insert k (set (keys m))"
  by (simp add: keys_get get_ins wf_ins)

lemma keys_del: "wf_map m \<Longrightarrow> set (keys (del k m)) = set (keys m) - {k}"
  by (auto simp: keys_get get_del wf_del)

end

section \<open>Laws of the two map representations\<close>

lemma hm_get_insert [simp]: "map_of (AList.update k v m) = (map_of m)(k \<mapsto> v)"
  by (rule update_conv')

lemma hm_get_remove [simp]: "map_of (AList.delete k m) = (map_of m)(k := None)"
  by (rule delete_conv')

lemma hm_wf_insert [simp]: "hm_wf m \<Longrightarrow> hm_wf (AList.update k v m)"
  by (simp add: hm_wf_def distinct_update)

lemma hm_wf_remove [simp]: "hm_wf m \<Longrightarrow> hm_wf (AList.delete k m)"
  by (simp add: hm_wf_def distinct_delete)

lemma hm_wf_empty [simp]: "hm_wf []"
  by (simp add: hm_wf_def)

lemma hm_keys_dom: "set (hm_keys m) = dom (map_of m)"
  by (simp add: hm_keys_def dom_map_of_conv_image_fst)

lemma hm_values_get: "hm_wf m \<Longrightarrow> v \<in> set (hm_values m) \<longleftrightarrow> (\<exists>k. map_of m k = Some v)"
  by (force simp: hm_wf_def hm_values_def dest: map_of_SomeD)

lemma hm_of_list_fold:
  "map_of (fold (\<lambda>(k, v). AList.update k v) ps m) = map_of m ++ map_of (rev ps)"
proof (induction ps arbitrary: m)
  case Nil
  then show ?case by simp
next
  case (Cons p ps)
  obtain k v where p: "p = (k, v)" by (cases p)
  show ?case
    by (rule ext) (simp add: p Cons.IH map_add_def split: option.splits)
qed

lemma hm_get_of_list: "map_of (hm_of_list ps) = map_of (rev ps)"
  by (simp add: hm_of_list_def hm_of_list_fold)

lemma hm_wf_of_list [simp]: "hm_wf (hm_of_list ps)"
proof -
  have "hm_wf m \<Longrightarrow> hm_wf (fold (\<lambda>(k, v). AList.update k v) ps m)" for m :: "('a \<times> 'b) list"
    by (induction ps arbitrary: m) auto
  then show ?thesis by (simp add: hm_of_list_def)
qed

lemma dom_hm_of_list: "dom (map_of (hm_of_list ps)) = fst ` set ps"
  by (simp add: hm_get_of_list dom_map_of_conv_image_fst)

text \<open>
  A table keyed by an attribute of the items it was built from holds, under each key, the value
  of an item with that key (the last one, when several share it).
\<close>

lemma hm_of_list_image:
  "map_of (hm_of_list (map (\<lambda>x. (k x, v x)) xs)) a = Some w \<Longrightarrow> \<exists>x\<in>set xs. k x = a \<and> v x = w"
  by (auto simp: hm_get_of_list dest!: map_of_SomeD)

lemma hm_of_list_get:
  "x \<in> set xs \<Longrightarrow> inj_on k (set xs) \<Longrightarrow>
     map_of (hm_of_list (map (\<lambda>x. (k x, v x)) xs)) (k x) = Some (v x)"
proof -
  assume x: "x \<in> set xs" and inj: "inj_on k (set xs)"
  then have "k x \<in> dom (map_of (hm_of_list (map (\<lambda>x. (k x, v x)) xs)))"
    unfolding dom_hm_of_list by force
  then obtain w where w: "map_of (hm_of_list (map (\<lambda>x. (k x, v x)) xs)) (k x) = Some w" by blast
  from hm_of_list_image [OF w] x inj have "w = v x" by (metis inj_onD)
  with w show ?thesis by simp
qed

lemma set_hm_values_of_list:
  assumes "inj_on k (set xs)"
  shows "set (hm_values (hm_of_list (map (\<lambda>x. (k x, v x)) xs))) = v ` set xs"
proof (intro set_eqI iffI)
  fix w
  assume "w \<in> set (hm_values (hm_of_list (map (\<lambda>x. (k x, v x)) xs)))"
  then obtain a where "map_of (hm_of_list (map (\<lambda>x. (k x, v x)) xs)) a = Some w"
    by (auto simp: hm_values_get)
  from hm_of_list_image [OF this] show "w \<in> v ` set xs" by blast
next
  fix w
  assume "w \<in> v ` set xs"
  then obtain x where "x \<in> set xs" "w = v x" by blast
  with hm_of_list_get [OF _ assms, of x v]
  show "w \<in> set (hm_values (hm_of_list (map (\<lambda>x. (k x, v x)) xs)))"
    by (auto simp: hm_values_get)
qed

lemma bt_insert_Nil [simp]: "bt_insert k v [] = [(k, v)]"
  by (simp add: bt_insert_def)

lemma bt_insert_Cons:
  "bt_insert k v ((a, b) # m) =
     (if a < k then (a, b) # bt_insert k v m
      else if a = k then (k, v) # dropWhile (\<lambda>p. fst p \<le> k) m
      else (k, v) # (a, b) # m)"
  by (auto simp: bt_insert_def)

lemma bt_drop_le: "bt_wf ((k, b) # m) \<Longrightarrow> dropWhile (\<lambda>p. fst p \<le> k) m = m"
  by (cases m) (auto simp: bt_wf_def)

lemma bt_wf_Cons: "bt_wf ((a, b) # m) \<longleftrightarrow> bt_wf m \<and> (\<forall>k\<in>set (map fst m). a < k)"
  by (auto simp: bt_wf_def)

lemma set_bt_insert: "bt_wf m \<Longrightarrow> set (map fst (bt_insert k v m)) = insert k (set (map fst m))"
proof (induction m)
  case Nil
  then show ?case by simp
next
  case (Cons p m)
  obtain a b where p: "p = (a, b)" by (cases p)
  with Cons show ?case by (auto simp: bt_insert_Cons bt_drop_le bt_wf_Cons)
qed

lemma bt_wf_insert [simp]: "bt_wf m \<Longrightarrow> bt_wf (bt_insert k v m)"
proof (induction m)
  case Nil
  then show ?case by (simp add: bt_wf_def)
next
  case (Cons p m)
  obtain a b where p: "p = (a, b)" by (cases p)
  with Cons.prems have wf: "bt_wf m" and lt: "\<forall>x\<in>set (map fst m). a < x"
    by (auto simp: bt_wf_Cons)
  have IH: "bt_wf (bt_insert k v m)" using Cons.IH wf by simp
  show ?case
  proof (cases "a < k")
    case True
    then show ?thesis using IH wf lt
      by (simp add: p bt_insert_Cons bt_wf_Cons set_bt_insert del: set_map)
  next
    case False
    then show ?thesis
    proof (cases "a = k")
      case True
      then show ?thesis using Cons.prems wf lt p
        by (simp add: bt_insert_Cons bt_drop_le bt_wf_Cons)
    next
      case False
      with \<open>\<not> a < k\<close> have "k < a" by simp
      then show ?thesis using wf lt p by (auto simp: bt_insert_Cons bt_wf_Cons dest: order.strict_trans)
    qed
  qed
qed

lemma bt_get_insert [simp]: "bt_wf m \<Longrightarrow> map_of (bt_insert k v m) = (map_of m)(k \<mapsto> v)"
proof (induction m)
  case Nil
  then show ?case by simp
next
  case (Cons p m)
  obtain a b where p: "p = (a, b)" by (cases p)
  with Cons.prems have "bt_wf m" by (simp add: bt_wf_Cons)
  then have "map_of (bt_insert k v m) = (map_of m)(k \<mapsto> v)" by (rule Cons.IH)
  then show ?case using Cons.prems
    by (auto simp: p bt_insert_Cons bt_drop_le fun_upd_def intro!: ext)
qed

lemma bt_wf_distinct: "bt_wf m \<Longrightarrow> distinct (map fst m)"
  by (metis bt_wf_def strict_sorted_iff)

lemma bt_wf_hm_wf: "bt_wf m \<Longrightarrow> hm_wf m"
  by (simp add: hm_wf_def bt_wf_distinct)

lemma bt_wf_Nil [simp]: "bt_wf []"
  by (simp add: bt_wf_def)

lemma bt_wf_remove [simp]: "bt_wf m \<Longrightarrow> bt_wf (AList.delete k m)"
  by (induction m) (auto simp: bt_wf_Cons delete_keys simp del: set_map)

interpretation hm: rust_map map_of AList.update AList.delete hm_keys hm_wf
  by unfold_locales (simp_all add: hm_keys_dom, simp add: hm_keys_def hm_wf_def)

interpretation bt: rust_map map_of bt_insert AList.delete hm_keys bt_wf
  by unfold_locales (simp_all add: hm_keys_dom, simp add: hm_keys_def bt_wf_distinct)

lemma bt_of_list_wf [simp]: "bt_wf (bt_of_list ps)"
proof -
  have "bt_wf m \<Longrightarrow> bt_wf (fold (\<lambda>(k, v). bt_insert k v) ps m)" for m :: "('a \<times> 'b) list"
    by (induction ps arbitrary: m) auto
  then show ?thesis by (simp add: bt_of_list_def)
qed

section \<open>Steps with a guarantee\<close>

locale guaranteed_steps =
  fixes step :: "'s \<Rightarrow> 's \<Rightarrow> bool" and inv :: "'s \<Rightarrow> bool" and guar :: "'s \<Rightarrow> 's \<Rightarrow> bool"
  assumes guar_refl: "guar s s"
    and guar_trans: "guar s t \<Longrightarrow> guar t u \<Longrightarrow> guar s u"
    and step_keeps: "step s t \<Longrightarrow> inv s \<Longrightarrow> inv t"
    and step_guarantees: "step s t \<Longrightarrow> guar s t"
begin

lemma run_keeps: "step\<^sup>*\<^sup>* s t \<Longrightarrow> inv s \<Longrightarrow> inv t"
  by (induction rule: rtranclp_induct) (auto intro: step_keeps)

lemma run_guarantees: "step\<^sup>*\<^sup>* s t \<Longrightarrow> guar s t"
  by (induction rule: rtranclp_induct) (auto intro: guar_refl guar_trans step_guarantees)

end

end
