(* ===== verification/Choruz_Json.thy ===== *)
theory Choruz_Json
  imports Choruz_Prelude
begin

text \<open>
  JSON values as the code sees them (\<^verbatim>\<open>serde_json::Value\<close>): the value type, the
  accessors the modelled functions call and object construction. An object is a
  \<^verbatim>\<open>BTreeMap\<close> (the crate is built without insertion-order maps), hence an association
  list with increasing keys. A float is carried as its bit pattern. Turning a value into text is
  \<^verbatim>\<open>serde_json::to_string\<close>, a parameter of the functions that print.
\<close>

datatype json =
    JNull
  | JBool bool
  | JInt int
  | JFloat u64
  | JStr string
  | JArr "json list"
  | JObj "(string \<times> json) list"

definition jobj :: "(string \<times> json) list \<Rightarrow> json" where
  "jobj ps = JObj (bt_of_list ps)"

fun json_get :: "json \<Rightarrow> string \<Rightarrow> json option" where
  "json_get (JObj m) k = map_of m k"
| "json_get _ k = None"

fun as_str :: "json \<Rightarrow> string option" where
  "as_str (JStr s) = Some s"
| "as_str _ = None"

fun as_bool :: "json \<Rightarrow> bool option" where
  "as_bool (JBool b) = Some b"
| "as_bool _ = None"

fun as_object :: "json \<Rightarrow> (string \<times> json) list option" where
  "as_object (JObj m) = Some m"
| "as_object _ = None"

definition obj_insert :: "string \<Rightarrow> json \<Rightarrow> json \<Rightarrow> json" where
  "obj_insert k v j = (case j of JObj m \<Rightarrow> JObj (bt_insert k v m) | _ \<Rightarrow> j)"

definition jopt_str :: "string option \<Rightarrow> json" where
  "jopt_str x = (case x of None \<Rightarrow> JNull | Some s \<Rightarrow> JStr s)"

text \<open>The string stored under a key: \<^verbatim>\<open>v.get(k).and_then(|v| v.as_str())\<close>.\<close>

definition get_str :: "json \<Rightarrow> string \<Rightarrow> string option" where
  "get_str j k = Option.bind (json_get j k) as_str"

lemma json_get_obj_insert:
  "bt_wf m \<Longrightarrow> json_get (obj_insert k v (JObj m)) l = (if l = k then Some v else map_of m l)"
  by (simp add: obj_insert_def)

lemma bt_get_fold_insert:
  "bt_wf m \<Longrightarrow> map_of (fold (\<lambda>(k, v). bt_insert k v) ps m) = map_of m ++ map_of (rev ps)"
proof (induction ps arbitrary: m)
  case Nil
  then show ?case by simp
next
  case (Cons p ps)
  obtain k v where p: "p = (k, v)" by (cases p)
  have "map_of (fold (\<lambda>(k, v). bt_insert k v) ps (bt_insert k v m)) =
      map_of (bt_insert k v m) ++ map_of (rev ps)"
    by (rule Cons.IH) (simp add: Cons.prems)
  then show ?case by (auto simp: p Cons.prems map_add_def fun_eq_iff split: option.splits)
qed

lemma json_get_jobj: "json_get (jobj ps) k = map_of (rev ps) k"
  by (simp add: jobj_def bt_of_list_def bt_get_fold_insert)

end
