(* ===== verification/Choruz_Mentions.thy ===== *)
theory Choruz_Mentions
  imports Choruz_Prelude
begin

text \<open>
  Mention matching, \<^verbatim>\<open>crates/choruz-common/src/mentions.rs\<close>: case-insensitive
  \<open>@name\<close> tokens with boundaries, longer known names winning at the same position. The
  scan uses \<^verbatim>\<open>str::match_indices\<close>, which skips overlapping occurrences; the
  development proves that the scan misses nothing for names without \<open>@\<close>.
\<close>

section \<open>The scan\<close>

text \<open>\<^verbatim>\<open>str::match_indices\<close>: the non-overlapping occurrences from the left.\<close>

function match_indices :: "nat \<Rightarrow> string \<Rightarrow> string \<Rightarrow> nat list" where
  "match_indices off [] p = []"
| "match_indices off (c # s) p =
     (if starts_with (c # s) p
      then off # match_indices (off + max 1 (length p)) (drop (length p - 1) s) p
      else match_indices (Suc off) s p)"
  by pat_completeness auto
termination
  by (relation "measure (\<lambda>(off, s, p). length s)") auto

definition mention_token :: "char \<Rightarrow> bool" where
  "mention_token ch \<longleftrightarrow> is_ascii_alphanumeric ch \<or> ch = CHR ''-'' \<or> ch = CHR ''_''"

definition matches_at :: "string \<Rightarrow> string \<Rightarrow> nat \<Rightarrow> bool" where
  "matches_at content mention start \<longleftrightarrow>
     (let pattern = CHR ''@'' # mention in
      starts_with (drop start content) pattern \<and>
      (case rev (take start content) of [] \<Rightarrow> True | ch # _ \<Rightarrow> \<not> mention_token ch) \<and>
      (case drop (start + length pattern) content of [] \<Rightarrow> True | ch # _ \<Rightarrow> \<not> mention_token ch))"

definition contains_mention :: "string \<Rightarrow> string \<Rightarrow> string list \<Rightarrow> bool" where
  "contains_mention content mention candidates \<longleftrightarrow>
     (let content = to_lowercase content;
          mention = to_lowercase mention
      in if mention = [] then False
         else let candidates = map to_lowercase candidates
              in list_ex
                   (\<lambda>start. matches_at content mention start \<and>
                      \<not> list_ex (\<lambda>name. length mention < length name \<and> matches_at content name start)
                          candidates)
                   (match_indices 0 content (CHR ''@'' # mention)))"

section \<open>The scan finds every occurrence\<close>

lemma starts_with_hd: "starts_with s (a # m) \<Longrightarrow> s \<noteq> [] \<and> hd s = a"
  by (auto simp: starts_with_iff_prefix)

lemma match_indices_complete:
  assumes "i < length s" "starts_with (drop i s) (a # m)" "a \<notin> set m"
  shows "off + i \<in> set (match_indices off s (a # m))"
  using assms(1,2)
proof (induction "length s" arbitrary: i s off rule: less_induct)
  case less
  then obtain c s' where s: "s = c # s'" by (cases s) auto
  show ?case
  proof (cases "starts_with s (a # m)")
    case True
    then obtain t where t: "s = a # m @ t" by (auto simp: starts_with_iff_prefix)
    show ?thesis
    proof (cases "i \<le> length m")
      case True
      have "i = 0"
      proof (rule ccontr)
        assume "i \<noteq> 0"
        with True have "i - 1 < length m" and "s ! i = m ! (i - 1)"
          by (auto simp: t nth_Cons' nth_append)
        moreover have "s ! i = a"
          using starts_with_hd [OF less.prems(2)] less.prems(1) by (simp add: hd_drop_conv_nth)
        ultimately have "a \<in> set m" by (metis nth_mem)
        with assms(3) show False ..
      qed
      with \<open>starts_with s (a # m)\<close> show ?thesis by (simp add: s)
    next
      case False
      let ?j = "i - Suc (length m)"
      have "off + Suc (length m) + ?j \<in> set (match_indices (off + Suc (length m)) t (a # m))"
      proof (rule less.hyps)
        show "length t < length s" by (simp add: t)
        show "?j < length t" using False less.prems by (simp add: t)
        show "starts_with (drop ?j t) (a # m)" using False less.prems(2)
          by (simp add: t drop_Cons' split: if_splits)
      qed
      moreover have "drop (length m) s' = t" using s t by auto
      ultimately show ?thesis using False \<open>starts_with s (a # m)\<close> by (auto simp: s)
    qed
  next
    case False
    with less.prems(2) have "i \<noteq> 0" by (cases i) auto
    have "Suc off + (i - 1) \<in> set (match_indices (Suc off) s' (a # m))"
    proof (rule less.hyps)
      show "length s' < length s" by (simp add: s)
      show "i - 1 < length s'" using \<open>i \<noteq> 0\<close> less.prems by (simp add: s)
      show "starts_with (drop (i - 1) s') (a # m)" using \<open>i \<noteq> 0\<close> less.prems
        by (cases i) (auto simp: s)
    qed
    with False \<open>i \<noteq> 0\<close> show ?thesis by (simp add: s)
  qed
qed

lemma lower_char_at: "lower_char c = CHR ''@'' \<longleftrightarrow> c = CHR ''@''"
proof -
  have "(\<forall>p\<in>set (zip upper_alphabet lower_alphabet). snd p \<noteq> CHR ''@'') \<and>
        map_of (zip upper_alphabet lower_alphabet) CHR ''@'' = None"
    by (simp add: upper_alphabet_def lower_alphabet_def)
  then show ?thesis by (force simp: lower_char_def split: option.splits dest: map_of_SomeD)
qed

lemma at_in_to_lowercase: "CHR ''@'' \<in> set (to_lowercase m) \<longleftrightarrow> CHR ''@'' \<in> set m"
  by (simp add: to_lowercase_def image_iff eq_commute [of "CHR ''@''"] lower_char_at)

lemma matches_at_starts: "matches_at content m i \<Longrightarrow> starts_with (drop i content) (CHR ''@'' # m)"
  by (simp add: matches_at_def Let_def)

lemma matches_at_bound: "matches_at content m i \<Longrightarrow> i < length content"
  using matches_at_starts [of content m i] by (cases "i < length content") (auto simp: starts_with_def)

section \<open>What a mention is\<close>

text \<open>
  The declarative reading of a mention: at some position of the lower-cased content stands
  \<open>@\<close> and the whole lower-cased name, not glued to a token character on either side,
  and no longer known name stands at that position.
\<close>

definition mention_spec :: "string \<Rightarrow> string \<Rightarrow> string list \<Rightarrow> bool" where
  "mention_spec content mention candidates \<longleftrightarrow>
     mention \<noteq> [] \<and>
     (\<exists>i. matches_at (to_lowercase content) (to_lowercase mention) i \<and>
        (\<forall>name\<in>set candidates. length mention < length name \<longrightarrow>
           \<not> matches_at (to_lowercase content) (to_lowercase name) i))"

lemma contains_mention_sound: "contains_mention content mention cands \<Longrightarrow> mention_spec content mention cands"
  by (auto simp: contains_mention_def mention_spec_def Let_def list_ex_iff split: if_splits)

lemma matches_at_scanned:
  assumes "matches_at content m i" "CHR ''@'' \<notin> set m"
  shows "i \<in> set (match_indices 0 content (CHR ''@'' # m))"
  using match_indices_complete [OF matches_at_bound [OF assms(1)] matches_at_starts [OF assms(1)] assms(2), of 0]
  by simp



lemma contains_mention_empty: "\<not> contains_mention content [] cands"
  by (simp add: contains_mention_def)

lemma contains_mention_needs_at: "CHR ''@'' \<notin> set content \<Longrightarrow> \<not> contains_mention content m cands"
proof
  assume no: "CHR ''@'' \<notin> set content" and "contains_mention content m cands"
  then obtain i where "matches_at (to_lowercase content) (to_lowercase m) i"
    using contains_mention_sound by (fastforce simp: mention_spec_def)
  then have "CHR ''@'' \<in> set (drop i (to_lowercase content))"
    by (auto dest!: matches_at_starts simp: starts_with_iff_prefix)
  then have "CHR ''@'' \<in> set (to_lowercase content)" by (rule in_set_dropD)
  with no show False by (simp add: at_in_to_lowercase)
qed

end
