(* ===== verification/Router_Models.thy ===== *)
theory Router_Models
  imports Choruz_Json
begin

text \<open>
  Data model of the message router: \<^verbatim>\<open>crates/choruz-router/src/models.rs\<close>, the
  event row and thread flags it reads from \<^verbatim>\<open>crates/choruz-store\<close>, the command it
  emits (\<^verbatim>\<open>crates/choruz-session/src/models.rs\<close>), and the parser of workflow
  metadata \<^verbatim>\<open>crates/choruz-router/src/workflow.rs\<close>.
\<close>

section \<open>Event rows\<close>

record conversation_event_row =
  ev_conversation_id :: string
  ev_seq :: int
  ev_event_id :: string
  ev_event_type :: string
  ev_sender_id :: string
  ev_content :: "string option"
  ev_content_type :: string
  ev_metadata :: json
  ev_client_msg_id :: "string option"
  ev_turn_id :: "string option"
  ev_reply_event_id :: "string option"
  ev_created_at :: timestamp

record thread_flags =
  is_thread_reply :: bool
  is_broadcast :: bool

definition thread_flags_from_metadata :: "json \<Rightarrow> thread_flags" where
  "thread_flags_from_metadata metadata =
     (let flag = (\<lambda>key. case Option.bind (json_get metadata key) as_bool of
                          None \<Rightarrow> False | Some b \<Rightarrow> b)
      in \<lparr>is_thread_reply = flag ''thread'', is_broadcast = flag ''broadcast''\<rparr>)"

section \<open>Members, policies and decisions\<close>

record conversation_member =
  cm_conversation_id :: string
  cm_principal_id :: string
  cm_principal_type :: string
  cm_display_name :: "string option"
  cm_joined_at :: timestamp
  cm_left_at :: "timestamp option"

record assignee_roster_entry =
  re_principal_id :: string
  re_display_name :: string
  re_principal_type :: string
  re_runtime_host_name :: "string option"

record mailbox_visibility =
  mv_agent_id :: string
  mv_conversation_id :: string
  mv_message_id :: string
  mv_event_seq :: int

datatype route_outcome = Triggered | Skipped | Suppressed

fun route_outcome_as_str :: "route_outcome \<Rightarrow> string" where
  "route_outcome_as_str Triggered = ''trigger''"
| "route_outcome_as_str Skipped = ''skip''"
| "route_outcome_as_str Suppressed = ''suppressed''"

record route_decision =
  rd_route_id :: string
  rd_message_id :: string
  rd_agent_id :: string
  rd_conversation_id :: string
  rd_decision :: string
  rd_reason :: string
  rd_policy_snapshot :: json

datatype auto_mode = AllMessages | MentionedOnly | Manual

record agent_policy =
  ap_agent_id :: string
  ap_conversation_id :: string
  ap_auto_mode :: auto_mode
  ap_mention_aliases :: "string list"

text \<open>The serde rendering of a policy, which decision snapshots embed.\<close>

fun auto_mode_json :: "auto_mode \<Rightarrow> json" where
  "auto_mode_json AllMessages = JStr ''all_messages''"
| "auto_mode_json MentionedOnly = JStr ''mentioned_only''"
| "auto_mode_json Manual = JStr ''manual''"

definition agent_policy_json :: "agent_policy \<Rightarrow> json" where
  "agent_policy_json p =
     jobj [(''agent_id'', JStr (ap_agent_id p)),
           (''conversation_id'', JStr (ap_conversation_id p)),
           (''auto_mode'', auto_mode_json (ap_auto_mode p)),
           (''mention_aliases'', JArr (map JStr (ap_mention_aliases p)))]"

datatype untagged_human_mode = UHMentionedOnly | CoordinatorOnly | AllAgents

definition untagged_human_mode_from_db_value :: "string \<Rightarrow> untagged_human_mode" where
  "untagged_human_mode_from_db_value v =
     (if v = ''coordinator_only'' then CoordinatorOnly
      else if v = ''all_agents'' then AllAgents
      else UHMentionedOnly)"

fun untagged_human_mode_as_str :: "untagged_human_mode \<Rightarrow> string" where
  "untagged_human_mode_as_str UHMentionedOnly = ''mentioned_only''"
| "untagged_human_mode_as_str CoordinatorOnly = ''coordinator_only''"
| "untagged_human_mode_as_str AllAgents = ''all_agents''"

record conversation_routing_policy =
  rp_conversation_id :: string
  rp_default_coordinator_agent_id :: "string option"
  rp_untagged_human_mode :: untagged_human_mode

definition routing_policy_default_for :: "string \<Rightarrow> conversation_routing_policy" where
  "routing_policy_default_for cid =
     \<lparr>rp_conversation_id = cid, rp_default_coordinator_agent_id = None,
      rp_untagged_human_mode = UHMentionedOnly\<rparr>"

section \<open>Workflow routing state\<close>

record workflow_routing_event =
  we_kind :: string
  we_task_key :: "string option"
  we_task_id :: "string option"
  we_next_role :: "string option"
  we_target_role :: "string option"
  we_target_principal_ids :: "string list"

datatype channel_task_status = Todo | InProgress | Blocked | InReview | Done

definition channel_task_status_from_db_value :: "string \<Rightarrow> channel_task_status option" where
  "channel_task_status_from_db_value v =
     (if v = ''todo'' then Some Todo
      else if v = ''in_progress'' then Some InProgress
      else if v = ''blocked'' then Some Blocked
      else if v = ''in_review'' then Some InReview
      else if v = ''done'' then Some Done
      else None)"

fun channel_task_status_as_str :: "channel_task_status \<Rightarrow> string" where
  "channel_task_status_as_str Todo = ''todo''"
| "channel_task_status_as_str InProgress = ''in_progress''"
| "channel_task_status_as_str Blocked = ''blocked''"
| "channel_task_status_as_str InReview = ''in_review''"
| "channel_task_status_as_str Done = ''done''"

record group_workflow_task =
  wt_id :: string
  wt_conversation_id :: string
  wt_task_key :: string
  wt_status :: channel_task_status
  wt_assignee_principal_id :: string
  wt_assignee_principal_type :: "string option"

record assigned_task_hint =
  th_task_key :: string
  th_title :: string
  th_status :: channel_task_status

record group_workflow_task_participant =
  tp_task_id :: string
  tp_principal_id :: string
  tp_role_key :: string
  tp_principal_type :: "string option"

record trigger_result =
  tr_should_trigger :: bool
  tr_reason :: string

text \<open>A new agent command, the router's output to the session store.\<close>

record insert_command =
  ic_command_id :: string
  ic_route_id :: string
  ic_session_key :: string
  ic_agent_id :: string
  ic_conversation_id :: string
  ic_message_id :: string
  ic_turn_id :: string
  ic_prompt :: string
  ic_max_attempts :: int
  ic_metadata :: json

definition DEFAULT_MAX_ATTEMPTS :: int where
  "DEFAULT_MAX_ATTEMPTS = 3"

section \<open>Workflow metadata\<close>

definition optional_string :: "json \<Rightarrow> string option" where
  "optional_string v =
     (case as_str v of
        None \<Rightarrow> None
      | Some s \<Rightarrow> (let t = trim s in if t = [] then None else Some t))"

definition string_list :: "json option \<Rightarrow> string list option" where
  "string_list value =
     (case value of
        None \<Rightarrow> None
      | Some v \<Rightarrow>
          (let items = (case v of
               JStr raw \<Rightarrow> (let r = trim raw in if r = [] then None else Some [r])
             | JArr xs \<Rightarrow> Some (List.map_filter optional_string xs)
             | _ \<Rightarrow> None)
           in case items of None \<Rightarrow> None | Some xs \<Rightarrow> if xs = [] then None else Some xs))"

definition parse_workflow_routing_event :: "json \<Rightarrow> workflow_routing_event option" where
  "parse_workflow_routing_event metadata =
     (case Option.bind (json_get metadata ''workflow'') as_object of
        None \<Rightarrow> None
      | Some workflow \<Rightarrow>
          (case Option.bind (map_of workflow ''kind'') optional_string of
             None \<Rightarrow> None
           | Some kind \<Rightarrow>
               Some \<lparr>we_kind = kind,
                     we_task_key = Option.bind (map_of workflow ''task_key'') optional_string,
                     we_task_id = Option.bind (map_of workflow ''task_id'') optional_string,
                     we_next_role = Option.bind (map_of workflow ''next_role'') optional_string,
                     we_target_role = Option.bind (map_of workflow ''target_role'') optional_string,
                     we_target_principal_ids =
                       (case string_list (map_of workflow ''target_principal_ids'') of
                          Some xs \<Rightarrow> xs
                        | None \<Rightarrow>
                            (case string_list (map_of workflow ''target_agent_ids'') of
                               Some xs \<Rightarrow> xs | None \<Rightarrow> []))\<rparr>))"

lemma optional_string_trimmed: "optional_string v = Some s \<Longrightarrow> s \<noteq> [] \<and> trim s = s"
  by (auto simp: optional_string_def Let_def split: option.splits if_splits)

lemma string_list_trimmed: "string_list v = Some xs \<Longrightarrow> xs \<noteq> [] \<and> (\<forall>s\<in>set xs. s \<noteq> [] \<and> trim s = s)"
  by (force simp: string_list_def Let_def List.map_filter_def dest: optional_string_trimmed
      split: option.splits if_splits json.splits)

text \<open>
  C2: workflow metadata is normalised. Whatever JSON an event carries, a parsed workflow event has
  a non-blank kind, and every optional field and every target id it carries is non-empty and
  already trimmed, so later comparisons with role keys and principal ids are exact.
\<close>

theorem parse_workflow_routing_event_normalised:
  assumes "parse_workflow_routing_event metadata = Some w"
  shows "we_kind w \<noteq> [] \<and> trim (we_kind w) = we_kind w \<and>
         (\<forall>s \<in> set_option (we_task_key w) \<union> set_option (we_task_id w) \<union>
               set_option (we_next_role w) \<union> set_option (we_target_role w) \<union>
               set (we_target_principal_ids w). s \<noteq> [] \<and> trim s = s)"
proof -
  have field: "s \<noteq> [] \<and> trim s = s" if "s \<in> set_option (Option.bind x optional_string)" for s x
    using that by (auto simp: bind_eq_Some_conv dest: optional_string_trimmed)
  have ids: "s \<noteq> [] \<and> trim s = s"
    if "s \<in> set (case string_list x of Some xs \<Rightarrow> xs
           | None \<Rightarrow> (case string_list y of Some xs \<Rightarrow> xs | None \<Rightarrow> []))" for s x y
    using that string_list_trimmed by (cases "string_list x"; cases "string_list y") fastforce+
  from assms obtain workflow kind where
      kind: "Option.bind (map_of workflow ''kind'') optional_string = Some kind"
      and w: "we_kind w = kind"
        "we_task_key w = Option.bind (map_of workflow ''task_key'') optional_string"
        "we_task_id w = Option.bind (map_of workflow ''task_id'') optional_string"
        "we_next_role w = Option.bind (map_of workflow ''next_role'') optional_string"
        "we_target_role w = Option.bind (map_of workflow ''target_role'') optional_string"
        "we_target_principal_ids w =
           (case string_list (map_of workflow ''target_principal_ids'') of Some xs \<Rightarrow> xs
            | None \<Rightarrow> (case string_list (map_of workflow ''target_agent_ids'') of Some xs \<Rightarrow> xs | None \<Rightarrow> []))"
    by (auto simp: parse_workflow_routing_event_def split: option.splits)
  from kind have "kind \<noteq> [] \<and> trim kind = kind"
    by (auto simp: bind_eq_Some_conv dest: optional_string_trimmed)
  then show ?thesis unfolding w using field ids by blast
qed

theorem parse_workflow_routing_event_normalised_witness:
  "\<exists>w. parse_workflow_routing_event
         (jobj [(''workflow'', jobj [(''kind'', JStr '' task.started ''), (''task_key'', JStr ''DOC-1''),
                 (''target_agent_ids'', JArr [JStr '' a '', JInt 4, JStr ''''])])]) = Some w \<and>
       we_kind w \<noteq> [] \<and> trim (we_kind w) = we_kind w \<and>
       (\<forall>s \<in> set_option (we_task_key w) \<union> set_option (we_task_id w) \<union>
               set_option (we_next_role w) \<union> set_option (we_target_role w) \<union>
               set (we_target_principal_ids w). s \<noteq> [] \<and> trim s = s)"
proof -
  have "parse_workflow_routing_event
         (jobj [(''workflow'', jobj [(''kind'', JStr '' task.started ''), (''task_key'', JStr ''DOC-1''),
                 (''target_agent_ids'', JArr [JStr '' a '', JInt 4, JStr ''''])])]) =
       Some \<lparr>we_kind = ''task.started'', we_task_key = Some ''DOC-1'', we_task_id = None,
             we_next_role = None, we_target_role = None, we_target_principal_ids = [''a'']\<rparr>"
    by code_simp
  with parse_workflow_routing_event_normalised [OF this] show ?thesis by blast
qed

lemma channel_task_status_roundtrip:
  "channel_task_status_from_db_value (channel_task_status_as_str st) = Some st"
  by (cases st) (simp_all add: channel_task_status_from_db_value_def)

lemma untagged_human_mode_roundtrip:
  "untagged_human_mode_from_db_value (untagged_human_mode_as_str m) = m"
  by (cases m) (simp_all add: untagged_human_mode_from_db_value_def)

end
