(* ===== verification/Router_Policy.thy ===== *)
theory Router_Policy
  imports Router_Models Choruz_Mentions
begin

text \<open>
  Trigger policies, \<^verbatim>\<open>crates/choruz-router/src/policy.rs\<close>: whether one agent is
  triggered by one event under its own policy.
\<close>

definition trigger :: "string \<Rightarrow> trigger_result" where
  "trigger reason = \<lparr>tr_should_trigger = True, tr_reason = reason\<rparr>"

definition no_trigger :: "string \<Rightarrow> trigger_result" where
  "no_trigger reason = \<lparr>tr_should_trigger = False, tr_reason = reason\<rparr>"

definition event_text :: "conversation_event_row \<Rightarrow> string" where
  "event_text event = (case ev_content event of None \<Rightarrow> [] | Some c \<Rightarrow> c)"

definition evaluate_mention ::
  "agent_policy \<Rightarrow> conversation_event_row \<Rightarrow> conversation_member \<Rightarrow> string list \<Rightarrow> trigger_result" where
  "evaluate_mention policy event member candidates =
     (let content = event_text event; pid = cm_principal_id member in
      if contains_mention content ''all'' candidates then trigger ''mentioned via @all''
      else case cm_display_name member of
        Some name \<Rightarrow>
          if contains_mention content name candidates then trigger (''mentioned via @'' @ name)
          else if contains_mention content pid candidates then trigger (''mentioned via @'' @ pid)
          else (case find (\<lambda>alias. contains_mention content alias candidates) (ap_mention_aliases policy) of
                  Some alias \<Rightarrow> trigger (''mentioned via alias @'' @ alias)
                | None \<Rightarrow>
                    if get_str (ev_metadata event) ''turn_for'' = Some pid
                    then trigger ''metadata turn_for matches agent''
                    else if get_str (ev_metadata event) ''request_review_by'' = Some pid
                    then trigger ''metadata request_review_by matches agent''
                    else no_trigger ''not mentioned (mentioned_only policy)'')
      | None \<Rightarrow>
          if contains_mention content pid candidates then trigger (''mentioned via @'' @ pid)
          else (case find (\<lambda>alias. contains_mention content alias candidates) (ap_mention_aliases policy) of
                  Some alias \<Rightarrow> trigger (''mentioned via alias @'' @ alias)
                | None \<Rightarrow>
                    if get_str (ev_metadata event) ''turn_for'' = Some pid
                    then trigger ''metadata turn_for matches agent''
                    else if get_str (ev_metadata event) ''request_review_by'' = Some pid
                    then trigger ''metadata request_review_by matches agent''
                    else no_trigger ''not mentioned (mentioned_only policy)''))"

definition evaluate_trigger_with_candidates ::
  "agent_policy \<Rightarrow> conversation_event_row \<Rightarrow> conversation_member \<Rightarrow> string list \<Rightarrow> trigger_result" where
  "evaluate_trigger_with_candidates policy event member candidates =
     (case ap_auto_mode policy of
        AllMessages \<Rightarrow> trigger ''all_messages policy''
      | Manual \<Rightarrow> no_trigger ''manual mode, no auto trigger''
      | MentionedOnly \<Rightarrow> evaluate_mention policy event member candidates)"

definition evaluate_trigger ::
  "agent_policy \<Rightarrow> conversation_event_row \<Rightarrow> conversation_member \<Rightarrow> trigger_result" where
  "evaluate_trigger policy event member = evaluate_trigger_with_candidates policy event member []"

section \<open>The names an agent answers to\<close>

definition agent_names :: "agent_policy \<Rightarrow> conversation_member \<Rightarrow> string list" where
  "agent_names policy member =
     ''all'' # (case cm_display_name member of None \<Rightarrow> [] | Some n \<Rightarrow> [n]) @
     cm_principal_id member # ap_mention_aliases policy"

lemma trigger_simps [simp]:
  "tr_should_trigger (trigger r)" "\<not> tr_should_trigger (no_trigger r)"
  by (simp_all add: trigger_def no_trigger_def)

lemma evaluate_mention_should_trigger:
  "tr_should_trigger (evaluate_mention policy event member cands) \<longleftrightarrow>
     (\<exists>name\<in>set (agent_names policy member). contains_mention (event_text event) name cands) \<or>
     get_str (ev_metadata event) ''turn_for'' = Some (cm_principal_id member) \<or>
     get_str (ev_metadata event) ''request_review_by'' = Some (cm_principal_id member)"
  by (auto simp: evaluate_mention_def agent_names_def Let_def find_None_iff find_Some_iff
      split: option.splits)

text \<open>
  the trigger decision of one agent. An agent is triggered exactly when its policy is
  all-messages, or it is mentioned-only and the event mentions one of its names (\<open>all\<close>, display
  name, principal id, an alias) or addresses it by \<open>turn_for\<close> or \<open>request_review_by\<close>; a
  manual agent is never triggered by its own policy.
\<close>

theorem evaluate_trigger_characterisation:
  "tr_should_trigger (evaluate_trigger_with_candidates policy event member cands) \<longleftrightarrow>
     ap_auto_mode policy = AllMessages \<or>
     (ap_auto_mode policy = MentionedOnly \<and>
      ((\<exists>name\<in>set (agent_names policy member). contains_mention (event_text event) name cands) \<or>
       get_str (ev_metadata event) ''turn_for'' = Some (cm_principal_id member) \<or>
       get_str (ev_metadata event) ''request_review_by'' = Some (cm_principal_id member)))"
  by (cases "ap_auto_mode policy")
     (simp_all add: evaluate_trigger_with_candidates_def evaluate_mention_should_trigger)

lemma evaluate_trigger_manual:
  "ap_auto_mode policy = Manual \<Longrightarrow>
     \<not> tr_should_trigger (evaluate_trigger_with_candidates policy event member cands)"
  by (simp add: evaluate_trigger_with_candidates_def)

lemma evaluate_trigger_all_messages:
  "ap_auto_mode policy = AllMessages \<Longrightarrow>
     tr_should_trigger (evaluate_trigger_with_candidates policy event member cands)"
  by (simp add: evaluate_trigger_with_candidates_def)

end
