(* ===== verification/Session_Models.thy ===== *)
theory Session_Models
  imports Choruz_Json
begin

text \<open>
  Data model of the session manager, \<^verbatim>\<open>crates/choruz-session/src/models.rs\<close> and
  \<^verbatim>\<open>error.rs\<close>, and the retry schedule of \<^verbatim>\<open>retry.rs\<close>. An \<^verbatim>\<open>i32\<close> column
  is an integer; where the code adds to one the overflow is written out.
\<close>

section \<open>Errors\<close>

datatype session_error =
    SessionNotFound string
  | CommandNotFound string
  | StaleAttempt string string
  | SessionInactive string string
  | EpochMismatch int int
  | InvalidStateTransition string string string
  | NoAvailableExecutor string
  | MaxAttemptsExceeded string
  | SessionConflict string
  | Database string
  | SessionInternal string

type_synonym 'a session_result = "session_error + 'a"

section \<open>Sessions\<close>

datatype session_status = Idle | Active | Draining | Dead

fun session_status_as_str :: "session_status \<Rightarrow> string" where
  "session_status_as_str Idle = ''idle''"
| "session_status_as_str Active = ''active''"
| "session_status_as_str Draining = ''draining''"
| "session_status_as_str Dead = ''dead''"

definition session_status_parse :: "string \<Rightarrow> session_status option" where
  "session_status_parse s =
     (if s = ''idle'' then Some Idle
      else if s = ''active'' then Some Active
      else if s = ''draining'' then Some Draining
      else if s = ''dead'' then Some Dead
      else None)"

record session =
  se_session_key :: string
  se_agent_id :: string
  se_conversation_id :: string
  se_executor_node_id :: "string option"
  se_epoch :: int
  se_status :: session_status
  se_workspace_snapshot_id :: "string option"
  se_memory_context_id :: "string option"
  se_last_heartbeat_at :: "timestamp option"
  se_created_at :: timestamp
  se_updated_at :: timestamp

record session_update =
  su_session_key :: string
  su_executor_node_id :: "string option option"
  su_status :: "session_status option"
  su_last_heartbeat_at :: "timestamp option option"

section \<open>Commands\<close>

datatype command_status =
    Pending | Leased | Started | Heartbeating | Succeeded | Committed | RetryScheduled | DeadLettered

fun command_status_as_str :: "command_status \<Rightarrow> string" where
  "command_status_as_str Pending = ''pending''"
| "command_status_as_str Leased = ''leased''"
| "command_status_as_str Started = ''started''"
| "command_status_as_str Heartbeating = ''heartbeating''"
| "command_status_as_str Succeeded = ''succeeded''"
| "command_status_as_str Committed = ''committed''"
| "command_status_as_str RetryScheduled = ''retry_scheduled''"
| "command_status_as_str DeadLettered = ''dead_letter''"

definition command_status_parse :: "string \<Rightarrow> command_status option" where
  "command_status_parse s =
     (if s = ''pending'' then Some Pending
      else if s = ''leased'' then Some Leased
      else if s = ''started'' then Some Started
      else if s = ''heartbeating'' then Some Heartbeating
      else if s = ''succeeded'' then Some Succeeded
      else if s = ''committed'' then Some Committed
      else if s = ''retry_scheduled'' then Some RetryScheduled
      else if s = ''dead_letter'' then Some DeadLettered
      else None)"

fun is_active :: "command_status \<Rightarrow> bool" where
  "is_active Leased = True"
| "is_active Started = True"
| "is_active Heartbeating = True"
| "is_active _ = False"

fun is_terminal :: "command_status \<Rightarrow> bool" where
  "is_terminal Succeeded = True"
| "is_terminal Committed = True"
| "is_terminal DeadLettered = True"
| "is_terminal _ = False"

record agent_command =
  ac_command_id :: string
  ac_route_id :: string
  ac_session_key :: string
  ac_agent_id :: string
  ac_conversation_id :: string
  ac_message_id :: string
  ac_turn_id :: string
  ac_status :: command_status
  ac_current_attempt_id :: "string option"
  ac_current_epoch :: "int option"
  ac_attempt_count :: int
  ac_max_attempts :: int
  ac_prompt :: string
  ac_metadata :: json
  ac_next_retry_at :: "timestamp option"
  ac_last_error :: "string option"
  ac_created_at :: timestamp
  ac_updated_at :: timestamp

record runtime_status_command =
  rs_command_id :: string
  rs_message_id :: string
  rs_turn_id :: string
  rs_status :: string
  rs_created_at :: timestamp
  rs_updated_at :: timestamp
  rs_lease_age_seconds :: int
  rs_attempt_count :: int
  rs_last_error :: "string option"

record agent_runtime_status =
  ars_conversation_id :: string
  ars_agent_id :: string
  ars_status :: string
  ars_active_command :: "runtime_status_command option"
  ars_queued_count :: int
  ars_last_error :: "string option"

record command_status_update =
  cu_command_id :: string
  cu_status :: command_status
  cu_current_attempt_id :: "string option"
  cu_current_epoch :: "int option"
  cu_attempt_count :: "int option"
  cu_next_retry_at :: "timestamp option option"
  cu_last_error :: "string option"

section \<open>Leases, dead letters and executors\<close>

record lease_assignment =
  la_epoch :: int
  la_attempt_id :: string
  la_attempt_count :: int

record expired_lease =
  el_session_key :: string
  el_command_id :: string
  el_epoch :: int
  el_attempt_count :: int
  el_max_attempts :: int

record dead_letter =
  dl_id :: string
  dl_source_type :: string
  dl_source_id :: string
  dl_payload :: json
  dl_error :: string
  dl_attempt_count :: int
  dl_created_at :: timestamp
  dl_resolved_at :: "timestamp option"
  dl_resolved_by :: "string option"

record insert_dead_letter =
  id_source_type :: string
  id_source_id :: string
  id_payload :: json
  id_error :: string
  id_attempt_count :: int

datatype executor_status = Available | Busy | ExecutorDraining | Offline

fun executor_status_as_str :: "executor_status \<Rightarrow> string" where
  "executor_status_as_str Available = ''available''"
| "executor_status_as_str Busy = ''busy''"
| "executor_status_as_str ExecutorDraining = ''draining''"
| "executor_status_as_str Offline = ''offline''"

definition executor_status_parse :: "string \<Rightarrow> executor_status option" where
  "executor_status_parse s =
     (if s = ''available'' then Some Available
      else if s = ''busy'' then Some Busy
      else if s = ''draining'' then Some ExecutorDraining
      else if s = ''offline'' then Some Offline
      else None)"

record executor =
  ex_node_id :: string
  ex_capabilities :: json
  ex_status :: executor_status
  ex_last_heartbeat_at :: timestamp
  ex_registered_at :: timestamp

text \<open>Every stored status reads back as itself.\<close>

lemma command_status_roundtrip: "command_status_parse (command_status_as_str st) = Some st"
  by (cases st) (simp_all add: command_status_parse_def)

lemma session_status_roundtrip: "session_status_parse (session_status_as_str st) = Some st"
  by (cases st) (simp_all add: session_status_parse_def)

lemma executor_status_roundtrip: "executor_status_parse (executor_status_as_str st) = Some st"
  by (cases st) (simp_all add: executor_status_parse_def)

lemma active_not_terminal: "is_active st \<Longrightarrow> \<not> is_terminal st"
  by (cases st) simp_all

section \<open>The retry schedule\<close>

definition i32_succ :: "int \<Rightarrow> int" where
  "i32_succ n = (if n = 2147483647 then - 2147483648 else n + 1)"

definition secs :: "int \<Rightarrow> int" where
  "secs n = n * 1000000000"

definition MAX_BACKOFF_SECS :: int where
  "MAX_BACKOFF_SECS = 300"

text \<open>\<^verbatim>\<open>i64::saturating_pow\<close> of base 2, and the cast of a negative \<^verbatim>\<open>i32\<close> to \<^verbatim>\<open>u32\<close>.\<close>

definition i32_as_u32 :: "int \<Rightarrow> nat" where
  "i32_as_u32 n = nat (if n < 0 then n + 4294967296 else n)"

definition saturating_pow2 :: "nat \<Rightarrow> int" where
  "saturating_pow2 e = (if e \<le> 62 then 2 ^ e else 9223372036854775807)"

definition exponential_backoff_secs :: "int \<Rightarrow> int" where
  "exponential_backoff_secs attempt_count =
     min (saturating_pow2 (i32_as_u32 (min attempt_count 30))) MAX_BACKOFF_SECS"

definition next_retry_at :: "timestamp \<Rightarrow> int \<Rightarrow> timestamp" where
  "next_retry_at nw attempt_count = nw + secs (exponential_backoff_secs attempt_count)"

definition is_exhausted :: "int \<Rightarrow> int \<Rightarrow> bool" where
  "is_exhausted attempt_count max_attempts \<longleftrightarrow> attempt_count \<ge> max_attempts"

text \<open>
  The retry schedule. For every \<^verbatim>\<open>i32\<close> attempt count the backoff is between one second and
  five minutes; for a non-negative count it is the documented minimum of two to the count and 300
  seconds, it never shrinks as attempts are made, and neither the cap on the exponent nor the cast
  to \<^verbatim>\<open>u32\<close> shows.
\<close>

theorem exponential_backoff_spec:
  "1 \<le> exponential_backoff_secs n \<and> exponential_backoff_secs n \<le> 300 \<and>
   exponential_backoff_secs (int k) = min (2 ^ k) 300 \<and>
   exponential_backoff_secs (int k) \<le> exponential_backoff_secs (int k + 1)"
proof -
  have one: "1 \<le> saturating_pow2 e" for e
    by (simp add: saturating_pow2_def)
  have val: "exponential_backoff_secs (int j) = min (2 ^ j) 300" for j
  proof (cases "j \<le> 30")
    case True
    then show ?thesis
      by (simp add: exponential_backoff_secs_def i32_as_u32_def saturating_pow2_def MAX_BACKOFF_SECS_def)
  next
    case False
    have "(2::int) ^ 30 \<le> 2 ^ j" using False by (intro power_increasing) simp_all
    then have "min ((2::int) ^ j) 300 = 300" by simp
    then show ?thesis using False
      by (simp add: exponential_backoff_secs_def i32_as_u32_def saturating_pow2_def MAX_BACKOFF_SECS_def)
  qed
  have "exponential_backoff_secs (int k + 1) = min (2 ^ Suc k) 300"
    using val [of "Suc k"] by (simp add: add.commute)
  moreover have "(2::int) ^ k \<le> 2 ^ Suc k" by simp
  ultimately show ?thesis
    using one [of "i32_as_u32 (min n 30)"] val [of k]
    by (auto simp: exponential_backoff_secs_def MAX_BACKOFF_SECS_def min_def)
qed

end
