(* ===== verification/Router_Plan.thy ===== *)
theory Router_Plan
  imports Router_Policy Session_Models
begin

text \<open>
  Route planning, the first half of \<^verbatim>\<open>crates/choruz-router/src/router.rs\<close>: which agents of
  a conversation one event triggers, with the reason and the snapshot each decision records. The
  \<^verbatim>\<open>MemberProvider\<close> trait is the record \<open>member_provider\<close> of its methods; the
  \<^verbatim>\<open>expect\<close> calls are panics of the model, shown unreachable below.
\<close>

section \<open>Errors and the member provider\<close>

datatype router_error =
    Store app_error
  | Session session_error
  | Deserialization string
  | RouterInternal string

type_synonym 'a router_result = "router_error + 'a"
type_synonym 'a router_exec = "(router_error, 'a) exec"

record member_provider =
  mp_list_agent_members :: "string \<Rightarrow> conversation_member list router_result"
  mp_list_assignee_roster :: "string \<Rightarrow> assignee_roster_entry list router_result"
  mp_get_agent_policy :: "string \<Rightarrow> string \<Rightarrow> agent_policy router_result"
  mp_resolve_principal_name :: "string \<Rightarrow> string option"
  mp_resolve_conversation_name :: "string \<Rightarrow> string option"
  mp_resolve_principal_type :: "string \<Rightarrow> string \<Rightarrow> string option router_result"
  mp_get_conversation_routing_policy :: "string \<Rightarrow> conversation_routing_policy router_result"
  mp_find_workflow_task ::
    "string \<Rightarrow> string option \<Rightarrow> string option \<Rightarrow> group_workflow_task option router_result"
  mp_list_workflow_task_participants :: "string \<Rightarrow> group_workflow_task_participant list router_result"
  mp_list_open_tasks_for_agent :: "string \<Rightarrow> string \<Rightarrow> assigned_task_hint list router_result"

record planned_route =
  pr_should_trigger :: bool
  pr_reason :: string
  pr_policy_snapshot :: json

type_synonym policy_map = "(string, agent_policy) hash_map"
type_synonym route_plan = "(string, planned_route) hash_map"

section \<open>Snapshots and text markers\<close>

definition policy_snapshot :: "agent_policy \<Rightarrow> json \<Rightarrow> json" where
  "policy_snapshot policy extra =
     (case as_object (agent_policy_json policy) of
        None \<Rightarrow> extra
      | Some snapshot_obj \<Rightarrow>
          (case as_object extra of
             None \<Rightarrow> JObj snapshot_obj
           | Some extra_obj \<Rightarrow>
               JObj (fold (\<lambda>(key, value) obj.
                       if value = JNull \<or> value = JStr [] then obj else bt_insert key value obj)
                     extra_obj snapshot_obj)))"

definition has_task_key_like_token :: "string \<Rightarrow> bool" where
  "has_task_key_like_token content \<longleftrightarrow>
     list_ex (\<lambda>token. 5 \<le> length token \<and> CHR ''-'' \<in> set token \<and>
                list_ex is_ascii_alphabetic token \<and> list_ex is_ascii_digit token)
       (split_on (\<lambda>ch. \<not> (is_ascii_alphanumeric ch \<or> ch = CHR ''-'')) content)"

definition workflow_text_marker_without_metadata :: "conversation_event_row \<Rightarrow> string option" where
  "workflow_text_marker_without_metadata event =
     (if parse_workflow_routing_event (ev_metadata event) \<noteq> None then None
      else case ev_content event of
        None \<Rightarrow> None
      | Some raw \<Rightarrow>
          (let content = trim raw in
           if starts_with content ''[DONE]'' then Some ''done_marker''
           else if starts_with content ''[BLOCKED]'' then Some ''blocked_marker''
           else if contains_str (to_lowercase content) ''feedback'' \<and> has_task_key_like_token content
           then Some ''feedback_with_task_key''
           else None))"

definition fallback_snapshot_extra :: "conversation_event_row \<Rightarrow> string \<Rightarrow> json \<Rightarrow> json" where
  "fallback_snapshot_extra event routing_source extra =
     (let extra = (case extra of JObj m \<Rightarrow> JObj m | _ \<Rightarrow> jobj []);
          extra = obj_insert ''routing_source'' (JStr routing_source) extra
      in case workflow_text_marker_without_metadata event of
           Some marker \<Rightarrow> obj_insert ''workflow_text_marker'' (JStr marker) extra
         | None \<Rightarrow> extra)"

section \<open>Active agents, coordinators and mention candidates\<close>

definition active_agent_ids :: "conversation_member list \<Rightarrow> string \<Rightarrow> string set" where
  "active_agent_ids agent_members sender_id =
     set (map cm_principal_id (filter (\<lambda>m. cm_principal_id m \<noteq> sender_id) agent_members))"

definition active_agent_ids_from ::
  "string list \<Rightarrow> conversation_member list \<Rightarrow> string \<Rightarrow> string set" where
  "active_agent_ids_from candidate_ids agent_members sender_id =
     (let active = active_agent_ids agent_members sender_id
      in set (filter (\<lambda>c. c \<in> active) candidate_ids))"

definition active_participant_ids_for_roles ::
  "group_workflow_task_participant list \<Rightarrow> string list \<Rightarrow> conversation_member list \<Rightarrow> string \<Rightarrow>
   string set" where
  "active_participant_ids_for_roles participants role_keys agent_members sender_id =
     (let active = active_agent_ids agent_members sender_id
      in set (map tp_principal_id
           (filter (\<lambda>p. list_ex (\<lambda>role. role = tp_role_key p) role_keys \<and> tp_principal_id p \<in> active)
              participants)))"

definition active_coordinator_agent_id ::
  "conversation_routing_policy \<Rightarrow> conversation_member list \<Rightarrow> conversation_event_row \<Rightarrow> string option" where
  "active_coordinator_agent_id policy agent_members event =
     (case rp_default_coordinator_agent_id policy of
        None \<Rightarrow> None
      | Some coordinator_id \<Rightarrow>
          if coordinator_id = ev_sender_id event then None
          else if list_ex (\<lambda>m. cm_principal_id m = coordinator_id) agent_members
          then Some coordinator_id else None)"

definition coordinator_fallback_reason ::
  "conversation_routing_policy \<Rightarrow> conversation_member list \<Rightarrow> conversation_event_row \<Rightarrow> string" where
  "coordinator_fallback_reason policy agent_members event =
     (case rp_default_coordinator_agent_id policy of
        None \<Rightarrow> ''coordinator_not_configured''
      | Some coordinator_id \<Rightarrow>
          if coordinator_id = ev_sender_id event then ''coordinator_is_sender''
          else if \<not> list_ex (\<lambda>m. cm_principal_id m = coordinator_id) agent_members
          then ''coordinator_unavailable''
          else ''coordinator_available'')"

definition push_mention_candidate :: "string list \<Rightarrow> string \<Rightarrow> string list" where
  "push_mention_candidate candidates value =
     (let candidate = trim (trim_start_matches CHR ''@'' (trim value))
      in if candidate \<noteq> [] \<and> \<not> list_ex (\<lambda>existing. existing = candidate) candidates
         then candidates @ [candidate] else candidates)"

definition mention_candidates :: "conversation_member list \<Rightarrow> policy_map \<Rightarrow> string list" where
  "mention_candidates agent_members policies_by_agent =
     fold (\<lambda>member candidates.
         let candidates = push_mention_candidate candidates (cm_principal_id member);
             candidates = (case cm_display_name member of
                             Some display_name \<Rightarrow> push_mention_candidate candidates display_name
                           | None \<Rightarrow> candidates)
         in case hm_get policies_by_agent (cm_principal_id member) of
              Some policy \<Rightarrow> foldl push_mention_candidate candidates (ap_mention_aliases policy)
            | None \<Rightarrow> candidates)
       agent_members [''all'']"

section \<open>Plans\<close>

definition policy_of :: "policy_map \<Rightarrow> conversation_member \<Rightarrow> agent_policy router_exec" where
  "policy_of policies_by_agent member =
     expect_some ''policy was loaded for every agent member''
       (hm_get policies_by_agent (cm_principal_id member))"

definition selected_targets_plan ::
  "conversation_member list \<Rightarrow> policy_map \<Rightarrow> string set \<Rightarrow> string \<Rightarrow> json \<Rightarrow> route_plan router_exec" where
  "selected_targets_plan agent_members policies_by_agent target_ids reason snapshot_extra =
     exec_bind
       (exec_map (\<lambda>member.
          exec_bind (policy_of policies_by_agent member) (\<lambda>policy.
            let should_trigger = cm_principal_id member \<in> target_ids;
                has_targets = (target_ids \<noteq> {});
                extra = (if should_trigger
                         then obj_insert ''target_principal_id'' (JStr (cm_principal_id member)) snapshot_extra
                         else snapshot_extra)
            in Ret (cm_principal_id member,
                 \<lparr>pr_should_trigger = should_trigger,
                  pr_reason = (if should_trigger then reason
                               else if has_targets then reason @ ''_not_targeted'' else reason),
                  pr_policy_snapshot = policy_snapshot policy extra\<rparr>)))
        agent_members)
       (\<lambda>entries. Ret (hm_of_list entries))"

definition policy_fallback_plan ::
  "conversation_event_row \<Rightarrow> conversation_member list \<Rightarrow> policy_map \<Rightarrow> string list \<Rightarrow> json \<Rightarrow>
   route_plan router_exec" where
  "policy_fallback_plan event agent_members policies_by_agent candidates snapshot_extra =
     exec_bind
       (exec_map (\<lambda>member.
          exec_bind (policy_of policies_by_agent member) (\<lambda>policy.
            let trig = evaluate_trigger_with_candidates policy event member candidates;
                reason = (case get_str snapshot_extra ''coordinator_fallback_reason'' of
                            Some fallback_reason \<Rightarrow> fallback_reason @ '': '' @ tr_reason trig
                          | None \<Rightarrow> tr_reason trig)
            in Ret (cm_principal_id member,
                 \<lparr>pr_should_trigger = tr_should_trigger trig,
                  pr_reason = reason,
                  pr_policy_snapshot = policy_snapshot policy snapshot_extra\<rparr>)))
        agent_members)
       (\<lambda>entries. Ret (hm_of_list entries))"

definition explicit_metadata_target_id :: "conversation_event_row \<Rightarrow> string option" where
  "explicit_metadata_target_id event =
     (let value = (case json_get (ev_metadata event) ''turn_for'' of
                     Some v \<Rightarrow> Some v
                   | None \<Rightarrow> json_get (ev_metadata event) ''request_review_by'')
      in case Option.bind value as_str of
           None \<Rightarrow> None
         | Some s \<Rightarrow> (let t = trim s in if t = [] then None else Some t))"

definition explicit_target_plan ::
  "conversation_event_row \<Rightarrow> conversation_member list \<Rightarrow> policy_map \<Rightarrow> string list \<Rightarrow>
   route_plan option router_exec" where
  "explicit_target_plan event agent_members policies_by_agent candidates =
     exec_bind
       (exec_map (\<lambda>member.
          exec_bind (policy_of policies_by_agent member) (\<lambda>policy.
            Ret (cm_principal_id member,
                 evaluate_trigger_with_candidates (policy\<lparr>ap_auto_mode := MentionedOnly\<rparr>)
                   event member candidates)))
        agent_members)
       (\<lambda>entries.
          let explicit_results = hm_of_list entries in
          if \<not> list_ex tr_should_trigger (hm_values explicit_results)
          then (case explicit_metadata_target_id event of
                  Some target_id \<Rightarrow>
                    exec_bind
                      (selected_targets_plan agent_members policies_by_agent {} ''explicit_target_not_found''
                         (jobj [(''routing_source'', JStr ''explicit_target''),
                                (''target_principal_id'', JStr target_id)]))
                      (\<lambda>plan. Ret (Some plan))
                | None \<Rightarrow> Ret None)
          else
            exec_bind
              (exec_map (\<lambda>member.
                 exec_bind (expect_some ''explicit result exists for every agent member''
                              (hm_get explicit_results (cm_principal_id member))) (\<lambda>trig.
                 exec_bind (policy_of policies_by_agent member) (\<lambda>policy.
                   let target_principal_id =
                         (if tr_should_trigger trig then cm_principal_id member else [])
                   in Ret (cm_principal_id member,
                        \<lparr>pr_should_trigger = tr_should_trigger trig,
                         pr_reason = (if tr_should_trigger trig then tr_reason trig
                                      else ''explicit_target_not_selected''),
                         pr_policy_snapshot =
                           policy_snapshot policy
                             (jobj [(''routing_source'', JStr ''explicit_target''),
                                    (''target_principal_id'', JStr target_principal_id)])\<rparr>))))
               agent_members)
              (\<lambda>entries. Ret (Some (hm_of_list entries))))"

section \<open>Workflow events\<close>

definition apply_canonical_owner_participant ::
  "group_workflow_task_participant list \<Rightarrow> group_workflow_task \<Rightarrow> group_workflow_task_participant list" where
  "apply_canonical_owner_participant participants task =
     filter (\<lambda>p. tp_role_key p \<noteq> ''owner'') participants @
     [\<lparr>tp_task_id = wt_id task, tp_principal_id = wt_assignee_principal_id task,
       tp_role_key = ''owner'', tp_principal_type = wt_assignee_principal_type task\<rparr>]"

definition workflow_target_roles :: "workflow_routing_event \<Rightarrow> string list" where
  "workflow_target_roles w =
     (case we_target_role w of
        Some target_role \<Rightarrow> [target_role]
      | None \<Rightarrow>
          if we_kind w = ''task.started'' then [''coordinator'']
          else if we_kind w = ''task.ready_for_next_step''
          then (case we_next_role w of None \<Rightarrow> [] | Some r \<Rightarrow> [r])
          else if we_kind w \<in> set [''task.feedback'', ''task.cleared'', ''external_check.failed'']
          then [''owner'', ''coordinator'']
          else if we_kind w \<in> set [''task.blocked'', ''task.idle'', ''external_check.passed'', ''human_input_needed'']
          then [''coordinator'']
          else if we_kind w = ''approval_required'' then [''approver'', ''coordinator'']
          else [])"

definition workflow_reason :: "workflow_routing_event \<Rightarrow> bool \<Rightarrow> string" where
  "workflow_reason w has_targets =
     (if \<not> has_targets then ''workflow_task_not_found''
      else if we_kind w = ''task.ready_for_next_step'' \<and> we_next_role w \<noteq> None
      then ''workflow_event_to_role''
      else if we_kind w \<in> set [''task.feedback'', ''task.cleared'', ''external_check.failed'']
      then ''workflow_event_to_owner''
      else ''workflow_event_to_coordinator'')"

text \<open>
  The part of \<^verbatim>\<open>workflow_target_plan\<close> that chooses the targets: the target ids, the
  reason, the roles looked for and the roles of the task's participants.
\<close>

definition workflow_targets ::
  "conversation_event_row \<Rightarrow> member_provider \<Rightarrow> conversation_member list \<Rightarrow>
   conversation_routing_policy \<Rightarrow> workflow_routing_event \<Rightarrow> group_workflow_task option \<Rightarrow>
   (string set \<times> string \<times> string list \<times> string list) router_exec" where
  "workflow_targets event members agent_members conversation_policy w task =
     (let target_ids = active_agent_ids_from (we_target_principal_ids w) agent_members (ev_sender_id event);
          coordinator = active_coordinator_agent_id conversation_policy agent_members event
      in if target_ids \<noteq> {}
         then Ret (target_ids, ''workflow_event_to_target_principal'', [], [])
         else case task of
           Some task \<Rightarrow>
             exec_bind (exec_of_result (mp_list_workflow_task_participants members (wt_id task))) (\<lambda>listed.
               let participants = apply_canonical_owner_participant listed task;
                   participant_roles = map tp_role_key participants;
                   target_roles = workflow_target_roles w;
                   target_ids = active_participant_ids_for_roles participants target_roles
                                  agent_members (ev_sender_id event);
                   target_ids = (if list_ex (\<lambda>role. role = ''coordinator'') target_roles
                                 then target_ids \<union> set_option coordinator else target_ids);
                   used_coordinator_fallback = (target_ids = {} \<and> coordinator \<noteq> None);
                   target_ids = (if target_ids = {} then set_option coordinator else target_ids);
                   reason = (if used_coordinator_fallback then ''workflow_event_to_coordinator''
                             else workflow_reason w (target_ids \<noteq> {}))
               in Ret (target_ids, reason, target_roles, participant_roles))
         | None \<Rightarrow>
             (case coordinator of
                Some coordinator_id \<Rightarrow>
                  Ret ({coordinator_id}, ''workflow_task_missing_coordinator_fallback'', [], [])
              | None \<Rightarrow> Ret ({}, ''workflow_task_not_found'', [], [])))"

definition workflow_target_plan ::
  "conversation_event_row \<Rightarrow> member_provider \<Rightarrow> conversation_member list \<Rightarrow> policy_map \<Rightarrow>
   conversation_routing_policy \<Rightarrow> workflow_routing_event \<Rightarrow> route_plan router_exec" where
  "workflow_target_plan event members agent_members policies_by_agent conversation_policy w =
     exec_bind (exec_of_result
        (mp_find_workflow_task members (ev_conversation_id event) (we_task_id w) (we_task_key w))) (\<lambda>task.
     exec_bind (workflow_targets event members agent_members conversation_policy w task)
       (\<lambda>(target_ids, reason, target_roles, participant_roles).
        let task_id = (case task of Some t \<Rightarrow> Some (wt_id t) | None \<Rightarrow> we_task_id w);
            task_key = (case task of Some t \<Rightarrow> Some (wt_task_key t) | None \<Rightarrow> we_task_key w);
            target_role = (case we_target_role w of Some r \<Rightarrow> Some r
                           | None \<Rightarrow> (case we_next_role w of Some r \<Rightarrow> Some r
                           | None \<Rightarrow> (case target_roles of [] \<Rightarrow> None | r # _ \<Rightarrow> Some r)));
            reason = (if target_ids = {} then ''workflow_task_not_found'' else reason)
        in selected_targets_plan agent_members policies_by_agent target_ids reason
             (jobj [(''routing_source'', JStr ''workflow_event''),
                    (''workflow_kind'', JStr (we_kind w)),
                    (''task_key'', jopt_str task_key),
                    (''task_id'', jopt_str task_id),
                    (''task_status'', jopt_str (map_option (\<lambda>t. channel_task_status_as_str (wt_status t)) task)),
                    (''assignee_principal_id'', jopt_str (map_option wt_assignee_principal_id task)),
                    (''target_role'', jopt_str target_role),
                    (''participant_roles'', JArr (map JStr participant_roles))])))"

section \<open>The plan of one event\<close>

definition plan_routes ::
  "conversation_event_row \<Rightarrow> member_provider \<Rightarrow> conversation_member list \<Rightarrow> policy_map \<Rightarrow>
   string list \<Rightarrow> conversation_routing_policy \<Rightarrow> bool \<Rightarrow> route_plan router_exec" where
  "plan_routes event members agent_members policies_by_agent candidates conversation_policy is_direct =
     exec_bind (explicit_target_plan event agent_members policies_by_agent candidates) (\<lambda>explicit.
     case explicit of
       Some plan \<Rightarrow> Ret plan
     | None \<Rightarrow>
       (case (if is_direct then None else parse_workflow_routing_event (ev_metadata event)) of
          Some w \<Rightarrow>
            workflow_target_plan event members agent_members policies_by_agent conversation_policy w
        | None \<Rightarrow>
          exec_bind
            (if is_direct then Ret None
             else exec_of_result
               (mp_resolve_principal_type members (ev_sender_id event) (ev_conversation_id event)))
            (\<lambda>sender_type.
             let mode = rp_untagged_human_mode conversation_policy;
                 mode_str = JStr (untagged_human_mode_as_str mode);
                 coordinator_json = jopt_str (rp_default_coordinator_agent_id conversation_policy)
             in if \<not> is_direct \<and> sender_type = Some ''human''
                then (case mode of
                  CoordinatorOnly \<Rightarrow>
                    (case active_coordinator_agent_id conversation_policy agent_members event of
                       Some coordinator_id \<Rightarrow>
                         selected_targets_plan agent_members policies_by_agent {coordinator_id}
                           ''untagged_human_to_coordinator''
                           (jobj [(''routing_source'', JStr ''untagged_human_to_coordinator''),
                                  (''untagged_human_mode'', mode_str),
                                  (''default_coordinator_agent_id'', coordinator_json)])
                     | None \<Rightarrow>
                         policy_fallback_plan event agent_members policies_by_agent candidates
                           (jobj [(''routing_source'', JStr ''coordinator_policy_fallback''),
                                  (''untagged_human_mode'', mode_str),
                                  (''coordinator_fallback_reason'',
                                     JStr (coordinator_fallback_reason conversation_policy agent_members event)),
                                  (''default_coordinator_agent_id'', coordinator_json)]))
                | AllAgents \<Rightarrow>
                    selected_targets_plan agent_members policies_by_agent
                      (active_agent_ids agent_members (ev_sender_id event))
                      ''untagged_human_to_all_agents''
                      (jobj [(''routing_source'', JStr ''untagged_human_to_all_agents''),
                             (''untagged_human_mode'', mode_str)])
                | UHMentionedOnly \<Rightarrow>
                    policy_fallback_plan event agent_members policies_by_agent candidates
                      (fallback_snapshot_extra event ''untagged_human_mentioned_only''
                         (jobj [(''untagged_human_mode'', mode_str)])))
                else policy_fallback_plan event agent_members policies_by_agent candidates
                       (fallback_snapshot_extra event ''policy'' (jobj [])))))"

section \<open>What a plan promises\<close>

text \<open>
  The policies the router loaded cover every agent member, and no two members share an id (the
  membership table is keyed by conversation and principal).
\<close>

definition policies_loaded :: "conversation_member list \<Rightarrow> policy_map \<Rightarrow> bool" where
  "policies_loaded ms ps \<longleftrightarrow> list_all (\<lambda>m. hm_get ps (cm_principal_id m) \<noteq> None) ms"

definition loaded_policy :: "policy_map \<Rightarrow> conversation_member \<Rightarrow> agent_policy" where
  "loaded_policy ps m = the (hm_get ps (cm_principal_id m))"

definition triggered :: "route_plan \<Rightarrow> string set" where
  "triggered plan = fst ` set (filter (\<lambda>(a, r). pr_should_trigger r) plan)"

lemma policy_of_loaded:
  "policies_loaded ms ps \<Longrightarrow> m \<in> set ms \<Longrightarrow> policy_of ps m = Ret (loaded_policy ps m)"
  by (auto simp: policies_loaded_def policy_of_def loaded_policy_def list_all_iff)

lemma in_triggered: "hm_wf plan \<Longrightarrow> a \<in> triggered plan \<longleftrightarrow> (\<exists>r. hm_get plan a = Some r \<and> pr_should_trigger r)"
  by (force simp: triggered_def hm_wf_def)

lemma triggered_of_members:
  assumes "inj_on cm_principal_id (set ms)"
  shows "triggered (hm_of_list (map (\<lambda>m. (cm_principal_id m, v m)) ms)) =
         cm_principal_id ` {m \<in> set ms. pr_should_trigger (v m)}" (is "?L = ?R")
proof (rule set_eqI)
  fix a
  show "a \<in> ?L \<longleftrightarrow> a \<in> ?R"
    unfolding in_triggered [OF hm_wf_of_list]
    using hm_of_list_image [of cm_principal_id v ms a] hm_of_list_get [OF _ assms, of _ v] by blast
qed

lemma selected_targets_plan_Ret:
  assumes "policies_loaded ms ps" "inj_on cm_principal_id (set ms)"
  obtains plan where "selected_targets_plan ms ps T reason extra = Ret plan"
    and "dom (map_of plan) = cm_principal_id ` set ms"
    and "triggered plan = T \<inter> cm_principal_id ` set ms"
proof -
  let ?v = "\<lambda>m. \<lparr>pr_should_trigger = cm_principal_id m \<in> T,
      pr_reason = (if cm_principal_id m \<in> T then reason else if T \<noteq> {} then reason @ ''_not_targeted'' else reason),
      pr_policy_snapshot = policy_snapshot (loaded_policy ps m)
        (if cm_principal_id m \<in> T then obj_insert ''target_principal_id'' (JStr (cm_principal_id m)) extra
         else extra)\<rparr>"
  let ?plan = "hm_of_list (map (\<lambda>m. (cm_principal_id m, ?v m)) ms)"
  have "selected_targets_plan ms ps T reason extra = Ret ?plan"
    unfolding selected_targets_plan_def Let_def
    by (subst exec_map_Ret [where g = "\<lambda>m. (cm_principal_id m, ?v m)"])
       (simp_all add: policy_of_loaded [OF assms(1)])
  moreover have "dom (map_of ?plan) = cm_principal_id ` set ms"
    unfolding dom_hm_of_list by force
  moreover have "triggered ?plan = T \<inter> cm_principal_id ` set ms"
    unfolding triggered_of_members [OF assms(2)] by auto
  ultimately show thesis by (rule that)
qed

definition own_policy_targets ::
  "conversation_event_row \<Rightarrow> conversation_member list \<Rightarrow> policy_map \<Rightarrow> string list \<Rightarrow> string set" where
  "own_policy_targets event ms ps cands =
     cm_principal_id ` set (filter (\<lambda>m. tr_should_trigger
        (evaluate_trigger_with_candidates (loaded_policy ps m) event m cands)) ms)"

lemma policy_fallback_plan_Ret:
  assumes "policies_loaded ms ps" "inj_on cm_principal_id (set ms)"
  obtains plan where "policy_fallback_plan event ms ps cands extra = Ret plan"
    and "dom (map_of plan) = cm_principal_id ` set ms"
    and "triggered plan = own_policy_targets event ms ps cands"
proof -
  let ?t = "\<lambda>m. evaluate_trigger_with_candidates (loaded_policy ps m) event m cands"
  let ?v = "\<lambda>m. \<lparr>pr_should_trigger = tr_should_trigger (?t m),
      pr_reason = (case get_str extra ''coordinator_fallback_reason'' of
          Some r \<Rightarrow> r @ '': '' @ tr_reason (?t m) | None \<Rightarrow> tr_reason (?t m)),
      pr_policy_snapshot = policy_snapshot (loaded_policy ps m) extra\<rparr>"
  let ?plan = "hm_of_list (map (\<lambda>m. (cm_principal_id m, ?v m)) ms)"
  have "policy_fallback_plan event ms ps cands extra = Ret ?plan"
    unfolding policy_fallback_plan_def Let_def
    by (subst exec_map_Ret [where g = "\<lambda>m. (cm_principal_id m, ?v m)"])
       (simp_all add: policy_of_loaded [OF assms(1)])
  moreover have "dom (map_of ?plan) = cm_principal_id ` set ms"
    unfolding dom_hm_of_list by force
  moreover have "triggered ?plan = own_policy_targets event ms ps cands"
    unfolding triggered_of_members [OF assms(2)] own_policy_targets_def by simp
  ultimately show thesis by (rule that)
qed

text \<open>The agents an event addresses by name or by metadata, whatever their own mode is.\<close>

definition addressed_agents ::
  "conversation_event_row \<Rightarrow> conversation_member list \<Rightarrow> policy_map \<Rightarrow> string list \<Rightarrow> string set" where
  "addressed_agents event ms ps cands =
     cm_principal_id ` set (filter (\<lambda>m. tr_should_trigger
        (evaluate_mention (loaded_policy ps m) event m cands)) ms)"

lemma evaluate_mentioned_only:
  "evaluate_trigger_with_candidates (p\<lparr>ap_auto_mode := MentionedOnly\<rparr>) event m cands =
     evaluate_mention p event m cands"
  by (simp add: evaluate_trigger_with_candidates_def evaluate_mention_def Let_def cong: option.case_cong if_cong)

lemma explicit_target_plan_cases:
  assumes "policies_loaded ms ps" "inj_on cm_principal_id (set ms)"
  obtains
    (addressed) plan where "explicit_target_plan event ms ps cands = Ret (Some plan)"
      "addressed_agents event ms ps cands \<noteq> {}"
      "dom (map_of plan) = cm_principal_id ` set ms"
      "triggered plan = addressed_agents event ms ps cands"
  | (unmatched) plan where "explicit_target_plan event ms ps cands = Ret (Some plan)"
      "addressed_agents event ms ps cands = {}" "explicit_metadata_target_id event \<noteq> None"
      "dom (map_of plan) = cm_principal_id ` set ms" "triggered plan = {}"
  | (none) "explicit_target_plan event ms ps cands = Ret None"
      "addressed_agents event ms ps cands = {}" "explicit_metadata_target_id event = None"
proof -
  let ?t = "\<lambda>m. evaluate_mention (loaded_policy ps m) event m cands"
  define results where "results = hm_of_list (map (\<lambda>m. (cm_principal_id m, ?t m)) ms)"
  let ?v = "\<lambda>m. \<lparr>pr_should_trigger = tr_should_trigger (?t m),
      pr_reason = (if tr_should_trigger (?t m) then tr_reason (?t m) else ''explicit_target_not_selected''),
      pr_policy_snapshot = policy_snapshot (loaded_policy ps m)
        (jobj [(''routing_source'', JStr ''explicit_target''),
               (''target_principal_id'', JStr (if tr_should_trigger (?t m) then cm_principal_id m else []))])\<rparr>"
  let ?plan = "hm_of_list (map (\<lambda>m. (cm_principal_id m, ?v m)) ms)"
  have entries: "exec_map (\<lambda>m. exec_bind (policy_of ps m) (\<lambda>policy.
      Ret (cm_principal_id m, evaluate_mention policy event m cands))) ms =
      (Ret (map (\<lambda>m. (cm_principal_id m, ?t m)) ms) :: (string \<times> trigger_result) list router_exec)"
    by (rule exec_map_Ret) (simp add: policy_of_loaded [OF assms(1)])
  have get: "hm_get results (cm_principal_id m) = Some (?t m)" if "m \<in> set ms" for m
    unfolding results_def by (rule hm_of_list_get [OF that assms(2)])
  have any: "list_ex tr_should_trigger (hm_values results) \<longleftrightarrow> addressed_agents event ms ps cands \<noteq> {}"
    unfolding list_ex_iff results_def set_hm_values_of_list [OF assms(2)]
    by (auto simp: addressed_agents_def)
  have step: "explicit_target_plan event ms ps cands =
      (if addressed_agents event ms ps cands = {}
       then (case explicit_metadata_target_id event of
               Some t \<Rightarrow> exec_bind
                   (selected_targets_plan ms ps {} ''explicit_target_not_found''
                      (jobj [(''routing_source'', JStr ''explicit_target''), (''target_principal_id'', JStr t)]))
                   (\<lambda>plan. Ret (Some plan))
             | None \<Rightarrow> Ret None)
       else Ret (Some ?plan))"
    unfolding explicit_target_plan_def evaluate_mentioned_only entries exec_bind.simps Let_def
      results_def [symmetric] any
    by (subst exec_map_Ret [where g = "\<lambda>m. (cm_principal_id m, ?v m)"])
       (simp_all add: policy_of_loaded [OF assms(1)] get)
  show thesis
  proof (cases "addressed_agents event ms ps cands = {}")
    case False
    have "dom (map_of ?plan) = cm_principal_id ` set ms" unfolding dom_hm_of_list by force
    moreover have "triggered ?plan = addressed_agents event ms ps cands"
      unfolding triggered_of_members [OF assms(2)] addressed_agents_def by simp
    ultimately show ?thesis using False step by (intro addressed [of ?plan]) simp_all
  next
    case True
    show ?thesis
    proof (cases "explicit_metadata_target_id event")
      case None
      with True step show ?thesis by (intro none) simp_all
    next
      case (Some t)
      obtain plan where "selected_targets_plan ms ps {} ''explicit_target_not_found''
            (jobj [(''routing_source'', JStr ''explicit_target''), (''target_principal_id'', JStr t)]) = Ret plan"
          "dom (map_of plan) = cm_principal_id ` set ms" "triggered plan = {} \<inter> cm_principal_id ` set ms"
        using selected_targets_plan_Ret [OF assms] by blast
      with True Some step show ?thesis by (intro unmatched [of plan]) simp_all
    qed
  qed
qed

section \<open>The routing specification\<close>

text \<open>
  The specification, over sets of principals: the active agents are the members other than the
  sender; the coordinator counts when it is active; an event addresses, in this order, the agents
  it names, nobody when its metadata names an unknown target, the holders of the roles a workflow
  event asks for, the agents the conversation's mode selects for an untagged human message, and
  otherwise the agents whose own policy triggers.
\<close>

definition active_spec :: "conversation_event_row \<Rightarrow> conversation_member list \<Rightarrow> string set" where
  "active_spec event ms = cm_principal_id ` set ms - {ev_sender_id event}"

definition coordinator_spec ::
  "conversation_event_row \<Rightarrow> conversation_member list \<Rightarrow> conversation_routing_policy \<Rightarrow> string set" where
  "coordinator_spec event ms rp = set_option (rp_default_coordinator_agent_id rp) \<inter> active_spec event ms"

definition role_holders ::
  "group_workflow_task \<Rightarrow> group_workflow_task_participant list \<Rightarrow> string set \<Rightarrow> string set" where
  "role_holders task listed roles =
     tp_principal_id ` {p \<in> set listed. tp_role_key p \<noteq> ''owner'' \<and> tp_role_key p \<in> roles} \<union>
     (if ''owner'' \<in> roles then {wt_assignee_principal_id task} else {})"

definition result_or :: "'a \<Rightarrow> 'e + 'a \<Rightarrow> 'a" where
  "result_or d r = (case r of Inr x \<Rightarrow> x | Inl _ \<Rightarrow> d)"

definition workflow_targets_spec ::
  "conversation_event_row \<Rightarrow> member_provider \<Rightarrow> conversation_member list \<Rightarrow>
   conversation_routing_policy \<Rightarrow> workflow_routing_event \<Rightarrow> string set" where
  "workflow_targets_spec event mp ms rp w =
     (let named = set (we_target_principal_ids w) \<inter> active_spec event ms;
          coordinator = coordinator_spec event ms rp
      in if named \<noteq> {} then named
         else case result_or None (mp_find_workflow_task mp (ev_conversation_id event) (we_task_id w) (we_task_key w)) of
           None \<Rightarrow> coordinator
         | Some task \<Rightarrow>
             (let roles = set (workflow_target_roles w);
                  holders = role_holders task (result_or [] (mp_list_workflow_task_participants mp (wt_id task))) roles
                              \<inter> active_spec event ms;
                  chosen = holders \<union> (if ''coordinator'' \<in> roles then coordinator else {})
              in if chosen = {} then coordinator else chosen))"

definition route_targets_spec ::
  "conversation_event_row \<Rightarrow> member_provider \<Rightarrow> conversation_member list \<Rightarrow> policy_map \<Rightarrow>
   string list \<Rightarrow> conversation_routing_policy \<Rightarrow> bool \<Rightarrow> string set" where
  "route_targets_spec event mp ms ps cands rp is_direct =
     (if addressed_agents event ms ps cands \<noteq> {} then addressed_agents event ms ps cands
      else if explicit_metadata_target_id event \<noteq> None then {}
      else if is_direct then own_policy_targets event ms ps cands
      else case parse_workflow_routing_event (ev_metadata event) of
        Some w \<Rightarrow> workflow_targets_spec event mp ms rp w
      | None \<Rightarrow>
          if result_or None (mp_resolve_principal_type mp (ev_sender_id event) (ev_conversation_id event))
               \<noteq> Some ''human'' then own_policy_targets event ms ps cands
          else (case rp_untagged_human_mode rp of
                  AllAgents \<Rightarrow> active_spec event ms
                | CoordinatorOnly \<Rightarrow>
                    if coordinator_spec event ms rp = {} then own_policy_targets event ms ps cands
                    else coordinator_spec event ms rp
                | UHMentionedOnly \<Rightarrow> own_policy_targets event ms ps cands))"

lemma active_agent_ids_spec: "active_agent_ids ms (ev_sender_id event) = active_spec event ms"
  by (auto simp: active_agent_ids_def active_spec_def)

lemma active_coordinator_spec:
  "set_option (active_coordinator_agent_id rp ms event) = coordinator_spec event ms rp"
  by (auto simp: active_coordinator_agent_id_def coordinator_spec_def active_spec_def list_ex_iff
      split: option.splits if_splits)

lemma active_participants_spec:
  "active_participant_ids_for_roles (apply_canonical_owner_participant listed task) roles ms (ev_sender_id event) =
     role_holders task listed (set roles) \<inter> active_spec event ms"
  by (auto simp: active_participant_ids_for_roles_def active_agent_ids_spec role_holders_def Let_def
      apply_canonical_owner_participant_def list_ex_iff)

lemma workflow_targets_Ret:
  assumes "workflow_targets event mp ms rp w task = Ret (T, r)"
    and "mp_find_workflow_task mp (ev_conversation_id event) (we_task_id w) (we_task_key w) = Inr task"
  shows "T = workflow_targets_spec event mp ms rp w"
proof -
  have named: "active_agent_ids_from (we_target_principal_ids w) ms (ev_sender_id event) =
      set (we_target_principal_ids w) \<inter> active_spec event ms"
    by (auto simp: active_agent_ids_from_def active_agent_ids_spec Let_def)
  have coordinator: "active_coordinator_agent_id rp ms event = Some c \<Longrightarrow> coordinator_spec event ms rp = {c}"
      "active_coordinator_agent_id rp ms event = None \<Longrightarrow> coordinator_spec event ms rp = {}" for c
    using active_coordinator_spec [of rp ms event] by auto
  show ?thesis
  proof (cases task)
    case None
    with assms show ?thesis
      by (auto simp: workflow_targets_def workflow_targets_spec_def named Let_def result_or_def coordinator
          split: if_splits option.splits)
  next
    case (Some t)
    show ?thesis
    proof (cases "set (we_target_principal_ids w) \<inter> active_spec event ms = {}")
      case False
      with assms(1) show ?thesis
        by (simp add: workflow_targets_def workflow_targets_spec_def named Let_def)
    next
      case True
      have role: "list_ex (\<lambda>role. role = ''coordinator'') rs \<longleftrightarrow> ''coordinator'' \<in> set rs" for rs
        by (auto simp: list_ex_iff)
      from True Some assms(1) obtain listed where
        listed: "mp_list_workflow_task_participants mp (wt_id t) = Inr listed"
        by (auto simp: workflow_targets_def named Let_def exec_bind_eq_Ret)
      let ?roles = "workflow_target_roles w"
      let ?coord = "set_option (active_coordinator_agent_id rp ms event)"
      let ?ids = "active_participant_ids_for_roles (apply_canonical_owner_participant listed t) ?roles ms
        (ev_sender_id event)"
      let ?chosen = "if list_ex (\<lambda>role. role = ''coordinator'') ?roles then ?ids \<union> ?coord else ?ids"
      from listed True Some assms(1) have "T = (if ?chosen = {} then ?coord else ?chosen)"
        unfolding workflow_targets_def Let_def named
        by (simp del: if_split split_paired_All split_paired_Ex)
      then show ?thesis using listed True Some assms(2)
        unfolding active_participants_spec active_coordinator_spec role
        by (simp add: workflow_targets_spec_def Let_def result_or_def)
    qed
  qed
qed

lemma workflow_targets_spec_subset: "workflow_targets_spec event mp ms rp w \<subseteq> cm_principal_id ` set ms"
  by (auto simp: workflow_targets_spec_def coordinator_spec_def active_spec_def Let_def
      split: if_splits option.splits)

lemma workflow_targets_not_Panic: "workflow_targets event mp ms rp w task \<noteq> Panic msg"
  by (auto simp: workflow_targets_def Let_def exec_bind_eq_Panic split: option.splits)

text \<open>
  The plan as a whole: planning either passes on an error of the member provider or returns a
  plan with one entry per agent member whose triggered agents are those of the specification.
\<close>

lemma plan_routes_refines:
  assumes loaded: "policies_loaded ms ps" and inj: "inj_on cm_principal_id (set ms)"
  shows "(\<exists>e. plan_routes event mp ms ps cands rp is_direct = Fail e) \<or>
         (\<exists>plan. plan_routes event mp ms ps cands rp is_direct = Ret plan \<and>
            dom (map_of plan) = cm_principal_id ` set ms \<and>
            triggered plan = route_targets_spec event mp ms ps cands rp is_direct)"
proof -
  let ?ok = "\<lambda>r T. (\<exists>e. r = Fail e) \<or>
     (\<exists>plan. r = Ret plan \<and> dom (map_of plan) = cm_principal_id ` set ms \<and> triggered plan = T)"
  have selected: "?ok (selected_targets_plan ms ps T reason extra) T" if "T \<subseteq> cm_principal_id ` set ms" for T reason extra
    using that by (rule_tac selected_targets_plan_Ret [OF assms, of T reason extra]) blast
  have fallback: "?ok (policy_fallback_plan event ms ps cands extra) (own_policy_targets event ms ps cands)" for extra
    by (rule policy_fallback_plan_Ret [OF assms, of event cands extra]) blast
  have workflow: "?ok (workflow_target_plan event mp ms ps rp w) (workflow_targets_spec event mp ms rp w)" for w
  proof (cases "mp_find_workflow_task mp (ev_conversation_id event) (we_task_id w) (we_task_key w)")
    case (Inl e)
    then show ?thesis by (simp add: workflow_target_plan_def)
  next
    case (Inr task)
    show ?thesis
    proof (cases "workflow_targets event mp ms rp w task")
      case (Ret x)
      then obtain T a b c where x: "x = (T, a, b, c)" by (cases x)
      have "T = workflow_targets_spec event mp ms rp w"
        using workflow_targets_Ret Ret Inr x by blast
      then show ?thesis using Inr Ret x workflow_targets_spec_subset
        by (simp add: workflow_target_plan_def Let_def selected)
    qed (use Inr workflow_targets_not_Panic in \<open>auto simp: workflow_target_plan_def\<close>)
  qed
  have coordinator: "coordinator_spec event ms rp = set_option (active_coordinator_agent_id rp ms event)"
    by (simp add: active_coordinator_spec)
  have sub: "active_spec event ms \<subseteq> cm_principal_id ` set ms" "coordinator_spec event ms rp \<subseteq> cm_principal_id ` set ms"
    by (auto simp: active_spec_def coordinator_spec_def)
  have untagged: "?ok (plan_routes event mp ms ps cands rp is_direct)
      (route_targets_spec event mp ms ps cands rp is_direct)"
    if none: "explicit_target_plan event ms ps cands = Ret None" "addressed_agents event ms ps cands = {}"
      "explicit_metadata_target_id event = None"
  proof (cases is_direct)
    case True
    with none show ?thesis by (simp add: plan_routes_def route_targets_spec_def fallback)
  next
    case group: False
    show ?thesis
    proof (cases "parse_workflow_routing_event (ev_metadata event)")
      case (Some w)
      with none group show ?thesis by (simp add: plan_routes_def route_targets_spec_def workflow)
    next
      case None
      show ?thesis
      proof (cases "mp_resolve_principal_type mp (ev_sender_id event) (ev_conversation_id event)")
        case (Inl e)
        with none group None show ?thesis by (simp add: plan_routes_def)
      next
        case (Inr sender_type)
        with none group None sub show ?thesis
          by (cases "rp_untagged_human_mode rp"; cases "active_coordinator_agent_id rp ms event")
             (simp_all add: plan_routes_def route_targets_spec_def result_or_def fallback selected
                coordinator active_agent_ids_spec)
      qed
    qed
  qed
  show ?thesis
  proof (cases rule: explicit_target_plan_cases [OF assms, of event cands, case_names addressed unmatched none])
    case (addressed plan)
    then show ?thesis by (simp add: plan_routes_def route_targets_spec_def)
  next
    case (unmatched plan)
    then show ?thesis by (simp add: plan_routes_def route_targets_spec_def)
  next
    case none
    then show ?thesis by (rule untagged)
  qed
qed

text \<open>Planning fails only when the member provider does.\<close>

lemma selected_targets_plan_not_Fail: "selected_targets_plan ms ps T reason extra \<noteq> Fail e"
  unfolding selected_targets_plan_def exec_bind_eq_Fail
  by (auto simp: Let_def policy_of_def exec_bind_eq_Fail dest: exec_map_not_Fail [THEN notE, rotated])

lemma policy_fallback_plan_not_Fail: "policy_fallback_plan event ms ps cands extra \<noteq> Fail e"
  unfolding policy_fallback_plan_def exec_bind_eq_Fail
  by (auto simp: Let_def policy_of_def exec_bind_eq_Fail dest: exec_map_not_Fail [THEN notE, rotated])

lemma explicit_target_plan_not_Fail: "explicit_target_plan event ms ps cands \<noteq> Fail e"
  unfolding explicit_target_plan_def exec_bind_eq_Fail
  by (auto simp: Let_def policy_of_def exec_bind_eq_Fail selected_targets_plan_not_Fail
      split: option.splits if_splits dest: exec_map_not_Fail [THEN notE, rotated])

lemma plan_routes_Fail:
  assumes "plan_routes event mp ms ps cands rp is_direct = Fail e"
  shows "(\<exists>i k. mp_find_workflow_task mp (ev_conversation_id event) i k = Inl e) \<or>
         (\<exists>t. mp_list_workflow_task_participants mp t = Inl e) \<or>
         mp_resolve_principal_type mp (ev_sender_id event) (ev_conversation_id event) = Inl e"
proof -
  have workflow: "(\<exists>i k. mp_find_workflow_task mp (ev_conversation_id event) i k = Inl e) \<or>
         (\<exists>t. mp_list_workflow_task_participants mp t = Inl e)"
    if "workflow_target_plan event mp ms ps rp w = Fail e" for w
    using that
    by (auto simp: workflow_target_plan_def workflow_targets_def exec_bind_eq_Fail Let_def
        selected_targets_plan_not_Fail split: option.splits if_splits)
  from assms show ?thesis
    by (auto simp: plan_routes_def exec_bind_eq_Fail explicit_target_plan_not_Fail Let_def
        selected_targets_plan_not_Fail policy_fallback_plan_not_Fail
        dest: workflow split: option.splits if_splits untagged_human_mode.splits)
qed

text \<open>A plan has one entry per agent.\<close>

lemma selected_targets_plan_wf: "selected_targets_plan ms ps T reason extra = Ret plan \<Longrightarrow> hm_wf plan"
  unfolding selected_targets_plan_def exec_bind_eq_Ret by auto

lemma policy_fallback_plan_wf: "policy_fallback_plan event ms ps cands extra = Ret plan \<Longrightarrow> hm_wf plan"
  unfolding policy_fallback_plan_def exec_bind_eq_Ret by auto

lemma explicit_target_plan_wf: "explicit_target_plan event ms ps cands = Ret (Some plan) \<Longrightarrow> hm_wf plan"
  unfolding explicit_target_plan_def exec_bind_eq_Ret Let_def
  by (auto simp: exec_bind_eq_Ret split: if_splits option.splits dest: selected_targets_plan_wf)

lemma plan_routes_wf: "plan_routes event mp ms ps cands rp is_direct = Ret plan \<Longrightarrow> hm_wf plan"
  by (auto simp: plan_routes_def workflow_target_plan_def exec_bind_eq_Ret Let_def
      dest: explicit_target_plan_wf selected_targets_plan_wf policy_fallback_plan_wf
      split: option.splits if_splits untagged_human_mode.splits)

end
