(* ===== verification/Router_Event.thy ===== *)
theory Router_Event
  imports Router_Plan "HOL-Library.Product_Lexorder"
begin

text \<open>
  Routing one event, the second half of \<^verbatim>\<open>crates/choruz-router/src/router.rs\<close>: stable
  identifiers, the prompt envelope, the command metadata and \<^verbatim>\<open>route_event\<close> itself, over any
  member provider and any decision sink, with the in-memory provider and sink of the crate.

  SHA-256, the textual form of a UUID and JSON printing are outside the repository: they are the
  fields of \<open>router_env\<close>. The sink is the record \<open>decision_sink\<close> of the methods of the
  \<^verbatim>\<open>DecisionSink\<close> trait over its state.
\<close>

unbundle bit_operations_syntax

record router_env =
  rx_sha256 :: "8 word list \<Rightarrow> 8 word list"
  rx_uuid_text :: "8 word list \<Rightarrow> string"
  rx_json_text :: "json \<Rightarrow> string option"

record 's decision_sink =
  ds_write_visibility :: "mailbox_visibility \<Rightarrow> 's \<Rightarrow> unit router_result \<times> 's"
  ds_write_decision :: "route_decision \<Rightarrow> 's \<Rightarrow> route_decision router_result \<times> 's"
  ds_write_command :: "insert_command \<Rightarrow> 's \<Rightarrow> unit router_result \<times> 's"

section \<open>Stable identifiers\<close>

definition as_bytes :: "string \<Rightarrow> 8 word list" where
  "as_bytes s = map of_char s"

definition stable_id_preimage :: "string \<Rightarrow> string \<Rightarrow> string \<Rightarrow> 8 word list" where
  "stable_id_preimage kind message_id agent_id =
     as_bytes ''echat-router-id-v1'' @ [0] @ as_bytes kind @ [0] @ as_bytes message_id @ [0] @ as_bytes agent_id"

definition stable_router_id :: "router_env \<Rightarrow> string \<Rightarrow> string \<Rightarrow> string \<Rightarrow> string" where
  "stable_router_id RX kind message_id agent_id =
     (let digest = rx_sha256 RX (stable_id_preimage kind message_id agent_id);
          bytes = take 16 digest;
          bytes = bytes[6 := ((bytes ! 6) AND 0x0f) OR 0x50];
          bytes = bytes[8 := ((bytes ! 8) AND 0x3f) OR 0x80]
      in rx_uuid_text RX bytes)"

section \<open>Command metadata and the prompt envelope\<close>

definition build_command_metadata :: "conversation_event_row \<Rightarrow> json" where
  "build_command_metadata event =
     (if get_str (ev_metadata event) ''attachment_id'' = None then jobj []
      else
        (let pick = (\<lambda>key. case json_get (ev_metadata event) key of Some v \<Rightarrow> v | None \<Rightarrow> JNull)
         in jobj [(''attachments'',
              JArr [jobj (map (\<lambda>key. (key, pick key))
                [''attachment_id'', ''filename'', ''mime_type'', ''download_path'', ''size_bytes''])])]))"

definition sanitize_assigned_task_title :: "string \<Rightarrow> string" where
  "sanitize_assigned_task_title title =
     take 120 (filter (\<lambda>ch. \<not> is_control ch \<and> ch \<noteq> CHR ''|'') title)"

definition sanitize_roster_display_name :: "string \<Rightarrow> string" where
  "sanitize_roster_display_name name =
     take 120 (filter (\<lambda>ch. \<not> is_control ch \<and> ch \<noteq> CHR ''|'') name)"

definition format_your_tasks_suffix :: "router_env \<Rightarrow> assigned_task_hint list \<Rightarrow> string" where
  "format_your_tasks_suffix RX assigned_tasks =
     (if assigned_tasks = [] then []
      else
        (let values = map (\<lambda>hint. jobj [(''task_key'', JStr (th_task_key hint)),
                              (''title'', JStr (sanitize_assigned_task_title (th_title hint))),
                              (''status'', JStr (channel_task_status_as_str (th_status hint)))])
                        (take 20 assigned_tasks)
         in case rx_json_text RX (JArr values) of
              Some payload \<Rightarrow> '' your_tasks:'' @ payload
            | None \<Rightarrow> []))"

definition format_assignee_roster :: "router_env \<Rightarrow> assignee_roster_entry list \<Rightarrow> string" where
  "format_assignee_roster RX roster =
     (let values = map (\<lambda>entry.
            let value = jobj [(''id'', JStr (re_principal_id entry)),
                              (''name'', JStr (sanitize_roster_display_name (re_display_name entry))),
                              (''type'', JStr (re_principal_type entry))]
            in case re_runtime_host_name entry of
                 Some host \<Rightarrow> obj_insert ''host'' (JStr (sanitize_roster_display_name host)) value
               | None \<Rightarrow> value) roster
      in case rx_json_text RX (JArr values) of Some payload \<Rightarrow> payload | None \<Rightarrow> ''[]'')"

definition build_prompt ::
  "router_env \<Rightarrow> conversation_event_row \<Rightarrow> string \<Rightarrow> string \<Rightarrow> assignee_roster_entry list \<Rightarrow>
   assigned_task_hint list \<Rightarrow> string" where
  "build_prompt RX event sender_name conversation_name assignee_roster assigned_tasks =
     (let conv_short = (if length (ev_conversation_id event) > 13
                        then take 13 (ev_conversation_id event) else ev_conversation_id event);
          content = event_text event;
          roster = format_assignee_roster RX assignee_roster;
          your_tasks_suffix = format_your_tasks_suffix RX assigned_tasks;
          thread_suffix = (case ev_reply_event_id event of
              Some root \<Rightarrow> if is_thread_reply (thread_flags_from_metadata (ev_metadata event))
                           then '' thread:'' @ root else []
            | None \<Rightarrow> [])
      in if conversation_name = ''[DM]''
         then ''[choruz-incoming] from:@'' @ sender_name @ '' direct-chat conv:'' @ conv_short @
              thread_suffix @ '' roster:'' @ roster @ your_tasks_suffix @ '' | '' @ content
         else ''[choruz-incoming] from:@'' @ sender_name @ '' group:'' @ conversation_name @
              '' conv:'' @ conv_short @ thread_suffix @ '' roster:'' @ roster @ your_tasks_suffix @
              '' | '' @ content)"

section \<open>Routing an event\<close>

text \<open>The values \<^verbatim>\<open>route_event\<close> computes before its loop over the agent members.\<close>

record routing =
  rt_sender_name :: string
  rt_conversation_name :: string
  rt_policies :: policy_map
  rt_candidates :: "string list"
  rt_plans :: route_plan
  rt_trace_id :: string

definition event_trace_id :: "conversation_event_row \<Rightarrow> string" where
  "event_trace_id event = (case get_str (ev_metadata event) ''trace_id'' of Some t \<Rightarrow> t | None \<Rightarrow> ''none'')"

definition command_metadata :: "conversation_event_row \<Rightarrow> string \<Rightarrow> json" where
  "command_metadata event trace_id =
     (let m = build_command_metadata event in
      if trace_id \<noteq> ''none''
      then (case m of JObj _ \<Rightarrow> obj_insert ''trace_id'' (JStr trace_id) m
            | _ \<Rightarrow> jobj [(''trace_id'', JStr trace_id)])
      else m)"

definition event_command ::
  "router_env \<Rightarrow> conversation_event_row \<Rightarrow> conversation_member \<Rightarrow> string \<Rightarrow> string \<Rightarrow> string \<Rightarrow> insert_command" where
  "event_command RX event member route_id trace_id prompt =
     \<lparr>ic_command_id = stable_router_id RX ''command'' (ev_event_id event) (cm_principal_id member),
      ic_route_id = route_id,
      ic_session_key = cm_principal_id member @ '':'' @ ev_conversation_id event,
      ic_agent_id = cm_principal_id member,
      ic_conversation_id = ev_conversation_id event,
      ic_message_id = ev_event_id event,
      ic_turn_id = stable_router_id RX ''turn'' (ev_event_id event) (cm_principal_id member),
      ic_prompt = prompt,
      ic_max_attempts = DEFAULT_MAX_ATTEMPTS,
      ic_metadata = command_metadata event trace_id\<rparr>"

text \<open>The plan entry of one member, with the fall-back the loop keeps for a missing entry.\<close>

definition member_plan ::
  "conversation_event_row \<Rightarrow> routing \<Rightarrow> conversation_member \<Rightarrow> planned_route router_exec" where
  "member_plan event rt member =
     exec_bind (policy_of (rt_policies rt) member) (\<lambda>policy.
       Ret (case hm_get (rt_plans rt) (cm_principal_id member) of
              Some plan \<Rightarrow> plan
            | None \<Rightarrow>
                (let trig = evaluate_trigger_with_candidates policy event member (rt_candidates rt)
                 in \<lparr>pr_should_trigger = tr_should_trigger trig, pr_reason = tr_reason trig,
                     pr_policy_snapshot =
                       policy_snapshot policy (jobj [(''routing_source'', JStr ''policy'')])\<rparr>)))"

definition event_decision ::
  "router_env \<Rightarrow> conversation_event_row \<Rightarrow> conversation_member \<Rightarrow> planned_route \<Rightarrow> route_decision" where
  "event_decision RX event member plan =
     \<lparr>rd_route_id = stable_router_id RX ''route'' (ev_event_id event) (cm_principal_id member),
      rd_message_id = ev_event_id event,
      rd_agent_id = cm_principal_id member,
      rd_conversation_id = ev_conversation_id event,
      rd_decision = route_outcome_as_str (if pr_should_trigger plan then Triggered else Skipped),
      rd_reason = pr_reason plan,
      rd_policy_snapshot = pr_policy_snapshot plan\<rparr>"

definition event_visibility :: "conversation_event_row \<Rightarrow> conversation_member \<Rightarrow> mailbox_visibility" where
  "event_visibility event member =
     \<lparr>mv_agent_id = cm_principal_id member, mv_conversation_id = ev_conversation_id event,
      mv_message_id = ev_event_id event, mv_event_seq = ev_seq event\<rparr>"

text \<open>One round of the loop: the outcome and the roster cache it leaves.\<close>

definition route_member ::
  "router_env \<Rightarrow> conversation_event_row \<Rightarrow> member_provider \<Rightarrow> 's decision_sink \<Rightarrow> routing \<Rightarrow>
   conversation_member \<Rightarrow> assignee_roster_entry list option \<Rightarrow>
   ('s, router_error, route_outcome \<times> assignee_roster_entry list option) st_exec" where
  "route_member RX event members sink rt member cache =
     (if cm_principal_id member = ev_sender_id event then st_ret (Skipped, cache)
      else
        st_bind (st_call (ds_write_visibility sink (event_visibility event member))) (\<lambda>_.
        st_bind (st_lift (member_plan event rt member)) (\<lambda>plan.
        st_bind (st_call (ds_write_decision sink (event_decision RX event member plan))) (\<lambda>persisted.
          let persisted_trigger = (rd_decision persisted = route_outcome_as_str Triggered) in
          if \<not> persisted_trigger then st_ret (Skipped, cache)
          else
            let roster = (case cache of
                    Some r \<Rightarrow> r
                  | None \<Rightarrow> (case mp_list_assignee_roster members (ev_conversation_id event) of
                               Inr r \<Rightarrow> r | Inl _ \<Rightarrow> []));
                assigned_tasks =
                  (case mp_list_open_tasks_for_agent members (ev_conversation_id event) (cm_principal_id member) of
                     Inr hints \<Rightarrow> hints | Inl _ \<Rightarrow> []);
                prompt = build_prompt RX event (rt_sender_name rt) (rt_conversation_name rt) roster assigned_tasks;
                cmd = event_command RX event member (rd_route_id persisted) (rt_trace_id rt) prompt
            in st_bind (st_call (ds_write_command sink cmd)) (\<lambda>_. st_ret (Triggered, Some roster))))))"

fun route_members ::
  "router_env \<Rightarrow> conversation_event_row \<Rightarrow> member_provider \<Rightarrow> 's decision_sink \<Rightarrow> routing \<Rightarrow>
   conversation_member list \<Rightarrow> assignee_roster_entry list option \<Rightarrow>
   ('s, router_error, route_outcome list) st_exec" where
  "route_members RX event members sink rt [] cache = st_ret []"
| "route_members RX event members sink rt (member # rest) cache =
     st_bind (route_member RX event members sink rt member cache) (\<lambda>(outcome, cache').
     st_bind (route_members RX event members sink rt rest cache') (\<lambda>outcomes.
       st_ret (outcome # outcomes)))"

definition prepare_routing ::
  "conversation_event_row \<Rightarrow> member_provider \<Rightarrow> conversation_member list \<Rightarrow> routing router_exec" where
  "prepare_routing event members agent_members =
     (let short = (\<lambda>s. take 8 s);
          sender_name = (case mp_resolve_principal_name members (ev_sender_id event) of
                           Some n \<Rightarrow> n | None \<Rightarrow> short (ev_sender_id event));
          conversation_name = (case mp_resolve_conversation_name members (ev_conversation_id event) of
                           Some n \<Rightarrow> n | None \<Rightarrow> short (ev_conversation_id event))
      in exec_bind (exec_map (\<lambda>member.
             exec_bind (exec_of_result
               (mp_get_agent_policy members (cm_principal_id member) (ev_conversation_id event)))
               (\<lambda>policy. Ret (cm_principal_id member, policy))) agent_members) (\<lambda>entries.
         let policies = hm_of_list entries;
             candidates = mention_candidates agent_members policies
         in exec_bind (exec_of_result
               (mp_get_conversation_routing_policy members (ev_conversation_id event))) (\<lambda>conversation_policy.
            exec_bind (plan_routes event members agent_members policies candidates conversation_policy
                         (conversation_name = ''[DM]'')) (\<lambda>plans.
              Ret \<lparr>rt_sender_name = sender_name, rt_conversation_name = conversation_name,
                   rt_policies = policies, rt_candidates = candidates, rt_plans = plans,
                   rt_trace_id = event_trace_id event\<rparr>))))"

definition route_event ::
  "router_env \<Rightarrow> conversation_event_row \<Rightarrow> member_provider \<Rightarrow> 's decision_sink \<Rightarrow>
   ('s, router_error, route_outcome list) st_exec" where
  "route_event RX event members sink =
     st_bind (st_lift (exec_of_result (mp_list_agent_members members (ev_conversation_id event)))) (\<lambda>agent_members.
     st_bind (st_lift (prepare_routing event members agent_members)) (\<lambda>rt.
       route_members RX event members sink rt agent_members None))"

end
