(* ===== verification/Router_Memory.thy ===== *)
theory Router_Memory
  imports Router_Event
begin

text \<open>
  The two interfaces of the router as locales, \<open>member_directory\<close> (what a member provider
  promises) and \<open>decision_log\<close> (what a decision sink promises), what routing an event achieves
  over any provider and sink that keep them, and the in-memory provider and sink of
  \<^verbatim>\<open>crates/choruz-router/src/router.rs\<close>, on which both locales are interpreted.
\<close>

section \<open>The in-memory member provider\<close>

record in_memory_member_provider =
  im_members :: "conversation_member list"
  im_policies :: "agent_policy list"
  im_principal_types :: "(string, string) hash_map"
  im_conversation_policies :: "conversation_routing_policy list"
  im_workflow_tasks :: "group_workflow_task list"
  im_workflow_participants :: "group_workflow_task_participant list"
  im_workflow_task_titles :: "(string, string) hash_map"

definition im_list_agent_members ::
  "in_memory_member_provider \<Rightarrow> string \<Rightarrow> conversation_member list router_result" where
  "im_list_agent_members p conversation_id =
     Inr (filter (\<lambda>m. cm_conversation_id m = conversation_id \<and> cm_principal_type m = ''agent'' \<and>
                   cm_left_at m = None) (im_members p))"

definition im_list_assignee_roster ::
  "in_memory_member_provider \<Rightarrow> string \<Rightarrow> assignee_roster_entry list router_result" where
  "im_list_assignee_roster p conversation_id =
     Inr (sort_key (\<lambda>e. (to_lowercase (re_display_name e), re_principal_id e))
       (map (\<lambda>m. \<lparr>re_principal_id = cm_principal_id m,
                  re_display_name = (case cm_display_name m of Some n \<Rightarrow> n | None \<Rightarrow> cm_principal_id m),
                  re_principal_type = cm_principal_type m, re_runtime_host_name = None\<rparr>)
         (filter (\<lambda>m. cm_conversation_id m = conversation_id \<and> cm_left_at m = None \<and>
                   cm_principal_type m = ''agent'') (im_members p))))"

definition im_get_agent_policy ::
  "in_memory_member_provider \<Rightarrow> string \<Rightarrow> string \<Rightarrow> agent_policy router_result" where
  "im_get_agent_policy p agent_id conversation_id =
     Inr (case find (\<lambda>q. ap_agent_id q = agent_id \<and> ap_conversation_id q = conversation_id) (im_policies p) of
            Some q \<Rightarrow> q
          | None \<Rightarrow> \<lparr>ap_agent_id = agent_id, ap_conversation_id = conversation_id,
                     ap_auto_mode = MentionedOnly, ap_mention_aliases = []\<rparr>)"

definition im_resolve_name :: "in_memory_member_provider \<Rightarrow> string \<Rightarrow> string option" where
  "im_resolve_name p i = Some (take (min 8 (length i)) i)"

definition im_resolve_principal_type ::
  "in_memory_member_provider \<Rightarrow> string \<Rightarrow> string \<Rightarrow> string option router_result" where
  "im_resolve_principal_type p principal_id conversation_id =
     Inr (hm_get (im_principal_types p) principal_id)"

definition im_get_conversation_routing_policy ::
  "in_memory_member_provider \<Rightarrow> string \<Rightarrow> conversation_routing_policy router_result" where
  "im_get_conversation_routing_policy p conversation_id =
     Inr (case find (\<lambda>q. rp_conversation_id q = conversation_id) (im_conversation_policies p) of
            Some q \<Rightarrow> q | None \<Rightarrow> routing_policy_default_for conversation_id)"

definition im_find_workflow_task ::
  "in_memory_member_provider \<Rightarrow> string \<Rightarrow> string option \<Rightarrow> string option \<Rightarrow>
   group_workflow_task option router_result" where
  "im_find_workflow_task p conversation_id task_id task_key =
     (let by_id = (case task_id of
            None \<Rightarrow> None
          | Some i \<Rightarrow> find (\<lambda>t. wt_conversation_id t = conversation_id \<and> wt_id t = i) (im_workflow_tasks p))
      in case by_id of
           Some task \<Rightarrow>
             Inr (case task_key of
                    None \<Rightarrow> Some task
                  | Some k \<Rightarrow> if wt_task_key task = k then Some task else None)
         | None \<Rightarrow>
             Inr (Option.bind task_key (\<lambda>k.
               find (\<lambda>t. wt_conversation_id t = conversation_id \<and> wt_task_key t = k) (im_workflow_tasks p))))"

definition im_list_workflow_task_participants ::
  "in_memory_member_provider \<Rightarrow> string \<Rightarrow> group_workflow_task_participant list router_result" where
  "im_list_workflow_task_participants p task_id =
     Inr (filter (\<lambda>q. tp_task_id q = task_id) (im_workflow_participants p))"

definition im_list_open_tasks_for_agent ::
  "in_memory_member_provider \<Rightarrow> string \<Rightarrow> string \<Rightarrow> assigned_task_hint list router_result" where
  "im_list_open_tasks_for_agent p conversation_id principal_id =
     Inr (sort_key th_task_key
       (map (\<lambda>t. \<lparr>th_task_key = wt_task_key t,
                  th_title = (case hm_get (im_workflow_task_titles p) (wt_id t) of
                                Some title \<Rightarrow> title | None \<Rightarrow> wt_task_key t),
                  th_status = wt_status t\<rparr>)
         (filter (\<lambda>t. wt_conversation_id t = conversation_id \<and>
                   wt_assignee_principal_id t = principal_id \<and> wt_status t \<noteq> Done)
           (im_workflow_tasks p))))"

definition im_provider :: "in_memory_member_provider \<Rightarrow> member_provider" where
  "im_provider p =
     \<lparr>mp_list_agent_members = im_list_agent_members p,
      mp_list_assignee_roster = im_list_assignee_roster p,
      mp_get_agent_policy = im_get_agent_policy p,
      mp_resolve_principal_name = im_resolve_name p,
      mp_resolve_conversation_name = im_resolve_name p,
      mp_resolve_principal_type = im_resolve_principal_type p,
      mp_get_conversation_routing_policy = im_get_conversation_routing_policy p,
      mp_find_workflow_task = im_find_workflow_task p,
      mp_list_workflow_task_participants = im_list_workflow_task_participants p,
      mp_list_open_tasks_for_agent = im_list_open_tasks_for_agent p\<rparr>"

text \<open>At most one membership row per conversation and principal, as the database key enforces.\<close>

definition im_provider_wf :: "in_memory_member_provider \<Rightarrow> bool" where
  "im_provider_wf p \<longleftrightarrow> distinct (map (\<lambda>m. (cm_conversation_id m, cm_principal_id m)) (im_members p))"

section \<open>The in-memory decision sink\<close>

record in_memory_decision_sink =
  visibilities :: "mailbox_visibility list"
  decisions :: "route_decision list"
  commands :: "insert_command list"

definition im_sink :: "in_memory_decision_sink decision_sink" where
  "im_sink =
     \<lparr>ds_write_visibility = (\<lambda>v s. (Inr (), s\<lparr>visibilities := visibilities s @ [v]\<rparr>)),
      ds_write_decision = (\<lambda>d s. (Inr d, s\<lparr>decisions := decisions s @ [d]\<rparr>)),
      ds_write_command = (\<lambda>c s. (Inr (), s\<lparr>commands := commands s @ [c]\<rparr>))\<rparr>"

section \<open>The provider interface\<close>

locale member_directory =
  fixes provide :: "'p \<Rightarrow> member_provider"
    and wf_provider :: "'p \<Rightarrow> bool"
  assumes members_distinct: "wf_provider p \<Longrightarrow>
      mp_list_agent_members (provide p) cid = Inr ms \<Longrightarrow> distinct (map cm_principal_id ms)"
    and members_are_agents: "wf_provider p \<Longrightarrow>
      mp_list_agent_members (provide p) cid = Inr ms \<Longrightarrow> m \<in> set ms \<Longrightarrow>
      cm_conversation_id m = cid \<and> cm_principal_type m = ''agent'' \<and> cm_left_at m = None"
    and policy_ids: "wf_provider p \<Longrightarrow> mp_get_agent_policy (provide p) a cid = Inr q \<Longrightarrow>
      ap_agent_id q = a \<and> ap_conversation_id q = cid"

text \<open>The policies an event is routed with, and the routing specification over them.\<close>

definition event_policies ::
  "conversation_event_row \<Rightarrow> member_provider \<Rightarrow> conversation_member list \<Rightarrow> policy_map" where
  "event_policies event mp ms =
     hm_of_list (map (\<lambda>m. (cm_principal_id m,
        result_or \<lparr>ap_agent_id = [], ap_conversation_id = [], ap_auto_mode = MentionedOnly, ap_mention_aliases = []\<rparr>
          (mp_get_agent_policy mp (cm_principal_id m) (ev_conversation_id event)))) ms)"

definition event_targets :: "conversation_event_row \<Rightarrow> member_provider \<Rightarrow> conversation_member list \<Rightarrow> string set" where
  "event_targets event mp ms =
     (let ps = event_policies event mp ms in
      route_targets_spec event mp ms ps (mention_candidates ms ps)
        (result_or (routing_policy_default_for (ev_conversation_id event))
           (mp_get_conversation_routing_policy mp (ev_conversation_id event)))
        ((case mp_resolve_conversation_name mp (ev_conversation_id event) of
            Some n \<Rightarrow> n | None \<Rightarrow> take 8 (ev_conversation_id event)) = ''[DM]''))"

lemma policies_loaded_of_list:
  "policies_loaded ms (hm_of_list (map (\<lambda>m. (cm_principal_id m, f m)) ms))"
proof -
  have "cm_principal_id m \<in> dom (map_of (hm_of_list (map (\<lambda>m. (cm_principal_id m, f m)) ms)))"
    if "m \<in> set ms" for m
    unfolding dom_hm_of_list using that by force
  then show ?thesis by (auto simp: policies_loaded_def list_all_iff)
qed

lemma prepare_routing_cases:
  assumes "inj_on cm_principal_id (set ms)"
  obtains (fail) e where "prepare_routing event mp ms = Fail e"
  | (ret) rt where "prepare_routing event mp ms = Ret rt"
      "rt_policies rt = event_policies event mp ms"
      "policies_loaded ms (rt_policies rt)"
      "dom (map_of (rt_plans rt)) = cm_principal_id ` set ms"
      "triggered (rt_plans rt) = event_targets event mp ms"
      "rt_trace_id rt = event_trace_id event" "hm_wf (rt_plans rt)"
proof -
  let ?load = "\<lambda>m. mp_get_agent_policy mp (cm_principal_id m) (ev_conversation_id event)"
  let ?entry = "\<lambda>m. exec_bind (exec_of_result (?load m)) (\<lambda>policy. Ret (cm_principal_id m, policy))
     :: (string \<times> agent_policy) router_exec"
  show thesis
  proof (cases "exec_map ?entry ms")
    case (Panic x)
    have "exec_map ?entry ms \<noteq> Panic x"
      by (induction ms) (auto simp: exec_bind_eq_Panic)
    with Panic show ?thesis by simp
  next
    case (Fail e)
    then show ?thesis by (intro fail [of e]) (simp add: prepare_routing_def Let_def)
  next
    case (Ret entries)
    have "\<exists>q. ?load m = Inr q" if "m \<in> set ms" for m
      using that Ret by (induction ms arbitrary: entries) (auto simp: exec_bind_eq_Ret)
    then have "exec_map ?entry ms = Ret (map (\<lambda>m. (cm_principal_id m,
        result_or \<lparr>ap_agent_id = [], ap_conversation_id = [], ap_auto_mode = MentionedOnly, ap_mention_aliases = []\<rparr>
          (?load m))) ms)"
      by (intro exec_map_Ret) (force simp: result_or_def)
    with Ret have entries: "hm_of_list entries = event_policies event mp ms"
      by (simp add: event_policies_def)
    have loaded: "policies_loaded ms (event_policies event mp ms)"
      unfolding event_policies_def by (rule policies_loaded_of_list)
    show ?thesis
    proof (cases "mp_get_conversation_routing_policy mp (ev_conversation_id event)")
      case (Inl e)
      with Ret show ?thesis by (intro fail [of e]) (simp add: prepare_routing_def Let_def)
    next
      case (Inr rp)
      let ?ps = "event_policies event mp ms"
      let ?direct = "(case mp_resolve_conversation_name mp (ev_conversation_id event) of
          Some n \<Rightarrow> n | None \<Rightarrow> take 8 (ev_conversation_id event)) = ''[DM]''"
      have targets: "event_targets event mp ms =
          route_targets_spec event mp ms ?ps (mention_candidates ms ?ps) rp ?direct"
        by (simp add: event_targets_def Let_def Inr result_or_def)
      consider (no_plan) e where "plan_routes event mp ms ?ps (mention_candidates ms ?ps) rp ?direct = Fail e"
        | (plan) plan where "plan_routes event mp ms ?ps (mention_candidates ms ?ps) rp ?direct = Ret plan"
            "dom (map_of plan) = cm_principal_id ` set ms" "triggered plan = event_targets event mp ms"
        using plan_routes_refines [OF loaded assms] unfolding targets by blast
      then show ?thesis
      proof cases
        case no_plan
        with Ret Inr entries show ?thesis
          by (intro fail [of e]) (simp add: prepare_routing_def Let_def)
      next
        case plan
        with Ret Inr entries show ?thesis
          by (rule_tac ret, simp add: prepare_routing_def Let_def) (simp_all add: loaded plan_routes_wf)
      qed
    qed
  qed
qed

context member_directory
begin

lemma members_inj:
  "wf_provider p \<Longrightarrow> mp_list_agent_members (provide p) cid = Inr ms \<Longrightarrow> inj_on cm_principal_id (set ms)"
  using members_distinct by (simp add: distinct_map)

lemma member_plan_planned:
  assumes "policies_loaded ms (rt_policies rt)" "dom (map_of (rt_plans rt)) = cm_principal_id ` set ms"
    and "m \<in> set ms"
  shows "member_plan event rt m = Ret (the (hm_get (rt_plans rt) (cm_principal_id m)))"
proof -
  from assms have "cm_principal_id m \<in> dom (map_of (rt_plans rt))" by blast
  then show ?thesis
    using policy_of_loaded [OF assms(1,3)] by (auto simp: member_plan_def)
qed

text \<open>The policy lookups and the fall-back of the loop are never exercised: no run panics.\<close>

lemma route_members_no_panic:
  assumes "policies_loaded all_ms (rt_policies rt)" "dom (map_of (rt_plans rt)) = cm_principal_id ` set all_ms"
    and "set ms \<subseteq> set all_ms"
  shows "no_panic (route_members RX event mp sink rt ms cache s)"
  using assms(3)
proof (induction ms arbitrary: cache s)
  case Nil
  then show ?case by simp
next
  case (Cons m ms)
  have "no_panic (route_member RX event mp sink rt m cache s)" for s
    using member_plan_planned [OF assms(1,2), of m] Cons.prems
    by (auto simp: route_member_def Let_def)
  with Cons show ?case by auto
qed

lemma route_event_no_panic:
  assumes "wf_provider p"
  shows "no_panic (route_event RX event (provide p) sink s)"
proof (cases "mp_list_agent_members (provide p) (ev_conversation_id event)")
  case (Inl e)
  then show ?thesis by (simp add: route_event_def no_panic_bind)
next
  case (Inr ms)
  show ?thesis
  proof (cases rule: prepare_routing_cases [OF members_inj [OF assms Inr], of event "provide p",
        case_names fail ret])
    case (fail e)
    with Inr show ?thesis by (auto simp: route_event_def)
  next
    case (ret rt)
    with Inr route_members_no_panic [of ms rt ms] show ?thesis by (auto simp: route_event_def)
  qed
qed

end

interpretation im: member_directory im_provider im_provider_wf
proof
  fix p cid ms
  assume wf: "im_provider_wf p" and "mp_list_agent_members (im_provider p) cid = Inr ms"
  then have ms: "ms = filter (\<lambda>m. cm_conversation_id m = cid \<and> cm_principal_type m = ''agent'' \<and>
      cm_left_at m = None) (im_members p)"
    by (simp add: im_provider_def im_list_agent_members_def)
  have "inj_on (\<lambda>m. (cm_conversation_id m, cm_principal_id m)) (set (im_members p))"
      "distinct (im_members p)"
    using wf by (simp_all add: im_provider_wf_def distinct_map)
  then show "distinct (map cm_principal_id ms)"
    by (auto simp: ms distinct_map inj_on_def)
  fix m
  assume "m \<in> set ms"
  then show "cm_conversation_id m = cid \<and> cm_principal_type m = ''agent'' \<and> cm_left_at m = None"
    by (simp add: ms)
next
  fix p a cid q
  assume "im_provider_wf p" "mp_get_agent_policy (im_provider p) a cid = Inr q"
  then show "ap_agent_id q = a \<and> ap_conversation_id q = cid"
    by (auto simp: im_provider_def im_get_agent_policy_def find_Some_iff split: option.splits)
qed

section \<open>The sink interface\<close>

text \<open>
  What a sink promises, through three views of its state: the message/agent pairs made visible,
  the decisions kept and the message/agent pairs with a command. A write that succeeds is recorded; a decision that is
  already recorded for the message and agent may be returned in place of the new one; nothing
  recorded is lost, and nothing but the written value is added.
\<close>

locale decision_log =
  fixes sink :: "'s decision_sink"
    and visible :: "'s \<Rightarrow> (string \<times> string) set"
    and decided :: "'s \<Rightarrow> route_decision set"
    and commanded :: "'s \<Rightarrow> (string \<times> string) set"
  assumes write_visibility: "ds_write_visibility sink v s = (Inr u, t) \<Longrightarrow>
      visible t = insert (mv_message_id v, mv_agent_id v) (visible s) \<and> decided t = decided s \<and>
      commanded t = commanded s"
    and write_decision: "ds_write_decision sink d s = (Inr d', t) \<Longrightarrow>
      visible t = visible s \<and> commanded t = commanded s \<and>
      decided s \<subseteq> decided t \<and> decided t \<subseteq> insert d (decided s) \<and> d' \<in> decided t \<and>
      rd_message_id d' = rd_message_id d \<and> rd_agent_id d' = rd_agent_id d"
    and write_command: "ds_write_command sink c s = (Inr u, t) \<Longrightarrow>
      visible t = visible s \<and> decided t = decided s \<and>
      commanded t = insert (ic_message_id c, ic_agent_id c) (commanded s)"
begin

text \<open>What the sink holds about one member once its round of the loop returned an outcome.\<close>

definition member_routed :: "conversation_event_row \<Rightarrow> 's \<Rightarrow> conversation_member \<Rightarrow> route_outcome \<Rightarrow> bool" where
  "member_routed event t m outcome \<longleftrightarrow>
     (if cm_principal_id m = ev_sender_id event then outcome = Skipped
      else (ev_event_id event, cm_principal_id m) \<in> visible t \<and>
        (\<exists>d\<in>decided t. rd_message_id d = ev_event_id event \<and> rd_agent_id d = cm_principal_id m \<and>
           outcome = (if rd_decision d = ''trigger'' then Triggered else Skipped)) \<and>
        (outcome = Triggered \<longrightarrow> (ev_event_id event, cm_principal_id m) \<in> commanded t))"

definition grows :: "'s \<Rightarrow> 's \<Rightarrow> bool" where
  "grows s t \<longleftrightarrow> visible s \<subseteq> visible t \<and> decided s \<subseteq> decided t \<and> commanded s \<subseteq> commanded t"

lemma member_routed_grows: "member_routed event s m oc \<Longrightarrow> grows s t \<Longrightarrow> member_routed event t m oc"
  unfolding member_routed_def grows_def by (auto split: if_splits)

lemma route_member_Ret:
  assumes "route_member RX event mp sink rt m cache s = (Ret (oc, cache'), t)"
    and "cm_principal_id m \<noteq> ev_sender_id event"
  shows "\<exists>plan d s1 s2 u. ds_write_visibility sink (event_visibility event m) s = (Inr u, s1) \<and>
    ds_write_decision sink (event_decision RX event m plan) s1 = (Inr d, s2) \<and>
    (if rd_decision d \<noteq> ''trigger'' then oc = Skipped \<and> t = s2
     else oc = Triggered \<and> (\<exists>prompt u. ds_write_command sink
            (event_command RX event m (rd_route_id d) (rt_trace_id rt) prompt) s2 = (Inr u, t)))"
  using assms by (fastforce simp: route_member_def st_bind_Ret Let_def split: if_split_asm)

lemma route_member_routed:
  assumes "route_member RX event mp sink rt m cache s = (Ret (oc, cache'), t)"
  shows "member_routed event t m oc \<and> grows s t"
proof (cases "cm_principal_id m = ev_sender_id event")
  case True
  with assms show ?thesis by (simp add: route_member_def member_routed_def grows_def)
next
  case False
  from route_member_Ret [OF assms False] obtain plan d s1 s2 u where
    w1: "ds_write_visibility sink (event_visibility event m) s = (Inr u, s1)"
    and w2: "ds_write_decision sink (event_decision RX event m plan) s1 = (Inr d, s2)"
    and rest: "if rd_decision d \<noteq> ''trigger'' then oc = Skipped \<and> t = s2
       else oc = Triggered \<and> (\<exists>prompt u. ds_write_command sink
              (event_command RX event m (rd_route_id d) (rt_trace_id rt) prompt) s2 = (Inr u, t))"
    by blast
  note v = write_visibility [OF w1] and dd = write_decision [OF w2]
  show ?thesis
  proof (cases "rd_decision d = ''trigger''")
    case True
    with rest obtain prompt u where oc: "oc = Triggered" and
      w3: "ds_write_command sink (event_command RX event m (rd_route_id d) (rt_trace_id rt) prompt) s2 = (Inr u, t)"
      by auto
    have "(ev_event_id event, cm_principal_id m) \<in> visible t" "d \<in> decided t"
        "(ev_event_id event, cm_principal_id m) \<in> commanded t" "grows s t"
      using v dd write_command [OF w3]
      by (auto simp: event_visibility_def event_command_def grows_def)
    moreover have "rd_message_id d = ev_event_id event" "rd_agent_id d = cm_principal_id m"
      using dd by (simp_all add: event_decision_def)
    ultimately show ?thesis using True False oc by (auto simp: member_routed_def)
  next
    case no: False
    with rest have "oc = Skipped" "t = s2" by auto
    with v dd no False show ?thesis
      by (auto simp: member_routed_def grows_def event_visibility_def event_decision_def)
  qed
qed

lemma grows_refl: "grows s s" and grows_trans: "grows s t \<Longrightarrow> grows t u \<Longrightarrow> grows s u"
  by (auto simp: grows_def)

lemma route_members_routed:
  "route_members RX event mp sink rt ms cache s = (Ret outcomes, t) \<Longrightarrow>
     list_all2 (member_routed event t) ms outcomes \<and> grows s t"
proof (induction ms arbitrary: cache s outcomes)
  case Nil
  then show ?case by (simp add: grows_refl)
next
  case (Cons m ms)
  then obtain oc ocs cache' u where
    m: "route_member RX event mp sink rt m cache s = (Ret (oc, cache'), u)"
    and ms: "route_members RX event mp sink rt ms cache' u = (Ret ocs, t)" and o: "outcomes = oc # ocs"
    by (auto simp: st_bind_Ret)
  from route_member_routed [OF m] Cons.IH [OF ms] show ?case
    by (auto simp: o intro: grows_trans member_routed_grows)
qed

lemma route_event_routed:
  assumes "route_event RX event mp sink s = (Ret outcomes, t)"
  obtains ms where "mp_list_agent_members mp (ev_conversation_id event) = Inr ms"
    "list_all2 (member_routed event t) ms outcomes" "grows s t"
proof -
  from assms obtain ms rt where ms: "mp_list_agent_members mp (ev_conversation_id event) = Inr ms"
    and run: "route_members RX event mp sink rt ms None s = (Ret outcomes, t)"
    by (auto simp: route_event_def st_bind_Ret)
  from ms route_members_routed [OF run] show thesis by (auto intro: that)
qed

end

definition im_visible :: "in_memory_decision_sink \<Rightarrow> (string \<times> string) set" where
  "im_visible s = (\<lambda>v. (mv_message_id v, mv_agent_id v)) ` set (visibilities s)"

definition im_commanded :: "in_memory_decision_sink \<Rightarrow> (string \<times> string) set" where
  "im_commanded s = (\<lambda>c. (ic_message_id c, ic_agent_id c)) ` set (commands s)"

interpretation im: decision_log im_sink im_visible "\<lambda>s. set (decisions s)" im_commanded
  by unfold_locales (auto simp: im_sink_def im_visible_def im_commanded_def)

section \<open>Routing into memory\<close>

text \<open>The members other than the sender, and the exact effect of the loop on the in-memory sink.\<close>

definition recipients :: "conversation_event_row \<Rightarrow> conversation_member list \<Rightarrow> conversation_member list" where
  "recipients event ms = filter (\<lambda>m. cm_principal_id m \<noteq> ev_sender_id event) ms"

definition planned :: "routing \<Rightarrow> conversation_member \<Rightarrow> planned_route" where
  "planned rt m = the (hm_get (rt_plans rt) (cm_principal_id m))"

definition planned_outcome :: "conversation_event_row \<Rightarrow> routing \<Rightarrow> conversation_member \<Rightarrow> route_outcome" where
  "planned_outcome event rt m =
     (if cm_principal_id m \<noteq> ev_sender_id event \<and> pr_should_trigger (planned rt m) then Triggered else Skipped)"

lemma im_route_member:
  assumes "member_plan event rt m = Ret (planned rt m)" "cm_principal_id m \<noteq> ev_sender_id event"
  shows "\<exists>cache' new. route_member RX event mp im_sink rt m cache s =
      (Ret (planned_outcome event rt m, cache'),
       s\<lparr>visibilities := visibilities s @ [event_visibility event m],
         decisions := decisions s @ [event_decision RX event m (planned rt m)],
         commands := commands s @ new\<rparr>) \<and>
      map ic_agent_id new = (if pr_should_trigger (planned rt m) then [cm_principal_id m] else []) \<and>
      list_all (\<lambda>c. ic_message_id c = ev_event_id event) new"
  using assms
  by (auto simp: route_member_def st_bind_def st_call_def st_lift_def st_ret_def im_sink_def Let_def
      event_decision_def planned_outcome_def event_command_def)

lemma im_route_members:
  assumes "\<And>m. m \<in> set ms \<Longrightarrow> member_plan event rt m = Ret (planned rt m)"
  shows "\<exists>new. route_members RX event mp im_sink rt ms cache s =
      (Ret (map (planned_outcome event rt) ms),
       s\<lparr>visibilities := visibilities s @ map (event_visibility event) (recipients event ms),
         decisions := decisions s @ map (\<lambda>m. event_decision RX event m (planned rt m)) (recipients event ms),
         commands := commands s @ new\<rparr>) \<and>
      map ic_agent_id new =
        map cm_principal_id (filter (\<lambda>m. pr_should_trigger (planned rt m)) (recipients event ms)) \<and>
      list_all (\<lambda>c. ic_message_id c = ev_event_id event) new"
  using assms
proof (induction ms arbitrary: cache s)
  case Nil
  then show ?case by (simp add: recipients_def)
next
  case (Cons m ms)
  show ?case
  proof (cases "cm_principal_id m = ev_sender_id event")
    case True
    then have "route_member RX event mp im_sink rt m cache s = (Ret (Skipped, cache), s)"
      by (simp add: route_member_def)
    with True Cons.IH [of cache s] Cons.prems show ?thesis
      by (auto simp: recipients_def planned_outcome_def)
  next
    case False
    with im_route_member [of event rt m RX mp cache s] Cons.prems obtain cache' new where
      m: "route_member RX event mp im_sink rt m cache s =
        (Ret (planned_outcome event rt m, cache'),
         s\<lparr>visibilities := visibilities s @ [event_visibility event m],
           decisions := decisions s @ [event_decision RX event m (planned rt m)],
           commands := commands s @ new\<rparr>)"
        "map ic_agent_id new = (if pr_should_trigger (planned rt m) then [cm_principal_id m] else [])"
        "list_all (\<lambda>c. ic_message_id c = ev_event_id event) new"
      by auto
    let ?s = "s\<lparr>visibilities := visibilities s @ [event_visibility event m],
           decisions := decisions s @ [event_decision RX event m (planned rt m)],
           commands := commands s @ new\<rparr>"
    from Cons.IH [of cache' ?s] Cons.prems obtain new' where
      ms: "route_members RX event mp im_sink rt ms cache' ?s =
        (Ret (map (planned_outcome event rt) ms),
         ?s\<lparr>visibilities := visibilities ?s @ map (event_visibility event) (recipients event ms),
           decisions := decisions ?s @ map (\<lambda>m. event_decision RX event m (planned rt m)) (recipients event ms),
           commands := commands ?s @ new'\<rparr>)"
        "map ic_agent_id new' =
          map cm_principal_id (filter (\<lambda>m. pr_should_trigger (planned rt m)) (recipients event ms))"
        "list_all (\<lambda>c. ic_message_id c = ev_event_id event) new'"
      by auto
    show ?thesis
      using m(2,3) ms(2,3) False
      by (intro exI [of _ "new @ new'"]) (simp add: m(1) ms(1) recipients_def)
  qed
qed

lemma im_provider_answers:
  "mp_list_agent_members (im_provider p) cid = Inr (filter (\<lambda>m. cm_conversation_id m = cid \<and>
      cm_principal_type m = ''agent'' \<and> cm_left_at m = None) (im_members p))"
  "mp_find_workflow_task (im_provider p) cid i k \<noteq> Inl e"
  "mp_list_workflow_task_participants (im_provider p) t \<noteq> Inl e"
  "mp_resolve_principal_type (im_provider p) a cid \<noteq> Inl e"
  "mp_get_agent_policy (im_provider p) a cid \<noteq> Inl e"
  "mp_get_conversation_routing_policy (im_provider p) cid \<noteq> Inl e"
  by (simp_all add: im_provider_def im_list_agent_members_def im_find_workflow_task_def Let_def
      im_list_workflow_task_participants_def im_resolve_principal_type_def im_get_agent_policy_def
      im_get_conversation_routing_policy_def split: option.splits)

lemma im_prepare_routing_not_Fail: "prepare_routing event (im_provider p) ms \<noteq> Fail e"
proof -
  have "exec_map (\<lambda>m. exec_bind (exec_of_result (mp_get_agent_policy (im_provider p) (cm_principal_id m)
      (ev_conversation_id event))) (\<lambda>policy. Ret (cm_principal_id m, policy))) ms \<noteq> Fail e"
    by (rule exec_map_not_Fail) (simp add: exec_bind_eq_Fail im_provider_answers)
  then show ?thesis
    by (auto simp: prepare_routing_def Let_def exec_bind_eq_Fail im_provider_answers
        dest!: plan_routes_Fail)
qed

text \<open>
  C4: routing an event. With the in-memory provider and sink, routing always returns. Every agent
  member but the sender gets exactly one visibility record, one decision and one outcome, in member
  order, and the commands written are exactly one per agent that the routing specification selects
  (explicit mention, then explicit metadata target, then workflow role, then the conversation's
  untagged-human mode, then the agent's own policy), never one for the sender.
\<close>

theorem im_route_event_exact:
  assumes "im_provider_wf p"
    and "im_list_agent_members p (ev_conversation_id event) = Inr ms"
  shows "\<exists>outcomes t new.
     route_event RX event (im_provider p) im_sink s = (Ret outcomes, t) \<and>
     visibilities t = visibilities s @ map (event_visibility event) (recipients event ms) \<and>
     map (\<lambda>d. (rd_agent_id d, rd_decision d = ''trigger'')) (decisions t) =
       map (\<lambda>d. (rd_agent_id d, rd_decision d = ''trigger'')) (decisions s) @
       map (\<lambda>m. (cm_principal_id m, cm_principal_id m \<in> event_targets event (im_provider p) ms))
         (recipients event ms) \<and>
     commands t = commands s @ new \<and>
     map ic_agent_id new =
       filter (\<lambda>a. a \<in> event_targets event (im_provider p) ms) (map cm_principal_id (recipients event ms)) \<and>
     list_all (\<lambda>c. ic_message_id c = ev_event_id event) new \<and>
     outcomes = map (\<lambda>m. if cm_principal_id m \<noteq> ev_sender_id event \<and>
          cm_principal_id m \<in> event_targets event (im_provider p) ms then Triggered else Skipped) ms"
proof -
  let ?mp = "im_provider p"
  from assms(2) have ms: "mp_list_agent_members ?mp (ev_conversation_id event) = Inr ms"
    by (simp add: im_provider_def)
  obtain rt where rt: "prepare_routing event ?mp ms = Ret rt"
      "policies_loaded ms (rt_policies rt)" "dom (map_of (rt_plans rt)) = cm_principal_id ` set ms"
      "triggered (rt_plans rt) = event_targets event ?mp ms" "hm_wf (rt_plans rt)"
    using prepare_routing_cases [OF im.members_inj [OF assms(1) ms], of event ?mp]
      im_prepare_routing_not_Fail by metis
  have plan: "member_plan event rt m = Ret (planned rt m)"
    and target: "pr_should_trigger (planned rt m) \<longleftrightarrow> cm_principal_id m \<in> event_targets event ?mp ms"
    if "m \<in> set ms" for m
  proof -
    show "member_plan event rt m = Ret (planned rt m)"
      unfolding planned_def by (rule im.member_plan_planned [OF rt(2,3) that])
    from that rt(3) have "cm_principal_id m \<in> dom (map_of (rt_plans rt))" by blast
    then show "pr_should_trigger (planned rt m) \<longleftrightarrow> cm_principal_id m \<in> event_targets event ?mp ms"
      unfolding rt(4) [symmetric] in_triggered [OF rt(5)] by (auto simp: planned_def)
  qed
  obtain new where run: "route_members RX event ?mp im_sink rt ms None s =
      (Ret (map (planned_outcome event rt) ms),
       s\<lparr>visibilities := visibilities s @ map (event_visibility event) (recipients event ms),
         decisions := decisions s @ map (\<lambda>m. event_decision RX event m (planned rt m)) (recipients event ms),
         commands := commands s @ new\<rparr>)"
      "map ic_agent_id new =
        map cm_principal_id (filter (\<lambda>m. pr_should_trigger (planned rt m)) (recipients event ms))"
      "list_all (\<lambda>c. ic_message_id c = ev_event_id event) new"
    using im_route_members [of ms event rt RX ?mp None s] plan by blast
  have "map ic_agent_id new =
      filter (\<lambda>a. a \<in> event_targets event ?mp ms) (map cm_principal_id (recipients event ms))"
    unfolding run(2) filter_map comp_def
    by (rule arg_cong [where f = "map cm_principal_id"], rule filter_cong [OF refl])
       (simp add: target recipients_def)
  moreover have "map (planned_outcome event rt) ms =
      map (\<lambda>m. if cm_principal_id m \<noteq> ev_sender_id event \<and> cm_principal_id m \<in> event_targets event ?mp ms
        then Triggered else Skipped) ms"
    by (simp add: planned_outcome_def target)
  moreover have "map (\<lambda>d. (rd_agent_id d, rd_decision d = ''trigger''))
        (map (\<lambda>m. event_decision RX event m (planned rt m)) (recipients event ms)) =
      map (\<lambda>m. (cm_principal_id m, cm_principal_id m \<in> event_targets event ?mp ms)) (recipients event ms)"
    by (simp add: event_decision_def target recipients_def)
  moreover have "route_event RX event ?mp im_sink s = route_members RX event ?mp im_sink rt ms None s"
    by (simp add: route_event_def ms rt(1))
  ultimately show ?thesis using run(1,3) by simp
qed

text \<open>A small conversation: three agents, a coordinator-only policy, one all-messages agent.\<close>

definition demo_member :: "string \<Rightarrow> string \<Rightarrow> conversation_member" where
  "demo_member i n = \<lparr>cm_conversation_id = ''conv-1'', cm_principal_id = i, cm_principal_type = ''agent'',
     cm_display_name = Some n, cm_joined_at = 0, cm_left_at = None\<rparr>"

definition demo_members :: "conversation_member list" where
  "demo_members = [demo_member ''agent-1'' ''Lead'', demo_member ''agent-2'' ''Coder'', demo_member ''agent-3'' ''Sally'']"

definition demo_provider :: in_memory_member_provider where
  "demo_provider =
     \<lparr>im_members = demo_members,
      im_policies = [\<lparr>ap_agent_id = ''agent-3'', ap_conversation_id = ''conv-1'', ap_auto_mode = AllMessages,
                      ap_mention_aliases = []\<rparr>],
      im_principal_types = [(''user-1'', ''human'')],
      im_conversation_policies = [\<lparr>rp_conversation_id = ''conv-1'',
         rp_default_coordinator_agent_id = Some ''agent-1'', rp_untagged_human_mode = CoordinatorOnly\<rparr>],
      im_workflow_tasks = [], im_workflow_participants = [], im_workflow_task_titles = []\<rparr>"

definition demo_event :: "string \<Rightarrow> conversation_event_row" where
  "demo_event content =
     \<lparr>ev_conversation_id = ''conv-1'', ev_seq = 7, ev_event_id = ''msg-7'', ev_event_type = ''message'',
      ev_sender_id = ''user-1'', ev_content = Some content, ev_content_type = ''text'',
      ev_metadata = jobj [], ev_client_msg_id = None, ev_turn_id = None, ev_reply_event_id = None,
      ev_created_at = 0\<rparr>"

definition demo_router_env :: router_env where
  "demo_router_env = \<lparr>rx_sha256 = (\<lambda>bs. take 32 (rev bs @ replicate 32 0)), rx_uuid_text = map (\<lambda>b. char_of (unat b)),
     rx_json_text = (\<lambda>j. Some ''json'')\<rparr>"

definition demo_sink :: in_memory_decision_sink where
  "demo_sink = \<lparr>visibilities = [], decisions = [], commands = []\<rparr>"

text \<open>An untagged human message wakes only the coordinator; a mention overrides that.\<close>

theorem im_route_event_exact_witness:
  "event_targets (demo_event ''status please'') (im_provider demo_provider) demo_members = {''agent-1''} \<and>
   event_targets (demo_event ''@Coder fix it'') (im_provider demo_provider) demo_members = {''agent-2''} \<and>
   (\<exists>t new. route_event demo_router_env (demo_event ''status please'') (im_provider demo_provider) im_sink demo_sink =
      (Ret [Triggered, Skipped, Skipped], t) \<and> commands t = new \<and> map ic_agent_id new = [''agent-1''])"
proof -
  let ?ev = "demo_event ''status please''"
  have wf: "im_provider_wf demo_provider" by code_simp
  have ms: "im_list_agent_members demo_provider (ev_conversation_id ?ev) = Inr demo_members" by code_simp
  have targets: "event_targets ?ev (im_provider demo_provider) demo_members = {''agent-1''}"
      "event_targets (demo_event ''@Coder fix it'') (im_provider demo_provider) demo_members = {''agent-2''}"
    by code_simp+
  have ids: "map cm_principal_id (recipients ?ev demo_members) = [''agent-1'', ''agent-2'', ''agent-3'']"
    by code_simp
  have outcomes: "map (\<lambda>m. if cm_principal_id m \<noteq> ev_sender_id ?ev \<and> cm_principal_id m \<in> {''agent-1''}
      then Triggered else Skipped) demo_members = [Triggered, Skipped, Skipped]"
    by code_simp
  have woken: "filter (\<lambda>a. a \<in> {''agent-1''}) [''agent-1'', ''agent-2'', ''agent-3''] = [''agent-1'']"
    by simp
  from im_route_event_exact [OF wf ms, of demo_router_env demo_sink, unfolded targets ids woken outcomes]
  show ?thesis unfolding targets by (auto simp: demo_sink_def)
qed

text \<open>
  No panic. Whatever the event, the policies and the sink, routing never reaches the
  \<^verbatim>\<open>expect\<close> calls of the planner and the loop: every agent member has a loaded policy and a
  planned route, so the loop's fall-back entry is never used.
\<close>

theorem route_event_never_panics:
  assumes "im_provider_wf p"
  shows "fst (route_event RX event (im_provider p) sink s) \<noteq> Panic msg"
  by (rule no_panicD, rule im.route_event_no_panic [OF assms])

theorem route_event_never_panics_witness:
  "im_provider_wf demo_provider \<and>
   fst (route_event demo_router_env (demo_event ''@all hi'') (im_provider demo_provider) im_sink demo_sink) \<noteq> Panic ''x''"
proof -
  have wf: "im_provider_wf demo_provider" by code_simp
  then show ?thesis
    using route_event_never_panics [OF wf, of demo_router_env "demo_event ''@all hi''" im_sink demo_sink "''x''"] by simp
qed

section \<open>Identifiers and the envelope\<close>

lemma of_char_word_inj: "(of_char c :: 8 word) = of_char d \<longleftrightarrow> c = d"
proof -
  have lt: "(of_char c :: nat) < 256" for c
    by (cases c) (simp add: of_char_def)
  have "unat (of_char c :: 8 word) = of_char c" for c
    unfolding of_nat_of_char [symmetric, where 'a = "8 word"]
    using lt [of c] by (simp add: unsigned_of_nat take_bit_nat_eq_self del: of_nat_of_char)
  then show ?thesis by (metis of_char_eq_iff)
qed

lemma as_bytes_inj: "as_bytes s = as_bytes t \<longleftrightarrow> s = t"
  unfolding as_bytes_def by (rule inj_map_eq_map) (simp add: inj_def of_char_word_inj)

lemma as_bytes_no_zero: "CHR 0x00 \<notin> set s \<Longrightarrow> 0 \<notin> set (as_bytes s)"
proof
  assume "CHR 0x00 \<notin> set s" "0 \<in> set (as_bytes s)"
  moreover have "(of_char (CHR 0x00) :: 8 word) = 0" by simp
  ultimately show False unfolding as_bytes_def by (metis (no_types, lifting) image_iff list.set_map of_char_word_inj)
qed

lemma separator_split:
  "0 \<notin> set a \<Longrightarrow> 0 \<notin> set c \<Longrightarrow> a @ (0 :: 8 word) # b = c @ 0 # d \<longleftrightarrow> a = c \<and> b = d"
  by (induction a arbitrary: c) (case_tac c; auto)+

text \<open>
  Stable identifiers. The hashed text of a stable identifier determines the kind, the message
  and the agent, so the route, command and turn ids of different agents or messages differ unless
  the hash collides; identifiers without a NUL character are assumed, as UUIDs are.
\<close>

theorem stable_id_preimage_injective:
  assumes "CHR 0x00 \<notin> set kind" "CHR 0x00 \<notin> set kind'" "CHR 0x00 \<notin> set msg" "CHR 0x00 \<notin> set msg'"
  shows "stable_id_preimage kind msg agent = stable_id_preimage kind' msg' agent' \<longleftrightarrow>
         kind = kind' \<and> msg = msg' \<and> agent = agent'"
  using assms
  by (simp add: stable_id_preimage_def separator_split as_bytes_no_zero as_bytes_inj)

theorem stable_id_preimage_injective_witness:
  "stable_id_preimage ''route'' ''msg-7'' ''agent-1'' \<noteq> stable_id_preimage ''turn'' ''msg-7'' ''agent-1''"
  using stable_id_preimage_injective [of "''route''" "''turn''" "''msg-7''" "''msg-7''" "''agent-1''" "''agent-1''"] by simp

lemma sanitize_assigned_task_title_bounds:
  "length (sanitize_assigned_task_title t) \<le> 120 \<and>
   list_all (\<lambda>ch. \<not> is_control ch \<and> ch \<noteq> CHR ''|'') (sanitize_assigned_task_title t)"
  by (auto simp: sanitize_assigned_task_title_def list_all_iff dest!: in_set_takeD)

end
