(* ===== verification/Session_Store.thy ===== *)
theory Session_Store
  imports Session_Models Router_Models "HOL-Library.Product_Lexorder"
begin

text \<open>
  The session store, \<^verbatim>\<open>crates/choruz-session/src/store.rs\<close>: the tables it keeps
  (\<^verbatim>\<open>migrations/V001__message_pipeline_schema.sql\<close>) as a state record and one definition per
  operation. A table is an association list keyed by its primary key. An operation is one
  transaction (the rows it reads are locked until it commits), so it is a function from the tables
  before to the tables after; an operation that rolls back leaves the tables as they were. SQL
  comparisons with NULL are false, \<^verbatim>\<open>INT\<close> overflow is a database error, and ties of an
  \<^verbatim>\<open>ORDER BY\<close> that the query leaves open keep table order.
\<close>

section \<open>Tables\<close>

record runtime_binding =
  rb_id :: string
  rb_agent_principal_id :: string
  rb_driver_type :: string
  rb_workspace_path :: string
  rb_external_session_id :: "string option"
  rb_state :: string
  rb_config_json :: json
  rb_updated_at :: timestamp

record session_db = world +
  session_registry :: "(string, session) hash_map"
  agent_commands :: "(string, agent_command) hash_map"
  dead_letters :: "dead_letter list"
  disabled_principals :: "string list"
  agent_runtime_bindings :: "runtime_binding list"
  revoked_hosts :: "string list"
  executors :: "(string, executor) hash_map"

definition hm_adjust :: "'k \<Rightarrow> ('v \<Rightarrow> 'v) \<Rightarrow> ('k, 'v) hash_map \<Rightarrow> ('k, 'v) hash_map" where
  "hm_adjust k f m = (case hm_get m k of None \<Rightarrow> m | Some v \<Rightarrow> hm_insert k (f v) m)"

definition set_session :: "string \<Rightarrow> (session \<Rightarrow> session) \<Rightarrow> session_db \<Rightarrow> session_db" where
  "set_session key f s = s\<lparr>session_registry := hm_adjust key f (session_registry s)\<rparr>"

definition set_command :: "string \<Rightarrow> (agent_command \<Rightarrow> agent_command) \<Rightarrow> session_db \<Rightarrow> session_db" where
  "set_command cid f s = s\<lparr>agent_commands := hm_adjust cid f (agent_commands s)\<rparr>"

definition get_command :: "string \<Rightarrow> session_db \<Rightarrow> agent_command option" where
  "get_command cid s = hm_get (agent_commands s) cid"

definition get_session :: "string \<Rightarrow> session_db \<Rightarrow> session option" where
  "get_session key s = hm_get (session_registry s) key"

definition command_rows :: "session_db \<Rightarrow> agent_command list" where
  "command_rows s = hm_values (agent_commands s)"

text \<open>\<^verbatim>\<open>current_epoch = (SELECT epoch FROM session_registry WHERE session_key = ...)\<close>\<close>

definition owns_epoch :: "session_db \<Rightarrow> agent_command \<Rightarrow> bool" where
  "owns_epoch s c \<longleftrightarrow>
     (case get_session (ac_session_key c) s of
        None \<Rightarrow> False
      | Some se \<Rightarrow> ac_current_epoch c = Some (se_epoch se))"

definition owns_attempt :: "session_db \<Rightarrow> agent_command \<Rightarrow> string \<Rightarrow> bool" where
  "owns_attempt s c attempt_id \<longleftrightarrow> ac_current_attempt_id c = Some attempt_id \<and> owns_epoch s c"

definition sql_limit :: "int \<Rightarrow> 'a list \<Rightarrow> 'a list session_result" where
  "sql_limit n xs = (if n < 0 then Inl (Database ''LIMIT must not be negative (2201W)'') else Inr (take (nat n) xs))"

definition INT4_MAX :: int where
  "INT4_MAX = 2147483647"

definition int4_overflow :: session_error where
  "int4_overflow = Database ''integer out of range (22003)''"

section \<open>Sessions\<close>

definition upsert_session ::
  "env \<Rightarrow> string \<Rightarrow> string \<Rightarrow> string \<Rightarrow> session_db \<Rightarrow> session session_result \<times> session_db" where
  "upsert_session E session_key agent_id conversation_id s =
     (let (nw, s) = now E s;
          se = (case get_session session_key s of
                  Some old \<Rightarrow> old\<lparr>se_updated_at := nw\<rparr>
                | None \<Rightarrow> \<lparr>se_session_key = session_key, se_agent_id = agent_id,
                     se_conversation_id = conversation_id, se_executor_node_id = None, se_epoch = 0,
                     se_status = Idle, se_workspace_snapshot_id = None, se_memory_context_id = None,
                     se_last_heartbeat_at = None, se_created_at = nw, se_updated_at = nw\<rparr>)
      in (Inr se, s\<lparr>session_registry := hm_insert session_key se (session_registry s)\<rparr>))"

definition update_session :: "env \<Rightarrow> session_update \<Rightarrow> session_db \<Rightarrow> unit session_result \<times> session_db" where
  "update_session E update s =
     (let (nw, s) = now E s in
      case get_session (su_session_key update) s of
        None \<Rightarrow> (Inl (SessionNotFound (su_session_key update)), s)
      | Some _ \<Rightarrow>
          (Inr (), set_session (su_session_key update)
             (\<lambda>se. se\<lparr>se_updated_at := nw,
                     se_executor_node_id :=
                       (case su_executor_node_id update of Some v \<Rightarrow> v | None \<Rightarrow> se_executor_node_id se),
                     se_status := (case su_status update of Some v \<Rightarrow> v | None \<Rightarrow> se_status se),
                     se_last_heartbeat_at :=
                       (case su_last_heartbeat_at update of Some v \<Rightarrow> v | None \<Rightarrow> se_last_heartbeat_at se)\<rparr>) s))"

definition update_session_heartbeat_for_epoch ::
  "env \<Rightarrow> string \<Rightarrow> int \<Rightarrow> session_db \<Rightarrow> unit session_result \<times> session_db" where
  "update_session_heartbeat_for_epoch E session_key expected_epoch s =
     (let (nw, s) = now E s in
      case get_session session_key s of
        None \<Rightarrow> (Inl (SessionNotFound session_key), s)
      | Some se \<Rightarrow>
          if se_epoch se \<noteq> expected_epoch then (Inl (EpochMismatch expected_epoch (se_epoch se)), s)
          else if se_status se \<noteq> Active
          then (Inl (SessionInactive session_key (session_status_as_str (se_status se))), s)
          else (Inr (), set_session session_key
                  (\<lambda>se. se\<lparr>se_last_heartbeat_at := Some nw, se_updated_at := nw\<rparr>) s))"

definition validate_epoch :: "string \<Rightarrow> int \<Rightarrow> session_db \<Rightarrow> bool session_result" where
  "validate_epoch session_key expected_epoch s =
     (case get_session session_key s of
        None \<Rightarrow> Inl (SessionNotFound session_key)
      | Some se \<Rightarrow> Inr (se_epoch se = expected_epoch))"

text \<open>
  The epoch bump every lease makes: \<^verbatim>\<open>UPDATE session_registry SET epoch = epoch + 1,
  executor_node_id, status = 'active', ... RETURNING epoch\<close>.
\<close>

definition lease_session ::
  "timestamp \<Rightarrow> string \<Rightarrow> string \<Rightarrow> session_db \<Rightarrow> int session_result \<times> session_db" where
  "lease_session nw executor_node_id session_key s =
     (case get_session session_key s of
        None \<Rightarrow> (Inl (SessionNotFound session_key), s)
      | Some se \<Rightarrow>
          if se_epoch se = INT4_MAX then (Inl int4_overflow, s)
          else (Inr (se_epoch se + 1),
                set_session session_key
                  (\<lambda>se. se\<lparr>se_epoch := se_epoch se + 1, se_executor_node_id := Some executor_node_id,
                          se_status := Active, se_last_heartbeat_at := Some nw, se_updated_at := nw\<rparr>) s))"

definition release_session_if_no_active_commands ::
  "string \<Rightarrow> int option \<Rightarrow> timestamp \<Rightarrow> session_db \<Rightarrow> session_db" where
  "release_session_if_no_active_commands session_key command_epoch nw s =
     (case get_session session_key s of
        None \<Rightarrow> s
      | Some se \<Rightarrow>
          if (case command_epoch of None \<Rightarrow> True | Some e \<Rightarrow> se_epoch se = e) \<and>
             \<not> list_ex (\<lambda>c. ac_session_key c = session_key \<and> is_active (ac_status c)) (command_rows s)
          then set_session session_key
                 (\<lambda>se. se\<lparr>se_status := Idle, se_executor_node_id := None,
                         se_last_heartbeat_at := None, se_updated_at := nw\<rparr>) s
          else s)"

section \<open>Inserting commands\<close>

text \<open>The most recently updated binding of an agent: \<^verbatim>\<open>ORDER BY updated_at DESC LIMIT 1\<close>.\<close>

definition latest_binding :: "string \<Rightarrow> session_db \<Rightarrow> runtime_binding option" where
  "latest_binding agent_id s =
     (case sort_key (\<lambda>b. - rb_updated_at b)
             (filter (\<lambda>b. rb_agent_principal_id b = agent_id) (agent_runtime_bindings s)) of
        [] \<Rightarrow> None | b # _ \<Rightarrow> Some b)"

definition runtime_host_metadata :: "string \<Rightarrow> json \<Rightarrow> session_db \<Rightarrow> json session_result" where
  "runtime_host_metadata agent_id metadata s =
     (if agent_id \<in> set (disabled_principals s) then Inl (SessionConflict ''agent is disabled'')
      else
        (let binding = latest_binding agent_id s;
             host = Option.bind binding (\<lambda>b. get_str (rb_config_json b) ''runtime_host_id'')
         in if (case binding of None \<Rightarrow> False | Some b \<Rightarrow> rb_state b = ''disabled'') \<or>
               (case host of None \<Rightarrow> False | Some h \<Rightarrow> h \<in> set (revoked_hosts s))
            then Inl (SessionConflict
              ''agent execution is disabled; select an available device before starting new work'')
            else case metadata of
              JObj m \<Rightarrow>
                Inr (case host of
                       Some h \<Rightarrow> JObj (bt_insert ''runtime_host_id'' (JStr h) m)
                     | None \<Rightarrow> JObj m)
            | _ \<Rightarrow> Inl (SessionInternal ''agent command metadata must be a JSON object'')))"

definition command_of_input :: "insert_command \<Rightarrow> json \<Rightarrow> timestamp \<Rightarrow> agent_command" where
  "command_of_input input metadata nw =
     \<lparr>ac_command_id = ic_command_id input, ac_route_id = ic_route_id input,
      ac_session_key = ic_session_key input, ac_agent_id = ic_agent_id input,
      ac_conversation_id = ic_conversation_id input, ac_message_id = ic_message_id input,
      ac_turn_id = ic_turn_id input, ac_status = Pending, ac_current_attempt_id = None,
      ac_current_epoch = None, ac_attempt_count = 0, ac_max_attempts = ic_max_attempts input,
      ac_prompt = ic_prompt input, ac_metadata = metadata, ac_next_retry_at = None,
      ac_last_error = None, ac_created_at = nw, ac_updated_at = nw\<rparr>"

definition find_by_message_agent :: "string \<Rightarrow> string \<Rightarrow> session_db \<Rightarrow> agent_command option" where
  "find_by_message_agent message_id agent_id s =
     find (\<lambda>c. ac_message_id c = message_id \<and> ac_agent_id c = agent_id) (command_rows s)"

definition unique_violation :: "insert_command \<Rightarrow> session_db \<Rightarrow> string option" where
  "unique_violation input s =
     (if get_command (ic_command_id input) s \<noteq> None then Some ''agent_commands_pkey''
      else if list_ex (\<lambda>c. ac_route_id c = ic_route_id input) (command_rows s)
      then Some ''agent_commands_route_id_key''
      else if list_ex (\<lambda>c. ac_turn_id c = ic_turn_id input) (command_rows s)
      then Some ''agent_commands_turn_id_key''
      else None)"

definition insert_command ::
  "env \<Rightarrow> insert_command \<Rightarrow> session_db \<Rightarrow> agent_command session_result \<times> session_db" where
  "insert_command E input s =
     (let (nw, s) = now E s in
      case find_by_message_agent (ic_message_id input) (ic_agent_id input) s of
        Some existing \<Rightarrow> (Inr existing, s)
      | None \<Rightarrow>
          (case runtime_host_metadata (ic_agent_id input) (ic_metadata input) s of
             Inl e \<Rightarrow> (Inl e, s)
           | Inr metadata \<Rightarrow>
               (case unique_violation input s of
                  Some constraint \<Rightarrow>
                    (Inl (SessionConflict
                       (''duplicate key value violates unique constraint '' @ constraint)), s)
                | None \<Rightarrow>
                    (let c = command_of_input input metadata nw
                     in (Inr c, s\<lparr>agent_commands := hm_insert (ac_command_id c) c (agent_commands s)\<rparr>)))))"

section \<open>Queries\<close>

definition find_active_command_for_session :: "string \<Rightarrow> session_db \<Rightarrow> agent_command option" where
  "find_active_command_for_session session_key s =
     (case sort_key (\<lambda>c. - ac_created_at c)
             (filter (\<lambda>c. ac_session_key c = session_key \<and> is_active (ac_status c)) (command_rows s)) of
        [] \<Rightarrow> None | c # _ \<Rightarrow> Some c)"

definition queue_key :: "agent_command \<Rightarrow> timestamp \<times> string" where
  "queue_key c = (ac_created_at c, ac_command_id c)"

definition find_active_command_for_agent :: "string \<Rightarrow> string \<Rightarrow> session_db \<Rightarrow> agent_command option" where
  "find_active_command_for_agent conversation_id agent_id s =
     (case sort_key queue_key
             (filter (\<lambda>c. ac_conversation_id c = conversation_id \<and> ac_agent_id c = agent_id \<and>
                       is_active (ac_status c)) (command_rows s)) of
        [] \<Rightarrow> None | c # _ \<Rightarrow> Some c)"

definition count_queued_commands_for_agent :: "string \<Rightarrow> string \<Rightarrow> session_db \<Rightarrow> int" where
  "count_queued_commands_for_agent conversation_id agent_id s =
     int (length (filter (\<lambda>c. ac_conversation_id c = conversation_id \<and> ac_agent_id c = agent_id \<and>
                     ac_status c \<in> set [Pending, RetryScheduled]) (command_rows s)))"

definition runtime_status_command_from_command :: "agent_command \<Rightarrow> timestamp \<Rightarrow> runtime_status_command" where
  "runtime_status_command_from_command c nw =
     \<lparr>rs_command_id = ac_command_id c, rs_message_id = ac_message_id c, rs_turn_id = ac_turn_id c,
      rs_status = command_status_as_str (ac_status c), rs_created_at = ac_created_at c,
      rs_updated_at = ac_updated_at c,
      rs_lease_age_seconds = (let d = nw - ac_updated_at c in if d < 0 then 0 else d div 1000000000),
      rs_attempt_count = ac_attempt_count c, rs_last_error = ac_last_error c\<rparr>"

definition last_error_for_agent :: "string \<Rightarrow> string \<Rightarrow> session_db \<Rightarrow> string option" where
  "last_error_for_agent conversation_id agent_id s =
     (case rev (sort_key (\<lambda>c. (ac_updated_at c, ac_created_at c, ac_command_id c))
             (filter (\<lambda>c. ac_conversation_id c = conversation_id \<and> ac_agent_id c = agent_id \<and>
                       ac_last_error c \<noteq> None) (command_rows s))) of
        [] \<Rightarrow> None | c # _ \<Rightarrow> ac_last_error c)"

definition list_runtime_status_for_agents ::
  "string \<Rightarrow> string list \<Rightarrow> timestamp \<Rightarrow> session_db \<Rightarrow> agent_runtime_status list" where
  "list_runtime_status_for_agents conversation_id agent_ids nw s =
     map (\<lambda>agent_id.
       let active_command = map_option (\<lambda>c. runtime_status_command_from_command c nw)
             (find_active_command_for_agent conversation_id agent_id s);
           queued_count = count_queued_commands_for_agent conversation_id agent_id s;
           status = (if active_command \<noteq> None then ''busy'' else if queued_count > 0 then ''queued'' else ''idle'');
           last_error = (case Option.bind active_command rs_last_error of
                           Some e \<Rightarrow> Some e | None \<Rightarrow> last_error_for_agent conversation_id agent_id s)
       in \<lparr>ars_conversation_id = conversation_id, ars_agent_id = agent_id, ars_status = status,
           ars_active_command = active_command, ars_queued_count = queued_count,
           ars_last_error = last_error\<rparr>) agent_ids"

definition command_attempt_is_current :: "string \<Rightarrow> string \<Rightarrow> session_db \<Rightarrow> bool" where
  "command_attempt_is_current command_id attempt_id s =
     (case get_command command_id s of None \<Rightarrow> False | Some c \<Rightarrow> owns_attempt s c attempt_id)"

text \<open>Pending commands: a hot agent's second command waits for every idle agent's first.\<close>

definition on_runtime_host :: "agent_command \<Rightarrow> bool" where
  "on_runtime_host c \<longleftrightarrow> json_get (ac_metadata c) ''runtime_host_id'' \<noteq> None"

definition blocking :: "command_status \<Rightarrow> bool" where
  "blocking st \<longleftrightarrow> is_active st \<or> st = RetryScheduled"

definition eligible_commands :: "session_db \<Rightarrow> agent_command list" where
  "eligible_commands s =
     filter (\<lambda>c. ac_status c = Pending \<and> \<not> on_runtime_host c \<and>
               \<not> list_ex (\<lambda>c2. ac_agent_id c2 = ac_agent_id c \<and> blocking (ac_status c2)) (command_rows s))
       (command_rows s)"

definition agent_queue_position :: "session_db \<Rightarrow> agent_command \<Rightarrow> nat" where
  "agent_queue_position s c =
     Suc (length (filter (\<lambda>d. ac_agent_id d = ac_agent_id c \<and> queue_key d < queue_key c) (eligible_commands s)))"

definition find_pending_commands :: "int \<Rightarrow> session_db \<Rightarrow> agent_command list session_result" where
  "find_pending_commands limit s =
     sql_limit limit (sort_key (\<lambda>c. (agent_queue_position s c, queue_key c)) (eligible_commands s))"

definition retry_due :: "timestamp \<Rightarrow> agent_command \<Rightarrow> bool" where
  "retry_due nw c \<longleftrightarrow> ac_status c = RetryScheduled \<and>
     (case ac_next_retry_at c of None \<Rightarrow> False | Some t \<Rightarrow> t \<le> nw) \<and>
     ac_attempt_count c < ac_max_attempts c"

definition find_retriable_commands :: "timestamp \<Rightarrow> int \<Rightarrow> session_db \<Rightarrow> agent_command list session_result" where
  "find_retriable_commands nw limit s =
     sql_limit limit (sort_key (\<lambda>c. case ac_next_retry_at c of Some t \<Rightarrow> t | None \<Rightarrow> 0)
       (filter (\<lambda>c. retry_due nw c \<and> \<not> on_runtime_host c) (command_rows s)))"

definition find_exhausted_retry_commands :: "int \<Rightarrow> session_db \<Rightarrow> agent_command list session_result" where
  "find_exhausted_retry_commands limit s =
     sql_limit limit (sort_key ac_updated_at
       (filter (\<lambda>c. ac_status c = RetryScheduled \<and> ac_attempt_count c \<ge> ac_max_attempts c) (command_rows s)))"

definition count_pending_commands :: "session_db \<Rightarrow> int" where
  "count_pending_commands s = int (length (filter (\<lambda>c. ac_status c = Pending) (command_rows s)))"

definition count_dead_letters :: "session_db \<Rightarrow> int" where
  "count_dead_letters s = int (length (filter (\<lambda>d. dl_resolved_at d = None) (dead_letters s)))"

definition list_dead_letters :: "int \<Rightarrow> session_db \<Rightarrow> dead_letter list session_result" where
  "list_dead_letters limit s =
     sql_limit limit (sort_key dl_created_at (filter (\<lambda>d. dl_resolved_at d = None) (dead_letters s)))"

definition list_dead_letters_since :: "timestamp \<Rightarrow> int \<Rightarrow> session_db \<Rightarrow> dead_letter list session_result" where
  "list_dead_letters_since since limit s =
     sql_limit limit (sort_key dl_created_at (filter (\<lambda>d. dl_created_at d \<ge> since) (dead_letters s)))"

section \<open>Command transitions\<close>

definition update_command_status_inner ::
  "env \<Rightarrow> command_status_update \<Rightarrow> string option \<Rightarrow> session_db \<Rightarrow> unit session_result \<times> session_db" where
  "update_command_status_inner E update expected_attempt_id s =
     (let (nw, s) = now E s;
          cid = cu_command_id update;
          matched = (case get_command cid s of
                       None \<Rightarrow> None
                     | Some c \<Rightarrow>
                         (case expected_attempt_id of
                            None \<Rightarrow> Some c
                          | Some a \<Rightarrow> if owns_attempt s c a then Some c else None))
      in case matched of
           None \<Rightarrow>
             (case expected_attempt_id of
                Some a \<Rightarrow> (Inl (StaleAttempt cid a), s)
              | None \<Rightarrow> (Inl (CommandNotFound cid), s))
         | Some c \<Rightarrow>
             (let c' = c\<lparr>ac_status := cu_status update,
                        ac_current_attempt_id :=
                          (case cu_current_attempt_id update of Some a \<Rightarrow> Some a | None \<Rightarrow> ac_current_attempt_id c),
                        ac_current_epoch :=
                          (case cu_current_epoch update of Some e \<Rightarrow> Some e | None \<Rightarrow> ac_current_epoch c),
                        ac_attempt_count :=
                          (case cu_attempt_count update of Some n \<Rightarrow> n | None \<Rightarrow> ac_attempt_count c),
                        ac_next_retry_at :=
                          (case cu_next_retry_at update of Some t \<Rightarrow> t | None \<Rightarrow> ac_next_retry_at c),
                        ac_last_error :=
                          (case cu_last_error update of Some e \<Rightarrow> Some e | None \<Rightarrow> ac_last_error c),
                        ac_updated_at := nw\<rparr>;
                  s = set_command cid (\<lambda>_. c') s
              in (Inr (),
                  if cu_status update \<in> set [RetryScheduled, DeadLettered, Committed]
                  then release_session_if_no_active_commands (ac_session_key c') (ac_current_epoch c') nw s
                  else s)))"

definition update_command_status ::
  "env \<Rightarrow> command_status_update \<Rightarrow> session_db \<Rightarrow> unit session_result \<times> session_db" where
  "update_command_status E update = update_command_status_inner E update None"

definition update_command_status_for_attempt ::
  "env \<Rightarrow> command_status_update \<Rightarrow> string \<Rightarrow> session_db \<Rightarrow> unit session_result \<times> session_db" where
  "update_command_status_for_attempt E update expected_attempt_id =
     update_command_status_inner E update (Some expected_attempt_id)"

definition lease_command :: "string \<Rightarrow> int \<Rightarrow> timestamp \<Rightarrow> agent_command \<Rightarrow> agent_command" where
  "lease_command attempt_id epoch nw c =
     c\<lparr>ac_status := Leased, ac_current_attempt_id := Some attempt_id, ac_current_epoch := Some epoch,
       ac_attempt_count := i32_succ (ac_attempt_count c), ac_updated_at := nw\<rparr>"

definition assign_lease ::
  "env \<Rightarrow> string \<Rightarrow> string \<Rightarrow> session_db \<Rightarrow> lease_assignment session_result \<times> session_db" where
  "assign_lease E command_id executor_node_id s =
     (let (nw, s) = now E s in
      case get_command command_id s of
        None \<Rightarrow> (Inl (CommandNotFound command_id), s)
      | Some c \<Rightarrow>
          if ac_status c \<noteq> Pending
          then (Inl (InvalidStateTransition command_id (command_status_as_str (ac_status c)) ''leased''), s)
          else
            (case lease_session nw executor_node_id (ac_session_key c) s of
               (Inl e, _) \<Rightarrow> (Inl e, s)
             | (Inr new_epoch, s1) \<Rightarrow>
                 (let (attempt_id, s2) = new_id E s1;
                      s3 = set_command command_id (lease_command attempt_id new_epoch nw) s2
                  in (Inr \<lparr>la_epoch = new_epoch, la_attempt_id = attempt_id,
                           la_attempt_count = i32_succ (ac_attempt_count c)\<rparr>, s3))))"

text \<open>
  The batch: bump each session once, then lease every row. The helpers thread the tables and the
  epochs; on an error the caller drops their work.
\<close>

fun batch_epochs ::
  "timestamp \<Rightarrow> string \<Rightarrow> agent_command list \<Rightarrow> (string, int) hash_map \<Rightarrow> session_db \<Rightarrow>
   (string, int) hash_map session_result \<times> session_db" where
  "batch_epochs nw executor_node_id [] epochs s = (Inr epochs, s)"
| "batch_epochs nw executor_node_id (c # rest) epochs s =
     (if hm_get epochs (ac_session_key c) \<noteq> None then batch_epochs nw executor_node_id rest epochs s
      else case lease_session nw executor_node_id (ac_session_key c) s of
        (Inl e, s') \<Rightarrow> (Inl e, s')
      | (Inr new_epoch, s') \<Rightarrow>
          batch_epochs nw executor_node_id rest (hm_insert (ac_session_key c) new_epoch epochs) s')"

fun batch_lease ::
  "env \<Rightarrow> timestamp \<Rightarrow> (string, int) hash_map \<Rightarrow> agent_command list \<Rightarrow>
   (string, lease_assignment) hash_map \<Rightarrow> session_db \<Rightarrow>
   (string, lease_assignment) hash_map session_result \<times> session_db" where
  "batch_lease E nw epochs [] assignments s = (Inr assignments, s)"
| "batch_lease E nw epochs (c # rest) assignments s =
     (case hm_get epochs (ac_session_key c) of
        None \<Rightarrow> (Inl (SessionNotFound (ac_session_key c)), s)
      | Some new_epoch \<Rightarrow>
          (let (attempt_id, s1) = new_id E s;
               s2 = set_command (ac_command_id c) (lease_command attempt_id new_epoch nw) s1
           in batch_lease E nw epochs rest
                (hm_insert (ac_command_id c)
                   \<lparr>la_epoch = new_epoch, la_attempt_id = attempt_id,
                    la_attempt_count = i32_succ (ac_attempt_count c)\<rparr> assignments) s2))"

definition assign_batch_leases ::
  "env \<Rightarrow> string list \<Rightarrow> string \<Rightarrow> session_db \<Rightarrow>
   (string, lease_assignment) hash_map session_result \<times> session_db" where
  "assign_batch_leases E command_ids executor_node_id s =
     (if command_ids = [] then (Inr [], s)
      else
        (let (nw, s) = now E s;
             rows = sort_key ac_command_id
                      (filter (\<lambda>c. ac_command_id c \<in> set command_ids) (command_rows s))
         in if length rows \<noteq> length command_ids
            then (Inl (CommandNotFound
                    (case find (\<lambda>i. i \<notin> set (map ac_command_id rows)) command_ids of
                       Some i \<Rightarrow> i | None \<Rightarrow> ''<unknown>'')), s)
            else case find (\<lambda>c. ac_status c \<noteq> Pending) rows of
              Some c \<Rightarrow>
                (Inl (InvalidStateTransition (ac_command_id c) (command_status_as_str (ac_status c)) ''leased''), s)
            | None \<Rightarrow>
                (case batch_epochs nw executor_node_id rows [] s of
                   (Inl e, _) \<Rightarrow> (Inl e, s)
                 | (Inr epochs, s1) \<Rightarrow>
                     (case batch_lease E nw epochs rows [] s1 of
                        (Inl e, s2) \<Rightarrow> (Inl e, s\<lparr>ids_drawn := ids_drawn s2\<rparr>)
                      | (Inr assignments, s2) \<Rightarrow> (Inr assignments, s2)))))"

definition mark_command_succeeded_for_attempt ::
  "env \<Rightarrow> string \<Rightarrow> string \<Rightarrow> session_db \<Rightarrow> unit session_result \<times> session_db" where
  "mark_command_succeeded_for_attempt E command_id expected_attempt_id s =
     (let (nw, s) = now E s;
          stale = (Inl (StaleAttempt command_id expected_attempt_id), s)
      in case get_command command_id s of
           None \<Rightarrow> stale
         | Some c \<Rightarrow>
             if owns_attempt s c expected_attempt_id \<and> is_active (ac_status c)
             then (Inr (), set_command command_id (\<lambda>c. c\<lparr>ac_status := Succeeded, ac_updated_at := nw\<rparr>) s)
             else stale)"

definition mark_command_committed_for_attempt ::
  "env \<Rightarrow> string \<Rightarrow> string \<Rightarrow> session_db \<Rightarrow> unit session_result \<times> session_db" where
  "mark_command_committed_for_attempt E command_id expected_attempt_id s =
     (let (nw, s) = now E s;
          stale = (Inl (StaleAttempt command_id expected_attempt_id), s)
      in case get_command command_id s of
           None \<Rightarrow> stale
         | Some c \<Rightarrow>
             if owns_attempt s c expected_attempt_id
             then (let s = set_command command_id
                         (\<lambda>c. c\<lparr>ac_status := Committed, ac_current_attempt_id := None, ac_updated_at := nw\<rparr>) s
                   in (Inr (), release_session_if_no_active_commands (ac_session_key c) (ac_current_epoch c) nw s))
             else stale)"

definition release_lease :: "env \<Rightarrow> string \<Rightarrow> session_db \<Rightarrow> unit session_result \<times> session_db" where
  "release_lease E command_id s =
     (let (nw, s) = now E s in
      case get_command command_id s of
        None \<Rightarrow> (Inl (CommandNotFound command_id), s)
      | Some c \<Rightarrow>
          (Inr (),
           set_session (ac_session_key c)
             (\<lambda>se. se\<lparr>se_status := Idle, se_executor_node_id := None, se_last_heartbeat_at := None,
                     se_updated_at := nw\<rparr>)
             (set_command command_id (\<lambda>c. c\<lparr>ac_status := Succeeded, ac_updated_at := nw\<rparr>) s)))"

section \<open>Lease expiry and dead letters\<close>

text \<open>The join of the sessions and their active commands, in the order of the commands.\<close>

definition check_expired_leases :: "timestamp \<Rightarrow> int \<Rightarrow> session_db \<Rightarrow> expired_lease list" where
  "check_expired_leases nw timeout_secs s =
     (let cutoff = nw - secs timeout_secs in
      concat (map (\<lambda>ac.
        case get_session (ac_session_key ac) s of
          None \<Rightarrow> []
        | Some sr \<Rightarrow>
            if is_active (ac_status ac) \<and> se_status sr = Active \<and>
               (case se_last_heartbeat_at sr of None \<Rightarrow> True | Some t \<Rightarrow> t < cutoff)
            then [\<lparr>el_session_key = se_session_key sr, el_command_id = ac_command_id ac, el_epoch = se_epoch sr,
                   el_attempt_count = ac_attempt_count ac, el_max_attempts = ac_max_attempts ac\<rparr>]
            else []) (command_rows s)))"

definition insert_dead_letter_in_transaction ::
  "env \<Rightarrow> insert_dead_letter \<Rightarrow> timestamp \<Rightarrow> session_db \<Rightarrow> dead_letter \<times> session_db" where
  "insert_dead_letter_in_transaction E input nw s =
     (let (i, s) = new_id E s;
          d = \<lparr>dl_id = i, dl_source_type = id_source_type input, dl_source_id = id_source_id input,
               dl_payload = id_payload input, dl_error = id_error input,
               dl_attempt_count = id_attempt_count input, dl_created_at = nw,
               dl_resolved_at = None, dl_resolved_by = None\<rparr>
      in (d, s\<lparr>dead_letters := dead_letters s @ [d]\<rparr>))"

definition expire_session :: "string \<Rightarrow> int \<Rightarrow> timestamp \<Rightarrow> session_db \<Rightarrow> unit session_result \<times> session_db" where
  "expire_session session_key epoch nw s =
     (case get_session session_key s of
        None \<Rightarrow> (Inr (), s)
      | Some se \<Rightarrow>
          if se_epoch se \<noteq> epoch then (Inr (), s)
          else if se_epoch se = INT4_MAX then (Inl int4_overflow, s)
          else (Inr (), set_session session_key
                  (\<lambda>se. se\<lparr>se_epoch := se_epoch se + 1, se_executor_node_id := None, se_status := Idle,
                          se_last_heartbeat_at := None, se_updated_at := nw\<rparr>) s))"

definition handle_lease_expiry ::
  "env \<Rightarrow> expired_lease \<Rightarrow> session_db \<Rightarrow> unit session_result \<times> session_db" where
  "handle_lease_expiry E expired s =
     (let (nw, s) = now E s; cid = el_command_id expired in
      case get_command cid s of
        None \<Rightarrow> (Inl (CommandNotFound cid), s)
      | Some c \<Rightarrow>
          if ac_current_epoch c \<noteq> Some (el_epoch expired)
          then (Inl (EpochMismatch (el_epoch expired)
                  (case ac_current_epoch c of Some e \<Rightarrow> e | None \<Rightarrow> -1)), s)
          else if \<not> is_active (ac_status c)
          then (Inl (InvalidStateTransition cid (command_status_as_str (ac_status c)) ''retry_scheduled''), s)
          else
            (case expire_session (ac_session_key c) (el_epoch expired) nw s of
               (Inl e, _) \<Rightarrow> (Inl e, s)
             | (Inr _, s1) \<Rightarrow>
                 if is_exhausted (ac_attempt_count c) (ac_max_attempts c)
                 then
                   (let s2 = set_command cid
                          (\<lambda>c. c\<lparr>ac_status := DeadLettered, ac_next_retry_at := None,
                                ac_current_attempt_id := None,
                                ac_last_error := Some ''max attempts exceeded after lease expiry'',
                                ac_updated_at := nw\<rparr>) s1;
                        (d, s3) = insert_dead_letter_in_transaction E
                          \<lparr>id_source_type = ''command'', id_source_id = cid,
                           id_payload = jobj [(''session_key'', JStr (ac_session_key c)),
                                              (''epoch'', JInt (el_epoch expired)),
                                              (''attempt_count'', JInt (ac_attempt_count c))],
                           id_error = ''max attempts exceeded after lease expiry'',
                           id_attempt_count = ac_attempt_count c\<rparr> nw s2
                    in (Inr (), s3))
                 else
                   (Inr (), set_command cid
                      (\<lambda>c. c\<lparr>ac_status := RetryScheduled,
                            ac_next_retry_at := Some (next_retry_at nw (ac_attempt_count c)),
                            ac_current_attempt_id := None, ac_last_error := Some ''lease expired'',
                            ac_updated_at := nw\<rparr>) s1)))"

definition insert_dead_letter ::
  "env \<Rightarrow> insert_dead_letter \<Rightarrow> session_db \<Rightarrow> dead_letter session_result \<times> session_db" where
  "insert_dead_letter E input s =
     (let (nw, s) = now E s; (d, s) = insert_dead_letter_in_transaction E input nw s in (Inr d, s))"

definition dead_letter_command_for_attempt ::
  "env \<Rightarrow> insert_dead_letter \<Rightarrow> string \<Rightarrow> session_db \<Rightarrow> dead_letter session_result \<times> session_db" where
  "dead_letter_command_for_attempt E input expected_attempt_id s =
     (let (nw, s) = now E s;
          cid = id_source_id input;
          stale = (Inl (StaleAttempt cid expected_attempt_id), s)
      in case get_command cid s of
           None \<Rightarrow> stale
         | Some c \<Rightarrow>
             if owns_attempt s c expected_attempt_id
             then
               (let s1 = set_command cid
                      (\<lambda>c. c\<lparr>ac_status := DeadLettered, ac_next_retry_at := None, ac_current_attempt_id := None,
                            ac_last_error := Some (id_error input), ac_updated_at := nw\<rparr>) s;
                    s2 = release_session_if_no_active_commands (ac_session_key c) (ac_current_epoch c) nw s1;
                    (d, s3) = insert_dead_letter_in_transaction E input nw s2
                in (Inr d, s3))
             else stale)"

definition dead_letter_stale_pending_commands ::
  "env \<Rightarrow> int \<Rightarrow> int \<Rightarrow> session_db \<Rightarrow> int session_result \<times> session_db" where
  "dead_letter_stale_pending_commands E max_age_secs limit s =
     (let (nw, s) = now E s; cutoff = nw - secs max_age_secs in
      case sql_limit limit (sort_key ac_created_at
             (filter (\<lambda>c. ac_status c = Pending \<and> ac_created_at c < cutoff) (command_rows s))) of
        Inl e \<Rightarrow> (Inl e, s)
      | Inr stale \<Rightarrow>
          (Inr (int (length stale)),
           fold (\<lambda>c. set_command (ac_command_id c)
                   (\<lambda>c. c\<lparr>ac_status := DeadLettered, ac_last_error := Some ''TTL expired''\<rparr>)) stale s))"

section \<open>Runtime hosts\<close>

text \<open>
  Claiming for a runtime host. The first query picks the oldest claimable command's agent, the
  second, under that agent's lock, the agent's oldest claimable command.
\<close>

definition host_bindings :: "string \<Rightarrow> agent_command \<Rightarrow> session_db \<Rightarrow> runtime_binding list" where
  "host_bindings runtime_host_id c s =
     filter (\<lambda>b. rb_agent_principal_id b = ac_agent_id c \<and> rb_state b \<noteq> ''disabled'' \<and>
               get_str (rb_config_json b) ''runtime_host_id'' = Some runtime_host_id)
       (agent_runtime_bindings s)"

definition claimable :: "string \<Rightarrow> timestamp \<Rightarrow> session_db \<Rightarrow> agent_command list" where
  "claimable runtime_host_id nw s =
     sort_key queue_key
       (filter (\<lambda>c. get_str (ac_metadata c) ''runtime_host_id'' = Some runtime_host_id \<and>
                  host_bindings runtime_host_id c s \<noteq> [] \<and>
                  (ac_status c = Pending \<or> retry_due nw c) \<and>
                  \<not> list_ex (\<lambda>a. ac_agent_id a = ac_agent_id c \<and> is_active (ac_status a)) (command_rows s))
         (command_rows s))"

definition runtime_binding_json :: "runtime_binding \<Rightarrow> json" where
  "runtime_binding_json b =
     jobj [(''id'', JStr (rb_id b)), (''driver_type'', JStr (rb_driver_type b)),
           (''workspace_path'', JStr (rb_workspace_path b)),
           (''external_session_id'', jopt_str (rb_external_session_id b)),
           (''config'', case rb_config_json b of JObj m \<Rightarrow> JObj (hm_remove ''terminal_session'' m) | j \<Rightarrow> j)]"

definition claim_runtime_host_command ::
  "env \<Rightarrow> string \<Rightarrow> session_db \<Rightarrow> (agent_command \<times> lease_assignment) option session_result \<times> session_db" where
  "claim_runtime_host_command E runtime_host_id s =
     (let (nw, s) = now E s in
      case claimable runtime_host_id nw s of
        [] \<Rightarrow> (Inr None, s)
      | candidate # _ \<Rightarrow>
          (case filter (\<lambda>c. ac_agent_id c = ac_agent_id candidate) (claimable runtime_host_id nw s) of
             [] \<Rightarrow> (Inr None, s)
           | c # _ \<Rightarrow>
               (let b = hd (host_bindings runtime_host_id c s);
                    c = c\<lparr>ac_metadata := obj_insert ''runtime_binding'' (runtime_binding_json b) (ac_metadata c)\<rparr>
                in case lease_session nw (''runtime-host:'' @ runtime_host_id) (ac_session_key c) s of
                     (Inl e, _) \<Rightarrow> (Inl e, s)
                   | (Inr epoch, s1) \<Rightarrow>
                       (let (attempt_id, s2) = new_id E s1;
                            s3 = set_command (ac_command_id c)
                                   (\<lambda>r. (lease_command attempt_id epoch nw r)\<lparr>ac_metadata := ac_metadata c\<rparr>) s2
                        in (Inr (Some (c, \<lparr>la_epoch = epoch, la_attempt_id = attempt_id,
                                           la_attempt_count = i32_succ (ac_attempt_count c)\<rparr>)), s3)))))"

definition heartbeat_runtime_host_command ::
  "env \<Rightarrow> string \<Rightarrow> string \<Rightarrow> string \<Rightarrow> session_db \<Rightarrow> unit session_result \<times> session_db" where
  "heartbeat_runtime_host_command E runtime_host_id command_id attempt_id s =
     (let (nw, s) = now E s;
          stale = (Inl (StaleAttempt command_id attempt_id), s)
      in case get_command command_id s of
           None \<Rightarrow> stale
         | Some c \<Rightarrow>
             if owns_attempt s c attempt_id \<and> is_active (ac_status c) \<and>
                get_str (ac_metadata c) ''runtime_host_id'' = Some runtime_host_id
             then (Inr (),
                   set_session (ac_session_key c)
                     (\<lambda>se. if ac_current_epoch c = Some (se_epoch se) \<and> se_status se = Active
                           then se\<lparr>se_last_heartbeat_at := Some nw, se_updated_at := nw\<rparr> else se)
                     (set_command command_id (\<lambda>c. c\<lparr>ac_status := Heartbeating, ac_updated_at := nw\<rparr>) s))
             else stale)"

text \<open>
  Completing a command for a runtime host, as far as the session tables go; the replies it writes
  are in \<open>Host_Completion\<close>. The binding is the one the claim recorded in the command's metadata,
  and is only touched while it still looks the same.
\<close>

definition host_command :: "string \<Rightarrow> string \<Rightarrow> string \<Rightarrow> session_db \<Rightarrow> agent_command option" where
  "host_command runtime_host_id command_id attempt_id s =
     (case get_command command_id s of
        None \<Rightarrow> None
      | Some c \<Rightarrow>
          if owns_attempt s c attempt_id \<and> is_active (ac_status c) \<and>
             get_str (ac_metadata c) ''runtime_host_id'' = Some runtime_host_id
          then Some c else None)"

definition recorded_binding :: "agent_command \<Rightarrow> json" where
  "recorded_binding c = (case json_get (ac_metadata c) ''runtime_binding'' of Some j \<Rightarrow> j | None \<Rightarrow> JNull)"

definition without_keys :: "string list \<Rightarrow> json \<Rightarrow> json" where
  "without_keys keys j = (case j of JObj m \<Rightarrow> JObj (fold hm_remove keys m) | j \<Rightarrow> j)"

definition same_binding :: "string \<Rightarrow> agent_command \<Rightarrow> runtime_binding \<Rightarrow> bool" where
  "same_binding runtime_host_id c b \<longleftrightarrow>
     rb_agent_principal_id b = ac_agent_id c \<and>
     get_str (rb_config_json b) ''runtime_host_id'' = Some runtime_host_id \<and> rb_state b \<noteq> ''disabled'' \<and>
     get_str (recorded_binding c) ''id'' = Some (rb_id b) \<and>
     get_str (recorded_binding c) ''driver_type'' = Some (rb_driver_type b) \<and>
     get_str (recorded_binding c) ''workspace_path'' = Some (rb_workspace_path b) \<and>
     rb_external_session_id b = get_str (recorded_binding c) ''external_session_id'' \<and>
     json_get (recorded_binding c) ''config'' = Some (without_keys [''terminal_session''] (rb_config_json b))"

definition update_bindings ::
  "string \<Rightarrow> agent_command \<Rightarrow> (runtime_binding \<Rightarrow> runtime_binding) \<Rightarrow> session_db \<Rightarrow> session_db" where
  "update_bindings runtime_host_id c f s =
     s\<lparr>agent_runtime_bindings :=
         map (\<lambda>b. if same_binding runtime_host_id c b then f b else b) (agent_runtime_bindings s)\<rparr>"

definition clear_external_session :: "timestamp \<Rightarrow> runtime_binding \<Rightarrow> runtime_binding" where
  "clear_external_session nw b =
     b\<lparr>rb_external_session_id := None,
       rb_config_json := without_keys
         [''external_session_provenance'', ''external_session_driver_type'', ''external_session_binding_id'',
          ''external_session_mode'', ''external_session_captured_at''] (rb_config_json b),
       rb_updated_at := nw\<rparr>"

text \<open>The JSON text of a time is the argument \<open>time_json\<close>.\<close>

definition capture_external_session ::
  "(timestamp \<Rightarrow> json) \<Rightarrow> string \<Rightarrow> timestamp \<Rightarrow> runtime_binding \<Rightarrow> runtime_binding" where
  "capture_external_session time_json session_id nw b =
     b\<lparr>rb_external_session_id := Some session_id,
       rb_config_json :=
         fold (\<lambda>(k, v). obj_insert k v)
           [(''external_session_provenance'', JStr ''process_captured''),
            (''external_session_driver_type'', JStr (rb_driver_type b)),
            (''external_session_binding_id'', JStr (rb_id b)),
            (''external_session_mode'', JStr ''headless''),
            (''external_session_captured_at'', time_json nw)] (rb_config_json b),
       rb_updated_at := nw\<rparr>"

definition fail_host_command ::
  "env \<Rightarrow> string \<Rightarrow> string \<Rightarrow> string option \<Rightarrow> bool \<Rightarrow> timestamp \<Rightarrow> agent_command \<Rightarrow> session_db \<Rightarrow> session_db" where
  "fail_host_command E runtime_host_id attempt_id error clear nw c s =
     (let s = (if clear then update_bindings runtime_host_id c (clear_external_session nw) s else s);
          error_text = (case error of Some e \<Rightarrow> e | None \<Rightarrow> ''remote runtime execution failed'');
          exhausted = is_exhausted (ac_attempt_count c) (ac_max_attempts c);
          s = set_command (ac_command_id c)
                (\<lambda>r. r\<lparr>ac_status := (if exhausted then DeadLettered else RetryScheduled),
                       ac_current_attempt_id := None,
                       ac_next_retry_at := (if exhausted then None else Some (next_retry_at nw (ac_attempt_count c))),
                       ac_last_error := Some error_text, ac_updated_at := nw\<rparr>) s;
          s = (if exhausted then
                 snd (insert_dead_letter_in_transaction E
                   \<lparr>id_source_type = ''command'', id_source_id = ac_command_id c,
                    id_payload = jobj [(''session_key'', JStr (ac_session_key c)),
                                       (''runtime_host_id'', JStr runtime_host_id),
                                       (''attempt_id'', JStr attempt_id), (''turn_id'', JStr (ac_turn_id c))],
                    id_error = error_text, id_attempt_count = ac_attempt_count c\<rparr> nw s)
               else s)
      in release_session_if_no_active_commands (ac_session_key c) (ac_current_epoch c) nw s)"

definition commit_host_command ::
  "(timestamp \<Rightarrow> json) \<Rightarrow> string \<Rightarrow> string option \<Rightarrow> timestamp \<Rightarrow> agent_command \<Rightarrow> session_db \<Rightarrow> session_db" where
  "commit_host_command time_json runtime_host_id external_session_id nw c s =
     (let s = (case external_session_id of
                 None \<Rightarrow> s
               | Some i \<Rightarrow> update_bindings runtime_host_id c (capture_external_session time_json i nw) s);
          s = set_command (ac_command_id c)
                (\<lambda>r. r\<lparr>ac_status := Committed, ac_current_attempt_id := None, ac_updated_at := nw\<rparr>) s
      in release_session_if_no_active_commands (ac_session_key c) (ac_current_epoch c) nw s)"

section \<open>The executor registry\<close>

definition register_executor :: "env \<Rightarrow> string \<Rightarrow> json \<Rightarrow> session_db \<Rightarrow> executor session_result \<times> session_db" where
  "register_executor E node_id capabilities s =
     (let (nw, s) = now E s;
          x = \<lparr>ex_node_id = node_id, ex_capabilities = capabilities, ex_status = Available,
               ex_last_heartbeat_at = nw, ex_registered_at = nw\<rparr>
      in (Inr x, s\<lparr>executors := hm_insert node_id x (executors s)\<rparr>))"

definition find_available_executor :: "string \<Rightarrow> session_db \<Rightarrow> executor session_result" where
  "find_available_executor agent_id s =
     (case find (\<lambda>x. ex_status x = Available) (hm_values (executors s)) of
        Some x \<Rightarrow> Inr x | None \<Rightarrow> Inl (NoAvailableExecutor agent_id))"

definition deregister_executor :: "string \<Rightarrow> session_db \<Rightarrow> unit session_result \<times> session_db" where
  "deregister_executor node_id s = (Inr (), s\<lparr>executors := hm_remove node_id (executors s)\<rparr>)"

definition update_executor_heartbeat :: "env \<Rightarrow> string \<Rightarrow> session_db \<Rightarrow> unit session_result \<times> session_db" where
  "update_executor_heartbeat E node_id s =
     (case hm_get (executors s) node_id of
        None \<Rightarrow> (Inl (NoAvailableExecutor node_id), s)
      | Some x \<Rightarrow>
          (let (nw, s) = now E s
           in (Inr (), s\<lparr>executors := hm_insert node_id (x\<lparr>ex_last_heartbeat_at := nw\<rparr>) (executors s)\<rparr>)))"

end
