(* ===== verification/Session_Props.thy ===== *)
theory Session_Props
  imports Session_Store
begin

text \<open>
  What the session store guarantees: how the tables evolve under every operation (\<open>evolves\<close>),
  the step relation of the store's clients, and the properties that follow over any interleaving
  of their transactions: epochs only grow, an attempt that lost its lease stays fenced, a message
  yields one command per agent; then fairness of dispatch and atomicity of batches.
\<close>

section \<open>How the tables evolve\<close>

definition command_ident ::
  "agent_command \<Rightarrow> string \<times> string \<times> string \<times> string \<times> string \<times> string \<times> string \<times> timestamp" where
  "command_ident c = (ac_command_id c, ac_route_id c, ac_session_key c, ac_agent_id c,
     ac_conversation_id c, ac_message_id c, ac_turn_id c, ac_created_at c)"

text \<open>Rows are stored under their primary key, and a message has one command per agent.\<close>

definition commands_wf :: "session_db \<Rightarrow> bool" where
  "commands_wf s \<longleftrightarrow> hm_wf (agent_commands s) \<and>
     (\<forall>k c. get_command k s = Some c \<longrightarrow> ac_command_id c = k) \<and>
     (\<forall>k k' c c'. get_command k s = Some c \<longrightarrow> get_command k' s = Some c' \<longrightarrow>
        ac_message_id c = ac_message_id c' \<longrightarrow> ac_agent_id c = ac_agent_id c' \<longrightarrow> k = k')"

definition attempt_evolves :: "env \<Rightarrow> nat \<Rightarrow> nat \<Rightarrow> string option \<Rightarrow> string option \<Rightarrow> bool" where
  "attempt_evolves E m n a b \<longleftrightarrow> b = None \<or> b = a \<or> (\<exists>i. m \<le> i \<and> i < n \<and> b = Some (env_uuid E i))"

definition evolves :: "env \<Rightarrow> session_db \<Rightarrow> session_db \<Rightarrow> bool" where
  "evolves E s t \<longleftrightarrow>
     ids_drawn s \<le> ids_drawn t \<and>
     (\<forall>k se. get_session k s = Some se \<longrightarrow>
        (\<exists>se'. get_session k t = Some se' \<and> se_epoch se \<le> se_epoch se')) \<and>
     (\<forall>k c. get_command k s = Some c \<longrightarrow>
        (\<exists>c'. get_command k t = Some c' \<and> command_ident c' = command_ident c \<and>
           attempt_evolves E (ids_drawn s) (ids_drawn t) (ac_current_attempt_id c) (ac_current_attempt_id c'))) \<and>
     (commands_wf s \<longrightarrow> commands_wf t)"

lemma attempt_evolves_refl [simp]: "attempt_evolves E m n a a"
  by (simp add: attempt_evolves_def)

lemma attempt_evolves_None [simp]: "attempt_evolves E m n a None"
  by (simp add: attempt_evolves_def)

lemma attempt_evolves_trans:
  "attempt_evolves E m n a b \<Longrightarrow> attempt_evolves E n l b c \<Longrightarrow> m \<le> n \<Longrightarrow> n \<le> l \<Longrightarrow> attempt_evolves E m l a c"
  unfolding attempt_evolves_def by (auto intro: order.trans dest: order.strict_trans2)

lemma evolves_refl [simp]: "evolves E s s"
  by (simp add: evolves_def)

lemma evolves_trans [trans]:
  assumes "evolves E s t" "evolves E t u"
  shows "evolves E s u"
proof -
  have "\<exists>c''. get_command k u = Some c'' \<and> command_ident c'' = command_ident c \<and>
      attempt_evolves E (ids_drawn s) (ids_drawn u) (ac_current_attempt_id c) (ac_current_attempt_id c'')"
    if c: "get_command k s = Some c" for k c
  proof -
    from assms(1) c obtain c' where c': "get_command k t = Some c'" "command_ident c' = command_ident c"
        "attempt_evolves E (ids_drawn s) (ids_drawn t) (ac_current_attempt_id c) (ac_current_attempt_id c')"
      unfolding evolves_def by blast
    from assms(2) c'(1) obtain c'' where "get_command k u = Some c''" "command_ident c'' = command_ident c'"
        "attempt_evolves E (ids_drawn t) (ids_drawn u) (ac_current_attempt_id c') (ac_current_attempt_id c'')"
      unfolding evolves_def by blast
    moreover have "ids_drawn s \<le> ids_drawn t" "ids_drawn t \<le> ids_drawn u"
      using assms by (simp_all add: evolves_def)
    ultimately show ?thesis using c'(2,3) by (metis attempt_evolves_trans)
  qed
  moreover have "\<exists>se''. get_session k u = Some se'' \<and> se_epoch se \<le> se_epoch se''"
    if "get_session k s = Some se" for k se
    using that assms unfolding evolves_def by (meson order.trans)
  ultimately show ?thesis using assms unfolding evolves_def by (auto intro: order.trans)
qed

section \<open>The table updates evolve\<close>

lemma hm_get_adjust: "hm_get (hm_adjust k f m) l = (if l = k then map_option f (hm_get m k) else hm_get m l)"
  by (auto simp: hm_adjust_def split: option.splits)

lemma hm_wf_adjust [simp]: "hm_wf m \<Longrightarrow> hm_wf (hm_adjust k f m)"
  by (simp add: hm_adjust_def split: option.splits)

lemma get_command_set_command:
  "get_command l (set_command k f s) = (if l = k then map_option f (get_command k s) else get_command l s)"
  by (simp add: get_command_def set_command_def hm_get_adjust)

lemma get_session_set_session:
  "get_session l (set_session k f s) = (if l = k then map_option f (get_session k s) else get_session l s)"
  by (simp add: get_session_def set_session_def hm_get_adjust)

lemma get_command_set_session [simp]: "get_command l (set_session k f s) = get_command l s"
  by (simp add: get_command_def set_session_def)

lemma get_session_set_command [simp]: "get_session l (set_command k f s) = get_session l s"
  by (simp add: get_session_def set_command_def)

lemma ids_drawn_set [simp]: "ids_drawn (set_command k f s) = ids_drawn s" "ids_drawn (set_session k g s) = ids_drawn s"
  by (simp_all add: set_command_def set_session_def)

lemma command_rows_set_session [simp]: "command_rows (set_session k f s) = command_rows s"
  by (simp add: command_rows_def set_session_def)

lemma commands_wf_set_session [simp]: "commands_wf (set_session k f s) = commands_wf s"
  by (simp add: commands_wf_def set_session_def get_command_def)

text \<open>Operations that leave the two tables alone.\<close>

lemma evolves_frame:
  "session_registry t = session_registry s \<Longrightarrow> agent_commands t = agent_commands s \<Longrightarrow>
     ids_drawn s \<le> ids_drawn t \<Longrightarrow> evolves E s t"
  by (simp add: evolves_def get_command_def get_session_def commands_wf_def)

lemma evolves_set_session:
  "(\<And>se. get_session k s = Some se \<Longrightarrow> se_epoch se \<le> se_epoch (f se)) \<Longrightarrow> evolves E s (set_session k f s)"
  by (auto simp: evolves_def get_session_set_session)

lemma commands_wf_set_command:
  assumes "\<And>c. get_command k s = Some c \<Longrightarrow> command_ident (f c) = command_ident c" "commands_wf s"
  shows "commands_wf (set_command k f s)"
proof -
  have orig: "\<exists>d. get_command l s = Some d \<and> ac_command_id c = ac_command_id d \<and>
      ac_message_id c = ac_message_id d \<and> ac_agent_id c = ac_agent_id d"
    if "get_command l (set_command k f s) = Some c" for l c
    using that assms(1) by (auto simp: get_command_set_command command_ident_def split: if_splits)
  have "hm_wf (agent_commands (set_command k f s))"
    using assms(2) by (simp add: set_command_def commands_wf_def)
  moreover have "ac_command_id c = l" if "get_command l (set_command k f s) = Some c" for l c
    using orig [OF that] assms(2) by (auto simp: commands_wf_def)
  moreover have "l = l'"
    if "get_command l (set_command k f s) = Some c" "get_command l' (set_command k f s) = Some c'"
      "ac_message_id c = ac_message_id c'" "ac_agent_id c = ac_agent_id c'" for l l' c c'
    using orig [OF that(1)] orig [OF that(2)] that(3,4) assms(2) unfolding commands_wf_def by metis
  ultimately show ?thesis unfolding commands_wf_def by blast
qed

lemma evolves_set_command:
  assumes "\<And>c. get_command k s = Some c \<Longrightarrow> command_ident (f c) = command_ident c"
    and "\<And>c. get_command k s = Some c \<Longrightarrow>
      attempt_evolves E (ids_drawn s) n (ac_current_attempt_id c) (ac_current_attempt_id (f c))"
    and "ids_drawn s \<le> n"
  shows "evolves E s ((set_command k f s)\<lparr>ids_drawn := n\<rparr>)"
proof -
  let ?t = "(set_command k f s)\<lparr>ids_drawn := n\<rparr>"
  have "get_command l ?t = get_command l (set_command k f s)" "get_session l ?t = get_session l s"
      "commands_wf ?t = commands_wf (set_command k f s)" for l
    by (simp_all add: get_command_def get_session_def set_command_def commands_wf_def)
  then show ?thesis
    using assms commands_wf_set_command [of k s f] by (auto simp: evolves_def get_command_set_command)
qed

lemma set_command_ids: "ids_drawn s = n \<Longrightarrow> (set_command k f s)\<lparr>ids_drawn := n\<rparr> = set_command k f s"
  by (simp add: set_command_def)

lemma evolves_set_command_same:
  "(\<And>c. get_command k s = Some c \<Longrightarrow> command_ident (f c) = command_ident c \<and>
      (ac_current_attempt_id (f c) = None \<or> ac_current_attempt_id (f c) = ac_current_attempt_id c)) \<Longrightarrow>
   evolves E s (set_command k f s)"
  using evolves_set_command [of k s f E "ids_drawn s"]
  by (fastforce simp: set_command_ids attempt_evolves_def)

lemma evolves_release: "evolves E s (release_session_if_no_active_commands k e nw s)"
  by (auto simp: release_session_if_no_active_commands_def intro: evolves_set_session split: option.splits)

lemma evolves_lease_session: "lease_session nw x k s = (r, t) \<Longrightarrow> evolves E s t"
  by (auto simp: lease_session_def intro: evolves_set_session split: option.splits if_splits)

lemma command_ident_lease [simp]: "command_ident (lease_command a e nw c) = command_ident c"
  by (simp add: command_ident_def lease_command_def)

lemma evolves_lease_command:
  assumes "\<And>c. get_command k s = Some c \<Longrightarrow> command_ident (f c) = command_ident c \<and>
      ac_current_attempt_id (f c) = Some (env_uuid E (ids_drawn s))"
  shows "evolves E s (set_command k f (s\<lparr>ids_drawn := Suc (ids_drawn s)\<rparr>))"
proof -
  have "set_command k f (s\<lparr>ids_drawn := Suc (ids_drawn s)\<rparr>) =
      (set_command k f s)\<lparr>ids_drawn := Suc (ids_drawn s)\<rparr>"
    by (simp add: set_command_def)
  then show ?thesis
    using evolves_set_command [of k s f E "Suc (ids_drawn s)"] assms
    by (auto simp: attempt_evolves_def)
qed

lemma evolves_now: "now E s = (nw, t) \<Longrightarrow> evolves E' s t"
  by (auto simp: now_def intro: evolves_frame)

lemma evolves_insert_dead_letter:
  "insert_dead_letter_in_transaction E input nw s = (d, t) \<Longrightarrow> evolves E s t"
  by (auto simp: insert_dead_letter_in_transaction_def new_id_def Let_def intro!: evolves_frame)

section \<open>Every operation evolves the tables\<close>

lemma evolves_tick:
  "evolves E (s\<lparr>clock_reads := Suc (clock_reads s)\<rparr>) t \<Longrightarrow> evolves E s t"
  by (rule evolves_trans [OF evolves_frame]) simp_all

lemma upsert_session_evolves: "upsert_session E k a cid s = (r, t) \<Longrightarrow> evolves E s t"
  by (auto simp: upsert_session_def now_def Let_def evolves_def get_session_def get_command_def commands_wf_def
      split: option.splits)

lemma update_session_evolves: "update_session E u s = (r, t) \<Longrightarrow> evolves E s t"
  by (rule evolves_tick)
     (auto simp: update_session_def now_def Let_def intro!: evolves_set_session split: option.splits)

lemma update_session_heartbeat_evolves: "update_session_heartbeat_for_epoch E k e s = (r, t) \<Longrightarrow> evolves E s t"
  by (rule evolves_tick)
     (auto simp: update_session_heartbeat_for_epoch_def now_def Let_def intro!: evolves_set_session
        split: option.splits if_splits)

lemma find_by_message_agent_None:
  assumes "commands_wf s"
  shows "find_by_message_agent m a s = None \<longleftrightarrow>
     (\<forall>k c. get_command k s = Some c \<longrightarrow> \<not> (ac_message_id c = m \<and> ac_agent_id c = a))"
proof -
  have "c \<in> set (command_rows s) \<longleftrightarrow> (\<exists>k. get_command k s = Some c)" for c
    using assms by (simp add: command_rows_def get_command_def hm_values_get commands_wf_def)
  then show ?thesis unfolding find_by_message_agent_def find_None_iff by blast
qed

lemma insert_command_evolves: "insert_command E input s = (r, t) \<Longrightarrow> evolves E s t"
proof (rule evolves_tick)
  let ?s = "s\<lparr>clock_reads := Suc (clock_reads s)\<rparr>"
  assume run: "insert_command E input s = (r, t)"
  show "evolves E ?s t"
  proof (cases "t = ?s")
    case False
    with run obtain metadata where
      none: "find_by_message_agent (ic_message_id input) (ic_agent_id input) ?s = None"
      and fresh: "unique_violation input ?s = None"
      and t: "t = ?s\<lparr>agent_commands := hm_insert (ic_command_id input)
          (command_of_input input metadata (env_clock E (clock_reads s))) (agent_commands ?s)\<rparr>"
      by (auto simp: insert_command_def now_def Let_def command_of_input_def split: option.splits sum.splits)
    have absent: "get_command (ic_command_id input) ?s = None"
      using fresh by (simp add: unique_violation_def split: if_splits)
    let ?c = "command_of_input input metadata (env_clock E (clock_reads s))"
    have get: "get_command k t = (if k = ic_command_id input then Some ?c else get_command k ?s)" for k
      by (simp add: t get_command_def)
    have "commands_wf t" if wf: "commands_wf ?s"
    proof -
      have "hm_wf (agent_commands t)" using wf by (simp add: commands_wf_def t)
      moreover have new: "\<not> (ac_message_id d = ac_message_id ?c \<and> ac_agent_id d = ac_agent_id ?c)"
        if "get_command l ?s = Some d" for l d
        using that none unfolding find_by_message_agent_None [OF wf] by (simp add: command_of_input_def)
      have "k = k'"
        if "get_command k t = Some c" "get_command k' t = Some c'"
          "ac_message_id c = ac_message_id c'" "ac_agent_id c = ac_agent_id c'" for k k' c c'
      proof -
        have "k = k'" if "get_command k ?s = Some c" "get_command k' ?s = Some c'"
          using wf that \<open>ac_message_id c = ac_message_id c'\<close> \<open>ac_agent_id c = ac_agent_id c'\<close>
          unfolding commands_wf_def by blast
        then show ?thesis using that new [of k c] new [of k' c'] by (auto simp: get split: if_splits)
      qed
      moreover have "ac_command_id c = k" if "get_command k t = Some c" for k c
        using that wf by (auto simp: get command_of_input_def commands_wf_def split: if_splits)
      ultimately show ?thesis unfolding commands_wf_def by blast
    qed
    moreover have "get_session k t = get_session k ?s" for k by (simp add: t get_session_def)
    moreover have "ids_drawn t = ids_drawn ?s" by (simp add: t)
    moreover have "get_command k t = Some c" if "get_command k ?s = Some c" for k c
      using that absent by (auto simp: get)
    ultimately show ?thesis unfolding evolves_def by auto
  qed simp
qed

lemma update_command_status_evolves:
  assumes "cu_current_attempt_id u = None"
  shows "update_command_status_inner E u a s = (r, t) \<Longrightarrow> evolves E s t"
  using assms
  by (rule_tac evolves_tick)
     (auto simp: update_command_status_inner_def now_def Let_def command_ident_def
        intro!: evolves_set_command_same evolves_trans [OF evolves_set_command_same evolves_release]
        split: option.splits if_splits)

lemma assign_lease_evolves: "assign_lease E cid x s = (r, t) \<Longrightarrow> evolves E s t"
proof (rule evolves_tick)
  let ?s = "s\<lparr>clock_reads := Suc (clock_reads s)\<rparr>"
  assume run: "assign_lease E cid x s = (r, t)"
  show "evolves E ?s t"
  proof (cases "t = ?s")
    case False
    with run obtain c :: agent_command and e s1 where lease: "lease_session (env_clock E (clock_reads s)) x (ac_session_key c) ?s = (Inr e, s1)"
      and t: "t = set_command cid (lease_command (env_uuid E (ids_drawn s1)) e (env_clock E (clock_reads s)))
          (s1\<lparr>ids_drawn := Suc (ids_drawn s1)\<rparr>)"
      by (auto simp: assign_lease_def now_def new_id_def Let_def split: option.splits if_splits sum.splits prod.splits)
    have "evolves E s1 t" unfolding t
      by (rule evolves_lease_command) (simp add: lease_command_def command_ident_def)
    then show ?thesis using evolves_trans evolves_lease_session [OF lease] by blast
  qed simp
qed

lemma batch_epochs_evolves: "batch_epochs nw x cs epochs s = (r, t) \<Longrightarrow> evolves E s t"
proof (induction cs arbitrary: epochs s)
  case (Cons c cs)
  show ?case
  proof (cases "hm_get epochs (ac_session_key c)")
    case None
    obtain q u where q: "lease_session nw x (ac_session_key c) s = (q, u)" by fastforce
    show ?thesis
    proof (cases q)
      case (Inl e)
      with Cons.prems None q have "t = u" by simp
      with evolves_lease_session [OF q] show ?thesis by simp
    next
      case (Inr e)
      with Cons.prems None q have "evolves E u t" by (auto intro: Cons.IH)
      with evolves_lease_session [OF q] show ?thesis by (rule evolves_trans)
    qed
  qed (use Cons in auto)
qed simp

lemma batch_lease_evolves: "batch_lease E nw epochs cs as s = (r, t) \<Longrightarrow> evolves E s t"
proof (induction cs arbitrary: as s)
  case (Cons c cs)
  show ?case
  proof (cases "hm_get epochs (ac_session_key c)")
    case (Some e)
    let ?u = "set_command (ac_command_id c) (lease_command (env_uuid E (ids_drawn s)) e nw)
        (s\<lparr>ids_drawn := Suc (ids_drawn s)\<rparr>)"
    from Cons.prems Some have "evolves E ?u t"
      by (auto simp: new_id_def Let_def intro: Cons.IH)
    moreover have "evolves E s ?u"
      by (rule evolves_lease_command) (simp add: lease_command_def command_ident_def)
    ultimately show ?thesis using evolves_trans by blast
  qed (use Cons.prems in simp)
qed simp

lemma assign_batch_leases_evolves: "assign_batch_leases E cids x s = (r, t) \<Longrightarrow> evolves E s t"
proof (cases "cids = []")
  case False
  let ?s = "s\<lparr>clock_reads := Suc (clock_reads s)\<rparr>"
  assume run: "assign_batch_leases E cids x s = (r, t)"
  show ?thesis
  proof (rule evolves_tick, cases "t = ?s")
    case changed: False
    let ?nw = "env_clock E (clock_reads s)"
    let ?rows = "sort_key ac_command_id (filter (\<lambda>c. ac_command_id c \<in> set cids) (command_rows ?s))"
    from run False changed obtain epochs s1 q u where
      b1: "batch_epochs ?nw x ?rows [] ?s = (Inr epochs, s1)"
      and b2: "batch_lease E ?nw epochs ?rows [] s1 = (q, u)"
      and t: "t = u \<or> t = ?s\<lparr>ids_drawn := ids_drawn u\<rparr>"
      by (auto simp: assign_batch_leases_def now_def Let_def split: option.splits if_splits sum.splits prod.splits)
    have "evolves E ?s u"
      using evolves_trans [OF batch_epochs_evolves [OF b1] batch_lease_evolves [OF b2]] .
    then have "ids_drawn ?s \<le> ids_drawn u" by (simp add: evolves_def)
    with t \<open>evolves E ?s u\<close> show "evolves E ?s t" by (auto intro: evolves_frame)
  qed simp
qed (simp add: assign_batch_leases_def)

lemma mark_command_succeeded_evolves: "mark_command_succeeded_for_attempt E cid a s = (r, t) \<Longrightarrow> evolves E s t"
  by (rule evolves_tick)
     (auto simp: mark_command_succeeded_for_attempt_def now_def Let_def command_ident_def
        intro!: evolves_set_command_same split: option.splits if_splits)

lemma mark_command_committed_evolves: "mark_command_committed_for_attempt E cid a s = (r, t) \<Longrightarrow> evolves E s t"
  by (rule evolves_tick)
     (auto simp: mark_command_committed_for_attempt_def now_def Let_def command_ident_def
        intro!: evolves_trans [OF evolves_set_command_same evolves_release] split: option.splits if_splits)

lemma release_lease_evolves: "release_lease E cid s = (r, t) \<Longrightarrow> evolves E s t"
  by (rule evolves_tick)
     (auto simp: release_lease_def now_def Let_def command_ident_def
        intro!: evolves_trans [OF evolves_set_command_same evolves_set_session] split: option.splits)

lemma expire_session_evolves: "expire_session k e nw s = (r, t) \<Longrightarrow> evolves E s t"
  by (auto simp: expire_session_def intro!: evolves_set_session split: option.splits if_splits)

lemma handle_lease_expiry_evolves: "handle_lease_expiry E x s = (r, t) \<Longrightarrow> evolves E s t"
proof (rule evolves_tick)
  let ?s = "s\<lparr>clock_reads := Suc (clock_reads s)\<rparr>"
  let ?nw = "env_clock E (clock_reads s)"
  assume run: "handle_lease_expiry E x s = (r, t)"
  show "evolves E ?s t"
  proof (cases "t = ?s")
    case False
    with run obtain c :: agent_command and s1 u where
      exp: "expire_session (ac_session_key c) (el_epoch x) ?nw ?s = (Inr u, s1)"
      and t: "(\<exists>f input d. insert_dead_letter_in_transaction E input ?nw (set_command (el_command_id x) f s1) = (d, t) \<and>
            (\<forall>c. command_ident (f c) = command_ident c \<and> ac_current_attempt_id (f c) = None)) \<or>
          (\<exists>f. t = set_command (el_command_id x) f s1 \<and>
            (\<forall>c. command_ident (f c) = command_ident c \<and> ac_current_attempt_id (f c) = None))"
      apply (auto simp: handle_lease_expiry_def now_def Let_def
          split: option.splits if_splits sum.splits prod.splits)
       apply (fastforce simp: command_ident_def)
      apply (fastforce simp: command_ident_def)
      done
    have step: "evolves E s1 (set_command k f s1)"
      if "\<forall>c. command_ident (f c) = command_ident c \<and> ac_current_attempt_id (f c) = None" for f k
      using that by (intro evolves_set_command_same) simp
    from t have "evolves E s1 t"
    proof (elim disjE exE conjE)
      fix f input d
      assume "insert_dead_letter_in_transaction E input ?nw (set_command (el_command_id x) f s1) = (d, t)"
        and f: "\<forall>c. command_ident (f c) = command_ident c \<and> ac_current_attempt_id (f c) = None"
      then show "evolves E s1 t" using evolves_trans [OF step [OF f] evolves_insert_dead_letter] by blast
    qed (use step in blast)
    with expire_session_evolves [OF exp] show ?thesis by (rule evolves_trans)
  qed simp
qed

lemma insert_dead_letter_evolves: "insert_dead_letter E input s = (r, t) \<Longrightarrow> evolves E s t"
  by (rule evolves_tick)
     (auto simp: insert_dead_letter_def now_def Let_def split: prod.splits dest: evolves_insert_dead_letter)

lemma evolves_dead_letter_chain:
  assumes "insert_dead_letter_in_transaction E input nw
      (release_session_if_no_active_commands k e nw (set_command cid f s)) = (d, t)"
    and "\<And>c. command_ident (f c) = command_ident c \<and> ac_current_attempt_id (f c) = None"
  shows "evolves E s t"
proof -
  have "evolves E s (set_command cid f s)"
    using assms(2) by (intro evolves_set_command_same) simp
  also have "evolves E \<dots> (release_session_if_no_active_commands k e nw (set_command cid f s))"
    by (rule evolves_release)
  also have "evolves E \<dots> t" by (rule evolves_insert_dead_letter [OF assms(1)])
  finally show ?thesis .
qed

lemma dead_letter_command_evolves: "dead_letter_command_for_attempt E input a s = (r, t) \<Longrightarrow> evolves E s t"
  by (rule evolves_tick)
     (auto simp: dead_letter_command_for_attempt_def now_def Let_def split: option.splits if_splits prod.splits
        elim!: evolves_dead_letter_chain simp: command_ident_def)

lemma dead_letter_stale_evolves: "dead_letter_stale_pending_commands E age n s = (r, t) \<Longrightarrow> evolves E s t"
proof (rule evolves_tick)
  assume run: "dead_letter_stale_pending_commands E age n s = (r, t)"
  have "evolves E u (fold (\<lambda>c. set_command (ac_command_id c)
      (\<lambda>c. c\<lparr>ac_status := DeadLettered, ac_last_error := Some ''TTL expired''\<rparr>)) cs u)"
    for cs :: "agent_command list" and u
  proof (induction cs arbitrary: u)
    case (Cons c cs)
    have "evolves E u (set_command (ac_command_id c)
        (\<lambda>c. c\<lparr>ac_status := DeadLettered, ac_last_error := Some ''TTL expired''\<rparr>) u)"
      by (rule evolves_set_command_same) (simp add: command_ident_def)
    then show ?case unfolding fold_simps comp_apply using Cons.IH by (rule evolves_trans)
  qed simp
  with run show "evolves E (s\<lparr>clock_reads := Suc (clock_reads s)\<rparr>) t"
    by (auto simp: dead_letter_stale_pending_commands_def now_def Let_def split: sum.splits)
qed

lemma claim_runtime_host_command_evolves: "claim_runtime_host_command E h s = (r, t) \<Longrightarrow> evolves E s t"
proof (rule evolves_tick)
  let ?s = "s\<lparr>clock_reads := Suc (clock_reads s)\<rparr>"
  let ?nw = "env_clock E (clock_reads s)"
  assume run: "claim_runtime_host_command E h s = (r, t)"
  show "evolves E ?s t"
  proof (cases "t = ?s")
    case False
    with run obtain c :: agent_command and k e s1 j where
      lease: "lease_session ?nw (''runtime-host:'' @ h) k ?s = (Inr e, s1)"
      and t: "t = set_command (ac_command_id c)
          (\<lambda>r. (lease_command (env_uuid E (ids_drawn s1)) e ?nw r)\<lparr>ac_metadata := j\<rparr>)
          (s1\<lparr>ids_drawn := Suc (ids_drawn s1)\<rparr>)"
      by (auto simp: claim_runtime_host_command_def now_def new_id_def Let_def
          split: list.splits sum.splits prod.splits)
    have "evolves E s1 t" unfolding t
      by (rule evolves_lease_command) (simp add: lease_command_def command_ident_def)
    with evolves_lease_session [OF lease] show ?thesis by (rule evolves_trans)
  qed simp
qed

lemma heartbeat_runtime_host_command_evolves:
  "heartbeat_runtime_host_command E h cid a s = (r, t) \<Longrightarrow> evolves E s t"
  by (rule evolves_tick)
     (auto simp: heartbeat_runtime_host_command_def now_def Let_def command_ident_def
        intro!: evolves_trans [OF evolves_set_command_same evolves_set_session] split: option.splits if_splits)

lemma executor_ops_evolve:
  "register_executor E n caps s = (r, t) \<Longrightarrow> evolves E s t"
  "deregister_executor n s = (q, t) \<Longrightarrow> evolves E s t"
  "update_executor_heartbeat E n s = (q, t) \<Longrightarrow> evolves E s t"
  by (auto simp: register_executor_def deregister_executor_def update_executor_heartbeat_def now_def Let_def
      intro!: evolves_frame split: option.splits)

lemma evolves_update_bindings: "evolves E s (update_bindings h c f s)"
  by (simp add: update_bindings_def evolves_frame)

lemma evolves_dead_letter_if:
  "evolves E s t \<Longrightarrow> evolves E s (if b then snd (insert_dead_letter_in_transaction E i nw t) else t)"
  by (cases "insert_dead_letter_in_transaction E i nw t") (auto intro: evolves_trans evolves_insert_dead_letter)

lemma evolves_clear_attempt:
  assumes "evolves E s t" "\<And>c. command_ident (f c) = command_ident c" "\<And>c. ac_current_attempt_id (f c) = None"
  shows "evolves E s (set_command k f t)"
  using assms by (blast intro: evolves_trans evolves_set_command_same)

lemma fail_host_command_evolves:
  "now E s = (nw, s1) \<Longrightarrow> evolves E s (fail_host_command E h a err clear nw c s1)"
proof (rule evolves_tick)
  assume "now E s = (nw, s1)"
  then have s1: "s1 = s\<lparr>clock_reads := Suc (clock_reads s)\<rparr>" by (simp add: now_def)
  show "evolves E (s\<lparr>clock_reads := Suc (clock_reads s)\<rparr>) (fail_host_command E h a err clear nw c s1)"
    unfolding fail_host_command_def Let_def s1
    by (rule evolves_trans [OF evolves_dead_letter_if [OF evolves_clear_attempt] evolves_release])
      (simp_all add: evolves_update_bindings command_ident_def)
qed

lemma commit_host_command_evolves:
  "now E s = (nw, s1) \<Longrightarrow> evolves E s (commit_host_command J h ext nw c s1)"
proof (rule evolves_tick)
  assume "now E s = (nw, s1)"
  then have s1: "s1 = s\<lparr>clock_reads := Suc (clock_reads s)\<rparr>" by (simp add: now_def)
  show "evolves E (s\<lparr>clock_reads := Suc (clock_reads s)\<rparr>) (commit_host_command J h ext nw c s1)"
    unfolding commit_host_command_def Let_def s1
    by (rule evolves_trans [OF evolves_clear_attempt evolves_release])
      (auto simp: evolves_update_bindings command_ident_def split: option.splits)
qed

section \<open>Clients of the store\<close>

text \<open>
  A step is one transaction of any client, or a client reading the clock. The status updates the clients send
  (\<^verbatim>\<open>dispatch.rs\<close>, \<^verbatim>\<open>retry_scheduler.rs\<close>) never carry an attempt id: only leases hand
  them out.
\<close>

inductive session_step :: "env \<Rightarrow> session_db \<Rightarrow> session_db \<Rightarrow> bool" for E where
  "upsert_session E k a cid s = (r, t) \<Longrightarrow> session_step E s t"
| "update_session E u s = (r, t) \<Longrightarrow> session_step E s t"
| "update_session_heartbeat_for_epoch E k e s = (r, t) \<Longrightarrow> session_step E s t"
| "insert_command E input s = (q, t) \<Longrightarrow> session_step E s t"
| "update_command_status E u' s = (r, t) \<Longrightarrow> cu_current_attempt_id u' = None \<Longrightarrow> session_step E s t"
| "update_command_status_for_attempt E u' a s = (r, t) \<Longrightarrow> cu_current_attempt_id u' = None \<Longrightarrow> session_step E s t"
| "assign_lease E cid x s = (q, t) \<Longrightarrow> session_step E s t"
| "assign_batch_leases E cids x s = (q, t) \<Longrightarrow> session_step E s t"
| "mark_command_succeeded_for_attempt E cid a s = (r, t) \<Longrightarrow> session_step E s t"
| "mark_command_committed_for_attempt E cid a s = (r, t) \<Longrightarrow> session_step E s t"
| "release_lease E cid s = (r, t) \<Longrightarrow> session_step E s t"
| "handle_lease_expiry E el s = (r, t) \<Longrightarrow> session_step E s t"
| "insert_dead_letter E dl s = (q, t) \<Longrightarrow> session_step E s t"
| "dead_letter_command_for_attempt E dl a s = (q, t) \<Longrightarrow> session_step E s t"
| "dead_letter_stale_pending_commands E age n s = (q, t) \<Longrightarrow> session_step E s t"
| "claim_runtime_host_command E h s = (q, t) \<Longrightarrow> session_step E s t"
| "heartbeat_runtime_host_command E h cid a s = (r, t) \<Longrightarrow> session_step E s t"
| "now E s = (nw, s1) \<Longrightarrow> host_command h cid a s1 = Some c \<Longrightarrow>
   t = fail_host_command E h a err clear nw c s1 \<Longrightarrow> session_step E s t"
| "now E s = (nw, s1) \<Longrightarrow> host_command h cid a s1 = Some c \<Longrightarrow>
   t = commit_host_command J h ext nw c s1 \<Longrightarrow> session_step E s t"
| "register_executor E node caps s = (q, t) \<Longrightarrow> session_step E s t"
| "deregister_executor node s = (r, t) \<Longrightarrow> session_step E s t"
| "update_executor_heartbeat E node s = (r, t) \<Longrightarrow> session_step E s t"
| "now E s = (nw, t) \<Longrightarrow> session_step E s t"

lemmas session_ops_evolve =
  evolves_now
  upsert_session_evolves update_session_evolves update_session_heartbeat_evolves insert_command_evolves
  update_command_status_evolves assign_lease_evolves assign_batch_leases_evolves
  mark_command_succeeded_evolves mark_command_committed_evolves release_lease_evolves
  handle_lease_expiry_evolves insert_dead_letter_evolves dead_letter_command_evolves
  dead_letter_stale_evolves claim_runtime_host_command_evolves heartbeat_runtime_host_command_evolves
  fail_host_command_evolves commit_host_command_evolves
  executor_ops_evolve

lemma session_step_evolves: "session_step E s t \<Longrightarrow> evolves E s t"
  by (induction rule: session_step.induct)
     (auto simp: update_command_status_def update_command_status_for_attempt_def intro: session_ops_evolve)

lemma session_steps_evolve: "(session_step E)\<^sup>*\<^sup>* s t \<Longrightarrow> evolves E s t"
  by (induction rule: rtranclp_induct) (auto intro: evolves_trans session_step_evolves)

section \<open>A small run\<close>

text \<open>
  One session and one command, leased by an executor that then goes silent: the lease expires,
  the retry scheduler makes the command pending again and a second executor leases it.
\<close>

definition demo_env :: env where
  "demo_env = \<lparr>env_uuid = (\<lambda>n. replicate n CHR ''u''), env_clock = (\<lambda>n. secs (int n))\<rparr>"

definition demo_db :: session_db where
  "demo_db = \<lparr>ids_drawn = 0, clock_reads = 0, session_registry = [], agent_commands = [], dead_letters = [],
     disabled_principals = [], agent_runtime_bindings = [], revoked_hosts = [], executors = []\<rparr>"

definition demo_input :: "string \<Rightarrow> insert_command" where
  "demo_input i = \<lparr>ic_command_id = i, ic_route_id = i @ ''-route'', ic_session_key = ''a:c'', ic_agent_id = ''a'',
     ic_conversation_id = ''c'', ic_message_id = ''m'', ic_turn_id = i @ ''-turn'', ic_prompt = ''hi'',
     ic_max_attempts = DEFAULT_MAX_ATTEMPTS, ic_metadata = jobj []\<rparr>"

definition demo_registered :: session_db where
  "demo_registered = snd (upsert_session demo_env ''a:c'' ''a'' ''c'' demo_db)"

definition demo_inserted :: session_db where
  "demo_inserted = snd (insert_command demo_env (demo_input ''k'') demo_registered)"

definition demo_leased :: session_db where
  "demo_leased = snd (assign_lease demo_env ''k'' ''node-1'' demo_inserted)"

definition demo_expired_lease :: expired_lease where
  "demo_expired_lease = \<lparr>el_session_key = ''a:c'', el_command_id = ''k'', el_epoch = 1, el_attempt_count = 1,
     el_max_attempts = 3\<rparr>"

definition demo_expired :: session_db where
  "demo_expired = snd (handle_lease_expiry demo_env demo_expired_lease demo_leased)"

definition demo_requeue :: command_status_update where
  "demo_requeue = \<lparr>cu_command_id = ''k'', cu_status = Pending, cu_current_attempt_id = None,
     cu_current_epoch = None, cu_attempt_count = None, cu_next_retry_at = Some None, cu_last_error = None\<rparr>"

definition demo_requeued :: session_db where
  "demo_requeued = snd (update_command_status demo_env demo_requeue demo_expired)"

definition demo_released :: session_db where
  "demo_released = snd (assign_lease demo_env ''k'' ''node-2'' demo_requeued)"

lemma demo_steps: "(session_step demo_env)\<^sup>*\<^sup>* demo_expired demo_released"
proof -
  have "session_step demo_env demo_expired demo_requeued"
    by (rule session_step.intros(5) [of _ demo_requeue _ "fst (update_command_status demo_env demo_requeue demo_expired)"])
       (simp_all add: demo_requeued_def demo_requeue_def)
  moreover have "session_step demo_env demo_requeued demo_released"
    by (rule session_step.intros(7) [of _ "''k''" "''node-2''" _ "fst (assign_lease demo_env ''k'' ''node-2'' demo_requeued)"])
       (simp add: demo_released_def)
  ultimately show ?thesis by (meson converse_rtranclp_into_rtranclp rtranclp.rtrancl_refl)
qed

section \<open>Epochs\<close>

text \<open>
  C8: epochs only grow. Over any interleaving of the store's operations, a registered session
  stays registered and its epoch never decreases, so an epoch that was superseded is never
  current again.
\<close>

theorem session_epochs_monotone:
  assumes "(session_step E)\<^sup>*\<^sup>* s t" "get_session k s = Some se"
  shows "\<exists>se'. get_session k t = Some se' \<and> se_epoch se \<le> se_epoch se'"
  using session_steps_evolve [OF assms(1)] assms(2) unfolding evolves_def by blast

theorem session_epochs_monotone_witness:
  "map_option se_epoch (get_session ''a:c'' demo_expired) = Some 2 \<and>
   (\<exists>se'. get_session ''a:c'' demo_released = Some se' \<and> 2 \<le> se_epoch se')"
proof -
  have e: "map_option se_epoch (get_session ''a:c'' demo_expired) = Some 2" by code_simp
  then obtain se where se: "get_session ''a:c'' demo_expired = Some se" "se_epoch se = 2" by blast
  from session_epochs_monotone [OF demo_steps se(1)] se(2) e show ?thesis by auto
qed

section \<open>Fencing\<close>

lemma not_owner_not_attempt: "ac_current_attempt_id c \<noteq> Some a \<Longrightarrow> \<not> owns_attempt s c a"
  by (simp add: owns_attempt_def)

definition tick :: "session_db \<Rightarrow> session_db" where
  "tick s = s\<lparr>clock_reads := Suc (clock_reads s)\<rparr>"

lemma get_command_tick [simp]: "get_command k (tick s) = get_command k s"
  by (simp add: tick_def get_command_def)

lemma get_session_tick [simp]: "get_session k (tick s) = get_session k s"
  by (simp add: tick_def get_session_def)

lemma now_tick: "now E s = (env_clock E (clock_reads s), tick s)"
  by (simp add: now_def tick_def)

text \<open>A caller whose attempt is not the current one changes nothing.\<close>

lemma stale_attempt_rejected:
  assumes "get_command cid s = Some c" "ac_current_attempt_id c \<noteq> Some a"
  shows "mark_command_succeeded_for_attempt E cid a s = (Inl (StaleAttempt cid a), tick s)"
    and "mark_command_committed_for_attempt E cid a s = (Inl (StaleAttempt cid a), tick s)"
    and "cu_command_id u = cid \<Longrightarrow>
      update_command_status_for_attempt E u a s = (Inl (StaleAttempt cid a), tick s)"
    and "id_source_id dl = cid \<Longrightarrow>
      dead_letter_command_for_attempt E dl a s = (Inl (StaleAttempt cid a), tick s)"
    and "heartbeat_runtime_host_command E h cid a s = (Inl (StaleAttempt cid a), tick s)"
  using assms
  by (simp_all add: mark_command_succeeded_for_attempt_def mark_command_committed_for_attempt_def
      update_command_status_for_attempt_def update_command_status_inner_def
      dead_letter_command_for_attempt_def heartbeat_runtime_host_command_def Let_def now_tick
      not_owner_not_attempt)

lemma handle_lease_expiry_clears:
  assumes "handle_lease_expiry E x s = (Inr u, t)"
  shows "\<exists>c'. get_command (el_command_id x) t = Some c' \<and> ac_current_attempt_id c' = None"
proof -
  have "expire_session k e nw s' = (r, t') \<Longrightarrow> get_command l t' = get_command l s'" for k e nw s' r t' l
    by (auto simp: expire_session_def split: option.splits if_splits)
  moreover have "insert_dead_letter_in_transaction E' i nw s' = (d, t') \<Longrightarrow> get_command l t' = get_command l s'"
    for E' i nw s' d t' l
    by (auto simp: insert_dead_letter_in_transaction_def new_id_def Let_def get_command_def)
  ultimately show ?thesis using assms
    by (fastforce simp: handle_lease_expiry_def Let_def now_tick get_command_set_command
        split: option.splits if_splits sum.splits prod.splits)
qed

text \<open>An expired lease's attempt never comes back: later leases draw later identifiers.\<close>

lemma expired_attempt_gone:
  assumes "inj (env_uuid E)" "a = env_uuid E i" "i < ids_drawn s"
    and "handle_lease_expiry E x s = (Inr (), s1)" "(session_step E)\<^sup>*\<^sup>* s1 t"
  obtains c2 where "get_command (el_command_id x) t = Some c2" "ac_current_attempt_id c2 \<noteq> Some a"
proof -
  obtain c1 where c1: "get_command (el_command_id x) s1 = Some c1" "ac_current_attempt_id c1 = None"
    using handle_lease_expiry_clears [OF assms(4)] by blast
  have "ids_drawn s \<le> ids_drawn s1"
    using handle_lease_expiry_evolves [OF assms(4)] by (simp add: evolves_def)
  moreover obtain c2 where c2: "get_command (el_command_id x) t = Some c2"
      "attempt_evolves E (ids_drawn s1) (ids_drawn t) None (ac_current_attempt_id c2)"
    using session_steps_evolve [OF assms(5)] c1 unfolding evolves_def by (metis (no_types, lifting))
  ultimately have "ac_current_attempt_id c2 \<noteq> Some a"
    using assms(2,3) injD [OF assms(1)] by (fastforce simp: attempt_evolves_def)
  with c2(1) show thesis by (rule that)
qed



section \<open>One command per message and agent\<close>

lemma find_by_message_agent_Some:
  assumes "commands_wf s" "get_command k s = Some c"
  shows "find_by_message_agent (ac_message_id c) (ac_agent_id c) s = Some c"
proof -
  have rows: "d \<in> set (command_rows s) \<longleftrightarrow> (\<exists>k. get_command k s = Some d)" for d
    using assms(1) by (simp add: command_rows_def get_command_def hm_values_get commands_wf_def)
  obtain d where d: "find_by_message_agent (ac_message_id c) (ac_agent_id c) s = Some d"
    using find_by_message_agent_None [OF assms(1)] assms(2) by (cases "find_by_message_agent (ac_message_id c) (ac_agent_id c) s") auto
  then have "d \<in> set (command_rows s)" "ac_message_id d = ac_message_id c" "ac_agent_id d = ac_agent_id c"
    unfolding find_by_message_agent_def find_Some_iff by (auto simp: in_set_conv_nth)
  then obtain k' where "get_command k' s = Some d" using rows by blast
  with assms \<open>ac_message_id d = ac_message_id c\<close> \<open>ac_agent_id d = ac_agent_id c\<close> have "d = c"
    unfolding commands_wf_def by (metis option.inject)
  with d show ?thesis by simp
qed

lemma insert_command_stored:
  assumes "commands_wf s" "insert_command E input s = (Inr c, t)"
  shows "get_command (ac_command_id c) t = Some c \<and>
         ac_message_id c = ic_message_id input \<and> ac_agent_id c = ic_agent_id input"
proof (cases "find_by_message_agent (ic_message_id input) (ic_agent_id input) (tick s)")
  case None
  with assms(2) show ?thesis
    by (auto simp: insert_command_def Let_def now_tick get_command_def command_of_input_def
        split: sum.splits option.splits)
next
  case (Some d)
  have wf: "commands_wf (tick s)" using assms(1) by (simp add: commands_wf_def tick_def get_command_def)
  from Some have "d \<in> set (command_rows (tick s))" "ac_message_id d = ic_message_id input"
      "ac_agent_id d = ic_agent_id input"
    unfolding find_by_message_agent_def find_Some_iff by (auto simp: in_set_conv_nth)
  moreover from this(1) wf have "\<exists>k. get_command k (tick s) = Some d"
    by (simp add: command_rows_def get_command_def hm_values_get commands_wf_def)
  then have "get_command (ac_command_id d) (tick s) = Some d"
    using wf unfolding commands_wf_def by metis
  ultimately show ?thesis using assms(2) Some by (auto simp: insert_command_def Let_def now_tick)
qed

text \<open>
  Inserting a command is idempotent. Once a message has produced a command for an agent, a
  later insertion for the same message and agent (a redelivered event, another router) returns
  that command and inserts nothing, whatever transactions ran in between.
\<close>

theorem insert_command_idempotent:
  assumes "commands_wf s" "insert_command E input s = (Inr c, s1)" "(session_step E)\<^sup>*\<^sup>* s1 t"
    and "ic_message_id input' = ic_message_id input" "ic_agent_id input' = ic_agent_id input"
  shows "\<exists>d. insert_command E input' t = (Inr d, tick t) \<and> command_ident d = command_ident c"
proof -
  note stored = insert_command_stored [OF assms(1,2)]
  have "commands_wf s1"
    using insert_command_evolves [OF assms(2)] assms(1) by (simp add: evolves_def)
  moreover note ev = session_steps_evolve [OF assms(3)]
  ultimately have wf: "commands_wf t" by (simp add: evolves_def)
  obtain d where d: "get_command (ac_command_id c) t = Some d" "command_ident d = command_ident c"
    using ev stored unfolding evolves_def by (metis (no_types, lifting))
  then have ids: "ac_message_id d = ic_message_id input" "ac_agent_id d = ic_agent_id input"
    using stored by (simp_all add: command_ident_def)
  have "commands_wf (tick t)" "get_command (ac_command_id c) (tick t) = Some d"
    using wf d(1) by (simp_all add: commands_wf_def tick_def get_command_def)
  from find_by_message_agent_Some [OF this] ids assms(4,5) d(2) show ?thesis
    by (simp add: insert_command_def Let_def now_tick)
qed

theorem insert_command_idempotent_witness:
  "\<exists>d. insert_command demo_env (demo_input ''other-id'') demo_inserted = (Inr d, tick demo_inserted) \<and>
       ac_command_id d = ''k''"
proof -
  have wf: "commands_wf demo_registered"
    by (simp add: commands_wf_def get_command_def demo_registered_def upsert_session_def demo_db_def now_def Let_def)
  have "map_sum (\<lambda>_. ()) ac_command_id (fst (insert_command demo_env (demo_input ''k'') demo_registered)) = Inr ''k''"
    by code_simp
  then obtain c where c: "fst (insert_command demo_env (demo_input ''k'') demo_registered) = Inr c" "ac_command_id c = ''k''"
    by (cases "fst (insert_command demo_env (demo_input ''k'') demo_registered)") auto
  then have run: "insert_command demo_env (demo_input ''k'') demo_registered = (Inr c, demo_inserted)"
    by (simp add: demo_inserted_def prod_eq_iff)
  from insert_command_idempotent [OF wf run rtranclp.rtrancl_refl, of "demo_input ''other-id''"] c(2)
  show ?thesis by (auto simp: demo_input_def command_ident_def)
qed

end
