(* ===== verification/Session_Dispatch.thy ===== *)
theory Session_Dispatch
  imports Session_Props
begin

text \<open>
  Dispatch: the order in which pending commands are handed out, and the batch lease. Also what the
  router's decision sink in the pipeline relies on.
\<close>

section \<open>Fair dispatch\<close>

lemma find_pending_commands_sound:
  assumes "find_pending_commands limit s = Inr cs" "c \<in> set cs"
  shows "c \<in> set (eligible_commands s)"
  using assms by (auto simp: find_pending_commands_def sql_limit_def split: if_splits dest: in_set_takeD)


definition demo_row :: "string \<Rightarrow> string \<Rightarrow> timestamp \<Rightarrow> agent_command" where
  "demo_row i agent created =
     (command_of_input ((demo_input i)\<lparr>ic_agent_id := agent, ic_message_id := i\<rparr>) (jobj []) created)"

definition demo_queue :: session_db where
  "demo_queue = demo_db\<lparr>agent_commands :=
     map (\<lambda>c. (ac_command_id c, c))
       [demo_row ''k1'' ''hot'' 1, demo_row ''k2'' ''hot'' 2, demo_row ''k3'' ''calm'' 3,
        demo_row ''k4'' ''busy'' 0, (demo_row ''k5'' ''busy'' 0)\<lparr>ac_status := Started\<rparr>]\<rparr>"


section \<open>Batch leases\<close>

text \<open>The epochs collected for the batch are the current epochs of their sessions, now active.\<close>

definition epochs_current :: "(string, int) hash_map \<Rightarrow> session_db \<Rightarrow> bool" where
  "epochs_current epochs s \<longleftrightarrow>
     (\<forall>k e. hm_get epochs k = Some e \<longrightarrow>
        (\<exists>se. get_session k s = Some se \<and> se_epoch se = e \<and> se_status se = Active))"

lemma lease_session_Inr:
  assumes "lease_session nw x k s = (Inr e, t)"
  shows "\<exists>se. get_session k t = Some se \<and> se_epoch se = e \<and> se_status se = Active"
    and "\<And>l. l \<noteq> k \<Longrightarrow> get_session l t = get_session l s"
    and "agent_commands t = agent_commands s" "dead_letters t = dead_letters s"
  using assms
  by (auto simp: lease_session_def get_session_set_session set_session_def split: option.splits if_splits)
     (simp_all add: get_session_def hm_get_adjust)

lemma batch_epochs_current:
  assumes "batch_epochs nw x cs epochs s = (Inr epochs', t)" "epochs_current epochs s"
  shows "epochs_current epochs' t \<and> agent_commands t = agent_commands s \<and> dead_letters t = dead_letters s \<and>
         (\<forall>k. hm_get epochs k \<noteq> None \<longrightarrow> hm_get epochs' k \<noteq> None) \<and>
         (\<forall>k. k \<notin> ac_session_key ` set cs \<longrightarrow> get_session k t = get_session k s) \<and>
         (\<forall>c\<in>set cs. hm_get epochs' (ac_session_key c) \<noteq> None)"
  using assms
proof (induction cs arbitrary: epochs s)
  case Nil
  then show ?case by simp
next
  case (Cons c cs)
  show ?case
  proof (cases "hm_get epochs (ac_session_key c)")
    case (Some e)
    with Cons show ?thesis by (auto simp del: not_None_eq)
  next
    case None
    with Cons.prems(1) obtain e u where u: "lease_session nw x (ac_session_key c) s = (Inr e, u)"
      and run: "batch_epochs nw x cs (hm_insert (ac_session_key c) e epochs) u = (Inr epochs', t)"
      by (auto split: prod.splits sum.splits)
    have "epochs_current (hm_insert (ac_session_key c) e epochs) u"
      using lease_session_Inr(1,2) [OF u] Cons.prems(2) by (auto simp: epochs_current_def)
    from Cons.IH [OF run this] lease_session_Inr(2-4) [OF u] show ?thesis
      by (auto simp del: not_None_eq)
  qed
qed

text \<open>What the lease of one row leaves in the table, relative to the assignment handed out.\<close>

definition leased_as :: "session_db \<Rightarrow> timestamp \<Rightarrow> agent_command \<Rightarrow> lease_assignment \<Rightarrow> bool" where
  "leased_as t nw c la \<longleftrightarrow>
     get_command (ac_command_id c) t = Some (lease_command (la_attempt_id la) (la_epoch la) nw c) \<and>
     la_attempt_count la = i32_succ (ac_attempt_count c)"

lemma batch_lease_assigns:
  assumes "\<forall>c\<in>set cs. hm_get epochs (ac_session_key c) \<noteq> None"
    and "\<forall>c\<in>set cs. get_command (ac_command_id c) s = Some c"
    and "distinct (map ac_command_id cs)"
  shows "\<exists>as' t. batch_lease E nw epochs cs as s = (Inr as', t) \<and>
     session_registry t = session_registry s \<and> dead_letters t = dead_letters s \<and>
     (\<forall>c\<in>set cs. \<exists>la. hm_get as' (ac_command_id c) = Some la \<and>
        hm_get epochs (ac_session_key c) = Some (la_epoch la) \<and> leased_as t nw c la) \<and>
     (\<forall>k. k \<notin> ac_command_id ` set cs \<longrightarrow> get_command k t = get_command k s \<and> hm_get as' k = hm_get as k)"
  using assms
proof (induction cs arbitrary: as s)
  case Nil
  then show ?case by simp
next
  case (Cons c cs)
  then obtain e where e: "hm_get epochs (ac_session_key c) = Some e" by auto
  let ?la = "\<lparr>la_epoch = e, la_attempt_id = env_uuid E (ids_drawn s), la_attempt_count = i32_succ (ac_attempt_count c)\<rparr>"
  let ?u = "set_command (ac_command_id c) (lease_command (env_uuid E (ids_drawn s)) e nw)
      (s\<lparr>ids_drawn := Suc (ids_drawn s)\<rparr>)"
  have get: "get_command k ?u = (if k = ac_command_id c
      then Some (lease_command (env_uuid E (ids_drawn s)) e nw c) else get_command k s)" for k
    using Cons.prems(2) by (simp add: get_command_set_command) (simp add: get_command_def)
  have new: "ac_command_id c \<notin> ac_command_id ` set cs" using Cons.prems(3) by simp
  then have "ac_command_id d \<noteq> ac_command_id c" if "d \<in> set cs" for d
    using that by (metis imageI)
  then have "\<forall>d\<in>set cs. get_command (ac_command_id d) ?u = Some d"
    unfolding get using Cons.prems(2) by simp
  moreover have "\<forall>d\<in>set cs. hm_get epochs (ac_session_key d) \<noteq> None" using Cons.prems(1) by simp
  moreover have "distinct (map ac_command_id cs)" using Cons.prems(3) by simp
  ultimately obtain as' t where
    run: "batch_lease E nw epochs cs (hm_insert (ac_command_id c) ?la as) ?u = (Inr as', t)"
    and reg: "session_registry t = session_registry ?u" "dead_letters t = dead_letters ?u"
    and all: "\<forall>d\<in>set cs. \<exists>la. hm_get as' (ac_command_id d) = Some la \<and>
        hm_get epochs (ac_session_key d) = Some (la_epoch la) \<and> leased_as t nw d la"
    and frame: "\<forall>k. k \<notin> ac_command_id ` set cs \<longrightarrow> get_command k t = get_command k ?u \<and>
        hm_get as' k = hm_get (hm_insert (ac_command_id c) ?la as) k"
    using Cons.IH [of ?u "hm_insert (ac_command_id c) ?la as"] by blast
  have this_run: "batch_lease E nw epochs (c # cs) as s = (Inr as', t)"
    using run by (simp add: e new_id_def Let_def)
  have "hm_get as' (ac_command_id c) = Some ?la" "leased_as t nw c ?la"
    using frame new by (simp_all add: leased_as_def get)
  then have "\<forall>d\<in>set (c # cs). \<exists>la. hm_get as' (ac_command_id d) = Some la \<and>
        hm_get epochs (ac_session_key d) = Some (la_epoch la) \<and> leased_as t nw d la"
    using all e by simp
  moreover have "\<forall>k. k \<notin> ac_command_id ` set (c # cs) \<longrightarrow> get_command k t = get_command k s \<and> hm_get as' k = hm_get as k"
    using frame by (simp add: get)
  moreover have "session_registry t = session_registry s" "dead_letters t = dead_letters s"
    using reg by (simp_all add: set_command_def)
  ultimately show ?case using this_run by blast
qed

text \<open>The rows of the batch: one per requested id, when none is missing.\<close>

definition batch_rows :: "string list \<Rightarrow> session_db \<Rightarrow> agent_command list" where
  "batch_rows cids s = sort_key ac_command_id (filter (\<lambda>c. ac_command_id c \<in> set cids) (command_rows s))"

lemma command_rows_ids:
  assumes "commands_wf s"
  shows "map ac_command_id (command_rows s) = map fst (agent_commands s)"
proof -
  have "ac_command_id c = k" if "(k, c) \<in> set (agent_commands s)" for k c
    using that assms by (auto simp: commands_wf_def hm_wf_def get_command_def)
  then show ?thesis by (auto simp: command_rows_def hm_values_def)
qed

lemma batch_rows_props:
  assumes "commands_wf s"
  shows "distinct (map ac_command_id (batch_rows cids s))"
    and "\<forall>c\<in>set (batch_rows cids s). get_command (ac_command_id c) s = Some c \<and> ac_command_id c \<in> set cids"
proof -
  have d: "distinct (map ac_command_id (command_rows s))"
    using assms by (simp add: command_rows_ids commands_wf_def hm_wf_def)
  then show "distinct (map ac_command_id (batch_rows cids s))"
    by (simp add: batch_rows_def distinct_map inj_on_def)
  have "get_command (ac_command_id c) s = Some c" if "c \<in> set (command_rows s)" for c
    using that assms unfolding command_rows_def commands_wf_def
    by (metis get_command_def hm_values_get)
  then show "\<forall>c\<in>set (batch_rows cids s). get_command (ac_command_id c) s = Some c \<and> ac_command_id c \<in> set cids"
    by (simp add: batch_rows_def)
qed

lemma batch_rows_complete:
  assumes "commands_wf s" "length (batch_rows cids s) = length cids"
  shows "ac_command_id ` set (batch_rows cids s) = set cids"
proof (rule card_subset_eq)
  show "ac_command_id ` set (batch_rows cids s) \<subseteq> set cids"
    using batch_rows_props(2) [OF assms(1)] by blast
  have "card (ac_command_id ` set (batch_rows cids s)) = length cids"
    using distinct_card [OF batch_rows_props(1) [OF assms(1)]] assms(2) by simp
  moreover have "card (set cids) \<le> length cids" by (rule card_length)
  moreover have "card (ac_command_id ` set (batch_rows cids s)) \<le> card (set cids)"
    using batch_rows_props(2) [OF assms(1)] by (intro card_mono) auto
  ultimately show "card (ac_command_id ` set (batch_rows cids s)) = card (set cids)" by simp
qed simp

lemma commands_wf_tick [simp]: "commands_wf (tick s) = commands_wf s"
  by (simp add: commands_wf_def tick_def get_command_def)

lemma assign_batch_leases_unfold:
  assumes "cids \<noteq> []"
  shows "assign_batch_leases E cids x s =
     (let nw = env_clock E (clock_reads s); rows = batch_rows cids (tick s) in
      if length rows \<noteq> length cids
      then (Inl (CommandNotFound (case find (\<lambda>i. i \<notin> set (map ac_command_id rows)) cids of
              Some i \<Rightarrow> i | None \<Rightarrow> ''<unknown>'')), tick s)
      else case find (\<lambda>c. ac_status c \<noteq> Pending) rows of
        Some c \<Rightarrow> (Inl (InvalidStateTransition (ac_command_id c) (command_status_as_str (ac_status c)) ''leased''), tick s)
      | None \<Rightarrow>
          (case batch_epochs nw x rows [] (tick s) of
             (Inl e, _) \<Rightarrow> (Inl e, tick s)
           | (Inr epochs, s1) \<Rightarrow>
               (case batch_lease E nw epochs rows [] s1 of
                  (Inl e, s2) \<Rightarrow> (Inl e, (tick s)\<lparr>ids_drawn := ids_drawn s2\<rparr>)
                | (Inr assignments, s2) \<Rightarrow> (Inr assignments, s2))))"
  unfolding assign_batch_leases_def now_tick Let_def prod.case batch_rows_def [symmetric]
  using assms by simp

text \<open>A refused batch leaves the tables alone.\<close>

lemma assign_batch_leases_Inl:
  assumes "assign_batch_leases E cids x s = (Inl e, t)"
  shows "session_registry t = session_registry s \<and> agent_commands t = agent_commands s \<and>
     dead_letters t = dead_letters s"
proof (cases "cids = []")
  case False
  then show ?thesis using assms unfolding assign_batch_leases_unfold [OF False] Let_def
    by (auto simp: tick_def split: if_splits option.splits prod.splits sum.splits)
qed (use assms in \<open>simp add: assign_batch_leases_def\<close>)

text \<open>The stages of a granted batch: the rows, their sessions' epochs, the leases.\<close>

lemma assign_batch_leases_stages:
  assumes "commands_wf s" "assign_batch_leases E cids x s = (Inr assignments, t)" "cids \<noteq> []"
  obtains epochs where
    "ac_command_id ` set (batch_rows cids (tick s)) = set cids" "length (batch_rows cids (tick s)) = length cids"
    "\<forall>c\<in>set (batch_rows cids (tick s)). get_command (ac_command_id c) s = Some c \<and> ac_status c = Pending"
    "epochs_current epochs t"
    "\<forall>k. k \<notin> ac_session_key ` set (batch_rows cids (tick s)) \<longrightarrow> get_session k t = get_session k s"
    "\<forall>c\<in>set (batch_rows cids (tick s)). \<exists>la. hm_get assignments (ac_command_id c) = Some la \<and>
       hm_get epochs (ac_session_key c) = Some (la_epoch la) \<and> leased_as t (env_clock E (clock_reads s)) c la"
    "\<forall>k. k \<notin> set cids \<longrightarrow> get_command k t = get_command k s \<and> hm_get assignments k = None"
    "dead_letters t = dead_letters s"
proof -
  let ?nw = "env_clock E (clock_reads s)"
  let ?rows = "batch_rows cids (tick s)"
  have wf: "commands_wf (tick s)" using assms(1) by simp
  from assms(2) obtain epochs s1 where len: "length ?rows = length cids"
    and pending: "\<forall>c\<in>set ?rows. ac_status c = Pending"
    and b1: "batch_epochs ?nw x ?rows [] (tick s) = (Inr epochs, s1)"
    and b2: "batch_lease E ?nw epochs ?rows [] s1 = (Inr assignments, t)"
    unfolding assign_batch_leases_unfold [OF assms(3)] Let_def
    by (auto simp: find_None_iff split: if_splits option.splits prod.splits sum.splits)
  note ids = batch_rows_complete [OF wf len]
  have cur: "epochs_current epochs s1" "agent_commands s1 = agent_commands s" "dead_letters s1 = dead_letters s"
      "\<forall>k. k \<notin> ac_session_key ` set ?rows \<longrightarrow> get_session k s1 = get_session k s"
      "\<forall>c\<in>set ?rows. hm_get epochs (ac_session_key c) \<noteq> None"
    using batch_epochs_current [OF b1] by (simp_all add: epochs_current_def tick_def get_session_def)
  have rows: "\<forall>c\<in>set ?rows. get_command (ac_command_id c) s = Some c"
    using batch_rows_props(2) [OF wf, of cids] by simp
  then have "\<forall>c\<in>set ?rows. get_command (ac_command_id c) s1 = Some c"
    using cur(2) by (simp add: get_command_def)
  from batch_lease_assigns [OF cur(5) this batch_rows_props(1) [OF wf], of E ?nw "[]"] b2
  have reg: "session_registry t = session_registry s1" "dead_letters t = dead_letters s1"
    and leased: "\<forall>c\<in>set ?rows. \<exists>la. hm_get assignments (ac_command_id c) = Some la \<and>
      hm_get epochs (ac_session_key c) = Some (la_epoch la) \<and> leased_as t ?nw c la"
    and frame: "\<forall>k. k \<notin> ac_command_id ` set ?rows \<longrightarrow> get_command k t = get_command k s1 \<and> hm_get assignments k = None"
    by auto
  have sessions: "get_session k t = get_session k s1" for k using reg(1) by (simp add: get_session_def)
  show thesis
  proof (rule that [OF ids len])
    show "\<forall>c\<in>set ?rows. get_command (ac_command_id c) s = Some c \<and> ac_status c = Pending"
      using rows pending by blast
    show "epochs_current epochs t" using cur(1) by (simp add: epochs_current_def sessions)
    show "\<forall>k. k \<notin> ac_session_key ` set ?rows \<longrightarrow> get_session k t = get_session k s"
      using cur(4) by (simp add: sessions)
    show "\<forall>k. k \<notin> set cids \<longrightarrow> get_command k t = get_command k s \<and> hm_get assignments k = None"
      using frame ids cur(2) by (simp add: get_command_def)
  qed (use leased reg(2) cur(3) in simp_all)
qed

text \<open>
  A granted batch: every requested row was pending and now carries the lease handed out, whose
  epoch is its session's; nothing else has changed.
\<close>

lemma assign_batch_leases_Inr:
  assumes "commands_wf s" "assign_batch_leases E cids x s = (Inr assignments, t)" "cid \<in> set cids"
  obtains c la se where "get_command cid s = Some c" "ac_command_id c = cid" "ac_status c = Pending"
    "hm_get assignments cid = Some la" "leased_as t (env_clock E (clock_reads s)) c la"
    "get_session (ac_session_key c) t = Some se" "se_epoch se = la_epoch la" "se_status se = Active"
proof -
  from assms(3) have "cids \<noteq> []" by auto
  then show thesis
  proof (rule assign_batch_leases_stages [OF assms(1,2)], goal_cases)
    case (1 epochs)
    from 1(1) assms(3) obtain c where c: "c \<in> set (batch_rows cids (tick s))" "cid = ac_command_id c" by blast
    with 1(6) obtain la where la: "hm_get assignments cid = Some la"
        "hm_get epochs (ac_session_key c) = Some (la_epoch la)" "leased_as t (env_clock E (clock_reads s)) c la"
      by blast
    with 1(4) obtain se where "get_session (ac_session_key c) t = Some se" "se_epoch se = la_epoch la"
        "se_status se = Active" unfolding epochs_current_def by blast
    with c la 1(3) show thesis by (intro that) auto
  qed
qed

lemma assign_batch_leases_frame:
  assumes "commands_wf s" "assign_batch_leases E cids x s = (Inr assignments, t)"
  shows "k \<notin> set cids \<Longrightarrow> get_command k t = get_command k s"
    and "(\<And>cid c. cid \<in> set cids \<Longrightarrow> get_command cid s = Some c \<Longrightarrow> ac_session_key c \<noteq> key) \<Longrightarrow>
      get_session key t = get_session key s"
    and "dead_letters t = dead_letters s" "distinct cids"
proof -
  have "(k \<notin> set cids \<longrightarrow> get_command k t = get_command k s) \<and>
      ((\<forall>cid\<in>set cids. \<forall>c. get_command cid s = Some c \<longrightarrow> ac_session_key c \<noteq> key) \<longrightarrow>
         get_session key t = get_session key s) \<and> dead_letters t = dead_letters s \<and> distinct cids"
  proof (cases "cids = []")
    case False
    then show ?thesis
    proof (rule assign_batch_leases_stages [OF assms], goal_cases)
      case (1 epochs)
      have "distinct (map ac_command_id (batch_rows cids (tick s)))"
        using assms(1) by (intro batch_rows_props(1)) simp
      from distinct_card [OF this] 1(1,2) have "card (set cids) = length cids" by simp
      moreover have "key \<notin> ac_session_key ` set (batch_rows cids (tick s))"
        if "\<forall>cid\<in>set cids. \<forall>c. get_command cid s = Some c \<longrightarrow> ac_session_key c \<noteq> key"
        using that 1(1,3) by blast
      ultimately show ?thesis using 1(5,7,8) by (auto intro: card_distinct)
    qed
  qed (use assms(2) in \<open>simp add: assign_batch_leases_def\<close>)
  then show "k \<notin> set cids \<Longrightarrow> get_command k t = get_command k s"
    and "(\<And>cid c. cid \<in> set cids \<Longrightarrow> get_command cid s = Some c \<Longrightarrow> ac_session_key c \<noteq> key) \<Longrightarrow>
      get_session key t = get_session key s"
    and "dead_letters t = dead_letters s" "distinct cids"
    by blast+
qed

text \<open>
  C12: batch leases are atomic. When the batch fails, no session and no command has changed. When
  it succeeds, every requested command was pending and is now leased under the attempt it is
  answered with, and that attempt is current: it holds the command and its session's epoch.
\<close>

theorem assign_batch_leases_atomic:
  assumes "commands_wf s" "assign_batch_leases E cids x s = (r, t)"
  shows "case r of
       Inl _ \<Rightarrow> session_registry t = session_registry s \<and> agent_commands t = agent_commands s \<and>
                dead_letters t = dead_letters s
     | Inr assignments \<Rightarrow>
         (\<forall>cid\<in>set cids. map_option ac_status (get_command cid s) = Some Pending \<and>
            (\<exists>la. hm_get assignments cid = Some la \<and>
               map_option ac_status (get_command cid t) = Some Leased \<and>
               command_attempt_is_current cid (la_attempt_id la) t))"
proof (cases r)
  case (Inr assignments)
  have "map_option ac_status (get_command cid s) = Some Pending \<and>
      (\<exists>la. hm_get assignments cid = Some la \<and> map_option ac_status (get_command cid t) = Some Leased \<and>
         command_attempt_is_current cid (la_attempt_id la) t)" if cid: "cid \<in> set cids" for cid
  proof -
    obtain c la se where "get_command cid s = Some c" "ac_command_id c = cid" "ac_status c = Pending"
      "hm_get assignments cid = Some la" "leased_as t (env_clock E (clock_reads s)) c la"
      "get_session (ac_session_key c) t = Some se" "se_epoch se = la_epoch la"
      using assign_batch_leases_Inr [OF assms(1) assms(2) [unfolded Inr] cid] by blast
    then show ?thesis
      by (auto simp: leased_as_def lease_command_def command_attempt_is_current_def owns_attempt_def owns_epoch_def)
  qed
  with Inr show ?thesis by simp
qed (use assms(2) assign_batch_leases_Inl in auto)

lemma demo_inserted_wf: "commands_wf demo_inserted"
proof -
  have "commands_wf demo_registered"
    by (simp add: commands_wf_def get_command_def demo_registered_def upsert_session_def demo_db_def now_def Let_def)
  moreover have "evolves demo_env demo_registered demo_inserted"
    unfolding demo_inserted_def by (rule insert_command_evolves [OF surjective_pairing])
  ultimately show ?thesis by (simp add: evolves_def)
qed

theorem assign_batch_leases_atomic_witness:
  "\<exists>as. fst (assign_batch_leases demo_env [''k''] ''node-1'' demo_inserted) = Inr as \<and>
     (\<exists>la. hm_get as ''k'' = Some la \<and>
        command_attempt_is_current ''k'' (la_attempt_id la)
          (snd (assign_batch_leases demo_env [''k''] ''node-1'' demo_inserted)))"
proof -
  let ?run = "assign_batch_leases demo_env [''k''] ''node-1'' demo_inserted"
  have "isl (fst ?run) = False" by code_simp
  then obtain as where as: "fst ?run = Inr as" by (cases "fst ?run") simp_all
  show ?thesis
    using assign_batch_leases_atomic [OF demo_inserted_wf surjective_pairing [of ?run]] as by auto
qed

end
