(* ===== verification/Pipeline_Sink.thy ===== *)
theory Pipeline_Sink
  imports Router_Memory Session_Dispatch
begin

text \<open>
  The pipeline's decision sink, \<^verbatim>\<open>PgDecisionSink\<close> of
  \<^verbatim>\<open>services/choruz-pipeline/src/pg_member_provider.rs\<close>: where the router meets the session
  store. It keeps the contract \<open>decision_log\<close> of the router and more: a second delivery of an
  event finds the decisions of the first, the contract \<open>idempotent_decision_log\<close>.
\<close>

section \<open>The sink\<close>

record pipeline_db =
  pd_mailbox_visibility :: "mailbox_visibility list"
  pd_route_decisions :: "route_decision list"
  pd_sessions :: session_db

definition pg_write_visibility ::
  "mailbox_visibility \<Rightarrow> pipeline_db \<Rightarrow> unit router_result \<times> pipeline_db" where
  "pg_write_visibility v s =
     (if list_ex (\<lambda>w. mv_agent_id w = mv_agent_id v \<and> mv_conversation_id w = mv_conversation_id v \<and>
                    mv_message_id w = mv_message_id v) (pd_mailbox_visibility s)
      then (Inr (), s)
      else (Inr (), s\<lparr>pd_mailbox_visibility := pd_mailbox_visibility s @ [v]\<rparr>))"

definition find_decision :: "string \<Rightarrow> string \<Rightarrow> pipeline_db \<Rightarrow> route_decision option" where
  "find_decision message_id agent_id s =
     find (\<lambda>d. rd_message_id d = message_id \<and> rd_agent_id d = agent_id) (pd_route_decisions s)"

definition pg_write_decision ::
  "route_decision \<Rightarrow> pipeline_db \<Rightarrow> route_decision router_result \<times> pipeline_db" where
  "pg_write_decision d s =
     (case find_decision (rd_message_id d) (rd_agent_id d) s of
        Some existing \<Rightarrow> (Inr existing, s)
      | None \<Rightarrow>
          if list_ex (\<lambda>e. rd_route_id e = rd_route_id d) (pd_route_decisions s)
          then (Inl (RouterInternal ''write_decision: duplicate key value violates unique constraint''), s)
          else if rd_decision d \<notin> set [''trigger'', ''skip'', ''error'']
          then (Inl (RouterInternal ''write_decision: new row violates check constraint''), s)
          else (Inr d, s\<lparr>pd_route_decisions := pd_route_decisions s @ [d]\<rparr>))"

definition pg_write_command ::
  "env \<Rightarrow> insert_command \<Rightarrow> pipeline_db \<Rightarrow> unit router_result \<times> pipeline_db" where
  "pg_write_command E cmd s =
     (case upsert_session E (ic_session_key cmd) (ic_agent_id cmd) (ic_conversation_id cmd) (pd_sessions s) of
        (Inl e, db) \<Rightarrow> (Inl (Session e), s\<lparr>pd_sessions := db\<rparr>)
      | (Inr _, db) \<Rightarrow>
          (case insert_command E cmd db of
             (Inl e, db') \<Rightarrow> (Inl (Session e), s\<lparr>pd_sessions := db'\<rparr>)
           | (Inr _, db') \<Rightarrow> (Inr (), s\<lparr>pd_sessions := db'\<rparr>)))"

definition pg_sink :: "env \<Rightarrow> pipeline_db decision_sink" where
  "pg_sink E = \<lparr>ds_write_visibility = pg_write_visibility, ds_write_decision = pg_write_decision,
     ds_write_command = pg_write_command E\<rparr>"

section \<open>Idempotent sinks\<close>

locale idempotent_decision_log = decision_log sink visible decided commanded
  for sink :: "'s decision_sink" and visible decided commanded +
  fixes wf_log :: "'s \<Rightarrow> bool"
  assumes wf_visibility: "wf_log s \<Longrightarrow> ds_write_visibility sink v s = (r, t) \<Longrightarrow> wf_log t"
    and wf_decision: "wf_log s \<Longrightarrow> ds_write_decision sink d s = (q, t) \<Longrightarrow> wf_log t"
    and wf_command: "wf_log s \<Longrightarrow> ds_write_command sink c s = (r, t) \<Longrightarrow> wf_log t"
    and decided_once: "wf_log s \<Longrightarrow> d0 \<in> decided s \<Longrightarrow> rd_message_id d0 = rd_message_id d \<Longrightarrow>
      rd_agent_id d0 = rd_agent_id d \<Longrightarrow> ds_write_decision sink d s = (Inr d0, s)"
    and visibility_total: "\<exists>t. ds_write_visibility sink v s = (Inr (), t)"
    and command_known: "(ic_message_id c, ic_agent_id c) \<in> commanded s \<Longrightarrow>
      \<exists>t. ds_write_command sink c s = (Inr (), t)"
begin

definition same_views :: "'s \<Rightarrow> 's \<Rightarrow> bool" where
  "same_views s t \<longleftrightarrow> visible t = visible s \<and> decided t = decided s \<and> commanded t = commanded s"

lemma same_views_grows: "same_views s t \<Longrightarrow> grows s t"
  by (simp add: same_views_def grows_def)

lemma route_member_wf:
  assumes "wf_log s" "route_member RX event mp sink rt m cache s = (Ret (oc, cache'), t)"
  shows "wf_log t"
proof (cases "cm_principal_id m = ev_sender_id event")
  case True
  with assms show ?thesis by (simp add: route_member_def)
next
  case False
  from route_member_Ret [OF assms(2) False] show ?thesis
    using assms(1) wf_visibility wf_decision wf_command by (metis (no_types, lifting))
qed

lemma route_members_wf:
  "wf_log s \<Longrightarrow> route_members RX event mp sink rt ms cache s = (Ret outcomes, t) \<Longrightarrow> wf_log t"
  by (induction ms arbitrary: cache s outcomes) (auto simp: st_bind_Ret dest: route_member_wf)

text \<open>
  An agent already routed for the event is answered with the recorded decision, whatever its plan
  is by now, and nothing new is recorded.
\<close>

lemma route_member_again:
  assumes "wf_log s" "member_routed event s m oc" "member_plan event rt m = Ret plan"
  shows "\<exists>cache' t. route_member RX event mp sink rt m cache s = (Ret (oc, cache'), t) \<and> same_views s t"
proof (cases "cm_principal_id m = ev_sender_id event")
  case True
  with assms(2) show ?thesis by (simp add: route_member_def member_routed_def same_views_def)
next
  case False
  with assms(2) obtain d0 where seen: "(ev_event_id event, cm_principal_id m) \<in> visible s"
    and d0: "d0 \<in> decided s" "rd_message_id d0 = ev_event_id event" "rd_agent_id d0 = cm_principal_id m"
      "oc = (if rd_decision d0 = ''trigger'' then Triggered else Skipped)"
    and cmd: "oc = Triggered \<longrightarrow> (ev_event_id event, cm_principal_id m) \<in> commanded s"
    by (auto simp: member_routed_def)
  obtain s1 where w1: "ds_write_visibility sink (event_visibility event m) s = (Inr (), s1)"
    using visibility_total by blast
  have v: "same_views s s1"
    using write_visibility [OF w1] seen by (auto simp: same_views_def event_visibility_def)
  moreover have "wf_log s1" using wf_visibility assms(1) w1 by blast
  ultimately have w2: "ds_write_decision sink (event_decision RX event m plan) s1 = (Inr d0, s1)"
    using d0 by (intro decided_once) (simp_all add: same_views_def event_decision_def)
  let ?roster = "case cache of Some r \<Rightarrow> r
     | None \<Rightarrow> (case mp_list_assignee_roster mp (ev_conversation_id event) of Inr r \<Rightarrow> r | Inl _ \<Rightarrow> [])"
  let ?prompt = "build_prompt RX event (rt_sender_name rt) (rt_conversation_name rt) ?roster
     (case mp_list_open_tasks_for_agent mp (ev_conversation_id event) (cm_principal_id m) of
        Inr hints \<Rightarrow> hints | Inl _ \<Rightarrow> [])"
  have upto: "route_member RX event mp sink rt m cache s =
      (if rd_decision d0 \<noteq> ''trigger'' then st_ret (Skipped, cache) s1
       else st_bind (st_call (ds_write_command sink (event_command RX event m (rd_route_id d0) (rt_trace_id rt) ?prompt)))
               (\<lambda>_. st_ret (Triggered, Some ?roster)) s1)"
    using False by (simp add: route_member_def st_bind_def st_call_def st_lift_def assms(3) w1 w2 Let_def)
  show ?thesis
  proof (cases "rd_decision d0 = ''trigger''")
    case True
    then have oc: "oc = Triggered" and known: "(ev_event_id event, cm_principal_id m) \<in> commanded s1"
      using d0(4) cmd v by (simp_all add: same_views_def)
    have "\<exists>t. ds_write_command sink (event_command RX event m r tr pr) s1 = (Inr (), t) \<and> same_views s t" for r tr pr
    proof -
      obtain t where t: "ds_write_command sink (event_command RX event m r tr pr) s1 = (Inr (), t)"
        using command_known [of "event_command RX event m r tr pr" s1] known by (auto simp: event_command_def)
      with write_command [OF t] v known show ?thesis
        by (auto simp: same_views_def event_command_def)
    qed
    then obtain t where t: "ds_write_command sink
        (event_command RX event m (rd_route_id d0) (rt_trace_id rt) ?prompt) s1 = (Inr (), t)" "same_views s t"
      by blast
    have "route_member RX event mp sink rt m cache s = (Ret (Triggered, Some ?roster), t)"
      unfolding upto using True t(1) by (simp add: st_bind_def st_call_def st_ret_def)
    with oc t(2) show ?thesis by blast
  next
    case no: False
    then show ?thesis unfolding upto using d0(4) v by simp
  qed
qed

lemma route_members_again:
  assumes "wf_log s" "list_all2 (member_routed event s) ms outcomes"
    and "\<And>m. m \<in> set ms \<Longrightarrow> \<exists>plan. member_plan event rt m = Ret plan"
  shows "\<exists>t. route_members RX event mp sink rt ms cache s = (Ret outcomes, t) \<and> same_views s t"
  using assms
proof (induction ms arbitrary: cache s outcomes)
  case Nil
  then show ?case by (simp add: same_views_def)
next
  case (Cons m ms)
  from Cons.prems(2) obtain oc ocs where o: "outcomes = oc # ocs" "member_routed event s m oc"
      "list_all2 (member_routed event s) ms ocs"
    by (auto simp: list_all2_Cons1)
  from Cons.prems(3) obtain plan where "member_plan event rt m = Ret plan" by (meson list.set_intros(1))
  from route_member_again [OF Cons.prems(1) o(2) this] obtain cache' u where
    m: "route_member RX event mp sink rt m cache s = (Ret (oc, cache'), u)" and views: "same_views s u"
    by blast
  have "list_all2 (member_routed event u) ms ocs"
    using o(3) views same_views_grows member_routed_grows by (metis list_all2_mono)
  with Cons.IH [OF route_member_wf [OF Cons.prems(1) m]] Cons.prems(3) obtain t where
    "route_members RX event mp sink rt ms cache' u = (Ret ocs, t)" "same_views u t"
    by (meson list.set_intros(2))
  with m o(1) views show ?case by (auto simp: same_views_def)
qed

lemma route_event_again:
  assumes "wf_log s" "route_event RX event mp sink s = (Ret outcomes, t)"
    and "mp_list_agent_members mp (ev_conversation_id event) = Inr ms"
    and "mp_list_agent_members mp' (ev_conversation_id event) = Inr ms"
    and "prepare_routing event mp' ms = Ret rt'"
    and "\<And>m. m \<in> set ms \<Longrightarrow> \<exists>plan. member_plan event rt' m = Ret plan"
  shows "\<exists>u. route_event RX event mp' sink t = (Ret outcomes, u) \<and> same_views t u"
proof -
  from assms(2,3) obtain rt where run: "route_members RX event mp sink rt ms None s = (Ret outcomes, t)"
    by (auto simp: route_event_def st_bind_Ret)
  have "route_event RX event mp' sink t = route_members RX event mp' sink rt' ms None t"
    using assms(4,5) by (simp add: route_event_def)
  then show ?thesis
    using route_members_again [OF route_members_wf [OF assms(1) run] _ assms(6)] route_members_routed [OF run]
    by metis
qed

end

section \<open>The database sink keeps the contract\<close>

definition pg_visible :: "pipeline_db \<Rightarrow> (string \<times> string) set" where
  "pg_visible s = (\<lambda>v. (mv_message_id v, mv_agent_id v)) ` set (pd_mailbox_visibility s)"

definition pg_commanded :: "pipeline_db \<Rightarrow> (string \<times> string) set" where
  "pg_commanded s = (\<lambda>c. (ac_message_id c, ac_agent_id c)) ` set (command_rows (pd_sessions s))"

definition pg_decided_once :: "pipeline_db \<Rightarrow> bool" where
  "pg_decided_once s \<longleftrightarrow> distinct (map (\<lambda>d. (rd_message_id d, rd_agent_id d)) (pd_route_decisions s))"

lemma set_hm_values_insert:
  "map_of m k = None \<Longrightarrow> set (hm_values (AList.update k v m)) = insert v (set (hm_values m))"
  by (induction m) (auto simp: hm_values_def split: if_splits)

lemma insert_command_rows:
  assumes "insert_command E cmd s = (Inr c, t)"
  shows "(\<lambda>c. (ac_message_id c, ac_agent_id c)) ` set (command_rows t) =
     insert (ic_message_id cmd, ic_agent_id cmd) ((\<lambda>c. (ac_message_id c, ac_agent_id c)) ` set (command_rows s))"
proof -
  have rows: "command_rows (tick s) = command_rows s" by (simp add: command_rows_def tick_def)
  show ?thesis
  proof (cases "find_by_message_agent (ic_message_id cmd) (ic_agent_id cmd) (tick s)")
    case (Some d)
    then have "t = tick s" using assms by (simp add: insert_command_def Let_def now_tick)
    moreover from Some have "d \<in> set (command_rows s)" "ac_message_id d = ic_message_id cmd" "ac_agent_id d = ic_agent_id cmd"
      unfolding find_by_message_agent_def find_Some_iff rows by (auto simp: in_set_conv_nth)
    ultimately show ?thesis by (force simp: rows)
  next
    case None
    with assms obtain metadata where absent: "get_command (ic_command_id cmd) s = None"
      and t: "agent_commands t = hm_insert (ic_command_id cmd)
          (command_of_input cmd metadata (env_clock E (clock_reads s))) (agent_commands s)"
      by (auto simp: insert_command_def Let_def now_tick command_of_input_def unique_violation_def tick_def
          get_command_def split: option.splits sum.splits if_splits)
    have "set (command_rows t) =
        insert (command_of_input cmd metadata (env_clock E (clock_reads s))) (set (command_rows s))"
      using absent unfolding command_rows_def t by (simp add: set_hm_values_insert get_command_def)
    then show ?thesis by (simp add: command_of_input_def)
  qed
qed

interpretation pg: decision_log "pg_sink E" pg_visible "\<lambda>s. set (pd_route_decisions s)" pg_commanded
proof
  fix v s u t
  assume run: "ds_write_visibility (pg_sink E) v s = (Inr u, t)"
  have "(mv_message_id v, mv_agent_id v) \<in> pg_visible s"
    if "list_ex (\<lambda>w. mv_agent_id w = mv_agent_id v \<and> mv_conversation_id w = mv_conversation_id v \<and>
          mv_message_id w = mv_message_id v) (pd_mailbox_visibility s)"
    using that unfolding list_ex_iff pg_visible_def by (metis (mono_tags, lifting) image_eqI)
  with run show "pg_visible t = insert (mv_message_id v, mv_agent_id v) (pg_visible s) \<and>
      set (pd_route_decisions t) = set (pd_route_decisions s) \<and> pg_commanded t = pg_commanded s"
    by (auto simp: pg_sink_def pg_write_visibility_def pg_visible_def pg_commanded_def split: if_splits)
next
  fix d s d' t
  assume "ds_write_decision (pg_sink E) d s = (Inr d', t)"
  then show "pg_visible t = pg_visible s \<and> pg_commanded t = pg_commanded s \<and>
      set (pd_route_decisions s) \<subseteq> set (pd_route_decisions t) \<and>
      set (pd_route_decisions t) \<subseteq> insert d (set (pd_route_decisions s)) \<and> d' \<in> set (pd_route_decisions t) \<and>
      rd_message_id d' = rd_message_id d \<and> rd_agent_id d' = rd_agent_id d"
    by (auto simp: pg_sink_def pg_write_decision_def pg_visible_def pg_commanded_def find_decision_def
        find_Some_iff split: option.splits if_splits)
next
  fix c s u t
  assume run: "ds_write_command (pg_sink E) c s = (Inr u, t)"
  then obtain se db c' db' where
    up: "upsert_session E (ic_session_key c) (ic_agent_id c) (ic_conversation_id c) (pd_sessions s) = (Inr se, db)"
    and ins: "insert_command E c db = (Inr c', db')" and t: "t = s\<lparr>pd_sessions := db'\<rparr>"
    by (auto simp: pg_sink_def pg_write_command_def split: prod.splits sum.splits)
  have "command_rows db = command_rows (pd_sessions s)"
    using up by (auto simp: upsert_session_def now_def Let_def command_rows_def)
  with insert_command_rows [OF ins] show "pg_visible t = pg_visible s \<and>
      set (pd_route_decisions t) = set (pd_route_decisions s) \<and>
      pg_commanded t = insert (ic_message_id c, ic_agent_id c) (pg_commanded s)"
    by (simp add: t pg_visible_def pg_commanded_def)
qed

interpretation pg: idempotent_decision_log
  "pg_sink E" pg_visible "\<lambda>s. set (pd_route_decisions s)" pg_commanded pg_decided_once
proof
  fix s v and r :: "unit router_result" and t
  assume "pg_decided_once s" "ds_write_visibility (pg_sink E) v s = (r, t)"
  then show "pg_decided_once t"
    by (auto simp: pg_sink_def pg_write_visibility_def pg_decided_once_def split: if_splits)
next
  fix s d and q :: "route_decision router_result" and t
  assume "pg_decided_once s" "ds_write_decision (pg_sink E) d s = (q, t)"
  then show "pg_decided_once t"
    by (auto simp: pg_sink_def pg_write_decision_def pg_decided_once_def find_decision_def find_None_iff
        split: option.splits if_splits) blast+
next
  fix s c and r :: "unit router_result" and t
  assume "pg_decided_once s" "ds_write_command (pg_sink E) c s = (r, t)"
  then show "pg_decided_once t"
    by (auto simp: pg_sink_def pg_write_command_def pg_decided_once_def split: prod.splits sum.splits)
next
  fix s and d0 d :: route_decision
  assume wf: "pg_decided_once s" and d0: "d0 \<in> set (pd_route_decisions s)"
    "rd_message_id d0 = rd_message_id d" "rd_agent_id d0 = rd_agent_id d"
  have inj: "inj_on (\<lambda>d. (rd_message_id d, rd_agent_id d)) (set (pd_route_decisions s))"
    using wf by (simp add: pg_decided_once_def distinct_map)
  from d0 obtain e where e: "find_decision (rd_message_id d) (rd_agent_id d) s = Some e"
    by (cases "find_decision (rd_message_id d) (rd_agent_id d) s") (auto simp: find_decision_def find_None_iff)
  then have "e \<in> set (pd_route_decisions s)" "rd_message_id e = rd_message_id d" "rd_agent_id e = rd_agent_id d"
    unfolding find_decision_def find_Some_iff by (auto simp: in_set_conv_nth)
  with d0 inj_onD [OF inj, of e d0] have "e = d0" by simp
  with e show "ds_write_decision (pg_sink E) d s = (Inr d0, s)"
    by (simp add: pg_sink_def pg_write_decision_def)
next
  fix v s
  show "\<exists>t. ds_write_visibility (pg_sink E) v s = (Inr (), t)"
    by (simp add: pg_sink_def pg_write_visibility_def)
next
  fix c :: insert_command and s
  assume known: "(ic_message_id c, ic_agent_id c) \<in> pg_commanded s"
  obtain se db where up: "upsert_session E (ic_session_key c) (ic_agent_id c) (ic_conversation_id c) (pd_sessions s) = (Inr se, db)"
    by (simp add: upsert_session_def now_def Let_def)
  have rows: "command_rows (tick db) = command_rows (pd_sessions s)"
    using up by (auto simp: upsert_session_def now_def Let_def command_rows_def tick_def)
  from known have "find_by_message_agent (ic_message_id c) (ic_agent_id c) (tick db) \<noteq> None"
    unfolding find_by_message_agent_def find_None_iff rows pg_commanded_def by auto
  then obtain d where "insert_command E c db = (Inr d, tick db)"
    by (auto simp: insert_command_def now_tick Let_def)
  with up show "\<exists>t. ds_write_command (pg_sink E) c s = (Inr (), t)"
    by (simp add: pg_sink_def pg_write_command_def)
qed

section \<open>Routing into the database\<close>

text \<open>
  C13: routing into the database is complete. When an event is routed through the database sink,
  there is one outcome per agent member; every agent but the sender has a visibility row and a
  decision row for the event, an agent is reported triggered exactly when its decision row says so,
  and every triggered agent has a command row. Nothing recorded before is lost.
\<close>

theorem pg_route_event_complete:
  assumes "route_event RX event mp (pg_sink E) s = (Ret outcomes, t)"
    and "mp_list_agent_members mp (ev_conversation_id event) = Inr ms"
  shows "list_all2 (\<lambda>m outcome.
       if cm_principal_id m = ev_sender_id event then outcome = Skipped
       else (ev_event_id event, cm_principal_id m) \<in> pg_visible t \<and>
         (\<exists>d \<in> set (pd_route_decisions t). rd_message_id d = ev_event_id event \<and> rd_agent_id d = cm_principal_id m \<and>
            outcome = (if rd_decision d = ''trigger'' then Triggered else Skipped)) \<and>
         (outcome = Triggered \<longrightarrow> (ev_event_id event, cm_principal_id m) \<in> pg_commanded t)) ms outcomes \<and>
     pg_visible s \<subseteq> pg_visible t \<and> set (pd_route_decisions s) \<subseteq> set (pd_route_decisions t) \<and>
     pg_commanded s \<subseteq> pg_commanded t"
proof -
  obtain ms' where "mp_list_agent_members mp (ev_conversation_id event) = Inr ms'"
    and routed: "list_all2 (pg.member_routed event t) ms' outcomes" and grows: "pg.grows s t"
    using pg.route_event_routed [OF assms(1)] by blast
  with assms(2) have "ms' = ms" by simp
  then show ?thesis
    using routed grows unfolding pg.grows_def
    by (auto elim!: list_all2_mono simp only: pg.member_routed_def)
qed


definition demo_pipeline :: pipeline_db where
  "demo_pipeline = \<lparr>pd_mailbox_visibility = [], pd_route_decisions = [], pd_sessions = demo_db\<rparr>"

definition demo_relaxed :: in_memory_member_provider where
  "demo_relaxed = demo_provider\<lparr>im_conversation_policies := [], im_policies := []\<rparr>"

lemma demo_pg_run:
  "fst (route_event demo_router_env (demo_event ''status please'') (im_provider demo_provider)
      (pg_sink demo_env) demo_pipeline) = Ret [Triggered, Skipped, Skipped]"
  by code_simp

theorem pg_route_event_complete_witness:
  "\<exists>t. route_event demo_router_env (demo_event ''status please'') (im_provider demo_provider) (pg_sink demo_env)
        demo_pipeline = (Ret [Triggered, Skipped, Skipped], t) \<and>
      (''msg-7'', ''agent-1'') \<in> pg_commanded t"
proof -
  let ?run = "route_event demo_router_env (demo_event ''status please'') (im_provider demo_provider)
      (pg_sink demo_env) demo_pipeline"
  have run: "?run = (Ret [Triggered, Skipped, Skipped], snd ?run)"
    using demo_pg_run by (simp add: prod_eq_iff)
  have ms: "mp_list_agent_members (im_provider demo_provider) (ev_conversation_id (demo_event ''status please'')) =
      Inr demo_members"
    by code_simp
  show ?thesis
    using pg_route_event_complete [OF run ms] run
    by (auto simp: demo_members_def demo_member_def demo_event_def)
qed


end
