(* ===== verification/Event_Store.thy ===== *)
theory Event_Store
  imports Router_Models Session_Models
begin

text \<open>
  The event store, \<^verbatim>\<open>crates/choruz-store\<close>: the append-only \<^verbatim>\<open>conversation_events\<close>
  log (\<^verbatim>\<open>conversation_events.rs\<close>) and the \<^verbatim>\<open>event_outbox\<close> with its claim leases
  (\<^verbatim>\<open>event_outbox.rs\<close>). An insertion holds the conversation's advisory lock until it
  commits, so each operation is one atomic function on the tables.
\<close>

section \<open>Tables\<close>

record conversation_event =
  ce_conversation_id :: string
  ce_event_id :: string
  ce_event_type :: string
  ce_sender_id :: string
  ce_content :: "string option"
  ce_content_type :: string
  ce_metadata :: json
  ce_client_msg_id :: "string option"
  ce_turn_id :: "string option"
  ce_reply_event_id :: "string option"

record outbox_entry =
  oe_aggregate_type :: string
  oe_aggregate_id :: string
  oe_event_type :: string
  oe_payload :: json

record outbox_row =
  ob_id :: int
  ob_aggregate_type :: string
  ob_aggregate_id :: string
  ob_event_type :: string
  ob_payload :: json
  ob_created_at :: timestamp
  ob_published :: bool
  ob_claimed_by :: "string option"
  ob_claimed_at :: "timestamp option"
  ob_claim_deadline :: "timestamp option"
  ob_attempt_count :: int

text \<open>The dead letters kept here are the rows of that table whose source is the outbox.\<close>

record event_db = world +
  conversation_events :: "conversation_event_row list"
  event_outbox :: "outbox_row list"
  outbox_id_seq :: int
  outbox_dead_letters :: "dead_letter list"

section \<open>Appending events\<close>

definition INT8_MAX :: int where
  "INT8_MAX = 9223372036854775807"

definition conversation_seqs :: "string \<Rightarrow> event_db \<Rightarrow> int list" where
  "conversation_seqs cid s = map ev_seq (filter (\<lambda>e. ev_conversation_id e = cid) (conversation_events s))"

text \<open>\<^verbatim>\<open>COALESCE((SELECT MAX(seq) ...), 0) + 1\<close>\<close>

definition next_seq :: "string \<Rightarrow> event_db \<Rightarrow> int" where
  "next_seq cid s = (case conversation_seqs cid s of [] \<Rightarrow> 0 | n # ns \<Rightarrow> fold max ns n) + 1"

definition event_conflict :: "conversation_event \<Rightarrow> event_db \<Rightarrow> string option" where
  "event_conflict ev s =
     (let key = (\<lambda>column value. ''Key ('' @ column @ '')=('' @ value @ '') already exists.'') in
      if list_ex (\<lambda>e. ev_event_id e = ce_event_id ev) (conversation_events s)
      then Some (key ''event_id'' (ce_event_id ev))
      else if ce_client_msg_id ev \<noteq> None \<and>
              list_ex (\<lambda>e. ev_client_msg_id e = ce_client_msg_id ev) (conversation_events s)
      then Some (key ''client_msg_id'' (the (ce_client_msg_id ev)))
      else if ce_turn_id ev \<noteq> None \<and> list_ex (\<lambda>e. ev_turn_id e = ce_turn_id ev) (conversation_events s)
      then Some (key ''turn_id'' (the (ce_turn_id ev)))
      else None)"

definition insert_conversation_event ::
  "env \<Rightarrow> conversation_event \<Rightarrow> event_db \<Rightarrow> (string \<times> int) app_result \<times> event_db" where
  "insert_conversation_event E ev s =
     (let (nw, s) = now E s; seq = next_seq (ce_conversation_id ev) s in
      if seq > INT8_MAX
      then (Inl (Internal ''failed to insert conversation event: bigint out of range''), s)
      else case event_conflict ev s of
        Some detail \<Rightarrow> (Inl (Conflict (''duplicate conversation event: '' @ detail)), s)
      | None \<Rightarrow>
          (Inr (ce_event_id ev, seq),
           s\<lparr>conversation_events := conversation_events s @
              [\<lparr>ev_conversation_id = ce_conversation_id ev, ev_seq = seq, ev_event_id = ce_event_id ev,
                ev_event_type = ce_event_type ev, ev_sender_id = ce_sender_id ev, ev_content = ce_content ev,
                ev_content_type = ce_content_type ev, ev_metadata = ce_metadata ev,
                ev_client_msg_id = ce_client_msg_id ev, ev_turn_id = ce_turn_id ev,
                ev_reply_event_id = ce_reply_event_id ev, ev_created_at = nw\<rparr>]\<rparr>))"

section \<open>Reading events\<close>

definition limited :: "string \<Rightarrow> int \<Rightarrow> 'a list \<Rightarrow> 'a list app_result" where
  "limited context limit rows =
     (if limit < 0 then Inl (Internal (context @ '': LIMIT must not be negative''))
      else Inr (take (nat limit) rows))"

definition get_events_after_seq ::
  "string \<Rightarrow> int \<Rightarrow> int \<Rightarrow> event_db \<Rightarrow> conversation_event_row list app_result" where
  "get_events_after_seq cid after_seq limit s =
     limited ''failed to query conversation events'' limit
       (sort_key ev_seq (filter (\<lambda>e. ev_conversation_id e = cid \<and> ev_seq e > after_seq) (conversation_events s)))"

definition get_event_by_message_id :: "string \<Rightarrow> event_db \<Rightarrow> conversation_event_row option" where
  "get_event_by_message_id event_id s = find (\<lambda>e. ev_event_id e = event_id) (conversation_events s)"

definition find_event_by_client_msg_id :: "string \<Rightarrow> event_db \<Rightarrow> conversation_event_row option" where
  "find_event_by_client_msg_id client_msg_id s =
     find (\<lambda>e. ev_client_msg_id e = Some client_msg_id) (conversation_events s)"

definition message_like :: "string \<Rightarrow> bool" where
  "message_like t \<longleftrightarrow> t \<in> set [''message'', ''message.created'', ''reply'']"

definition list_feedback_events ::
  "string \<Rightarrow> int \<Rightarrow> int option \<Rightarrow> bool \<Rightarrow> string option \<Rightarrow> event_db \<Rightarrow> conversation_event_row list app_result" where
  "list_feedback_events cid limit since_seq include_decisions sender s =
     (let rows = filter (\<lambda>e. ev_conversation_id e = cid \<and>
                  (message_like (ev_event_type e) \<or> include_decisions \<and> ev_event_type e = ''runtime.decision'') \<and>
                  (case sender of None \<Rightarrow> True | Some p \<Rightarrow> ev_sender_id e = p)) (conversation_events s)
      in limited ''list_messages_by_conversation'' limit
           (case since_seq of
              Some since \<Rightarrow> sort_key ev_seq (filter (\<lambda>e. ev_seq e > since) rows)
            | None \<Rightarrow> sort_key (\<lambda>e. - ev_seq e) rows))"

definition list_messages_by_conversation ::
  "string \<Rightarrow> int \<Rightarrow> int option \<Rightarrow> event_db \<Rightarrow> conversation_event_row list app_result" where
  "list_messages_by_conversation cid limit since_seq = list_feedback_events cid limit since_seq False None"

definition list_learning_feedback ::
  "string \<Rightarrow> int \<Rightarrow> int option \<Rightarrow> string option \<Rightarrow> event_db \<Rightarrow> conversation_event_row list app_result" where
  "list_learning_feedback cid limit since_seq sender = list_feedback_events cid limit since_seq True sender"

definition canonicalize_thread_root_in_tx :: "string \<Rightarrow> string \<Rightarrow> event_db \<Rightarrow> string option" where
  "canonicalize_thread_root_in_tx cid target_id s =
     (case find (\<lambda>e. ev_event_id e = target_id \<and> ev_conversation_id e = cid \<and> message_like (ev_event_type e))
             (conversation_events s) of
        None \<Rightarrow> None
      | Some row \<Rightarrow>
          Some (if json_get (ev_metadata row) ''thread'' = Some (JBool True)
                then (case ev_reply_event_id row of Some root \<Rightarrow> root | None \<Rightarrow> target_id)
                else target_id))"

section \<open>The outbox\<close>

definition insert_outbox_entry :: "env \<Rightarrow> outbox_entry \<Rightarrow> event_db \<Rightarrow> int app_result \<times> event_db" where
  "insert_outbox_entry E entry s =
     (let (nw, s) = now E s; i = outbox_id_seq s in
      (Inr i, s\<lparr>outbox_id_seq := i + 1,
                event_outbox := event_outbox s @
                  [\<lparr>ob_id = i, ob_aggregate_type = oe_aggregate_type entry, ob_aggregate_id = oe_aggregate_id entry,
                    ob_event_type = oe_event_type entry, ob_payload = oe_payload entry, ob_created_at = nw,
                    ob_published = False, ob_claimed_by = None, ob_claimed_at = None,
                    ob_claim_deadline = None, ob_attempt_count = 0\<rparr>]\<rparr>))"

definition claimable_entry :: "timestamp \<Rightarrow> outbox_row \<Rightarrow> bool" where
  "claimable_entry nw r \<longleftrightarrow> \<not> ob_published r \<and>
     (case ob_claim_deadline r of None \<Rightarrow> True | Some d \<Rightarrow> d < nw)"

definition claim_row :: "string \<Rightarrow> timestamp \<Rightarrow> timestamp \<Rightarrow> outbox_row \<Rightarrow> outbox_row" where
  "claim_row node_id nw deadline r =
     r\<lparr>ob_claimed_by := Some node_id, ob_claimed_at := Some nw, ob_claim_deadline := Some deadline,
       ob_attempt_count := ob_attempt_count r + 1\<rparr>"

definition claim_unpublished_entries ::
  "env \<Rightarrow> int \<Rightarrow> string \<Rightarrow> int \<Rightarrow> event_db \<Rightarrow> outbox_row list app_result \<times> event_db" where
  "claim_unpublished_entries E limit node_id lease_duration s =
     (let (nw, s) = now E s; deadline = nw + lease_duration in
      case limited ''failed to claim outbox entries'' limit
             (map ob_id (sort_key ob_id (filter (claimable_entry nw) (event_outbox s)))) of
        Inl e \<Rightarrow> (Inl e, s)
      | Inr ids \<Rightarrow>
          if list_ex (\<lambda>r. ob_id r \<in> set ids \<and> ob_attempt_count r = 2147483647) (event_outbox s)
          then (Inl (Internal ''failed to claim outbox entries: integer out of range''), s)
          else
            (let rows = map (\<lambda>r. if ob_id r \<in> set ids then claim_row node_id nw deadline r else r) (event_outbox s)
             in (Inr (sort_key ob_id (filter (\<lambda>r. ob_id r \<in> set ids) rows)), s\<lparr>event_outbox := rows\<rparr>)))"

definition mark_published :: "int list \<Rightarrow> string \<Rightarrow> event_db \<Rightarrow> int app_result \<times> event_db" where
  "mark_published ids node_id s =
     (if ids = [] then (Inr 0, s)
      else
        (let hit = (\<lambda>r. ob_id r \<in> set ids \<and> ob_claimed_by r = Some node_id) in
         (Inr (int (length (filter hit (event_outbox s)))),
          s\<lparr>event_outbox := map (\<lambda>r. if hit r then r\<lparr>ob_published := True\<rparr> else r) (event_outbox s)\<rparr>)))"

definition get_outbox_entry :: "int \<Rightarrow> event_db \<Rightarrow> outbox_row option" where
  "get_outbox_entry i s = find (\<lambda>r. ob_id r = i) (event_outbox s)"

section \<open>The log is append-only and gap-free for readers\<close>

definition events_wf :: "event_db \<Rightarrow> bool" where
  "events_wf s \<longleftrightarrow>
     distinct (map (\<lambda>e. (ev_conversation_id e, ev_seq e)) (conversation_events s)) \<and>
     distinct (map ev_event_id (conversation_events s)) \<and>
     distinct (List.map_filter ev_turn_id (conversation_events s)) \<and>
     distinct (List.map_filter ev_client_msg_id (conversation_events s)) \<and>
     (\<forall>e\<in>set (conversation_events s). 1 \<le> ev_seq e)"

lemma fold_max_ge: "x \<in> set (n # ns) \<Longrightarrow> x \<le> fold max ns (n :: int)"
  by (metis Max_ge finite_set Max.set_eq_fold)

lemma next_seq_greater:
  assumes "e \<in> set (conversation_events s)" "ev_conversation_id e = cid"
  shows "ev_seq e < next_seq cid s"
proof -
  have "ev_seq e \<in> set (conversation_seqs cid s)"
    using assms by (auto simp: conversation_seqs_def)
  then show ?thesis unfolding next_seq_def
    using fold_max_ge by (cases "conversation_seqs cid s") fastforce+
qed

lemma next_seq_positive: "events_wf s \<Longrightarrow> 1 \<le> next_seq cid s"
proof (cases "conversation_seqs cid s")
  case Nil
  then show ?thesis by (simp add: next_seq_def)
next
  case (Cons n ns)
  assume "events_wf s"
  moreover have "n \<in> set (conversation_seqs cid s)" using Cons by simp
  ultimately have "1 \<le> n" by (auto simp: events_wf_def conversation_seqs_def)
  moreover have "n \<le> fold max ns n" by (rule fold_max_ge) simp
  ultimately show ?thesis by (simp add: next_seq_def Cons)
qed

lemma map_filter_append: "List.map_filter f (xs @ ys) = List.map_filter f xs @ List.map_filter f ys"
  by (simp add: List.map_filter_def)

lemma set_map_filter: "x \<in> set (List.map_filter f xs) \<longleftrightarrow> (\<exists>y\<in>set xs. f y = Some x)"
  by (force simp: List.map_filter_def)

lemma distinct_map_filter_snoc:
  assumes "distinct (List.map_filter f xs)" "\<And>y. y \<in> set xs \<Longrightarrow> f x \<noteq> None \<Longrightarrow> f y \<noteq> f x"
  shows "distinct (List.map_filter f (xs @ [x]))"
proof (cases "f x")
  case None
  with assms(1) show ?thesis by (simp add: map_filter_append List.map_filter_def)
next
  case (Some v)
  then have "v \<notin> set (List.map_filter f xs)" using assms(2) by (auto simp: set_map_filter)
  moreover have "List.map_filter f [x] = [v]" using Some by (simp add: List.map_filter_def)
  ultimately show ?thesis using assms(1) by (simp add: map_filter_append)
qed

lemma events_wf_append:
  assumes "events_wf s" "ev_event_id ev \<notin> ev_event_id ` set (conversation_events s)"
    "ev_seq ev = next_seq (ev_conversation_id ev) s" "ev_turn_id ev = None" "ev_client_msg_id ev = None"
    "conversation_events t = conversation_events s @ [ev]"
  shows "events_wf t"
proof -
  have "(ev_conversation_id ev, ev_seq ev) \<notin> (\<lambda>e. (ev_conversation_id e, ev_seq e)) ` set (conversation_events s)"
    using next_seq_greater assms(3) by fastforce
  moreover have "List.map_filter ev_turn_id [ev] = []" "List.map_filter ev_client_msg_id [ev] = []"
    using assms(4,5) by (simp_all add: List.map_filter_def)
  ultimately show ?thesis
    using assms next_seq_positive [OF assms(1)] by (auto simp: events_wf_def map_filter_append)
qed

lemma insert_conversation_event_Inr:
  assumes "insert_conversation_event E ev s = (Inr (i, seq), t)"
  shows "\<exists>e. conversation_events t = conversation_events s @ [e] \<and> i = ce_event_id ev \<and>
     ev_event_id e = i \<and> ev_seq e = seq \<and> seq = next_seq (ce_conversation_id ev) s \<and>
     ev_conversation_id e = ce_conversation_id ev \<and> ev_turn_id e = ce_turn_id ev \<and>
     ev_client_msg_id e = ce_client_msg_id ev \<and> event_conflict ev s = None"
proof -
  have same: "next_seq c (s\<lparr>clock_reads := n\<rparr>) = next_seq c s" "event_conflict ev (s\<lparr>clock_reads := n\<rparr>) = event_conflict ev s"
    for c n by (simp_all add: next_seq_def conversation_seqs_def event_conflict_def)
  show ?thesis using assms
    by (auto simp: insert_conversation_event_def now_def Let_def same split: if_splits option.splits)
qed

lemma insert_conversation_event_Inl:
  "insert_conversation_event E ev s = (Inl e, t) \<Longrightarrow> conversation_events t = conversation_events s"
  by (auto simp: insert_conversation_event_def now_def Let_def split: if_splits option.splits)

text \<open>
  C15: the event log. Appending an event keeps the log's invariant (per-conversation sequence
  numbers, event ids, turn ids and client message ids are unique, sequence numbers start at 1),
  gives the new event a sequence number above every earlier one of its conversation and touches no
  earlier event; a refused event leaves the log as it was, and one with a turn id or client message
  id already in the log is refused.
\<close>

theorem insert_conversation_event_appends:
  assumes "events_wf s" "insert_conversation_event E ev s = (r, t)"
  shows "events_wf t \<and>
    (case r of
       Inl _ \<Rightarrow> conversation_events t = conversation_events s
     | Inr (i, seq) \<Rightarrow>
         (\<exists>e. conversation_events t = conversation_events s @ [e] \<and> ev_event_id e = ce_event_id ev \<and> ev_seq e = seq \<and>
            (\<forall>d\<in>set (conversation_events s). ev_conversation_id d = ce_conversation_id ev \<longrightarrow> ev_seq d < seq) \<and>
            (\<forall>d\<in>set (conversation_events s). ce_turn_id ev \<noteq> None \<longrightarrow> ev_turn_id d \<noteq> ce_turn_id ev) \<and>
            (\<forall>d\<in>set (conversation_events s). ce_client_msg_id ev \<noteq> None \<longrightarrow> ev_client_msg_id d \<noteq> ce_client_msg_id ev)))"
proof (cases r)
  case (Inl e)
  with assms insert_conversation_event_Inl show ?thesis by (fastforce simp: events_wf_def)
next
  case (Inr p)
  obtain i seq where p: "p = (i, seq)" by (cases p)
  obtain e where e: "conversation_events t = conversation_events s @ [e]" "ev_event_id e = ce_event_id ev"
      "ev_seq e = seq" "seq = next_seq (ce_conversation_id ev) s" "ev_conversation_id e = ce_conversation_id ev"
      "ev_turn_id e = ce_turn_id ev" "ev_client_msg_id e = ce_client_msg_id ev" "event_conflict ev s = None"
    using insert_conversation_event_Inr [of E ev s i seq t] assms(2) Inr p by auto
  have fresh: "ev_event_id d \<noteq> ce_event_id ev"
      "ce_turn_id ev \<noteq> None \<Longrightarrow> ev_turn_id d \<noteq> ce_turn_id ev"
      "ce_client_msg_id ev \<noteq> None \<Longrightarrow> ev_client_msg_id d \<noteq> ce_client_msg_id ev"
    if "d \<in> set (conversation_events s)" for d
    using that e(8) by (auto simp: event_conflict_def Let_def list_ex_iff split: if_splits)
  have above: "ev_seq d < seq" if "d \<in> set (conversation_events s)" "ev_conversation_id d = ce_conversation_id ev" for d
    using next_seq_greater [OF that] e(4) by simp
  have pos: "1 \<le> seq" using next_seq_positive [OF assms(1)] e(4) by simp
  have "distinct (map (\<lambda>e. (ev_conversation_id e, ev_seq e)) (conversation_events t))"
    using assms(1) above e(3,5) by (fastforce simp: events_wf_def e(1))
  moreover have "distinct (map ev_event_id (conversation_events t))"
    using assms(1) fresh(1) e(2) by (fastforce simp: events_wf_def e(1))
  moreover have "distinct (List.map_filter ev_turn_id (conversation_events t))"
    unfolding e(1) using assms(1) fresh(2) e(6)
    by (intro distinct_map_filter_snoc) (auto simp: events_wf_def)
  moreover have "distinct (List.map_filter ev_client_msg_id (conversation_events t))"
    unfolding e(1) using assms(1) fresh(3) e(7)
    by (intro distinct_map_filter_snoc) (auto simp: events_wf_def)
  moreover have "\<forall>d\<in>set (conversation_events t). 1 \<le> ev_seq d"
    using assms(1) pos e(3) by (simp add: events_wf_def e(1))
  ultimately have "events_wf t" unfolding events_wf_def by blast
  then show ?thesis using e fresh above by (simp add: Inr p)
qed

definition demo_clock_env :: env where
  "demo_clock_env = \<lparr>env_uuid = (\<lambda>n. replicate n CHR ''u''), env_clock = (\<lambda>n. secs (int n))\<rparr>"

definition demo_reply :: "string \<Rightarrow> string \<Rightarrow> conversation_event" where
  "demo_reply i turn = \<lparr>ce_conversation_id = ''conv-1'', ce_event_id = i, ce_event_type = ''reply'',
     ce_sender_id = ''agent-1'', ce_content = Some ''done'', ce_content_type = ''text/plain'', ce_metadata = jobj [],
     ce_client_msg_id = None, ce_turn_id = Some turn, ce_reply_event_id = Some i\<rparr>"

definition demo_events :: event_db where
  "demo_events = snd (insert_conversation_event demo_clock_env (demo_reply ''e1'' ''turn-1'')
     \<lparr>ids_drawn = 0, clock_reads = 0, conversation_events = [], event_outbox = [], outbox_id_seq = 1,
      outbox_dead_letters = []\<rparr>)"

lemma demo_events_wf: "events_wf demo_events"
  by (simp add: events_wf_def demo_events_def insert_conversation_event_def now_def Let_def next_seq_def
      conversation_seqs_def event_conflict_def INT8_MAX_def demo_reply_def List.map_filter_def)

theorem insert_conversation_event_appends_witness:
  "isl (fst (insert_conversation_event demo_clock_env (demo_reply ''e2'' ''turn-1'') demo_events)) \<and>
   fst (insert_conversation_event demo_clock_env (demo_reply ''e2'' ''turn-2'') demo_events) = Inr (''e2'', 2) \<and>
   events_wf (snd (insert_conversation_event demo_clock_env (demo_reply ''e2'' ''turn-2'') demo_events))"
proof -
  have "isl (fst (insert_conversation_event demo_clock_env (demo_reply ''e2'' ''turn-1'') demo_events))"
      "fst (insert_conversation_event demo_clock_env (demo_reply ''e2'' ''turn-2'') demo_events) = Inr (''e2'', 2)"
    by code_simp+
  then show ?thesis
    using insert_conversation_event_appends [OF demo_events_wf surjective_pairing] by blast
qed

text \<open>
  Readers never skip an event. A page of a conversation's events after a sequence number is
  strictly increasing, and it contains every event of the conversation between that number and the
  last event of the page, so a client that continues from the last sequence number it saw misses
  nothing.
\<close>

theorem get_events_after_seq_gap_free:
  assumes "events_wf s" "get_events_after_seq cid after limit s = Inr page"
  shows "sorted_wrt (<) (map ev_seq page) \<and>
    (\<forall>e\<in>set page. \<forall>d\<in>set (conversation_events s).
       ev_conversation_id d = cid \<longrightarrow> after < ev_seq d \<longrightarrow> ev_seq d \<le> ev_seq e \<longrightarrow> d \<in> set page)"
proof -
  let ?rows = "filter (\<lambda>e. ev_conversation_id e = cid \<and> ev_seq e > after) (conversation_events s)"
  have page: "page = take (nat limit) (sort_key ev_seq ?rows)"
    using assms(2) by (auto simp: get_events_after_seq_def limited_def split: if_splits)
  have key: "inj_on (\<lambda>e. (ev_conversation_id e, ev_seq e)) (set (conversation_events s))"
      "distinct (conversation_events s)"
    using assms(1) unfolding events_wf_def distinct_map by blast+
  have dist: "distinct ?rows" using key(2) by simp
  have inj: "inj_on ev_seq (set ?rows)"
  proof (rule inj_onI)
    fix x y assume "x \<in> set ?rows" "y \<in> set ?rows" "ev_seq x = ev_seq y"
    then show "x = y" by (intro inj_onD [OF key(1)]) simp_all
  qed
  have "distinct (map ev_seq (sort_key ev_seq ?rows))"
    using inj dist by (simp add: distinct_map)
  then have "sorted_wrt (<) (map ev_seq (sort_key ev_seq ?rows))"
    by (simp add: strict_sorted_iff)
  then have "sorted_wrt (<) (map ev_seq page)"
    by (simp add: page take_map [symmetric] sorted_wrt_take)
  moreover have "d \<in> set page"
    if e: "e \<in> set page" and d: "d \<in> set (conversation_events s)" "ev_conversation_id d = cid" "after < ev_seq d"
      "ev_seq d \<le> ev_seq e" for e d
  proof (cases "ev_seq d = ev_seq e")
    case True
    have "e \<in> set ?rows" using e by (auto simp: page dest: in_set_takeD)
    with True d inj_onD [OF inj, of d e] have "d = e" by simp
    with e show ?thesis by simp
  next
    case False
    with d(4) have lt: "ev_seq d < ev_seq e" by simp
    have "d \<in> set ?rows" using d by simp
    from sorted_take_closed [OF e [unfolded page] this lt] show ?thesis unfolding page .
  qed
  ultimately show ?thesis by blast
qed

definition demo_log :: event_db where
  "demo_log = snd (insert_conversation_event demo_clock_env (demo_reply ''e2'' ''turn-2'') demo_events)"

theorem get_events_after_seq_gap_free_witness:
  "map_sum (\<lambda>_. ()) (map ev_event_id) (get_events_after_seq ''conv-1'' 0 1 demo_log) = Inr [''e1''] \<and>
   map_sum (\<lambda>_. ()) (map ev_event_id) (get_events_after_seq ''conv-1'' 1 1 demo_log) = Inr [''e2''] \<and>
   (\<exists>page. get_events_after_seq ''conv-1'' 0 9 demo_log = Inr page \<and> sorted_wrt (<) (map ev_seq page))"
proof -
  have wf: "events_wf demo_log"
    by (simp add: events_wf_def demo_log_def demo_events_def insert_conversation_event_def now_def Let_def next_seq_def
      conversation_seqs_def event_conflict_def INT8_MAX_def demo_reply_def List.map_filter_def)
  have "map_sum (\<lambda>_. ()) (map ev_event_id) (get_events_after_seq ''conv-1'' 0 1 demo_log) = Inr [''e1'']"
      "map_sum (\<lambda>_. ()) (map ev_event_id) (get_events_after_seq ''conv-1'' 1 1 demo_log) = Inr [''e2'']"
      "isl (get_events_after_seq ''conv-1'' 0 9 demo_log) = False"
    by code_simp+
  then show ?thesis
    using get_events_after_seq_gap_free [OF wf, of "''conv-1''" 0 9]
    by (cases "get_events_after_seq ''conv-1'' 0 9 demo_log") auto
qed

section \<open>Outbox leases\<close>

lemma claim_unpublished_entries_Inr:
  assumes "claim_unpublished_entries E n node dur s = (Inr rows, t)"
  shows "\<exists>ids. ids \<subseteq> ob_id ` {r \<in> set (event_outbox s). claimable_entry (env_clock E (clock_reads s)) r} \<and>
     event_outbox t = map (\<lambda>r. if ob_id r \<in> ids
        then claim_row node (env_clock E (clock_reads s)) (env_clock E (clock_reads s) + dur) r else r) (event_outbox s) \<and>
     set rows = {r \<in> set (event_outbox t). ob_id r \<in> ids} \<and> clock_reads t = Suc (clock_reads s) \<and>
     outbox_id_seq t = outbox_id_seq s"
proof -
  let ?nw = "env_clock E (clock_reads s)"
  let ?ids = "set (take (nat n) (map ob_id (sort_key ob_id (filter (claimable_entry ?nw) (event_outbox s)))))"
  have "?ids \<subseteq> ob_id ` {r \<in> set (event_outbox s). claimable_entry ?nw r}"
    by (auto dest!: in_set_takeD)
  then show ?thesis using assms
    by (intro exI [of _ ?ids])
       (auto simp: claim_unpublished_entries_def limited_def now_def Let_def split: if_splits)
qed

lemma claim_row_simps [simp]:
  "ob_id (claim_row node nw d r) = ob_id r" "ob_claim_deadline (claim_row node nw d r) = Some d"
  "ob_claimed_by (claim_row node nw d r) = Some node" "ob_published (claim_row node nw d r) = ob_published r"
  by (simp_all add: claim_row_def)

text \<open>
  Outbox claims are exclusive. While a claimed entry's lease has not run out, no poller is
  handed the entry again, and no other node can mark it published.
\<close>

theorem outbox_claim_exclusive:
  assumes "claim_unpublished_entries E n node dur s = (Inr rows, t)" "r \<in> set rows"
    and "env_clock E (clock_reads t) \<le> env_clock E (clock_reads s) + dur"
    and "claim_unpublished_entries E n' node' dur' t = (Inr rows', u)"
  shows "ob_id r \<notin> ob_id ` set rows' \<and>
         (node' \<noteq> node \<longrightarrow> event_outbox (snd (mark_published [ob_id r] node' t)) = event_outbox t)"
proof -
  from claim_unpublished_entries_Inr [OF assms(1)] obtain ids where
    t: "event_outbox t = map (\<lambda>r. if ob_id r \<in> ids
        then claim_row node (env_clock E (clock_reads s)) (env_clock E (clock_reads s) + dur) r else r) (event_outbox s)"
    and rows: "set rows = {r \<in> set (event_outbox t). ob_id r \<in> ids}"
    by blast
  have leased: "ob_claim_deadline q = Some (env_clock E (clock_reads s) + dur) \<and> ob_claimed_by q = Some node"
    if "q \<in> set (event_outbox t)" "ob_id q = ob_id r" for q
    using that assms(2) rows by (auto simp: t)
  from claim_unpublished_entries_Inr [OF assms(4)] obtain ids' where
    ids': "ids' \<subseteq> ob_id ` {r \<in> set (event_outbox t). claimable_entry (env_clock E (clock_reads t)) r}"
    and rows': "set rows' = {r \<in> set (event_outbox u). ob_id r \<in> ids'}"
    by blast
  have "ob_id r \<notin> ids'"
    using ids' leased assms(3) by (force simp: claimable_entry_def)
  then have "ob_id r \<notin> ob_id ` set rows'" by (auto simp: rows')
  moreover have "event_outbox (snd (mark_published [ob_id r] node' t)) = event_outbox t" if "node' \<noteq> node"
    using leased that by (auto simp: mark_published_def Let_def intro!: map_idI)
  ultimately show ?thesis by blast
qed

definition demo_outbox :: event_db where
  "demo_outbox = snd (insert_outbox_entry demo_clock_env
     \<lparr>oe_aggregate_type = ''conversation_event'', oe_aggregate_id = ''conv-1'', oe_event_type = ''message'',
      oe_payload = jobj [(''message_id'', JStr ''e1'')]\<rparr> demo_log)"

definition demo_claimed :: event_db where
  "demo_claimed = snd (claim_unpublished_entries demo_clock_env 10 ''node-1'' (secs 30) demo_outbox)"

theorem outbox_claim_exclusive_witness:
  "map_sum (\<lambda>_. ()) (map ob_id) (fst (claim_unpublished_entries demo_clock_env 10 ''node-1'' (secs 30) demo_outbox)) = Inr [1] \<and>
   event_outbox (snd (mark_published [1] ''node-2'' demo_claimed)) = event_outbox demo_claimed"
proof -
  let ?run = "claim_unpublished_entries demo_clock_env 10 ''node-1'' (secs 30) demo_outbox"
  let ?again = "claim_unpublished_entries demo_clock_env 10 ''node-2'' (secs 30) demo_claimed"
  have v: "map_sum (\<lambda>_. ()) (map ob_id) (fst ?run) = Inr [1]"
      "map_sum (\<lambda>_. ()) (map ob_id) (fst ?again) = Inr []"
      "env_clock demo_clock_env (clock_reads demo_claimed) \<le> env_clock demo_clock_env (clock_reads demo_outbox) + secs 30"
    by code_simp+
  obtain rows where rows: "fst ?run = Inr rows" "map ob_id rows = [1]"
    using v(1) by (cases "fst ?run") auto
  obtain rows' where rows': "fst ?again = Inr rows'" using v(2) by (cases "fst ?again") auto
  from rows(2) obtain r where r: "r \<in> set rows" "ob_id r = 1" by (metis list.set_intros(1) list.set_map imageE)
  have "?run = (Inr rows, demo_claimed)" "?again = (Inr rows', snd ?again)"
    using rows rows' by (simp_all add: demo_claimed_def prod_eq_iff)
  from outbox_claim_exclusive [OF this(1) r(1) v(3) this(2)] r(2) v(1) show ?thesis by simp
qed

end
