(* ===== verification/Router_Loop.thy ===== *)
theory Router_Loop
  imports Router_Memory Event_Store
begin

text \<open>
  The router loop, the end of \<^verbatim>\<open>crates/choruz-router/src/router.rs\<close>: one outbox entry is
  looked up, routed and marked published, or dead-lettered. The state is the event store's tables
  and the decision sink's state. The text of an error (its derived \<^verbatim>\<open>Display\<close>) and of a
  timestamp only reach dead letters; they are parameters.
\<close>

record loop_env =
  le_error_text :: "router_error \<Rightarrow> string"
  le_time_text :: "timestamp \<Rightarrow> string"

definition OUTBOX_DEAD_LETTER_AFTER_ATTEMPTS :: int where
  "OUTBOX_DEAD_LETTER_AFTER_ATTEMPTS = 5"

definition should_dead_letter_outbox :: "int \<Rightarrow> bool" where
  "should_dead_letter_outbox attempt_count \<longleftrightarrow> attempt_count \<ge> OUTBOX_DEAD_LETTER_AFTER_ATTEMPTS"

definition parse_outbox_event :: "outbox_row \<Rightarrow> event_db \<Rightarrow> conversation_event_row option router_result" where
  "parse_outbox_event outbox s =
     (case (case get_str (ob_payload outbox) ''message_id'' of
              Some mid \<Rightarrow> Some mid | None \<Rightarrow> get_str (ob_payload outbox) ''event_id'') of
        Some mid \<Rightarrow> Inr (get_event_by_message_id mid s)
      | None \<Rightarrow> Inl (Deserialization ''outbox payload missing message_id/event_id''))"

definition outbox_letter_payload :: "loop_env \<Rightarrow> outbox_row \<Rightarrow> json" where
  "outbox_letter_payload LE outbox =
     jobj [(''aggregate_type'', JStr (ob_aggregate_type outbox)),
           (''aggregate_id'', JStr (ob_aggregate_id outbox)),
           (''event_type'', JStr (ob_event_type outbox)),
           (''payload'', ob_payload outbox),
           (''claimed_by'', jopt_str (ob_claimed_by outbox)),
           (''claimed_at'', jopt_str (map_option (le_time_text LE) (ob_claimed_at outbox))),
           (''claim_deadline'', jopt_str (map_option (le_time_text LE) (ob_claim_deadline outbox)))]"

definition still_owned :: "outbox_row \<Rightarrow> string \<Rightarrow> outbox_row \<Rightarrow> bool" where
  "still_owned outbox claimed_by r \<longleftrightarrow> ob_id r = ob_id outbox \<and> \<not> ob_published r \<and>
     ob_claimed_by r = Some claimed_by \<and> ob_claimed_at r = ob_claimed_at outbox"

definition dead_letter_outbox_entry ::
  "env \<Rightarrow> loop_env \<Rightarrow> outbox_row \<Rightarrow> string \<Rightarrow> event_db \<Rightarrow> unit router_result \<times> event_db" where
  "dead_letter_outbox_entry E LE outbox error s =
     (case ob_claimed_by outbox of
        None \<Rightarrow> (Inr (), s)
      | Some claimed_by \<Rightarrow>
          if \<not> list_ex (still_owned outbox claimed_by) (event_outbox s) then (Inr (), s)
          else
            (let (i, s) = new_id E s; (nw, s) = now E s;
                 letter = \<lparr>dl_id = i, dl_source_type = ''event_outbox'', dl_source_id = show_int (ob_id outbox),
                           dl_payload = outbox_letter_payload LE outbox, dl_error = error,
                           dl_attempt_count = ob_attempt_count outbox, dl_created_at = nw,
                           dl_resolved_at = None, dl_resolved_by = None\<rparr>
             in (Inr (),
                 s\<lparr>event_outbox := map (\<lambda>r. if still_owned outbox claimed_by r then r\<lparr>ob_published := True\<rparr> else r)
                     (event_outbox s),
                   outbox_dead_letters := outbox_dead_letters s @ [letter]\<rparr>)))"

text \<open>One round of \<^verbatim>\<open>run_router_loop\<close>; a panic would end the loop's task.\<close>

definition process_outbox_entry ::
  "env \<Rightarrow> loop_env \<Rightarrow> router_env \<Rightarrow> member_provider \<Rightarrow> 's decision_sink \<Rightarrow> outbox_row \<Rightarrow>
   event_db \<times> 's \<Rightarrow> (router_error, unit) exec \<times> event_db \<times> 's" where
  "process_outbox_entry E LE RX members sink outbox st =
     (case st of (s, q) \<Rightarrow>
      case parse_outbox_event outbox s of
        Inr None \<Rightarrow>
          (case dead_letter_outbox_entry E LE outbox ''outbox entry references non-existent conversation event'' s of
             (_, s') \<Rightarrow> (Ret (), s', q))
      | Inl e \<Rightarrow>
          if should_dead_letter_outbox (ob_attempt_count outbox)
          then (case dead_letter_outbox_entry E LE outbox (''failed to parse outbox event: '' @ le_error_text LE e) s of
                  (_, s') \<Rightarrow> (Ret (), s', q))
          else (Ret (), s, q)
      | Inr (Some event) \<Rightarrow>
          (case route_event RX event members sink q of
             (Ret outcomes, q') \<Rightarrow>
               (let node_id = (case ob_claimed_by outbox of Some n \<Rightarrow> n | None \<Rightarrow> ''unknown'')
                in case mark_published [ob_id outbox] node_id s of (_, s') \<Rightarrow> (Ret (), s', q'))
           | (Fail e, q') \<Rightarrow>
               if should_dead_letter_outbox (ob_attempt_count outbox)
               then (case dead_letter_outbox_entry E LE outbox (''failed to route event: '' @ le_error_text LE e) s of
                       (_, s') \<Rightarrow> (Ret (), s', q'))
               else (Ret (), s, q')
           | (Panic p, q') \<Rightarrow> (Panic p, s, q')))"

fun run_router_loop ::
  "env \<Rightarrow> loop_env \<Rightarrow> router_env \<Rightarrow> member_provider \<Rightarrow> 's decision_sink \<Rightarrow> outbox_row list \<Rightarrow>
   event_db \<times> 's \<Rightarrow> (router_error, unit) exec \<times> event_db \<times> 's" where
  "run_router_loop E LE RX members sink [] st = (Ret (), st)"
| "run_router_loop E LE RX members sink (entry # rest) st =
     (case process_outbox_entry E LE RX members sink entry st of
        (Ret _, st') \<Rightarrow> run_router_loop E LE RX members sink rest st'
      | (Fail e, st') \<Rightarrow> (Fail e, st')
      | (Panic p, st') \<Rightarrow> (Panic p, st'))"

section \<open>No event is lost\<close>

definition published_ids :: "event_db \<Rightarrow> int set" where
  "published_ids s = ob_id ` set (filter ob_published (event_outbox s))"

definition routed_into :: "router_env \<Rightarrow> member_provider \<Rightarrow> 's decision_sink \<Rightarrow> outbox_row \<Rightarrow> event_db \<times> 's \<Rightarrow> 's \<Rightarrow> bool" where
  "routed_into RX members sink outbox st q' \<longleftrightarrow>
     (\<exists>event outcomes. parse_outbox_event outbox (fst st) = Inr (Some event) \<and>
        route_event RX event members sink (snd st) = (Ret outcomes, q'))"

lemma dead_letter_published:
  assumes "dead_letter_outbox_entry E LE outbox err s = (r, t)"
  shows "published_ids t = published_ids s \<and> outbox_dead_letters t = outbox_dead_letters s \<or>
     published_ids t = insert (ob_id outbox) (published_ids s) \<and>
     (\<exists>d. outbox_dead_letters t = outbox_dead_letters s @ [d] \<and> dl_source_id d = show_int (ob_id outbox) \<and>
        dl_payload d = outbox_letter_payload LE outbox \<and> dl_error d = err)"
proof (cases "\<exists>c. ob_claimed_by outbox = Some c \<and> list_ex (still_owned outbox c) (event_outbox s)")
  case False
  with assms show ?thesis by (auto simp: dead_letter_outbox_entry_def split: option.splits if_splits)
next
  case True
  then obtain c where c: "ob_claimed_by outbox = Some c" and ex: "list_ex (still_owned outbox c) (event_outbox s)"
    by blast
  then obtain r0 where r0: "r0 \<in> set (event_outbox s)" "still_owned outbox c r0" by (auto simp: list_ex_iff)
  let ?upd = "\<lambda>r. if still_owned outbox c r then r\<lparr>ob_published := True\<rparr> else r"
  from assms c ex have t: "event_outbox t = map ?upd (event_outbox s)"
    and letter: "\<exists>d. outbox_dead_letters t = outbox_dead_letters s @ [d] \<and> dl_source_id d = show_int (ob_id outbox) \<and>
        dl_payload d = outbox_letter_payload LE outbox \<and> dl_error d = err"
    by (auto simp: dead_letter_outbox_entry_def new_id_def now_def Let_def split: if_splits)
  have "published_ids t = insert (ob_id outbox) (published_ids s)"
  proof (intro set_eqI iffI)
    fix i assume "i \<in> published_ids t"
    then obtain r where "r \<in> set (event_outbox s)" "ob_published (?upd r)" "i = ob_id (?upd r)"
      by (auto simp: published_ids_def t)
    then show "i \<in> insert (ob_id outbox) (published_ids s)"
      by (cases "still_owned outbox c r") (auto simp: published_ids_def still_owned_def)
  next
    fix i assume i: "i \<in> insert (ob_id outbox) (published_ids s)"
    then obtain r where r: "r \<in> set (event_outbox s)" "i = ob_id r" "ob_published (?upd r)"
      using r0 by (fastforce simp: published_ids_def still_owned_def)
    from r(1) have "?upd r \<in> set (event_outbox t)" unfolding t set_map by (rule imageI)
    with r(3) have "?upd r \<in> set (filter ob_published (event_outbox t))" unfolding set_filter by blast
    then have "ob_id (?upd r) \<in> published_ids t" unfolding published_ids_def by (rule imageI)
    moreover have "ob_id (?upd r) = i" using r(2) by simp
    ultimately show "i \<in> published_ids t" by (rule subst [rotated])
  qed
  with letter show ?thesis by blast
qed

lemma mark_published_ids:
  "mark_published [i] node s = (r, t) \<Longrightarrow>
     published_ids t \<subseteq> insert i (published_ids s) \<and> published_ids s \<subseteq> published_ids t \<and>
     outbox_dead_letters t = outbox_dead_letters s"
  by (force simp: mark_published_def published_ids_def Let_def split: if_splits)

text \<open>
  C18: no event is lost by the router loop. Processing an entry publishes at most that entry, and
  only after its event was routed to the end or a dead letter carrying the entry's payload was
  written; an entry whose routing failed on an attempt before the fifth stays unpublished, so it is
  claimed again when its lease runs out.
\<close>

theorem process_outbox_entry_publishes_done:
  assumes "process_outbox_entry E LE RX members sink outbox (s, q) = (Ret (), t, q')"
  shows "published_ids s \<subseteq> published_ids t \<and> published_ids t \<subseteq> insert (ob_id outbox) (published_ids s) \<and>
     (published_ids t \<noteq> published_ids s \<longrightarrow>
        routed_into RX members sink outbox (s, q) q' \<or>
        (\<exists>d. outbox_dead_letters t = outbox_dead_letters s @ [d] \<and> dl_source_id d = show_int (ob_id outbox) \<and>
           dl_payload d = outbox_letter_payload LE outbox)) \<and>
     (\<forall>event e q''. parse_outbox_event outbox s = Inr (Some event) \<longrightarrow>
        route_event RX event members sink q = (Fail e, q'') \<longrightarrow> ob_attempt_count outbox < 5 \<longrightarrow>
        published_ids t = published_ids s)"
proof -
  have letter: "published_ids s \<subseteq> published_ids t \<and> published_ids t \<subseteq> insert (ob_id outbox) (published_ids s) \<and>
     (published_ids t \<noteq> published_ids s \<longrightarrow>
        (\<exists>d. outbox_dead_letters t = outbox_dead_letters s @ [d] \<and> dl_source_id d = show_int (ob_id outbox) \<and>
           dl_payload d = outbox_letter_payload LE outbox))"
    if "dead_letter_outbox_entry E LE outbox err s = (r, t)" for err r
    using dead_letter_published [OF that] by auto
  show ?thesis
  proof (cases "parse_outbox_event outbox s")
    case (Inl e)
    with assms letter show ?thesis
      by (auto simp: process_outbox_entry_def split: if_splits prod.splits)
  next
    case (Inr found)
    show ?thesis
    proof (cases found)
      case None
      with Inr assms letter show ?thesis
        by (auto simp: process_outbox_entry_def split: prod.splits)
    next
      case (Some event)
      obtain r q1 where run: "route_event RX event members sink q = (r, q1)" by fastforce
      show ?thesis
      proof (cases r)
        case (Ret outcomes)
        then have "routed_into RX members sink outbox (s, q) q'"
          using Inr Some run assms
          by (auto simp: routed_into_def process_outbox_entry_def Let_def split: prod.splits)
        then show ?thesis using Inr Some run Ret assms mark_published_ids
          by (auto simp: process_outbox_entry_def Let_def split: prod.splits)
      next
        case (Fail e)
        with Inr Some run assms letter show ?thesis
          by (auto simp: process_outbox_entry_def should_dead_letter_outbox_def
              OUTBOX_DEAD_LETTER_AFTER_ATTEMPTS_def split: if_splits prod.splits)
      next
        case (Panic p)
        with Inr Some run assms show ?thesis by (simp add: process_outbox_entry_def)
      qed
    qed
  qed
qed

definition demo_loop_env :: loop_env where
  "demo_loop_env = \<lparr>le_error_text = (\<lambda>_. ''error''), le_time_text = show_int\<rparr>"

definition demo_entry :: outbox_row where
  "demo_entry = \<lparr>ob_id = 1, ob_aggregate_type = ''conversation_event'', ob_aggregate_id = ''conv-1'',
     ob_event_type = ''message'', ob_payload = jobj [(''message_id'', JStr ''missing'')], ob_created_at = 0,
     ob_published = False, ob_claimed_by = Some ''node-1'', ob_claimed_at = Some 5, ob_claim_deadline = Some 9,
     ob_attempt_count = 1\<rparr>"

definition demo_loop_db :: event_db where
  "demo_loop_db = demo_log\<lparr>event_outbox := [demo_entry]\<rparr>"

theorem process_outbox_entry_publishes_done_witness:
  "published_ids demo_loop_db = {} \<and>
   (\<exists>t q. process_outbox_entry demo_clock_env demo_loop_env demo_router_env (im_provider demo_provider) im_sink demo_entry
        (demo_loop_db, demo_sink) = (Ret (), t, q) \<and> published_ids t = {1} \<and>
      (\<exists>d. outbox_dead_letters t = outbox_dead_letters demo_loop_db @ [d]))"
proof -
  let ?run = "process_outbox_entry demo_clock_env demo_loop_env demo_router_env (im_provider demo_provider) im_sink demo_entry
        (demo_loop_db, demo_sink)"
  have v: "published_ids demo_loop_db = {}" "fst ?run = Ret ()" "published_ids (fst (snd ?run)) = {1}"
      "parse_outbox_event demo_entry demo_loop_db = Inr None"
    by code_simp+
  have run: "?run = (Ret (), fst (snd ?run), snd (snd ?run))"
    using v(2) by (simp add: prod_eq_iff)
  have "\<not> routed_into demo_router_env (im_provider demo_provider) im_sink demo_entry (demo_loop_db, demo_sink) q" for q
    using v(4) by (simp add: routed_into_def)
  with process_outbox_entry_publishes_done [OF run] v run show ?thesis by blast
qed

end
