(* ===== verification/Writer.thy ===== *)
theory Writer
  imports Event_Store Session_Dispatch
begin

text \<open>
  The conversation writer, \<^verbatim>\<open>crates/choruz-writer\<close>: it commits an agent's result as a reply
  event, at most once per turn and only for the attempt that owns the command. The
  \<^verbatim>\<open>ResultStore\<close> trait is the record \<open>result_store\<close>; its contract is the locale
  \<open>result_log\<close>, interpreted on the crate's in-memory store and on the pipeline's database store
  (\<^verbatim>\<open>services/choruz-pipeline/src/pg_result_store.rs\<close>), which joins the event store and the
  session store.
\<close>

section \<open>Data\<close>

datatype agent_result_status = ResultSucceeded | ResultFailed

record command_attempt_ref =
  car_command_id :: string
  car_attempt_id :: string

record agent_result =
  ar_turn_id :: string
  ar_attempt_id :: string
  ar_command_id :: string
  ar_session_key :: string
  ar_conversation_id :: string
  ar_agent_id :: string
  ar_status :: agent_result_status
  ar_content :: "string option"
  ar_content_type :: "string option"
  ar_error :: "string option"
  ar_tool_calls_count :: int
  ar_execution_duration_ms :: int
  ar_secondary_command_attempts :: "command_attempt_ref list"
  ar_command_results :: "json list"
  ar_trace_id :: "string option"
  ar_execution_metadata :: "json option"

datatype write_outcome =
    ReplyCommitted string int
  | SkippedNotSucceeded
  | SkippedEmptyCommitted
  | DuplicateTurn
  | SkippedStaleAttempt

datatype writer_error =
    WriterStore app_error
  | WriterInternal string
  | WriterStaleAttempt string string

type_synonym 'a writer_result = "writer_error + 'a"

record 's result_store =
  rs_turn_already_committed :: "string \<Rightarrow> 's \<Rightarrow> bool writer_result"
  rs_insert_reply_event :: "conversation_event \<Rightarrow> string \<Rightarrow> string \<Rightarrow> 's \<Rightarrow> (string \<times> int) writer_result \<times> 's"
  rs_attempt_is_current :: "string \<Rightarrow> string \<Rightarrow> 's \<Rightarrow> bool writer_result"
  rs_mark_committed :: "string \<Rightarrow> string \<Rightarrow> 's \<Rightarrow> unit writer_result \<times> 's"

section \<open>Committing a result\<close>

fun mark_commands :: "'s result_store \<Rightarrow> (string \<times> string) list \<Rightarrow> 's \<Rightarrow> unit writer_result \<times> 's" where
  "mark_commands store [] s = (Inr (), s)"
| "mark_commands store ((command_id, attempt_id) # rest) s =
     (case rs_mark_committed store command_id attempt_id s of
        (Inr _, s') \<Rightarrow> mark_commands store rest s'
      | (Inl (WriterStaleAttempt _ _), s') \<Rightarrow> mark_commands store rest s'
      | (Inl e, s') \<Rightarrow> (Inl e, s'))"

definition mark_all_committed :: "agent_result \<Rightarrow> 's result_store \<Rightarrow> 's \<Rightarrow> unit writer_result \<times> 's" where
  "mark_all_committed result store =
     mark_commands store ((ar_command_id result, ar_attempt_id result) #
       map (\<lambda>c. (car_command_id c, car_attempt_id c)) (ar_secondary_command_attempts result))"

definition reply_event :: "string \<Rightarrow> agent_result \<Rightarrow> conversation_event" where
  "reply_event reply_event_id result =
     \<lparr>ce_conversation_id = ar_conversation_id result, ce_event_id = reply_event_id, ce_event_type = ''reply'',
      ce_sender_id = ar_agent_id result, ce_content = ar_content result,
      ce_content_type = (case ar_content_type result of Some t \<Rightarrow> t | None \<Rightarrow> ''text/plain''),
      ce_metadata = jobj [(''command_id'', JStr (ar_command_id result)),
                          (''attempt_id'', JStr (ar_attempt_id result)),
                          (''tool_calls_count'', JInt (ar_tool_calls_count result)),
                          (''execution_duration_ms'', JInt (ar_execution_duration_ms result)),
                          (''trace_id'', jopt_str (ar_trace_id result)),
                          (''execution'', case ar_execution_metadata result of Some j \<Rightarrow> j | None \<Rightarrow> JNull)],
      ce_client_msg_id = None, ce_turn_id = Some (ar_turn_id result),
      ce_reply_event_id = Some reply_event_id\<rparr>"

definition closing :: "write_outcome \<Rightarrow> unit writer_result \<times> 's \<Rightarrow> write_outcome writer_result \<times> 's" where
  "closing outcome m = (case m of (Inr _, s) \<Rightarrow> (Inr outcome, s) | (Inl e, s) \<Rightarrow> (Inl e, s))"

text \<open>\<^verbatim>\<open>ReplyEventId::new()\<close> is the argument \<open>reply_event_id\<close>.\<close>

definition commit_result ::
  "string \<Rightarrow> agent_result \<Rightarrow> 's result_store \<Rightarrow> 's \<Rightarrow> write_outcome writer_result \<times> 's" where
  "commit_result reply_event_id result store s =
     (if ar_status result \<noteq> ResultSucceeded then (Inr SkippedNotSucceeded, s)
      else case rs_attempt_is_current store (ar_command_id result) (ar_attempt_id result) s of
        Inl e \<Rightarrow> (Inl e, s)
      | Inr current \<Rightarrow>
          if \<not> current then (Inr SkippedStaleAttempt, s)
          else if trim (case ar_content result of Some c \<Rightarrow> c | None \<Rightarrow> []) = []
          then closing SkippedEmptyCommitted (mark_all_committed result store s)
          else case rs_turn_already_committed store (ar_turn_id result) s of
            Inl e \<Rightarrow> (Inl e, s)
          | Inr committed \<Rightarrow>
              if committed then closing DuplicateTurn (mark_all_committed result store s)
              else
                (case rs_insert_reply_event store (reply_event reply_event_id result)
                        (ar_command_id result) (ar_attempt_id result) s of
                   (Inr (eid, seq), s') \<Rightarrow> closing (ReplyCommitted eid seq) (mark_all_committed result store s')
                 | (Inl (WriterStore (Conflict _)), s') \<Rightarrow>
                     closing DuplicateTurn (mark_all_committed result store s')
                 | (Inl (WriterStaleAttempt _ _), s') \<Rightarrow> (Inr SkippedStaleAttempt, s')
                 | (Inl e, s') \<Rightarrow> (Inl e, s')))"

text \<open>The writer loop: one result after the other, errors logged and skipped.\<close>

fun run_writer_loop :: "'s result_store \<Rightarrow> (string \<times> agent_result) list \<Rightarrow> 's \<Rightarrow> 's" where
  "run_writer_loop store [] s = s"
| "run_writer_loop store ((reply_event_id, result) # rest) s =
     run_writer_loop store rest (snd (commit_result reply_event_id result store s))"

section \<open>The store's contract\<close>

text \<open>
  Two views of a store's state: the turns that have a reply, in commit order, and which attempts
  own which commands. An insertion succeeds only for the owner and for a turn without a reply.
\<close>

locale result_log =
  fixes store :: "'s result_store"
    and reply_turns :: "'s \<Rightarrow> string list"
    and owns :: "'s \<Rightarrow> string \<Rightarrow> string \<Rightarrow> bool"
  assumes turn_committed: "rs_turn_already_committed store turn s = Inr b \<Longrightarrow> b = (turn \<in> set (reply_turns s))"
    and attempt_current: "rs_attempt_is_current store cid a s = Inr b \<Longrightarrow> b = owns s cid a"
    and insert_ok: "rs_insert_reply_event store ev cid a s = (Inr p, t) \<Longrightarrow> ce_turn_id ev = Some turn \<Longrightarrow>
      owns s cid a \<and> turn \<notin> set (reply_turns s) \<and> reply_turns t = reply_turns s @ [turn]"
    and insert_refused: "rs_insert_reply_event store ev cid a s = (Inl e, t) \<Longrightarrow> reply_turns t = reply_turns s"
    and mark_keeps: "rs_mark_committed store cid a s = (r, t) \<Longrightarrow> reply_turns t = reply_turns s"
begin

lemma mark_commands_keeps: "mark_commands store cs s = (r, t) \<Longrightarrow> reply_turns t = reply_turns s"
proof (induction cs arbitrary: s)
  case Nil
  then show ?case by simp
next
  case (Cons c cs)
  obtain cid a where c: "c = (cid, a)" by (cases c)
  obtain q u where q: "rs_mark_committed store cid a s = (q, u)" by fastforce
  from Cons.prems c q have "mark_commands store cs u = (r, t) \<or> t = u"
    by (auto split: sum.splits writer_error.splits)
  then show ?case using Cons.IH mark_keeps [OF q] by auto
qed

lemma mark_all_committed_keeps:
  "mark_all_committed result store s = (r, t) \<Longrightarrow> reply_turns t = reply_turns s"
  unfolding mark_all_committed_def by (rule mark_commands_keeps)

lemma closing_keeps:
  "closing outcome (mark_all_committed result store s) = (r, t) \<Longrightarrow>
     reply_turns t = reply_turns s \<and> (r = Inr outcome \<or> (\<exists>e. r = Inl e))"
  by (auto simp: closing_def split: prod.splits sum.splits dest: mark_all_committed_keeps)

text \<open>What one commit does to the replies.\<close>

lemma commit_result_cases:
  assumes "commit_result i result store s = (r, t)"
  shows "reply_turns t = reply_turns s \<and> (\<forall>eid seq. r \<noteq> Inr (ReplyCommitted eid seq)) \<or>
     (reply_turns t = reply_turns s @ [ar_turn_id result] \<and> ar_turn_id result \<notin> set (reply_turns s) \<and>
      ar_status result = ResultSucceeded \<and> owns s (ar_command_id result) (ar_attempt_id result))"
proof (cases "rs_insert_reply_event store (reply_event i result) (ar_command_id result) (ar_attempt_id result) s")
  case (Pair q u)
  have turn: "ce_turn_id (reply_event i result) = Some (ar_turn_id result)" by (simp add: reply_event_def)
  show ?thesis
  proof (cases q)
    case (Inl e)
    with Pair have "reply_turns u = reply_turns s" using insert_refused by blast
    with assms Pair Inl show ?thesis
      by (auto simp: commit_result_def split: if_splits sum.splits prod.splits writer_error.splits app_error.splits
          dest: closing_keeps)
  next
    case (Inr p)
    with Pair turn have ins: "owns s (ar_command_id result) (ar_attempt_id result)"
        "ar_turn_id result \<notin> set (reply_turns s)" "reply_turns u = reply_turns s @ [ar_turn_id result]"
      using insert_ok by blast+
    with assms Pair Inr show ?thesis
      by (auto simp: commit_result_def split: if_splits sum.splits prod.splits dest: closing_keeps)
  qed
qed

lemma commit_result_distinct:
  "distinct (reply_turns s) \<Longrightarrow> distinct (reply_turns (snd (commit_result i result store s)))"
  using commit_result_cases [of i result s] by (cases "commit_result i result store s") fastforce

lemma run_writer_loop_distinct:
  "distinct (reply_turns s) \<Longrightarrow> distinct (reply_turns (run_writer_loop store results s))"
  by (induction results arbitrary: s) (auto simp: commit_result_distinct)

lemma commit_result_grows: "set (reply_turns s) \<subseteq> set (reply_turns (snd (commit_result i result store s)))"
  using commit_result_cases [of i result s] by (cases "commit_result i result store s") fastforce

lemma run_writer_loop_grows: "set (reply_turns s) \<subseteq> set (reply_turns (run_writer_loop store results s))"
proof (induction results arbitrary: s)
  case (Cons p results)
  obtain i result where "p = (i, result)" by (cases p)
  then show ?case
    using subset_trans [OF commit_result_grows Cons.IH, of s i result] by simp
qed simp

text \<open>A turn that has a reply never gets another one.\<close>

lemma committed_turn_not_again:
  assumes "ar_turn_id result \<in> set (reply_turns s)"
  shows "fst (commit_result i result store s) \<noteq> Inr (ReplyCommitted eid seq) \<and>
         reply_turns (snd (commit_result i result store s)) = reply_turns s"
  using commit_result_cases [of i result s] assms by (cases "commit_result i result store s") auto

text \<open>An attempt that does not own its command writes nothing.\<close>

lemma stale_result_skipped:
  assumes "ar_status result = ResultSucceeded" "\<not> owns s (ar_command_id result) (ar_attempt_id result)"
    and "rs_attempt_is_current store (ar_command_id result) (ar_attempt_id result) s = Inr b"
  shows "commit_result i result store s = (Inr SkippedStaleAttempt, s)"
  using assms attempt_current [OF assms(3)] by (simp add: commit_result_def)

end

section \<open>The in-memory store\<close>

record in_memory_result_store =
  committed_turns :: "string list"
  events :: "conversation_event list"
  committed_commands :: "string list"
  current_attempts :: "(string, string) hash_map"
  next_reply_seq :: int

definition in_memory_attempt_is_current :: "(string, string) hash_map \<Rightarrow> string \<Rightarrow> string \<Rightarrow> bool" where
  "in_memory_attempt_is_current attempts command_id attempt_id =
     (case hm_get attempts command_id of None \<Rightarrow> True | Some current \<Rightarrow> current = attempt_id)"

definition im_insert_reply_event ::
  "conversation_event \<Rightarrow> string \<Rightarrow> string \<Rightarrow> in_memory_result_store \<Rightarrow>
   (string \<times> int) writer_result \<times> in_memory_result_store" where
  "im_insert_reply_event ev command_id attempt_id s =
     (if \<not> in_memory_attempt_is_current (current_attempts s) command_id attempt_id
      then (Inl (WriterStaleAttempt command_id attempt_id), s)
      else case (case ce_turn_id ev of
                   None \<Rightarrow> Some s
                 | Some tid \<Rightarrow> if tid \<in> set (committed_turns s) then None
                              else Some (s\<lparr>committed_turns := committed_turns s @ [tid]\<rparr>)) of
        None \<Rightarrow> (Inl (WriterStore (Conflict (''duplicate turn_id: '' @ the (ce_turn_id ev)))), s)
      | Some s \<Rightarrow>
          (let seq = next_reply_seq s + 1
           in (Inr (ce_event_id ev, seq), s\<lparr>next_reply_seq := seq, events := events s @ [ev]\<rparr>)))"

definition im_mark_committed ::
  "string \<Rightarrow> string \<Rightarrow> in_memory_result_store \<Rightarrow> unit writer_result \<times> in_memory_result_store" where
  "im_mark_committed command_id attempt_id s =
     (if \<not> in_memory_attempt_is_current (current_attempts s) command_id attempt_id
      then (Inl (WriterStaleAttempt command_id attempt_id), s)
      else (Inr (), s\<lparr>committed_commands := committed_commands s @ [command_id]\<rparr>))"

definition im_result_store :: "in_memory_result_store result_store" where
  "im_result_store =
     \<lparr>rs_turn_already_committed = (\<lambda>turn s. Inr (turn \<in> set (committed_turns s))),
      rs_insert_reply_event = im_insert_reply_event,
      rs_attempt_is_current = (\<lambda>cid a s. Inr (in_memory_attempt_is_current (current_attempts s) cid a)),
      rs_mark_committed = im_mark_committed\<rparr>"

interpretation im_writer: result_log im_result_store committed_turns
  "\<lambda>s. in_memory_attempt_is_current (current_attempts s)"
  by unfold_locales
     (auto simp: im_result_store_def im_insert_reply_event_def im_mark_committed_def Let_def
        split: if_splits option.splits)

section \<open>The database store\<close>

record writer_db =
  wd_events :: event_db
  wd_sessions :: session_db

definition pg_turn_already_committed :: "string \<Rightarrow> writer_db \<Rightarrow> bool writer_result" where
  "pg_turn_already_committed turn s =
     Inr (list_ex (\<lambda>e. ev_turn_id e = Some turn) (conversation_events (wd_events s)))"

definition pg_insert_reply_event ::
  "env \<Rightarrow> conversation_event \<Rightarrow> string \<Rightarrow> string \<Rightarrow> writer_db \<Rightarrow> (string \<times> int) writer_result \<times> writer_db" where
  "pg_insert_reply_event E ev command_id attempt_id s =
     (let current_attempt =
            (case get_command command_id (wd_sessions s) of
               None \<Rightarrow> None
             | Some c \<Rightarrow> if owns_epoch (wd_sessions s) c then ac_current_attempt_id c else None)
      in if current_attempt \<noteq> Some attempt_id then (Inl (WriterStaleAttempt command_id attempt_id), s)
         else case insert_conversation_event E ev (wd_events s) of
           (Inl e, db) \<Rightarrow> (Inl (WriterStore e), s\<lparr>wd_events := db\<rparr>)
         | (Inr p, db) \<Rightarrow> (Inr p, s\<lparr>wd_events := db\<rparr>))"

definition pg_attempt_is_current :: "string \<Rightarrow> string \<Rightarrow> writer_db \<Rightarrow> bool writer_result" where
  "pg_attempt_is_current command_id attempt_id s =
     Inr (command_attempt_is_current command_id attempt_id (wd_sessions s))"

definition pg_mark_committed ::
  "env \<Rightarrow> string \<Rightarrow> string \<Rightarrow> writer_db \<Rightarrow> unit writer_result \<times> writer_db" where
  "pg_mark_committed E command_id attempt_id s =
     (case mark_command_committed_for_attempt E command_id attempt_id (wd_sessions s) of
        (Inr _, db) \<Rightarrow> (Inr (), s\<lparr>wd_sessions := db\<rparr>)
      | (Inl (StaleAttempt _ _), db) \<Rightarrow>
          (Inl (WriterStaleAttempt command_id attempt_id), s\<lparr>wd_sessions := db\<rparr>)
      | (Inl _, db) \<Rightarrow> (Inl (WriterInternal ''failed to mark command committed''), s\<lparr>wd_sessions := db\<rparr>))"

definition pg_result_store :: "env \<Rightarrow> writer_db result_store" where
  "pg_result_store E =
     \<lparr>rs_turn_already_committed = pg_turn_already_committed,
      rs_insert_reply_event = pg_insert_reply_event E,
      rs_attempt_is_current = pg_attempt_is_current,
      rs_mark_committed = pg_mark_committed E\<rparr>"

definition pg_reply_turns :: "writer_db \<Rightarrow> string list" where
  "pg_reply_turns s = List.map_filter ev_turn_id (conversation_events (wd_events s))"

definition pg_owns :: "writer_db \<Rightarrow> string \<Rightarrow> string \<Rightarrow> bool" where
  "pg_owns s cid a = command_attempt_is_current cid a (wd_sessions s)"

lemma pg_insert_reply_event_owner:
  "pg_insert_reply_event E ev cid a s = (r, t) \<Longrightarrow>
     (pg_owns s cid a \<and> (case insert_conversation_event E ev (wd_events s) of
         (Inl e, db) \<Rightarrow> r = Inl (WriterStore e) \<and> t = s\<lparr>wd_events := db\<rparr>
       | (Inr p, db) \<Rightarrow> r = Inr p \<and> t = s\<lparr>wd_events := db\<rparr>)) \<or>
     (\<not> pg_owns s cid a \<and> r = Inl (WriterStaleAttempt cid a) \<and> t = s)"
  by (auto simp: pg_insert_reply_event_def pg_owns_def command_attempt_is_current_def owns_attempt_def Let_def
      split: option.splits if_splits prod.splits sum.splits)

interpretation pg_writer: result_log "pg_result_store E" pg_reply_turns pg_owns
proof
  fix turn s b
  assume "rs_turn_already_committed (pg_result_store E) turn s = Inr b"
  then show "b = (turn \<in> set (pg_reply_turns s))"
    by (auto simp: pg_result_store_def pg_turn_already_committed_def pg_reply_turns_def set_map_filter list_ex_iff)
next
  fix cid a s b
  assume "rs_attempt_is_current (pg_result_store E) cid a s = Inr b"
  then show "b = pg_owns s cid a"
    by (simp add: pg_result_store_def pg_attempt_is_current_def pg_owns_def)
next
  fix ev :: conversation_event and cid a s p t turn
  assume run: "rs_insert_reply_event (pg_result_store E) ev cid a s = (Inr p, t)" and turn: "ce_turn_id ev = Some turn"
  obtain i seq where p: "p = (i, seq)" by (cases p)
  from run p pg_insert_reply_event_owner [of E ev cid a s "Inr p" t] obtain db where
    owner: "pg_owns s cid a" and ins: "insert_conversation_event E ev (wd_events s) = (Inr (i, seq), db)"
    and t: "t = s\<lparr>wd_events := db\<rparr>"
    by (auto simp: pg_result_store_def split: prod.splits sum.splits)
  from insert_conversation_event_Inr [OF ins] turn obtain e where
    "conversation_events db = conversation_events (wd_events s) @ [e]" "ev_turn_id e = Some turn"
    "event_conflict ev (wd_events s) = None" by auto
  moreover from this(3) turn have "turn \<notin> set (pg_reply_turns s)"
    by (auto simp: event_conflict_def Let_def pg_reply_turns_def set_map_filter list_ex_iff split: if_splits)
  ultimately show "pg_owns s cid a \<and> turn \<notin> set (pg_reply_turns s) \<and> pg_reply_turns t = pg_reply_turns s @ [turn]"
    using owner by (simp add: t pg_reply_turns_def map_filter_append List.map_filter_def)
next
  fix ev :: conversation_event and cid a s e t
  assume "rs_insert_reply_event (pg_result_store E) ev cid a s = (Inl e, t)"
  then show "pg_reply_turns t = pg_reply_turns s"
    using pg_insert_reply_event_owner [of E ev cid a s "Inl e" t] insert_conversation_event_Inl
    by (fastforce simp: pg_result_store_def pg_reply_turns_def split: prod.splits sum.splits)
next
  fix cid a s and r :: "unit writer_result" and t
  assume "rs_mark_committed (pg_result_store E) cid a s = (r, t)"
  then show "pg_reply_turns t = pg_reply_turns s"
    by (auto simp: pg_result_store_def pg_mark_committed_def pg_reply_turns_def
        split: prod.splits sum.splits session_error.splits)
qed

section \<open>What the writer guarantees\<close>


definition demo_result :: "string \<Rightarrow> agent_result" where
  "demo_result attempt = \<lparr>ar_turn_id = ''k-turn'', ar_attempt_id = attempt, ar_command_id = ''k'', ar_session_key = ''a:c'',
     ar_conversation_id = ''c'', ar_agent_id = ''a'', ar_status = ResultSucceeded, ar_content = Some ''done'',
     ar_content_type = None, ar_error = None, ar_tool_calls_count = 0, ar_execution_duration_ms = 5,
     ar_secondary_command_attempts = [], ar_command_results = [], ar_trace_id = None, ar_execution_metadata = None\<rparr>"

definition demo_writer_db :: writer_db where
  "demo_writer_db = \<lparr>wd_events = demo_log, wd_sessions = demo_released\<rparr>"


text \<open>
  A fenced executor cannot publish. After the lease monitor expired a command's lease, a
  result of the attempt that held it is skipped as stale and changes nothing, no reply, no command,
  whatever other transactions ran since the expiry.
\<close>

theorem expired_result_not_published:
  assumes "inj (env_uuid E)"
    and "get_command (ar_command_id result) db = Some c" "ac_current_attempt_id c = Some (ar_attempt_id result)"
    and "ar_attempt_id result = env_uuid E i" "i < ids_drawn db"
    and "handle_lease_expiry E x db = (Inr (), db1)" "el_command_id x = ar_command_id result"
    and "(session_step E)\<^sup>*\<^sup>* db1 (wd_sessions s)" "ar_status result = ResultSucceeded"
  shows "commit_result reply_id result (pg_result_store E) s = (Inr SkippedStaleAttempt, s)"
proof -
  obtain c2 where c2: "get_command (ar_command_id result) (wd_sessions s) = Some c2"
      "ac_current_attempt_id c2 \<noteq> Some (ar_attempt_id result)"
    using expired_attempt_gone [OF assms(1,4,5,6,8)] assms(7) by metis
  then have "\<not> pg_owns s (ar_command_id result) (ar_attempt_id result)"
    using c2(1) by (simp add: pg_owns_def command_attempt_is_current_def owns_attempt_def)
  then show ?thesis
    using assms(9) by (intro pg_writer.stale_result_skipped)
      (simp_all add: pg_result_store_def pg_attempt_is_current_def)
qed

theorem expired_result_not_published_witness:
  "commit_result ''r1'' (demo_result []) (pg_result_store demo_env) demo_writer_db =
     (Inr SkippedStaleAttempt, demo_writer_db)"
proof -
  let ?res = "demo_result []"
  have fresh: "inj (env_uuid demo_env)"
    by (auto simp: demo_env_def inj_def replicate_eq_replicate)
  have "map_option ac_current_attempt_id (get_command ''k'' demo_leased) = Some (Some [])" by code_simp
  then obtain c where c: "get_command ''k'' demo_leased = Some c" "ac_current_attempt_id c = Some []"
    by blast
  have "fst (handle_lease_expiry demo_env demo_expired_lease demo_leased) = Inr ()" by code_simp
  then have expiry: "handle_lease_expiry demo_env demo_expired_lease demo_leased = (Inr (), demo_expired)"
    by (simp add: demo_expired_def prod_eq_iff)
  have ids: "get_command (ar_command_id ?res) demo_leased = Some c" "ac_current_attempt_id c = Some (ar_attempt_id ?res)"
      "el_command_id demo_expired_lease = ar_command_id ?res" "ar_status ?res = ResultSucceeded"
    using c by (simp_all add: demo_result_def demo_expired_lease_def)
  have drawn: "ar_attempt_id ?res = env_uuid demo_env 0" "0 < ids_drawn demo_leased" by code_simp+
  have steps: "(session_step demo_env)\<^sup>*\<^sup>* demo_expired (wd_sessions demo_writer_db)"
    using demo_steps by (simp add: demo_writer_db_def)
  show ?thesis by (rule expired_result_not_published [OF fresh ids(1,2) drawn expiry ids(3) steps ids(4)])
qed

end
