(* ===== verification/Choruz_Auth.thy ===== *)
theory Choruz_Auth
  imports Choruz_Prelude
begin

text \<open>
  Secrets and session tokens, \<^verbatim>\<open>crates/choruz-auth/src/lib.rs\<close>. SHA-256 and HMAC-SHA256,
  base64 and the JSON codec of the claims are outside the repository: they are the fields of
  \<open>auth_env\<close>. A digest is given by its lower-case hexadecimal text, which is the only form the code
  uses. Constant-time comparison is equality.
\<close>

record session_claims =
  sc_principal_id :: string
  sc_workspace_id :: string
  sc_display_name :: string
  sc_expires_at_epoch_s :: int

record auth_env =
  ax_sha256_hex :: "string \<Rightarrow> string"
  ax_hmac :: "string \<Rightarrow> string \<Rightarrow> string"
  ax_base64_encode :: "string \<Rightarrow> string"
  ax_base64_decode :: "string \<Rightarrow> string option"
  ax_claims_to_vec :: "session_claims \<Rightarrow> string option"
  ax_claims_from_slice :: "string \<Rightarrow> session_claims option"

definition issue_secret :: "'e env_scheme \<Rightarrow> 'w world_scheme \<Rightarrow> string \<times> 'w world_scheme" where
  "issue_secret E s = (case new_id E s of (i, s') \<Rightarrow> (''agt_'' @ i, s'))"

definition hash_secret :: "auth_env \<Rightarrow> string \<Rightarrow> string" where
  "hash_secret A secret = ax_sha256_hex A secret"

definition verify_secret :: "auth_env \<Rightarrow> string \<Rightarrow> string \<Rightarrow> bool" where
  "verify_secret A secret expected_hash \<longleftrightarrow> hash_secret A secret = expected_hash"

definition local_user_principal_id :: "auth_env \<Rightarrow> string \<Rightarrow> string \<Rightarrow> string" where
  "local_user_principal_id A workspace_id display_name =
     ''local-user-'' @ ax_sha256_hex A (trim workspace_id @ '':'' @ to_lowercase (trim display_name))"

definition sign_bytes :: "auth_env \<Rightarrow> string \<Rightarrow> string \<Rightarrow> string" where
  "sign_bytes A payload signing_secret = ax_base64_encode A (ax_hmac A signing_secret payload)"

definition issue_session_token :: "auth_env \<Rightarrow> session_claims \<Rightarrow> string \<Rightarrow> string option" where
  "issue_session_token A claims signing_secret =
     (case ax_claims_to_vec A claims of
        None \<Rightarrow> None
      | Some payload \<Rightarrow>
          (let encoded_payload = ax_base64_encode A payload
           in Some (encoded_payload @ ''.'' @ sign_bytes A encoded_payload signing_secret)))"

text \<open>\<^verbatim>\<open>str::split_once\<close>: the parts before and after the first occurrence.\<close>

definition split_once :: "char \<Rightarrow> string \<Rightarrow> (string \<times> string) option" where
  "split_once c s =
     (case dropWhile (\<lambda>x. x \<noteq> c) s of
        [] \<Rightarrow> None
      | _ # rest \<Rightarrow> Some (takeWhile (\<lambda>x. x \<noteq> c) s, rest))"

definition verify_session_token :: "auth_env \<Rightarrow> string \<Rightarrow> string \<Rightarrow> int \<Rightarrow> session_claims option" where
  "verify_session_token A token signing_secret now_epoch_s =
     (case split_once (CHR ''.'') token of
        None \<Rightarrow> None
      | Some (encoded_payload, encoded_signature) \<Rightarrow>
          if sign_bytes A encoded_payload signing_secret \<noteq> encoded_signature then None
          else
            (case ax_base64_decode A encoded_payload of
               None \<Rightarrow> None
             | Some payload \<Rightarrow>
                 (case ax_claims_from_slice A payload of
                    None \<Rightarrow> None
                  | Some claims \<Rightarrow>
                      if sc_expires_at_epoch_s claims > now_epoch_s then Some claims else None)))"

section \<open>Tokens\<close>

lemma before_first:
  assumes "c \<notin> set a"
  shows "takeWhile (\<lambda>x. x \<noteq> c) (a @ c # b) = a" "dropWhile (\<lambda>x. x \<noteq> c) (a @ c # b) = c # b"
  using assms by (induction a) auto

lemma split_once_append: "c \<notin> set a \<Longrightarrow> split_once c (a @ c # b) = Some (a, b)"
  by (simp add: split_once_def before_first)

text \<open>
  C32: A session token that was issued under one signing secret and is checked under another is
  accepted exactly when both secrets sign its payload alike and the token has not expired, and then
  gives back the claims it was issued for. The hypotheses are the contracts of the base64 alphabet
  (no dot, decoding inverts encoding) and of the JSON codec on these claims.
\<close>

theorem session_token_roundtrip:
  assumes "\<forall>b. ax_base64_decode A (ax_base64_encode A b) = Some b"
    and "\<forall>b. CHR ''.'' \<notin> set (ax_base64_encode A b)"
    and "\<forall>b. ax_claims_to_vec A claims = Some b \<longrightarrow> ax_claims_from_slice A b = Some claims"
    and "issue_session_token A claims secret = Some token"
  shows "verify_session_token A token other now_epoch_s =
    (if sign_bytes A (takeWhile (\<lambda>c. c \<noteq> CHR ''.'') token) other = sign_bytes A (takeWhile (\<lambda>c. c \<noteq> CHR ''.'') token) secret \<and>
        now_epoch_s < sc_expires_at_epoch_s claims
     then Some claims else None)"
proof -
  from assms(4) obtain payload where payload: "ax_claims_to_vec A claims = Some payload"
    and token: "token = ax_base64_encode A payload @ CHR ''.'' # sign_bytes A (ax_base64_encode A payload) secret"
    by (auto simp: issue_session_token_def Let_def split: option.splits)
  have "split_once CHR ''.'' token =
      Some (ax_base64_encode A payload, sign_bytes A (ax_base64_encode A payload) secret)"
    using assms(2) by (simp add: token split_once_append)
  moreover have "takeWhile (\<lambda>c. c \<noteq> CHR ''.'') token = ax_base64_encode A payload"
    using assms(2) by (simp add: token before_first)
  ultimately show ?thesis
    using assms(1,3) payload by (simp add: verify_session_token_def)
qed

fun demo_escape :: "string \<Rightarrow> string" where
  "demo_escape [] = []"
| "demo_escape (c # s) =
     (if c = CHR ''.'' then ''-d'' else if c = CHR ''-'' then ''-m'' else [c]) @ demo_escape s"

fun demo_unescape :: "string \<Rightarrow> string option" where
  "demo_unescape [] = Some []"
| "demo_unescape (c # s) =
     (if c \<noteq> CHR ''-'' then map_option (Cons c) (demo_unescape s)
      else (case s of [] \<Rightarrow> None
        | d # s' \<Rightarrow> map_option (Cons (if d = CHR ''d'' then CHR ''.'' else CHR ''-'')) (demo_unescape s')))"

definition demo_claims :: session_claims where
  "demo_claims = \<lparr>sc_principal_id = ''ann.b'', sc_workspace_id = ''w'', sc_display_name = ''Ann'', sc_expires_at_epoch_s = 100\<rparr>"

definition demo_token_env :: auth_env where
  "demo_token_env = \<lparr>ax_sha256_hex = (\<lambda>s. s), ax_hmac = (\<lambda>k s. k @ s), ax_base64_encode = demo_escape,
     ax_base64_decode = demo_unescape, ax_claims_to_vec = (\<lambda>c. Some (sc_principal_id c)),
     ax_claims_from_slice = (\<lambda>s. Some (demo_claims\<lparr>sc_principal_id := s\<rparr>))\<rparr>"

lemma demo_unescape_escape: "demo_unescape (demo_escape s) = Some s"
  by (induction s) auto

lemma demo_escape_no_dot: "CHR ''.'' \<notin> set (demo_escape s)"
  by (induction s) auto

theorem session_token_roundtrip_witness:
  "verify_session_token demo_token_env ''ann-db.kann-mdb'' ''k'' 99 = Some demo_claims \<and>
   verify_session_token demo_token_env ''ann-db.kann-mdb'' ''k'' 100 = None \<and>
   verify_session_token demo_token_env ''ann-db.kann-mdb'' ''x'' 99 = None"
proof -
  have codec: "\<forall>b. ax_base64_decode demo_token_env (ax_base64_encode demo_token_env b) = Some b"
    "\<forall>b. CHR ''.'' \<notin> set (ax_base64_encode demo_token_env b)"
    "\<forall>b. ax_claims_to_vec demo_token_env demo_claims = Some b \<longrightarrow>
       ax_claims_from_slice demo_token_env b = Some demo_claims"
    "issue_session_token demo_token_env demo_claims ''k'' = Some ''ann-db.kann-mdb''"
    by (simp_all add: demo_token_env_def demo_unescape_escape demo_escape_no_dot demo_claims_def
        issue_session_token_def sign_bytes_def Let_def)
  note verify = session_token_roundtrip [OF codec]
  have "sign_bytes demo_token_env ''ann-db'' ''k'' = ''kann-mdb''" "sign_bytes demo_token_env ''ann-db'' ''x'' = ''xann-mdb''"
    by (simp_all add: sign_bytes_def demo_token_env_def)
  then show ?thesis by (simp add: verify) (simp add: demo_claims_def)
qed

end
