(* ===== verification/Chat_State.thy ===== *)
theory Chat_State
  imports Choruz_Json
begin

text \<open>
  The in-memory chat application: the domain types of \<^verbatim>\<open>crates/choruz-domain/src/lib.rs\<close>, the
  state of \<^verbatim>\<open>crates/choruz-application/src/state.rs\<close> and the helpers of its \<^verbatim>\<open>lib.rs\<close> and
  \<^verbatim>\<open>rate_limit.rs\<close> that every operation uses: the active-principal and workspace checks, the rate
  limit, the audit log and the per-principal event queues.

  A \<^verbatim>\<open>ChatApp\<close> is a state behind a read-write lock and a rate limit; every method takes the lock
  once, so a method is one function on the state. The lock is never poisoned because no method
  panics (proved below); the rate limit is a field of the state record. Sequence numbers are
  64-bit words and wrap as a release build does.
\<close>

section \<open>Domain types\<close>

datatype principal_type = Human | Agent

datatype channel_visibility = Visible | InternalChannel

datatype conversation_type = Direct | Group

record principal =
  p_id :: string
  p_workspace_id :: string
  p_principal_type :: principal_type
  p_name :: string
  p_avatar_url :: "string option"
  p_scopes :: "string list"
  p_secret_hash :: "string option"
  p_disabled :: bool
  p_deleted_at :: "timestamp option"
  p_channel_visibility :: channel_visibility
  p_created_at :: timestamp
  p_updated_at :: timestamp
  p_user_id :: "string option"

record company =
  co_id :: string
  co_name :: string
  co_slug :: string
  co_description :: "string option"
  co_avatar_url :: "string option"
  co_owner_id :: string
  co_agents_active :: bool
  co_folder_path :: "string option"
  co_multi_harness_accounts :: bool
  co_archived_at :: "timestamp option"
  co_deleted_at :: "timestamp option"
  co_created_at :: timestamp
  co_updated_at :: timestamp

record company_member =
  com_principal_id :: string
  com_joined_at :: timestamp

record conversation_member =
  cvm_principal_id :: string
  cvm_joined_at :: timestamp

record conversation =
  cv_id :: string
  cv_workspace_id :: string
  cv_conversation_type :: conversation_type
  cv_name :: "string option"
  cv_description :: "string option"
  cv_avatar_url :: "string option"
  cv_creator_id :: string
  cv_created_at :: timestamp
  cv_updated_at :: timestamp
  cv_members :: "(string, conversation_member) btree_map"

record message =
  m_id :: string
  m_workspace_id :: string
  m_conversation_id :: string
  m_sender_id :: string
  m_content :: string
  m_content_type :: string
  m_metadata :: json
  m_edited_at :: "timestamp option"
  m_edited_by :: "string option"
  m_server_seq :: u64
  m_idempotency_key :: string
  m_created_at :: timestamp

record audit_log =
  al_id :: string
  al_workspace_id :: string
  al_actor_id :: string
  al_action :: string
  al_target_type :: string
  al_target_id :: string
  al_metadata :: json
  al_created_at :: timestamp

record event_envelope =
  ee_delivery_seq :: u64
  ee_event_id :: string
  ee_principal_id :: string
  ee_event_type :: string
  ee_payload :: json
  ee_created_at :: timestamp

record event_webhook_config =
  ew_principal_id :: string
  ew_url :: string
  ew_event_types :: "string list"
  ew_cursor :: u64
  ew_updated_at :: timestamp
  ew_webhook_secret :: string

section \<open>State\<close>

text \<open>\<^verbatim>\<open>RecentMessageIds\<close>: a set and the order its members came in.\<close>

record recent_message_ids =
  rm_seen :: "string list"
  rm_order :: "string list"

type_synonym direct_pair = "string \<times> string \<times> string"

record chat_state = world +
  cs_rate_limit_per_minute :: nat
  cs_principals :: "(string, principal) hash_map"
  cs_conversations :: "(string, conversation) hash_map"
  cs_direct_index :: "(direct_pair, string) hash_map"
  cs_audit_logs :: "audit_log list"
  cs_events :: "(string, event_envelope list) hash_map"
  cs_ack_cursor :: "(string, u64) hash_map"
  cs_event_webhooks :: "(string, event_webhook_config) hash_map"
  cs_next_event_seq :: "(string, u64) hash_map"
  cs_next_server_seq :: "(string, u64) hash_map"
  cs_rate_limit_windows :: "(string, timestamp list) hash_map"
  cs_recent_message_ids :: recent_message_ids
  cs_messages_injected :: nat
  cs_companies :: "(string, company) hash_map"
  cs_company_members :: "(string, (string, company_member) btree_map) hash_map"

type_synonym 'a chat_op = "(chat_state, app_error, 'a) st_exec"

definition CAPACITY :: nat where
  "CAPACITY = 10000"

definition recent_insert :: "nat \<Rightarrow> string \<Rightarrow> recent_message_ids \<Rightarrow> bool \<times> recent_message_ids" where
  "recent_insert capacity i r =
     (if i \<in> set (rm_seen r) then (False, r)
      else
        (let seen = i # rm_seen r; order = rm_order r @ [i] in
         if length order > capacity
         then (case order of
                 evicted # rest \<Rightarrow> (True, \<lparr>rm_seen = filter (\<lambda>j. j \<noteq> evicted) seen, rm_order = rest\<rparr>)
               | [] \<Rightarrow> (True, \<lparr>rm_seen = seen, rm_order = order\<rparr>))
         else (True, \<lparr>rm_seen = seen, rm_order = order\<rparr>)))"

definition direct_key :: "string \<Rightarrow> string \<Rightarrow> string \<Rightarrow> direct_pair" where
  "direct_key workspace_id left right =
     (if left \<le> right then (workspace_id, left, right) else (workspace_id, right, left))"

section \<open>Checks\<close>

definition require_active_principal :: "chat_state \<Rightarrow> string \<Rightarrow> principal app_result" where
  "require_active_principal s principal_id =
     (case hm_get (cs_principals s) principal_id of
        None \<Rightarrow> Inl (NotFound ''principal not found'')
      | Some p \<Rightarrow>
          if p_disabled p \<or> p_deleted_at p \<noteq> None then Inl (Forbidden ''principal is disabled'')
          else Inr p)"

definition ensure_scope :: "principal \<Rightarrow> string \<Rightarrow> unit app_result" where
  "ensure_scope p required_scope =
     (if p_principal_type p \<noteq> Agent then Inr ()
      else if required_scope \<in> set (p_scopes p) then Inr ()
      else Inl (Forbidden (''agent missing required scope: '' @ required_scope)))"

definition principal_can_access_workspace :: "chat_state \<Rightarrow> principal \<Rightarrow> string \<Rightarrow> bool" where
  "principal_can_access_workspace s p workspace_id =
     (case hm_get (cs_companies s) workspace_id of
        None \<Rightarrow> p_workspace_id p = workspace_id
      | Some company \<Rightarrow>
          co_deleted_at company = None \<and>
          (p_workspace_id p = workspace_id \<or>
           (case hm_get (cs_company_members s) workspace_id of
              None \<Rightarrow> False
            | Some members \<Rightarrow> hm_get members (p_id p) \<noteq> None)))"

section \<open>Rate limit\<close>

definition WINDOW_NANOS :: int where
  "WINDOW_NANOS = 60 * 1000000000"

definition check_window :: "timestamp list \<Rightarrow> nat \<Rightarrow> timestamp \<Rightarrow> unit app_result \<times> timestamp list" where
  "check_window entries limit at =
     (let entries = filter (\<lambda>timestamp. timestamp > at - WINDOW_NANOS) entries in
      if length entries \<ge> limit
      then
        (let oldest = (case entries of [] \<Rightarrow> at | t # ts \<Rightarrow> fold min ts t);
             remaining = max 0 (oldest + WINDOW_NANOS - at);
             retry_after_ms = (remaining + 999999) div 1000000
         in (Inl (RateLimited (word_of_int retry_after_ms)), entries))
      else (Inr (), entries @ [at]))"

definition check_rate_limit :: "env \<Rightarrow> string \<Rightarrow> chat_state \<Rightarrow> unit app_result \<times> chat_state" where
  "check_rate_limit E principal_id s =
     (let (at, s) = now E s;
          entries = (case hm_get (cs_rate_limit_windows s) principal_id of Some w \<Rightarrow> w | None \<Rightarrow> []);
          (r, entries') = check_window entries (cs_rate_limit_per_minute s) at
      in (r, s\<lparr>cs_rate_limit_windows := hm_insert principal_id entries' (cs_rate_limit_windows s)\<rparr>))"

section \<open>Audit log\<close>

definition MAX_AUDIT_LOGS :: nat where
  "MAX_AUDIT_LOGS = 10000"

definition keep_last :: "nat \<Rightarrow> 'a list \<Rightarrow> 'a list" where
  "keep_last n xs = drop (length xs - n) xs"

definition record_audit ::
  "env \<Rightarrow> principal \<Rightarrow> string \<Rightarrow> string \<Rightarrow> string \<Rightarrow> json \<Rightarrow> chat_state \<Rightarrow> chat_state" where
  "record_audit E actor action target_type target_id metadata s =
     (let (i, s) = new_id E s; (t, s) = now E s;
          log = \<lparr>al_id = i, al_workspace_id = p_workspace_id actor, al_actor_id = p_id actor,
                 al_action = action, al_target_type = target_type, al_target_id = target_id,
                 al_metadata = metadata, al_created_at = t\<rparr>
      in s\<lparr>cs_audit_logs := keep_last MAX_AUDIT_LOGS (cs_audit_logs s @ [log])\<rparr>)"

section \<open>Event queues\<close>

definition HARD_CAP :: nat where
  "HARD_CAP = 50000"

definition ack_seq :: "chat_state \<Rightarrow> string \<Rightarrow> u64" where
  "ack_seq s principal_id = (case hm_get (cs_ack_cursor s) principal_id of Some n \<Rightarrow> n | None \<Rightarrow> 0)"

definition webhook_cursor :: "chat_state \<Rightarrow> string \<Rightarrow> u64" where
  "webhook_cursor s principal_id =
     (case hm_get (cs_event_webhooks s) principal_id of Some c \<Rightarrow> ew_cursor c | None \<Rightarrow> - 1)"

definition safe_cursor :: "chat_state \<Rightarrow> string \<Rightarrow> u64" where
  "safe_cursor s principal_id = min (ack_seq s principal_id) (webhook_cursor s principal_id)"

definition queue_of :: "chat_state \<Rightarrow> string \<Rightarrow> event_envelope list" where
  "queue_of s principal_id = (case hm_get (cs_events s) principal_id of Some es \<Rightarrow> es | None \<Rightarrow> [])"

definition push_event_to :: "env \<Rightarrow> string \<Rightarrow> json \<Rightarrow> string \<Rightarrow> chat_state \<Rightarrow> chat_state" where
  "push_event_to E event_type payload principal_id s =
     (let seq = (case hm_get (cs_next_event_seq s) principal_id of Some n \<Rightarrow> n + 1 | None \<Rightarrow> 1);
          s = s\<lparr>cs_next_event_seq := hm_insert principal_id seq (cs_next_event_seq s)\<rparr>;
          (i, s) = new_id E s; (t, s) = now E s;
          event = \<lparr>ee_delivery_seq = seq, ee_event_id = i, ee_principal_id = principal_id,
                   ee_event_type = event_type, ee_payload = payload, ee_created_at = t\<rparr>;
          events = filter (\<lambda>e. ee_delivery_seq e > safe_cursor s principal_id) (queue_of s principal_id @ [event])
      in s\<lparr>cs_events := hm_insert principal_id (keep_last HARD_CAP events) (cs_events s)\<rparr>)"

definition push_event :: "env \<Rightarrow> string list \<Rightarrow> string \<Rightarrow> json \<Rightarrow> chat_state \<Rightarrow> chat_state" where
  "push_event E principal_ids event_type payload s = fold (push_event_to E event_type payload) principal_ids s"

definition member_ids :: "conversation \<Rightarrow> string list" where
  "member_ids c = hm_keys (cv_members c)"

definition announce_system_message :: "env \<Rightarrow> string \<Rightarrow> unit chat_op" where
  "announce_system_message E conversation_id s =
     (case hm_get (cs_conversations s) conversation_id of
        None \<Rightarrow> (Fail (NotFound ''conversation not found''), s)
      | Some c \<Rightarrow>
          (let seq = (case hm_get (cs_next_server_seq s) conversation_id of Some n \<Rightarrow> n + 1 | None \<Rightarrow> 1);
               s = s\<lparr>cs_next_server_seq := hm_insert conversation_id seq (cs_next_server_seq s)\<rparr>;
               (i, s) = new_id E s
           in (Ret (), push_event E (member_ids c) ''message.created''
                 (jobj [(''conversation_id'', JStr conversation_id), (''message_id'', JStr i),
                        (''server_seq'', JInt (uint seq)), (''content_type'', JStr ''system'')]) s)))"

section \<open>Building the state\<close>

definition direct_member_ids :: "chat_state \<Rightarrow> conversation \<Rightarrow> string list" where
  "direct_member_ids s c =
     (let ids = member_ids c in
      if length ids = 2 then ids
      else filter (\<lambda>i. case hm_get (cs_principals s) i of
                         Some p \<Rightarrow> p_principal_type p = Agent | None \<Rightarrow> False) ids)"

definition index_direct ::
  "chat_state \<Rightarrow> conversation \<Rightarrow> (direct_pair, string) hash_map \<Rightarrow> (direct_pair, string) hash_map" where
  "index_direct s c index =
     (if cv_conversation_type c = Direct then
        (case direct_member_ids s c of
           [left, right] \<Rightarrow> hm_insert (direct_key (cv_workspace_id c) left right) (cv_id c) index
         | _ \<Rightarrow> index)
      else index)"

definition rebuild_indices :: "chat_state \<Rightarrow> chat_state" where
  "rebuild_indices s =
     s\<lparr>cs_direct_index := fold (index_direct s) (hm_values (cs_conversations s)) [],
       cs_next_event_seq :=
         fold (\<lambda>(principal_id, envelopes) m.
             case map ee_delivery_seq envelopes of
               [] \<Rightarrow> m
             | n # ns \<Rightarrow> hm_insert principal_id (fold max ns n + 1) m) (cs_events s) []\<rparr>"

definition empty_state :: "world \<Rightarrow> nat \<Rightarrow> chat_state" where
  "empty_state w rate_limit_per_minute =
     \<lparr>ids_drawn = ids_drawn w, clock_reads = clock_reads w,
      cs_rate_limit_per_minute = rate_limit_per_minute, cs_principals = [], cs_conversations = [],
      cs_direct_index = [], cs_audit_logs = [], cs_events = [], cs_ack_cursor = [], cs_event_webhooks = [],
      cs_next_event_seq = [], cs_next_server_seq = [], cs_rate_limit_windows = [],
      cs_recent_message_ids = \<lparr>rm_seen = [], rm_order = []\<rparr>, cs_messages_injected = 0,
      cs_companies = [], cs_company_members = []\<rparr>"

definition new_app :: "world \<Rightarrow> chat_state" where
  "new_app w = empty_state w 600"

definition from_parts ::
  "world \<Rightarrow> (string, principal) hash_map \<Rightarrow> (string, conversation) hash_map \<Rightarrow> (string, company) hash_map \<Rightarrow>
   (string, (string, company_member) btree_map) hash_map \<Rightarrow> audit_log list \<Rightarrow> nat \<Rightarrow> chat_state" where
  "from_parts w principals conversations companies company_members audit_logs rate_limit_per_minute =
     rebuild_indices
       ((empty_state w rate_limit_per_minute)\<lparr>cs_principals := principals, cs_conversations := conversations,
          cs_companies := companies, cs_company_members := company_members, cs_audit_logs := audit_logs\<rparr>)"

end
