(* ===== verification/Chat_Principals.thy ===== *)
theory Chat_Principals
  imports Chat_State Choruz_Auth
begin

text \<open>
  Principals and companies of the chat application: \<^verbatim>\<open>principals.rs\<close> and
  \<^verbatim>\<open>companies.rs\<close> of \<^verbatim>\<open>crates/choruz-application/src\<close>.
\<close>

section \<open>Principals\<close>

record create_principal_request =
  cp_workspace_id :: string
  cp_principal_type :: principal_type
  cp_name :: string
  cp_avatar_url :: "string option"

record create_agent_request =
  ca_actor_id :: string
  ca_name :: string
  ca_scopes :: "string list"
  ca_workspace_id :: "string option"
  ca_channel_visibility :: "channel_visibility option"

record agent_secret_response =
  as_principal :: principal
  as_secret :: string

definition insert_principal :: "principal \<Rightarrow> chat_state \<Rightarrow> chat_state" where
  "insert_principal p s = s\<lparr>cs_principals := hm_insert (p_id p) p (cs_principals s)\<rparr>"

text \<open>\<^verbatim>\<open>request.workspace_id.filter(|w| !w.trim().is_empty()).unwrap_or(default)\<close>\<close>

definition workspace_or :: "string option \<Rightarrow> string \<Rightarrow> string" where
  "workspace_or requested default_ws =
     (case requested of None \<Rightarrow> default_ws | Some w \<Rightarrow> if trim w = [] then default_ws else w)"

definition ensure_local_operator :: "auth_env \<Rightarrow> env \<Rightarrow> string \<Rightarrow> string \<Rightarrow> principal chat_op" where
  "ensure_local_operator A E workspace_id display_name =
     st_bind (st_guard (\<lambda>_. trim workspace_id \<noteq> []) (Validation ''workspace_id is required'')) (\<lambda>_.
     st_bind (st_guard (\<lambda>_. trim display_name \<noteq> []) (Validation ''display_name is required'')) (\<lambda>_.
     st_bind (st_get (\<lambda>s. hm_get (cs_principals s) (local_user_principal_id A workspace_id display_name))) (\<lambda>existing.
       case existing of
         Some p \<Rightarrow> st_ret p
       | None \<Rightarrow>
           st_bind (st_draw (now E)) (\<lambda>t.
             let p = \<lparr>p_id = local_user_principal_id A workspace_id display_name,
                      p_workspace_id = trim workspace_id, p_principal_type = Human, p_name = trim display_name,
                      p_avatar_url = None,
                      p_scopes = [''messages:read'', ''messages:write'', ''events:read'', ''groups:manage'',
                                  ''agents:manage''],
                      p_secret_hash = None, p_disabled = False, p_deleted_at = None,
                      p_channel_visibility = Visible, p_created_at = t, p_updated_at = t, p_user_id = None\<rparr>
             in st_bind (st_upd (insert_principal p)) (\<lambda>_. st_ret p)))))"

definition create_principal :: "env \<Rightarrow> create_principal_request \<Rightarrow> principal chat_op" where
  "create_principal E request =
     st_bind (st_guard (\<lambda>_. trim (cp_workspace_id request) \<noteq> []) (Validation ''workspace_id is required'')) (\<lambda>_.
     st_bind (st_guard (\<lambda>_. trim (cp_name request) \<noteq> []) (Validation ''name is required'')) (\<lambda>_.
     st_bind (st_guard (\<lambda>_. cp_principal_type request \<noteq> Agent)
                (Validation ''use the agent lifecycle API to create agents'')) (\<lambda>_.
     st_bind (st_draw (now E)) (\<lambda>t.
     st_bind (st_draw (new_id E)) (\<lambda>i.
       let p = \<lparr>p_id = i, p_workspace_id = cp_workspace_id request, p_principal_type = cp_principal_type request,
                p_name = cp_name request, p_avatar_url = cp_avatar_url request, p_scopes = [],
                p_secret_hash = None, p_disabled = False, p_deleted_at = None, p_channel_visibility = Visible,
                p_created_at = t, p_updated_at = t, p_user_id = None\<rparr>
       in st_bind (st_upd (insert_principal p)) (\<lambda>_. st_ret p))))))"

definition get_principal :: "string \<Rightarrow> chat_state \<Rightarrow> principal app_result" where
  "get_principal principal_id s = require_active_principal s principal_id"

definition inject_principal :: "principal \<Rightarrow> chat_state \<Rightarrow> chat_state" where
  "inject_principal p s = insert_principal p s"

definition set_principal_secret_hash :: "string \<Rightarrow> string \<Rightarrow> chat_state \<Rightarrow> chat_state" where
  "set_principal_secret_hash principal_id hash s =
     (case hm_get (cs_principals s) principal_id of
        None \<Rightarrow> s
      | Some p \<Rightarrow>
          s\<lparr>cs_principals := hm_insert principal_id (p\<lparr>p_secret_hash := Some hash\<rparr>) (cs_principals s)\<rparr>)"

definition has_principal :: "string \<Rightarrow> chat_state \<Rightarrow> bool" where
  "has_principal principal_id s \<longleftrightarrow> hm_get (cs_principals s) principal_id \<noteq> None"

definition principal_count :: "chat_state \<Rightarrow> nat" where
  "principal_count s = length (cs_principals s)"

definition create_agent :: "auth_env \<Rightarrow> env \<Rightarrow> create_agent_request \<Rightarrow> agent_secret_response chat_op" where
  "create_agent A E request =
     st_bind (st_call (check_rate_limit E (ca_actor_id request))) (\<lambda>_.
     st_bind (st_ask (\<lambda>s. require_active_principal s (ca_actor_id request))) (\<lambda>actor.
     st_bind (st_guard (\<lambda>_. trim (ca_name request) \<noteq> []) (Validation ''name is required'')) (\<lambda>_.
       let ws_id = workspace_or (ca_workspace_id request) (p_workspace_id actor) in
     st_bind (st_guard (\<lambda>s. p_principal_type actor = Human \<and> principal_can_access_workspace s actor ws_id)
                (Forbidden ''not authorized to create agents in this workspace'')) (\<lambda>_.
     st_bind (st_draw (issue_secret E)) (\<lambda>secret.
     st_bind (st_draw (now E)) (\<lambda>t.
     st_bind (st_draw (new_id E)) (\<lambda>i.
       let p = \<lparr>p_id = i, p_workspace_id = ws_id, p_principal_type = Agent, p_name = ca_name request,
                p_avatar_url = None, p_scopes = ca_scopes request, p_secret_hash = Some (hash_secret A secret),
                p_disabled = False, p_deleted_at = None,
                p_channel_visibility = (case ca_channel_visibility request of Some v \<Rightarrow> v | None \<Rightarrow> Visible),
                p_created_at = t, p_updated_at = t, p_user_id = None\<rparr>
       in
     st_bind (st_upd (insert_principal p)) (\<lambda>_.
     st_bind (st_upd (record_audit E actor ''agent.created'' ''principal'' (p_id p)
                (jobj [(''scopes'', JArr (map JStr (p_scopes p)))]))) (\<lambda>_.
     st_bind (st_upd (push_event E [p_id actor] ''agent.created'' (jobj [(''agent_id'', JStr (p_id p))]))) (\<lambda>_.
       st_ret \<lparr>as_principal = p, as_secret = secret\<rparr>))))))))))"

definition rotate_agent_secret ::
  "auth_env \<Rightarrow> env \<Rightarrow> string \<Rightarrow> string \<Rightarrow> agent_secret_response chat_op" where
  "rotate_agent_secret A E agent_id actor_id =
     st_bind (st_call (check_rate_limit E actor_id)) (\<lambda>_.
     st_bind (st_ask (\<lambda>s. require_active_principal s actor_id)) (\<lambda>actor.
     st_bind (st_guard (\<lambda>_. p_principal_type actor = Human) (Forbidden ''only humans can rotate agent secrets'')) (\<lambda>_.
     st_bind (st_ask (\<lambda>s. case hm_get (cs_principals s) agent_id of
                             None \<Rightarrow> Inl (NotFound ''agent not found'') | Some p \<Rightarrow> Inr p)) (\<lambda>agent.
     st_bind (st_guard (\<lambda>s. principal_can_access_workspace s actor (p_workspace_id agent))
                (Forbidden ''cross-workspace access denied'')) (\<lambda>_.
     st_bind (st_guard (\<lambda>_. p_principal_type agent = Agent) (Validation ''target is not an agent'')) (\<lambda>_.
     st_bind (st_draw (issue_secret E)) (\<lambda>secret.
     st_bind (st_draw (now E)) (\<lambda>t.
       let agent = agent\<lparr>p_secret_hash := Some (hash_secret A secret), p_updated_at := t\<rparr> in
     st_bind (st_upd (\<lambda>s. s\<lparr>cs_principals := hm_insert agent_id agent (cs_principals s)\<rparr>)) (\<lambda>_.
     st_bind (st_upd (record_audit E actor ''agent.secret_rotated'' ''principal'' agent_id (jobj []))) (\<lambda>_.
     st_bind (st_upd (push_event E [p_id actor, agent_id] ''agent.secret_rotated''
                (jobj [(''agent_id'', JStr agent_id)]))) (\<lambda>_.
       st_ret \<lparr>as_principal = agent, as_secret = secret\<rparr>)))))))))))"

definition disable_principal_inner :: "env \<Rightarrow> string \<Rightarrow> string \<Rightarrow> bool \<Rightarrow> principal chat_op" where
  "disable_principal_inner E actor_id target_id check_rate =
     st_bind (if check_rate then st_call (check_rate_limit E actor_id) else st_ret ()) (\<lambda>_.
     st_bind (st_ask (\<lambda>s. require_active_principal s actor_id)) (\<lambda>actor.
     st_bind (st_guard (\<lambda>_. p_principal_type actor = Human) (Forbidden ''only humans can disable principals'')) (\<lambda>_.
     st_bind (st_ask (\<lambda>s. case hm_get (cs_principals s) target_id of
                             None \<Rightarrow> Inl (NotFound ''principal not found'') | Some p \<Rightarrow> Inr p)) (\<lambda>target.
     st_bind (st_guard (\<lambda>s. principal_can_access_workspace s actor (p_workspace_id target))
                (Forbidden ''cross-workspace access denied'')) (\<lambda>_.
     st_bind (st_draw (now E)) (\<lambda>t.
       let target = target\<lparr>p_disabled := True, p_updated_at := t\<rparr> in
     st_bind (st_upd (\<lambda>s. s\<lparr>cs_principals := hm_insert target_id target (cs_principals s)\<rparr>)) (\<lambda>_.
     st_bind (st_upd (record_audit E actor ''principal.disabled'' ''principal'' target_id (jobj []))) (\<lambda>_.
       st_ret target))))))))"

definition disable_principal :: "env \<Rightarrow> string \<Rightarrow> string \<Rightarrow> principal chat_op" where
  "disable_principal E actor_id target_id = disable_principal_inner E actor_id target_id True"

definition disable_principal_batch :: "env \<Rightarrow> string \<Rightarrow> string \<Rightarrow> principal chat_op" where
  "disable_principal_batch E actor_id target_id = disable_principal_inner E actor_id target_id False"

definition migrate_principal_workspace :: "env \<Rightarrow> string \<Rightarrow> string \<Rightarrow> string \<Rightarrow> principal chat_op" where
  "migrate_principal_workspace E principal_id new_workspace_id actor_id =
     st_bind (st_ask (\<lambda>s. require_active_principal s actor_id)) (\<lambda>actor.
     st_bind (st_guard (\<lambda>_. p_principal_type actor = Human) (Forbidden ''only humans can migrate workspaces'')) (\<lambda>_.
     st_bind (st_guard (\<lambda>_. trim new_workspace_id \<noteq> []) (Validation ''workspace_id is required'')) (\<lambda>_.
     st_bind (st_ask (\<lambda>s. case hm_get (cs_principals s) principal_id of
                             None \<Rightarrow> Inl (NotFound ''principal not found'') | Some p \<Rightarrow> Inr p)) (\<lambda>p.
     st_bind (st_guard (\<lambda>s. principal_can_access_workspace s actor (p_workspace_id p) \<and>
                           principal_can_access_workspace s actor new_workspace_id)
                (Forbidden ''cross-workspace access denied'')) (\<lambda>_.
       let moved = p\<lparr>p_workspace_id := new_workspace_id\<rparr> in
     st_bind (st_upd (\<lambda>s. s\<lparr>cs_principals := hm_insert principal_id moved (cs_principals s)\<rparr>)) (\<lambda>_.
     st_bind (st_upd (record_audit E actor ''principal.workspace_migrated'' ''principal'' principal_id
                (jobj [(''old_workspace_id'', JStr (p_workspace_id p)),
                       (''new_workspace_id'', JStr new_workspace_id)]))) (\<lambda>_.
       st_ret moved)))))))"

section \<open>Companies\<close>

definition list_all_companies_internal :: "chat_state \<Rightarrow> (company \<times> company_member list) list" where
  "list_all_companies_internal s =
     map (\<lambda>c. (c, case hm_get (cs_company_members s) (co_id c) of Some m \<Rightarrow> hm_values m | None \<Rightarrow> []))
       (hm_values (cs_companies s))"

definition inject_company :: "company \<Rightarrow> company_member list \<Rightarrow> chat_state \<Rightarrow> chat_state" where
  "inject_company company members s =
     (let i = co_id company;
          entry = (case hm_get (cs_company_members s) i of Some m \<Rightarrow> m | None \<Rightarrow> [])
      in s\<lparr>cs_companies := or_insert map_of AList.update i company (cs_companies s),
           cs_company_members := hm_insert i
             (fold (\<lambda>(k, v). or_insert map_of bt_insert k v) (map (\<lambda>m. (com_principal_id m, m)) members) entry)
             (cs_company_members s)\<rparr>)"

definition list_companies :: "string \<Rightarrow> chat_state \<Rightarrow> company list" where
  "list_companies principal_id s =
     (let alive = (\<lambda>company_id. case hm_get (cs_companies s) company_id of
                      Some c \<Rightarrow> if co_deleted_at c = None then Some c else None | None \<Rightarrow> None);
          member_of = List.map_filter (\<lambda>(company_id, members).
                        if hm_get members principal_id \<noteq> None then alive company_id else None)
                        (cs_company_members s);
          own = (case hm_get (cs_principals s) principal_id of
                   None \<Rightarrow> [] | Some p \<Rightarrow>
                     (case alive (p_workspace_id p) of
                        Some c \<Rightarrow> if co_id c \<in> set (map co_id member_of) then [] else [c]
                      | None \<Rightarrow> []))
      in sort_key co_name (member_of @ own))"

definition get_company :: "string \<Rightarrow> chat_state \<Rightarrow> company app_result" where
  "get_company company_id s =
     (case hm_get (cs_companies s) company_id of
        Some c \<Rightarrow> Inr c | None \<Rightarrow> Inl (NotFound (''company '' @ company_id)))"

end
