(* ===== verification/Chat_Events.thy ===== *)
theory Chat_Events
  imports Chat_State
begin

text \<open>
  Event delivery of the chat application: \<^verbatim>\<open>events.rs\<close> (polling, acknowledgement, webhooks),
  \<^verbatim>\<open>messages.rs\<close> (announcing a stored message once) and \<^verbatim>\<open>audit.rs\<close> (counters). The random
  webhook secret is the parameter \<open>fresh_secret\<close>.
\<close>

section \<open>Operations\<close>

record set_event_webhook_request =
  sw_actor_id :: string
  sw_url :: string
  sw_event_types :: "string list"
  sw_secret :: "string option"

record webhook_delivery =
  wd_principal_id :: string
  wd_url :: string
  wd_event :: event_envelope
  wd_secret :: string

record metrics_snapshot =
  ms_principals_total :: nat
  ms_conversations_total :: nat
  ms_messages_total :: nat
  ms_audit_logs_total :: nat
  ms_event_backlog_total :: nat

definition inject_event_webhook :: "event_webhook_config \<Rightarrow> chat_state \<Rightarrow> chat_state" where
  "inject_event_webhook config s =
     s\<lparr>cs_event_webhooks := hm_insert (ew_principal_id config) config (cs_event_webhooks s)\<rparr>"

definition ensure_event_seq_at_least :: "string \<Rightarrow> u64 \<Rightarrow> chat_state \<Rightarrow> chat_state" where
  "ensure_event_seq_at_least principal_id min_seq s =
     (let entry = (case hm_get (cs_next_event_seq s) principal_id of Some n \<Rightarrow> n | None \<Rightarrow> 0)
      in s\<lparr>cs_next_event_seq := hm_insert principal_id (if entry < min_seq then min_seq else entry)
             (cs_next_event_seq s)\<rparr>)"

definition list_events :: "string \<Rightarrow> u64 option \<Rightarrow> chat_state \<Rightarrow> event_envelope list app_result" where
  "list_events principal_id cursor s =
     (case require_active_principal s principal_id of
        Inl e \<Rightarrow> Inl e
      | Inr p \<Rightarrow>
          (case ensure_scope p ''events:read'' of
             Inl e \<Rightarrow> Inl e
           | Inr _ \<Rightarrow>
               (let from = (case cursor of Some n \<Rightarrow> n | None \<Rightarrow> ack_seq s principal_id)
                in Inr (filter (\<lambda>e. ee_delivery_seq e > from) (queue_of s principal_id)))))"

definition ack_events :: "string \<Rightarrow> u64 \<Rightarrow> u64 chat_op" where
  "ack_events principal_id upto_delivery_seq s =
     (case require_active_principal s principal_id of
        Inl e \<Rightarrow> (Fail e, s)
      | Inr _ \<Rightarrow>
          (let cursor = max (ack_seq s principal_id) upto_delivery_seq;
               s = s\<lparr>cs_ack_cursor := hm_insert principal_id cursor (cs_ack_cursor s)\<rparr>;
               min_cursor = min cursor (webhook_cursor s principal_id)
           in (Ret cursor,
               (case hm_get (cs_events s) principal_id of
                  None \<Rightarrow> s
                | Some es \<Rightarrow>
                    s\<lparr>cs_events := hm_insert principal_id
                         (filter (\<lambda>e. ee_delivery_seq e > min_cursor) es) (cs_events s)\<rparr>))))"

definition set_event_webhook ::
  "env \<Rightarrow> string \<Rightarrow> string \<Rightarrow> set_event_webhook_request \<Rightarrow> event_webhook_config chat_op" where
  "set_event_webhook E fresh_secret principal_id request =
     st_bind (st_call (check_rate_limit E (sw_actor_id request))) (\<lambda>_.
     st_bind (st_guard (\<lambda>_. trim (sw_url request) \<noteq> []) (Validation ''webhook url is required'')) (\<lambda>_.
     st_bind (st_guard (\<lambda>_. starts_with (sw_url request) ''http://'' \<or> starts_with (sw_url request) ''https://'')
                (Validation ''webhook url must use http or https'')) (\<lambda>_.
     st_bind (st_ask (\<lambda>s. require_active_principal s (sw_actor_id request))) (\<lambda>actor.
     st_bind (st_ask (\<lambda>s. require_active_principal s principal_id)) (\<lambda>target.
     st_bind (st_guard (\<lambda>s. \<not> (p_id actor \<noteq> p_id target \<and>
                               (p_principal_type actor \<noteq> Human \<or> p_principal_type target \<noteq> Agent \<or>
                                \<not> principal_can_access_workspace s actor (p_workspace_id target))))
                (Forbidden ''webhook target is outside the actor's workspace access'')) (\<lambda>_.
     st_bind (st_get (\<lambda>s. ack_seq s (p_id target))) (\<lambda>cursor.
     st_bind (st_draw (now E)) (\<lambda>t.
       let webhook_secret =
             (case sw_secret request of
                None \<Rightarrow> fresh_secret
              | Some x \<Rightarrow> if trim x = [] then fresh_secret else trim x);
           config = \<lparr>ew_principal_id = p_id target, ew_url = sw_url request,
                     ew_event_types = sw_event_types request, ew_cursor = cursor, ew_updated_at = t,
                     ew_webhook_secret = webhook_secret\<rparr>
       in
     st_bind (st_upd (\<lambda>s. s\<lparr>cs_event_webhooks := hm_insert (p_id target) config (cs_event_webhooks s)\<rparr>)) (\<lambda>_.
     st_bind (st_upd (record_audit E actor ''principal.webhook_configured'' ''principal'' (p_id target)
                (jobj [(''event_types'', JArr (map JStr (ew_event_types config))),
                       (''url'', JStr (ew_url config))]))) (\<lambda>_.
       st_ret config))))))))))"

definition wanted :: "event_webhook_config \<Rightarrow> event_envelope \<Rightarrow> bool" where
  "wanted config e \<longleftrightarrow> ee_delivery_seq e > ew_cursor config \<and>
     (ew_event_types config = [] \<or> ee_event_type e \<in> set (ew_event_types config))"

definition deliveries_for :: "chat_state \<Rightarrow> string \<Rightarrow> webhook_delivery list" where
  "deliveries_for s principal_id =
     (case hm_get (cs_event_webhooks s) principal_id of
        None \<Rightarrow> []
      | Some config \<Rightarrow>
          map (\<lambda>e. \<lparr>wd_principal_id = principal_id, wd_url = ew_url config, wd_event = e,
                    wd_secret = ew_webhook_secret config\<rparr>)
            (filter (wanted config) (queue_of s principal_id)))"

definition collect_pending_webhook_deliveries :: "chat_state \<Rightarrow> webhook_delivery list" where
  "collect_pending_webhook_deliveries s =
     (let deliveries = concat (map (deliveries_for s) (sort (hm_keys (cs_event_webhooks s)))) in
      sort_key wd_principal_id (sort_key (\<lambda>d. ee_delivery_seq (wd_event d)) deliveries))"

definition mark_webhook_delivered :: "env \<Rightarrow> string \<Rightarrow> u64 \<Rightarrow> u64 chat_op" where
  "mark_webhook_delivered E principal_id upto_delivery_seq s =
     (case hm_get (cs_event_webhooks s) principal_id of
        None \<Rightarrow> (Fail (NotFound ''webhook not configured''), s)
      | Some config \<Rightarrow>
          (let (t, s) = now E s;
               config = config\<lparr>ew_cursor := max (ew_cursor config) upto_delivery_seq, ew_updated_at := t\<rparr>
           in (Ret (ew_cursor config),
               s\<lparr>cs_event_webhooks := hm_insert principal_id config (cs_event_webhooks s)\<rparr>)))"

definition inject_message_with_event :: "env \<Rightarrow> message \<Rightarrow> chat_state \<Rightarrow> chat_state" where
  "inject_message_with_event E m s =
     (case recent_insert CAPACITY (m_id m) (cs_recent_message_ids s) of
        (False, _) \<Rightarrow> s
      | (True, recent) \<Rightarrow>
          (let s = s\<lparr>cs_recent_message_ids := recent, cs_messages_injected := cs_messages_injected s + 1\<rparr>;
               recipients = (case hm_get (cs_conversations s) (m_conversation_id m) of
                               Some c \<Rightarrow> member_ids c | None \<Rightarrow> [])
           in push_event E recipients ''message.created''
                (jobj [(''conversation_id'', JStr (m_conversation_id m)), (''message_id'', JStr (m_id m)),
                       (''server_seq'', JInt (uint (m_server_seq m)))]) s))"

definition metrics_snapshot_of :: "chat_state \<Rightarrow> metrics_snapshot" where
  "metrics_snapshot_of s =
     \<lparr>ms_principals_total = length (cs_principals s), ms_conversations_total = length (cs_conversations s),
      ms_messages_total = cs_messages_injected s, ms_audit_logs_total = length (cs_audit_logs s),
      ms_event_backlog_total = sum_list (map length (hm_values (cs_events s)))\<rparr>"

end
