(* ===== verification/Chat_Conversations.thy ===== *)
theory Chat_Conversations
  imports Chat_Principals
begin

text \<open>
  Conversations of the chat application, \<^verbatim>\<open>crates/choruz-application/src/conversations.rs\<close>:
  creating direct conversations and groups, membership, updates, migration and deletion.
\<close>

section \<open>Requests\<close>

record create_direct_conversation_request =
  cd_actor_id :: string
  cd_peer_principal_id :: string
  cd_workspace_id :: "string option"

record create_group_request =
  cg_actor_id :: string
  cg_name :: string
  cg_description :: "string option"
  cg_avatar_url :: "string option"
  cg_member_ids :: "string list"
  cg_workspace_id :: "string option"

record add_group_members_request =
  ag_actor_id :: string
  ag_member_ids :: "string list"

record update_group_request =
  ug_actor_id :: string
  ug_name :: "string option"
  ug_description :: "string option"
  ug_avatar_url :: "string option"

section \<open>Operations\<close>

definition find_conversation :: "string \<Rightarrow> chat_state \<Rightarrow> conversation app_result" where
  "find_conversation conversation_id s =
     (case hm_get (cs_conversations s) conversation_id of
        None \<Rightarrow> Inl (NotFound ''conversation not found'') | Some c \<Rightarrow> Inr c)"

definition put_conversation :: "string \<Rightarrow> conversation \<Rightarrow> chat_state \<Rightarrow> chat_state" where
  "put_conversation conversation_id c s =
     s\<lparr>cs_conversations := hm_insert conversation_id c (cs_conversations s)\<rparr>"

definition is_member :: "string \<Rightarrow> conversation \<Rightarrow> bool" where
  "is_member principal_id c \<longleftrightarrow> hm_get (cv_members c) principal_id \<noteq> None"

definition joined :: "string \<Rightarrow> timestamp \<Rightarrow> conversation_member" where
  "joined principal_id t = \<lparr>cvm_principal_id = principal_id, cvm_joined_at = t\<rparr>"

definition inject_conversation :: "conversation \<Rightarrow> chat_state \<Rightarrow> chat_state" where
  "inject_conversation c s =
     (case hm_get (cs_conversations s) (cv_id c) of
        Some existing \<Rightarrow>
          put_conversation (cv_id c)
            (existing\<lparr>cv_members := fold (\<lambda>(k, v). or_insert map_of bt_insert k v) (cv_members c) (cv_members existing)\<rparr>) s
      | None \<Rightarrow> put_conversation (cv_id c) c s)"

definition has_conversation :: "string \<Rightarrow> chat_state \<Rightarrow> bool" where
  "has_conversation conversation_id s \<longleftrightarrow> hm_get (cs_conversations s) conversation_id \<noteq> None"

definition list_all_conversations_internal :: "chat_state \<Rightarrow> conversation list" where
  "list_all_conversations_internal s = hm_values (cs_conversations s)"

definition delete_conversation :: "env \<Rightarrow> string \<Rightarrow> string \<Rightarrow> unit chat_op" where
  "delete_conversation E actor_id conversation_id =
     st_bind (st_ask (\<lambda>s. require_active_principal s actor_id)) (\<lambda>actor.
     st_bind (st_guard (\<lambda>_. p_principal_type actor = Human)
                (Forbidden ''only the signed-in person can delete conversations'')) (\<lambda>_.
     st_bind (st_ask (find_conversation conversation_id)) (\<lambda>conv.
     st_bind (st_guard (\<lambda>_. is_member actor_id conv) (Forbidden ''not a conversation member'')) (\<lambda>_.
     st_bind (st_upd (\<lambda>s. s\<lparr>cs_conversations := hm_remove conversation_id (cs_conversations s),
                            cs_next_server_seq := hm_remove conversation_id (cs_next_server_seq s)\<rparr>)) (\<lambda>_.
       st_upd (record_audit E actor ''conversation.deleted'' ''conversation'' conversation_id (jobj [])))))))"

fun delete_conversations_batch :: "env \<Rightarrow> string \<Rightarrow> string list \<Rightarrow> chat_state \<Rightarrow> (u64 \<times> u64) \<times> chat_state" where
  "delete_conversations_batch E actor_id [] s = ((0, 0), s)"
| "delete_conversations_batch E actor_id (cid # cids) s =
     (case delete_conversation E actor_id cid s of
        (r, s1) \<Rightarrow>
          (case delete_conversations_batch E actor_id cids s1 of
             ((deleted, failed), s2) \<Rightarrow>
               (case r of Ret _ \<Rightarrow> ((deleted + 1, failed), s2) | _ \<Rightarrow> ((deleted, failed + 1), s2))))"

text \<open>The human that joins a conversation of agents only: the company's owner, or the only one.\<close>

definition active_human :: "chat_state \<Rightarrow> string \<Rightarrow> principal \<Rightarrow> bool" where
  "active_human s ws_id p \<longleftrightarrow>
     p_principal_type p = Human \<and> \<not> p_disabled p \<and> p_deleted_at p = None \<and>
     principal_can_access_workspace s p ws_id"

definition responsible_human :: "string \<Rightarrow> chat_state \<Rightarrow> principal app_result" where
  "responsible_human ws_id s =
     (let owner = (case hm_get (cs_companies s) ws_id of
                     None \<Rightarrow> None
                   | Some company \<Rightarrow>
                       (case hm_get (cs_principals s) (co_owner_id company) of
                          None \<Rightarrow> None
                        | Some p \<Rightarrow> if active_human s ws_id p then Some p else None));
          conflict = Inl (Conflict ''exactly one active human owner is required for agent conversations'')
      in case owner of
           Some p \<Rightarrow> Inr p
         | None \<Rightarrow>
             (case filter (active_human s ws_id) (hm_values (cs_principals s)) of
                [p] \<Rightarrow> Inr p
              | _ \<Rightarrow> conflict))"

definition direct_members ::
  "principal \<Rightarrow> principal \<Rightarrow> string \<Rightarrow> timestamp \<Rightarrow> (string, conversation_member) btree_map chat_op" where
  "direct_members actor peer ws_id t =
     (let members = bt_of_list [(p_id actor, joined (p_id actor) t), (p_id peer, joined (p_id peer) t)] in
      if p_principal_type actor \<noteq> Human \<and> p_principal_type peer \<noteq> Human
      then st_bind (st_ask (responsible_human ws_id)) (\<lambda>human.
             st_ret (bt_insert (p_id human) (joined (p_id human) t) members))
      else st_ret members)"

definition new_direct ::
  "env \<Rightarrow> principal \<Rightarrow> principal \<Rightarrow> string \<Rightarrow> direct_pair \<Rightarrow> conversation chat_op" where
  "new_direct E actor peer ws_id key =
     st_bind (st_draw (now E)) (\<lambda>t.
     st_bind (direct_members actor peer ws_id t) (\<lambda>members.
     st_bind (st_draw (new_id E)) (\<lambda>i.
       let c = \<lparr>cv_id = i, cv_workspace_id = ws_id, cv_conversation_type = Direct, cv_name = None,
                cv_description = None, cv_avatar_url = None, cv_creator_id = p_id actor, cv_created_at = t,
                cv_updated_at = t, cv_members = members\<rparr>
       in
     st_bind (st_upd (\<lambda>s. s\<lparr>cs_direct_index := hm_insert key (cv_id c) (cs_direct_index s)\<rparr>)) (\<lambda>_.
     st_bind (st_upd (put_conversation (cv_id c) c)) (\<lambda>_.
     st_bind (st_upd (record_audit E actor ''conversation.direct_created'' ''conversation'' (cv_id c)
                (jobj [(''peer_principal_id'', JStr (p_id peer))]))) (\<lambda>_.
     st_bind (st_upd (push_event E [p_id actor, p_id peer] ''conversation.created''
                (jobj [(''conversation_id'', JStr (cv_id c))]))) (\<lambda>_.
       st_ret c)))))))"

definition create_direct_conversation ::
  "env \<Rightarrow> create_direct_conversation_request \<Rightarrow> conversation chat_op" where
  "create_direct_conversation E request =
     st_bind (st_call (check_rate_limit E (cd_actor_id request))) (\<lambda>_.
     st_bind (st_guard (\<lambda>_. cd_actor_id request \<noteq> cd_peer_principal_id request)
                (Validation ''cannot create a direct conversation with yourself'')) (\<lambda>_.
     st_bind (st_ask (\<lambda>s. require_active_principal s (cd_actor_id request))) (\<lambda>actor.
     st_bind (st_ask (\<lambda>s. require_active_principal s (cd_peer_principal_id request))) (\<lambda>peer.
       let ws_id = workspace_or (cd_workspace_id request) (p_workspace_id actor);
           key = direct_key ws_id (p_id actor) (p_id peer)
       in
     st_bind (st_guard (\<lambda>s. principal_can_access_workspace s actor ws_id \<and>
                           principal_can_access_workspace s peer ws_id)
                (Forbidden ''cross-workspace access denied'')) (\<lambda>_.
     st_bind (st_get (\<lambda>s. hm_get (cs_direct_index s) key)) (\<lambda>indexed.
       case indexed of
         Some conversation_id \<Rightarrow>
           st_ask (\<lambda>s. case hm_get (cs_conversations s) conversation_id of
                          Some c \<Rightarrow> Inr c | None \<Rightarrow> Inl (Internal ''direct index is inconsistent''))
       | None \<Rightarrow> new_direct E actor peer ws_id key))))))"

text \<open>The loop of \<^verbatim>\<open>create_group\<close> over the requested members: the members and whether one is human.\<close>

fun group_members ::
  "chat_state \<Rightarrow> string \<Rightarrow> string \<Rightarrow> timestamp \<Rightarrow> string list \<Rightarrow>
   (string, conversation_member) btree_map \<Rightarrow> bool \<Rightarrow> ((string, conversation_member) btree_map \<times> bool) app_result" where
  "group_members s actor_id ws_id t [] members has_human = Inr (members, has_human)"
| "group_members s actor_id ws_id t (i # is) members has_human =
     (if i = actor_id \<or> hm_get members i \<noteq> None then group_members s actor_id ws_id t is members has_human
      else
        (case require_active_principal s i of
           Inl e \<Rightarrow> Inl e
         | Inr m \<Rightarrow>
             if \<not> principal_can_access_workspace s m ws_id
             then Inl (Forbidden ''cross-workspace access denied'')
             else group_members s actor_id ws_id t is (bt_insert (p_id m) (joined (p_id m) t) members)
                    (has_human \<or> p_principal_type m = Human)))"

definition create_group :: "env \<Rightarrow> create_group_request \<Rightarrow> conversation chat_op" where
  "create_group E request =
     st_bind (st_guard (\<lambda>_. trim (cg_name request) \<noteq> []) (Validation ''group name is required'')) (\<lambda>_.
     st_bind (st_call (check_rate_limit E (cg_actor_id request))) (\<lambda>_.
     st_bind (st_ask (\<lambda>s. require_active_principal s (cg_actor_id request))) (\<lambda>actor.
       let ws_id = workspace_or (cg_workspace_id request) (p_workspace_id actor) in
     st_bind (st_guard (\<lambda>s. principal_can_access_workspace s actor ws_id)
                (Forbidden ''cross-workspace access denied'')) (\<lambda>_.
     st_bind (st_draw (now E)) (\<lambda>t.
     st_bind (st_draw (new_id E)) (\<lambda>i.
     st_bind (st_ask (\<lambda>s. group_members s (p_id actor) ws_id t (cg_member_ids request)
                             [(p_id actor, joined (p_id actor) t)] (p_principal_type actor = Human))) (\<lambda>(members, has_human).
     st_bind (if has_human then st_ret members
              else st_bind (st_ask (responsible_human ws_id)) (\<lambda>human.
                     st_ret (bt_insert (p_id human) (joined (p_id human) t) members))) (\<lambda>members.
       let c = \<lparr>cv_id = i, cv_workspace_id = ws_id, cv_conversation_type = Group,
                cv_name = Some (cg_name request), cv_description = cg_description request,
                cv_avatar_url = cg_avatar_url request, cv_creator_id = p_id actor, cv_created_at = t,
                cv_updated_at = t, cv_members = members\<rparr>
       in
     st_bind (st_upd (put_conversation (cv_id c) c)) (\<lambda>_.
     st_bind (st_upd (record_audit E actor ''group.created'' ''conversation'' (cv_id c)
                (jobj [(''name'', JStr (cg_name request))]))) (\<lambda>_.
     st_bind (st_upd (push_event E (member_ids c) ''group.created''
                (jobj [(''conversation_id'', JStr (cv_id c)), (''name'', jopt_str (cv_name c))]))) (\<lambda>_.
     st_bind (announce_system_message E (cv_id c)) (\<lambda>_.
       st_ret c))))))))))))"

text \<open>The loop of \<^verbatim>\<open>add_group_members\<close>: it writes each member before it checks the next.\<close>

fun add_members ::
  "string \<Rightarrow> string list \<Rightarrow> string \<Rightarrow> timestamp \<Rightarrow> string list \<Rightarrow> string list chat_op" where
  "add_members conversation_id existing_ids ws_id t [] = st_ret []"
| "add_members conversation_id existing_ids ws_id t (i # is) =
     (if i \<in> set existing_ids then add_members conversation_id existing_ids ws_id t is
      else
        st_bind (st_ask (\<lambda>s. require_active_principal s i)) (\<lambda>m.
        st_bind (st_guard (\<lambda>s. principal_can_access_workspace s m ws_id)
                   (Forbidden ''cross-workspace access denied'')) (\<lambda>_.
        st_bind (st_expect ''conversation must exist'' (\<lambda>s. hm_get (cs_conversations s) conversation_id)) (\<lambda>c.
        st_bind (st_upd (put_conversation conversation_id
                   (c\<lparr>cv_members := bt_insert (p_id m) (joined (p_id m) t) (cv_members c)\<rparr>))) (\<lambda>_.
        st_bind (add_members conversation_id existing_ids ws_id t is) (\<lambda>added.
          st_ret (p_id m # added)))))))"

fun announce_added :: "env \<Rightarrow> string \<Rightarrow> string list \<Rightarrow> unit chat_op" where
  "announce_added E conversation_id [] = st_ret ()"
| "announce_added E conversation_id (i # is) =
     st_bind (st_upd (push_event E [i] ''group.member_added''
                (jobj [(''conversation_id'', JStr conversation_id), (''member_id'', JStr i)]))) (\<lambda>_.
     st_bind (announce_system_message E conversation_id) (\<lambda>_.
       announce_added E conversation_id is))"

definition add_group_members :: "env \<Rightarrow> string \<Rightarrow> add_group_members_request \<Rightarrow> conversation chat_op" where
  "add_group_members E conversation_id request =
     st_bind (st_call (check_rate_limit E (ag_actor_id request))) (\<lambda>_.
     st_bind (st_ask (\<lambda>s. require_active_principal s (ag_actor_id request))) (\<lambda>actor.
     st_bind (st_ask (find_conversation conversation_id)) (\<lambda>c.
     st_bind (st_guard (\<lambda>_. cv_conversation_type c = Group) (Validation ''conversation is not a group'')) (\<lambda>_.
     st_bind (st_guard (\<lambda>_. is_member (p_id actor) c) (Forbidden ''not a group member'')) (\<lambda>_.
     st_bind (st_guard (\<lambda>s. principal_can_access_workspace s actor (cv_workspace_id c))
                (Forbidden ''cross-workspace access denied'')) (\<lambda>_.
     st_bind (st_draw (now E)) (\<lambda>t.
     st_bind (add_members conversation_id (member_ids c) (cv_workspace_id c) t (ag_member_ids request)) (\<lambda>added.
     st_bind (st_ask (\<lambda>s. case hm_get (cs_conversations s) conversation_id of
                             Some c \<Rightarrow> Inr c | None \<Rightarrow> Inl (Internal ''conversation disappeared''))) (\<lambda>c.
       if added = [] then st_ret c
       else
     st_bind (st_upd (record_audit E actor ''group.members_added'' ''conversation'' conversation_id
                (jobj [(''member_ids'', JArr (map JStr added))]))) (\<lambda>_.
     st_bind (announce_added E conversation_id added) (\<lambda>_.
       st_ret c)))))))))))"

definition remove_group_member :: "env \<Rightarrow> string \<Rightarrow> string \<Rightarrow> string \<Rightarrow> conversation chat_op" where
  "remove_group_member E conversation_id actor_id target_id =
     st_bind (st_call (check_rate_limit E actor_id)) (\<lambda>_.
     st_bind (st_ask (\<lambda>s. require_active_principal s actor_id)) (\<lambda>actor.
     st_bind (st_ask (\<lambda>s. require_active_principal s target_id)) (\<lambda>target.
     st_bind (st_guard (\<lambda>_. p_principal_type target \<noteq> Human)
                (Forbidden ''human members cannot be removed from conversations'')) (\<lambda>_.
     st_bind (st_ask (find_conversation conversation_id)) (\<lambda>c.
     st_bind (st_guard (\<lambda>_. cv_conversation_type c = Group) (Validation ''conversation is not a group'')) (\<lambda>_.
     st_bind (st_guard (\<lambda>s. principal_can_access_workspace s actor (cv_workspace_id c))
                (Forbidden ''cross-workspace access denied'')) (\<lambda>_.
     st_bind (st_guard (\<lambda>_. is_member actor_id c) (Forbidden ''not a group member'')) (\<lambda>_.
     st_bind (st_guard (\<lambda>_. is_member target_id c) (NotFound ''target is not a group member'')) (\<lambda>_.
     st_bind (st_guard (\<lambda>_. target_id \<noteq> cv_creator_id c) (Forbidden ''cannot remove conversation creator'')) (\<lambda>_.
     st_bind (st_expect ''conversation must exist'' (\<lambda>s. hm_get (cs_conversations s) conversation_id)) (\<lambda>c.
     st_bind (st_draw (now E)) (\<lambda>t.
       let c = c\<lparr>cv_members := hm_remove target_id (cv_members c), cv_updated_at := t\<rparr> in
     st_bind (st_upd (put_conversation conversation_id c)) (\<lambda>_.
     st_bind (st_upd (record_audit E actor ''group.member_removed'' ''conversation'' conversation_id
                (jobj [(''member_id'', JStr target_id)]))) (\<lambda>_.
     st_bind (st_upd (push_event E [target_id] ''group.member_removed''
                (jobj [(''conversation_id'', JStr conversation_id), (''member_id'', JStr target_id)]))) (\<lambda>_.
     st_bind (announce_system_message E conversation_id) (\<lambda>_.
       st_ret c))))))))))))))))"

definition or_keep :: "'a option \<Rightarrow> 'a option \<Rightarrow> 'a option" where
  "or_keep requested current = (case requested of Some x \<Rightarrow> Some x | None \<Rightarrow> current)"

definition update_group :: "env \<Rightarrow> string \<Rightarrow> update_group_request \<Rightarrow> conversation chat_op" where
  "update_group E conversation_id request =
     st_bind (st_call (check_rate_limit E (ug_actor_id request))) (\<lambda>_.
     st_bind (st_ask (\<lambda>s. require_active_principal s (ug_actor_id request))) (\<lambda>actor.
     st_bind (st_ask (find_conversation conversation_id)) (\<lambda>c.
     st_bind (st_guard (\<lambda>_. cv_conversation_type c = Group) (Validation ''conversation is not a group'')) (\<lambda>_.
     st_bind (st_guard (\<lambda>_. is_member (p_id actor) c) (Forbidden ''not a group member'')) (\<lambda>_.
     st_bind (st_guard (\<lambda>s. principal_can_access_workspace s actor (cv_workspace_id c))
                (Forbidden ''cross-workspace access denied'')) (\<lambda>_.
     st_bind (st_expect ''conversation must exist'' (\<lambda>s. hm_get (cs_conversations s) conversation_id)) (\<lambda>c.
     st_bind (st_draw (now E)) (\<lambda>t.
       let c = c\<lparr>cv_name := or_keep (ug_name request) (cv_name c),
                 cv_description := or_keep (ug_description request) (cv_description c),
                 cv_avatar_url := or_keep (ug_avatar_url request) (cv_avatar_url c), cv_updated_at := t\<rparr>
       in
     st_bind (st_upd (put_conversation conversation_id c)) (\<lambda>_.
     st_bind (st_upd (record_audit E actor ''group.updated'' ''conversation'' conversation_id (jobj []))) (\<lambda>_.
       st_ret c))))))))))"

definition reindex_direct :: "string \<Rightarrow> direct_pair option \<Rightarrow> conversation \<Rightarrow> chat_state \<Rightarrow> chat_state" where
  "reindex_direct new_workspace_id old_key c s =
     (case old_key of
        Some (ws, left, right) \<Rightarrow>
          if cv_conversation_type c = Direct \<and> hm_get (cs_direct_index s) (ws, left, right) \<noteq> None
          then s\<lparr>cs_direct_index := hm_insert (direct_key new_workspace_id left right) (cv_id c)
                   (hm_remove (ws, left, right) (cs_direct_index s))\<rparr>
          else s
      | None \<Rightarrow> s)"

definition migrate_conversation_workspace :: "env \<Rightarrow> string \<Rightarrow> string \<Rightarrow> string \<Rightarrow> conversation chat_op" where
  "migrate_conversation_workspace E conversation_id new_workspace_id actor_id =
     st_bind (st_ask (\<lambda>s. require_active_principal s actor_id)) (\<lambda>actor.
     st_bind (st_guard (\<lambda>_. p_principal_type actor = Human) (Forbidden ''only humans can migrate workspaces'')) (\<lambda>_.
     st_bind (st_guard (\<lambda>_. trim new_workspace_id \<noteq> []) (Validation ''workspace_id is required'')) (\<lambda>_.
     st_bind (st_ask (find_conversation conversation_id)) (\<lambda>existing.
     st_bind (st_guard (\<lambda>s. principal_can_access_workspace s actor (cv_workspace_id existing) \<and>
                           principal_can_access_workspace s actor new_workspace_id)
                (Forbidden ''cross-workspace access denied'')) (\<lambda>_.
     st_bind (st_get (\<lambda>s. map_option fst (find (\<lambda>(k, i). i = conversation_id) (cs_direct_index s)))) (\<lambda>old_direct_key.
     st_bind (st_draw (now E)) (\<lambda>t.
       let c = existing\<lparr>cv_workspace_id := new_workspace_id, cv_updated_at := t\<rparr> in
     st_bind (st_upd (put_conversation conversation_id c)) (\<lambda>_.
     st_bind (st_upd (reindex_direct new_workspace_id old_direct_key c)) (\<lambda>_.
     st_bind (st_upd (record_audit E actor ''conversation.workspace_migrated'' ''conversation'' conversation_id
                (jobj [(''old_workspace_id'', JStr (cv_workspace_id existing)),
                       (''new_workspace_id'', JStr new_workspace_id)]))) (\<lambda>_.
       st_ret c))))))))))"

definition list_conversations :: "string \<Rightarrow> chat_state \<Rightarrow> conversation list app_result" where
  "list_conversations principal_id s =
     (case require_active_principal s principal_id of
        Inl e \<Rightarrow> Inl e
      | Inr actor \<Rightarrow>
          Inr (filter (\<lambda>c. principal_can_access_workspace s actor (cv_workspace_id c) \<and> is_member principal_id c)
                 (hm_values (cs_conversations s))))"

definition get_conversation :: "string \<Rightarrow> chat_state \<Rightarrow> conversation app_result" where
  "get_conversation conversation_id s = find_conversation conversation_id s"

end
