(* ===== verification/Chat_Membership.thy ===== *)
theory Chat_Membership
  imports Chat_Conversations Chat_Events
begin

text \<open>
  The invariant of the chat application over any sequence of its operations: every conversation
  keeps a human member, and the index of direct conversations agrees with the conversations. The
  weakest-precondition rules of the operations' building blocks carry the proofs.
\<close>

section \<open>What the building blocks leave alone\<close>

lemma record_audit_frame [simp]:
  "cs_principals (record_audit E p a t i m s) = cs_principals s"
  "cs_conversations (record_audit E p a t i m s) = cs_conversations s"
  "cs_direct_index (record_audit E p a t i m s) = cs_direct_index s"
  "cs_companies (record_audit E p a t i m s) = cs_companies s"
  "cs_company_members (record_audit E p a t i m s) = cs_company_members s"
  "cs_events (record_audit E p a t i m s) = cs_events s"
  "cs_next_event_seq (record_audit E p a t i m s) = cs_next_event_seq s"
  "cs_ack_cursor (record_audit E p a t i m s) = cs_ack_cursor s"
  "cs_event_webhooks (record_audit E p a t i m s) = cs_event_webhooks s"
  "cs_recent_message_ids (record_audit E p a t i m s) = cs_recent_message_ids s"
  "cs_rate_limit_windows (record_audit E p a t i m s) = cs_rate_limit_windows s"
  "cs_rate_limit_per_minute (record_audit E p a t i m s) = cs_rate_limit_per_minute s"
  "ids_drawn (record_audit E p a t i m s) = Suc (ids_drawn s)"
  by (simp_all add: record_audit_def new_id_def now_def)

lemma push_event_to_frame [simp]:
  "cs_principals (push_event_to E k j i s) = cs_principals s"
  "cs_conversations (push_event_to E k j i s) = cs_conversations s"
  "cs_direct_index (push_event_to E k j i s) = cs_direct_index s"
  "cs_companies (push_event_to E k j i s) = cs_companies s"
  "cs_company_members (push_event_to E k j i s) = cs_company_members s"
  "cs_ack_cursor (push_event_to E k j i s) = cs_ack_cursor s"
  "cs_event_webhooks (push_event_to E k j i s) = cs_event_webhooks s"
  "cs_audit_logs (push_event_to E k j i s) = cs_audit_logs s"
  "cs_recent_message_ids (push_event_to E k j i s) = cs_recent_message_ids s"
  "cs_rate_limit_windows (push_event_to E k j i s) = cs_rate_limit_windows s"
  "cs_rate_limit_per_minute (push_event_to E k j i s) = cs_rate_limit_per_minute s"
  "ids_drawn (push_event_to E k j i s) = Suc (ids_drawn s)"
  by (simp_all add: push_event_to_def new_id_def now_def Let_def)

lemma push_event_Cons:
  "push_event E (i # is) k j s = push_event E is k j (push_event_to E k j i s)"
  "push_event E [] k j s = s"
  by (simp_all add: push_event_def)

lemma push_event_frame [simp]:
  "cs_principals (push_event E ids k j s) = cs_principals s"
  "cs_conversations (push_event E ids k j s) = cs_conversations s"
  "cs_direct_index (push_event E ids k j s) = cs_direct_index s"
  "cs_companies (push_event E ids k j s) = cs_companies s"
  "cs_company_members (push_event E ids k j s) = cs_company_members s"
  "cs_ack_cursor (push_event E ids k j s) = cs_ack_cursor s"
  "cs_event_webhooks (push_event E ids k j s) = cs_event_webhooks s"
  "cs_audit_logs (push_event E ids k j s) = cs_audit_logs s"
  "cs_recent_message_ids (push_event E ids k j s) = cs_recent_message_ids s"
  "cs_rate_limit_windows (push_event E ids k j s) = cs_rate_limit_windows s"
  "cs_rate_limit_per_minute (push_event E ids k j s) = cs_rate_limit_per_minute s"
  "ids_drawn (push_event E ids k j s) = ids_drawn s + length ids"
  by (induction ids arbitrary: s) (simp_all add: push_event_Cons)

definition rate_verdict :: "env \<Rightarrow> string \<Rightarrow> chat_state \<Rightarrow> unit app_result" where
  "rate_verdict E i s = fst (check_rate_limit E i s)"

definition rate_state :: "env \<Rightarrow> string \<Rightarrow> chat_state \<Rightarrow> chat_state" where
  "rate_state E i s = snd (check_rate_limit E i s)"

lemma rate_state_frame [simp]:
  "cs_principals (rate_state E i s) = cs_principals s"
  "cs_conversations (rate_state E i s) = cs_conversations s"
  "cs_direct_index (rate_state E i s) = cs_direct_index s"
  "cs_companies (rate_state E i s) = cs_companies s"
  "cs_company_members (rate_state E i s) = cs_company_members s"
  "cs_events (rate_state E i s) = cs_events s"
  "cs_next_event_seq (rate_state E i s) = cs_next_event_seq s"
  "cs_ack_cursor (rate_state E i s) = cs_ack_cursor s"
  "cs_event_webhooks (rate_state E i s) = cs_event_webhooks s"
  "cs_audit_logs (rate_state E i s) = cs_audit_logs s"
  "cs_next_server_seq (rate_state E i s) = cs_next_server_seq s"
  "cs_recent_message_ids (rate_state E i s) = cs_recent_message_ids s"
  "cs_rate_limit_per_minute (rate_state E i s) = cs_rate_limit_per_minute s"
  "k \<noteq> i \<Longrightarrow> hm_get (cs_rate_limit_windows (rate_state E i s)) k = hm_get (cs_rate_limit_windows s) k"
  "ids_drawn (rate_state E i s) = ids_drawn s"
  by (simp_all add: rate_state_def check_rate_limit_def now_def Let_def split: prod.splits)

lemma checks_rate_state [simp]:
  "require_active_principal (rate_state E k s) = require_active_principal s"
  "principal_can_access_workspace (rate_state E k s) = principal_can_access_workspace s"
  by (simp_all add: fun_eq_iff require_active_principal_def principal_can_access_workspace_def
      cong: option.case_cong)

lemma st_wp_rate [wp]:
  "st_wp (st_call (check_rate_limit E i)) Q s = Q (exec_of_result (rate_verdict E i s)) (rate_state E i s)"
  by (simp add: st_wp_call rate_verdict_def rate_state_def split: prod.split)

lemma st_wp_now [wp]:
  "st_wp (st_draw (now E)) Q s =
     Q (Ret (env_clock E (clock_reads s))) (s\<lparr>clock_reads := Suc (clock_reads s)\<rparr>)"
  by (simp add: st_wp_draw now_def)

lemma st_wp_new_id [wp]:
  "st_wp (st_draw (new_id E)) Q s =
     Q (Ret (env_uuid E (ids_drawn s))) (s\<lparr>ids_drawn := Suc (ids_drawn s)\<rparr>)"
  by (simp add: st_wp_draw new_id_def)

lemma st_wp_issue_secret [wp]:
  "st_wp (st_draw (issue_secret E)) Q s =
     Q (Ret (''agt_'' @ env_uuid E (ids_drawn s))) (s\<lparr>ids_drawn := Suc (ids_drawn s)\<rparr>)"
  by (simp add: st_wp_draw issue_secret_def new_id_def)

text \<open>The announcement of a membership change only draws identifiers and writes event queues.\<close>

definition announced :: "env \<Rightarrow> string \<Rightarrow> chat_state \<Rightarrow> chat_state" where
  "announced E i s = snd (announce_system_message E i s)"

lemma announced_frame [simp]:
  "cs_principals (announced E i s) = cs_principals s"
  "cs_conversations (announced E i s) = cs_conversations s"
  "cs_direct_index (announced E i s) = cs_direct_index s"
  "cs_companies (announced E i s) = cs_companies s"
  "cs_company_members (announced E i s) = cs_company_members s"
  "cs_ack_cursor (announced E i s) = cs_ack_cursor s"
  "cs_event_webhooks (announced E i s) = cs_event_webhooks s"
  "cs_recent_message_ids (announced E i s) = cs_recent_message_ids s"
  "n \<le> ids_drawn s \<Longrightarrow> n \<le> ids_drawn (announced E i s)"
  "n < ids_drawn s \<Longrightarrow> n < ids_drawn (announced E i s)"
  by (simp_all add: announced_def announce_system_message_def new_id_def Let_def split: option.splits)

lemma st_wp_announce [wp]:
  "st_wp (announce_system_message E i) Q s =
     ((hm_get (cs_conversations s) i \<noteq> None \<longrightarrow> Q (Ret ()) (announced E i s)) \<and>
      (hm_get (cs_conversations s) i = None \<longrightarrow> Q (Fail (NotFound ''conversation not found'')) (announced E i s)))"
  by (auto simp: st_wp_def announced_def announce_system_message_def Let_def split: option.splits prod.splits)

section \<open>The invariant\<close>

type_synonym principals = "(string, principal) hash_map"
type_synonym conversations = "(string, conversation) hash_map"

definition has_human :: "principals \<Rightarrow> (string, conversation_member) btree_map \<Rightarrow> bool" where
  "has_human P ms \<longleftrightarrow>
     (\<exists>k p. hm_get ms k \<noteq> None \<and> hm_get P k = Some p \<and> p_principal_type p = Human)"

definition people_wf :: "principals \<Rightarrow> bool" where
  "people_wf P \<longleftrightarrow> hm_wf P \<and> (\<forall>k p. hm_get P k = Some p \<longrightarrow> p_id p = k)"

definition convs_wf :: "principals \<Rightarrow> conversations \<Rightarrow> bool" where
  "convs_wf P C \<longleftrightarrow>
     (\<forall>i c. hm_get C i = Some c \<longrightarrow> cv_id c = i \<and> bt_wf (cv_members c) \<and> has_human P (cv_members c))"

definition unused_from :: "env \<Rightarrow> nat \<Rightarrow> string \<Rightarrow> bool" where
  "unused_from E n i \<longleftrightarrow> (\<forall>m \<ge> n. env_uuid E m \<noteq> i)"

definition fresh_wf :: "env \<Rightarrow> nat \<Rightarrow> principals \<Rightarrow> conversations \<Rightarrow> bool" where
  "fresh_wf E n P C \<longleftrightarrow>
     (\<forall>i. hm_get P i \<noteq> None \<longrightarrow> unused_from E n i) \<and> (\<forall>i. hm_get C i \<noteq> None \<longrightarrow> unused_from E n i)"

definition chat_wf :: "env \<Rightarrow> chat_state \<Rightarrow> bool" where
  "chat_wf E s \<longleftrightarrow> people_wf (cs_principals s) \<and> convs_wf (cs_principals s) (cs_conversations s) \<and>
     fresh_wf E (ids_drawn s) (cs_principals s) (cs_conversations s)"

text \<open>
  The index of direct conversations: each entry names a direct conversation of the pair in its
  workspace, and no conversation has two entries.
\<close>

definition index_wf :: "conversations \<Rightarrow> (direct_pair, string) hash_map \<Rightarrow> bool" where
  "index_wf C X \<longleftrightarrow> hm_wf X \<and>
     (\<forall>k i. hm_get X k = Some i \<longrightarrow>
        (\<exists>c l r. hm_get C i = Some c \<and> cv_conversation_type c = Direct \<and>
           k = direct_key (cv_workspace_id c) l r \<and> is_member l c \<and> is_member r c)) \<and>
     (\<forall>k k' i. hm_get X k = Some i \<longrightarrow> hm_get X k' = Some i \<longrightarrow> k = k')"

definition uuid_ok :: "auth_env \<Rightarrow> env \<Rightarrow> bool" where
  "uuid_ok A E \<longleftrightarrow> inj (env_uuid E) \<and> (\<forall>n ws d. env_uuid E n \<noteq> local_user_principal_id A ws d)"

lemma unused_from_mono: "unused_from E n i \<Longrightarrow> n \<le> m \<Longrightarrow> unused_from E m i"
  by (auto simp: unused_from_def)

lemma fresh_wf_mono: "fresh_wf E n P C \<Longrightarrow> n \<le> m \<Longrightarrow> fresh_wf E m P C"
  by (auto simp: fresh_wf_def intro: unused_from_mono)

lemma unused_from_drawn: "inj (env_uuid E) \<Longrightarrow> n < m \<Longrightarrow> unused_from E m (env_uuid E n)"
  by (auto simp: unused_from_def dest: injD)

lemma fresh_wf_conv:
  "fresh_wf E n P C \<Longrightarrow> unused_from E m i \<Longrightarrow> n \<le> m \<Longrightarrow> fresh_wf E m P (hm_insert i c C)"
  by (auto simp: fresh_wf_def intro: unused_from_mono)

lemma fresh_wf_person:
  "fresh_wf E n P C \<Longrightarrow> unused_from E m i \<Longrightarrow> n \<le> m \<Longrightarrow> fresh_wf E m (hm_insert i p P) C"
  by (auto simp: fresh_wf_def intro: unused_from_mono)

lemma fresh_wf_del: "fresh_wf E n P C \<Longrightarrow> n \<le> m \<Longrightarrow> fresh_wf E m P (hm_remove i C)"
  by (auto simp: fresh_wf_def intro: unused_from_mono)

lemma fresh_not_conv: "fresh_wf E n P C \<Longrightarrow> n \<le> m \<Longrightarrow> hm_get C (env_uuid E m) = None"
  by (force simp: fresh_wf_def unused_from_def)

lemma fresh_not_person: "fresh_wf E n P C \<Longrightarrow> n \<le> m \<Longrightarrow> hm_get P (env_uuid E m) = None"
  by (force simp: fresh_wf_def unused_from_def)

lemma people_wf_insert: "people_wf P \<Longrightarrow> p_id p = k \<Longrightarrow> people_wf (hm_insert k p P)"
  by (simp add: people_wf_def)

lemma has_human_kept:
  "has_human P ms \<Longrightarrow> (\<And>q. hm_get P k = Some q \<Longrightarrow> p_principal_type q = p_principal_type p) \<Longrightarrow>
     has_human (hm_insert k p P) ms"
  unfolding has_human_def by (metis fun_upd_apply hm_get_insert option.inject)

lemma convs_wf_person:
  "convs_wf P C \<Longrightarrow> (\<And>q. hm_get P k = Some q \<Longrightarrow> p_principal_type q = p_principal_type p) \<Longrightarrow>
     convs_wf (hm_insert k p P) C"
  unfolding convs_wf_def by (blast intro: has_human_kept)

lemma convs_wf_insert:
  "convs_wf P C \<Longrightarrow> cv_id c = i \<Longrightarrow> bt_wf (cv_members c) \<Longrightarrow> has_human P (cv_members c) \<Longrightarrow> convs_wf P (hm_insert i c C)"
  by (simp add: convs_wf_def)

lemma convs_wf_del: "convs_wf P C \<Longrightarrow> convs_wf P (hm_remove i C)"
  by (simp add: convs_wf_def)

lemma convs_wfD:
  assumes "convs_wf P C" "hm_get C i = Some c"
  shows "cv_id c = i" "bt_wf (cv_members c)" "has_human P (cv_members c)"
  using assms by (auto simp: convs_wf_def)

lemma has_human_more:
  "has_human P ms \<Longrightarrow> (\<And>k. hm_get ms k \<noteq> None \<Longrightarrow> hm_get ns k \<noteq> None) \<Longrightarrow> has_human P ns"
  unfolding has_human_def by blast

lemma has_human_member:
  "hm_get ms k \<noteq> None \<Longrightarrow> hm_get P k = Some p \<Longrightarrow> p_principal_type p = Human \<Longrightarrow> has_human P ms"
  unfolding has_human_def by blast

lemma require_active_Inr:
  "require_active_principal s i = Inr p \<longleftrightarrow>
     hm_get (cs_principals s) i = Some p \<and> \<not> p_disabled p \<and> p_deleted_at p = None"
  by (auto simp: require_active_principal_def split: option.splits if_splits)

lemma find_conversation_Inr: "find_conversation i s = Inr c \<longleftrightarrow> hm_get (cs_conversations s) i = Some c"
  by (auto simp: find_conversation_def split: option.splits)

lemma responsible_human_Inr:
  assumes "responsible_human ws s = Inr p" "people_wf (cs_principals s)"
  shows "hm_get (cs_principals s) (p_id p) = Some p \<and> p_principal_type p = Human"
proof -
  have val: "hm_get (cs_principals s) (p_id q) = Some q" if "q \<in> set (hm_values (cs_principals s))" for q
    using that assms(2) by (auto simp: people_wf_def hm_values_get)
  have own: "hm_get (cs_principals s) (p_id q) = Some q" if "hm_get (cs_principals s) k = Some q" for k q
    using that assms(2) by (auto simp: people_wf_def)
  have one: "q \<in> set (hm_values (cs_principals s)) \<and> active_human s ws q"
    if "filter (active_human s ws) (hm_values (cs_principals s)) = [q]" for q
    using arg_cong [OF that, of set] by auto
  show ?thesis
    using assms(1) own
    by (auto simp: responsible_human_def Let_def active_human_def [of s ws p]
        split: option.splits if_splits list.splits dest!: one intro: val)
qed

section \<open>Every operation keeps the invariant\<close>

lemma direct_members_wp [wp]:
  "st_wp (direct_members a p ws t) Q s =
    (if p_principal_type a \<noteq> Human \<and> p_principal_type p \<noteq> Human
     then (\<forall>h. responsible_human ws s = Inr h \<longrightarrow>
        Q (Ret (bt_insert (p_id h) (joined (p_id h) t)
             (bt_of_list [(p_id a, joined (p_id a) t), (p_id p, joined (p_id p) t)]))) s) \<and>
        (\<forall>e. responsible_human ws s = Inl e \<longrightarrow> Q (Fail e) s)
     else Q (Ret (bt_of_list [(p_id a, joined (p_id a) t), (p_id p, joined (p_id p) t)])) s)"
  by (simp add: direct_members_def Let_def wp)

lemma put_conversation_frame [simp]:
  "cs_principals (put_conversation i c s) = cs_principals s"
  "cs_conversations (put_conversation i c s) = hm_insert i c (cs_conversations s)"
  "cs_direct_index (put_conversation i c s) = cs_direct_index s"
  "cs_companies (put_conversation i c s) = cs_companies s"
  "cs_company_members (put_conversation i c s) = cs_company_members s"
  "cs_events (put_conversation i c s) = cs_events s"
  "cs_next_event_seq (put_conversation i c s) = cs_next_event_seq s"
  "cs_ack_cursor (put_conversation i c s) = cs_ack_cursor s"
  "cs_event_webhooks (put_conversation i c s) = cs_event_webhooks s"
  "cs_audit_logs (put_conversation i c s) = cs_audit_logs s"
  "cs_recent_message_ids (put_conversation i c s) = cs_recent_message_ids s"
  "cs_rate_limit_windows (put_conversation i c s) = cs_rate_limit_windows s"
  "cs_rate_limit_per_minute (put_conversation i c s) = cs_rate_limit_per_minute s"
  "ids_drawn (put_conversation i c s) = ids_drawn s"
  by (simp_all add: put_conversation_def)

lemma bt_of_list_get: "map_of (bt_of_list ps) = map_of (rev ps)"
  by (simp add: bt_of_list_def bt_get_fold_insert)

lemma chat_wf_personD:
  assumes "chat_wf E s" "hm_get (cs_principals s) k = Some p"
  shows "p_id p = k" "unused_from E (ids_drawn s) k"
  using assms by (auto simp: chat_wf_def people_wf_def fresh_wf_def)

lemma chat_wf_convD:
  assumes "chat_wf E s" "hm_get (cs_conversations s) i = Some c"
  shows "cv_id c = i" "bt_wf (cv_members c)" "has_human (cs_principals s) (cv_members c)" "unused_from E (ids_drawn s) i"
  using assms by (auto simp: chat_wf_def convs_wf_def fresh_wf_def)

lemma direct_members_human:
  assumes "people_wf (cs_principals s)"
    "hm_get (cs_principals s) (p_id a) = Some a" "hm_get (cs_principals s) (p_id b) = Some b"
  shows "st_wp (direct_members a b ws t) (\<lambda>r u. u = s \<and> (\<forall>p. r \<noteq> Panic p) \<and> (\<forall>ms. r = Ret ms \<longrightarrow> bt_wf ms \<and>
           has_human (cs_principals s) ms \<and> hm_get ms (p_id a) \<noteq> None \<and> hm_get ms (p_id b) \<noteq> None)) s"
proof -
  let ?ms = "bt_of_list [(p_id a, joined (p_id a) t), (p_id b, joined (p_id b) t)]"
  have ab: "hm_get ?ms (p_id a) \<noteq> None" "hm_get ?ms (p_id b) \<noteq> None"
    by (simp_all add: bt_of_list_get)
  have two: "has_human (cs_principals s) ?ms" if "p_principal_type a = Human \<or> p_principal_type b = Human"
    using that ab assms(2,3) by (blast intro: has_human_member)
  have more: "has_human (cs_principals s) (bt_insert (p_id h) (joined (p_id h) t) ?ms)"
    if "responsible_human ws s = Inr h" for h
    using responsible_human_Inr [OF that assms(1)] by (auto intro: has_human_member [where k = "p_id h"])
  show ?thesis
    unfolding direct_members_wp using ab two more by simp
qed


lemmas wf_intros = people_wf_insert convs_wf_person convs_wf_insert convs_wf_del
  fresh_wf_person fresh_wf_conv fresh_wf_del

lemma fresh_wf_put:
  "fresh_wf E n P C \<Longrightarrow> hm_get C i = Some c0 \<Longrightarrow> n \<le> m \<Longrightarrow> fresh_wf E m P (hm_insert i c C)"
  by (auto simp: fresh_wf_def intro: unused_from_mono)

lemma new_direct_wf:
  assumes "chat_wf E s" "inj (env_uuid E)"
    "hm_get (cs_principals s) (p_id a) = Some a" "hm_get (cs_principals s) (p_id b) = Some b"
  shows "st_wp (new_direct E a b ws key) (\<lambda>_ t. chat_wf E t) s"
  unfolding new_direct_def st_wp_bind st_wp_now
  apply simp
  apply (rule st_wp_mono [OF direct_members_human])
  using assms apply (simp_all add: chat_wf_def)[3]
  using assms apply (auto simp: chat_wf_def wp Let_def split: exec.splits intro!: wf_intros unused_from_drawn elim: fresh_wf_mono)
  done

lemma create_direct_wf:
  assumes "chat_wf E s" "inj (env_uuid E)"
  shows "st_wp (create_direct_conversation E request) (\<lambda>_ t. chat_wf E t) s"
proof -
  let ?t = "rate_state E (cd_actor_id request) s"
  have wf: "chat_wf E ?t" using assms by (simp add: chat_wf_def)
  show ?thesis using wf
  by (auto simp: create_direct_conversation_def wp Let_def require_active_Inr split: option.splits 
     intro!: new_direct_wf assms dest: chat_wf_personD)
qed

lemma delete_wf:
  assumes "chat_wf E s"
  shows "st_wp (delete_conversation E actor i) (\<lambda>_ t. chat_wf E t) s"
  using assms
  by (auto simp: delete_conversation_def wp chat_wf_def intro!: wf_intros)

lemma chat_wfD:
  assumes "chat_wf E s"
  shows "people_wf (cs_principals s)" "convs_wf (cs_principals s) (cs_conversations s)"
    "fresh_wf E (ids_drawn s) (cs_principals s) (cs_conversations s)"
  using assms by (simp_all add: chat_wf_def)

lemma update_group_wf:
  assumes "chat_wf E s"
  shows "st_wp (update_group E i request) (\<lambda>_ t. chat_wf E t) s"
  unfolding chat_wf_def update_group_def
  by (auto simp: wp Let_def find_conversation_Inr chat_wfD [OF assms]
      intro!: convs_wf_insert [OF chat_wfD(2) [OF assms]] fresh_wf_put [OF chat_wfD(3) [OF assms]]
        fresh_wf_mono [OF chat_wfD(3) [OF assms]]
      dest: convs_wfD [OF chat_wfD(2) [OF assms]])

lemma reindex_direct_frame [simp]:
  "cs_principals (reindex_direct w k c s) = cs_principals s"
  "cs_conversations (reindex_direct w k c s) = cs_conversations s"
  "ids_drawn (reindex_direct w k c s) = ids_drawn s"
  by (simp_all add: reindex_direct_def split: option.splits)

lemma migrate_conversation_wf:
  assumes "chat_wf E s"
  shows "st_wp (migrate_conversation_workspace E i ws actor) (\<lambda>_ t. chat_wf E t) s"
  unfolding chat_wf_def migrate_conversation_workspace_def
  by (auto simp: wp Let_def find_conversation_Inr chat_wfD [OF assms]
      intro!: convs_wf_insert [OF chat_wfD(2) [OF assms]] fresh_wf_put [OF chat_wfD(3) [OF assms]]
        fresh_wf_mono [OF chat_wfD(3) [OF assms]]
      dest: convs_wfD [OF chat_wfD(2) [OF assms]])

lemma has_human_remove:
  assumes "has_human P ms" "hm_get P k = Some p" "p_principal_type p \<noteq> Human"
  shows "has_human P (hm_remove k ms)"
proof -
  from assms obtain l q where l: "hm_get ms l \<noteq> None" "hm_get P l = Some q" "p_principal_type q = Human"
    unfolding has_human_def by blast
  with assms have "l \<noteq> k" by auto
  with l show ?thesis by (auto intro: has_human_member [of _ l])
qed

lemma remove_group_member_wf:
  assumes "chat_wf E s"
  shows "st_wp (remove_group_member E i actor target) (\<lambda>_ t. chat_wf E t) s"
  unfolding chat_wf_def remove_group_member_def
  by (auto simp: wp Let_def find_conversation_Inr require_active_Inr chat_wfD [OF assms]
      intro!: convs_wf_insert [OF chat_wfD(2) [OF assms]] fresh_wf_put [OF chat_wfD(3) [OF assms]]
        fresh_wf_mono [OF chat_wfD(3) [OF assms]] has_human_remove
      dest: convs_wfD [OF chat_wfD(2) [OF assms]])

lemma group_members_Inr:
  assumes "group_members s a ws t ids ms hh = Inr (ns, h)" "people_wf (cs_principals s)" "bt_wf ms"
    "hh \<Longrightarrow> has_human (cs_principals s) ms"
  shows "bt_wf ns \<and> (h \<longrightarrow> has_human (cs_principals s) ns) \<and> (\<forall>k. hm_get ms k \<noteq> None \<longrightarrow> hm_get ns k \<noteq> None)"
  using assms
proof (induction s a ws t ids ms hh rule: group_members.induct)
  case (2 s a ws t i ids ms hh)
  show ?case
  proof (cases "i = a \<or> hm_get ms i \<noteq> None")
    case True
    with 2 show ?thesis by simp
  next
    case False
    with "2.prems"(1) obtain m where m: "require_active_principal s i = Inr m" "principal_can_access_workspace s m ws"
      and rest: "group_members s a ws t ids (bt_insert (p_id m) (joined (p_id m) t) ms) (hh \<or> p_principal_type m = Human) = Inr (ns, h)"
      by (auto split: sum.splits if_splits)
    let ?ms = "bt_insert (p_id m) (joined (p_id m) t) ms"
    have pid: "p_id m = i" and get: "hm_get (cs_principals s) i = Some m"
      using m(1) "2.prems"(2) by (auto simp: require_active_Inr people_wf_def)
    have "has_human (cs_principals s) ?ms" if "hh \<or> p_principal_type m = Human"
      using that "2.prems"(3,4) get pid has_human_more [of "cs_principals s" ms ?ms]
      by (auto intro: has_human_member [where k = i and p = m])
    with "2.IH"(2) [OF False m(1) _ rest] m(2) "2.prems"(2,3)
    show ?thesis by (auto split: if_splits)
  qed
qed auto

lemma create_group_wf:
  assumes "chat_wf E s" "inj (env_uuid E)"
  shows "st_wp (create_group E request) (\<lambda>_ t. chat_wf E t) s"
proof -
  note wf = chat_wfD [OF assms(1)]
  have members: "bt_wf ns \<and> (h \<longrightarrow> has_human (cs_principals s) ns)"
    if "group_members u (p_id x) ws t ids [(p_id x, joined (p_id x) t)] (p_principal_type x = Human) = Inr (ns, h)"
      "hm_get (cs_principals s) a = Some x" "cs_principals u = cs_principals s" for u x ws t ids ns h a
  proof -
    have "hm_get (cs_principals s) (p_id x) = Some x" using that(2) wf(1) by (auto simp: people_wf_def)
    then have "has_human (cs_principals s) [(p_id x, joined (p_id x) t)]" if "p_principal_type x = Human"
      using that by (intro has_human_member [of _ "p_id x"]) simp_all
    with group_members_Inr [OF that(1)] that(3) wf(1) show ?thesis by (simp add: bt_wf_def)
  qed
  have human: "has_human (cs_principals s) (bt_insert (p_id p) (joined (p_id p) t) ms)"
    if "responsible_human ws u = Inr p" "cs_principals u = cs_principals s" "bt_wf ms" for ws u p t ms
    using responsible_human_Inr [OF that(1)] that(2,3) wf(1) by (auto intro: has_human_member [where k = "p_id p"])
  show ?thesis
    unfolding chat_wf_def create_group_def
    by (auto simp: wp Let_def require_active_Inr wf split: if_splits
        intro!: convs_wf_insert [OF wf(2)] fresh_wf_conv [OF wf(3)] fresh_wf_mono [OF wf(3)]
          unused_from_drawn [OF assms(2)] human
        dest!: members)
qed

definition more_members :: "chat_state \<Rightarrow> chat_state \<Rightarrow> string \<Rightarrow> bool" where
  "more_members s u i \<longleftrightarrow> cs_principals u = cs_principals s \<and> ids_drawn u = ids_drawn s \<and>
     (\<exists>c d. hm_get (cs_conversations s) i = Some c \<and>
        map_of (cs_conversations u) = (map_of (cs_conversations s))(i \<mapsto> d) \<and>
        cv_id d = cv_id c \<and> cv_workspace_id d = cv_workspace_id c \<and> cv_conversation_type d = cv_conversation_type c \<and>
        (bt_wf (cv_members c) \<longrightarrow> bt_wf (cv_members d) \<and>
          (\<forall>k. hm_get (cv_members c) k \<noteq> None \<longrightarrow> hm_get (cv_members d) k \<noteq> None)))"

lemma more_members_refl: "hm_get (cs_conversations s) i \<noteq> None \<Longrightarrow> more_members s s i"
  unfolding more_members_def by (metis fun_upd_triv not_Some_eq)

lemma more_members_trans:
  assumes "more_members s t i" "more_members t u i"
  shows "more_members s u i"
  using assms unfolding more_members_def by fastforce

lemma add_members_more:
  assumes "hm_get (cs_conversations s) i \<noteq> None"
  shows "st_wp (add_members i existing ws t ids) (\<lambda>r u. more_members s u i \<and> (\<forall>p. r \<noteq> Panic p)) s"
  using assms
proof (induction ids arbitrary: s)
  case Nil
  then show ?case by (simp add: wp more_members_refl)
next
  case (Cons k ids)
  show ?case
  proof (cases "k \<in> set existing")
    case True
    with Cons show ?thesis by simp
  next
    case False
    have step: "more_members s (put_conversation i (c\<lparr>cv_members := bt_insert x y (cv_members c)\<rparr>) s) i"
      if "hm_get (cs_conversations s) i = Some c" for c x y
      using that by (auto simp: more_members_def)
    have IH: "st_wp (add_members i existing ws t ids) (\<lambda>r u. more_members s u i \<and> (\<forall>p. r \<noteq> Panic p))
        (put_conversation i (c\<lparr>cv_members := bt_insert x y (cv_members c)\<rparr>) s)"
      if "hm_get (cs_conversations s) i = Some c" for c x y
      by (rule st_wp_mono [OF Cons.IH]) (auto intro: more_members_trans [OF step [OF that]])
    show ?thesis
      using False Cons.prems
      by (auto simp: wp more_members_refl split: exec.splits intro!: st_wp_mono [OF IH])
  qed
qed

text \<open>A change that touches neither principals nor conversations nor the index.\<close>

definition quiet :: "chat_state \<Rightarrow> chat_state \<Rightarrow> bool" where
  "quiet s t \<longleftrightarrow> cs_principals t = cs_principals s \<and> cs_conversations t = cs_conversations s \<and>
     cs_direct_index t = cs_direct_index s \<and> ids_drawn s \<le> ids_drawn t"

lemma quiet_simps [simp]:
  "quiet s s" "quiet s (record_audit E p a k i m s)" "quiet s (push_event E ids k j s)"
  "quiet s (announced E i s)" "quiet s (rate_state E i s)" "quiet s (s\<lparr>clock_reads := n\<rparr>)"
  by (simp_all add: quiet_def)

lemma quiet_trans: "quiet s t \<Longrightarrow> quiet t u \<Longrightarrow> quiet s u"
  by (auto simp: quiet_def)

lemma chat_wf_quiet: "chat_wf E s \<Longrightarrow> quiet s t \<Longrightarrow> chat_wf E t"
  by (auto simp: chat_wf_def quiet_def intro: fresh_wf_mono)

lemma announce_added_quiet: "st_wp (announce_added E i ids) (\<lambda>r u. quiet s u \<and> (\<forall>p. r \<noteq> Panic p)) s"
proof (induction ids arbitrary: s)
  case (Cons k ids)
  have "st_wp (announce_added E i ids) (\<lambda>r u. quiet s u \<and> (\<forall>p. r \<noteq> Panic p)) t" if "quiet s t" for t
    by (rule st_wp_mono [OF Cons.IH]) (use that in \<open>auto intro: quiet_trans\<close>)
  then show ?case by (simp add: wp quiet_def)
qed (simp add: wp)

lemma add_members_wf:
  assumes "chat_wf E s" "hm_get (cs_conversations s) i \<noteq> None"
  shows "st_wp (add_members i existing ws t ids) (\<lambda>_ u. chat_wf E u \<and> hm_get (cs_conversations u) i \<noteq> None) s"
proof (rule st_wp_mono [OF add_members_more [OF assms(2)]])
  fix r and u :: chat_state
  assume "more_members s u i \<and> (\<forall>p. r \<noteq> Panic p)"
  then have same: "cs_principals u = cs_principals s" "ids_drawn u = ids_drawn s" and
      "\<exists>c d. hm_get (cs_conversations s) i = Some c \<and>
        map_of (cs_conversations u) = (map_of (cs_conversations s))(i \<mapsto> d) \<and>
        cv_id d = cv_id c \<and>
        (bt_wf (cv_members c) \<longrightarrow> bt_wf (cv_members d) \<and>
          (\<forall>k. hm_get (cv_members c) k \<noteq> None \<longrightarrow> hm_get (cv_members d) k \<noteq> None))"
    by (auto simp: more_members_def)
  then obtain c d where c: "hm_get (cs_conversations s) i = Some c"
    and u: "map_of (cs_conversations u) = (map_of (cs_conversations s))(i \<mapsto> d)"
    and d: "cv_id d = cv_id c" "bt_wf (cv_members c) \<longrightarrow> bt_wf (cv_members d) \<and>
          (\<forall>k. hm_get (cv_members c) k \<noteq> None \<longrightarrow> hm_get (cv_members d) k \<noteq> None)"
    by blast
  from convs_wfD [OF chat_wfD(2) [OF assms(1)] c] d
  have "cv_id d = i" "bt_wf (cv_members d)" "has_human (cs_principals s) (cv_members d)"
    by (auto elim: has_human_more)
  then have "convs_wf (cs_principals s) (cs_conversations u)"
    using chat_wfD(2) [OF assms(1)] by (simp add: convs_wf_def u)
  moreover have "fresh_wf E (ids_drawn s) (cs_principals s) (cs_conversations u)"
    using chat_wfD(3) [OF assms(1)] c by (auto simp: fresh_wf_def u)
  ultimately show "chat_wf E u \<and> hm_get (cs_conversations u) i \<noteq> None"
    using chat_wfD(1) [OF assms(1)] by (simp add: chat_wf_def same u)
qed

lemma add_group_members_wf:
  assumes "chat_wf E s"
  shows "st_wp (add_group_members E i request) (\<lambda>_ t. chat_wf E t) s"
proof -
  have base: "chat_wf E (rate_state E k s)" "chat_wf E ((rate_state E k s)\<lparr>clock_reads := n\<rparr>)" for k n
    using assms by (auto simp: quiet_def intro!: chat_wf_quiet [OF assms])
  have tail: "chat_wf E w" if "chat_wf E u" "quiet (record_audit E p a k i' m u) w" for u w p a k i' m
    using that by (meson chat_wf_quiet quiet_simps(2))
  show ?thesis
    unfolding add_group_members_def
    by (auto simp: wp find_conversation_Inr base split: exec.split option.splits
        intro!: st_wp_mono [OF add_members_wf] st_wp_mono [OF announce_added_quiet] intro: tail)
qed

lemma insert_principal_frame [simp]:
  "cs_principals (insert_principal p s) = hm_insert (p_id p) p (cs_principals s)"
  "cs_conversations (insert_principal p s) = cs_conversations s"
  "cs_direct_index (insert_principal p s) = cs_direct_index s"
  "ids_drawn (insert_principal p s) = ids_drawn s"
  by (simp_all add: insert_principal_def)

lemma fresh_wf_person_put:
  "fresh_wf E n P C \<Longrightarrow> hm_get P i = Some q \<Longrightarrow> n \<le> m \<Longrightarrow> fresh_wf E m (hm_insert i p P) C"
  by (auto simp: fresh_wf_def intro: unused_from_mono)

lemma people_wf_get: "people_wf P \<Longrightarrow> hm_get P k = Some p \<Longrightarrow> p_id p = k"
  by (simp add: people_wf_def)

lemma ensure_local_operator_wf:
  assumes "chat_wf E s" "uuid_ok A E"
  shows "st_wp (ensure_local_operator A E ws d) (\<lambda>_ t. chat_wf E t) s"
proof -
  note wf = chat_wfD [OF assms(1)]
  have "unused_from E n (local_user_principal_id A ws d)" for n
    using assms(2) by (simp add: uuid_ok_def unused_from_def)
  then show ?thesis
    unfolding chat_wf_def ensure_local_operator_def
    by (auto simp: wp Let_def wf split: option.splits
        intro!: people_wf_insert [OF wf(1)] convs_wf_person [OF wf(2)] fresh_wf_person [OF wf(3)])
qed

lemma create_principal_wf:
  assumes "chat_wf E s" "uuid_ok A E"
  shows "st_wp (create_principal E request) (\<lambda>_ t. chat_wf E t) s"
proof -
  note wf = chat_wfD [OF assms(1)]
  have "inj (env_uuid E)" using assms(2) by (simp add: uuid_ok_def)
  then show ?thesis
    unfolding chat_wf_def create_principal_def
    by (auto simp: wp Let_def wf fresh_not_person [OF wf(3)]
        intro!: people_wf_insert [OF wf(1)] convs_wf_person [OF wf(2)] fresh_wf_person [OF wf(3)] unused_from_drawn)
qed

lemma create_agent_wf:
  assumes "chat_wf E s" "uuid_ok A E"
  shows "st_wp (create_agent A E request) (\<lambda>_ t. chat_wf E t) s"
proof -
  note wf = chat_wfD [OF assms(1)]
  have "inj (env_uuid E)" using assms(2) by (simp add: uuid_ok_def)
  then show ?thesis
    unfolding chat_wf_def create_agent_def
    by (auto simp: wp Let_def wf fresh_not_person [OF wf(3)]
        intro!: people_wf_insert [OF wf(1)] convs_wf_person [OF wf(2)] fresh_wf_person [OF wf(3)] unused_from_drawn
          fresh_wf_mono [OF wf(3)])
qed

lemma rotate_agent_secret_wf:
  assumes "chat_wf E s"
  shows "st_wp (rotate_agent_secret A E agent actor) (\<lambda>_ t. chat_wf E t) s"
proof -
  note wf = chat_wfD [OF assms(1)]
  show ?thesis
    unfolding chat_wf_def rotate_agent_secret_def
    by (auto simp: wp Let_def wf people_wf_get [OF wf(1)] split: option.splits
        intro!: people_wf_insert [OF wf(1)] convs_wf_person [OF wf(2)] fresh_wf_person_put [OF wf(3)]
          fresh_wf_mono [OF wf(3)])
qed

lemma disable_principal_wf:
  assumes "chat_wf E s"
  shows "st_wp (disable_principal_inner E actor target rate) (\<lambda>_ t. chat_wf E t) s"
proof -
  note wf = chat_wfD [OF assms(1)]
  show ?thesis
    unfolding chat_wf_def disable_principal_inner_def
    by (cases rate) (auto simp: wp Let_def wf people_wf_get [OF wf(1)] split: option.splits
        intro!: people_wf_insert [OF wf(1)] convs_wf_person [OF wf(2)] fresh_wf_person_put [OF wf(3)]
          fresh_wf_mono [OF wf(3)])
qed

lemma migrate_principal_wf:
  assumes "chat_wf E s"
  shows "st_wp (migrate_principal_workspace E p ws actor) (\<lambda>_ t. chat_wf E t) s"
proof -
  note wf = chat_wfD [OF assms(1)]
  show ?thesis
    unfolding chat_wf_def migrate_principal_workspace_def
    by (auto simp: wp Let_def wf people_wf_get [OF wf(1)] split: option.splits
        intro!: people_wf_insert [OF wf(1)] convs_wf_person [OF wf(2)] fresh_wf_person_put [OF wf(3)]
          fresh_wf_mono [OF wf(3)])
qed

lemma set_principal_secret_hash_wf:
  assumes "chat_wf E s"
  shows "chat_wf E (set_principal_secret_hash p h s)"
  using chat_wfD [OF assms]
  by (auto simp: set_principal_secret_hash_def chat_wf_def people_wf_get split: option.splits
      intro!: people_wf_insert convs_wf_person fresh_wf_person_put)

text \<open>A row mirrored from the database keeps the type of a known principal.\<close>

definition principal_row_ok :: "env \<Rightarrow> principal \<Rightarrow> chat_state \<Rightarrow> bool" where
  "principal_row_ok E p s \<longleftrightarrow> unused_from E (ids_drawn s) (p_id p) \<and>
     (\<forall>q. hm_get (cs_principals s) (p_id p) = Some q \<longrightarrow> p_principal_type q = p_principal_type p)"

lemma inject_principal_wf:
  assumes "chat_wf E s" "principal_row_ok E p s"
  shows "chat_wf E (inject_principal p s)"
  using chat_wfD [OF assms(1)] assms(2)
  by (auto simp: inject_principal_def chat_wf_def principal_row_ok_def
      intro!: people_wf_insert convs_wf_person fresh_wf_person)

definition conversation_row_ok :: "env \<Rightarrow> conversation \<Rightarrow> chat_state \<Rightarrow> bool" where
  "conversation_row_ok E c s \<longleftrightarrow> unused_from E (ids_drawn s) (cv_id c) \<and> bt_wf (cv_members c) \<and>
     has_human (cs_principals s) (cv_members c)"

lemma inject_conversation_wf:
  assumes "chat_wf E s" "conversation_row_ok E c s"
  shows "chat_wf E (inject_conversation c s)"
proof (cases "hm_get (cs_conversations s) (cv_id c)")
  case None
  then show ?thesis
    using chat_wfD [OF assms(1)] assms(2)
    by (auto simp: inject_conversation_def chat_wf_def conversation_row_ok_def intro!: convs_wf_insert fresh_wf_conv)
next
  case (Some d)
  from convs_wfD [OF chat_wfD(2) [OF assms(1)] Some]
  have d: "cv_id d = cv_id c" "bt_wf (cv_members d)" "has_human (cs_principals s) (cv_members d)" .
  let ?ms = "fold (\<lambda>(k, v). or_insert map_of bt_insert k v) (cv_members c) (cv_members d)"
  have ms: "bt_wf ?ms" "map_of ?ms = map_of (cv_members c) ++ map_of (cv_members d)"
    using bt.fold_or_insert [OF d(2)] by blast+
  have "has_human (cs_principals s) ?ms"
    by (rule has_human_more [OF d(3)]) (auto simp: ms(2) map_add_def split: option.splits)
  with d(1) ms(1) Some show ?thesis
    using chat_wfD [OF assms(1)] unfolding inject_conversation_def chat_wf_def
    by (auto intro!: convs_wf_insert fresh_wf_put)
qed

end
