(* ===== verification/Chat_Index.thy ===== *)
theory Chat_Index
  imports Chat_Membership
begin

text \<open>
  The index of direct conversations and the step relation of the chat application. \<open>edit_step\<close>
  is any operation but a deletion, \<open>chat_step\<close> any operation.
\<close>

section \<open>The index of direct conversations\<close>

lemma index_wfD:
  assumes "index_wf C X" "hm_get X k = Some i"
  shows "\<exists>c l r. hm_get C i = Some c \<and> cv_conversation_type c = Direct \<and>
           k = direct_key (cv_workspace_id c) l r \<and> is_member l c \<and> is_member r c"
  using assms unfolding index_wf_def by blast

lemma index_wf_fresh: "index_wf C X \<Longrightarrow> hm_get C i = None \<Longrightarrow> hm_get X k \<noteq> Some i"
  using index_wfD by fastforce

lemma index_wf_new:
  assumes "index_wf C X" "hm_get C i = None"
  shows "index_wf (hm_insert i c C) X"
proof -
  have "hm_get X k = Some j \<Longrightarrow> j \<noteq> i" for k j using index_wf_fresh [OF assms] by blast
  with assms(1) show ?thesis by (simp add: index_wf_def)
qed

lemma index_wf_edit:
  assumes "index_wf C X" "hm_get C i = Some c" "map_of D = (map_of C)(i \<mapsto> d)"
    "cv_conversation_type d = cv_conversation_type c" "cv_workspace_id d = cv_workspace_id c"
    "\<And>k. cv_conversation_type c = Direct \<Longrightarrow> is_member k c \<Longrightarrow> is_member k d"
  shows "index_wf D X"
proof -
  have "\<exists>e l r. hm_get D j = Some e \<and> cv_conversation_type e = Direct \<and>
      k = direct_key (cv_workspace_id e) l r \<and> is_member l e \<and> is_member r e"
    if "hm_get X k = Some j" for k j
  proof -
    from index_wfD [OF assms(1) that] obtain e l r where e: "hm_get C j = Some e"
      "cv_conversation_type e = Direct" "k = direct_key (cv_workspace_id e) l r" "is_member l e" "is_member r e"
      by blast
    show ?thesis
    proof (cases "j = i")
      case True
      with e assms(2) have "e = c" by simp
      with e assms(4-6) True show ?thesis by (auto simp: assms(3))
    next
      case False
      with e show ?thesis by (auto simp: assms(3))
    qed
  qed
  with assms(1) show ?thesis unfolding index_wf_def by blast
qed

lemma index_wf_create:
  assumes "index_wf C X" "hm_get C i = None" "cv_conversation_type c = Direct"
    "key = direct_key (cv_workspace_id c) l r" "is_member l c" "is_member r c"
  shows "index_wf (hm_insert i c C) (hm_insert key i X)"
proof -
  have no: "hm_get X k = Some j \<Longrightarrow> j \<noteq> i" for k j using index_wf_fresh [OF assms(1,2)] by blast
  with assms show ?thesis by (auto simp: index_wf_def simp del: split_paired_All)
qed

lemma index_wf_migrate:
  assumes "index_wf C X" "hm_get C i = Some c" "hm_get X (ws, l, r) = Some i"
    "cv_conversation_type d = Direct" "cv_workspace_id d = ws'" "cv_members d = cv_members c"
  shows "index_wf (hm_insert i d C) (hm_insert (direct_key ws' l r) i (hm_remove (ws, l, r) X))"
proof -
  from index_wfD [OF assms(1,3)] assms(2) obtain a b
    where "(ws, l, r) = direct_key (cv_workspace_id c) a b" "is_member a c" "is_member b c" by auto
  then have lr: "is_member l d" "is_member r d"
    using assms(6) by (auto simp: direct_key_def is_member_def split: if_splits)
  have one: "hm_get X k = Some i \<Longrightarrow> k = (ws, l, r)" for k
    using assms(1,3) unfolding index_wf_def by blast
  have keep: "\<exists>e a b. hm_get (hm_insert i d C) j = Some e \<and> cv_conversation_type e = Direct \<and>
      k = direct_key (cv_workspace_id e) a b \<and> is_member a e \<and> is_member b e"
    if "hm_get X k = Some j" "k \<noteq> (ws, l, r)" for k j
  proof -
    from that one have "j \<noteq> i" by blast
    with index_wfD [OF assms(1) that(1)] show ?thesis by auto
  qed
  show ?thesis
    unfolding index_wf_def
  proof (intro conjI allI impI)
    show "hm_wf (hm_insert (direct_key ws' l r) i (hm_remove (ws, l, r) X))"
      using assms(1) by (simp add: index_wf_def)
  next
    fix k j
    assume k: "hm_get (hm_insert (direct_key ws' l r) i (hm_remove (ws, l, r) X)) k = Some j"
    show "\<exists>e a b. hm_get (hm_insert i d C) j = Some e \<and> cv_conversation_type e = Direct \<and>
      k = direct_key (cv_workspace_id e) a b \<and> is_member a e \<and> is_member b e"
    proof (cases "k = direct_key ws' l r")
      case True
      with k have "j = i" by simp
      with True assms(4,5) lr show ?thesis by auto
    next
      case False
      with k have "hm_get X k = Some j" "k \<noteq> (ws, l, r)" by (auto split: if_splits)
      then show ?thesis by (rule keep)
    qed
  next
    fix k k' j
    assume "hm_get (hm_insert (direct_key ws' l r) i (hm_remove (ws, l, r) X)) k = Some j"
      "hm_get (hm_insert (direct_key ws' l r) i (hm_remove (ws, l, r) X)) k' = Some j"
    then show "k = k'"
      using one assms(1) unfolding index_wf_def
      by (auto simp del: split_paired_All split: if_splits)
  qed
qed

abbreviation index_ok :: "chat_state \<Rightarrow> bool" where
  "index_ok s \<equiv> index_wf (cs_conversations s) (cs_direct_index s)"

lemma index_quiet: "index_ok s \<Longrightarrow> quiet s t \<Longrightarrow> index_ok t"
  by (simp add: quiet_def)

section \<open>Every operation but a deletion keeps the index\<close>

lemma new_direct_index:
  assumes "chat_wf E s" "index_ok s" "key = direct_key ws (p_id a) (p_id b)"
    "hm_get (cs_principals s) (p_id a) = Some a" "hm_get (cs_principals s) (p_id b) = Some b"
  shows "st_wp (new_direct E a b ws key) (\<lambda>_ t. index_ok t) s"
proof -
  note wf = chat_wfD [OF assms(1)]
  have none: "hm_get (cs_conversations s) (env_uuid E (ids_drawn s)) = None"
    by (rule fresh_not_conv [OF wf(3)]) simp
  show ?thesis
    unfolding new_direct_def st_wp_bind st_wp_now exec.case
    by (rule st_wp_mono [OF direct_members_human])
       (use assms wf none in \<open>auto simp: wp Let_def is_member_def split: exec.splits intro!: index_wf_create [where l = "p_id a" and r = "p_id b"]\<close>)
qed

lemma create_direct_index:
  assumes "chat_wf E s" "index_ok s"
  shows "st_wp (create_direct_conversation E request) (\<lambda>_ t. index_ok t) s"
proof -
  let ?t = "rate_state E (cd_actor_id request) s"
  have wf: "chat_wf E ?t" "index_ok ?t" using assms by (auto intro: chat_wf_quiet)
  show ?thesis using wf
    by (auto simp: create_direct_conversation_def wp Let_def require_active_Inr split: option.splits
        intro!: new_direct_index dest: chat_wf_personD)
qed

lemma create_group_index:
  assumes "chat_wf E s" "index_ok s"
  shows "st_wp (create_group E request) (\<lambda>_ t. index_ok t) s"
  unfolding create_group_def
  by (auto simp: wp Let_def assms fresh_not_conv [OF chat_wfD(3) [OF assms(1)]] intro!: index_wf_new)

lemma add_members_index:
  assumes "chat_wf E s" "index_ok s" "hm_get (cs_conversations s) i \<noteq> None"
  shows "st_wp (add_members i existing ws t ids) (\<lambda>_ u. index_wf (cs_conversations u) (cs_direct_index s)) s"
proof (rule st_wp_mono [OF add_members_more [OF assms(3)]])
  fix r and u :: chat_state
  assume "more_members s u i \<and> (\<forall>p. r \<noteq> Panic p)"
  then obtain c d where c: "hm_get (cs_conversations s) i = Some c"
    "map_of (cs_conversations u) = (map_of (cs_conversations s))(i \<mapsto> d)"
    "cv_workspace_id d = cv_workspace_id c" "cv_conversation_type d = cv_conversation_type c"
    "bt_wf (cv_members c) \<longrightarrow> (\<forall>k. hm_get (cv_members c) k \<noteq> None \<longrightarrow> hm_get (cv_members d) k \<noteq> None)"
    unfolding more_members_def by blast
  from convs_wfD(2) [OF chat_wfD(2) [OF assms(1)] c(1)] c(5)
  have "is_member k c \<Longrightarrow> is_member k d" for k by (simp add: is_member_def)
  then show "index_wf (cs_conversations u) (cs_direct_index s)"
    by (intro index_wf_edit [OF assms(2) c(1,2,4,3)])
qed

lemma add_members_keeps_index:
  "st_wp (add_members i existing ws t ids) (\<lambda>_ u. cs_direct_index u = cs_direct_index s) s"
proof (induction ids arbitrary: s)
  case (Cons k ids)
  have "st_wp (add_members i existing ws t ids) (\<lambda>_ u. cs_direct_index u = cs_direct_index s) v"
    if "cs_direct_index v = cs_direct_index s" for v
    by (rule st_wp_mono [OF Cons.IH]) (simp add: that)
  with Cons.IH [of s] show ?case by (simp add: wp cong: exec.case_cong)
qed (simp add: wp)

lemma add_group_members_index:
  assumes "chat_wf E s" "index_ok s"
  shows "st_wp (add_group_members E i request) (\<lambda>_ t. index_ok t) s"
proof -
  have members: "st_wp (add_members i existing ws t ids) (\<lambda>_ u. index_ok u) v"
    if "quiet s v" "hm_get (cs_conversations s) i \<noteq> None" for existing ws t ids v
  proof -
    have v: "chat_wf E v" "index_ok v" "hm_get (cs_conversations v) i \<noteq> None"
      using that assms by (auto simp: quiet_def intro: chat_wf_quiet)
    from add_members_index [OF v, of existing ws t ids] add_members_keeps_index [of i existing ws t ids v]
    show ?thesis by (simp add: st_wp_def split: prod.splits)
  qed
  have tail: "st_wp (announce_added E i ids) (\<lambda>_ u. index_ok u) (record_audit E p a k j m v)"
    if "index_ok v" for ids p a k j m v
    by (rule st_wp_mono [OF announce_added_quiet]) (use that in \<open>simp add: quiet_def\<close>)
  have q: "quiet s (rate_state E k s)" "quiet s ((rate_state E k s)\<lparr>clock_reads := n\<rparr>)" for k n
    by (simp_all add: quiet_def)
  show ?thesis
    unfolding add_group_members_def
    by (auto simp: wp find_conversation_Inr q assms split: exec.split option.splits
        intro!: st_wp_mono [OF members] st_wp_mono [OF tail])
qed

lemma remove_group_member_index:
  assumes "index_ok s"
  shows "st_wp (remove_group_member E i actor target) (\<lambda>_ t. index_ok t) s"
  unfolding remove_group_member_def
  by (auto simp: wp Let_def find_conversation_Inr assms intro!: index_wf_edit [OF assms])

lemma update_group_index:
  assumes "index_ok s"
  shows "st_wp (update_group E i request) (\<lambda>_ t. index_ok t) s"
  unfolding update_group_def
  by (auto simp: wp Let_def find_conversation_Inr assms intro!: index_wf_edit [OF assms])

lemma put_conversation_index_frame [simp]:
  "cs_direct_index (reindex_direct w None c s) = cs_direct_index s"
  by (simp add: reindex_direct_def)

lemma migrate_conversation_index:
  assumes "chat_wf E s" "index_ok s"
  shows "st_wp (migrate_conversation_workspace E i ws actor) (\<lambda>_ t. index_ok t) s"
proof -
  have found: "hm_get (cs_direct_index s) k = Some i"
    if "find (\<lambda>(k, j). j = i) (cs_direct_index s) = Some (k, j)" for k j
  proof -
    from that have "(k, i) \<in> set (cs_direct_index s)"
      by (auto simp: find_Some_iff in_set_conv_nth)
    with assms(2) show ?thesis by (simp add: index_wf_def hm_wf_def)
  qed
  have absent: "hm_get (cs_direct_index s) k \<noteq> Some i"
    if "find (\<lambda>(k, j). j = i) (cs_direct_index s) = None" for k
    using that by (cases k) (auto simp: find_None_iff dest: map_of_SomeD)
  have main: "index_wf (hm_insert i c' (cs_conversations s))
      (cs_direct_index (reindex_direct ws (map_option fst (find (\<lambda>(k, j). j = i) (cs_direct_index s))) c'
        (put_conversation i c' (s\<lparr>clock_reads := n\<rparr>))))"
    if c: "hm_get (cs_conversations s) i = Some c" and c': "c' = c\<lparr>cv_workspace_id := ws, cv_updated_at := t\<rparr>" for c c' t n
  proof (cases "find (\<lambda>(k, j). j = i) (cs_direct_index s)")
    case None
    have "hm_get (cs_direct_index s) k = Some j \<Longrightarrow> j \<noteq> i" for k j using absent [OF None] by blast
    with assms(2) show ?thesis by (simp add: None index_wf_def del: split_paired_All)
  next
    case (Some kj)
    obtain w l r j where kj: "kj = ((w, l, r), j)" by (cases kj) auto
    from found Some have get: "hm_get (cs_direct_index s) (w, l, r) = Some i" by (simp add: kj)
    with index_wfD [OF assms(2) get] c have direct: "cv_conversation_type c' = Direct" by (auto simp: c')
    have "cv_id c' = i" using convs_wfD(1) [OF chat_wfD(2) [OF assms(1)] c] by (simp add: c')
    with index_wf_migrate [OF assms(2) c get direct, of ws] direct show ?thesis
      by (simp add: Some kj reindex_direct_def get c')
  qed
  show ?thesis
    unfolding migrate_conversation_workspace_def
    by (auto simp: wp Let_def find_conversation_Inr assms intro!: main [OF _ refl])
qed

lemma inject_conversation_index:
  assumes "chat_wf E s" "index_ok s"
  shows "index_ok (inject_conversation c s)"
proof (cases "hm_get (cs_conversations s) (cv_id c)")
  case None
  with assms(2) show ?thesis by (simp add: inject_conversation_def index_wf_new)
next
  case (Some d)
  let ?ms = "fold (\<lambda>(k, v). or_insert map_of bt_insert k v) (cv_members c) (cv_members d)"
  have "bt_wf (cv_members d)" using convs_wfD(2) [OF chat_wfD(2) [OF assms(1)] Some] .
  from bt.fold_or_insert [OF this] have "map_of ?ms = map_of (cv_members c) ++ map_of (cv_members d)" by blast
  then have "is_member k d \<Longrightarrow> is_member k (d\<lparr>cv_members := ?ms\<rparr>)" for k
    by (auto simp: is_member_def map_add_def split: option.splits)
  with Some show ?thesis
    by (auto simp: inject_conversation_def intro!: index_wf_edit [OF assms(2) Some])
qed

section \<open>Steps\<close>

text \<open>
  One call of the application's interface, with whatever arguments and however it ends. Rows
  mirrored from the database satisfy the row conditions.
\<close>

inductive edit_step :: "auth_env \<Rightarrow> env \<Rightarrow> chat_state \<Rightarrow> chat_state \<Rightarrow> bool" for A E where
  operator: "ensure_local_operator A E ws d s = (r, t) \<Longrightarrow> edit_step A E s t"
| person: "create_principal E request s = (r, t) \<Longrightarrow> edit_step A E s t"
| agent: "create_agent A E request s = (r, t) \<Longrightarrow> edit_step A E s t"
| rotate: "rotate_agent_secret A E agent actor s = (r, t) \<Longrightarrow> edit_step A E s t"
| disable: "disable_principal_inner E actor target rate s = (r, t) \<Longrightarrow> edit_step A E s t"
| move_person: "migrate_principal_workspace E p ws actor s = (r, t) \<Longrightarrow> edit_step A E s t"
| secret_hash: "edit_step A E s (set_principal_secret_hash p h s)"
| mirror_person: "principal_row_ok E p s \<Longrightarrow> edit_step A E s (inject_principal p s)"
| mirror_company: "edit_step A E s (inject_company company members s)"
| mirror_conversation: "conversation_row_ok E c s \<Longrightarrow> edit_step A E s (inject_conversation c s)"
| mirror_message: "edit_step A E s (inject_message_with_event E m s)"
| direct: "create_direct_conversation E request s = (r, t) \<Longrightarrow> edit_step A E s t"
| group: "create_group E request s = (r, t) \<Longrightarrow> edit_step A E s t"
| add: "add_group_members E i request s = (r, t) \<Longrightarrow> edit_step A E s t"
| remove: "remove_group_member E i actor target s = (r, t) \<Longrightarrow> edit_step A E s t"
| update: "update_group E i request s = (r, t) \<Longrightarrow> edit_step A E s t"
| move_conversation: "migrate_conversation_workspace E i ws actor s = (r, t) \<Longrightarrow> edit_step A E s t"
| webhook: "set_event_webhook E x p request s = (r, t) \<Longrightarrow> edit_step A E s t"
| mirror_webhook: "edit_step A E s (inject_event_webhook config s)"
| delivered: "mark_webhook_delivered E p n s = (r, t) \<Longrightarrow> edit_step A E s t"
| ack: "ack_events p n s = (r, t) \<Longrightarrow> edit_step A E s t"
| align: "edit_step A E s (ensure_event_seq_at_least p n s)"

inductive chat_step :: "auth_env \<Rightarrow> env \<Rightarrow> chat_state \<Rightarrow> chat_state \<Rightarrow> bool" for A E where
  edit: "edit_step A E s t \<Longrightarrow> chat_step A E s t"
| delete: "delete_conversation E actor i s = (r, t) \<Longrightarrow> chat_step A E s t"

lemma event_ops_quiet:
  "quiet s (inject_company company members s)"
  "quiet s (inject_message_with_event E m s)"
  "quiet s (inject_event_webhook config s)"
  "quiet s (ensure_event_seq_at_least p n s)"
  "mark_webhook_delivered E p n s = (q, t) \<Longrightarrow> quiet s t"
  "ack_events p n s = (q, t) \<Longrightarrow> quiet s t"
  by (auto simp: quiet_def inject_company_def inject_message_with_event_def inject_event_webhook_def
      ensure_event_seq_at_least_def mark_webhook_delivered_def ack_events_def now_def Let_def
      split: prod.splits bool.splits option.splits sum.splits)

lemma set_event_webhook_quiet: "st_wp (set_event_webhook E x p request) (\<lambda>_ t. quiet s t) s"
  unfolding set_event_webhook_def by (simp add: wp Let_def quiet_def cong: exec.case_cong)

lemma edit_step_wf:
  assumes "edit_step A E s t" "chat_wf E s" "uuid_ok A E"
  shows "chat_wf E t"
proof -
  have inj: "inj (env_uuid E)" using assms(3) by (simp add: uuid_ok_def)
  note quiet = chat_wf_quiet [OF assms(2)]
  from assms(1) show ?thesis
    by cases
       (use assms(2,3) inj in \<open>auto intro: st_wpI [OF ensure_local_operator_wf] st_wpI [OF create_principal_wf]
          st_wpI [OF create_agent_wf] st_wpI [OF rotate_agent_secret_wf] st_wpI [OF disable_principal_wf]
          st_wpI [OF migrate_principal_wf] set_principal_secret_hash_wf inject_principal_wf
          inject_conversation_wf st_wpI [OF create_direct_wf] st_wpI [OF create_group_wf]
          st_wpI [OF add_group_members_wf] st_wpI [OF remove_group_member_wf] st_wpI [OF update_group_wf]
          st_wpI [OF migrate_conversation_wf] quiet event_ops_quiet st_wpI [OF set_event_webhook_quiet]\<close>)
qed

lemma chat_step_wf:
  assumes "chat_step A E s t" "chat_wf E s" "uuid_ok A E"
  shows "chat_wf E t"
  using assms by cases (auto intro: edit_step_wf st_wpI [OF delete_wf])

lemma chat_steps_wf:
  assumes "(chat_step A E)\<^sup>*\<^sup>* s t" "chat_wf E s" "uuid_ok A E"
  shows "chat_wf E t"
  using assms(1,2) by induction (auto intro: chat_step_wf assms(3))

lemma people_ops_index:
  "ensure_local_operator A E ws d s = (q, t) \<Longrightarrow> index_ok t = index_ok s"
  "create_principal E pr s = (q, t) \<Longrightarrow> index_ok t = index_ok s"
  "create_agent A E ar s = (q', t) \<Longrightarrow> index_ok t = index_ok s"
  "rotate_agent_secret A E agent actor s = (q', t) \<Longrightarrow> index_ok t = index_ok s"
  "migrate_principal_workspace E p ws actor s = (q, t) \<Longrightarrow> index_ok t = index_ok s"
  by (auto elim!: st_wpI [rotated] split del: if_split
      simp: wp Let_def ensure_local_operator_def create_principal_def create_agent_def rotate_agent_secret_def
        migrate_principal_workspace_def cong: exec.case_cong split: option.split)

lemma disable_principal_index:
  "disable_principal_inner E actor target rate s = (q, t) \<Longrightarrow> index_ok t = index_ok s"
  by (cases rate)
     (auto elim!: st_wpI [rotated] simp: wp Let_def disable_principal_inner_def cong: exec.case_cong split: option.split)

lemma edit_step_index:
  assumes "edit_step A E s t" "chat_wf E s" "index_ok s"
  shows "index_ok t"
proof -
  note quiet = index_quiet [OF assms(3)]
  have pure: "index_ok (set_principal_secret_hash p h s)" "index_ok (inject_principal p' s)" for p h p'
    using assms(3) by (auto simp: set_principal_secret_hash_def inject_principal_def split: option.splits)
  from assms(1) show ?thesis
    by cases
       (use assms(2,3) pure in \<open>auto simp: people_ops_index disable_principal_index
          intro: inject_conversation_index st_wpI [OF create_direct_index] st_wpI [OF create_group_index]
          st_wpI [OF add_group_members_index] st_wpI [OF remove_group_member_index] st_wpI [OF update_group_index]
          st_wpI [OF migrate_conversation_index] quiet event_ops_quiet st_wpI [OF set_event_webhook_quiet]\<close>)
qed

lemma edit_steps_ok:
  assumes "(edit_step A E)\<^sup>*\<^sup>* s t" "chat_wf E s" "index_ok s" "uuid_ok A E"
  shows "chat_wf E t \<and> index_ok t"
  using assms(1-3) by induction (auto intro: edit_step_wf [OF _ _ assms(4)] edit_step_index)

lemma new_app_ok: "chat_wf E (new_app w)" "index_ok (new_app w)"
  by (simp_all add: new_app_def empty_state_def chat_wf_def people_wf_def convs_wf_def fresh_wf_def index_wf_def)

end
