(* ===== verification/Chat_Props.thy ===== *)
theory Chat_Props
  imports Chat_Index "HOL-Library.Code_Target_Nat"
begin

text \<open>
  What the chat application guarantees about conversations: humans stay in every conversation, a
  pair has one direct conversation per workspace until it is deleted, and which calls leave the
  state alone when they fail.
\<close>

section \<open>A sample application\<close>

lemma rate_verdict_first:
  "hm_get (cs_rate_limit_windows s) k = None \<Longrightarrow> 0 < cs_rate_limit_per_minute s \<Longrightarrow> rate_verdict E k s = Inr ()"
  by (simp add: rate_verdict_def check_rate_limit_def check_window_def now_def)

definition demo_chat_env :: env where
  "demo_chat_env = \<lparr>env_uuid = (\<lambda>n. ''id'' @ replicate n (CHR ''+'')), env_clock = (\<lambda>n. int n)\<rparr>"

definition demo_auth_env :: auth_env where
  "demo_auth_env = \<lparr>ax_sha256_hex = (\<lambda>s. s), ax_hmac = (\<lambda>k s. k @ s), ax_base64_encode = (\<lambda>s. s),
     ax_base64_decode = Some, ax_claims_to_vec = (\<lambda>c. Some (sc_principal_id c)),
     ax_claims_from_slice = (\<lambda>s. None)\<rparr>"

definition demo_person :: "string \<Rightarrow> create_principal_request" where
  "demo_person n = \<lparr>cp_workspace_id = ''ws'', cp_principal_type = Human, cp_name = n, cp_avatar_url = None\<rparr>"

definition demo_agent :: create_agent_request where
  "demo_agent = \<lparr>ca_actor_id = ''id'', ca_name = ''bot'', ca_scopes = [], ca_workspace_id = None,
     ca_channel_visibility = None\<rparr>"

definition demo_direct :: create_direct_conversation_request where
  "demo_direct = \<lparr>cd_actor_id = ''id'', cd_peer_principal_id = ''id+'', cd_workspace_id = None\<rparr>"

definition demo_start :: chat_state where
  "demo_start = new_app \<lparr>ids_drawn = 0, clock_reads = 0\<rparr>"

definition demo_people :: chat_state where
  "demo_people = snd (create_principal demo_chat_env (demo_person ''bo'')
     (snd (create_principal demo_chat_env (demo_person ''al'') demo_start)))"

definition al :: principal where
  "al = snd (cs_principals demo_people ! 0)"

definition bo :: principal where
  "bo = snd (cs_principals demo_people ! 1)"

definition demo_chat :: chat_state where
  "demo_chat = snd (create_direct_conversation demo_chat_env demo_direct demo_people)"

definition demo_conversation :: conversation where
  "demo_conversation =
     \<lparr>cv_id = ''id++'', cv_workspace_id = ''ws'', cv_conversation_type = Direct, cv_name = None,
      cv_description = None, cv_avatar_url = None, cv_creator_id = ''id'', cv_created_at = 3, cv_updated_at = 3,
      cv_members = [(''id'', joined ''id'' 3), (''id+'', joined ''id+'' 3)]\<rparr>"

lemma demo_facts:
  "rate_verdict demo_chat_env ''id'' demo_people = Inr ()"
  "require_active_principal demo_people ''id'' = Inr al" "require_active_principal demo_people ''id+'' = Inr bo"
  "principal_can_access_workspace demo_people al ''ws''" "principal_can_access_workspace demo_people bo ''ws''"
  "p_workspace_id al = ''ws''" "p_id al = ''id''" "p_id bo = ''id+''" "p_principal_type al = Human"
  "cs_direct_index demo_people = []" "ids_drawn demo_people = 2" "cs_conversations demo_people = []"
  "clock_reads (rate_state demo_chat_env ''id'' demo_people) = 3" "cs_rate_limit_windows demo_people = []"
  "cs_rate_limit_per_minute demo_people = 600"
  "bt_of_list [(''id'', joined ''id'' 3), (''id+'', joined ''id+'' 3)] = cv_members demo_conversation"
  "cd_actor_id demo_direct = ''id''" "cd_peer_principal_id demo_direct = ''id+''"
  "cd_workspace_id demo_direct = None" "env_uuid demo_chat_env 2 = ''id++''" "env_clock demo_chat_env 3 = 3"
  by code_simp+

lemma demo_direct_wp:
  "st_wp (create_direct_conversation demo_chat_env demo_direct)
     (\<lambda>r t. r = Ret demo_conversation \<and> cs_principals t = cs_principals demo_people \<and>
       cs_companies t = cs_companies demo_people \<and> cs_company_members t = cs_company_members demo_people \<and>
       hm_get (cs_conversations t) ''id++'' = Some demo_conversation \<and>
       cs_rate_limit_per_minute t = 600 \<and> hm_get (cs_rate_limit_windows t) ''id+'' = None) demo_people"
  by (simp add: create_direct_conversation_def new_direct_def workspace_or_def wp Let_def demo_facts)
     (simp add: demo_conversation_def)

lemma demo_direct_run:
  "create_direct_conversation demo_chat_env demo_direct demo_people = (Ret demo_conversation, demo_chat)"
  "hm_get (cs_conversations demo_chat) ''id++'' = Some demo_conversation"
  "cs_rate_limit_per_minute demo_chat = 600" "hm_get (cs_rate_limit_windows demo_chat) ''id+'' = None"
  "require_active_principal demo_chat = require_active_principal demo_people"
  "principal_can_access_workspace demo_chat = principal_can_access_workspace demo_people"
  using demo_direct_wp
  by (auto simp: st_wp_def demo_chat_def fun_eq_iff require_active_principal_def
      principal_can_access_workspace_def cong: option.case_cong split: prod.splits)

lemma demo_uuid_ok: "uuid_ok demo_auth_env demo_chat_env"
  by (simp add: uuid_ok_def demo_chat_env_def demo_auth_env_def local_user_principal_id_def inj_def)

lemma demo_people_steps: "(edit_step demo_auth_env demo_chat_env)\<^sup>*\<^sup>* demo_start demo_people"
  unfolding demo_people_def
  by (rule rtranclp_trans [OF r_into_rtranclp r_into_rtranclp]; rule edit_step.person; rule surjective_pairing)

lemma demo_chat_steps: "(edit_step demo_auth_env demo_chat_env)\<^sup>*\<^sup>* demo_start demo_chat"
  unfolding demo_chat_def
  by (rule rtranclp.rtrancl_into_rtrancl [OF demo_people_steps]) (rule edit_step.direct, rule surjective_pairing)

section \<open>Humans stay in every conversation\<close>

lemma edit_steps_chat_steps: "(edit_step A E)\<^sup>*\<^sup>* s t \<Longrightarrow> (chat_step A E)\<^sup>*\<^sup>* s t"
  by (erule rtranclp_mono [THEN predicate2D, rotated]) (auto intro: chat_step.edit)



section \<open>One direct conversation per pair\<close>

lemma create_direct_found:
  assumes "create_direct_conversation E q s = (r, t)" "rate_verdict E (cd_actor_id q) s = Inr ()"
    "cd_actor_id q \<noteq> cd_peer_principal_id q"
    "require_active_principal s (cd_actor_id q) = Inr a" "require_active_principal s (cd_peer_principal_id q) = Inr b"
    "principal_can_access_workspace s a ws" "principal_can_access_workspace s b ws"
    "workspace_or (cd_workspace_id q) (p_workspace_id a) = ws"
    "hm_get (cs_direct_index s) (direct_key ws (p_id a) (p_id b)) = Some i"
  shows "r = (case hm_get (cs_conversations s) i of Some c \<Rightarrow> Ret c | None \<Rightarrow> Fail (Internal ''direct index is inconsistent''))"
    "t = rate_state E (cd_actor_id q) s"
proof -
  have "st_wp (create_direct_conversation E q) (\<lambda>r t. r = (case hm_get (cs_conversations s) i of Some c \<Rightarrow> Ret c | None \<Rightarrow> Fail (Internal ''direct index is inconsistent'')) \<and> t = rate_state E (cd_actor_id q) s) s"
    using assms(2-) by (auto simp: create_direct_conversation_def wp Let_def split: option.splits)
  from st_wpI [OF this assms(1)] show "r = (case hm_get (cs_conversations s) i of Some c \<Rightarrow> Ret c | None \<Rightarrow> Fail (Internal ''direct index is inconsistent''))"
    "t = rate_state E (cd_actor_id q) s" by blast+
qed

lemma direct_key_sym: "direct_key ws x y = direct_key ws y x"
  by (auto simp: direct_key_def)

text \<open>What a successful call leaves: both parties are active, and the index names the conversation.\<close>

definition direct_known :: "create_direct_conversation_request \<Rightarrow> conversation \<Rightarrow> chat_state \<Rightarrow> bool" where
  "direct_known q c t \<longleftrightarrow> cd_actor_id q \<noteq> cd_peer_principal_id q \<and>
     (\<exists>a b. require_active_principal t (cd_actor_id q) = Inr a \<and>
        require_active_principal t (cd_peer_principal_id q) = Inr b \<and>
        principal_can_access_workspace t a (cv_workspace_id c) \<and>
        principal_can_access_workspace t b (cv_workspace_id c) \<and>
        p_id a = cd_actor_id q \<and> p_id b = cd_peer_principal_id q \<and>
        workspace_or (cd_workspace_id q) (p_workspace_id a) = cv_workspace_id c \<and>
        hm_get (cs_direct_index t) (direct_key (cv_workspace_id c) (cd_actor_id q) (cd_peer_principal_id q)) =
          Some (cv_id c))"

lemma same_checks:
  assumes "cs_principals t = cs_principals s" "cs_companies t = cs_companies s"
    "cs_company_members t = cs_company_members s"
  shows "require_active_principal t = require_active_principal s"
    "principal_can_access_workspace t = principal_can_access_workspace s"
  using assms by (simp_all add: fun_eq_iff require_active_principal_def principal_can_access_workspace_def
      cong: option.case_cong)

lemma direct_known_frame:
  assumes "cs_principals t = cs_principals s" "cs_companies t = cs_companies s"
    "cs_company_members t = cs_company_members s" "cs_direct_index t = cs_direct_index s"
  shows "direct_known q c t = direct_known q c s"
  using assms(4) by (simp add: direct_known_def same_checks [OF assms(1-3)])

lemma new_direct_known:
  assumes "chat_wf E s" "require_active_principal s (cd_actor_id q) = Inr a"
    "require_active_principal s (cd_peer_principal_id q) = Inr b" "cd_actor_id q \<noteq> cd_peer_principal_id q"
    "workspace_or (cd_workspace_id q) (p_workspace_id a) = ws"
    "principal_can_access_workspace s a ws" "principal_can_access_workspace s b ws"
  shows "st_wp (new_direct E a b ws (direct_key ws (p_id a) (p_id b)))
    (\<lambda>r t. (\<forall>m. r \<noteq> Fail (Internal m)) \<and>
       (\<forall>c. r = Ret c \<longrightarrow> direct_known q c t \<and> hm_get (cs_conversations t) (cv_id c) = Some c)) s"
proof -
  from chat_wf_personD(1) [OF assms(1)] assms(2,3)
  have ids: "p_id a = cd_actor_id q" "p_id b = cd_peer_principal_id q"
    by (auto simp: require_active_Inr)
  have known: "direct_known q c t"
    if "cs_principals t = cs_principals s" "cs_companies t = cs_companies s"
      "cs_company_members t = cs_company_members s" "cv_workspace_id c = ws"
      "hm_get (cs_direct_index t) (direct_key ws (p_id a) (p_id b)) = Some (cv_id c)" for c t
    using assms that(4,5) ids by (simp add: direct_known_def same_checks [OF that(1-3)])
  have conflict: "responsible_human w u = Inl e \<Longrightarrow> e \<noteq> Internal m" for w u e m
    by (auto simp: responsible_human_def Let_def split: option.splits if_splits list.splits)
  show ?thesis
    unfolding new_direct_def
    by (auto simp: wp Let_def split: if_splits intro!: known dest: conflict)
qed

lemma create_direct_known:
  assumes "chat_wf E s" "index_ok s"
  shows "st_wp (create_direct_conversation E q)
    (\<lambda>r t. r \<noteq> Fail (Internal ''direct index is inconsistent'') \<and>
       (\<forall>c. r = Ret c \<longrightarrow> direct_known q c t \<and> hm_get (cs_conversations t) (cv_id c) = Some c)) s"
proof -
  let ?t = "rate_state E (cd_actor_id q) s"
  have wf: "chat_wf E ?t" using assms(1) by (auto intro: chat_wf_quiet)
  have limited: "rate_verdict E k s \<noteq> Inl (Internal m)" for k m
    by (auto simp: rate_verdict_def check_rate_limit_def check_window_def Let_def split: prod.splits if_splits)
  have inactive: "require_active_principal s k \<noteq> Inl (Internal m)" for k m
    by (auto simp: require_active_principal_def split: option.splits if_splits)
  have found: "cv_id c = i \<and> cv_workspace_id c = w \<and> hm_get (cs_conversations s) i = Some c"
    if "hm_get (cs_direct_index s) (direct_key w x y) = Some i" "hm_get (cs_conversations s) i = Some c" for w x y i c
    using index_wfD [OF assms(2) that(1)] that(2) convs_wfD(1) [OF chat_wfD(2) [OF assms(1)] that(2)]
    by (auto simp: direct_key_def split: if_splits)
  have present: "hm_get (cs_conversations s) i \<noteq> None"
    if "hm_get (cs_direct_index s) k = Some i" for k i
    using index_wfD [OF assms(2) that] by auto
  have known: "direct_known q c ?t"
    if "cd_actor_id q \<noteq> cd_peer_principal_id q" "require_active_principal s (cd_actor_id q) = Inr a"
      "require_active_principal s (cd_peer_principal_id q) = Inr b"
      "principal_can_access_workspace s a w" "principal_can_access_workspace s b w"
      "workspace_or (cd_workspace_id q) (p_workspace_id a) = w"
      "hm_get (cs_direct_index s) (direct_key w (p_id a) (p_id b)) = Some i"
      "hm_get (cs_conversations s) i = Some c" for a b w i c
    using that found [OF that(7,8)] chat_wf_personD(1) [OF assms(1)]
    by (auto simp: direct_known_def require_active_Inr)
  show ?thesis
    unfolding create_direct_conversation_def
    by (auto simp: wp Let_def limited inactive split: option.splits
        intro!: st_wp_mono [OF new_direct_known [OF wf, of q]] dest: found present intro: known)
qed

lemma direct_known_again:
  assumes "direct_known q c t"
    "cd_actor_id q' = cd_actor_id q \<and> cd_peer_principal_id q' = cd_peer_principal_id q \<or>
     cd_actor_id q' = cd_peer_principal_id q \<and> cd_peer_principal_id q' = cd_actor_id q"
    "\<And>a. require_active_principal t (cd_actor_id q') = Inr a \<Longrightarrow>
       workspace_or (cd_workspace_id q') (p_workspace_id a) = cv_workspace_id c"
    "rate_verdict E (cd_actor_id q') t = Inr ()" "create_direct_conversation E q' t = (r, u)"
  shows "r = (case hm_get (cs_conversations t) (cv_id c) of
            Some c \<Rightarrow> Ret c | None \<Rightarrow> Fail (Internal ''direct index is inconsistent'')) \<and>
         cs_conversations u = cs_conversations t"
proof -
  from assms(1) obtain a b where known: "cd_actor_id q \<noteq> cd_peer_principal_id q"
    "require_active_principal t (cd_actor_id q) = Inr a" "require_active_principal t (cd_peer_principal_id q) = Inr b"
    "principal_can_access_workspace t a (cv_workspace_id c)" "principal_can_access_workspace t b (cv_workspace_id c)"
    "p_id a = cd_actor_id q" "p_id b = cd_peer_principal_id q"
    "hm_get (cs_direct_index t) (direct_key (cv_workspace_id c) (cd_actor_id q) (cd_peer_principal_id q)) = Some (cv_id c)"
    unfolding direct_known_def by blast
  from assms(2) show ?thesis
  proof
    assume q': "cd_actor_id q' = cd_actor_id q \<and> cd_peer_principal_id q' = cd_peer_principal_id q"
    with known assms(3) show ?thesis
      using create_direct_found [OF assms(5,4), of a b "cv_workspace_id c" "cv_id c"] by simp
  next
    assume q': "cd_actor_id q' = cd_peer_principal_id q \<and> cd_peer_principal_id q' = cd_actor_id q"
    with known assms(3) show ?thesis
      using create_direct_found [OF assms(5,4), of b a "cv_workspace_id c" "cv_id c"]
      by (simp add: direct_key_sym [of _ "cd_peer_principal_id q"])
  qed
qed


definition demo_reverse :: create_direct_conversation_request where
  "demo_reverse = \<lparr>cd_actor_id = ''id+'', cd_peer_principal_id = ''id'', cd_workspace_id = Some ''ws''\<rparr>"

lemma demo_reverse_facts:
  "cd_actor_id demo_reverse = ''id+''" "cd_peer_principal_id demo_reverse = ''id''"
  "workspace_or (cd_workspace_id demo_reverse) x = ''ws''" "cv_workspace_id demo_conversation = ''ws''"
  by (simp_all add: demo_reverse_def workspace_or_def demo_conversation_def trim_def trim_start_def is_whitespace_def)

lemma demo_rate: "rate_verdict demo_chat_env ''id+'' demo_chat = Inr ()"
  by (rule rate_verdict_first) (simp_all add: demo_direct_run)


section \<open>A deleted direct conversation\<close>

text \<open>
  C23: deleting a direct conversation locks its pair out. The deletion keeps the index entry of the
  conversation, so the next attempt of either party to start a direct conversation in that workspace
  fails with an internal error instead of creating one.
\<close>

theorem deleted_direct_conversation_locks_pair:
  assumes "uuid_ok A E" "(edit_step A E)\<^sup>*\<^sup>* (new_app w) s"
    "create_direct_conversation E q s = (Ret c, t)" "delete_conversation E actor (cv_id c) t = (Ret (), u)"
    "cd_actor_id q' = cd_actor_id q \<and> cd_peer_principal_id q' = cd_peer_principal_id q \<or>
     cd_actor_id q' = cd_peer_principal_id q \<and> cd_peer_principal_id q' = cd_actor_id q"
    "\<And>a. require_active_principal u (cd_actor_id q') = Inr a \<Longrightarrow>
       workspace_or (cd_workspace_id q') (p_workspace_id a) = cv_workspace_id c"
    "rate_verdict E (cd_actor_id q') u = Inr ()"
  shows "fst (create_direct_conversation E q' u) = Fail (Internal ''direct index is inconsistent'')"
proof -
  from edit_steps_ok [OF assms(2) new_app_ok assms(1)] have "chat_wf E s" "index_ok s" by blast+
  from st_wpI [OF create_direct_known [OF this] assms(3)] have known: "direct_known q c t" by blast
  have "st_wp (delete_conversation E actor (cv_id c))
      (\<lambda>r u. r = Ret () \<longrightarrow> hm_get (cs_conversations u) (cv_id c) = None \<and> cs_principals u = cs_principals t \<and>
         cs_companies u = cs_companies t \<and> cs_company_members u = cs_company_members t \<and>
         cs_direct_index u = cs_direct_index t) t"
    unfolding delete_conversation_def by (simp add: wp)
  from st_wpI [OF this assms(4)] have gone: "hm_get (cs_conversations u) (cv_id c) = None"
    "cs_principals u = cs_principals t" "cs_companies u = cs_companies t"
    "cs_company_members u = cs_company_members t" "cs_direct_index u = cs_direct_index t" by blast+
  have "direct_known q c u" using known by (simp add: direct_known_frame [OF gone(2-5)])
  obtain r v where run: "create_direct_conversation E q' u = (r, v)" by (rule prod.exhaust)
  from direct_known_again [OF \<open>direct_known q c u\<close> assms(5-7) run] gone(1) run show ?thesis by simp
qed

definition demo_deleted :: chat_state where
  "demo_deleted = snd (delete_conversation demo_chat_env ''id'' ''id++'' demo_chat)"

lemma demo_delete_wp:
  "st_wp (delete_conversation demo_chat_env ''id'' ''id++'') (\<lambda>r t. r = Ret () \<and>
     cs_rate_limit_per_minute t = 600 \<and> hm_get (cs_rate_limit_windows t) ''id+'' = None) demo_chat"
  by (simp add: delete_conversation_def wp demo_direct_run demo_facts find_conversation_def
      is_member_def demo_conversation_def)

lemma demo_delete_run:
  "delete_conversation demo_chat_env ''id'' ''id++'' demo_chat = (Ret (), demo_deleted)"
  "cs_rate_limit_per_minute demo_deleted = 600" "hm_get (cs_rate_limit_windows demo_deleted) ''id+'' = None"
  using demo_delete_wp by (auto simp: st_wp_def demo_deleted_def split: prod.splits)

theorem deleted_direct_conversation_locks_pair_witness:
  "delete_conversation demo_chat_env ''id'' ''id++'' demo_chat = (Ret (), demo_deleted) \<and>
   fst (create_direct_conversation demo_chat_env demo_reverse demo_deleted) =
     Fail (Internal ''direct index is inconsistent'')"
proof -
  have steps: "(edit_step demo_auth_env demo_chat_env)\<^sup>*\<^sup>* (new_app \<lparr>ids_drawn = 0, clock_reads = 0\<rparr>) demo_people"
    using demo_people_steps by (simp add: demo_start_def)
  have id: "cv_id demo_conversation = ''id++''" by (simp add: demo_conversation_def)
  have rate: "rate_verdict demo_chat_env ''id+'' demo_deleted = Inr ()"
    by (rule rate_verdict_first) (simp_all add: demo_delete_run)
  have "fst (create_direct_conversation demo_chat_env demo_reverse demo_deleted) =
      Fail (Internal ''direct index is inconsistent'')"
    by (rule deleted_direct_conversation_locks_pair [OF demo_uuid_ok steps demo_direct_run(1), unfolded id,
          OF demo_delete_run(1)])
       (simp_all add: demo_reverse_facts demo_facts rate)
  with demo_delete_run(1) show ?thesis by blast
qed

end
