(* ===== verification/Chat_Errors.thy ===== *)
theory Chat_Errors
  imports Chat_Props
begin

text \<open>
  How calls of the chat application fail: which of them leave the state alone, the one that does
  not, and that none of them panics, so the lock around the state is never poisoned.
\<close>

section \<open>Failed calls change nothing\<close>

text \<open>Equal states up to the identifiers drawn, the clock and the rate-limit windows.\<close>

definition same_core :: "chat_state \<Rightarrow> chat_state \<Rightarrow> bool" where
  "same_core s t \<longleftrightarrow> (\<exists>n m w. t = s\<lparr>ids_drawn := n, clock_reads := m, cs_rate_limit_windows := w\<rparr>)"

lemma same_core_refl [simp]: "same_core s s"
  unfolding same_core_def by (rule exI [of _ "ids_drawn s"], rule exI [of _ "clock_reads s"],
      rule exI [of _ "cs_rate_limit_windows s"]) simp

lemma same_core_draws [simp]:
  "same_core s (t\<lparr>ids_drawn := n\<rparr>) = same_core s t" "same_core s (t\<lparr>clock_reads := n\<rparr>) = same_core s t"
  unfolding same_core_def by (cases s; cases t; auto)+

lemma same_core_rate [simp]: "same_core s (rate_state E k s)"
  unfolding same_core_def rate_state_def check_rate_limit_def now_def Let_def
  by (cases s) (auto split: prod.splits)

inductive failed_call :: "auth_env \<Rightarrow> env \<Rightarrow> chat_state \<Rightarrow> app_error \<Rightarrow> chat_state \<Rightarrow> bool" for A E where
  "ensure_local_operator A E ws d s = (Fail e, t) \<Longrightarrow> failed_call A E s e t"
| "create_principal E pr s = (Fail e, t) \<Longrightarrow> failed_call A E s e t"
| "create_agent A E ar s = (Fail e, t) \<Longrightarrow> failed_call A E s e t"
| "rotate_agent_secret A E agent actor s = (Fail e, t) \<Longrightarrow> failed_call A E s e t"
| "disable_principal_inner E actor target rate s = (Fail e, t) \<Longrightarrow> failed_call A E s e t"
| "migrate_principal_workspace E p ws actor s = (Fail e, t) \<Longrightarrow> failed_call A E s e t"
| "delete_conversation E actor i s = (Fail e, t) \<Longrightarrow> failed_call A E s e t"
| "create_direct_conversation E dr s = (Fail e, t) \<Longrightarrow> failed_call A E s e t"
| "create_group E gr s = (Fail e, t) \<Longrightarrow> failed_call A E s e t"
| "remove_group_member E i actor target s = (Fail e, t) \<Longrightarrow> failed_call A E s e t"
| "update_group E i ur s = (Fail e, t) \<Longrightarrow> failed_call A E s e t"
| "migrate_conversation_workspace E i ws actor s = (Fail e, t) \<Longrightarrow> failed_call A E s e t"
| "set_event_webhook E x p wr s = (Fail e, t) \<Longrightarrow> failed_call A E s e t"
| "mark_webhook_delivered E p n s = (Fail e, t) \<Longrightarrow> failed_call A E s e t"
| "ack_events p n s = (Fail e, t) \<Longrightarrow> failed_call A E s e t"

lemma failed_wp:
  "st_wp m (\<lambda>r t. (\<forall>e. r = Fail e \<longrightarrow> same_core s t)) s \<Longrightarrow> m s = (Fail e, t) \<Longrightarrow> same_core s t"
  by (auto dest: st_wpI)

lemmas principal_op_defs = ensure_local_operator_def create_principal_def create_agent_def
  rotate_agent_secret_def migrate_principal_workspace_def

lemma principal_ops_atomic:
  "ensure_local_operator A E ws d s = (Fail e, t) \<Longrightarrow> same_core s t"
  "create_principal E pr s = (Fail e, t) \<Longrightarrow> same_core s t"
  "create_agent A E ar s = (Fail e, t) \<Longrightarrow> same_core s t"
  "rotate_agent_secret A E agent actor s = (Fail e, t) \<Longrightarrow> same_core s t"
  "migrate_principal_workspace E p ws actor s = (Fail e, t) \<Longrightarrow> same_core s t"
  "disable_principal_inner E actor target True s = (Fail e, t) \<Longrightarrow> same_core s t"
  "disable_principal_inner E actor target False s = (Fail e, t) \<Longrightarrow> same_core s t"
  by (erule failed_wp [rotated], auto simp: principal_op_defs disable_principal_inner_def wp Let_def split: option.splits)+

lemma conversation_ops_atomic:
  "delete_conversation E actor i s = (Fail e, t) \<Longrightarrow> same_core s t"
  "create_direct_conversation E dr s = (Fail e, t) \<Longrightarrow> same_core s t"
  "create_group E gr s = (Fail e, t) \<Longrightarrow> same_core s t"
  "remove_group_member E i actor target s = (Fail e, t) \<Longrightarrow> same_core s t"
  "update_group E i ur s = (Fail e, t) \<Longrightarrow> same_core s t"
  "migrate_conversation_workspace E i ws actor s = (Fail e, t) \<Longrightarrow> same_core s t"
  by (erule failed_wp [rotated], auto simp: delete_conversation_def create_direct_conversation_def
      new_direct_def create_group_def remove_group_member_def update_group_def
      migrate_conversation_workspace_def wp Let_def split: option.splits if_splits)+

lemma event_ops_atomic:
  "set_event_webhook E x p wr s = (Fail e, t) \<Longrightarrow> same_core s t"
  "mark_webhook_delivered E p n s = (Fail e, t) \<Longrightarrow> same_core s t"
  "ack_events p n s = (Fail e, t) \<Longrightarrow> same_core s t"
  subgoal by (erule failed_wp [rotated], auto simp: set_event_webhook_def wp Let_def split: option.splits if_splits)
  by (auto simp: mark_webhook_delivered_def ack_events_def Let_def split: option.splits sum.splits prod.splits)

text \<open>
  C24: a failed call changes nothing. When any call of the application but adding group members
  returns an error, principals, conversations, the index, the audit log, event queues, cursors and
  webhooks are as before: only the rate-limit window, the clock and the identifiers drawn differ.
\<close>

theorem failed_call_changes_nothing:
  assumes "failed_call A E s e t"
  shows "\<exists>n m w. t = s\<lparr>ids_drawn := n, clock_reads := m, cs_rate_limit_windows := w\<rparr>"
proof -
  have "same_core s t" using assms
  proof cases
    case (5 actor target rate)
    then show ?thesis by (cases rate) (auto dest: principal_ops_atomic)
  qed (auto dest: principal_ops_atomic conversation_ops_atomic event_ops_atomic)
  then show ?thesis by (simp add: same_core_def)
qed

lemma demo_failed: "delete_conversation demo_chat_env ''id'' ''id'' demo_people =
    (Fail (NotFound ''conversation not found''), demo_people)"
proof -
  have "st_wp (delete_conversation demo_chat_env ''id'' ''id'')
      (\<lambda>r t. r = Fail (NotFound ''conversation not found'') \<and> t = demo_people) demo_people"
    by (simp add: delete_conversation_def wp demo_facts find_conversation_def)
  then show ?thesis by (auto simp: st_wp_def split: prod.splits)
qed

theorem failed_call_changes_nothing_witness:
  "failed_call demo_auth_env demo_chat_env demo_people (NotFound ''conversation not found'') demo_people \<and>
   (\<exists>n m w. demo_people = demo_people\<lparr>ids_drawn := n, clock_reads := m, cs_rate_limit_windows := w\<rparr>)"
proof -
  have "failed_call demo_auth_env demo_chat_env demo_people (NotFound ''conversation not found'') demo_people"
    by (rule failed_call.intros(7) [OF demo_failed])
  with failed_call_changes_nothing [OF this] show ?thesis by blast
qed

section \<open>Adding group members is not atomic\<close>

definition addable :: "chat_state \<Rightarrow> conversation \<Rightarrow> string \<Rightarrow> bool" where
  "addable s c k \<longleftrightarrow> \<not> is_member k c \<and>
     (\<exists>m. require_active_principal s k = Inr m \<and> p_id m = k \<and> principal_can_access_workspace s m (cv_workspace_id c))"

lemma member_ids_is_member: "k \<in> set (member_ids c) \<longleftrightarrow> is_member k c"
  by (auto simp: member_ids_def is_member_def hm_keys_dom)

lemma put_conversation_checks [simp]:
  "require_active_principal (put_conversation i d s) = require_active_principal s"
  "principal_can_access_workspace (put_conversation i d s) = principal_can_access_workspace s"
  by (rule same_checks; simp)+

lemma add_members_stops:
  assumes "hm_get (cs_conversations s) i = Some d" "bt_wf (cv_members d)"
    "\<And>k. k \<in> set ks \<Longrightarrow> addable s c k" "\<not> is_member bad c" "require_active_principal s bad = Inl e"
  shows "st_wp (add_members i (member_ids c) (cv_workspace_id c) t (ks @ bad # rest))
    (\<lambda>r u. r = Fail e \<and> cs_audit_logs u = cs_audit_logs s \<and> cs_events u = cs_events s \<and>
       (\<exists>d'. hm_get (cs_conversations u) i = Some d' \<and>
          set (member_ids d') = set (member_ids d) \<union> set ks)) s"
  using assms
proof (induction ks arbitrary: s d)
  case Nil
  then show ?case by (auto simp: member_ids_is_member wp)
next
  case (Cons k ks)
  from Cons.prems(3) [of k] obtain m where m: "require_active_principal s k = Inr m" "p_id m = k"
    "principal_can_access_workspace s m (cv_workspace_id c)" "k \<notin> set (member_ids c)"
    by (auto simp: addable_def member_ids_is_member)
  let ?d = "d\<lparr>cv_members := bt_insert k (joined k t) (cv_members d)\<rparr>"
  let ?s = "put_conversation i ?d s"
  have "st_wp (add_members i (member_ids c) (cv_workspace_id c) t (ks @ bad # rest))
    (\<lambda>r u. r = Fail e \<and> cs_audit_logs u = cs_audit_logs ?s \<and> cs_events u = cs_events ?s \<and>
       (\<exists>d'. hm_get (cs_conversations u) i = Some d' \<and>
          set (member_ids d') = set (member_ids ?d) \<union> set ks)) ?s"
    by (rule Cons.IH) (use Cons.prems in \<open>auto simp: addable_def\<close>)
  then have "st_wp (add_members i (member_ids c) (cv_workspace_id c) t (ks @ bad # rest))
    (\<lambda>r u. r = Fail e \<and> cs_audit_logs u = cs_audit_logs s \<and> cs_events u = cs_events s \<and>
       (\<exists>d'. hm_get (cs_conversations u) i = Some d' \<and>
          set (member_ids d') = set (member_ids d) \<union> set (k # ks))) ?s"
    by (rule st_wp_mono)
       (use Cons.prems(2) in \<open>auto simp: member_ids_def bt.keys_ins\<close>)
  then show ?case
    using m Cons.prems(1) by (auto simp: wp elim!: st_wp_mono)
qed

text \<open>
  Adding group members is not atomic. When some requested member is unknown or disabled, the
  call returns that error, but every addable member named before it has already joined the group,
  and neither the audit log nor any event queue mentions it.
\<close>

theorem add_group_members_partial:
  assumes "chat_wf E s" "hm_get (cs_conversations s) i = Some c" "cv_conversation_type c = Group"
    "rate_verdict E (ag_actor_id q) s = Inr ()" "require_active_principal s (ag_actor_id q) = Inr a"
    "is_member (p_id a) c" "principal_can_access_workspace s a (cv_workspace_id c)"
    "ag_member_ids q = ks @ bad # rest" "list_all (addable s c) ks" "\<not> is_member bad c"
    "require_active_principal s bad = Inl e" "add_group_members E i q s = (r, t)"
  shows "r = Fail e \<and> cs_audit_logs t = cs_audit_logs s \<and> cs_events t = cs_events s \<and>
    (\<exists>d. hm_get (cs_conversations t) i = Some d \<and> set (member_ids d) = set (member_ids c) \<union> set ks)"
proof -
  have wf: "bt_wf (cv_members c)" using chat_wf_convD(2) [OF assms(1,2)] .
  have checks: "require_active_principal (u\<lparr>clock_reads := n\<rparr>) = require_active_principal u"
    "principal_can_access_workspace (u\<lparr>clock_reads := n\<rparr>) = principal_can_access_workspace u" for u n
    by (rule same_checks; simp)+
  have loop: "st_wp (add_members i (member_ids c) (cv_workspace_id c) x (ks @ bad # rest))
    (\<lambda>r u. r = Fail e \<and> cs_audit_logs u = cs_audit_logs s \<and> cs_events u = cs_events s \<and>
       (\<exists>d'. hm_get (cs_conversations u) i = Some d' \<and> set (member_ids d') = set (member_ids c) \<union> set ks))
    ((rate_state E k s)\<lparr>clock_reads := n\<rparr>)" for x k n
    by (rule st_wp_mono [OF add_members_stops [where d = c and e = e]])
       (use assms wf in \<open>auto simp: addable_def list_all_iff checks\<close>)
  have "st_wp (add_group_members E i q)
    (\<lambda>r t. r = Fail e \<and> cs_audit_logs t = cs_audit_logs s \<and> cs_events t = cs_events s \<and>
      (\<exists>d. hm_get (cs_conversations t) i = Some d \<and> set (member_ids d) = set (member_ids c) \<union> set ks)) s"
    unfolding add_group_members_def
    using assms(2-11) by (auto simp: wp find_conversation_def checks intro!: st_wp_mono [OF loop])
  from st_wpI [OF this assms(12)] show ?thesis .
qed

definition demo_group :: conversation where
  "demo_group =
     \<lparr>cv_id = ''g'', cv_workspace_id = ''ws'', cv_conversation_type = Group, cv_name = None,
      cv_description = None, cv_avatar_url = None, cv_creator_id = ''id'', cv_created_at = 0, cv_updated_at = 0,
      cv_members = [(''id'', joined ''id'' 0)]\<rparr>"

definition demo_group_chat :: chat_state where
  "demo_group_chat = inject_conversation demo_group demo_people"

definition demo_add :: add_group_members_request where
  "demo_add = \<lparr>ag_actor_id = ''id'', ag_member_ids = [''id+'', ''nobody'']\<rparr>"

lemma demo_group_wf: "chat_wf demo_chat_env demo_group_chat"
proof -
  have "chat_wf demo_chat_env demo_people"
    using edit_steps_ok [OF demo_people_steps _ _ demo_uuid_ok] new_app_ok by (simp add: demo_start_def)
  moreover have "hm_get (cs_principals demo_people) ''id'' = Some al" "p_principal_type al = Human"
    by code_simp+
  then have "conversation_row_ok demo_chat_env demo_group demo_people"
    by (auto simp: conversation_row_ok_def demo_group_def unused_from_def demo_chat_env_def bt_wf_def
        intro: has_human_member [where k = "''id''"])
  ultimately show ?thesis unfolding demo_group_chat_def by (rule inject_conversation_wf)
qed

lemma demo_group_facts:
  "hm_get (cs_conversations demo_group_chat) ''g'' = Some demo_group" "cv_conversation_type demo_group = Group"
  "rate_verdict demo_chat_env (ag_actor_id demo_add) demo_group_chat = Inr ()"
  "require_active_principal demo_group_chat (ag_actor_id demo_add) = Inr al" "is_member (p_id al) demo_group"
  "principal_can_access_workspace demo_group_chat al (cv_workspace_id demo_group)"
  "ag_member_ids demo_add = [''id+''] @ ''nobody'' # []" "\<not> is_member ''nobody'' demo_group"
  "require_active_principal demo_group_chat ''nobody'' = Inl (NotFound ''principal not found'')"
  "\<not> is_member ''id+'' demo_group" "require_active_principal demo_group_chat ''id+'' = Inr bo" "p_id bo = ''id+''"
  "principal_can_access_workspace demo_group_chat bo (cv_workspace_id demo_group)"
  "member_ids demo_group = [''id'']"
  by code_simp+

theorem add_group_members_partial_witness:
  "fst (add_group_members demo_chat_env ''g'' demo_add demo_group_chat) = Fail (NotFound ''principal not found'') \<and>
   (\<exists>d. hm_get (cs_conversations (snd (add_group_members demo_chat_env ''g'' demo_add demo_group_chat))) ''g'' = Some d \<and>
      set (member_ids d) = {''id'', ''id+''})"
proof -
  have "list_all (addable demo_group_chat demo_group) [''id+'']"
    using demo_group_facts by (simp add: addable_def)
  from add_group_members_partial [OF demo_group_wf demo_group_facts(1-7) this demo_group_facts(8,9) surjective_pairing]
  show ?thesis by (auto simp: demo_group_facts(14))
qed

section \<open>No call panics\<close>

lemma not_panic_wp: "st_wp m (\<lambda>r _. \<forall>p. r \<noteq> Panic p) s \<Longrightarrow> fst (m s) \<noteq> Panic p"
  by (auto simp: st_wp_def split: prod.splits)

lemma group_ops_no_panic:
  "st_wp (remove_group_member E i actor target) (\<lambda>r _. \<forall>p. r \<noteq> Panic p) s"
  "st_wp (update_group E i ug) (\<lambda>r _. \<forall>p. r \<noteq> Panic p) s"
  "st_wp (create_group E cg) (\<lambda>r _. \<forall>p. r \<noteq> Panic p) s"
  "st_wp (create_direct_conversation E cd) (\<lambda>r _. \<forall>p. r \<noteq> Panic p) s"
  "st_wp (migrate_conversation_workspace E i ws actor) (\<lambda>r _. \<forall>p. r \<noteq> Panic p) s"
  "st_wp (delete_conversation E actor i) (\<lambda>r _. \<forall>p. r \<noteq> Panic p) s"
  by (auto simp: remove_group_member_def update_group_def create_group_def create_direct_conversation_def
      new_direct_def migrate_conversation_workspace_def delete_conversation_def find_conversation_Inr
      wp Let_def split: option.splits if_splits)

lemma add_group_members_no_panic: "st_wp (add_group_members E i ag) (\<lambda>r _. \<forall>p. r \<noteq> Panic p) s"
proof -
  have loop: "st_wp (add_members i existing ws t ids) (\<lambda>r u. \<forall>p. r \<noteq> Panic p) v"
    if "hm_get (cs_conversations v) i \<noteq> None" for existing ws t ids v
    by (rule st_wp_mono [OF add_members_more [OF that]]) simp
  have tail: "st_wp (announce_added E i ids) (\<lambda>r u. \<forall>p. r \<noteq> Panic p) v" for ids v
    by (rule st_wp_mono [OF announce_added_quiet]) simp
  show ?thesis
    unfolding add_group_members_def
    by (auto simp: wp find_conversation_Inr split: exec.split option.splits
        intro!: st_wp_mono [OF loop] st_wp_mono [OF tail])
qed

text \<open>
  No panic. No call on conversations reaches one of its \<^verbatim>\<open>expect\<close> calls, so no call ends with
  the write lock held and poisons it for every later call.
\<close>

theorem chat_calls_never_panic:
  "fst (add_group_members E i ag s) \<noteq> Panic m \<and> fst (remove_group_member E i actor target s) \<noteq> Panic m \<and>
   fst (update_group E i ug s) \<noteq> Panic m \<and> fst (create_group E cg s) \<noteq> Panic m \<and>
   fst (create_direct_conversation E cd s) \<noteq> Panic m \<and>
   fst (migrate_conversation_workspace E i ws actor s) \<noteq> Panic m \<and>
   fst (delete_conversation E actor i s) \<noteq> Panic m"
  by (intro conjI; rule not_panic_wp; rule group_ops_no_panic add_group_members_no_panic)

end
