(* ===== verification/Chat_Limits.thy ===== *)
theory Chat_Limits
  imports Chat_Membership "HOL-Library.Sublist" "HOL-Library.Code_Target_Nat"
begin

text \<open>
  The two bounded windows of the chat application: the sliding-window rate limit of
  \<^verbatim>\<open>rate_limit.rs\<close> and the window of recently announced message ids of \<^verbatim>\<open>state.rs\<close>.
\<close>

section \<open>Rate limit\<close>

text \<open>The requests of one principal that are let through, in order, when they arrive at given times.\<close>

fun rate_run :: "nat \<Rightarrow> timestamp list \<Rightarrow> timestamp list \<Rightarrow> timestamp list" where
  "rate_run limit entries [] = []"
| "rate_run limit entries (at # ats) =
     (case check_window entries limit at of
        (Inr _, entries') \<Rightarrow> at # rate_run limit entries' ats
      | (Inl _, entries') \<Rightarrow> rate_run limit entries' ats)"

text \<open>Each admitted request had fewer than \<open>limit\<close> admitted ones in the minute before it.\<close>

definition spaced :: "nat \<Rightarrow> timestamp list \<Rightarrow> bool" where
  "spaced limit acc \<longleftrightarrow>
     (\<forall>i < length acc. length (filter (\<lambda>y. y > acc ! i - WINDOW_NANOS) (take i acc)) < limit)"

lemma spaced_snoc:
  "spaced limit (acc @ [x]) \<longleftrightarrow> spaced limit acc \<and> length (filter (\<lambda>y. y > x - WINDOW_NANOS) acc) < limit"
  by (auto simp: spaced_def nth_append less_Suc_eq)

lemma filter_window:
  "prev \<le> at \<Longrightarrow> filter (\<lambda>t. t > at - WINDOW_NANOS) (filter (\<lambda>t. t > prev - WINDOW_NANOS) acc) =
     filter (\<lambda>t. t > at - WINDOW_NANOS) acc"
  by (induction acc) auto

lemma rate_run_spaced:
  assumes "spaced limit acc" "entries = filter (\<lambda>t. t > prev - WINDOW_NANOS) acc" "sorted (prev # ats)"
  shows "spaced limit (acc @ rate_run limit entries ats)"
  using assms
proof (induction ats arbitrary: acc entries prev)
  case (Cons at ats)
  let ?kept = "filter (\<lambda>t. t > at - WINDOW_NANOS) acc"
  have kept: "filter (\<lambda>t. t > at - WINDOW_NANOS) entries = ?kept"
    unfolding Cons.prems(2) using Cons.prems(3) by (intro filter_window) simp
  have s: "sorted (at # ats)" using Cons.prems(3) by simp
  show ?case
  proof (cases "length ?kept < limit")
    case True
    have "spaced limit (acc @ [at])" using Cons.prems(1) True by (simp add: spaced_snoc)
    moreover have "at - WINDOW_NANOS < at" by (simp add: WINDOW_NANOS_def)
    ultimately show ?thesis
      using Cons.IH [of "acc @ [at]" "?kept @ [at]" at] True s by (simp add: check_window_def kept Let_def)
  next
    case False
    from Cons.IH [OF Cons.prems(1) refl s] False show ?thesis
      by (simp add: check_window_def kept Let_def)
  qed
qed simp

lemma spaced_window:
  assumes "spaced limit acc"
  shows "length (filter (\<lambda>x. t - WINDOW_NANOS < x \<and> x \<le> t) acc) \<le> limit"
  using assms
proof (induction acc rule: rev_induct)
  case (snoc x acc)
  then have IH: "length (filter (\<lambda>x. t - WINDOW_NANOS < x \<and> x \<le> t) acc) \<le> limit"
    and x: "length (filter (\<lambda>y. y > x - WINDOW_NANOS) acc) < limit"
    by (auto simp: spaced_snoc)
  show ?case
  proof (cases "t - WINDOW_NANOS < x \<and> x \<le> t")
    case True
    have "length (filter (\<lambda>x. t - WINDOW_NANOS < x \<and> x \<le> t) acc) \<le> length (filter (\<lambda>y. y > x - WINDOW_NANOS) acc)"
      using True by (induction acc) auto
    with x True show ?thesis by simp
  next
    case False
    with IH show ?thesis by auto
  qed
qed simp

text \<open>
  C27: the rate limit holds. Whatever the requests of a principal, as long as the clock does not run
  backwards, no minute-long window contains more than \<open>limit\<close> admitted requests.
\<close>

theorem rate_limit_holds:
  assumes "sorted ats"
  shows "length (filter (\<lambda>x. t - WINDOW_NANOS < x \<and> x \<le> t) (rate_run limit [] ats)) \<le> limit"
proof (cases ats)
  case (Cons at rest)
  have "spaced limit ([] @ rate_run limit [] ats)"
    by (rule rate_run_spaced [where prev = at]) (use assms Cons in \<open>auto simp: spaced_def\<close>)
  then show ?thesis by (intro spaced_window) simp
qed simp

theorem rate_limit_holds_witness:
  "sorted [0, 1, 2, 70000000000 :: timestamp] \<and> rate_run 2 [] [0, 1, 2, 70000000000] = [0, 1, 70000000000] \<and>
   length (filter (\<lambda>x. 2 - WINDOW_NANOS < x \<and> x \<le> 2) (rate_run 2 [] [0, 1, 2, 70000000000])) \<le> 2"
proof -
  have s: "sorted [0, 1, 2, 70000000000 :: timestamp]" by simp
  have "rate_run 2 [] [0, 1, 2, 70000000000] = [0, 1, 70000000000]" by code_simp
  with rate_limit_holds [OF s, of 2 2] s show ?thesis by blast
qed

text \<open>The retained entries never exceed the limit, so waiting for the oldest to leave is enough.\<close>

lemma fold_min_le: "fold min ts (t :: int) \<le> t \<and> (\<forall>x \<in> set ts. fold min ts t \<le> x)"
proof (induction ts arbitrary: t)
  case (Cons x ts)
  from Cons.IH [of "min x t"] show ?case by auto
qed simp

lemma fold_min_in: "fold min ts (t :: int) \<in> insert t (set ts)"
proof (induction ts arbitrary: t)
  case (Cons x ts)
  from Cons.IH [of "min x t"] show ?case by (auto simp: min_def split: if_splits)
qed simp

text \<open>
  A refused request is told when to come back. When a principal with a non-zero limit is
  refused, the answer is a wait of at least one millisecond and at most a minute, and a request made after that wait, with
  none admitted in between, is admitted.
\<close>

theorem rate_limit_retry_admitted:
  assumes "check_window entries limit at = (Inl (RateLimited ms), kept)" "0 < limit" "length kept \<le> limit"
    "\<And>t. t \<in> set entries \<Longrightarrow> t \<le> at"
  shows "1 \<le> unat ms \<and> unat ms \<le> 60000 \<and> fst (check_window kept limit (at + int (unat ms) * 1000000)) = Inr ()"
proof -
  let ?oldest = "case kept of [] \<Rightarrow> at | t # ts \<Rightarrow> fold min ts t"
  let ?wait = "(max 0 (?oldest + WINDOW_NANOS - at) + 999999) div 1000000"
  from assms(1) have kept: "kept = filter (\<lambda>t. t > at - WINDOW_NANOS) entries" and len: "limit \<le> length kept"
    and ms: "ms = word_of_int ?wait"
    by (auto simp: check_window_def Let_def split: if_splits)
  from len assms(2) obtain x xs where k: "kept = x # xs" by (cases kept) auto
  have oldest: "?oldest \<in> set kept" "\<And>t. t \<in> set kept \<Longrightarrow> ?oldest \<le> t"
    using fold_min_in [of xs x] fold_min_le [of xs x] by (auto simp: k)
  from oldest(1) have range: "at - WINDOW_NANOS < ?oldest" "?oldest \<le> at"
    using assms(4) by (auto simp: kept)
  then have wait: "1 \<le> ?wait" "?wait \<le> 60000" "?oldest + WINDOW_NANOS - at \<le> ?wait * 1000000"
    by (auto simp: WINDOW_NANOS_def)
  then have unat: "int (unat ms) = ?wait"
    by (simp add: ms unat_eq_nat_uint uint_word_of_int take_bit_int_eq_self)
  let ?later = "at + ?wait * 1000000"
  have "filter (\<lambda>t. t > ?later - WINDOW_NANOS) kept \<noteq> kept"
  proof
    assume "filter (\<lambda>t. t > ?later - WINDOW_NANOS) kept = kept"
    with oldest(1) have "?oldest > ?later - WINDOW_NANOS" by (metis (lifting) filter_id_conv)
    with wait(3) show False by simp
  qed
  then have "length (filter (\<lambda>t. t > ?later - WINDOW_NANOS) kept) < length kept"
    by (metis filter_id_conv length_filter_less)
  with assms(3) have "fst (check_window kept limit ?later) = Inr ()"
    by (simp add: check_window_def Let_def)
  then have "fst (check_window kept limit (at + int (unat ms) * 1000000)) = Inr ()"
    unfolding unat .
  moreover have "1 \<le> unat ms" "unat ms \<le> 60000" using wait(1,2) unat by linarith+
  ultimately show ?thesis by blast
qed

theorem rate_limit_retry_admitted_witness:
  "check_window [0, 5] 2 10000000 = (Inl (RateLimited 59990), [0, 5]) \<and>
   fst (check_window [0, 5] 2 (10000000 + int (unat (59990 :: u64)) * 1000000)) = Inr ()"
proof -
  have run: "check_window [0, 5] 2 10000000 = (Inl (RateLimited 59990), [0, 5])" by code_simp
  have "t \<le> 10000000" if "t \<in> set [0, 5]" for t :: timestamp using that by auto
  with rate_limit_retry_admitted [OF run] run show ?thesis by simp
qed

section \<open>Recently announced messages\<close>

definition recent_wf :: "nat \<Rightarrow> recent_message_ids \<Rightarrow> bool" where
  "recent_wf capacity r \<longleftrightarrow> distinct (rm_order r) \<and> set (rm_seen r) = set (rm_order r) \<and> length (rm_order r) \<le> capacity"

lemma recent_insert_wf:
  assumes "recent_wf capacity r" "recent_insert capacity i r = (b, r')"
  shows "recent_wf capacity r' \<and> (b \<longleftrightarrow> i \<notin> set (rm_order r)) \<and> (0 < capacity \<longrightarrow> i \<in> set (rm_order r')) \<and>
    (\<exists>n \<le> 1. rm_order r' = (if b then drop n (rm_order r @ [i]) else rm_order r) \<and>
       (n = 1 \<longrightarrow> length (rm_order r) = capacity))"
proof (cases "i \<in> set (rm_seen r)")
  case True
  with assms show ?thesis by (auto simp: recent_insert_def recent_wf_def)
next
  case False
  show ?thesis
  proof (cases "length (rm_order r) = capacity")
    case True
    obtain x xs where x: "rm_order r @ [i] = x # xs" by (cases "rm_order r @ [i]") auto
    from arg_cong [OF x, of length] True have "length xs = capacity" by simp
    with x assms False True have r': "b" "rm_order r' = xs" "rm_seen r' = filter (\<lambda>j. j \<noteq> x) (i # rm_seen r)"
      by (auto simp: recent_insert_def Let_def split: list.splits)
    have d: "distinct (x # xs)" "set (x # xs) = insert i (set (rm_order r))" "length xs = capacity"
      using assms(1) False True arg_cong [OF x, of set] arg_cong [OF x, of length] arg_cong [OF x, of distinct]
      by (auto simp: recent_wf_def)
    have "0 < capacity \<longrightarrow> i \<in> set xs" using x by (cases "rm_order r") (auto simp: True [symmetric])
    moreover have "rm_order r' = drop 1 (rm_order r @ [i])" by (simp add: r' x)
    ultimately show ?thesis
      using d r' assms(1) False True by (auto simp: recent_wf_def)
  next
    case False': False
    with assms False have "b" "rm_order r' = rm_order r @ [i]" "rm_seen r' = i # rm_seen r"
      by (auto simp: recent_insert_def Let_def recent_wf_def split: list.splits)
    with assms(1) False False' show ?thesis by (auto simp: recent_wf_def intro: exI [of _ 0])
  qed
qed

text \<open>An id stays in the window until as many later ids have been recorded as the window holds.\<close>

definition recent_after :: "nat \<Rightarrow> string list \<Rightarrow> recent_message_ids \<Rightarrow> recent_message_ids" where
  "recent_after capacity js r = fold (\<lambda>j r. snd (recent_insert capacity j r)) js r"

lemma recent_kept:
  assumes "recent_wf capacity r" "rm_order r = pre @ i # post" "length post + length js < capacity"
  shows "recent_wf capacity (recent_after capacity js r) \<and> i \<in> set (rm_order (recent_after capacity js r))"
  using assms
proof (induction js arbitrary: r pre post)
  case (Cons j js)
  obtain b r' where ins: "recent_insert capacity j r = (b, r')" by (rule prod.exhaust)
  from recent_insert_wf [OF Cons.prems(1) ins] obtain n where wf: "recent_wf capacity r'" and n: "n \<le> 1"
    "rm_order r' = (if b then drop n (rm_order r @ [j]) else rm_order r)" "n = 1 \<longrightarrow> length (rm_order r) = capacity"
    by blast
  have "\<exists>pre' post'. rm_order r' = pre' @ i # post' \<and> length post' \<le> Suc (length post)"
  proof (cases "b \<and> n = 1")
    case True
    then have "length pre + length post + 1 = capacity" using n(3) Cons.prems(2) by simp
    with Cons.prems(3) obtain x pre' where "pre = x # pre'" by (cases pre) auto
    with True n(2) Cons.prems(2) have "rm_order r' = pre' @ i # (post @ [j])" by simp
    then show ?thesis by (metis length_append_singleton order_refl)
  next
    case False
    with n(1) have "rm_order r' = (if b then rm_order r @ [j] else rm_order r)" using n(2) by (cases n) auto
    then have "rm_order r' = pre @ i # (if b then post @ [j] else post)" using Cons.prems(2) by simp
    moreover have "length (if b then post @ [j] else post) \<le> Suc (length post)" by simp
    ultimately show ?thesis by blast
  qed
  then obtain pre' post' where "rm_order r' = pre' @ i # post'" "length post' \<le> Suc (length post)" by blast
  with Cons.IH [OF wf] Cons.prems(3) ins show ?case by (simp add: recent_after_def)
qed (simp add: recent_after_def)

lemma recent_inserted:
  assumes "recent_wf capacity r" "0 < capacity" "recent_insert capacity i r = (True, r')"
  shows "recent_wf capacity r' \<and> (\<exists>pre. rm_order r' = pre @ [i])"
proof -
  from recent_insert_wf [OF assms(1,3)] obtain n where n: "n \<le> 1" "rm_order r' = drop n (rm_order r @ [i])"
    "n = 1 \<longrightarrow> length (rm_order r) = capacity" and wf: "recent_wf capacity r'" by auto
  have "n \<le> length (rm_order r)" using n(1,3) assms(2) by (cases "n = 0") auto
  with n(2) wf show ?thesis by simp
qed

lemma inject_message_recent:
  "cs_recent_message_ids (inject_message_with_event E m s) =
     snd (recent_insert CAPACITY (m_id m) (cs_recent_message_ids s))"
  by (auto simp: inject_message_with_event_def recent_insert_def Let_def split: prod.splits bool.splits if_splits list.splits)

lemma inject_messages_recent:
  "cs_recent_message_ids (fold (inject_message_with_event E) ms s) =
     recent_after CAPACITY (map m_id ms) (cs_recent_message_ids s)"
  by (induction ms arbitrary: s) (simp_all add: recent_after_def inject_message_recent)

text \<open>
  A message is announced once. After a message was announced, announcing it again (a client
  retry) changes nothing, no event, no counter, as long as fewer than 10,000 other announcements came
  in between; the window itself never holds more than 10,000 ids.
\<close>

theorem message_announced_once:
  assumes "recent_wf CAPACITY (cs_recent_message_ids s)" "m_id m \<notin> set (rm_order (cs_recent_message_ids s))"
    "length ms < CAPACITY" "m_id m' = m_id m"
    "t = fold (inject_message_with_event E) ms (inject_message_with_event E m s)"
  shows "inject_message_with_event E m' t = t \<and> recent_wf CAPACITY (cs_recent_message_ids t)"
proof -
  obtain b r where ins: "recent_insert CAPACITY (m_id m) (cs_recent_message_ids s) = (b, r)" by (rule prod.exhaust)
  have pos: "0 < CAPACITY" by (simp add: CAPACITY_def)
  from recent_insert_wf [OF assms(1) ins] assms(2) have "b" by blast
  with ins have ins': "recent_insert CAPACITY (m_id m) (cs_recent_message_ids s) = (True, r)" by simp
  from recent_inserted [OF assms(1) pos ins'] obtain pre where r: "recent_wf CAPACITY r" "rm_order r = pre @ [m_id m]"
    by blast
  have t: "cs_recent_message_ids t = recent_after CAPACITY (map m_id ms) r"
    by (simp add: assms(5) inject_messages_recent inject_message_recent ins')
  from recent_kept [OF r, of "map m_id ms"] assms(3)
  have "recent_wf CAPACITY (cs_recent_message_ids t)" "m_id m \<in> set (rm_order (cs_recent_message_ids t))"
    by (simp_all add: t)
  then show ?thesis
    by (simp add: inject_message_with_event_def recent_insert_def recent_wf_def assms(4))
qed

definition demo_message :: "string \<Rightarrow> message" where
  "demo_message i =
     \<lparr>m_id = i, m_workspace_id = ''ws'', m_conversation_id = ''c'', m_sender_id = ''al'', m_content = ''hi'',
      m_content_type = ''text'', m_metadata = JNull, m_edited_at = None, m_edited_by = None, m_server_seq = 1,
      m_idempotency_key = i, m_created_at = 0\<rparr>"

definition demo_limit_env :: env where
  "demo_limit_env = \<lparr>env_uuid = (\<lambda>n. replicate n (CHR ''i'')), env_clock = (\<lambda>n. int n)\<rparr>"

definition demo_announced :: chat_state where
  "demo_announced = fold (inject_message_with_event demo_limit_env) [demo_message ''m2'']
     (inject_message_with_event demo_limit_env (demo_message ''m1'') (new_app \<lparr>ids_drawn = 0, clock_reads = 0\<rparr>))"

theorem message_announced_once_witness:
  "inject_message_with_event demo_limit_env (demo_message ''m1'') demo_announced = demo_announced \<and>
   rm_order (cs_recent_message_ids demo_announced) = [''m1'', ''m2'']"
proof -
  let ?s = "new_app \<lparr>ids_drawn = 0, clock_reads = 0\<rparr>"
  have wf: "recent_wf CAPACITY (cs_recent_message_ids ?s)"
    "m_id (demo_message ''m1'') \<notin> set (rm_order (cs_recent_message_ids ?s))"
    "length [demo_message ''m2''] < CAPACITY"
    by (simp_all add: recent_wf_def new_app_def empty_state_def CAPACITY_def)
  have "rm_order (cs_recent_message_ids demo_announced) = [''m1'', ''m2'']" by code_simp
  with message_announced_once [OF wf refl demo_announced_def] show ?thesis by blast
qed

end
