(* ===== verification/Chat_Delivery.thy ===== *)
theory Chat_Delivery
  imports Chat_Props "HOL-Library.Code_Target_Nat"
begin

text \<open>
  Event delivery of the chat application: the queues of \<^verbatim>\<open>push_event\<close>, acknowledgement and
  webhooks (\<^verbatim>\<open>events.rs\<close>).
\<close>

section \<open>Queues\<close>

definition queue_wf :: "chat_state \<Rightarrow> string \<Rightarrow> bool" where
  "queue_wf s k \<longleftrightarrow> sorted_wrt (<) (map ee_delivery_seq (queue_of s k)) \<and>
     (\<forall>e \<in> set (queue_of s k). \<exists>n. hm_get (cs_next_event_seq s) k = Some n \<and> ee_delivery_seq e \<le> n)"

text \<open>
  What happens to the queues: a push (while the queue is below the hard cap and the counter below
  its maximum), an acknowledgement, a webhook delivery, an alignment of the counter.
\<close>

inductive event_step :: "env \<Rightarrow> chat_state \<Rightarrow> chat_state \<Rightarrow> bool" for E where
  push: "length (queue_of s k) < HARD_CAP \<Longrightarrow> hm_get (cs_next_event_seq s) k \<noteq> Some (- 1) \<Longrightarrow>
    event_step E s (push_event_to E kind payload k s)"
| ack: "ack_events k n s = (r, t) \<Longrightarrow> event_step E s t"
| delivered: "mark_webhook_delivered E k n s = (r, t) \<Longrightarrow> event_step E s t"
| configured: "set_event_webhook E fresh k request s = (r, t) \<Longrightarrow> event_step E s t"
| align: "event_step E s (ensure_event_seq_at_least k n s)"

definition next_after :: "chat_state \<Rightarrow> string \<Rightarrow> u64" where
  "next_after s k = (case hm_get (cs_next_event_seq s) k of Some n \<Rightarrow> n + 1 | None \<Rightarrow> 1)"

lemma word_less_succ:
  fixes n :: u64
  assumes "n \<noteq> - 1" "m \<le> n"
  shows "m < n + 1"
proof -
  have "1 + n \<noteq> 0" using assms(1) by (metis add.commute add_eq_0_iff2)
  then have "unat (n + 1) = Suc (unat n)" by (metis add.commute unatSuc)
  with assms(2) show ?thesis by (simp add: word_less_nat_alt word_le_nat_alt)
qed

lemma next_after_above:
  assumes "queue_wf s k" "hm_get (cs_next_event_seq s) k \<noteq> Some (- 1)" "e \<in> set (queue_of s k)"
  shows "ee_delivery_seq e < next_after s k"
  using assms by (auto simp: queue_wf_def next_after_def word_less_succ)

lemma push_event_to_queues:
  assumes "t = push_event_to E kind payload k s"
  shows "hm_get (cs_next_event_seq t) = (hm_get (cs_next_event_seq s))(k \<mapsto> next_after s k)"
    "\<And>l. l \<noteq> k \<Longrightarrow> queue_of t l = queue_of s l"
    "\<exists>e. ee_delivery_seq e = next_after s k \<and> ee_payload e = payload \<and> ee_event_type e = kind \<and>
       queue_of t k = keep_last HARD_CAP (filter (\<lambda>e. ee_delivery_seq e > safe_cursor s k) (queue_of s k @ [e]))"
    "cs_ack_cursor t = cs_ack_cursor s" "cs_event_webhooks t = cs_event_webhooks s"
proof -
  show "\<exists>e. ee_delivery_seq e = next_after s k \<and> ee_payload e = payload \<and> ee_event_type e = kind \<and>
       queue_of t k = keep_last HARD_CAP (filter (\<lambda>e. ee_delivery_seq e > safe_cursor s k) (queue_of s k @ [e]))"
    unfolding assms
    by (rule exI [of _ "\<lparr>ee_delivery_seq = next_after s k, ee_event_id = env_uuid E (ids_drawn s),
        ee_principal_id = k, ee_event_type = kind, ee_payload = payload,
        ee_created_at = env_clock E (clock_reads s)\<rparr>"])
      (simp add: push_event_to_def new_id_def now_def Let_def next_after_def queue_of_def safe_cursor_def
        ack_seq_def webhook_cursor_def)
qed (simp_all add: assms push_event_to_def new_id_def now_def Let_def next_after_def queue_of_def fun_eq_iff)

lemma keep_last_all: "length xs \<le> n \<Longrightarrow> keep_last n xs = xs"
  by (simp add: keep_last_def)

lemma keep_last_set: "set (keep_last n xs) \<subseteq> set xs"
  by (simp add: keep_last_def set_drop_subset)

lemma sorted_wrt_keep_last: "sorted_wrt P xs \<Longrightarrow> sorted_wrt P (keep_last n xs)"
  by (simp add: keep_last_def sorted_wrt_drop)

lemma push_event_to_wf:
  assumes "\<And>k. queue_wf s k" "hm_get (cs_next_event_seq s) k \<noteq> Some (- 1)" "t = push_event_to E kind payload k s"
  shows "queue_wf t l"
proof (cases "l = k")
  case False
  with assms push_event_to_queues [OF assms(3)] show ?thesis by (simp add: queue_wf_def)
next
  case True
  from push_event_to_queues(3) [OF assms(3)] obtain e where e: "ee_delivery_seq e = next_after s k"
    "queue_of t k = keep_last HARD_CAP (filter (\<lambda>e. ee_delivery_seq e > safe_cursor s k) (queue_of s k @ [e]))" by blast
  let ?q = "queue_of s k @ [e]"
  have above: "\<And>x. x \<in> set (queue_of s k) \<Longrightarrow> ee_delivery_seq x < next_after s k"
    by (rule next_after_above [OF assms(1,2)])
  have "sorted_wrt (\<lambda>x y. ee_delivery_seq x < ee_delivery_seq y) ?q"
    using assms(1) [of k] above by (auto simp: queue_wf_def sorted_wrt_append sorted_wrt_map e)
  then have "sorted_wrt (\<lambda>x y. ee_delivery_seq x < ee_delivery_seq y) (queue_of t k)"
    unfolding e(2) by (intro sorted_wrt_keep_last sorted_wrt_filter)
  moreover have "ee_delivery_seq x \<le> next_after s k" if "x \<in> set (queue_of t k)" for x
  proof -
    from that have "x \<in> set ?q" unfolding e(2) by (auto dest: subsetD [OF keep_last_set] split: if_splits)
    then show ?thesis using above e(1) by (auto simp: less_imp_le)
  qed
  ultimately show ?thesis
    by (simp add: True queue_wf_def sorted_wrt_map push_event_to_queues(1) [OF assms(3)])
qed

lemma queue_wf_filter:
  assumes "queue_wf s k" "queue_of t k = filter P (queue_of s k)"
    "hm_get (cs_next_event_seq t) k = hm_get (cs_next_event_seq s) k"
  shows "queue_wf t k"
  using assms by (auto simp: queue_wf_def sorted_wrt_map intro: sorted_wrt_filter)

lemma ack_events_queue:
  assumes "ack_events k n s = (r, t)"
  shows "cs_next_event_seq t = cs_next_event_seq s" "cs_event_webhooks t = cs_event_webhooks s"
    "ack_seq s l \<le> ack_seq t l"
    "\<exists>P. queue_of t l = filter P (queue_of s l) \<and> (\<forall>e. \<not> P e \<longrightarrow> ee_delivery_seq e \<le> safe_cursor t l)"
proof -
  show "cs_next_event_seq t = cs_next_event_seq s" "cs_event_webhooks t = cs_event_webhooks s"
    "ack_seq s l \<le> ack_seq t l"
    using assms by (auto simp: ack_events_def Let_def ack_seq_def split: sum.splits option.splits if_splits)
  show "\<exists>P. queue_of t l = filter P (queue_of s l) \<and> (\<forall>e. \<not> P e \<longrightarrow> ee_delivery_seq e \<le> safe_cursor t l)"
  proof (cases "l = k \<and> hm_get (cs_events s) k \<noteq> None \<and> (\<exists>c. r = Ret c)")
    case True
    then have "queue_of t l = filter (\<lambda>e. ee_delivery_seq e > safe_cursor t l) (queue_of s l)"
      using assms by (auto simp: ack_events_def Let_def queue_of_def safe_cursor_def ack_seq_def webhook_cursor_def
          split: sum.splits option.splits)
    then show ?thesis by (intro exI conjI) (assumption, simp add: not_less)
  next
    case False
    then have "queue_of t l = filter (\<lambda>_. True) (queue_of s l)"
      using assms by (auto simp: ack_events_def Let_def queue_of_def split: sum.splits option.splits if_splits)
    then show ?thesis by (intro exI conjI) (assumption, simp)
  qed
qed

text \<open>
  A step keeps an event until both readers are past it.
\<close>

definition queues_kept :: "chat_state \<Rightarrow> chat_state \<Rightarrow> string \<Rightarrow> bool" where
  "queues_kept s t k \<longleftrightarrow> queue_wf t k \<and> safe_cursor s k \<le> safe_cursor t k \<and>
     (\<forall>e \<in> set (queue_of s k). e \<in> set (queue_of t k) \<or> ee_delivery_seq e \<le> safe_cursor t k)"

lemma queues_kept_same:
  assumes "queue_wf s k" "queue_of t k = queue_of s k" "safe_cursor s k \<le> safe_cursor t k"
    "hm_get (cs_next_event_seq t) k = hm_get (cs_next_event_seq s) k"
  shows "queues_kept s t k"
  using assms by (simp add: queues_kept_def queue_wf_def)

lemma push_event_to_kept:
  assumes "\<And>k. queue_wf s k" "hm_get (cs_next_event_seq s) k \<noteq> Some (- 1)" "length (queue_of s k) < HARD_CAP"
    "t = push_event_to E kind payload k s"
  shows "queues_kept s t l"
proof -
  note q = push_event_to_queues [OF assms(4)]
  have cursor: "safe_cursor t l = safe_cursor s l"
    by (simp add: safe_cursor_def ack_seq_def webhook_cursor_def q(4,5))
  have "e \<in> set (queue_of t l) \<or> ee_delivery_seq e \<le> safe_cursor s l" if "e \<in> set (queue_of s l)" for e
  proof (cases "l = k")
    case True
    from q(3) obtain x where "queue_of t k =
      keep_last HARD_CAP (filter (\<lambda>e. ee_delivery_seq e > safe_cursor s k) (queue_of s k @ [x]))" by blast
    also have "\<dots> = filter (\<lambda>e. ee_delivery_seq e > safe_cursor s k) (queue_of s k @ [x])"
      using assms(3) by (intro keep_last_all le_trans [OF length_filter_le]) simp
    finally show ?thesis using that True by (auto simp: not_less)
  qed (use that q(2) in simp)
  then show ?thesis
    using push_event_to_wf [OF assms(1,2,4)] by (simp add: queues_kept_def cursor)
qed

lemma ack_events_kept:
  assumes "\<And>k. queue_wf s k" "ack_events k n s = (r, t)"
  shows "queues_kept s t l"
proof -
  note a = ack_events_queue [OF assms(2)]
  from a(4) [of l] obtain P where P: "queue_of t l = filter P (queue_of s l)"
    "\<forall>e. \<not> P e \<longrightarrow> ee_delivery_seq e \<le> safe_cursor t l" by blast
  have "safe_cursor s l \<le> safe_cursor t l"
    using a(3) [of l] by (auto simp: safe_cursor_def webhook_cursor_def a(2) min_le_iff_disj)
  moreover have "queue_wf t l" using queue_wf_filter [OF assms(1) P(1)] by (simp add: a(1))
  ultimately show ?thesis using P by (auto simp: queues_kept_def)
qed

lemma mark_webhook_delivered_kept:
  assumes "\<And>k. queue_wf s k" "mark_webhook_delivered E k n s = (r, t)"
  shows "queues_kept s t l"
proof (rule queues_kept_same [OF assms(1)])
  show "queue_of t l = queue_of s l" "hm_get (cs_next_event_seq t) l = hm_get (cs_next_event_seq s) l"
    using assms(2) by (auto simp: mark_webhook_delivered_def now_def queue_of_def Let_def split: option.splits)
  show "safe_cursor s l \<le> safe_cursor t l"
    using assms(2) by (auto simp: mark_webhook_delivered_def now_def safe_cursor_def webhook_cursor_def ack_seq_def
        Let_def min_le_iff_disj le_max_iff_disj split: option.splits if_splits)
qed

lemma set_event_webhook_frame:
  assumes "set_event_webhook E fresh k request s = (r, t)"
  shows "cs_events t = cs_events s \<and> cs_next_event_seq t = cs_next_event_seq s \<and> cs_ack_cursor t = cs_ack_cursor s \<and>
    safe_cursor s l \<le> safe_cursor t l"
proof -
  have "st_wp (set_event_webhook E fresh k request) (\<lambda>r t. cs_events t = cs_events s \<and>
      cs_next_event_seq t = cs_next_event_seq s \<and> cs_ack_cursor t = cs_ack_cursor s \<and>
      (\<forall>l. hm_get (cs_event_webhooks t) l = hm_get (cs_event_webhooks s) l \<or> webhook_cursor t l = ack_seq s l)) s"
    unfolding set_event_webhook_def
    by (auto simp: wp st_wp_draw now_def Let_def webhook_cursor_def ack_seq_def)
  from st_wpI [OF this assms] have t: "cs_events t = cs_events s" "cs_next_event_seq t = cs_next_event_seq s"
    "cs_ack_cursor t = cs_ack_cursor s"
    "hm_get (cs_event_webhooks t) l = hm_get (cs_event_webhooks s) l \<or> webhook_cursor t l = ack_seq s l" by auto
  have "ack_seq t l = ack_seq s l" by (simp add: ack_seq_def t)
  moreover from t(4) have "webhook_cursor t l = webhook_cursor s l \<or> webhook_cursor t l = ack_seq s l"
    by (auto simp: webhook_cursor_def)
  ultimately show ?thesis by (auto simp: safe_cursor_def t)
qed

lemma set_event_webhook_kept:
  assumes "\<And>k. queue_wf s k" "set_event_webhook E fresh k request s = (r, t)"
  shows "queues_kept s t l"
  using set_event_webhook_frame [OF assms(2)]
  by (intro queues_kept_same [OF assms(1)]) (simp_all add: queue_of_def)

lemma ensure_event_seq_kept:
  assumes "\<And>k. queue_wf s k"
  shows "queues_kept s (ensure_event_seq_at_least k n s) l"
  using assms [of l]
  by (auto simp: queues_kept_def queue_wf_def ensure_event_seq_at_least_def Let_def queue_of_def safe_cursor_def
      ack_seq_def webhook_cursor_def split: option.splits if_splits dest: less_imp_le order_trans)

lemma event_step_kept:
  assumes "event_step E s t" "\<And>k. queue_wf s k"
  shows "queues_kept s t l"
  using assms
  by (cases rule: event_step.cases)
    (auto intro: push_event_to_kept ack_events_kept mark_webhook_delivered_kept set_event_webhook_kept
      ensure_event_seq_kept)

lemma event_steps_kept:
  assumes "(event_step E)\<^sup>*\<^sup>* s t" "\<And>k. queue_wf s k"
  shows "queues_kept s t l"
  using assms
proof (induction arbitrary: l rule: rtranclp_induct)
  case base
  then show ?case by (simp add: queues_kept_def)
next
  case (step t u)
  then have "queues_kept s t l" for l by blast
  moreover from this have "queues_kept t u l" for l
    by (intro event_step_kept [OF step.hyps(2)]) (simp add: queues_kept_def)
  ultimately show ?case by (fastforce simp: queues_kept_def intro: order_trans)
qed

section \<open>Order of webhook deliveries\<close>

text \<open>
  Sorting by the second key and then, stably, by the first gives the lexicographic order.
\<close>

definition lex_le :: "('a \<Rightarrow> 'k :: linorder) \<Rightarrow> ('a \<Rightarrow> 'l :: linorder) \<Rightarrow> 'a \<Rightarrow> 'a \<Rightarrow> bool" where
  "lex_le f g x y \<longleftrightarrow> f x < f y \<or> f x = f y \<and> g x \<le> g y"

lemma sorted_wrt_lex:
  assumes "sorted (map f xs)" "\<And>k. sorted (map g (filter (\<lambda>x. f x = k) xs))"
  shows "sorted_wrt (lex_le f g) xs"
  using assms
proof (induction xs)
  case (Cons x xs)
  have "lex_le f g x y" if "y \<in> set xs" for y
  proof (cases "f y = f x")
    case True
    with Cons.prems(2) [of "f x"] that show ?thesis by (auto simp: lex_le_def)
  next
    case False
    with Cons.prems(1) that show ?thesis by (fastforce simp: lex_le_def)
  qed
  moreover have "sorted (map g (filter (\<lambda>x. f x = k) xs))" for k
    using Cons.prems(2) [of k] by (auto split: if_splits)
  ultimately show ?case using Cons by simp
qed simp

lemma stable_sorts_lex:
  fixes f :: "'a \<Rightarrow> 'k :: linorder" and g :: "'a \<Rightarrow> 'l :: linorder"
  shows "sorted_wrt (lex_le f g) (sort_key f (sort_key g xs))"
proof (rule sorted_wrt_lex)
  show "sorted (map g (filter (\<lambda>x. f x = k) (sort_key f (sort_key g xs))))" for k
    by (simp add: sort_key_stable) (intro sorted_filter sorted_sort_key)
qed simp

lemma set_deliveries_for:
  "set (deliveries_for s k) =
    {\<lparr>wd_principal_id = k, wd_url = ew_url c, wd_event = e, wd_secret = ew_webhook_secret c\<rparr> | c e.
       hm_get (cs_event_webhooks s) k = Some c \<and> e \<in> set (queue_of s k) \<and> wanted c e}"
  by (cases "hm_get (cs_event_webhooks s) k") (auto simp: deliveries_for_def)

lemma queue_wf_distinct: "queue_wf s k \<Longrightarrow> distinct (queue_of s k)"
  by (auto simp: queue_wf_def strict_sorted_iff distinct_map)

lemma distinct_deliveries_for: "queue_wf s k \<Longrightarrow> distinct (deliveries_for s k)"
  by (auto simp: deliveries_for_def distinct_map inj_on_def dest: queue_wf_distinct split: option.splits)

lemma distinct_concat_map:
  assumes "distinct ks" "\<And>k. distinct (f k)" "\<And>k l x. x \<in> set (f k) \<Longrightarrow> x \<in> set (f l) \<Longrightarrow> k = l"
  shows "distinct (concat (map f ks))"
  using assms(1)
proof (induction ks)
  case (Cons k ks)
  have "set (f k) \<inter> set (concat (map f ks)) = {}" using Cons.prems by (auto dest: assms(3))
  with Cons assms(2) show ?case by simp
qed simp

text \<open>
  C30: Whatever sequence of pushes, acknowledgements, webhook deliveries, webhook registrations and
  counter alignments runs, and as long as no queue is at the hard cap when an event is pushed, an
  event leaves a principal's queue only after the principal has acknowledged it and, where a webhook
  is registered, after the webhook has delivered it; the queue stays in strictly increasing
  delivery order below its counter.
\<close>

theorem no_unacknowledged_event_lost:
  assumes "(event_step E)\<^sup>*\<^sup>* s t" "\<And>k. queue_wf s k" "e \<in> set (queue_of s k)"
  shows "queue_wf t k \<and> (e \<in> set (queue_of t k) \<or>
    ee_delivery_seq e \<le> ack_seq t k \<and>
    (\<forall>c. hm_get (cs_event_webhooks t) k = Some c \<longrightarrow> ee_delivery_seq e \<le> ew_cursor c))"
proof -
  have "queues_kept s t k" using event_steps_kept [OF assms(1,2)] .
  with assms(3) show ?thesis by (auto simp: queues_kept_def safe_cursor_def webhook_cursor_def)
qed

definition demo_queue :: chat_state where
  "demo_queue = push_event_to demo_chat_env ''message.created'' JNull ''id'' demo_people"

definition demo_acked :: chat_state where
  "demo_acked = snd (ack_events ''id'' 1 demo_queue)"

lemma demo_queue_wf: "queue_wf demo_queue k"
proof -
  have "cs_events demo_people = []" "cs_next_event_seq demo_people = []" by code_simp+
  then have "queue_wf demo_people k" "hm_get (cs_next_event_seq demo_people) ''id'' \<noteq> Some (- 1)" for k
    by (simp_all add: queue_wf_def queue_of_def)
  from push_event_to_wf [OF this demo_queue_def] show ?thesis .
qed

theorem no_unacknowledged_event_lost_witness:
  "ee_delivery_seq (hd (queue_of demo_queue ''id'')) \<le> ack_seq demo_acked ''id'' \<and>
   queue_of demo_acked ''id'' = []"
proof -
  have q: "length (queue_of demo_queue ''id'') = 1" "queue_of demo_acked ''id'' = []" by code_simp+
  have "(event_step demo_chat_env)\<^sup>*\<^sup>* demo_queue demo_acked"
    unfolding demo_acked_def by (metis event_step.ack r_into_rtranclp prod.collapse)
  moreover have "hd (queue_of demo_queue ''id'') \<in> set (queue_of demo_queue ''id'')"
    using q(1) by (cases "queue_of demo_queue ''id''") auto
  ultimately show ?thesis using no_unacknowledged_event_lost [OF _ demo_queue_wf] q(2) by fastforce
qed

text \<open>
  One sweep collects exactly the queued events past a webhook's cursor that its filter admits,
  each once, addressed with that webhook's url and secret, ordered by principal and then by delivery
  number.
\<close>

theorem collect_pending_webhook_deliveries_exact:
  assumes "\<And>k. queue_wf s k" "distinct (hm_keys (cs_event_webhooks s))"
  shows "set (collect_pending_webhook_deliveries s) =
    {\<lparr>wd_principal_id = k, wd_url = ew_url c, wd_event = e, wd_secret = ew_webhook_secret c\<rparr> | k c e.
       hm_get (cs_event_webhooks s) k = Some c \<and> e \<in> set (queue_of s k) \<and> ew_cursor c < ee_delivery_seq e \<and>
       (ew_event_types c = [] \<or> ee_event_type e \<in> set (ew_event_types c))} \<and>
    distinct (collect_pending_webhook_deliveries s) \<and>
    sorted_wrt (lex_le wd_principal_id (\<lambda>d. ee_delivery_seq (wd_event d))) (collect_pending_webhook_deliveries s)"
proof -
  let ?all = "concat (map (deliveries_for s) (sort (hm_keys (cs_event_webhooks s))))"
  have "distinct ?all"
    using assms by (intro distinct_concat_map distinct_deliveries_for) (auto simp: set_deliveries_for)
  moreover have "set ?all = {\<lparr>wd_principal_id = k, wd_url = ew_url c, wd_event = e, wd_secret = ew_webhook_secret c\<rparr> | k c e.
       hm_get (cs_event_webhooks s) k = Some c \<and> e \<in> set (queue_of s k) \<and> wanted c e}"
    by (auto simp: set_deliveries_for hm_keys_dom)
  ultimately show ?thesis
    by (simp add: collect_pending_webhook_deliveries_def Let_def stable_sorts_lex wanted_def)
qed

definition demo_webhook :: event_webhook_config where
  "demo_webhook = \<lparr>ew_principal_id = ''id'', ew_url = ''http://h'', ew_event_types = [], ew_cursor = 0,
     ew_updated_at = 0, ew_webhook_secret = ''k''\<rparr>"

theorem collect_pending_webhook_deliveries_witness:
  "\<lparr>wd_principal_id = ''id'', wd_url = ''http://h'', wd_event = hd (queue_of demo_queue ''id''), wd_secret = ''k''\<rparr>
     \<in> set (collect_pending_webhook_deliveries (inject_event_webhook demo_webhook demo_queue))"
proof -
  let ?s = "inject_event_webhook demo_webhook demo_queue"
  have "queue_wf ?s k" for k
    using demo_queue_wf [of k] by (simp add: queue_wf_def queue_of_def inject_event_webhook_def)
  moreover have "distinct (hm_keys (cs_event_webhooks ?s))" by code_simp
  moreover have "hm_get (cs_event_webhooks ?s) ''id'' = Some demo_webhook"
    by (simp add: inject_event_webhook_def demo_webhook_def)
  moreover have "hd (queue_of demo_queue ''id'') \<in> set (queue_of ?s ''id'')"
    "0 < ee_delivery_seq (hd (queue_of demo_queue ''id''))" by code_simp+
  ultimately show ?thesis
    using collect_pending_webhook_deliveries_exact [of ?s] by (auto simp: demo_webhook_def)
qed

end
