(* ===== verification/Tool_Gateway.thy ===== *)
theory Tool_Gateway
  imports Choruz_Json
begin

text \<open>
  The tool gateway, \<^verbatim>\<open>crates/choruz-tools\<close>: the effect journal (\<^verbatim>\<open>effect.rs\<close>), the tool
  registry (\<^verbatim>\<open>registry.rs\<close>) and idempotent tool invocation (\<^verbatim>\<open>gateway.rs\<close>). Every awaited
  operation reads one \<open>tool_io\<close>: the time, what becomes of its SQL statement and what the tool
  would answer. A lost connection leaves open whether the statement took effect. An identifier is
  its canonical text; the table holds only such texts, so the parse branches of
  \<^verbatim>\<open>row_to_effect\<close> for malformed identifiers never run.
\<close>

section \<open>Registry\<close>

datatype mutation_policy = IdempotentApi | CacheAndSuppress | OperatorReview

record tool_descriptor =
  td_name :: string
  td_is_mutating :: bool
  td_mutation_policy :: mutation_policy

type_synonym tool_registry = "(string, tool_descriptor) hash_map"

definition register :: "tool_descriptor \<Rightarrow> tool_registry \<Rightarrow> tool_registry" where
  "register descriptor tools = hm_insert (td_name descriptor) descriptor tools"

definition register_read_only :: "string \<Rightarrow> tool_registry \<Rightarrow> tool_registry" where
  "register_read_only name tools =
     hm_insert name \<lparr>td_name = name, td_is_mutating = False, td_mutation_policy = CacheAndSuppress\<rparr> tools"

definition register_mutating :: "string \<Rightarrow> mutation_policy \<Rightarrow> tool_registry \<Rightarrow> tool_registry" where
  "register_mutating name policy tools =
     hm_insert name \<lparr>td_name = name, td_is_mutating = True, td_mutation_policy = policy\<rparr> tools"

definition is_mutating :: "tool_registry \<Rightarrow> string \<Rightarrow> bool" where
  "is_mutating tools name = (case hm_get tools name of None \<Rightarrow> True | Some desc \<Rightarrow> td_is_mutating desc)"

definition mutation_policy_of :: "tool_registry \<Rightarrow> string \<Rightarrow> mutation_policy" where
  "mutation_policy_of tools name =
     (case hm_get tools name of None \<Rightarrow> CacheAndSuppress | Some desc \<Rightarrow> td_mutation_policy desc)"

definition tool_names :: "tool_registry \<Rightarrow> string list" where
  "tool_names tools = hm_keys tools"

definition default_registry :: tool_registry where
  "default_registry =
     fold (\<lambda>name. register_mutating name CacheAndSuppress)
       [''file_write'', ''git_commit'', ''git_push'', ''shell_exec'', ''jira_create'', ''webhook_post'']
     (fold (\<lambda>name. register_mutating name IdempotentApi) [''github_comment'', ''github_pr_create'']
     (fold register_read_only
       [''file_read'', ''search_code'', ''list_files'', ''git_log'', ''git_diff'', ''git_status''] []))"

section \<open>Effect journal\<close>

datatype effect_status = Pending | Executing | Succeeded | Failed

fun effect_status_as_str :: "effect_status \<Rightarrow> string" where
  "effect_status_as_str Pending = ''pending''"
| "effect_status_as_str Executing = ''executing''"
| "effect_status_as_str Succeeded = ''succeeded''"
| "effect_status_as_str Failed = ''failed''"

definition effect_status_from_db :: "string \<Rightarrow> effect_status option" where
  "effect_status_from_db s =
     (if s = ''pending'' then Some Pending else if s = ''executing'' then Some Executing
      else if s = ''succeeded'' then Some Succeeded else if s = ''failed'' then Some Failed else None)"

record new_effect =
  ne_tool_call_id :: string
  ne_attempt_id :: string
  ne_turn_id :: string
  ne_tool_name :: string
  ne_tool_input :: json
  ne_is_mutating :: bool
  ne_external_idempotency_key :: "string option"

text \<open>A row keeps its status as text; \<open>effect_record\<close> is the row with the status parsed.\<close>

record 'status effect =
  er_tool_call_id :: string
  er_attempt_id :: string
  er_turn_id :: string
  er_tool_name :: string
  er_tool_input :: json
  er_tool_output :: "json option"
  er_external_idempotency_key :: "string option"
  er_status :: 'status
  er_is_mutating :: bool
  er_created_at :: timestamp
  er_completed_at :: "timestamp option"

type_synonym effect_row = "string effect"
type_synonym effect_record = "effect_status effect"
type_synonym journal = "(string, effect_row) hash_map"

datatype db_outcome = Answered | Lost string bool

record tool_io =
  io_now :: timestamp
  io_db :: db_outcome
  io_tool :: "string + json"

text \<open>One statement: its own answer, or a lost connection before or after it was applied.\<close>

definition statement ::
  "tool_io \<Rightarrow> string \<Rightarrow> (journal \<Rightarrow> 'a app_result \<times> journal) \<Rightarrow> journal \<Rightarrow> 'a app_result \<times> journal" where
  "statement io context sql j =
     (case io_db io of
        Answered \<Rightarrow> sql j
      | Lost e applied \<Rightarrow> (Inl (Internal (context @ e)), if applied then snd (sql j) else j))"

definition insert_effect :: "tool_io \<Rightarrow> new_effect \<Rightarrow> journal \<Rightarrow> unit app_result \<times> journal" where
  "insert_effect io effect = statement io ''failed to insert effect: '' (\<lambda>j.
     case hm_get j (ne_tool_call_id effect) of
       Some _ \<Rightarrow> (Inl (Conflict (''effect already exists for tool_call_id='' @ ne_tool_call_id effect)), j)
     | None \<Rightarrow>
         (Inr (), hm_insert (ne_tool_call_id effect)
            \<lparr>er_tool_call_id = ne_tool_call_id effect, er_attempt_id = ne_attempt_id effect,
             er_turn_id = ne_turn_id effect, er_tool_name = ne_tool_name effect,
             er_tool_input = ne_tool_input effect, er_tool_output = None,
             er_external_idempotency_key = ne_external_idempotency_key effect,
             er_status = effect_status_as_str Pending, er_is_mutating = ne_is_mutating effect,
             er_created_at = io_now io, er_completed_at = None\<rparr> j))"

definition row_to_effect :: "effect_row \<Rightarrow> effect_record app_result" where
  "row_to_effect row =
     (case effect_status_from_db (er_status row) of
        None \<Rightarrow> Inl (Internal (''unknown effect status: '' @ er_status row))
      | Some status \<Rightarrow>
          Inr \<lparr>er_tool_call_id = er_tool_call_id row, er_attempt_id = er_attempt_id row,
               er_turn_id = er_turn_id row, er_tool_name = er_tool_name row,
               er_tool_input = er_tool_input row, er_tool_output = er_tool_output row,
               er_external_idempotency_key = er_external_idempotency_key row, er_status = status,
               er_is_mutating = er_is_mutating row, er_created_at = er_created_at row,
               er_completed_at = er_completed_at row\<rparr>)"

definition get_effect :: "tool_io \<Rightarrow> string \<Rightarrow> journal \<Rightarrow> effect_record option app_result" where
  "get_effect io tool_call_id j =
     fst (statement io ''failed to query effect: '' (\<lambda>j.
       (case hm_get j tool_call_id of
          None \<Rightarrow> Inr None
        | Some row \<Rightarrow> (case row_to_effect row of Inl e \<Rightarrow> Inl e | Inr r \<Rightarrow> Inr (Some r)), j)) j)"

definition update_effect_result ::
  "tool_io \<Rightarrow> string \<Rightarrow> json option \<Rightarrow> effect_status \<Rightarrow> journal \<Rightarrow> unit app_result \<times> journal" where
  "update_effect_result io tool_call_id result status =
     (let completed_at = (if status = Succeeded \<or> status = Failed then Some (io_now io) else None)
      in statement io ''failed to update effect: '' (\<lambda>j.
           case hm_get j tool_call_id of
             None \<Rightarrow> (Inl (NotFound (''no effect found for tool_call_id='' @ tool_call_id)), j)
           | Some row \<Rightarrow>
               (Inr (), hm_insert tool_call_id
                  (row\<lparr>er_status := effect_status_as_str status, er_tool_output := result,
                       er_completed_at := completed_at\<rparr>) j)))"

definition claim_effect :: "tool_io \<Rightarrow> string \<Rightarrow> journal \<Rightarrow> bool app_result \<times> journal" where
  "claim_effect io tool_call_id = statement io ''failed to claim effect: '' (\<lambda>j.
     case hm_get j tool_call_id of
       Some row \<Rightarrow>
         if er_status row = ''pending''
         then (Inr True, hm_insert tool_call_id (row\<lparr>er_status := ''executing''\<rparr>) j)
         else (Inr False, j)
     | None \<Rightarrow> (Inr False, j))"

section \<open>Gateway\<close>

record tool_call_request =
  tq_tool_call_id :: string
  tq_attempt_id :: string
  tq_turn_id :: string
  tq_tool_name :: string
  tq_tool_input :: json

record tool_call_response =
  tr_output :: json
  tr_cached :: bool
  tr_idempotency_key :: string

datatype tool_gateway_error = StillExecuting string | ExecutionFailed string | GatewayInternal string

type_synonym tool_result = "tool_gateway_error + tool_call_response"

fun app_error_to_string :: "app_error \<Rightarrow> string" where
  "app_error_to_string (Unauthorized m) = ''unauthorized: '' @ m"
| "app_error_to_string (NotFound m) = ''not found: '' @ m"
| "app_error_to_string (Conflict m) = ''conflict: '' @ m"
| "app_error_to_string (Validation m) = ''validation failed: '' @ m"
| "app_error_to_string (Forbidden m) = ''forbidden: '' @ m"
| "app_error_to_string (RateLimited _) = ''rate limited''"
| "app_error_to_string (Internal m) = ''internal error: '' @ m"

definition from_app_error :: "app_error \<Rightarrow> tool_gateway_error" where
  "from_app_error e = GatewayInternal (app_error_to_string e)"

definition STALE_EXECUTING_TIMEOUT :: int where
  "STALE_EXECUTING_TIMEOUT = 120 * 1000000000"

definition idempotency_key :: "string \<Rightarrow> string" where
  "idempotency_key tool_call_id = ''echat:'' @ tool_call_id"

text \<open>The journal and the log of the calls that reached the executor, latest first.\<close>

record tool_invocation =
  ti_tool_name :: string
  ti_input :: json
  ti_idempotency_key :: string

record tool_world =
  tw_journal :: journal
  tw_calls :: "tool_invocation list"

definition on_journal :: "(journal \<Rightarrow> 'a \<times> journal) \<Rightarrow> tool_world \<Rightarrow> 'a \<times> tool_world" where
  "on_journal f w = (case f (tw_journal w) of (x, j) \<Rightarrow> (x, w\<lparr>tw_journal := j\<rparr>))"

definition call_executor :: "tool_io \<Rightarrow> tool_call_request \<Rightarrow> tool_world \<Rightarrow> (string + json) \<times> tool_world" where
  "call_executor io req w =
     (io_tool io,
      w\<lparr>tw_calls := \<lparr>ti_tool_name = tq_tool_name req, ti_input = tq_tool_input req,
                      ti_idempotency_key = idempotency_key (tq_tool_call_id req)\<rparr> # tw_calls w\<rparr>)"

definition response :: "tool_call_request \<Rightarrow> json \<Rightarrow> bool \<Rightarrow> tool_call_response" where
  "response req output cached =
     \<lparr>tr_output = output, tr_cached = cached, tr_idempotency_key = idempotency_key (tq_tool_call_id req)\<rparr>"

definition unwrap_or_null :: "json option \<Rightarrow> json" where
  "unwrap_or_null x = (case x of Some v \<Rightarrow> v | None \<Rightarrow> JNull)"

definition handle_race_on_insert :: "tool_io \<Rightarrow> tool_call_request \<Rightarrow> tool_world \<Rightarrow> tool_result" where
  "handle_race_on_insert io req w =
     (case get_effect io (tq_tool_call_id req) (tw_journal w) of
        Inl e \<Rightarrow> Inl (from_app_error e)
      | Inr None \<Rightarrow> Inl (GatewayInternal ''effect disappeared after conflict'')
      | Inr (Some existing) \<Rightarrow>
          (case er_status existing of
             Succeeded \<Rightarrow> Inr (response req (unwrap_or_null (er_tool_output existing)) True)
           | Executing \<Rightarrow> Inl (StillExecuting (tq_tool_call_id req))
           | _ \<Rightarrow> Inl (StillExecuting (tq_tool_call_id req))))"

definition new_effect_of :: "tool_call_request \<Rightarrow> new_effect" where
  "new_effect_of req =
     \<lparr>ne_tool_call_id = tq_tool_call_id req, ne_attempt_id = tq_attempt_id req, ne_turn_id = tq_turn_id req,
      ne_tool_name = tq_tool_name req, ne_tool_input = tq_tool_input req, ne_is_mutating = True,
      ne_external_idempotency_key = Some (idempotency_key (tq_tool_call_id req))\<rparr>"

definition record_result :: "tool_io \<Rightarrow> tool_call_request \<Rightarrow> string + json \<Rightarrow> tool_world \<Rightarrow> tool_result \<times> tool_world" where
  "record_result io req exec_result w =
     (case exec_result of
        Inr output \<Rightarrow>
          (case on_journal (update_effect_result io (tq_tool_call_id req) (Some output) Succeeded) w of
             (Inl e, w) \<Rightarrow> (Inl (from_app_error e), w)
           | (Inr _, w) \<Rightarrow> (Inr (response req output False), w))
      | Inl err_msg \<Rightarrow>
          (case on_journal (update_effect_result io (tq_tool_call_id req) None Failed) w of
             (_, w) \<Rightarrow> (Inl (ExecutionFailed err_msg), w)))"

definition claim_and_execute ::
  "(nat \<Rightarrow> tool_io) \<Rightarrow> tool_call_request \<Rightarrow> tool_world \<Rightarrow> tool_result \<times> tool_world" where
  "claim_and_execute io req w =
     (case on_journal (claim_effect (io 0) (tq_tool_call_id req)) w of
        (Inl e, w) \<Rightarrow> (Inl (from_app_error e), w)
      | (Inr False, w) \<Rightarrow> (handle_race_on_insert (io 1) req w, w)
      | (Inr True, w) \<Rightarrow>
          (case call_executor (io 1) req w of (exec_result, w) \<Rightarrow> record_result (io 2) req exec_result w))"

definition execute ::
  "tool_registry \<Rightarrow> (nat \<Rightarrow> tool_io) \<Rightarrow> tool_call_request \<Rightarrow> tool_world \<Rightarrow> tool_result \<times> tool_world" where
  "execute tools io req w =
     (if \<not> is_mutating tools (tq_tool_name req) then
        (case call_executor (io 0) req w of
           (Inr output, w) \<Rightarrow> (Inr (response req output False), w)
         | (Inl err_msg, w) \<Rightarrow> (Inl (ExecutionFailed err_msg), w))
      else
        (case get_effect (io 0) (tq_tool_call_id req) (tw_journal w) of
           Inl e \<Rightarrow> (Inl (from_app_error e), w)
         | Inr (Some existing) \<Rightarrow>
             (case er_status existing of
                Succeeded \<Rightarrow> (Inr (response req (unwrap_or_null (er_tool_output existing)) True), w)
              | Executing \<Rightarrow>
                  if max 0 (io_now (io 0) - er_created_at existing) < STALE_EXECUTING_TIMEOUT
                  then (Inl (StillExecuting (tq_tool_call_id req)), w)
                  else claim_and_execute (\<lambda>n. io (Suc n)) req w
              | Failed \<Rightarrow> claim_and_execute (\<lambda>n. io (Suc n)) req w
              | Pending \<Rightarrow> claim_and_execute (\<lambda>n. io (Suc n)) req w)
         | Inr None \<Rightarrow>
             (case on_journal (insert_effect (io 1) (new_effect_of req)) w of
                (Inr _, w) \<Rightarrow> claim_and_execute (\<lambda>n. io (Suc (Suc n))) req w
              | (Inl (Conflict _), w) \<Rightarrow> (handle_race_on_insert (io 2) req w, w)
              | (Inl e, w) \<Rightarrow> (Inl (from_app_error e), w))))"

section \<open>Concurrent calls\<close>

text \<open>
  The gateway is shared: several workers run \<^verbatim>\<open>execute\<close> at once on one journal. A worker stops at
  each \<^verbatim>\<open>await\<close>; \<open>call_step\<close> runs it from one await to the next.
\<close>

datatype call_phase =
    Starting | Inserting | Claiming | Calling | Recording "string + json" | Rechecking | Returned tool_result

definition call_step ::
  "tool_registry \<Rightarrow> tool_io \<Rightarrow> tool_call_request \<Rightarrow> call_phase \<Rightarrow> tool_world \<Rightarrow> call_phase \<times> tool_world" where
  "call_step tools io req phase w =
     (case phase of
        Starting \<Rightarrow>
          if \<not> is_mutating tools (tq_tool_name req) then
            (case call_executor io req w of
               (Inr output, w) \<Rightarrow> (Returned (Inr (response req output False)), w)
             | (Inl err_msg, w) \<Rightarrow> (Returned (Inl (ExecutionFailed err_msg)), w))
          else
            (case get_effect io (tq_tool_call_id req) (tw_journal w) of
               Inl e \<Rightarrow> (Returned (Inl (from_app_error e)), w)
             | Inr (Some existing) \<Rightarrow>
                 (case er_status existing of
                    Succeeded \<Rightarrow> (Returned (Inr (response req (unwrap_or_null (er_tool_output existing)) True)), w)
                  | Executing \<Rightarrow>
                      if max 0 (io_now io - er_created_at existing) < STALE_EXECUTING_TIMEOUT
                      then (Returned (Inl (StillExecuting (tq_tool_call_id req))), w)
                      else (Claiming, w)
                  | Failed \<Rightarrow> (Claiming, w)
                  | Pending \<Rightarrow> (Claiming, w))
             | Inr None \<Rightarrow> (Inserting, w))
      | Inserting \<Rightarrow>
          (case on_journal (insert_effect io (new_effect_of req)) w of
             (Inr _, w) \<Rightarrow> (Claiming, w)
           | (Inl (Conflict _), w) \<Rightarrow> (Rechecking, w)
           | (Inl e, w) \<Rightarrow> (Returned (Inl (from_app_error e)), w))
      | Claiming \<Rightarrow>
          (case on_journal (claim_effect io (tq_tool_call_id req)) w of
             (Inl e, w) \<Rightarrow> (Returned (Inl (from_app_error e)), w)
           | (Inr False, w) \<Rightarrow> (Rechecking, w)
           | (Inr True, w) \<Rightarrow> (Calling, w))
      | Calling \<Rightarrow> (case call_executor io req w of (exec_result, w) \<Rightarrow> (Recording exec_result, w))
      | Recording exec_result \<Rightarrow>
          (case record_result io req exec_result w of (r, w) \<Rightarrow> (Returned r, w))
      | Rechecking \<Rightarrow> (Returned (handle_race_on_insert io req w), w)
      | Returned r \<Rightarrow> (Returned r, w))"

text \<open>A worker on its own, for at most the given number of awaits.\<close>

fun call_run ::
  "nat \<Rightarrow> tool_registry \<Rightarrow> (nat \<Rightarrow> tool_io) \<Rightarrow> tool_call_request \<Rightarrow> call_phase \<Rightarrow> tool_world \<Rightarrow> call_phase \<times> tool_world" where
  "call_run 0 tools io req phase w = (phase, w)"
| "call_run (Suc n) tools io req phase w =
     (case call_step tools (io 0) req phase w of
        (phase, w) \<Rightarrow> call_run n tools (\<lambda>k. io (Suc k)) req phase w)"

text \<open>
  All workers: a new call arrives, or a worker takes one step with whatever time, database and tool
  do. A worker that crashed takes no further step.
\<close>

inductive pool_step ::
  "tool_registry \<Rightarrow> (tool_call_request \<times> call_phase) list \<times> tool_world \<Rightarrow>
   (tool_call_request \<times> call_phase) list \<times> tool_world \<Rightarrow> bool" for tools where
  arrive: "pool_step tools (pool, w) (pool @ [(req, Starting)], w)"
| work: "i < length pool \<Longrightarrow> pool ! i = (req, phase) \<Longrightarrow> call_step tools io req phase w = (phase', w') \<Longrightarrow>
    pool_step tools (pool, w) (pool[i := (req, phase')], w')"

end
