(* ===== verification/Tool_Props.thy ===== *)
theory Tool_Props
  imports Tool_Gateway
begin

text \<open>
  What the tool gateway guarantees: a mutating call reaches its tool at most once and every answer
  to it is the same, whatever the workers, the database and the clock do; and what it does with a
  call whose first execution failed.
\<close>

section \<open>A worker on its own\<close>

lemma call_run_returned [simp]: "call_run n tools io req (Returned r) w = (Returned r, w)"
  by (induction n arbitrary: io) (simp_all add: call_step_def)

lemma call_step_rechecking [simp]:
  "call_step tools io req Rechecking w = (Returned (handle_race_on_insert io req w), w)"
  by (simp add: call_step_def)

lemma call_run_rechecking: "call_run (Suc n) tools io req Rechecking w = (Returned (handle_race_on_insert (io 0) req w), w)"
  by (simp add: call_step_def)

lemma call_run_claiming:
  "call_run (Suc (Suc (Suc n))) tools io req Claiming w =
     (case claim_and_execute io req w of (r, w') \<Rightarrow> (Returned r, w'))"
proof -
  obtain x w' where claim: "on_journal (claim_effect (io 0) (tq_tool_call_id req)) w = (x, w')" by fastforce
  consider e where "x = Inl e" | "x = Inr False" | "x = Inr True" by (metis (full_types) sumE)
  then show ?thesis
  proof cases
    case 3
    with claim show ?thesis
      by (simp add: call_step_def claim_and_execute_def call_executor_def del: call_run.simps(1))
        (simp add: numeral_2_eq_2 split: prod.splits)
  qed (use claim in \<open>simp_all add: call_step_def claim_and_execute_def\<close>)
qed

section \<open>The protocol of one key\<close>

text \<open>
  What the journal says about a call: nothing, or a status and an output. \<open>key_step\<close> is the protocol
  a worker follows on it, without clock, database faults and the rest of the row.
\<close>

type_synonym key_view = "(string \<times> json option) option"

definition view_of :: "tool_world \<Rightarrow> string \<Rightarrow> key_view" where
  "view_of w k = map_option (\<lambda>row. (er_status row, er_tool_output row)) (hm_get (tw_journal w) k)"

fun owner :: "call_phase \<Rightarrow> bool" where
  "owner Calling = True"
| "owner (Recording r) = True"
| "owner _ = False"

inductive key_step :: "call_phase \<Rightarrow> key_view \<Rightarrow> call_phase \<Rightarrow> key_view \<Rightarrow> bool" where
  wait: "\<not> owner ph \<Longrightarrow> \<not> owner ph' \<Longrightarrow> (\<And>r. ph' \<noteq> Returned (Inr r)) \<Longrightarrow> key_step ph v ph' v"
| cached: "\<not> owner ph \<Longrightarrow> tr_output r = unwrap_or_null out \<Longrightarrow>
    key_step ph (Some (''succeeded'', out)) (Returned (Inr r)) (Some (''succeeded'', out))"
| inserted: "ph' = Claiming \<or> ph' = Returned (Inl e) \<Longrightarrow> key_step Inserting None ph' (Some (''pending'', None))"
| claimed: "ph' = Calling \<or> ph' = Returned (Inl e) \<Longrightarrow>
    key_step Claiming (Some (''pending'', out)) ph' (Some (''executing'', out))"
| called: "key_step Calling v (Recording r) v"
| succeeded: "ph' = Returned (Inl e) \<or> ph' = Returned (Inr r) \<and> tr_output r = out \<Longrightarrow>
    key_step (Recording (Inr out)) (Some x) ph' (Some (''succeeded'', Some out))"
| failed: "key_step (Recording (Inl m)) (Some x) (Returned (Inl e)) (Some (''failed'', None))"
| lost: "key_step (Recording r) v (Returned (Inl e)) v"
| returned: "key_step (Returned r) v (Returned r) v"

lemma get_effect_status:
  "get_effect io k (tw_journal w) = Inr (Some x) \<Longrightarrow> er_status x = Succeeded \<Longrightarrow>
   view_of w k = Some (''succeeded'', er_tool_output x)"
  by (auto simp: get_effect_def statement_def view_of_def row_to_effect_def effect_status_from_db_def
      split: db_outcome.splits option.splits sum.splits if_splits)

lemma handle_race_refines:
  assumes "\<not> owner ph"
  shows "key_step ph (view_of w (tq_tool_call_id req)) (Returned (handle_race_on_insert io req w)) (view_of w (tq_tool_call_id req))"
proof (cases "handle_race_on_insert io req w")
  case (Inl e)
  with assms show ?thesis by (auto intro: key_step.wait)
next
  case (Inr r)
  then obtain x where "get_effect io (tq_tool_call_id req) (tw_journal w) = Inr (Some x)" "er_status x = Succeeded"
    "tr_output r = unwrap_or_null (er_tool_output x)"
    by (auto simp: handle_race_on_insert_def response_def split: sum.splits option.splits effect_status.splits)
  with assms Inr show ?thesis by (simp add: get_effect_status key_step.cached)
qed

lemma starting_refines:
  assumes "is_mutating tools (tq_tool_name req)" "call_step tools io req Starting w = (ph', w')"
  shows "w' = w \<and> key_step Starting (view_of w (tq_tool_call_id req)) ph' (view_of w (tq_tool_call_id req))"
  using assms
  by (auto simp: call_step_def response_def get_effect_status
      split: sum.splits option.splits effect_status.splits if_splits intro!: key_step.wait key_step.cached)

lemma inserting_refines:
  assumes "call_step tools io req Inserting w = (ph', w')"
  shows "key_step Inserting (view_of w (tq_tool_call_id req)) ph' (view_of w' (tq_tool_call_id req)) \<and>
    tw_calls w' = tw_calls w \<and> (\<forall>l. l \<noteq> tq_tool_call_id req \<longrightarrow> view_of w' l = view_of w l)"
  using assms
  by (auto simp: call_step_def on_journal_def insert_effect_def statement_def new_effect_of_def view_of_def
      split: db_outcome.splits option.splits sum.splits app_error.splits if_splits
      intro!: key_step.wait key_step.inserted)

lemma claiming_refines:
  assumes "call_step tools io req Claiming w = (ph', w')"
  shows "key_step Claiming (view_of w (tq_tool_call_id req)) ph' (view_of w' (tq_tool_call_id req)) \<and>
    tw_calls w' = tw_calls w \<and> (\<forall>l. l \<noteq> tq_tool_call_id req \<longrightarrow> view_of w' l = view_of w l)"
  using assms
  by (auto simp: call_step_def on_journal_def claim_effect_def statement_def view_of_def
      split: db_outcome.splits option.splits sum.splits bool.splits if_splits
      intro!: key_step.wait key_step.claimed)

lemma recording_refines:
  assumes "call_step tools io req (Recording r) w = (ph', w')"
  shows "key_step (Recording r) (view_of w (tq_tool_call_id req)) ph' (view_of w' (tq_tool_call_id req)) \<and>
    tw_calls w' = tw_calls w \<and> (\<forall>l. l \<noteq> tq_tool_call_id req \<longrightarrow> view_of w' l = view_of w l)"
  using assms
  by (auto simp: call_step_def record_result_def on_journal_def update_effect_result_def statement_def view_of_def
      response_def Let_def split: db_outcome.splits option.splits sum.splits if_splits prod.splits
      intro!: key_step.lost key_step.succeeded key_step.failed)

definition invocation_of :: "tool_call_request \<Rightarrow> tool_invocation" where
  "invocation_of req = \<lparr>ti_tool_name = tq_tool_name req, ti_input = tq_tool_input req,
     ti_idempotency_key = idempotency_key (tq_tool_call_id req)\<rparr>"

text \<open>Every step of a worker of a mutating call follows the protocol.\<close>

lemma call_step_refines:
  assumes "is_mutating tools (tq_tool_name req)" "call_step tools io req ph w = (ph', w')"
  shows "key_step ph (view_of w (tq_tool_call_id req)) ph' (view_of w' (tq_tool_call_id req))"
    "tw_calls w' = (if ph = Calling then [invocation_of req] else []) @ tw_calls w"
    "\<And>l. l \<noteq> tq_tool_call_id req \<Longrightarrow> view_of w' l = view_of w l"
proof -
  have "key_step ph (view_of w (tq_tool_call_id req)) ph' (view_of w' (tq_tool_call_id req)) \<and>
    tw_calls w' = (if ph = Calling then [invocation_of req] else []) @ tw_calls w \<and>
    (\<forall>l. l \<noteq> tq_tool_call_id req \<longrightarrow> view_of w' l = view_of w l)"
  proof (cases ph)
    case Starting
    with starting_refines [OF assms(1)] assms(2) show ?thesis by simp blast
  next
    case Inserting
    with inserting_refines assms(2) show ?thesis by simp
  next
    case Claiming
    with claiming_refines assms(2) show ?thesis by simp
  next
    case Calling
    with assms(2) show ?thesis
      by (auto simp: call_step_def call_executor_def invocation_of_def view_of_def intro: key_step.called)
  next
    case (Recording r)
    with recording_refines assms(2) show ?thesis by simp
  next
    case Rechecking
    with assms(2) show ?thesis by (auto simp: call_step_def intro!: handle_race_refines)
  next
    case (Returned r)
    with assms(2) show ?thesis by (auto simp: call_step_def intro: key_step.returned)
  qed
  then show "key_step ph (view_of w (tq_tool_call_id req)) ph' (view_of w' (tq_tool_call_id req))"
    "tw_calls w' = (if ph = Calling then [invocation_of req] else []) @ tw_calls w"
    "\<And>l. l \<noteq> tq_tool_call_id req \<Longrightarrow> view_of w' l = view_of w l" by blast+
qed

lemma execute_run:
  "call_run 5 tools io req Starting w = (case execute tools io req w of (r, w') \<Rightarrow> (Returned r, w'))"
proof (cases "is_mutating tools (tq_tool_name req)")
  case False
  then show ?thesis
    by (cases "io_tool (io 0)") (simp_all add: eval_nat_numeral call_step_def execute_def call_executor_def)
next
  case True
  have later: "call_run 4 tools (\<lambda>k. io (Suc k)) req Claiming w =
      (case claim_and_execute (\<lambda>n. io (Suc n)) req w of (r, w') \<Rightarrow> (Returned r, w'))"
    using call_run_claiming [of 1] by (simp add: eval_nat_numeral del: call_run.simps)
  obtain x w' where ins: "on_journal (insert_effect (io 1) (new_effect_of req)) w = (x, w')" by fastforce
  have insert: "call_run 4 tools (\<lambda>k. io (Suc k)) req Inserting w =
      (case x of Inr _ \<Rightarrow> (case claim_and_execute (\<lambda>n. io (Suc (Suc n))) req w' of (r, w') \<Rightarrow> (Returned r, w'))
       | Inl (Conflict _) \<Rightarrow> (Returned (handle_race_on_insert (io 2) req w'), w')
       | Inl e \<Rightarrow> (Returned (Inl (from_app_error e)), w'))"
  proof (cases x)
    case (Inl e)
    have "call_step tools (io 1) req Inserting w =
      (case e of Conflict _ \<Rightarrow> (Rechecking, w') | e \<Rightarrow> (Returned (Inl (from_app_error e)), w'))"
      using ins Inl by (simp add: call_step_def split: app_error.splits)
    with Inl show ?thesis
      by (cases e) (simp_all add: eval_nat_numeral call_run_rechecking)
  next
    case (Inr u)
    then have "call_step tools (io 1) req Inserting w = (Claiming, w')" using ins by (simp add: call_step_def)
    with Inr call_run_claiming [of 0 tools "\<lambda>k. io (Suc (Suc k))" req w'] show ?thesis
      by (simp add: eval_nat_numeral)
  qed
  have "call_run 5 tools io req Starting w =
      (case call_step tools (io 0) req Starting w of (ph, w) \<Rightarrow> call_run 4 tools (\<lambda>k. io (Suc k)) req ph w)"
    using call_run.simps(2) [of 4] by simp
  then show ?thesis
    using True later insert ins
    by (auto simp: call_step_def execute_def split: sum.splits option.splits effect_status.splits app_error.splits)
qed

section \<open>All workers of one key\<close>

text \<open>
  The invariant of a key: \<open>ph\<close> gives the phase of each of its workers, \<open>v\<close> what the journal says and
  \<open>cs\<close> the calls that reached the tool.
\<close>

definition fresh_view :: "key_view \<Rightarrow> bool" where
  "fresh_view v \<longleftrightarrow> v = None \<or> (\<exists>out. v = Some (''pending'', out))"

definition key_ok :: "(nat \<Rightarrow> call_phase option) \<Rightarrow> key_view \<Rightarrow> tool_invocation list \<Rightarrow> bool" where
  "key_ok ph v cs \<longleftrightarrow>
     (\<forall>i j p q. ph i = Some p \<and> ph j = Some q \<and> owner p \<and> owner q \<longrightarrow> i = j) \<and>
     (\<forall>i p. ph i = Some p \<and> owner p \<longrightarrow> (\<exists>out. v = Some (''executing'', out))) \<and>
     (\<forall>i. ph i = Some Calling \<longrightarrow> cs = []) \<and>
     length cs \<le> 1 \<and> (fresh_view v \<longrightarrow> cs = []) \<and>
     (\<forall>i r. ph i = Some (Returned (Inr r)) \<longrightarrow> (\<exists>out. v = Some (''succeeded'', out) \<and> tr_output r = unwrap_or_null out))"

lemma key_okD:
  assumes "key_ok ph v cs"
  shows "ph i = Some p \<Longrightarrow> ph j = Some q \<Longrightarrow> owner p \<Longrightarrow> owner q \<Longrightarrow> i = j"
    "ph i = Some p \<Longrightarrow> owner p \<Longrightarrow> \<exists>out. v = Some (''executing'', out)"
    "ph i = Some Calling \<Longrightarrow> cs = []" "length cs \<le> 1" "fresh_view v \<Longrightarrow> cs = []"
    "ph i = Some (Returned (Inr r)) \<Longrightarrow> \<exists>out. v = Some (''succeeded'', out) \<and> tr_output r = unwrap_or_null out"
  using assms by (auto simp: key_ok_def)

lemma key_ok_no_owner:
  assumes "key_ok ph v cs" "\<nexists>out. v = Some (''executing'', out)" "ph i = Some p"
  shows "\<not> owner p"
  using key_okD(2) [OF assms(1,3)] assms(2) by blast

lemma key_ok_quiet:
  assumes "key_ok ph v cs" "\<not> owner p'"
    "\<And>r. p' = Returned (Inr r) \<Longrightarrow> \<exists>out. v = Some (''succeeded'', out) \<and> tr_output r = unwrap_or_null out"
  shows "key_ok (ph(i \<mapsto> p')) v cs"
  using assms unfolding key_ok_def by (auto split: if_splits)

lemma key_ok_move:
  assumes "key_ok ph v cs" "\<And>j q. ph j = Some q \<Longrightarrow> j \<noteq> i \<Longrightarrow> \<not> owner q"
    "\<nexists>out. v = Some (''succeeded'', out)" "\<not> fresh_view v' \<or> cs = []" "p' = Calling \<Longrightarrow> cs = []"
    "owner p' \<Longrightarrow> \<exists>out. v' = Some (''executing'', out)"
    "\<And>r. p' = Returned (Inr r) \<Longrightarrow> \<exists>out. v' = Some (''succeeded'', out) \<and> tr_output r = unwrap_or_null out"
  shows "key_ok (ph(i \<mapsto> p')) v' cs"
  using assms unfolding key_ok_def by (auto split: if_splits)

lemma key_ok_step:
  assumes ok: "key_ok ph v cs" and i: "ph i = Some p" and step: "key_step p v p' v'"
  shows "key_ok (ph(i \<mapsto> p')) v' ((if p = Calling then [x] else []) @ cs)"
  using step
proof cases
  case wait
  with ok show ?thesis by (auto intro: key_ok_quiet)
next
  case cached
  with ok show ?thesis by (auto intro: key_ok_quiet)
next
  case inserted
  have "key_ok (ph(i \<mapsto> p')) v' cs"
    by (rule key_ok_move [OF ok])
      (use inserted key_ok_no_owner [OF ok] key_okD(5) [OF ok] in \<open>auto simp: fresh_view_def\<close>)
  with inserted show ?thesis by auto
next
  case claimed
  have "key_ok (ph(i \<mapsto> p')) v' cs"
    by (rule key_ok_move [OF ok])
      (use claimed key_ok_no_owner [OF ok] key_okD(5) [OF ok] in \<open>auto simp: fresh_view_def\<close>)
  with claimed show ?thesis by auto
next
  case (called r)
  with key_okD(2) [OF ok i] key_okD(3) [OF ok, of i] i obtain out where "v = Some (''executing'', out)" "cs = []" by auto
  moreover from called key_okD(1) [OF ok i] have "ph j = Some q \<Longrightarrow> owner q \<Longrightarrow> i = j" for j q by simp
  moreover note key_okD(6) [OF ok]
  ultimately show ?thesis using called by (fastforce simp: key_ok_def fresh_view_def)
next
  case (succeeded out e r y)
  have "key_ok (ph(i \<mapsto> p')) v' cs"
    by (rule key_ok_move [OF ok])
      (use succeeded key_okD(1,2) [OF ok i] in \<open>auto simp: fresh_view_def unwrap_or_null_def\<close>)
  with succeeded show ?thesis by auto
next
  case (failed m y e)
  have "key_ok (ph(i \<mapsto> p')) v' cs"
    by (rule key_ok_move [OF ok])
      (use failed key_okD(1,2) [OF ok i] in \<open>auto simp: fresh_view_def\<close>)
  with failed show ?thesis by auto
next
  case lost
  with ok show ?thesis by (auto intro: key_ok_quiet)
next
  case (returned r)
  with ok i show ?thesis by (auto intro: key_ok_quiet dest: key_okD(6))
qed

section \<open>The pool\<close>

definition phases :: "tool_registry \<Rightarrow> string \<Rightarrow> (tool_call_request \<times> call_phase) list \<Rightarrow> nat \<Rightarrow> call_phase option" where
  "phases tools k pool i =
     (if i < length pool \<and> tq_tool_call_id (fst (pool ! i)) = k \<and> is_mutating tools (tq_tool_name (fst (pool ! i)))
      then Some (snd (pool ! i)) else None)"

definition mutating_calls :: "tool_registry \<Rightarrow> string \<Rightarrow> tool_world \<Rightarrow> tool_invocation list" where
  "mutating_calls tools k w =
     filter (\<lambda>c. ti_idempotency_key c = idempotency_key k \<and> is_mutating tools (ti_tool_name c)) (tw_calls w)"

fun at_rest :: "call_phase \<Rightarrow> bool" where
  "at_rest Starting = True"
| "at_rest (Returned r) = True"
| "at_rest _ = False"

definition pool_ok :: "tool_registry \<Rightarrow> (tool_call_request \<times> call_phase) list \<Rightarrow> tool_world \<Rightarrow> bool" where
  "pool_ok tools pool w \<longleftrightarrow>
     (\<forall>k. key_ok (phases tools k pool) (view_of w k) (mutating_calls tools k w)) \<and>
     (\<forall>(req, ph) \<in> set pool. at_rest ph \<or> is_mutating tools (tq_tool_name req))"

lemma phases_update:
  "i < length pool \<Longrightarrow> phases tools k (pool[i := (req, ph)]) =
    (phases tools k pool)(i := if tq_tool_call_id req = k \<and> is_mutating tools (tq_tool_name req) then Some ph else None)"
  by (auto simp: phases_def fun_eq_iff nth_list_update)

lemma phases_arrive:
  "phases tools k (pool @ [(req, ph)]) =
    (phases tools k pool)(length pool := if tq_tool_call_id req = k \<and> is_mutating tools (tq_tool_name req) then Some ph else None)"
  by (auto simp: phases_def fun_eq_iff nth_append)

lemma key_ok_same: "key_ok ph v cs \<Longrightarrow> ph i = None \<Longrightarrow> key_ok (ph(i := None)) v cs"
  by (simp add: fun_upd_idem)

lemma mutating_calls_cons:
  "tw_calls w' = invocation_of req # tw_calls w \<Longrightarrow> mutating_calls tools k w' =
    (if tq_tool_call_id req = k \<and> is_mutating tools (tq_tool_name req) then [invocation_of req] else []) @ mutating_calls tools k w"
  by (auto simp: mutating_calls_def invocation_of_def idempotency_key_def)

lemma mutating_calls_same: "tw_calls w' = tw_calls w \<Longrightarrow> mutating_calls tools k w' = mutating_calls tools k w"
  by (simp add: mutating_calls_def)

lemma read_only_step:
  assumes "\<not> is_mutating tools (tq_tool_name req)" "at_rest ph" "call_step tools io req ph w = (ph', w')"
  shows "at_rest ph'" "tw_journal w' = tw_journal w" "tw_calls w' = tw_calls w \<or> tw_calls w' = invocation_of req # tw_calls w"
  using assms
  by (cases ph; auto simp: call_step_def call_executor_def invocation_of_def split: sum.splits)+

lemma ball_update:
  assumes "\<forall>x \<in> set xs. P x" "P y"
  shows "\<forall>x \<in> set (xs[i := y]). P x"
  using assms set_update_subset_insert [of xs i y] by blast

lemma pool_ok_work:
  assumes ok: "pool_ok tools pool w" and i: "i < length pool" "pool ! i = (req, ph)"
    and step: "call_step tools io req ph w = (ph', w')"
  shows "pool_ok tools (pool[i := (req, ph')]) w'"
proof (cases "is_mutating tools (tq_tool_name req)")
  case True
  note ref = call_step_refines [OF True step]
  have "key_ok (phases tools k (pool[i := (req, ph')])) (view_of w' k) (mutating_calls tools k w')" for k
  proof (cases "tq_tool_call_id req = k")
    case same: True
    have "phases tools k pool i = Some ph" using i True same by (simp add: phases_def)
    moreover have "key_ok (phases tools k pool) (view_of w k) (mutating_calls tools k w)"
      using ok by (simp add: pool_ok_def)
    ultimately have "key_ok ((phases tools k pool)(i \<mapsto> ph')) (view_of w' k)
        ((if ph = Calling then [invocation_of req] else []) @ mutating_calls tools k w)"
      using key_ok_step ref(1) same by blast
    moreover have "mutating_calls tools k w' = (if ph = Calling then [invocation_of req] else []) @ mutating_calls tools k w"
      using ref(2) True same by (auto simp: mutating_calls_def invocation_of_def)
    ultimately show ?thesis
      using i(1) True same by (simp add: phases_update)
  next
    case False
    have "phases tools k pool i = None" using i False by (simp add: phases_def)
    moreover have "mutating_calls tools k w' = mutating_calls tools k w"
      using ref(2) False by (auto simp: mutating_calls_def invocation_of_def idempotency_key_def split: if_splits)
    ultimately show ?thesis
      using ok i(1) False ref(3) [of k] by (simp add: pool_ok_def phases_update key_ok_same)
  qed
  with ok True show ?thesis unfolding pool_ok_def by (intro conjI allI ball_update) simp_all
next
  case False
  from ok i have rest: "at_rest ph" using False by (force simp: pool_ok_def dest: nth_mem)
  note ro = read_only_step [OF False rest step]
  have "phases tools k pool i = None" for k using i False by (simp add: phases_def)
  moreover have "view_of w' k = view_of w k" for k by (simp add: view_of_def ro(2))
  moreover from ro(3) have "mutating_calls tools k w' = mutating_calls tools k w" for k
    by (rule disjE) (rule mutating_calls_same, assumption, simp add: mutating_calls_cons [of w' req w] False)
  ultimately have keys: "key_ok (phases tools k (pool[i := (req, ph')])) (view_of w' k) (mutating_calls tools k w')" for k
    using ok i(1) False by (simp add: pool_ok_def phases_update key_ok_same)
  with ok ro(1) show ?thesis unfolding pool_ok_def by (intro conjI allI ball_update) simp_all
qed

lemma pool_step_ok:
  assumes "pool_step tools x y" "pool_ok tools (fst x) (snd x)"
  shows "pool_ok tools (fst y) (snd y)"
  using assms
proof cases
  case (arrive pool w req)
  have "key_ok (phases tools k (pool @ [(req, Starting)])) (view_of w k) (mutating_calls tools k w)" for k
    using assms(2) arrive
    by (auto simp: pool_ok_def phases_arrive intro!: key_ok_quiet key_ok_same) (simp_all add: phases_def)
  with assms(2) arrive show ?thesis by (auto simp: pool_ok_def)
qed (auto intro: pool_ok_work simp: assms(2) [simplified])

lemma pool_steps_ok:
  assumes "(pool_step tools)\<^sup>*\<^sup>* x y" "pool_ok tools (fst x) (snd x)"
  shows "pool_ok tools (fst y) (snd y)"
  using assms by (induction rule: rtranclp_induct) (auto intro: pool_step_ok)

lemma pool_ok_initial: "tw_calls w = [] \<Longrightarrow> pool_ok tools [] w"
  by (simp add: pool_ok_def key_ok_def phases_def mutating_calls_def)

section \<open>Properties\<close>


text \<open>
  All answers to a mutating call agree. Two workers that return a result for the same call
  return the same output, whether it comes from the tool or from the journal.
\<close>

theorem mutating_call_answers_agree:
  assumes "(pool_step tools)\<^sup>*\<^sup>* ([], w) (pool, w')" "tw_calls w = []"
    "(q1, Returned (Inr r1)) \<in> set pool" "(q2, Returned (Inr r2)) \<in> set pool"
    "tq_tool_call_id q1 = tq_tool_call_id q2"
    "is_mutating tools (tq_tool_name q1)" "is_mutating tools (tq_tool_name q2)"
  shows "tr_output r1 = tr_output r2"
proof -
  let ?k = "tq_tool_call_id q1"
  have "pool_ok tools pool w'" using pool_steps_ok [OF assms(1)] pool_ok_initial [OF assms(2)] by simp
  then have ok: "key_ok (phases tools ?k pool) (view_of w' ?k) (mutating_calls tools ?k w')"
    by (simp add: pool_ok_def)
  have "\<exists>i. phases tools ?k pool i = Some (Returned (Inr r))"
    if "(q, Returned (Inr r)) \<in> set pool" "tq_tool_call_id q = ?k" "is_mutating tools (tq_tool_name q)" for q r
  proof -
    from that(1) obtain i where "i < length pool" "pool ! i = (q, Returned (Inr r))" by (auto simp: in_set_conv_nth)
    with that(2,3) have "phases tools ?k pool i = Some (Returned (Inr r))" by (simp add: phases_def)
    then show ?thesis ..
  qed
  from this [OF assms(3)] this [OF assms(4)] assms(5-7) obtain i j where
    "phases tools ?k pool i = Some (Returned (Inr r1))" "phases tools ?k pool j = Some (Returned (Inr r2))" by auto
  from key_okD(6) [OF ok this(1)] key_okD(6) [OF ok this(2)] show ?thesis by auto
qed


text \<open>
  C36: A failed or abandoned call is never executed again. When the journal says that a call failed,
  or is executing, however long ago it started, \<^verbatim>\<open>execute\<close> answers that it is still executing,
  the tool is not called and the journal does not change.
\<close>

theorem failed_call_never_retried:
  assumes "is_mutating tools (tq_tool_name req)" "hm_get (tw_journal w) (tq_tool_call_id req) = Some row"
    "er_status row = ''failed'' \<or> er_status row = ''executing''" "\<forall>n. io_db (io n) = Answered"
  shows "execute tools io req w = (Inl (StillExecuting (tq_tool_call_id req)), w)"
  using assms
  by (auto simp: execute_def get_effect_def statement_def row_to_effect_def effect_status_from_db_def
      claim_and_execute_def on_journal_def claim_effect_def handle_race_on_insert_def)

section \<open>A sample gateway\<close>

definition demo_io :: tool_io where
  "demo_io = \<lparr>io_now = 0, io_db = Answered, io_tool = Inr (JInt 7)\<rparr>"

definition demo_call :: tool_call_request where
  "demo_call = \<lparr>tq_tool_call_id = ''c'', tq_attempt_id = ''a'', tq_turn_id = ''t'', tq_tool_name = ''git_push'',
     tq_tool_input = JNull\<rparr>"

definition demo_world :: tool_world where
  "demo_world = \<lparr>tw_journal = [], tw_calls = []\<rparr>"

definition demo_done :: tool_world where
  "demo_done = snd (execute default_registry (\<lambda>_. demo_io) demo_call demo_world)"

lemma pool_work_alone:
  assumes "pool ! i = (req, ph)" "i < length pool"
  shows "(pool_step tools)\<^sup>*\<^sup>* (pool, w)
    (pool[i := (req, fst (call_run n tools io req ph w))], snd (call_run n tools io req ph w))"
  using assms
proof (induction n arbitrary: io pool ph w)
  case 0
  then show ?case by (simp flip: \<open>pool ! i = (req, ph)\<close>)
next
  case (Suc n)
  obtain ph' w' where step: "call_step tools (io 0) req ph w = (ph', w')" by fastforce
  with Suc.prems have "pool_step tools (pool, w) (pool[i := (req, ph')], w')" by (blast intro: pool_step.work)
  with Suc.IH [of "pool[i := (req, ph')]" ph' w' "\<lambda>k. io (Suc k)"] Suc.prems step show ?case
    by (auto intro: converse_rtranclp_into_rtranclp)
qed

lemma demo_twice:
  "(pool_step default_registry)\<^sup>*\<^sup>* ([], demo_world)
     ([(demo_call, Returned (Inr (response demo_call (JInt 7) False))),
       (demo_call, Returned (Inr (response demo_call (JInt 7) True)))], demo_done)"
proof -
  let ?s = "pool_step default_registry" and ?io = "\<lambda>_ :: nat. demo_io"
  have run: "execute default_registry ?io demo_call demo_world = (Inr (response demo_call (JInt 7) False), demo_done)"
    "execute default_registry ?io demo_call demo_done = (Inr (response demo_call (JInt 7) True), demo_done)"
    by code_simp+
  have "?s ([], demo_world) ([(demo_call, Starting)], demo_world)"
    using pool_step.arrive [of default_registry "[]"] by simp
  moreover have "?s ([(demo_call, Starting)], demo_world) ([(demo_call, Starting), (demo_call, Starting)], demo_world)"
    using pool_step.arrive [of default_registry "[(demo_call, Starting)]"] by simp
  moreover have "?s\<^sup>*\<^sup>* ([(demo_call, Starting), (demo_call, Starting)], demo_world)
      ([(demo_call, Returned (Inr (response demo_call (JInt 7) False))), (demo_call, Starting)], demo_done)"
    using pool_work_alone [of "[(demo_call, Starting), (demo_call, Starting)]" 0 demo_call Starting default_registry demo_world 5 ?io]
    by (simp add: execute_run run)
  moreover have "?s\<^sup>*\<^sup>* ([(demo_call, Returned (Inr (response demo_call (JInt 7) False))), (demo_call, Starting)], demo_done)
      ([(demo_call, Returned (Inr (response demo_call (JInt 7) False))),
        (demo_call, Returned (Inr (response demo_call (JInt 7) True)))], demo_done)"
    using pool_work_alone [of "[(demo_call, Returned (Inr (response demo_call (JInt 7) False))), (demo_call, Starting)]"
        1 demo_call Starting default_registry demo_done 5 ?io]
    by (simp add: execute_run run)
  ultimately show ?thesis by (meson converse_rtranclp_into_rtranclp rtranclp_trans)
qed


theorem mutating_call_answers_agree_witness:
  "tr_output (response demo_call (JInt 7) False) = tr_output (response demo_call (JInt 7) True)"
proof -
  have "tw_calls demo_world = []" "is_mutating default_registry (tq_tool_name demo_call)" by code_simp+
  then show ?thesis
    by (intro mutating_call_answers_agree [OF demo_twice]) auto
qed

definition demo_failed :: tool_world where
  "demo_failed = snd (execute default_registry (\<lambda>_. demo_io\<lparr>io_tool := Inl ''refused''\<rparr>) demo_call demo_world)"

theorem failed_call_never_retried_witness:
  "execute default_registry (\<lambda>_. demo_io) demo_call demo_failed = (Inl (StillExecuting ''c''), demo_failed) \<and>
   fst (execute default_registry (\<lambda>_. demo_io\<lparr>io_tool := Inl ''refused''\<rparr>) demo_call demo_world) =
     Inl (ExecutionFailed ''refused'')"
proof -
  have "is_mutating default_registry (tq_tool_name demo_call)"
    "er_status (the (hm_get (tw_journal demo_failed) (tq_tool_call_id demo_call))) = ''failed''"
    "hm_get (tw_journal demo_failed) (tq_tool_call_id demo_call) \<noteq> None"
    "fst (execute default_registry (\<lambda>_. demo_io\<lparr>io_tool := Inl ''refused''\<rparr>) demo_call demo_world) =
      Inl (ExecutionFailed ''refused'')" by code_simp+
  moreover have "\<forall>n :: nat. io_db demo_io = Answered" "tq_tool_call_id demo_call = ''c''"
    by (simp_all add: demo_io_def demo_call_def)
  ultimately show ?thesis
    using failed_call_never_retried [of default_registry demo_call demo_failed _ "\<lambda>_. demo_io"] by auto
qed

end
