(* ===== verification/Executor_Wal.thy ===== *)
theory Executor_Wal
  imports Choruz_Prelude
begin

text \<open>
  The executor's local write-ahead log, \<^verbatim>\<open>crates/choruz-executor/src/wal.rs\<close>, and the scan that
  reconciles it at start-up, \<^verbatim>\<open>services/choruz-pipeline/src/executor/wal_recovery.rs\<close>. The SQLite
  table is the list of its rows in \<^verbatim>\<open>rowid\<close> order; \<^verbatim>\<open>INSERT OR REPLACE\<close> deletes the row with the
  same primary key and appends. A time is a number of seconds, the resolution of
  \<^verbatim>\<open>datetime('now')\<close>. A statement may fail with a SQLite error, and then changes nothing.
\<close>

section \<open>The log\<close>

datatype wal_event_type = Start | Chunk | Finished | Failed

fun wal_event_type_as_str :: "wal_event_type \<Rightarrow> string" where
  "wal_event_type_as_str Start = ''start''"
| "wal_event_type_as_str Chunk = ''chunk''"
| "wal_event_type_as_str Finished = ''finished''"
| "wal_event_type_as_str Failed = ''failed''"

definition wal_event_type_parse :: "string \<Rightarrow> wal_event_type option" where
  "wal_event_type_parse s =
     (if s = ''start'' then Some Start else if s = ''chunk'' then Some Chunk
      else if s = ''finished'' then Some Finished else if s = ''failed'' then Some Failed else None)"

record 'type wal_row =
  wr_turn_id :: string
  wr_attempt_id :: string
  wr_event_type :: 'type
  wr_payload :: "string option"
  wr_created_at :: int

type_synonym wal_table = "string wal_row list"
type_synonym wal_entry = "wal_event_type wal_row"

record incomplete_turn =
  it_turn_id :: string
  it_attempt_id :: string
  it_prompt :: "string option"

datatype executor_error = WalError string

record wal_io =
  wio_now :: int
  wio_error :: "string option"

definition wal_statement ::
  "wal_io \<Rightarrow> string \<Rightarrow> (wal_table \<Rightarrow> 'a \<times> wal_table) \<Rightarrow> wal_table \<Rightarrow> (executor_error + 'a) \<times> wal_table" where
  "wal_statement io context sql t =
     (case wio_error io of
        Some e \<Rightarrow> (Inl (WalError (context @ e)), t)
      | None \<Rightarrow> (case sql t of (x, t') \<Rightarrow> (Inr x, t')))"

definition insert_or_replace :: "string wal_row \<Rightarrow> wal_table \<Rightarrow> wal_table" where
  "insert_or_replace row t =
     filter (\<lambda>r. \<not> (wr_turn_id r = wr_turn_id row \<and> wr_attempt_id r = wr_attempt_id row \<and>
                     wr_event_type r = wr_event_type row)) t @ [row]"

definition log_event ::
  "wal_io \<Rightarrow> string \<Rightarrow> string \<Rightarrow> string \<Rightarrow> string \<Rightarrow> string \<Rightarrow> wal_table \<Rightarrow> (executor_error + unit) \<times> wal_table" where
  "log_event io context event_type turn_id attempt_id payload =
     wal_statement io context (\<lambda>t.
       ((), insert_or_replace \<lparr>wr_turn_id = turn_id, wr_attempt_id = attempt_id, wr_event_type = event_type,
              wr_payload = Some payload, wr_created_at = wio_now io\<rparr> t))"

definition log_turn_start ::
  "wal_io \<Rightarrow> string \<Rightarrow> string \<Rightarrow> string \<Rightarrow> wal_table \<Rightarrow> (executor_error + unit) \<times> wal_table" where
  "log_turn_start io = log_event io ''failed to log turn start: '' ''start''"

definition log_chunk ::
  "wal_io \<Rightarrow> string \<Rightarrow> string \<Rightarrow> string \<Rightarrow> wal_table \<Rightarrow> (executor_error + unit) \<times> wal_table" where
  "log_chunk io = log_event io ''failed to log chunk: '' ''chunk''"

definition log_turn_finished ::
  "wal_io \<Rightarrow> string \<Rightarrow> string \<Rightarrow> string \<Rightarrow> wal_table \<Rightarrow> (executor_error + unit) \<times> wal_table" where
  "log_turn_finished io = log_event io ''failed to log turn finished: '' ''finished''"

definition log_turn_failed ::
  "wal_io \<Rightarrow> string \<Rightarrow> string \<Rightarrow> string \<Rightarrow> wal_table \<Rightarrow> (executor_error + unit) \<times> wal_table" where
  "log_turn_failed io = log_event io ''failed to log turn failed: '' ''failed''"

definition ended :: "string \<Rightarrow> string \<Rightarrow> wal_table \<Rightarrow> bool" where
  "ended turn_id attempt_id t \<longleftrightarrow>
     (\<exists>r \<in> set t. wr_turn_id r = turn_id \<and> wr_attempt_id r = attempt_id \<and>
                   wr_event_type r \<in> {''finished'', ''failed''})"

definition incomplete_rows :: "wal_table \<Rightarrow> incomplete_turn list" where
  "incomplete_rows t =
     map (\<lambda>r. \<lparr>it_turn_id = wr_turn_id r, it_attempt_id = wr_attempt_id r, it_prompt = wr_payload r\<rparr>)
       (filter (\<lambda>r. wr_event_type r = ''start'' \<and> \<not> ended (wr_turn_id r) (wr_attempt_id r) t) t)"

definition find_incomplete_turns :: "wal_io \<Rightarrow> wal_table \<Rightarrow> executor_error + incomplete_turn list" where
  "find_incomplete_turns io t =
     fst (wal_statement io ''failed to query incomplete turns: '' (\<lambda>t. (incomplete_rows t, t)) t)"

text \<open>
  The modifier of \<^verbatim>\<open>datetime\<close> is \<^verbatim>\<open>-<max_age_secs> seconds\<close>; for a negative age it is malformed,
  the result is \<^verbatim>\<open>NULL\<close> and no row compares below it.
\<close>

definition expired_turns :: "int \<Rightarrow> int \<Rightarrow> wal_table \<Rightarrow> string list" where
  "expired_turns at max_age_secs t =
     map wr_turn_id (filter (\<lambda>r. wr_event_type r \<in> {''finished'', ''failed''} \<and>
       0 \<le> max_age_secs \<and> wr_created_at r < at - max_age_secs) t)"

definition cleanup :: "wal_io \<Rightarrow> int \<Rightarrow> wal_table \<Rightarrow> (executor_error + nat) \<times> wal_table" where
  "cleanup io max_age_secs = wal_statement io ''failed to cleanup WAL: '' (\<lambda>t.
     let kept = filter (\<lambda>r. wr_turn_id r \<notin> set (expired_turns (wio_now io) max_age_secs t)) t
     in (length t - length kept, kept))"

definition wal_entry_of :: "string wal_row \<Rightarrow> wal_entry" where
  "wal_entry_of r =
     \<lparr>wr_turn_id = wr_turn_id r, wr_attempt_id = wr_attempt_id r,
      wr_event_type = (case wal_event_type_parse (wr_event_type r) of Some e \<Rightarrow> e | None \<Rightarrow> Start),
      wr_payload = wr_payload r, wr_created_at = wr_created_at r\<rparr>"

definition get_turn_entries ::
  "wal_io \<Rightarrow> string \<Rightarrow> string \<Rightarrow> wal_table \<Rightarrow> executor_error + wal_entry list" where
  "get_turn_entries io turn_id attempt_id t =
     fst (wal_statement io ''failed to query WAL entries: '' (\<lambda>t.
       (map wal_entry_of (sort_key wr_created_at
          (filter (\<lambda>r. wr_turn_id r = turn_id \<and> wr_attempt_id r = attempt_id) t)), t)) t)"

definition wal_count :: "wal_io \<Rightarrow> wal_table \<Rightarrow> executor_error + nat" where
  "wal_count io t = fst (wal_statement io ''failed to count WAL: '' (\<lambda>t. (length t, t)) t)"

section \<open>Recovery at start-up\<close>

text \<open>\<^verbatim>\<open>Path::extension\<close> of a file name: after the last dot, unless that dot is its first character.\<close>

definition path_extension :: "string \<Rightarrow> string option" where
  "path_extension name =
     (let ext = rev (takeWhile (\<lambda>c. c \<noteq> CHR ''.'') (rev name));
          stem = rev (drop 1 (dropWhile (\<lambda>c. c \<noteq> CHR ''.'') (rev name)))
      in if name = ''..'' \<or> CHR ''.'' \<notin> set name \<or> stem = [] then None else Some ext)"

record recovery_report =
  rr_databases :: nat
  rr_incomplete :: nat
  rr_recovered :: nat
  rr_errors :: nat

definition recovery_error :: "recovery_report \<Rightarrow> recovery_report" where
  "recovery_error report = report\<lparr>rr_errors := rr_errors report + 1\<rparr>"

text \<open>
  The file system as the scan sees it: whether the directory can be made and read, the entries in
  listing order (a name or an error, which ends the listing), whether each database opens, and the
  outcome of the statements on it.
\<close>

record recovery_env =
  re_create_dir_error :: bool
  re_read_dir_error :: bool
  re_entries :: "(unit + string) list"
  re_open_error :: "string \<Rightarrow> bool"
  re_query_io :: "string \<Rightarrow> wal_io"
  re_record_io :: "string \<Rightarrow> incomplete_turn \<Rightarrow> wal_io"

type_synonym wal_files = "(string, wal_table) hash_map"

fun mark_failed ::
  "(incomplete_turn \<Rightarrow> wal_io) \<Rightarrow> incomplete_turn list \<Rightarrow> wal_table \<Rightarrow> recovery_report \<Rightarrow> wal_table \<times> recovery_report" where
  "mark_failed io [] t report = (t, report)"
| "mark_failed io (turn # turns) t report =
     (case log_turn_failed (io turn) (it_turn_id turn) (it_attempt_id turn)
             ''executor crash recovery: process was not running'' t of
        (Inr _, t) \<Rightarrow> mark_failed io turns t (report\<lparr>rr_recovered := rr_recovered report + 1\<rparr>)
      | (Inl _, t) \<Rightarrow> mark_failed io turns t (recovery_error report))"

text \<open>\<^verbatim>\<open>AdapterWal::open\<close> creates a missing table.\<close>

definition wal_open :: "string \<Rightarrow> wal_files \<Rightarrow> wal_table" where
  "wal_open path files = (case hm_get files path of Some t \<Rightarrow> t | None \<Rightarrow> [])"

definition recover_file :: "recovery_env \<Rightarrow> string \<Rightarrow> wal_files \<Rightarrow> recovery_report \<Rightarrow> wal_files \<times> recovery_report" where
  "recover_file E path files report =
     (if re_open_error E path then (files, recovery_error report)
      else
        (let t = wal_open path files; files = hm_insert path t files in
         case find_incomplete_turns (re_query_io E path) t of
           Inl _ \<Rightarrow> (files, recovery_error report)
         | Inr incomplete \<Rightarrow>
             (case mark_failed (re_record_io E path) incomplete t
                     (report\<lparr>rr_databases := rr_databases report + 1,
                             rr_incomplete := rr_incomplete report + length incomplete\<rparr>) of
                (t, report) \<Rightarrow> (hm_insert path t files, report))))"

fun scan_entries ::
  "recovery_env \<Rightarrow> (unit + string) list \<Rightarrow> wal_files \<Rightarrow> recovery_report \<Rightarrow> wal_files \<times> recovery_report" where
  "scan_entries E [] files report = (files, report)"
| "scan_entries E (Inl _ # entries) files report = (files, recovery_error report)"
| "scan_entries E (Inr path # entries) files report =
     (if path_extension path \<noteq> Some ''db'' then scan_entries E entries files report
      else (case recover_file E path files report of (files, report) \<Rightarrow> scan_entries E entries files report))"

definition scan :: "recovery_env \<Rightarrow> wal_files \<Rightarrow> wal_files \<times> recovery_report" where
  "scan E files =
     (let report = \<lparr>rr_databases = 0, rr_incomplete = 0, rr_recovered = 0, rr_errors = 0\<rparr> in
      if re_create_dir_error E then (files, recovery_error report)
      else if re_read_dir_error E then (files, recovery_error report)
      else scan_entries E (re_entries E) files report)"

section \<open>What recovery achieves\<close>

lemma set_insert_or_replace_new:
  assumes "\<And>r. r \<in> set t \<Longrightarrow> \<not> (wr_turn_id r = wr_turn_id row \<and> wr_attempt_id r = wr_attempt_id row \<and> wr_event_type r = wr_event_type row)"
  shows "insert_or_replace row t = t @ [row]"
  using assms by (simp add: insert_or_replace_def filter_id_conv)

definition failed_row :: "wal_io \<Rightarrow> incomplete_turn \<Rightarrow> string wal_row" where
  "failed_row io turn = \<lparr>wr_turn_id = it_turn_id turn, wr_attempt_id = it_attempt_id turn, wr_event_type = ''failed'',
     wr_payload = Some ''executor crash recovery: process was not running'', wr_created_at = wio_now io\<rparr>"

lemma ended_mono: "ended i a t \<Longrightarrow> set t \<subseteq> set t' \<Longrightarrow> ended i a t'"
  by (auto simp: ended_def)

lemma ended_insert:
  "ended i a t \<Longrightarrow> ended i a (insert_or_replace row t)"
  by (auto simp: ended_def insert_or_replace_def)

lemma ended_failed_row: "ended (it_turn_id turn) (it_attempt_id turn) (insert_or_replace (failed_row io turn) t)"
  by (auto simp: ended_def insert_or_replace_def failed_row_def)

lemma log_turn_failed_cases:
  "log_turn_failed io (it_turn_id turn) (it_attempt_id turn) ''executor crash recovery: process was not running'' t =
     (case wio_error io of
        None \<Rightarrow> (Inr (), insert_or_replace (failed_row io turn) t)
      | Some e \<Rightarrow> (Inl (WalError (''failed to log turn failed: '' @ e)), t))"
  by (simp add: log_turn_failed_def log_event_def wal_statement_def failed_row_def split: option.splits)

text \<open>Marking turns failed only adds \<^verbatim>\<open>failed\<close> rows of those turns (or renews them).\<close>

definition marked :: "wal_table \<Rightarrow> wal_table \<Rightarrow> bool" where
  "marked t t' \<longleftrightarrow> (\<forall>r. wr_event_type r \<noteq> ''failed'' \<longrightarrow> r \<in> set t' \<longleftrightarrow> r \<in> set t) \<and>
     (\<forall>i a. ended i a t \<longrightarrow> ended i a t')"

lemma marked_failed_row: "marked t (insert_or_replace (failed_row io turn) t)"
  by (auto simp: marked_def insert_or_replace_def failed_row_def ended_def)

lemma marked_refl: "marked t t"
  by (simp add: marked_def)

lemma marked_trans: "marked t t' \<Longrightarrow> marked t' t'' \<Longrightarrow> marked t t''"
  by (simp add: marked_def)

lemma mark_failed_effect:
  assumes "mark_failed io turns t report = (t', report')"
  shows "marked t t'"
    "rr_recovered report' + rr_errors report' = rr_recovered report + rr_errors report + length turns"
    "rr_errors report \<le> rr_errors report'" "rr_incomplete report' = rr_incomplete report"
    "rr_errors report' = rr_errors report \<Longrightarrow> turn \<in> set turns \<Longrightarrow> ended (it_turn_id turn) (it_attempt_id turn) t'"
proof -
  have "marked t t' \<and> rr_recovered report' + rr_errors report' = rr_recovered report + rr_errors report + length turns \<and>
    rr_errors report \<le> rr_errors report' \<and> rr_incomplete report' = rr_incomplete report \<and>
    (rr_errors report' = rr_errors report \<longrightarrow> (\<forall>turn \<in> set turns. ended (it_turn_id turn) (it_attempt_id turn) t'))"
    using assms
  proof (induction io turns t report rule: mark_failed.induct)
    case (1 io t report)
    then show ?case by (simp add: marked_refl)
  next
    case (2 io turn turns t report)
    show ?case
    proof (cases "wio_error (io turn)")
      case None
      with 2 have rest: "marked (insert_or_replace (failed_row (io turn) turn) t) t'"
        "rr_recovered report' + rr_errors report' = rr_recovered report + 1 + rr_errors report + length turns"
        "rr_errors report \<le> rr_errors report'" "rr_incomplete report' = rr_incomplete report"
        "rr_errors report' = rr_errors report \<longrightarrow> (\<forall>turn \<in> set turns. ended (it_turn_id turn) (it_attempt_id turn) t')"
        by (auto simp: log_turn_failed_cases)
      from rest(1) have "ended (it_turn_id turn) (it_attempt_id turn) t'"
        using ended_failed_row by (simp add: marked_def)
      with rest show ?thesis by (auto intro: marked_trans marked_failed_row)
    next
      case (Some e)
      with 2 show ?thesis by (auto simp: log_turn_failed_cases recovery_error_def)
    qed
  qed
  then show "marked t t'"
    "rr_recovered report' + rr_errors report' = rr_recovered report + rr_errors report + length turns"
    "rr_errors report \<le> rr_errors report'" "rr_incomplete report' = rr_incomplete report"
    "rr_errors report' = rr_errors report \<Longrightarrow> turn \<in> set turns \<Longrightarrow> ended (it_turn_id turn) (it_attempt_id turn) t'"
    by auto
qed

lemma incomplete_rows_Nil_iff:
  "incomplete_rows t = [] \<longleftrightarrow> (\<forall>r \<in> set t. wr_event_type r = ''start'' \<longrightarrow> ended (wr_turn_id r) (wr_attempt_id r) t)"
  by (auto simp: incomplete_rows_def filter_empty_conv)

lemma marked_complete: "marked t t' \<Longrightarrow> incomplete_rows t = [] \<Longrightarrow> incomplete_rows t' = []"
  by (auto simp: incomplete_rows_Nil_iff marked_def)

lemma mark_incomplete_complete:
  assumes "mark_failed io (incomplete_rows t) t report = (t', report')" "rr_errors report' = rr_errors report"
  shows "incomplete_rows t' = []"
proof -
  have "ended (wr_turn_id r) (wr_attempt_id r) t'" if "r \<in> set t'" "wr_event_type r = ''start''" for r
  proof (cases "ended (wr_turn_id r) (wr_attempt_id r) t")
    case True
    with mark_failed_effect(1) [OF assms(1)] show ?thesis by (simp add: marked_def)
  next
    case False
    from that mark_failed_effect(1) [OF assms(1)] have "r \<in> set t" by (auto simp: marked_def)
    with that(2) False have "\<lparr>it_turn_id = wr_turn_id r, it_attempt_id = wr_attempt_id r, it_prompt = wr_payload r\<rparr> \<in> set (incomplete_rows t)"
      by (auto simp: incomplete_rows_def)
    from mark_failed_effect(5) [OF assms this] show ?thesis by simp
  qed
  then show ?thesis by (simp add: incomplete_rows_Nil_iff)
qed

text \<open>What one recovered file, and so every scan, does to the directory and its report.\<close>

definition recovers ::
  "string list \<Rightarrow> wal_files \<times> recovery_report \<Rightarrow> wal_files \<times> recovery_report \<Rightarrow> bool" where
  "recovers paths x y \<longleftrightarrow>
     (\<forall>p. marked (wal_open p (fst x)) (wal_open p (fst y))) \<and> rr_errors (snd x) \<le> rr_errors (snd y) \<and>
     (rr_recovered (snd x) \<le> rr_incomplete (snd x) \<longrightarrow> rr_recovered (snd y) \<le> rr_incomplete (snd y)) \<and>
     (rr_errors (snd y) = rr_errors (snd x) \<longrightarrow>
        (\<forall>p \<in> set paths. incomplete_rows (wal_open p (fst y)) = []) \<and>
        (rr_recovered (snd x) = rr_incomplete (snd x) \<longrightarrow> rr_recovered (snd y) = rr_incomplete (snd y)))"

lemma recovers_refl: "recovers [] x x"
  by (simp add: recovers_def marked_refl)

lemma recovers_error: "recovers paths (files, report) (files, recovery_error report)"
  by (simp add: recovers_def recovery_error_def marked_refl)

lemma recovers_trans:
  assumes "recovers ps x y" "recovers qs y z"
  shows "recovers (ps @ qs) x z"
  using assms by (auto simp: recovers_def intro: marked_trans marked_complete)

lemma recover_file_recovers: "recovers [path] (files, report) (recover_file E path files report)"
proof -
  let ?t = "wal_open path files"
  have same: "wal_open p (hm_insert path ?t files) = wal_open p files" for p
    by (simp add: wal_open_def)
  let ?r = "report\<lparr>rr_databases := rr_databases report + 1, rr_incomplete := rr_incomplete report + length (incomplete_rows ?t)\<rparr>"
  obtain t' report' where marks: "mark_failed (re_record_io E path) (incomplete_rows ?t) ?t ?r = (t', report')"
    by fastforce
  note eff = mark_failed_effect [OF marks]
  have "recovers [path] (files, report) (hm_insert path t' (hm_insert path ?t files), report')"
    using eff(1-4) mark_incomplete_complete [OF marks]
    by (auto simp: recovers_def wal_open_def marked_refl)
  moreover have "recovers [path] (files, report) (hm_insert path ?t files, recovery_error report)"
    using recovers_error [of "[path]" files report] by (simp add: recovers_def same)
  ultimately show ?thesis
    using marks
    by (auto simp: recover_file_def Let_def find_incomplete_turns_def wal_statement_def recovers_error split: option.splits)
qed

definition databases :: "(unit + string) list \<Rightarrow> string list" where
  "databases entries = concat (map (\<lambda>e. case e of Inl _ \<Rightarrow> [] | Inr path \<Rightarrow>
     if path_extension path = Some ''db'' then [path] else []) entries)"

lemma scan_entries_recovers: "recovers (databases entries) (files, report) (scan_entries E entries files report)"
proof (induction E entries files report rule: scan_entries.induct)
  case (1 E files report)
  then show ?case by (simp add: databases_def recovers_refl)
next
  case (2 E u entries files report)
  then show ?case by (simp add: recovers_error)
next
  case (3 E path entries files report)
  show ?case
  proof (cases "path_extension path = Some ''db''")
    case True
    obtain files' report' where one: "recover_file E path files report = (files', report')" by fastforce
    with recover_file_recovers [of path files report E] True 3(2) [OF _ one [symmetric]] show ?thesis
      by (auto simp: databases_def dest: recovers_trans)
  next
    case False
    with 3(1) show ?thesis by (simp add: databases_def)
  qed
qed

text \<open>
  C37: Start-up recovery closes every turn the crash left open. Whatever fails on the way, no row but
  a failure mark is added or dropped and no turn that had ended is reopened; no more turns are
  reported recovered than were found incomplete; and when the report has no error, every database in
  the listing is left without an incomplete turn and the two numbers are equal.
\<close>

theorem wal_recovery_closes_turns:
  assumes "scan E files = (files', report)"
  shows "(\<forall>path r. wr_event_type r \<noteq> ''failed'' \<longrightarrow> (r \<in> set (wal_open path files') \<longleftrightarrow> r \<in> set (wal_open path files))) \<and>
    (\<forall>path i a. ended i a (wal_open path files) \<longrightarrow> ended i a (wal_open path files')) \<and>
    rr_recovered report \<le> rr_incomplete report \<and>
    (rr_errors report = 0 \<longrightarrow> rr_recovered report = rr_incomplete report \<and>
      (\<forall>path. Inr path \<in> set (re_entries E) \<and> path_extension path = Some ''db'' \<longrightarrow>
        incomplete_rows (wal_open path files') = []))"
proof -
  let ?r = "\<lparr>rr_databases = 0, rr_incomplete = 0, rr_recovered = 0, rr_errors = 0\<rparr>"
  have "recovers (databases (re_entries E)) (files, ?r) (files', report)"
    using scan_entries_recovers [of "re_entries E" files ?r E] recovers_error [of "databases (re_entries E)" files ?r] assms
    by (auto simp: scan_def Let_def split: if_splits)
  moreover have "path \<in> set (databases (re_entries E))"
    if "Inr path \<in> set (re_entries E)" "path_extension path = Some ''db''" for path
    using that by (force simp: databases_def)
  ultimately show ?thesis by (auto simp: recovers_def marked_def)
qed

lemma ended_kept:
  "i \<notin> X \<Longrightarrow> ended i a (filter (\<lambda>r. wr_turn_id r \<notin> X) t) = ended i a t"
  by (auto simp: ended_def)

text \<open>
  What the clean-up forgets. The incomplete turns left after a clean-up are the earlier ones
  less every attempt, finished or still running, of a turn one of whose attempts ended before the
  cut-off, so a retry that is running when the clean-up runs is unknown to crash recovery.
\<close>

theorem cleanup_incomplete_turns:
  assumes "wio_error io = None"
  shows "incomplete_rows (snd (cleanup io max_age_secs t)) =
    filter (\<lambda>turn. it_turn_id turn \<notin> set (expired_turns (wio_now io) max_age_secs t)) (incomplete_rows t)"
proof -
  let ?X = "set (expired_turns (wio_now io) max_age_secs t)"
  have "snd (cleanup io max_age_secs t) = filter (\<lambda>r. wr_turn_id r \<notin> ?X) t"
    by (simp add: cleanup_def wal_statement_def assms Let_def)
  then show ?thesis
    by (simp add: incomplete_rows_def filter_map o_def) (intro arg_cong [where f = "map _"] filter_cong; auto simp: ended_kept)
qed

section \<open>A sample log\<close>

definition demo_wal_io :: wal_io where
  "demo_wal_io = \<lparr>wio_now = 1000, wio_error = None\<rparr>"

definition demo_wal :: wal_table where
  "demo_wal = snd (log_turn_start demo_wal_io ''t'' ''a2'' ''again''
     (snd (log_turn_failed (demo_wal_io\<lparr>wio_now := 10\<rparr>) ''t'' ''a1'' ''timeout''
     (snd (log_turn_start (demo_wal_io\<lparr>wio_now := 1\<rparr>) ''t'' ''a1'' ''hello'' [])))))"

definition demo_recovery :: recovery_env where
  "demo_recovery = \<lparr>re_create_dir_error = False, re_read_dir_error = False, re_entries = [Inr ''x.db'', Inr ''notes''],
     re_open_error = (\<lambda>_. False), re_query_io = (\<lambda>_. demo_wal_io), re_record_io = (\<lambda>_ _. demo_wal_io)\<rparr>"

theorem wal_recovery_closes_turns_witness:
  "incomplete_rows (wal_open ''x.db'' (fst (scan demo_recovery [(''x.db'', demo_wal)]))) = [] \<and>
   rr_recovered (snd (scan demo_recovery [(''x.db'', demo_wal)])) = 1"
proof -
  have facts: "rr_errors (snd (scan demo_recovery [(''x.db'', demo_wal)])) = 0"
    "rr_recovered (snd (scan demo_recovery [(''x.db'', demo_wal)])) = 1"
    "path_extension ''x.db'' = Some ''db''" "Inr ''x.db'' \<in> set (re_entries demo_recovery)" by code_simp+
  show ?thesis
    using wal_recovery_closes_turns [of demo_recovery "[(''x.db'', demo_wal)]"] facts
    by (metis prod.collapse)
qed

theorem cleanup_incomplete_turns_witness:
  "incomplete_rows (snd (cleanup demo_wal_io 100 demo_wal)) = [] \<and>
   map it_attempt_id (incomplete_rows demo_wal) = [''a2'']"
proof -
  have "wio_error demo_wal_io = None" "map it_attempt_id (incomplete_rows demo_wal) = [''a2'']"
    "filter (\<lambda>turn. it_turn_id turn \<notin> set (expired_turns (wio_now demo_wal_io) 100 demo_wal)) (incomplete_rows demo_wal) = []"
    by code_simp+
  with cleanup_incomplete_turns [of demo_wal_io 100 demo_wal] show ?thesis by simp
qed

end
