(* ===== verification/Host_Completion.thy ===== *)
theory Host_Completion
  imports Writer
begin

text \<open>
  Completing a command that a runtime host executed, \<^verbatim>\<open>complete_runtime_host_command\<close> of
  \<^verbatim>\<open>crates/choruz-session/src/store.rs\<close>: one transaction over the session tables, the event log
  and the outbox. A failure schedules a retry or dead-letters; a success writes the replies and
  commits the command. A transaction that fails rolls its tables back; identifiers and times it
  drew stay drawn.
\<close>

record host_completion =
  hc_succeeded :: bool
  hc_contents :: "string list"
  hc_error :: "string option"
  hc_tool_calls_count :: int
  hc_execution_duration_ms :: int
  hc_external_session_id :: "string option"
  hc_clear_external_session :: bool
  hc_execution_metadata :: "json option"

text \<open>\<^verbatim>\<open>i64\<close> addition, which wraps.\<close>

definition i64_add :: "int \<Rightarrow> int \<Rightarrow> int" where
  "i64_add a b = sint (word_of_int (a + b) :: 64 word)"

definition reply_turn_id :: "string \<Rightarrow> nat \<Rightarrow> string" where
  "reply_turn_id turn_id reply_index =
     (if reply_index = 0 then turn_id else turn_id @ '':remote-reply:'' @ show_nat reply_index)"

definition reply_metadata ::
  "string \<Rightarrow> string \<Rightarrow> agent_command \<Rightarrow> string \<Rightarrow> host_completion \<Rightarrow> nat \<Rightarrow> nat \<Rightarrow> json" where
  "reply_metadata runtime_host_id runtime_host_name c attempt_id q reply_index reply_count =
     jobj [(''command_id'', JStr (ac_command_id c)), (''attempt_id'', JStr attempt_id),
           (''tool_calls_count'', JInt (hc_tool_calls_count q)),
           (''execution_duration_ms'', JInt (hc_execution_duration_ms q)),
           (''execution'', case hc_execution_metadata q of Some j \<Rightarrow> j | None \<Rightarrow> JNull),
           (''runtime_host_id'', JStr runtime_host_id), (''runtime_host_name'', JStr runtime_host_name),
           (''reply_index'', JInt (int reply_index)), (''reply_count'', JInt (int reply_count))]"

definition reply_row ::
  "agent_command \<Rightarrow> timestamp \<Rightarrow> json \<Rightarrow> string \<Rightarrow> int \<Rightarrow> string \<Rightarrow> nat \<Rightarrow> conversation_event_row" where
  "reply_row c db_now metadata event_id seq content reply_index =
     \<lparr>ev_conversation_id = ac_conversation_id c, ev_seq = seq, ev_event_id = event_id, ev_event_type = ''reply'',
      ev_sender_id = ac_agent_id c, ev_content = Some content, ev_content_type = ''text/plain'',
      ev_metadata = metadata, ev_client_msg_id = None, ev_turn_id = Some (reply_turn_id (ac_turn_id c) reply_index),
      ev_reply_event_id = Some event_id, ev_created_at = db_now\<rparr>"

definition reply_outbox_row ::
  "agent_command \<Rightarrow> timestamp \<Rightarrow> conversation_event_row \<Rightarrow> int \<Rightarrow> outbox_row" where
  "reply_outbox_row c nw row i =
     \<lparr>ob_id = i, ob_aggregate_type = ''conversation_event'', ob_aggregate_id = ac_conversation_id c,
      ob_event_type = ''message'',
      ob_payload = jobj [(''message_id'', JStr (ev_event_id row)),
                         (''conversation_id'', JStr (ac_conversation_id c)), (''sender_id'', JStr (ac_agent_id c)),
                         (''content'', jopt_str (ev_content row)), (''content_type'', JStr ''text/plain''),
                         (''seq'', JInt (ev_seq row)), (''metadata'', ev_metadata row)],
      ob_created_at = nw, ob_published = False, ob_claimed_by = None, ob_claimed_at = None,
      ob_claim_deadline = None, ob_attempt_count = 0\<rparr>"

text \<open>The loop over the replies; \<open>n\<close> is their number, \<open>i\<close> the index of the next.\<close>

fun insert_replies ::
  "env \<Rightarrow> string \<Rightarrow> string \<Rightarrow> agent_command \<Rightarrow> string \<Rightarrow> host_completion \<Rightarrow> timestamp \<Rightarrow> timestamp \<Rightarrow> int \<Rightarrow>
   nat \<Rightarrow> nat \<Rightarrow> string list \<Rightarrow> event_db \<Rightarrow> unit session_result \<times> event_db" where
  "insert_replies E h hn c a q nw db_now first_seq n i [] s = (Inr (), s)"
| "insert_replies E h hn c a q nw db_now first_seq n i (content # contents) s =
     (let seq = i64_add first_seq (int i);
          (event_id, s) = new_id E s;
          row = reply_row c db_now (reply_metadata h hn c a q i n) event_id seq content i
      in if list_ex (\<lambda>e. ev_turn_id e = ev_turn_id row) (conversation_events s)
         then insert_replies E h hn c a q nw db_now first_seq n (Suc i) contents s
         else if list_ex (\<lambda>e. ev_event_id e = event_id \<or> ev_conversation_id e = ac_conversation_id c \<and> ev_seq e = seq)
                   (conversation_events s)
         then (Inl (Database ''duplicate key value violates unique constraint (23505)''), s)
         else insert_replies E h hn c a q nw db_now first_seq n (Suc i) contents
                (s\<lparr>conversation_events := conversation_events s @ [row],
                   event_outbox := event_outbox s @ [reply_outbox_row c nw row (outbox_id_seq s)],
                   outbox_id_seq := outbox_id_seq s + 1\<rparr>))"

definition write_replies ::
  "env \<Rightarrow> string \<Rightarrow> string \<Rightarrow> agent_command \<Rightarrow> string \<Rightarrow> host_completion \<Rightarrow> timestamp \<Rightarrow> string list \<Rightarrow>
   event_db \<Rightarrow> unit session_result \<times> event_db" where
  "write_replies E h hn c a q nw contents s =
     (let (db_now, s) = now E s; first_seq = next_seq (ac_conversation_id c) s in
      if contents = [] then (Inr (), s)
      else if first_seq > INT8_MAX then (Inl (Database ''bigint out of range (22003)''), s)
      else insert_replies E h hn c a q nw db_now first_seq (length contents) 0 contents s)"

definition rolled_back :: "event_db \<Rightarrow> event_db \<Rightarrow> event_db" where
  "rolled_back s t = s\<lparr>ids_drawn := ids_drawn t, clock_reads := clock_reads t\<rparr>"

definition complete_runtime_host_command ::
  "env \<Rightarrow> (timestamp \<Rightarrow> json) \<Rightarrow> string \<Rightarrow> string \<Rightarrow> string \<Rightarrow> string \<Rightarrow> host_completion \<Rightarrow> writer_db \<Rightarrow>
   unit session_result \<times> writer_db" where
  "complete_runtime_host_command E time_json runtime_host_id runtime_host_name command_id attempt_id q s =
     (let (nw, ss) = now E (wd_sessions s); s = s\<lparr>wd_sessions := ss\<rparr> in
      case host_command runtime_host_id command_id attempt_id ss of
        None \<Rightarrow> (Inl (StaleAttempt command_id attempt_id), s)
      | Some c \<Rightarrow>
          if \<not> hc_succeeded q
          then (Inr (), s\<lparr>wd_sessions := fail_host_command E runtime_host_id attempt_id (hc_error q)
                           (hc_clear_external_session q) nw c ss\<rparr>)
          else
            (let contents = filter (\<lambda>x. x \<noteq> []) (map trim (hc_contents q)) in
             case write_replies E runtime_host_id runtime_host_name c attempt_id q nw contents (wd_events s) of
               (Inl e, ev) \<Rightarrow> (Inl e, s\<lparr>wd_events := rolled_back (wd_events s) ev\<rparr>)
             | (Inr _, ev) \<Rightarrow>
                 (Inr (), s\<lparr>wd_events := ev,
                            wd_sessions := commit_host_command time_json runtime_host_id
                              (hc_external_session_id q) nw c ss\<rparr>)))"

section \<open>Replies\<close>

lemma reply_turn_id_inj: "reply_turn_id t i = reply_turn_id t j \<longleftrightarrow> i = j"
  by (auto simp: reply_turn_id_def dest: show_nat_inj split: if_splits)

lemma i64_add_exact: "0 \<le> a \<Longrightarrow> 0 \<le> b \<Longrightarrow> a + b \<le> INT8_MAX \<Longrightarrow> i64_add a b = a + b"
  unfolding i64_add_def INT8_MAX_def sint_sbintrunc' by (rule signed_take_bit_int_eq_self) simp_all

text \<open>The rows that a success writes when no reply turn is taken: one per content, numbered on.\<close>

fun reply_rows ::
  "env \<Rightarrow> string \<Rightarrow> string \<Rightarrow> agent_command \<Rightarrow> string \<Rightarrow> host_completion \<Rightarrow> timestamp \<Rightarrow> int \<Rightarrow> nat \<Rightarrow> nat \<Rightarrow> string list \<Rightarrow>
   nat \<Rightarrow> conversation_event_row list" where
  "reply_rows E h hn c a q db_now first_seq n i [] d = []"
| "reply_rows E h hn c a q db_now first_seq n i (content # contents) d =
     reply_row c db_now (reply_metadata h hn c a q i n) (env_uuid E d) (first_seq + int i) content i #
     reply_rows E h hn c a q db_now first_seq n (Suc i) contents (Suc d)"

fun outbox_rows :: "agent_command \<Rightarrow> timestamp \<Rightarrow> conversation_event_row list \<Rightarrow> int \<Rightarrow> outbox_row list" where
  "outbox_rows c nw [] i = []"
| "outbox_rows c nw (row # rows) i = reply_outbox_row c nw row i # outbox_rows c nw rows (i + 1)"

text \<open>What a free run needs of the log: unused identifiers, reply turns and sequence numbers.\<close>

definition replies_free :: "env \<Rightarrow> agent_command \<Rightarrow> int \<Rightarrow> nat \<Rightarrow> nat \<Rightarrow> event_db \<Rightarrow> bool" where
  "replies_free E c first_seq i m s \<longleftrightarrow>
     (\<forall>e \<in> set (conversation_events s).
        (\<forall>j \<ge> ids_drawn s. ev_event_id e \<noteq> env_uuid E j) \<and>
        (\<forall>j. i \<le> j \<and> j < i + m \<longrightarrow> ev_turn_id e \<noteq> Some (reply_turn_id (ac_turn_id c) j)) \<and>
        (ev_conversation_id e = ac_conversation_id c \<longrightarrow> ev_seq e < first_seq + int i))"

lemma insert_replies_appends:
  assumes "inj (env_uuid E)" "0 \<le> first_seq" "first_seq + int i + int (length contents) \<le> INT8_MAX + 1"
    "replies_free E c first_seq i (length contents) s"
  shows "\<exists>t. insert_replies E h hn c a q nw db_now first_seq n i contents s = (Inr (), t) \<and>
    conversation_events t = conversation_events s @ reply_rows E h hn c a q db_now first_seq n i contents (ids_drawn s) \<and>
    event_outbox t = event_outbox s @
      outbox_rows c nw (reply_rows E h hn c a q db_now first_seq n i contents (ids_drawn s)) (outbox_id_seq s)"
  using assms(3,4)
proof (induction contents arbitrary: i s)
  case (Cons content contents)
  let ?row = "reply_row c db_now (reply_metadata h hn c a q i n) (env_uuid E (ids_drawn s)) (first_seq + int i) content i"
  let ?s = "s\<lparr>ids_drawn := Suc (ids_drawn s), conversation_events := conversation_events s @ [?row],
     event_outbox := event_outbox s @ [reply_outbox_row c nw ?row (outbox_id_seq s)],
     outbox_id_seq := outbox_id_seq s + 1\<rparr>"
  have seq: "i64_add first_seq (int i) = first_seq + int i"
    using Cons.prems(1) assms(2) by (intro i64_add_exact) auto
  have free: "\<And>e. e \<in> set (conversation_events s) \<Longrightarrow> ev_turn_id e \<noteq> Some (reply_turn_id (ac_turn_id c) i) \<and>
      ev_event_id e \<noteq> env_uuid E (ids_drawn s) \<and>
      \<not> (ev_conversation_id e = ac_conversation_id c \<and> ev_seq e = first_seq + int i)"
    using Cons.prems(2) by (force simp: replies_free_def)
  then have run: "insert_replies E h hn c a q nw db_now first_seq n i (content # contents) s =
      insert_replies E h hn c a q nw db_now first_seq n (Suc i) contents ?s"
    by (auto simp: seq new_id_def Let_def list_ex_iff reply_row_def)
  have "replies_free E c first_seq (Suc i) (length contents) ?s"
    using Cons.prems(2) injD [OF assms(1)]
    by (fastforce simp: replies_free_def reply_row_def reply_turn_id_inj)
  from Cons.IH [OF _ this] Cons.prems(1) run show ?case by auto
qed (simp add: replies_free_def)

lemma reply_rows_columns:
  "map ev_content (reply_rows E h hn c a q db_now f n i contents d) = map Some contents"
  "map ev_seq (reply_rows E h hn c a q db_now f n i contents d) = map (\<lambda>k. f + int k) [i..<i + length contents]"
  "map ev_turn_id (reply_rows E h hn c a q db_now f n i contents d) =
     map (\<lambda>k. Some (reply_turn_id (ac_turn_id c) k)) [i..<i + length contents]"
  "\<forall>e \<in> set (reply_rows E h hn c a q db_now f n i contents d).
     ev_conversation_id e = ac_conversation_id c \<and> ev_sender_id e = ac_agent_id c \<and> ev_event_type e = ''reply''"
proof -
  have upt: "[i..<Suc (i + m)] = i # [Suc i..<Suc (i + m)]" for i m by (simp add: upt_conv_Cons del: upt_Suc)
  show "map ev_content (reply_rows E h hn c a q db_now f n i contents d) = map Some contents"
    "map ev_seq (reply_rows E h hn c a q db_now f n i contents d) = map (\<lambda>k. f + int k) [i..<i + length contents]"
    "map ev_turn_id (reply_rows E h hn c a q db_now f n i contents d) =
     map (\<lambda>k. Some (reply_turn_id (ac_turn_id c) k)) [i..<i + length contents]"
    "\<forall>e \<in> set (reply_rows E h hn c a q db_now f n i contents d).
     ev_conversation_id e = ac_conversation_id c \<and> ev_sender_id e = ac_agent_id c \<and> ev_event_type e = ''reply''"
    by (induction contents arbitrary: i d) (auto simp: reply_row_def upt simp del: upt_Suc)
qed

lemma outbox_rows_payload:
  "map (\<lambda>x. get_str (ob_payload x) ''message_id'') (outbox_rows c nw rows i) = map (\<lambda>e. Some (ev_event_id e)) rows"
  "\<forall>x \<in> set (outbox_rows c nw rows i). \<not> ob_published x"
proof -
  have "get_str (ob_payload (reply_outbox_row c nw row i)) ''message_id'' = Some (ev_event_id row)" for row i
    by (simp add: reply_outbox_row_def get_str_def json_get_jobj)
  then show "map (\<lambda>x. get_str (ob_payload x) ''message_id'') (outbox_rows c nw rows i) = map (\<lambda>e. Some (ev_event_id e)) rows"
    "\<forall>x \<in> set (outbox_rows c nw rows i). \<not> ob_published x"
    by (induction rows arbitrary: i) (simp_all add: reply_outbox_row_def)
qed

section \<open>The command\<close>

lemma host_command_tick [simp]: "host_command h cid a (tick s) = host_command h cid a s"
  by (simp add: host_command_def owns_attempt_def owns_epoch_def cong: option.case_cong)

lemma get_command_release [simp]:
  "get_command k (release_session_if_no_active_commands x e nw s) = get_command k s"
  by (simp add: release_session_if_no_active_commands_def split: option.splits)

lemma get_command_update_bindings [simp]: "get_command k (update_bindings h c f s) = get_command k s"
  by (simp add: update_bindings_def get_command_def)

lemma host_command_Some:
  assumes "commands_wf s" "host_command h cid a s = Some c"
  shows "get_command cid s = Some c" "ac_command_id c = cid" "ac_current_attempt_id c = Some a"
  using assms by (auto simp: host_command_def commands_wf_def owns_attempt_def split: option.splits if_splits)

lemma commit_host_command_row:
  assumes "get_command (ac_command_id c) s = Some c"
  shows "\<exists>c'. get_command (ac_command_id c) (commit_host_command J h ext nw c s) = Some c' \<and>
    ac_status c' = Committed \<and> ac_current_attempt_id c' = None"
  using assms by (auto simp: commit_host_command_def Let_def get_command_set_command split: option.splits)

lemma fail_host_command_row:
  assumes "get_command (ac_command_id c) s = Some c"
  shows "\<exists>c'. get_command (ac_command_id c) (fail_host_command E h a err clear nw c s) = Some c' \<and>
    ac_current_attempt_id c' = None"
proof -
  have "get_command k (snd (insert_dead_letter_in_transaction E i nw u)) = get_command k u" for k i u
    by (simp add: insert_dead_letter_in_transaction_def new_id_def get_command_def Let_def)
  with assms show ?thesis by (auto simp: fail_host_command_def Let_def get_command_set_command)
qed

text \<open>
  C39: A successful completion by the attempt that owns the command writes its non-blank replies, in
  order, under consecutive sequence numbers after everything in the conversation, one reply turn
  each, all in the agent's name, with one unpublished outbox entry per reply, and commits the
  command. Assumed: identifiers to come are unused, none of the reply turns is taken and the sequence
  numbers fit.
\<close>

theorem host_completion_replies:
  assumes "inj (env_uuid E)" "events_wf (wd_events s)" "commands_wf (wd_sessions s)"
    "host_command h cid a (wd_sessions s) = Some c" "hc_succeeded q"
    "contents = filter (\<lambda>x. x \<noteq> []) (map trim (hc_contents q))"
    "\<forall>e \<in> set (conversation_events (wd_events s)). (\<forall>j \<ge> ids_drawn (wd_events s). ev_event_id e \<noteq> env_uuid E j) \<and>
       (\<forall>j < length contents. ev_turn_id e \<noteq> Some (reply_turn_id (ac_turn_id c) j))"
    "next_seq (ac_conversation_id c) (wd_events s) + int (length contents) \<le> INT8_MAX"
    "complete_runtime_host_command E J h hn cid a q s = (r, t)"
  shows "r = Inr () \<and> (\<exists>new outs.
    conversation_events (wd_events t) = conversation_events (wd_events s) @ new \<and>
    map ev_content new = map Some contents \<and>
    map ev_seq new = map (\<lambda>k. next_seq (ac_conversation_id c) (wd_events s) + int k) [0..<length contents] \<and>
    map ev_turn_id new = map (\<lambda>k. Some (reply_turn_id (ac_turn_id c) k)) [0..<length contents] \<and>
    (\<forall>e \<in> set new. ev_conversation_id e = ac_conversation_id c \<and> ev_sender_id e = ac_agent_id c) \<and>
    event_outbox (wd_events t) = event_outbox (wd_events s) @ outs \<and>
    map (\<lambda>x. get_str (ob_payload x) ''message_id'') outs = map (\<lambda>e. Some (ev_event_id e)) new) \<and>
    (\<exists>c'. get_command cid (wd_sessions t) = Some c' \<and> ac_status c' = Committed \<and> ac_current_attempt_id c' = None)"
proof -
  let ?ev = "(wd_events s)\<lparr>clock_reads := Suc (clock_reads (wd_events s))\<rparr>"
  let ?f = "next_seq (ac_conversation_id c) (wd_events s)"
  let ?ss = "tick (wd_sessions s)" and ?nw = "env_clock E (clock_reads (wd_sessions s))"
  let ?db = "env_clock E (clock_reads (wd_events s))"
  let ?rows = "reply_rows E h hn c a q ?db ?f (length contents) 0 contents (ids_drawn (wd_events s))"
  have seqs: "next_seq k ?ev = next_seq k (wd_events s)" for k
    by (simp add: next_seq_def conversation_seqs_def)
  have "replies_free E c ?f 0 (length contents) ?ev"
    using assms(7) by (auto simp: replies_free_def intro: next_seq_greater)
  moreover have "1 \<le> ?f" by (rule next_seq_positive [OF assms(2)])
  ultimately obtain ev where ev: "insert_replies E h hn c a q ?nw ?db ?f (length contents) 0 contents ?ev = (Inr (), ev)"
    "conversation_events ev = conversation_events (wd_events s) @ ?rows"
    "event_outbox ev = event_outbox (wd_events s) @ outbox_rows c ?nw ?rows (outbox_id_seq (wd_events s))"
    using insert_replies_appends [OF assms(1), of ?f 0 contents c ?ev h hn a q ?nw ?db "length contents"] assms(8) by auto
  have "write_replies E h hn c a q ?nw contents (wd_events s) = (Inr (), ev)"
    using ev(1) assms(8) by (auto simp: write_replies_def now_def Let_def seqs)
  then have t: "r = Inr ()" "wd_events t = ev" "wd_sessions t = commit_host_command J h (hc_external_session_id q) ?nw c ?ss"
    using assms(4,5,9) by (auto simp: complete_runtime_host_command_def now_tick Let_def assms(6))
  note c = host_command_Some [OF assms(3,4)]
  have "\<exists>c'. get_command cid (wd_sessions t) = Some c' \<and> ac_status c' = Committed \<and> ac_current_attempt_id c' = None"
    using commit_host_command_row [of c ?ss] c by (simp add: t(3))
  moreover have "map (\<lambda>x. get_str (ob_payload x) ''message_id'') (outbox_rows c ?nw ?rows (outbox_id_seq (wd_events s))) =
      map (\<lambda>e. Some (ev_event_id e)) ?rows" by (rule outbox_rows_payload)
  ultimately show ?thesis
    using ev(2,3) t(1,2) reply_rows_columns [of E h hn c a q ?db ?f "length contents" 0 contents "ids_drawn (wd_events s)"]
    by fastforce
qed

text \<open>
  A completion is applied once. After a completion of an attempt was accepted, whether it
  reported success or failure, every later completion in the name of that attempt is refused as
  stale and changes nothing but the clock, whatever transactions ran in between.
\<close>

theorem host_completion_once:
  assumes "inj (env_uuid E)" "commands_wf (wd_sessions s)"
    "a = env_uuid E i" "i < ids_drawn (wd_sessions s)"
    "complete_runtime_host_command E J h hn cid a q s = (Inr (), t)"
    "(session_step E)\<^sup>*\<^sup>* (wd_sessions t) (wd_sessions u)"
  shows "complete_runtime_host_command E J h' hn' cid a q' u =
    (Inl (StaleAttempt cid a), u\<lparr>wd_sessions := tick (wd_sessions u)\<rparr>)"
proof -
  let ?ss = "tick (wd_sessions s)" and ?nw = "env_clock E (clock_reads (wd_sessions s))"
  from assms(5) obtain c where c: "host_command h cid a ?ss = Some c" and
    t: "wd_sessions t = fail_host_command E h a (hc_error q) (hc_clear_external_session q) ?nw c ?ss \<or>
        wd_sessions t = commit_host_command J h (hc_external_session_id q) ?nw c ?ss"
    by (auto simp: complete_runtime_host_command_def now_tick Let_def split: option.splits if_splits sum.splits prod.splits)
  have "session_step E (wd_sessions s) (wd_sessions t)"
    using t c now_tick by (blast intro: session_step.intros)
  then have grows: "ids_drawn (wd_sessions s) \<le> ids_drawn (wd_sessions t)"
    using session_step_evolves by (simp add: evolves_def)
  have "get_command (ac_command_id c) ?ss = Some c" "ac_command_id c = cid"
    using host_command_Some [OF assms(2)] c by simp_all
  with t obtain c1 where "get_command cid (wd_sessions t) = Some c1" "ac_current_attempt_id c1 = None"
    using fail_host_command_row commit_host_command_row by metis
  with session_steps_evolve [OF assms(6)] obtain c2 where c2: "get_command cid (wd_sessions u) = Some c2"
    "attempt_evolves E (ids_drawn (wd_sessions t)) (ids_drawn (wd_sessions u)) None (ac_current_attempt_id c2)"
    unfolding evolves_def by (metis (no_types, lifting))
  then have "ac_current_attempt_id c2 \<noteq> Some a"
    using assms(3,4) grows injD [OF assms(1)] by (fastforce simp: attempt_evolves_def)
  with c2(1) have "host_command h' cid a (tick (wd_sessions u)) = None"
    by (simp add: host_command_def owns_attempt_def)
  then show ?thesis by (simp add: complete_runtime_host_command_def now_tick Let_def)
qed

section \<open>A sample host\<close>

definition demo_host_input :: insert_command where
  "demo_host_input = (demo_input ''k'')\<lparr>ic_metadata := jobj [(''runtime_host_id'', JStr ''h'')]\<rparr>"

text \<open>The command's agent is bound to the host, which claims the command.\<close>

definition demo_binding :: runtime_binding where
  "demo_binding = \<lparr>rb_id = ''b'', rb_agent_principal_id = ''a'', rb_driver_type = ''cli'', rb_workspace_path = ''/w'',
     rb_external_session_id = None, rb_state = ''ready'', rb_config_json = jobj [(''runtime_host_id'', JStr ''h'')],
     rb_updated_at = 0\<rparr>"

definition demo_host_sessions :: session_db where
  "demo_host_sessions = snd (claim_runtime_host_command demo_env ''h''
     (snd (insert_command demo_env demo_host_input (demo_registered\<lparr>agent_runtime_bindings := [demo_binding]\<rparr>))))"

definition demo_host_db :: writer_db where
  "demo_host_db = \<lparr>wd_events = \<lparr>ids_drawn = 0, clock_reads = 0, conversation_events = [], event_outbox = [],
     outbox_id_seq = 1, outbox_dead_letters = []\<rparr>, wd_sessions = demo_host_sessions\<rparr>"

definition demo_completion :: host_completion where
  "demo_completion = \<lparr>hc_succeeded = True, hc_contents = [''one'', ''  '', '' two ''], hc_error = None,
     hc_tool_calls_count = 0, hc_execution_duration_ms = 5, hc_external_session_id = Some ''x'',
     hc_clear_external_session = False, hc_execution_metadata = None\<rparr>"

definition demo_completed :: writer_db where
  "demo_completed = snd (complete_runtime_host_command demo_env JInt ''h'' ''host'' ''k'' [] demo_completion demo_host_db)"

lemma demo_host_wf: "inj (env_uuid demo_env)" "commands_wf (wd_sessions demo_host_db)"
proof -
  show "inj (env_uuid demo_env)" by (auto simp: demo_env_def inj_def replicate_eq_replicate)
  let ?start = "demo_registered\<lparr>agent_runtime_bindings := [demo_binding]\<rparr>"
  have "agent_commands ?start = []" by code_simp
  then have "commands_wf ?start" by (simp add: commands_wf_def get_command_def hm_wf_def)
  moreover have "evolves demo_env ?start demo_host_sessions"
    unfolding demo_host_sessions_def
    by (rule evolves_trans [OF insert_command_evolves [OF surjective_pairing]
        claim_runtime_host_command_evolves [OF surjective_pairing]])
  ultimately show "commands_wf (wd_sessions demo_host_db)" by (simp add: demo_host_db_def evolves_def)
qed

lemma demo_host_command:
  "\<exists>c. host_command ''h'' ''k'' [] (wd_sessions demo_host_db) = Some c \<and> ac_turn_id c = ''k-turn'' \<and>
     ac_conversation_id c = ''c'' \<and> ac_agent_id c = ''a''"
proof -
  have "map_option (\<lambda>c. (ac_turn_id c, ac_conversation_id c, ac_agent_id c)) (host_command ''h'' ''k'' [] (wd_sessions demo_host_db)) =
    Some (''k-turn'', ''c'', ''a'')" by code_simp
  then show ?thesis by auto
qed

theorem host_completion_replies_witness:
  "map ev_content (conversation_events (wd_events demo_completed)) = [Some ''one'', Some ''two''] \<and>
   map ev_seq (conversation_events (wd_events demo_completed)) = [1, 2] \<and>
   map ev_turn_id (conversation_events (wd_events demo_completed)) = [Some ''k-turn'', Some ''k-turn:remote-reply:1'']"
proof -
  obtain c where c: "host_command ''h'' ''k'' [] (wd_sessions demo_host_db) = Some c" "ac_turn_id c = ''k-turn''"
    "ac_conversation_id c = ''c''" using demo_host_command by blast
  have events: "conversation_events (wd_events demo_host_db) = []" by code_simp
  have contents: "[''one'', ''two''] = filter (\<lambda>x. x \<noteq> []) (map trim (hc_contents demo_completion))"
    "hc_succeeded demo_completion" by code_simp+
  have seq: "next_seq (ac_conversation_id c) (wd_events demo_host_db) = 1"
    by (simp add: next_seq_def conversation_seqs_def events)
  have wf: "events_wf (wd_events demo_host_db)" by (simp add: events_wf_def events)
  have run: "complete_runtime_host_command demo_env JInt ''h'' ''host'' ''k'' [] demo_completion demo_host_db =
    (fst (complete_runtime_host_command demo_env JInt ''h'' ''host'' ''k'' [] demo_completion demo_host_db), demo_completed)"
    by (simp add: demo_completed_def)
  have turn: "reply_turn_id ''k-turn'' 0 = ''k-turn''" "reply_turn_id ''k-turn'' 1 = ''k-turn:remote-reply:1''" by code_simp+
  have "[0..<length [''one'', ''two'']] = [0, 1]" by (simp add: upt_rec)
  then show ?thesis
    using host_completion_replies [OF demo_host_wf(1) wf demo_host_wf(2) c(1) contents(2,1) _ _ run] turn
    by (auto simp: events seq c(2) INT8_MAX_def)
qed

theorem host_completion_once_witness:
  "complete_runtime_host_command demo_env JInt ''h'' ''host'' ''k'' [] demo_completion demo_completed =
     (Inl (StaleAttempt ''k'' []), demo_completed\<lparr>wd_sessions := tick (wd_sessions demo_completed)\<rparr>)"
proof -
  have "fst (complete_runtime_host_command demo_env JInt ''h'' ''host'' ''k'' [] demo_completion demo_host_db) = Inr ()"
    by code_simp
  then have run: "complete_runtime_host_command demo_env JInt ''h'' ''host'' ''k'' [] demo_completion demo_host_db =
    (Inr (), demo_completed)" by (simp add: demo_completed_def prod_eq_iff)
  have "[] = env_uuid demo_env 0" "0 < ids_drawn (wd_sessions demo_host_db)" by code_simp+
  from host_completion_once [OF demo_host_wf this run] show ?thesis by blast
qed

end
