(* ===== verification/Pg_Directory.thy ===== *)
theory Pg_Directory
  imports Pipeline_Sink
begin

text \<open>
  \<^verbatim>\<open>PgMemberProvider\<close> of \<^verbatim>\<open>services/choruz-pipeline/src/pg_member_provider.rs\<close>: the router's member
  directory as SQL queries. A table with a primary key is an association list, the others are lists;
  a join on a primary key is a lookup. Connecting and each query may fail. Rows whose order the
  query leaves open come in table order, and text is compared bytewise.
\<close>

section \<open>Tables\<close>

record pg_principal =
  pp_workspace_id :: string
  pp_type :: string
  pp_name :: string
  pp_online_guest :: bool
  pp_disabled :: bool
  pp_deleted_at :: "timestamp option"
  pp_channel_visibility :: string

record pg_conversation =
  pc_workspace_id :: string
  pc_type :: string
  pc_name :: "string option"

record pg_member =
  pm_conv_id :: string
  pm_principal_id :: string
  pm_joined_at :: timestamp
  pm_removed_at :: "timestamp option"

record pg_conversation_policy =
  px_auto_mode :: string
  px_default_coordinator_agent_id :: "string option"
  px_untagged_human_mode :: string

record pg_runtime_host =
  ph_name :: string
  ph_revoked_at :: "timestamp option"

record pg_task =
  pt_conversation_id :: string
  pt_task_key :: string
  pt_title :: string
  pt_status :: string
  pt_assignee_principal_id :: string

record pg_participant =
  pq_task_id :: string
  pq_principal_id :: string
  pq_role_key :: string

record directory_db =
  dd_principals :: "(string, pg_principal) hash_map"
  dd_conversations :: "(string, pg_conversation) hash_map"
  dd_members :: "pg_member list"
  dd_agent_policies :: "(string \<times> string, string) hash_map"
  dd_conversation_policies :: "(string, pg_conversation_policy) hash_map"
  dd_bindings :: "runtime_binding list"
  dd_runtime_hosts :: "(string, pg_runtime_host) hash_map"
  dd_tasks :: "(string, pg_task) hash_map"
  dd_participants :: "pg_participant list"
  dd_connect_error :: "app_error option"
  dd_query_error :: "string \<Rightarrow> string option"

definition connected :: "directory_db \<Rightarrow> 'a router_result \<Rightarrow> 'a router_result" where
  "connected D r = (case dd_connect_error D of Some e \<Rightarrow> Inl (Store e) | None \<Rightarrow> r)"

definition query :: "directory_db \<Rightarrow> string \<Rightarrow> 'a \<Rightarrow> ('a \<Rightarrow> 'b router_result) \<Rightarrow> 'b router_result" where
  "query D context rows k =
     (case dd_query_error D context of
        Some e \<Rightarrow> Inl (RouterInternal (context @ '': '' @ e)) | None \<Rightarrow> k rows)"

section \<open>Members and policies\<close>

definition in_conversation :: "directory_db \<Rightarrow> string \<Rightarrow> string \<Rightarrow> bool" where
  "in_conversation D conv_id principal_id \<longleftrightarrow>
     list_ex (\<lambda>cm. pm_conv_id cm = conv_id \<and> pm_principal_id cm = principal_id \<and> pm_removed_at cm = None) (dd_members D)"

definition routable_agent :: "pg_conversation \<Rightarrow> pg_principal \<Rightarrow> bool" where
  "routable_agent c p \<longleftrightarrow> pp_type p = ''agent'' \<and> \<not> pp_online_guest p \<and> pp_workspace_id p = pc_workspace_id c \<and>
     \<not> pp_disabled p \<and> pp_deleted_at p = None \<and> pp_channel_visibility p \<noteq> ''internal''"

definition pg_list_agent_members :: "directory_db \<Rightarrow> string \<Rightarrow> conversation_member list router_result" where
  "pg_list_agent_members D conversation_id =
     connected D (query D ''list_agent_members''
       (concat (map (\<lambda>cm.
          case (hm_get (dd_principals D) (pm_principal_id cm), hm_get (dd_conversations D) (pm_conv_id cm)) of
            (Some p, Some c) \<Rightarrow>
              if pm_conv_id cm = conversation_id \<and> routable_agent c p \<and> pm_removed_at cm = None
              then [\<lparr>cm_conversation_id = pm_conv_id cm, cm_principal_id = pm_principal_id cm,
                     cm_principal_type = pp_type p, cm_display_name = Some (pp_name p),
                     cm_joined_at = pm_joined_at cm, cm_left_at = pm_removed_at cm\<rparr>]
              else []
          | _ \<Rightarrow> []) (dd_members D))) Inr)"

definition newest_binding :: "directory_db \<Rightarrow> string \<Rightarrow> runtime_binding option" where
  "newest_binding D agent_id =
     (case sort_key (\<lambda>b. - rb_updated_at b)
             (filter (\<lambda>b. rb_agent_principal_id b = agent_id \<and> rb_state b \<noteq> ''disabled'') (dd_bindings D)) of
        [] \<Rightarrow> None | b # _ \<Rightarrow> Some b)"

text \<open>
  \<^verbatim>\<open>config_json->>'mention_aliases'\<close> parsed as a string array. A JSON string is parsed once more, by
  the parameter \<open>parse_strings\<close>; every other value is malformed.
\<close>

definition binding_aliases :: "(string \<Rightarrow> string list option) \<Rightarrow> json \<Rightarrow> string list" where
  "binding_aliases parse_strings config =
     (case json_get config ''mention_aliases'' of
        Some (JArr js) \<Rightarrow>
          if list_all (\<lambda>j. as_str j \<noteq> None) js then List.map_filter as_str js else []
      | Some (JStr raw) \<Rightarrow> (case parse_strings raw of Some xs \<Rightarrow> xs | None \<Rightarrow> [])
      | _ \<Rightarrow> [])"

definition agent_auto_mode :: "string \<Rightarrow> auto_mode" where
  "agent_auto_mode m =
     (if m = ''all_messages'' then AllMessages else if m = ''manual'' then Manual else MentionedOnly)"

definition conversation_auto_mode :: "string \<Rightarrow> auto_mode" where
  "conversation_auto_mode m = (if m = ''disabled'' \<or> m = ''metadata_only'' then Manual else MentionedOnly)"

definition pg_auto_mode :: "directory_db \<Rightarrow> string \<Rightarrow> string \<Rightarrow> auto_mode router_result" where
  "pg_auto_mode D agent_id conversation_id =
     query D ''get conversation type'' (hm_get (dd_conversations D) conversation_id) (\<lambda>row.
       if (case row of Some c \<Rightarrow> pc_type c = ''direct'' | None \<Rightarrow> False) then Inr AllMessages
       else query D ''get agent policy'' (hm_get (dd_agent_policies D) (agent_id, conversation_id)) (\<lambda>row.
         case row of
           Some mode \<Rightarrow> Inr (agent_auto_mode mode)
         | None \<Rightarrow>
             query D ''get conversation policy'' (hm_get (dd_conversation_policies D) conversation_id) (\<lambda>row.
               Inr (case row of Some r \<Rightarrow> conversation_auto_mode (px_auto_mode r) | None \<Rightarrow> MentionedOnly))))"

definition pg_mention_aliases ::
  "(string \<Rightarrow> string list option) \<Rightarrow> directory_db \<Rightarrow> string \<Rightarrow> string list router_result" where
  "pg_mention_aliases parse_strings D agent_id =
     query D ''get binding aliases'' (newest_binding D agent_id) (\<lambda>row.
       let aliases = (case row of Some b \<Rightarrow> binding_aliases parse_strings (rb_config_json b) | None \<Rightarrow> []) in
       if aliases \<noteq> [] then Inr aliases
       else query D ''get agent name'' (hm_get (dd_principals D) agent_id) (\<lambda>row.
              Inr (case row of Some p \<Rightarrow> [pp_name p] | None \<Rightarrow> [])))"

definition pg_get_agent_policy ::
  "(string \<Rightarrow> string list option) \<Rightarrow> directory_db \<Rightarrow> string \<Rightarrow> string \<Rightarrow> agent_policy router_result" where
  "pg_get_agent_policy parse_strings D agent_id conversation_id =
     connected D
       (case pg_auto_mode D agent_id conversation_id of
          Inl e \<Rightarrow> Inl e
        | Inr auto_mode \<Rightarrow>
            (case pg_mention_aliases parse_strings D agent_id of
               Inl e \<Rightarrow> Inl e
             | Inr aliases \<Rightarrow>
                 Inr \<lparr>ap_agent_id = agent_id, ap_conversation_id = conversation_id, ap_auto_mode = auto_mode,
                      ap_mention_aliases = aliases\<rparr>))"

definition pg_host_name :: "directory_db \<Rightarrow> string \<Rightarrow> string" where
  "pg_host_name D agent_id =
     (case sort_key (\<lambda>b. - rb_updated_at b) (rev (sort_key rb_id
             (filter (\<lambda>b. rb_agent_principal_id b = agent_id \<and> rb_state b \<noteq> ''disabled'') (dd_bindings D)))) of
        [] \<Rightarrow> ''This computer''
      | b # _ \<Rightarrow>
          (case Option.bind (get_str (rb_config_json b) ''runtime_host_id'') (hm_get (dd_runtime_hosts D)) of
             Some h \<Rightarrow> if ph_revoked_at h = None then ph_name h else ''This computer''
           | None \<Rightarrow> ''This computer''))"

definition pg_list_assignee_roster :: "directory_db \<Rightarrow> string \<Rightarrow> assignee_roster_entry list router_result" where
  "pg_list_assignee_roster D conversation_id =
     connected D (query D ''list_assignee_roster''
       (case hm_get (dd_conversations D) conversation_id of
          None \<Rightarrow> []
        | Some c \<Rightarrow>
            map (\<lambda>(i, p). \<lparr>re_principal_id = i, re_display_name = pp_name p, re_principal_type = pp_type p,
                           re_runtime_host_name = Some (pg_host_name D i)\<rparr>)
              (sort_key (\<lambda>(i, p). (to_lowercase (pp_name p), i))
                (filter (\<lambda>(i, p). in_conversation D conversation_id i \<and> pp_type p = ''agent'' \<and>
                           pp_workspace_id p = pc_workspace_id c \<and> \<not> pp_disabled p \<and> pp_deleted_at p = None \<and>
                           pp_channel_visibility p \<noteq> ''internal'') (dd_principals D)))) Inr)"

section \<open>Names and conversation policy\<close>

definition pg_resolve_principal_name :: "directory_db \<Rightarrow> string \<Rightarrow> string option" where
  "pg_resolve_principal_name D principal_id =
     (case connected D (query D ''resolve principal name'' (hm_get (dd_principals D) principal_id) Inr) of
        Inr (Some p) \<Rightarrow> Some (pp_name p) | _ \<Rightarrow> None)"

definition pg_resolve_conversation_name :: "directory_db \<Rightarrow> string \<Rightarrow> string option" where
  "pg_resolve_conversation_name D conversation_id =
     (case connected D (query D ''resolve conversation name'' (hm_get (dd_conversations D) conversation_id) Inr) of
        Inr (Some c) \<Rightarrow> if pc_type c = ''direct'' then Some ''[DM]'' else pc_name c
      | _ \<Rightarrow> None)"

definition pg_resolve_principal_type :: "directory_db \<Rightarrow> string \<Rightarrow> string \<Rightarrow> string option router_result" where
  "pg_resolve_principal_type D principal_id conversation_id =
     connected D (query D ''resolve principal type''
       (case (hm_get (dd_principals D) principal_id, hm_get (dd_conversations D) conversation_id) of
          (Some p, Some c) \<Rightarrow>
            if in_conversation D conversation_id principal_id \<and>
               (pp_workspace_id p = pc_workspace_id c \<or> pp_type p = ''human'') \<and>
               \<not> pp_disabled p \<and> pp_deleted_at p = None
            then Some (pp_type p) else None
        | _ \<Rightarrow> None) Inr)"

definition pg_get_conversation_routing_policy ::
  "directory_db \<Rightarrow> string \<Rightarrow> conversation_routing_policy router_result" where
  "pg_get_conversation_routing_policy D conversation_id =
     connected D (query D ''get conversation routing policy''
       (hm_get (dd_conversation_policies D) conversation_id) (\<lambda>row.
         Inr (case row of
                Some r \<Rightarrow>
                  \<lparr>rp_conversation_id = conversation_id,
                   rp_default_coordinator_agent_id = px_default_coordinator_agent_id r,
                   rp_untagged_human_mode = untagged_human_mode_from_db_value (px_untagged_human_mode r)\<rparr>
              | None \<Rightarrow> routing_policy_default_for conversation_id)))"

section \<open>Workflow tasks\<close>

definition BOARD_STATUSES :: "string list" where
  "BOARD_STATUSES = [''todo'', ''in_progress'', ''blocked'', ''in_review'', ''done'']"

definition task_principal_ok :: "directory_db \<Rightarrow> string \<Rightarrow> string \<Rightarrow> pg_principal option" where
  "task_principal_ok D conversation_id principal_id =
     (case (hm_get (dd_principals D) principal_id, hm_get (dd_conversations D) conversation_id) of
        (Some p, Some c) \<Rightarrow>
          if in_conversation D conversation_id principal_id \<and> pp_workspace_id p = pc_workspace_id c \<and>
             \<not> pp_disabled p \<and> pp_deleted_at p = None \<and>
             \<not> (pp_type p = ''agent'' \<and> pp_channel_visibility p = ''internal'')
          then Some p else None
      | _ \<Rightarrow> None)"

definition group_workflow_task_from_row ::
  "string \<times> pg_task \<times> pg_principal \<Rightarrow> group_workflow_task router_result" where
  "group_workflow_task_from_row row =
     (case row of (i, t, assignee) \<Rightarrow>
        (case channel_task_status_from_db_value (pt_status t) of
           None \<Rightarrow> Inl (RouterInternal (''workflow task has non-board status: '' @ pt_status t))
         | Some status \<Rightarrow>
             Inr \<lparr>wt_id = i, wt_conversation_id = pt_conversation_id t, wt_task_key = pt_task_key t,
                  wt_status = status, wt_assignee_principal_id = pt_assignee_principal_id t,
                  wt_assignee_principal_type = Some (pp_type assignee)\<rparr>))"

definition board_task :: "directory_db \<Rightarrow> string \<Rightarrow> string \<times> pg_task \<Rightarrow> (string \<times> pg_task \<times> pg_principal) list" where
  "board_task D conversation_id row =
     (case row of (i, t) \<Rightarrow>
        (case task_principal_ok D conversation_id (pt_assignee_principal_id t) of
           Some p \<Rightarrow>
             if pt_conversation_id t = conversation_id \<and> pt_status t \<in> set BOARD_STATUSES then [(i, t, p)] else []
         | None \<Rightarrow> []))"

text \<open>\<^verbatim>\<open>query_opt\<close>: no row, one row, or an error when there are more.\<close>

definition query_opt ::
  "directory_db \<Rightarrow> string \<Rightarrow> 'a list \<Rightarrow> ('a option \<Rightarrow> 'b router_result) \<Rightarrow> 'b router_result" where
  "query_opt D context rows k =
     query D context rows (\<lambda>rows.
       case rows of
         [] \<Rightarrow> k None
       | [r] \<Rightarrow> k (Some r)
       | _ \<Rightarrow> Inl (RouterInternal (context @ '': query returned an unexpected number of rows'')))"

definition task_row :: "(string \<times> pg_task \<times> pg_principal) option \<Rightarrow> group_workflow_task option router_result" where
  "task_row row =
     (case row of None \<Rightarrow> Inr None
      | Some r \<Rightarrow> (case group_workflow_task_from_row r of Inl e \<Rightarrow> Inl e | Inr t \<Rightarrow> Inr (Some t)))"

definition pg_find_workflow_task ::
  "directory_db \<Rightarrow> string \<Rightarrow> string option \<Rightarrow> string option \<Rightarrow> group_workflow_task option router_result" where
  "pg_find_workflow_task D conversation_id task_id task_key =
     (let rows = concat (map (board_task D conversation_id) (dd_tasks D));
          by_key = (\<lambda>k. query_opt D ''find workflow task by key'' (filter (\<lambda>(i, t, p). pt_task_key t = k) rows) task_row)
      in connected D
        (case (task_id, task_key) of
           (Some i, Some k) \<Rightarrow>
             query_opt D ''find workflow task by id/key'' (filter (\<lambda>(j, t, p). j = i \<and> pt_task_key t = k) rows) task_row
         | (Some i, None) \<Rightarrow>
             query_opt D ''find workflow task by id'' (filter (\<lambda>(j, t, p). j = i) rows) (\<lambda>row.
               case row of Some r \<Rightarrow> task_row (Some r) | None \<Rightarrow> Inr None)
         | (None, Some k) \<Rightarrow> by_key k
         | (None, None) \<Rightarrow> Inr None))"

definition pg_list_workflow_task_participants ::
  "directory_db \<Rightarrow> string \<Rightarrow> group_workflow_task_participant list router_result" where
  "pg_list_workflow_task_participants D task_id =
     connected D (query D ''list workflow participants''
       (sort_key (\<lambda>x. (tp_role_key x, tp_principal_id x))
         (concat (map (\<lambda>x.
            case hm_get (dd_tasks D) (pq_task_id x) of
              None \<Rightarrow> []
            | Some t \<Rightarrow>
                (case task_principal_ok D (pt_conversation_id t) (pq_principal_id x) of
                   Some p \<Rightarrow>
                     if pq_task_id x = task_id \<and> pq_role_key x \<noteq> ''owner''
                     then [\<lparr>tp_task_id = pq_task_id x, tp_principal_id = pq_principal_id x,
                            tp_role_key = pq_role_key x, tp_principal_type = Some (pp_type p)\<rparr>]
                     else []
                 | None \<Rightarrow> [])) (dd_participants D)))) Inr)"

definition pg_list_open_tasks_for_agent ::
  "directory_db \<Rightarrow> string \<Rightarrow> string \<Rightarrow> assigned_task_hint list router_result" where
  "pg_list_open_tasks_for_agent D conversation_id principal_id =
     connected D (query D ''list open tasks for agent''
       (sort_key pt_task_key (concat (map (\<lambda>(i, t).
          if pt_conversation_id t = conversation_id \<and> pt_assignee_principal_id t = principal_id \<and>
             pt_status t \<in> set [''todo'', ''in_progress'', ''blocked'', ''in_review''] \<and>
             task_principal_ok D conversation_id principal_id \<noteq> None
          then [t] else []) (dd_tasks D)))) (\<lambda>rows.
         Inr (concat (map (\<lambda>t.
           case channel_task_status_from_db_value (pt_status t) of
             Some status \<Rightarrow> [\<lparr>th_task_key = pt_task_key t, th_title = pt_title t, th_status = status\<rparr>]
           | None \<Rightarrow> []) rows))))"

definition pg_provider :: "(string \<Rightarrow> string list option) \<Rightarrow> directory_db \<Rightarrow> member_provider" where
  "pg_provider parse_strings D =
     \<lparr>mp_list_agent_members = pg_list_agent_members D, mp_list_assignee_roster = pg_list_assignee_roster D,
      mp_get_agent_policy = pg_get_agent_policy parse_strings D,
      mp_resolve_principal_name = pg_resolve_principal_name D,
      mp_resolve_conversation_name = pg_resolve_conversation_name D,
      mp_resolve_principal_type = pg_resolve_principal_type D,
      mp_get_conversation_routing_policy = pg_get_conversation_routing_policy D,
      mp_find_workflow_task = pg_find_workflow_task D,
      mp_list_workflow_task_participants = pg_list_workflow_task_participants D,
      mp_list_open_tasks_for_agent = pg_list_open_tasks_for_agent D\<rparr>"

section \<open>The directory's contract\<close>

definition directory_wf :: "directory_db \<Rightarrow> bool" where
  "directory_wf D \<longleftrightarrow> distinct (map (\<lambda>m. (pm_conv_id m, pm_principal_id m)) (dd_members D))"

definition eligible :: "directory_db \<Rightarrow> string \<Rightarrow> string \<Rightarrow> bool" where
  "eligible D conversation_id agent_id \<longleftrightarrow>
     (case (hm_get (dd_principals D) agent_id, hm_get (dd_conversations D) conversation_id) of
        (Some p, Some c) \<Rightarrow> routable_agent c p \<and> in_conversation D conversation_id agent_id
      | _ \<Rightarrow> False)"

lemma pg_list_agent_members_Inr:
  assumes "pg_list_agent_members D cid = Inr ms"
  shows "map cm_principal_id ms = map pm_principal_id (filter (\<lambda>cm. pm_conv_id cm = cid \<and> pm_removed_at cm = None \<and>
      eligible D cid (pm_principal_id cm)) (dd_members D))"
    "m \<in> set ms \<Longrightarrow> cm_conversation_id m = cid \<and> cm_principal_type m = ''agent'' \<and> cm_left_at m = None"
proof -
  let ?row = "\<lambda>cm. case (hm_get (dd_principals D) (pm_principal_id cm), hm_get (dd_conversations D) (pm_conv_id cm)) of
      (Some p, Some c) \<Rightarrow>
        if pm_conv_id cm = cid \<and> routable_agent c p \<and> pm_removed_at cm = None
        then [\<lparr>cm_conversation_id = pm_conv_id cm, cm_principal_id = pm_principal_id cm,
               cm_principal_type = pp_type p, cm_display_name = Some (pp_name p),
               cm_joined_at = pm_joined_at cm, cm_left_at = pm_removed_at cm\<rparr>]
        else []
    | _ \<Rightarrow> []"
  have ms: "ms = concat (map ?row (dd_members D))"
    using assms by (simp add: pg_list_agent_members_def connected_def query_def split: option.splits)
  have "map cm_principal_id (concat (map ?row xs)) = map pm_principal_id (filter (\<lambda>cm. pm_conv_id cm = cid \<and>
      pm_removed_at cm = None \<and> eligible D cid (pm_principal_id cm)) xs)" if "set xs \<subseteq> set (dd_members D)" for xs
    using that
  proof (induction xs)
    case (Cons cm xs)
    then have "pm_conv_id cm = cid \<Longrightarrow> pm_removed_at cm = None \<Longrightarrow> in_conversation D cid (pm_principal_id cm)"
      by (auto simp: in_conversation_def list_ex_iff)
    with Cons show ?case by (auto simp: eligible_def split: option.splits)
  qed simp
  with ms show "map cm_principal_id ms = map pm_principal_id (filter (\<lambda>cm. pm_conv_id cm = cid \<and>
      pm_removed_at cm = None \<and> eligible D cid (pm_principal_id cm)) (dd_members D))" by simp
  show "m \<in> set ms \<Longrightarrow> cm_conversation_id m = cid \<and> cm_principal_type m = ''agent'' \<and> cm_left_at m = None"
    unfolding ms by (auto simp: routable_agent_def split: option.splits if_splits)
qed

interpretation pgd: member_directory "pg_provider parse_strings" directory_wf for parse_strings
proof unfold_locales
  fix D cid ms
  assume wf: "directory_wf D" and "mp_list_agent_members (pg_provider parse_strings D) cid = Inr ms"
  then have list: "pg_list_agent_members D cid = Inr ms" by (simp add: pg_provider_def)
  have "inj_on pm_principal_id (set (filter (\<lambda>cm. pm_conv_id cm = cid \<and> P cm) (dd_members D)))" for P
    using wf by (auto simp: directory_wf_def distinct_map inj_on_def)
  moreover have "distinct (dd_members D)" using wf by (simp add: directory_wf_def distinct_map)
  ultimately show "distinct (map cm_principal_id ms)"
    unfolding pg_list_agent_members_Inr(1) [OF list] by (simp add: distinct_map)
  show "cm_conversation_id m = cid \<and> cm_principal_type m = ''agent'' \<and> cm_left_at m = None" if "m \<in> set ms" for m
    by (rule pg_list_agent_members_Inr(2) [OF list that])
next
  fix D a cid q
  assume "directory_wf D" "mp_get_agent_policy (pg_provider parse_strings D) a cid = Inr q"
  then show "ap_agent_id q = a \<and> ap_conversation_id q = cid"
    by (auto simp: pg_provider_def pg_get_agent_policy_def connected_def split: option.splits sum.splits)
qed

lemma pg_route_event_no_panic:
  "directory_wf D \<Longrightarrow> no_panic (route_event RX event (pg_provider parse_strings D) sink s)"
  by (rule pgd.route_event_no_panic)

section \<open>Only members are routed to\<close>

context decision_log
begin

definition within :: "conversation_event_row \<Rightarrow> conversation_member list \<Rightarrow> 's \<Rightarrow> 's \<Rightarrow> bool" where
  "within event ms s t \<longleftrightarrow>
     (let targets = {(ev_event_id event, cm_principal_id m) | m. m \<in> set ms \<and> cm_principal_id m \<noteq> ev_sender_id event} in
      visible t \<subseteq> visible s \<union> targets \<and> commanded t \<subseteq> commanded s \<union> targets)"

lemma route_member_within:
  assumes "route_member RX event mp sink rt m cache s = (Ret (oc, cache'), t)"
  shows "within event [m] s t"
proof (cases "cm_principal_id m = ev_sender_id event")
  case True
  with assms show ?thesis by (simp add: route_member_def within_def)
next
  case False
  from route_member_Ret [OF assms False] obtain plan d s1 s2 u where
    w: "ds_write_visibility sink (event_visibility event m) s = (Inr u, s1)"
      "ds_write_decision sink (event_decision RX event m plan) s1 = (Inr d, s2)"
    and rest: "if rd_decision d \<noteq> ''trigger'' then oc = Skipped \<and> t = s2
       else oc = Triggered \<and> (\<exists>prompt u. ds_write_command sink
              (event_command RX event m (rd_route_id d) (rt_trace_id rt) prompt) s2 = (Inr u, t))"
    by blast
  have "visible s2 = insert (ev_event_id event, cm_principal_id m) (visible s)" "commanded s2 = commanded s"
    using write_visibility [OF w(1)] write_decision [OF w(2)] by (auto simp: event_visibility_def)
  with rest False show ?thesis
    by (auto simp: within_def event_command_def split: if_splits dest!: write_command)
qed

lemma route_members_within:
  "route_members RX event mp sink rt ms cache s = (Ret outcomes, t) \<Longrightarrow> within event ms s t"
proof (induction ms arbitrary: cache s outcomes)
  case Nil
  then show ?case by (simp add: within_def)
next
  case (Cons m ms)
  then obtain oc ocs cache' u where
    m: "route_member RX event mp sink rt m cache s = (Ret (oc, cache'), u)"
    and ms: "route_members RX event mp sink rt ms cache' u = (Ret ocs, t)"
    by (auto simp: st_bind_Ret)
  from route_member_within [OF m] Cons.IH [OF ms] show ?case
    unfolding within_def Let_def by (fastforce simp: subset_iff)
qed

lemma route_event_within:
  assumes "route_event RX event mp sink s = (Ret outcomes, t)"
  obtains ms where "mp_list_agent_members mp (ev_conversation_id event) = Inr ms" "within event ms s t"
proof -
  from assms obtain ms rt where ms: "mp_list_agent_members mp (ev_conversation_id event) = Inr ms"
    and run: "route_members RX event mp sink rt ms None s = (Ret outcomes, t)"
    by (auto simp: route_event_def st_bind_Ret)
  from ms route_members_within [OF run] show thesis by (rule that)
qed

end

text \<open>
  C6: Routing through the database reaches only agents that may act. When an event is routed with the
  database's member directory and decision sink, every visibility row and every command it adds is for
  this event and for an agent, not its sender, that is a current member of the conversation, belongs
  to its workspace, is not an online guest, not disabled, not deleted and not internal.
\<close>

theorem pg_routes_only_eligible:
  assumes "route_event RX event (pg_provider parse_strings D) (pg_sink E) s = (Ret outcomes, t)"
    and "(message_id, agent_id) \<in> (pg_visible t - pg_visible s) \<union> (pg_commanded t - pg_commanded s)"
  shows "message_id = ev_event_id event \<and> agent_id \<noteq> ev_sender_id event \<and>
    in_conversation D (ev_conversation_id event) agent_id \<and>
    (\<exists>p c. hm_get (dd_principals D) agent_id = Some p \<and> hm_get (dd_conversations D) (ev_conversation_id event) = Some c \<and>
       pp_type p = ''agent'' \<and> pp_workspace_id p = pc_workspace_id c \<and> \<not> pp_online_guest p \<and> \<not> pp_disabled p \<and>
       pp_deleted_at p = None \<and> pp_channel_visibility p \<noteq> ''internal'')"
proof -
  obtain ms where "mp_list_agent_members (pg_provider parse_strings D) (ev_conversation_id event) = Inr ms"
    and within: "pg.within event ms s t" using pg.route_event_within [OF assms(1)] by blast
  then have ms: "pg_list_agent_members D (ev_conversation_id event) = Inr ms" by (simp add: pg_provider_def)
  from within assms(2) obtain m where m: "m \<in> set ms" "message_id = ev_event_id event"
    "agent_id = cm_principal_id m" "agent_id \<noteq> ev_sender_id event"
    by (auto simp: pg.within_def Let_def)
  have "agent_id \<in> set (map cm_principal_id ms)" using m by simp
  then have "eligible D (ev_conversation_id event) agent_id"
    unfolding pg_list_agent_members_Inr(1) [OF ms] by auto
  with m show ?thesis by (auto simp: eligible_def routable_agent_def split: option.splits)
qed

definition demo_pg_agent :: pg_principal where
  "demo_pg_agent = \<lparr>pp_workspace_id = ''ws'', pp_type = ''agent'', pp_name = ''Ada'', pp_online_guest = False,
     pp_disabled = False, pp_deleted_at = None, pp_channel_visibility = ''visible''\<rparr>"

definition demo_directory :: directory_db where
  "demo_directory =
     \<lparr>dd_principals = [(''agent-1'', demo_pg_agent), (''agent-2'', demo_pg_agent\<lparr>pp_disabled := True\<rparr>)],
      dd_conversations = [(''conv-1'', \<lparr>pc_workspace_id = ''ws'', pc_type = ''direct'', pc_name = None\<rparr>)],
      dd_members = map (\<lambda>i. \<lparr>pm_conv_id = ''conv-1'', pm_principal_id = i, pm_joined_at = 0, pm_removed_at = None\<rparr>)
        [''agent-1'', ''agent-2''],
      dd_agent_policies = [], dd_conversation_policies = [], dd_bindings = [], dd_runtime_hosts = [],
      dd_tasks = [], dd_participants = [], dd_connect_error = None, dd_query_error = (\<lambda>_. None)\<rparr>"

theorem pg_routes_only_eligible_witness:
  "pg_commanded (snd (route_event demo_router_env (demo_event ''hello'') (pg_provider (\<lambda>_. None) demo_directory)
      (pg_sink demo_env) demo_pipeline)) = {(''msg-7'', ''agent-1'')} \<and>
   in_conversation demo_directory (ev_conversation_id (demo_event ''hello'')) ''agent-1''"
proof -
  let ?run = "route_event demo_router_env (demo_event ''hello'') (pg_provider (\<lambda>_. None) demo_directory)
    (pg_sink demo_env) demo_pipeline"
  have "fst ?run = Ret [Triggered]" by code_simp
  then have run: "?run = (Ret [Triggered], snd ?run)" by (simp add: prod_eq_iff)
  have new: "pg_commanded (snd ?run) = {(''msg-7'', ''agent-1'')}" "pg_commanded demo_pipeline = {}" by code_simp+
  have "(''msg-7'', ''agent-1'') \<in> (pg_visible (snd ?run) - pg_visible demo_pipeline) \<union>
      (pg_commanded (snd ?run) - pg_commanded demo_pipeline)" unfolding new by simp
  from pg_routes_only_eligible [OF run this] new(1) show ?thesis by blast
qed

end
