(* ===== verification/Pipeline_Loops.thy ===== *)
theory Pipeline_Loops
  imports Writer
begin

text \<open>
  The background loops of the pipeline, \<^verbatim>\<open>services/choruz-pipeline/src\<close>: the dispatch loop
  (\<^verbatim>\<open>dispatch.rs\<close>), its heartbeat task, the completion of a batch, the lease monitor
  (\<^verbatim>\<open>lease_monitor.rs\<close>) and the retry scheduler (\<^verbatim>\<open>retry_scheduler.rs\<close>), over the
  session store of \<open>Session_Store\<close>. A loop body is a sequence of store calls; between two calls the
  other tasks run and a call may fail, so a body runs under a \<open>schedule\<close>: what the others do
  before the n-th call, and whether that call reaches the database and its answer comes back.
\<close>

section \<open>Store calls of a task\<close>

text \<open>
  A failing call either never reached the database or was carried out with its answer lost
  (\<^verbatim>\<open>dispatch.rs\<close>: a transient error may occur after PostgreSQL accepted the update).
\<close>

datatype call_fate = Answered | Unreached | AnswerLost

record schedule =
  sc_others :: "nat \<Rightarrow> session_db \<Rightarrow> session_db"
  sc_fate :: "nat \<Rightarrow> call_fate"

record task_state =
  tk_calls :: nat
  tk_db :: session_db

definition store_call ::
  "schedule \<Rightarrow> (session_db \<Rightarrow> 'a session_result \<times> session_db) \<Rightarrow> task_state \<Rightarrow> 'a session_result \<times> task_state" where
  "store_call S op w =
     (let s = sc_others S (tk_calls w) (tk_db w); (r, t) = op s; n = Suc (tk_calls w)
      in case sc_fate S (tk_calls w) of
           Answered \<Rightarrow> (r, \<lparr>tk_calls = n, tk_db = t\<rparr>)
         | Unreached \<Rightarrow> (Inl (Database ''connection failed''), \<lparr>tk_calls = n, tk_db = s\<rparr>)
         | AnswerLost \<Rightarrow> (Inl (Database ''connection lost''), \<lparr>tk_calls = n, tk_db = t\<rparr>))"

definition store_query ::
  "schedule \<Rightarrow> (session_db \<Rightarrow> 'a session_result) \<Rightarrow> task_state \<Rightarrow> 'a session_result \<times> task_state" where
  "store_query S q = store_call S (\<lambda>s. (q s, s))"

text \<open>\<^verbatim>\<open>Utc::now()\<close> outside a store call\<close>

definition task_now :: "env \<Rightarrow> task_state \<Rightarrow> timestamp \<times> task_state" where
  "task_now E w = (let (nw, s) = now E (tk_db w) in (nw, w\<lparr>tk_db := s\<rparr>))"

text \<open>\<^verbatim>\<open>CommandStatusUpdate { command_id, status, ..Default::default() }\<close>\<close>

definition status_only :: "string \<Rightarrow> command_status \<Rightarrow> command_status_update" where
  "status_only cid st =
     \<lparr>cu_command_id = cid, cu_status = st, cu_current_attempt_id = None, cu_current_epoch = None,
      cu_attempt_count = None, cu_next_retry_at = None, cu_last_error = None\<rparr>"

section \<open>Executor results\<close>

text \<open>
  The result of one turn. What the native CLI run yields, the body of
  \<^verbatim>\<open>execute_command_inner\<close>, is the argument \<open>outcome\<close>; its run time is \<open>duration\<close>.
\<close>

record turn_output =
  to_content :: string
  to_tool_calls_count :: int
  to_command_results :: "json list"
  to_execution_metadata :: "json option"

definition execute_command :: "(string + turn_output) \<Rightarrow> int \<Rightarrow> agent_command \<Rightarrow> agent_result" where
  "execute_command outcome duration cmd =
     (let base =
        \<lparr>ar_turn_id = ac_turn_id cmd,
         ar_attempt_id = (case ac_current_attempt_id cmd of Some a \<Rightarrow> a | None \<Rightarrow> ''''),
         ar_command_id = ac_command_id cmd, ar_session_key = ac_session_key cmd,
         ar_conversation_id = ac_conversation_id cmd, ar_agent_id = ac_agent_id cmd,
         ar_status = ResultFailed, ar_content = None, ar_content_type = None, ar_error = None,
         ar_tool_calls_count = 0, ar_execution_duration_ms = duration,
         ar_secondary_command_attempts = [], ar_command_results = [],
         ar_trace_id = get_str (ac_metadata cmd) ''trace_id'', ar_execution_metadata = None\<rparr>
      in case outcome of
           Inr out \<Rightarrow>
             base\<lparr>ar_status := ResultSucceeded, ar_content := Some (to_content out),
                  ar_content_type := Some ''text/plain'', ar_tool_calls_count := to_tool_calls_count out,
                  ar_command_results := to_command_results out,
                  ar_execution_metadata := to_execution_metadata out\<rparr>
         | Inl error_msg \<Rightarrow> base\<lparr>ar_error := Some error_msg\<rparr>)"

definition retriable_markers :: "string list" where
  "retriable_markers =
     [''kind=timeout'', ''kind=killed'', ''kind=network'', ''kind=rate_limited'', ''kind=resume_failure'',
      ''kind=spawn_failure'', ''kind=process_failed'']"

definition is_auto_retriable_error :: "string option \<Rightarrow> bool" where
  "is_auto_retriable_error error =
     (case error of None \<Rightarrow> False | Some e \<Rightarrow> list_ex (contains_str e) retriable_markers)"

text \<open>Map an executor error string to a coarse classification; the order of the tests decides.\<close>

definition auth_markers :: "string list" where
  "auth_markers =
     [''unauthorized'', ''401'', ''forbidden'', ''403'', ''authentication'', ''credential'', ''api key'',
      ''login'', ''not logged in'', ''not authenticated'', ''ineligible'']"

definition classify_executor_error :: "string \<Rightarrow> string" where
  "classify_executor_error msg =
     (let lower = to_lowercase msg; has = list_ex (contains_str lower)
      in if has auth_markers then ''auth''
         else if has [''timed out'', ''timeout''] then ''timeout''
         else if has [''killed'', ''oom''] then ''killed''
         else if has [''connection'', ''network''] then ''network''
         else if has [''rate limit'', ''429''] then ''rate_limited''
         else if has [''invalid config'', ''configuration''] then ''configuration''
         else if has [''not found'', ''404''] then ''not_found''
         else if has [''resume''] then ''resume_failure''
         else if has [''spawn'', ''exec''] then ''spawn''
         else ''process_failed'')"

section \<open>Batches\<close>

definition should_retry_failed_command :: "agent_command \<Rightarrow> bool \<Rightarrow> bool" where
  "should_retry_failed_command cmd auto_retriable \<longleftrightarrow>
     auto_retriable \<and> \<not> is_exhausted (ac_attempt_count cmd) (ac_max_attempts cmd)"

definition group_commands :: "agent_command list \<Rightarrow> (string, agent_command list) hash_map" where
  "group_commands commands =
     fold (\<lambda>c groups. hm_insert (ac_agent_id c)
             ((case hm_get groups (ac_agent_id c) of Some g \<Rightarrow> g | None \<Rightarrow> []) @ [c]) groups) commands []"

definition newline :: string where
  "newline = [CHR 0x0A]"

definition batch_preamble :: "nat \<Rightarrow> string" where
  "batch_preamble n =
     ''[choruz-batch] You have '' @ show_nat n @
     '' pending messages waiting for you. They are ordered oldest to newest. Read them all before acting, '' @
     ''reconstruct the latest state of each topic, and let later messages supersede earlier instructions '' @
     ''about the same work. Never restart, reopen, or redelegate work that a later message or task snapshot '' @
     ''marks completed. Then reply once per unresolved topic via `.choruz/send`; combine senders asking about '' @
     ''the same topic.'' @ newline @ newline"

definition batch_entry :: "nat \<Rightarrow> nat \<times> agent_command \<Rightarrow> string" where
  "batch_entry n p =
     (case p of (i, cmd) \<Rightarrow>
        ''['' @ show_nat (i + 1) @ ''/'' @ show_nat n @ ''] '' @ ac_prompt cmd @ newline @ newline)"

definition build_batched_prompt :: "agent_command list \<Rightarrow> string" where
  "build_batched_prompt members =
     (if length members = 1 then ac_prompt (hd members)
      else batch_preamble (length members) @
           concat (map (batch_entry (length members)) (enumerate 0 members)))"

text \<open>
  A batch that was leased and whose process is to be spawned: the primary with the batched prompt,
  every member with its lease, and the sessions to keep alive.
\<close>

record batch_task =
  bt_primary_id :: string
  bt_primary_for_exec :: agent_command
  bt_group :: "agent_command list"
  bt_heartbeat_sessions :: "(string, int) hash_map"
  bt_attempt_id :: string

definition with_lease :: "agent_command \<times> lease_assignment \<Rightarrow> agent_command" where
  "with_lease p =
     (case p of (cmd, la) \<Rightarrow>
        cmd\<lparr>ac_current_attempt_id := Some (la_attempt_id la), ac_current_epoch := Some (la_epoch la),
            ac_attempt_count := la_attempt_count la\<rparr>)"

text \<open>The sessions of a batch with their epochs; nothing when two members disagree.\<close>

fun collect_heartbeat_sessions ::
  "(agent_command \<times> lease_assignment) list \<Rightarrow> (string, int) hash_map \<Rightarrow> (string, int) hash_map option" where
  "collect_heartbeat_sessions [] sessions = Some sessions"
| "collect_heartbeat_sessions ((cmd, la) # rest) sessions =
     (case hm_get sessions (ac_session_key cmd) of
        Some existing \<Rightarrow>
          if existing \<noteq> la_epoch la then None
          else collect_heartbeat_sessions rest (hm_insert (ac_session_key cmd) (la_epoch la) sessions)
      | None \<Rightarrow> collect_heartbeat_sessions rest (hm_insert (ac_session_key cmd) (la_epoch la) sessions))"

definition dispatch_group ::
  "env \<Rightarrow> schedule \<Rightarrow> string \<Rightarrow> agent_command list \<Rightarrow> task_state \<Rightarrow> batch_task option \<times> task_state" where
  "dispatch_group E S dispatch_node_id members w =
     (let primary = hd members;
          primary_for_exec = primary\<lparr>ac_prompt := build_batched_prompt members\<rparr>
      in case store_call S (assign_batch_leases E (map ac_command_id members) dispatch_node_id) w of
           (Inl _, w) \<Rightarrow> (None, w)
         | (Inr leases, w) \<Rightarrow>
             (case those (map (\<lambda>cmd. hm_get leases (ac_command_id cmd)) members) of
                None \<Rightarrow> (None, w)
              | Some assignments \<Rightarrow>
                  (let lease = hd assignments in
                   case store_call S (update_command_status_for_attempt E
                          (status_only (ac_command_id primary) Started) (la_attempt_id lease)) w of
                     (Inl _, w) \<Rightarrow> (None, w)
                   | (Inr _, w) \<Rightarrow>
                       (case collect_heartbeat_sessions (zip members assignments) [] of
                          None \<Rightarrow> (None, w)
                        | Some sessions \<Rightarrow>
                            (Some \<lparr>bt_primary_id = ac_command_id primary,
                                   bt_primary_for_exec = with_lease (primary_for_exec, lease),
                                   bt_group = map with_lease (zip members assignments),
                                   bt_heartbeat_sessions = sessions,
                                   bt_attempt_id = la_attempt_id lease\<rparr>, w)))))"

fun dispatch_groups ::
  "env \<Rightarrow> schedule \<Rightarrow> string \<Rightarrow> agent_command list list \<Rightarrow> task_state \<Rightarrow> batch_task list \<times> task_state" where
  "dispatch_groups E S node [] w = ([], w)"
| "dispatch_groups E S node (members # rest) w =
     (let (task, w) = dispatch_group E S node members w;
          (tasks, w) = dispatch_groups E S node rest w
      in (case task of None \<Rightarrow> tasks | Some t \<Rightarrow> t # tasks, w))"

text \<open>One turn of the dispatch loop after it woke up, and the batches it spawns.\<close>

definition dispatch_round ::
  "env \<Rightarrow> schedule \<Rightarrow> int \<Rightarrow> string \<Rightarrow> task_state \<Rightarrow> batch_task list \<times> task_state" where
  "dispatch_round E S dispatch_batch dispatch_node_id w =
     (case store_query S (find_pending_commands dispatch_batch) w of
        (Inl _, w) \<Rightarrow> ([], w)
      | (Inr commands, w) \<Rightarrow>
          if commands = [] then ([], w)
          else dispatch_groups E S dispatch_node_id (hm_values (group_commands commands)) w)"

section \<open>Heartbeats\<close>

record heartbeat =
  hb_sessions :: "(string, int) hash_map"
  hb_first :: bool

fun superseding :: "session_error \<Rightarrow> bool" where
  "superseding (EpochMismatch _ _) = True"
| "superseding (SessionInactive _ _) = True"
| "superseding (SessionNotFound _) = True"
| "superseding _ = False"

fun heartbeat_each ::
  "env \<Rightarrow> schedule \<Rightarrow> (string \<times> int) list \<Rightarrow> task_state \<Rightarrow> string list \<times> task_state" where
  "heartbeat_each E S [] w = ([], w)"
| "heartbeat_each E S ((session_key, epoch) # rest) w =
     (let (r, w) = store_call S (update_session_heartbeat_for_epoch E session_key epoch) w;
          (superseded, w) = heartbeat_each E S rest w
      in (case r of
            Inl e \<Rightarrow> if superseding e then session_key # superseded else superseded
          | Inr _ \<Rightarrow> superseded, w))"

text \<open>One interval of the heartbeat task; nothing when the task ends.\<close>

definition heartbeat_tick ::
  "env \<Rightarrow> schedule \<Rightarrow> batch_task \<Rightarrow> heartbeat \<Rightarrow> task_state \<Rightarrow> heartbeat option \<times> task_state" where
  "heartbeat_tick E S task hb w =
     (let (superseded, w) = heartbeat_each E S (hb_sessions hb) w;
          sessions = fold hm_remove superseded (hb_sessions hb)
      in if sessions = [] then (None, w)
         else if \<not> hb_first hb then (Some (hb\<lparr>hb_sessions := sessions\<rparr>), w)
         else case store_call S (update_command_status_for_attempt E
                     (status_only (bt_primary_id task) Heartbeating) (bt_attempt_id task)) w of
                (Inl _, w) \<Rightarrow> (None, w)
              | (Inr _, w) \<Rightarrow> (Some \<lparr>hb_sessions = sessions, hb_first = False\<rparr>, w))"

definition heartbeat_start :: "batch_task \<Rightarrow> heartbeat" where
  "heartbeat_start task = \<lparr>hb_sessions = bt_heartbeat_sessions task, hb_first = True\<rparr>"

section \<open>Completing a batch\<close>

definition ordered_group :: "batch_task \<Rightarrow> agent_command list" where
  "ordered_group task =
     (case find (\<lambda>c. ac_command_id c = bt_primary_id task) (bt_group task) of Some c \<Rightarrow> [c] | None \<Rightarrow> []) @
     filter (\<lambda>c. ac_command_id c \<noteq> bt_primary_id task) (bt_group task)"

fun is_stale :: "session_error \<Rightarrow> bool" where
  "is_stale (StaleAttempt _ _) = True"
| "is_stale _ = False"

text \<open>
  After success: mark every member; the secondaries that were marked are what the writer may commit.
  A stale primary ends the task (\<open>None\<close>).
\<close>

fun finish_succeeded ::
  "env \<Rightarrow> schedule \<Rightarrow> string \<Rightarrow> agent_command list \<Rightarrow> task_state \<Rightarrow> command_attempt_ref list option \<times> task_state" where
  "finish_succeeded E S primary [] w = (Some [], w)"
| "finish_succeeded E S primary (cmd # rest) w =
     (case ac_current_attempt_id cmd of
        None \<Rightarrow> if ac_command_id cmd = primary then (None, w) else finish_succeeded E S primary rest w
      | Some attempt_id \<Rightarrow>
          (case store_call S (mark_command_succeeded_for_attempt E (ac_command_id cmd) attempt_id) w of
             (Inl e, w) \<Rightarrow>
               if ac_command_id cmd = primary \<and> is_stale e then (None, w)
               else finish_succeeded E S primary rest w
           | (Inr _, w) \<Rightarrow>
               (case finish_succeeded E S primary rest w of
                  (None, w) \<Rightarrow> (None, w)
                | (Some refs, w) \<Rightarrow>
                    (Some (if ac_command_id cmd \<noteq> primary
                           then \<lparr>car_command_id = ac_command_id cmd, car_attempt_id = attempt_id\<rparr> # refs
                           else refs), w))))"

definition failed_dead_letter :: "agent_result \<Rightarrow> agent_command \<Rightarrow> insert_dead_letter" where
  "failed_dead_letter result cmd =
     (let error = (case ar_error result of Some e \<Rightarrow> e | None \<Rightarrow> ''agent execution failed'')
      in \<lparr>id_source_type = ''command'', id_source_id = ac_command_id cmd,
          id_payload = jobj [(''session_key'', JStr (ac_session_key cmd)), (''agent_id'', JStr (ac_agent_id cmd)),
                             (''attempt_count'', JInt (ac_attempt_count cmd)), (''last_error'', JStr error)],
          id_error = error, id_attempt_count = ac_attempt_count cmd\<rparr>)"

text \<open>One member of a failed batch: schedule its retry or write its dead letter.\<close>

definition finish_failed_member ::
  "env \<Rightarrow> schedule \<Rightarrow> agent_result \<Rightarrow> agent_command \<Rightarrow> string \<Rightarrow> task_state \<Rightarrow> unit session_result \<times> task_state" where
  "finish_failed_member E S result cmd attempt_id w =
     (if should_retry_failed_command cmd (is_auto_retriable_error (ar_error result))
      then (let (nw, w) = task_now E w
            in store_call S (update_command_status_for_attempt E
                 ((status_only (ac_command_id cmd) RetryScheduled)
                    \<lparr>cu_last_error := ar_error result,
                     cu_next_retry_at := Some (Some (next_retry_at nw (ac_attempt_count cmd)))\<rparr>) attempt_id) w)
      else case store_call S (dead_letter_command_for_attempt E (failed_dead_letter result cmd) attempt_id) w of
             (Inl e, w) \<Rightarrow> (Inl e, w)
           | (Inr _, w) \<Rightarrow> (Inr (), w))"

fun finish_failed ::
  "env \<Rightarrow> schedule \<Rightarrow> agent_result \<Rightarrow> string \<Rightarrow> agent_command list \<Rightarrow> task_state \<Rightarrow> bool \<times> task_state" where
  "finish_failed E S result primary [] w = (True, w)"
| "finish_failed E S result primary (cmd # rest) w =
     (case ac_current_attempt_id cmd of
        None \<Rightarrow> if ac_command_id cmd = primary then (False, w) else finish_failed E S result primary rest w
      | Some attempt_id \<Rightarrow>
          (case finish_failed_member E S result cmd attempt_id w of
             (Inl _, w) \<Rightarrow>
               if ac_command_id cmd = primary then (False, w) else finish_failed E S result primary rest w
           | (Inr _, w) \<Rightarrow> finish_failed E S result primary rest w))"

text \<open>The rest of the spawned task once the CLI has returned: what is sent to the writer, if anything.\<close>

definition complete_batch ::
  "env \<Rightarrow> schedule \<Rightarrow> batch_task \<Rightarrow> agent_result \<Rightarrow> task_state \<Rightarrow> agent_result option \<times> task_state" where
  "complete_batch E S task result w =
     (if ar_status result = ResultSucceeded
      then case finish_succeeded E S (bt_primary_id task) (ordered_group task) w of
             (None, w) \<Rightarrow> (None, w)
           | (Some refs, w) \<Rightarrow> (Some (result\<lparr>ar_secondary_command_attempts := refs\<rparr>), w)
      else case finish_failed E S result (bt_primary_id task) (ordered_group task) w of
             (False, w) \<Rightarrow> (None, w)
           | (True, w) \<Rightarrow> (Some result, w))"

section \<open>The lease monitor\<close>

definition DISPATCH_HEARTBEAT_INTERVAL_SECS :: int where
  "DISPATCH_HEARTBEAT_INTERVAL_SECS = 15"

definition MIN_LEASE_TIMEOUT_SECS :: int where
  "MIN_LEASE_TIMEOUT_SECS = DISPATCH_HEARTBEAT_INTERVAL_SECS * 3"

text \<open>The check of the configuration at start-up: the lease timeout it is given.\<close>

definition validate_config :: "int \<Rightarrow> string + unit" where
  "validate_config lease_timeout_secs =
     (if lease_timeout_secs < MIN_LEASE_TIMEOUT_SECS
      then Inl (''CHORUZ_PIPELINE_LEASE_TIMEOUT_SECS must be at least '' @ show_int MIN_LEASE_TIMEOUT_SECS @
                '' seconds (three heartbeat intervals)'')
      else Inr ())"

fun expire_each :: "env \<Rightarrow> schedule \<Rightarrow> expired_lease list \<Rightarrow> task_state \<Rightarrow> task_state" where
  "expire_each E S [] w = w"
| "expire_each E S (x # rest) w =
     (let (_, w) = store_call S (handle_lease_expiry E x) w in expire_each E S rest w)"

definition lease_monitor_sweep :: "env \<Rightarrow> schedule \<Rightarrow> int \<Rightarrow> task_state \<Rightarrow> task_state" where
  "lease_monitor_sweep E S lease_timeout w =
     (let (nw, w) = task_now E w
      in case store_query S (\<lambda>s. Inr (check_expired_leases nw lease_timeout s)) w of
           (Inl _, w) \<Rightarrow> w
         | (Inr expired, w) \<Rightarrow> expire_each E S expired w)"

section \<open>The retry scheduler\<close>

definition exhausted_dead_letter :: "agent_command \<Rightarrow> insert_dead_letter" where
  "exhausted_dead_letter cmd =
     \<lparr>id_source_type = ''command'', id_source_id = ac_command_id cmd,
      id_payload = jobj [(''session_key'', JStr (ac_session_key cmd)), (''agent_id'', JStr (ac_agent_id cmd)),
                         (''attempt_count'', JInt (ac_attempt_count cmd)),
                         (''last_error'', jopt_str (ac_last_error cmd))],
      id_error = ''max retry attempts exhausted'', id_attempt_count = ac_attempt_count cmd\<rparr>"

fun dead_letter_each :: "env \<Rightarrow> schedule \<Rightarrow> agent_command list \<Rightarrow> task_state \<Rightarrow> task_state" where
  "dead_letter_each E S [] w = w"
| "dead_letter_each E S (cmd # rest) w =
     (case store_call S (update_command_status E
             ((status_only (ac_command_id cmd) DeadLettered)
                \<lparr>cu_last_error := Some ''max retry attempts exhausted''\<rparr>)) w of
        (Inl _, w) \<Rightarrow> dead_letter_each E S rest w
      | (Inr _, w) \<Rightarrow>
          (let (_, w) = store_call S (insert_dead_letter E (exhausted_dead_letter cmd)) w
           in dead_letter_each E S rest w))"

fun requeue_each :: "env \<Rightarrow> schedule \<Rightarrow> agent_command list \<Rightarrow> task_state \<Rightarrow> task_state" where
  "requeue_each E S [] w = w"
| "requeue_each E S (cmd # rest) w =
     (let (_, w) = store_call S (update_command_status E (status_only (ac_command_id cmd) Pending)) w
      in requeue_each E S rest w)"

definition PENDING_TTL_SECS :: int where
  "PENDING_TTL_SECS = 86400"

definition retry_cycle :: "env \<Rightarrow> schedule \<Rightarrow> int \<Rightarrow> task_state \<Rightarrow> task_state" where
  "retry_cycle E S retry_batch w =
     (let (_, w) = store_call S (dead_letter_stale_pending_commands E PENDING_TTL_SECS retry_batch) w;
          w = (case store_query S (find_exhausted_retry_commands retry_batch) w of
                 (Inl _, w) \<Rightarrow> w
               | (Inr exhausted, w) \<Rightarrow> dead_letter_each E S exhausted w);
          (nw, w) = task_now E w
      in case store_query S (find_retriable_commands nw retry_batch) w of
           (Inl _, w) \<Rightarrow> w
         | (Inr retriable, w) \<Rightarrow> requeue_each E S retriable w)"

end
