(* ===== verification/Pipeline_Invariants.thy ===== *)
theory Pipeline_Invariants
  imports Pipeline_Loops
begin

text \<open>
  Invariants of the pipeline's loops. The locale \<open>task_invariant\<close> is the contract between a
  predicate on the session tables and the store calls a spawned batch makes; \<open>loop_invariant\<close>
  adds the calls of the dispatch loop, the lease monitor and the retry scheduler with what each may
  assume about the rows it selected. Every loop body then keeps the predicate under every schedule.
\<close>

section \<open>Store calls\<close>

lemma store_call_keeps:
  assumes "store_call S op w = (r, w')" "P (tk_db w)"
    and "\<And>n s. P s \<Longrightarrow> P (sc_others S n s)" "\<And>s. P s \<Longrightarrow> P (snd (op s))"
  shows "P (tk_db w')"
proof -
  let ?s = "sc_others S (tk_calls w) (tk_db w)"
  have "tk_db w' = ?s \<or> tk_db w' = snd (op ?s)"
    using assms(1) by (auto simp: store_call_def Let_def split: call_fate.splits prod.splits)
  moreover have "P ?s" using assms(2,3) by blast
  ultimately show ?thesis using assms(4) by metis
qed

lemma store_query_keeps:
  assumes "store_query S q w = (r, w')" "P (tk_db w)" "\<And>n s. P s \<Longrightarrow> P (sc_others S n s)"
  shows "P (tk_db w') \<and> (\<forall>x. r = Inr x \<longrightarrow> q (tk_db w') = Inr x)"
proof -
  have "P (tk_db w')"
    using store_call_keeps [OF assms(1) [unfolded store_query_def], of P] assms(2,3) by simp
  moreover have "q (tk_db w') = Inr x" if "r = Inr x" for x
    using assms(1) that by (auto simp: store_query_def store_call_def Let_def split: call_fate.splits)
  ultimately show ?thesis by blast
qed

lemma task_now_db: "tk_db (snd (task_now E w)) = tick (tk_db w)"
  by (simp add: task_now_def now_tick)

section \<open>Grouping\<close>

text \<open>A group is what the batch holds for one agent, in order.\<close>

lemma group_commands_get:
  "hm_wf (group_commands cs) \<and>
   hm_get (group_commands cs) a =
     (if filter (\<lambda>c. ac_agent_id c = a) cs = [] then None else Some (filter (\<lambda>c. ac_agent_id c = a) cs))"
proof (induction cs arbitrary: a rule: rev_induct)
  case Nil
  then show ?case by (simp add: group_commands_def)
next
  case (snoc c cs)
  let ?g = "group_commands cs"
  have step: "group_commands (cs @ [c]) = hm_insert (ac_agent_id c)
      ((case hm_get ?g (ac_agent_id c) of Some g \<Rightarrow> g | None \<Rightarrow> []) @ [c]) ?g"
    by (simp add: group_commands_def)
  have "(case hm_get ?g (ac_agent_id c) of Some g \<Rightarrow> g | None \<Rightarrow> []) = filter (\<lambda>d. ac_agent_id d = ac_agent_id c) cs"
    using snoc [of "ac_agent_id c"] by simp
  then show ?case using snoc [of a] by (auto simp: step)
qed

lemma group_commands_members:
  assumes "members \<in> set (hm_values (group_commands cs))"
  shows "set members \<subseteq> set cs" "members \<noteq> []"
    and "\<exists>a. members = filter (\<lambda>c. ac_agent_id c = a) cs"
proof -
  from assms group_commands_get obtain a where "hm_get (group_commands cs) a = Some members"
    using hm_values_get by metis
  then have "members = filter (\<lambda>c. ac_agent_id c = a) cs \<and> members \<noteq> []"
    using group_commands_get [of cs a] by (metis option.distinct(1) option.inject)
  then show "set members \<subseteq> set cs" "members \<noteq> []" "\<exists>a. members = filter (\<lambda>c. ac_agent_id c = a) cs"
    by auto
qed

section \<open>Spawned batches\<close>

text \<open>What a status update of a running batch carries: a status and no lease.\<close>

definition batch_update :: "command_status_update \<Rightarrow> bool" where
  "batch_update u \<longleftrightarrow> cu_status u \<in> {Started, Heartbeating, RetryScheduled} \<and>
     cu_current_attempt_id u = None \<and> cu_current_epoch u = None \<and> cu_attempt_count u = None"

lemma batch_update_status_only [simp]: "batch_update (status_only cid st) \<longleftrightarrow> st \<in> {Started, Heartbeating, RetryScheduled}"
  by (auto simp: batch_update_def status_only_def)

lemma batch_update_retry [simp]:
  "batch_update ((status_only cid RetryScheduled)\<lparr>cu_last_error := e, cu_next_retry_at := t\<rparr>)"
  by (simp add: batch_update_def status_only_def)

locale task_invariant =
  fixes E :: env and S :: schedule and P :: "session_db \<Rightarrow> bool"
  assumes others: "P s \<Longrightarrow> P (sc_others S n s)"
    and clock: "P s \<Longrightarrow> P (tick s)"
    and mark: "P s \<Longrightarrow> P (snd (mark_command_succeeded_for_attempt E cid a s))"
    and update: "P s \<Longrightarrow> batch_update u \<Longrightarrow> P (snd (update_command_status_for_attempt E u a s))"
    and dead: "P s \<Longrightarrow> P (snd (dead_letter_command_for_attempt E dl a s))"
    and alive: "P s \<Longrightarrow> P (snd (update_session_heartbeat_for_epoch E key e s))"
begin

lemma call_keeps:
  "store_call S op w = (r, w') \<Longrightarrow> P (tk_db w) \<Longrightarrow> (\<And>s. P s \<Longrightarrow> P (snd (op s))) \<Longrightarrow> P (tk_db w')"
  using others store_call_keeps by metis

lemma task_now_keeps: "task_now E w = (nw, w') \<Longrightarrow> P (tk_db w) \<Longrightarrow> P (tk_db w')"
  by (metis clock snd_conv task_now_db)

lemma finish_succeeded_keeps:
  "finish_succeeded E S p cs w = (r, w') \<Longrightarrow> P (tk_db w) \<Longrightarrow> P (tk_db w')"
proof (induction cs arbitrary: w r)
  case (Cons c cs)
  show ?case
  proof (cases "ac_current_attempt_id c")
    case None
    then show ?thesis using Cons by (auto split: if_splits)
  next
    case (Some a)
    obtain q u where q: "store_call S (mark_command_succeeded_for_attempt E (ac_command_id c) a) w = (q, u)"
      by fastforce
    have "P (tk_db u)" using call_keeps [OF q Cons.prems(2)] mark by blast
    moreover have "w' = u \<or> (\<exists>r'. finish_succeeded E S p cs u = (r', w'))"
      using Cons.prems(1) Some q by (auto split: if_splits sum.splits option.splits prod.splits)
    ultimately show ?thesis using Cons.IH by blast
  qed
qed simp

lemma finish_failed_member_keeps:
  assumes "finish_failed_member E S result c a w = (r, w')" "P (tk_db w)"
  shows "P (tk_db w')"
proof (cases "should_retry_failed_command c (is_auto_retriable_error (ar_error result))")
  case True
  obtain nw u where u: "task_now E w = (nw, u)" by fastforce
  have "P (tk_db u)" using task_now_keeps [OF u assms(2)] .
  with True assms(1) u show ?thesis
    by (auto simp: finish_failed_member_def Let_def elim!: call_keeps intro!: update)
next
  case False
  obtain q u where q: "store_call S (dead_letter_command_for_attempt E (failed_dead_letter result c) a) w = (q, u)"
    by fastforce
  have "P (tk_db u)" using call_keeps [OF q assms(2)] dead by blast
  with False assms(1) q show ?thesis
    by (auto simp: finish_failed_member_def split: sum.splits)
qed

lemma finish_failed_keeps:
  "finish_failed E S result p cs w = (r, w') \<Longrightarrow> P (tk_db w) \<Longrightarrow> P (tk_db w')"
proof (induction cs arbitrary: w)
  case (Cons c cs)
  show ?case
  proof (cases "ac_current_attempt_id c")
    case None
    then show ?thesis using Cons by (auto split: if_splits)
  next
    case (Some a)
    obtain q u where q: "finish_failed_member E S result c a w = (q, u)" by fastforce
    have "w' = u \<or> finish_failed E S result p cs u = (r, w')"
      using Cons.prems(1) Some q by (auto split: if_splits sum.splits)
    then show ?thesis using Cons.IH finish_failed_member_keeps [OF q Cons.prems(2)] by blast
  qed
qed simp

lemma complete_batch_keeps: "complete_batch E S task result w = (r, w') \<Longrightarrow> P (tk_db w) \<Longrightarrow> P (tk_db w')"
  by (auto simp: complete_batch_def split: if_splits prod.splits option.splits bool.splits
      dest: finish_succeeded_keeps finish_failed_keeps)

lemma heartbeat_each_keeps: "heartbeat_each E S ps w = (r, w') \<Longrightarrow> P (tk_db w) \<Longrightarrow> P (tk_db w')"
proof (induction ps arbitrary: w r)
  case (Cons p ps)
  obtain key e where p: "p = (key, e)" by (cases p)
  obtain q u where q: "store_call S (update_session_heartbeat_for_epoch E key e) w = (q, u)" by fastforce
  have "P (tk_db u)" using call_keeps [OF q Cons.prems(2)] alive by blast
  moreover have "\<exists>r'. heartbeat_each E S ps u = (r', w')"
    using Cons.prems(1) p q by (auto simp: Let_def split: prod.splits)
  ultimately show ?case using Cons.IH by blast
qed simp

lemma heartbeat_tick_keeps:
  assumes "heartbeat_tick E S task hb w = (r, w')" "P (tk_db w)"
  shows "P (tk_db w')"
proof -
  obtain ks u where u: "heartbeat_each E S (hb_sessions hb) w = (ks, u)" by fastforce
  obtain q v where q: "store_call S (update_command_status_for_attempt E
      (status_only (bt_primary_id task) Heartbeating) (bt_attempt_id task)) u = (q, v)" by fastforce
  have ticked: "P (tk_db u)" using heartbeat_each_keeps [OF u assms(2)] .
  moreover have "P (tk_db v)" by (rule call_keeps [OF q ticked]) (simp add: update)
  moreover have "w' = u \<or> w' = v"
    using assms(1) u q by (auto simp: heartbeat_tick_def Let_def split: if_splits sum.splits)
  ultimately show ?thesis by blast
qed

end

section \<open>The loops\<close>

text \<open>
  The loops call the store for rows they selected before: \<open>leasable\<close>, \<open>expirable\<close>,
  \<open>buriable\<close> and \<open>requeueable\<close> say what selection promises, in a form that stays true while
  the body runs.
\<close>

locale loop_invariant = task_invariant +
  fixes leasable :: "string list \<Rightarrow> session_db \<Rightarrow> bool"
    and expirable :: "expired_lease \<Rightarrow> bool"
    and buriable :: "string \<Rightarrow> bool"
    and requeueable :: "string \<Rightarrow> session_db \<Rightarrow> bool"
  assumes others_evolve: "P s \<Longrightarrow> evolves E s (sc_others S n s)"
    and lease: "P s \<Longrightarrow> leasable cids s \<Longrightarrow> P (snd (assign_batch_leases E cids node s))"
    and expire: "P s \<Longrightarrow> expirable x \<Longrightarrow> P (snd (handle_lease_expiry E x s))"
    and bury: "P s \<Longrightarrow> buriable cid \<Longrightarrow>
      P (snd (update_command_status E ((status_only cid DeadLettered)\<lparr>cu_last_error := err\<rparr>) s))"
    and requeue: "P s \<Longrightarrow> requeueable cid s \<Longrightarrow> P (snd (update_command_status E (status_only cid Pending) s))"
    and letter: "P s \<Longrightarrow> P (snd (insert_dead_letter E dl s))"
    and stale: "P s \<Longrightarrow> P (snd (dead_letter_stale_pending_commands E age lim s))"
    and select_lease: "P s \<Longrightarrow> find_pending_commands lim s = Inr cs \<Longrightarrow> set members \<subseteq> set cs \<Longrightarrow>
      leasable (map ac_command_id members) s"
    and select_expire: "P s \<Longrightarrow> x \<in> set (check_expired_leases nw timeout s) \<Longrightarrow> expirable x"
    and select_bury: "P s \<Longrightarrow> find_exhausted_retry_commands lim s = Inr cs \<Longrightarrow> c \<in> set cs \<Longrightarrow>
      buriable (ac_command_id c)"
    and select_requeue: "P s \<Longrightarrow> find_retriable_commands nw lim s = Inr cs \<Longrightarrow> c \<in> set cs \<Longrightarrow>
      requeueable (ac_command_id c) s"
    and leasable_evolves: "leasable cids s \<Longrightarrow> evolves E s t \<Longrightarrow> leasable cids t"
    and select_distinct: "P s \<Longrightarrow> find_retriable_commands nw lim s = Inr cs \<Longrightarrow> distinct (map ac_command_id cs)"
    and requeueable_others: "P s \<Longrightarrow> requeueable cid s \<Longrightarrow> requeueable cid (sc_others S n s)"
    and requeueable_requeue: "P s \<Longrightarrow> requeueable cid s \<Longrightarrow> d \<noteq> cid \<Longrightarrow>
      requeueable cid (snd (update_command_status E (status_only d Pending) s))"
begin

text \<open>The predicate together with what the body still relies on.\<close>

lemma dispatch_group_keeps:
  assumes "dispatch_group E S node members w = (r, w')" "P (tk_db w)"
    and "leasable (map ac_command_id members) (tk_db w)"
  shows "P (tk_db w') \<and> evolves E (tk_db w) (tk_db w')"
proof -
  let ?inv = "\<lambda>s. P s \<and> evolves E (tk_db w) s"
  have ev: "?inv (sc_others S n s)" if "?inv s" for n s
    using that others others_evolve evolves_trans by blast
  obtain q u where q: "store_call S (assign_batch_leases E (map ac_command_id members) node) w = (q, u)"
    by fastforce
  have "?inv (tk_db u)"
  proof (rule store_call_keeps [OF q, of ?inv])
    fix s assume s: "?inv s"
    then have "leasable (map ac_command_id members) s" using assms(3) leasable_evolves by blast
    moreover have "evolves E s (snd (assign_batch_leases E (map ac_command_id members) node s))"
      by (rule assign_batch_leases_evolves [OF surjective_pairing])
    ultimately show "?inv (snd (assign_batch_leases E (map ac_command_id members) node s))"
      using s lease evolves_trans by blast
  qed (use assms(2) ev in auto)
  moreover have "?inv (tk_db v)"
    if "store_call S (update_command_status_for_attempt E (status_only cid Started) a) u = (q', v)"
      and "?inv (tk_db u)" for cid a q' v
  proof (rule store_call_keeps [OF that(1), of ?inv])
    fix s assume s: "?inv s"
    have "evolves E s (snd (update_command_status_for_attempt E (status_only cid Started) a s))"
      unfolding update_command_status_for_attempt_def
      by (rule update_command_status_evolves [OF _ surjective_pairing]) (simp add: status_only_def)
    then show "?inv (snd (update_command_status_for_attempt E (status_only cid Started) a s))"
      using s update evolves_trans batch_update_status_only by blast
  qed (use that(2) ev in auto)
  moreover have "w' = u \<or> (\<exists>cid a q'. store_call S (update_command_status_for_attempt E
      (status_only cid Started) a) u = (q', w'))"
    using assms(1) q
    by (auto simp: dispatch_group_def Let_def split: sum.splits option.splits prod.splits)
  ultimately show ?thesis by metis
qed

lemma dispatch_groups_keeps:
  "dispatch_groups E S node gs w = (r, w') \<Longrightarrow> P (tk_db w) \<Longrightarrow>
     (\<forall>members\<in>set gs. leasable (map ac_command_id members) (tk_db w)) \<Longrightarrow> P (tk_db w')"
proof (induction gs arbitrary: w r)
  case (Cons members gs)
  obtain t u where u: "dispatch_group E S node members w = (t, u)" by fastforce
  obtain r' where rest: "dispatch_groups E S node gs u = (r', w')"
    using Cons.prems(1) u by (auto simp: Let_def split: prod.splits)
  have "P (tk_db u)" "evolves E (tk_db w) (tk_db u)"
    using dispatch_group_keeps [OF u Cons.prems(2)] Cons.prems(3) by simp_all
  with Cons.IH [OF rest] Cons.prems(3) leasable_evolves show ?case by (meson list.set_intros(2))
qed simp

lemma dispatch_round_keeps:
  assumes "dispatch_round E S lim node w = (r, w')" "P (tk_db w)"
  shows "P (tk_db w')"
proof -
  obtain q u where q: "store_query S (find_pending_commands lim) w = (q, u)" by fastforce
  note sel = store_query_keeps [OF q, of P, OF assms(2) others]
  show ?thesis
  proof (cases q)
    case (Inr cs)
    have "leasable (map ac_command_id members) (tk_db u)"
      if "members \<in> set (hm_values (group_commands cs))" for members
      using group_commands_members(1) [OF that] sel Inr select_lease by blast
    then show ?thesis using assms(1) q Inr sel
      by (auto simp: dispatch_round_def split: if_splits dest!: dispatch_groups_keeps)
  qed (use assms(1) q sel in \<open>simp add: dispatch_round_def\<close>)
qed

lemma expire_each_keeps:
  "P (tk_db w) \<Longrightarrow> (\<forall>x\<in>set xs. expirable x) \<Longrightarrow> P (tk_db (expire_each E S xs w))"
proof (induction xs arbitrary: w)
  case (Cons x xs)
  obtain q u where q: "store_call S (handle_lease_expiry E x) w = (q, u)" by fastforce
  have "P (tk_db u)" by (rule call_keeps [OF q Cons.prems(1)]) (use Cons.prems(2) expire in simp)
  with Cons q show ?case by simp
qed simp

lemma lease_monitor_sweep_keeps:
  assumes "P (tk_db w)"
  shows "P (tk_db (lease_monitor_sweep E S timeout w))"
proof -
  obtain nw u where u: "task_now E w = (nw, u)" by fastforce
  obtain q v where q: "store_query S (\<lambda>s. Inr (check_expired_leases nw timeout s)) u = (q, v)" by fastforce
  have "P (tk_db u)" by (rule task_now_keeps [OF u assms])
  note sel = store_query_keeps [OF q, of P, OF this others]
  show ?thesis
  proof (cases q)
    case (Inr xs)
    then have "\<forall>x\<in>set xs. expirable x" using sel select_expire by auto
    then show ?thesis using u q Inr sel expire_each_keeps by (simp add: lease_monitor_sweep_def)
  qed (use u q sel in \<open>simp add: lease_monitor_sweep_def\<close>)
qed

lemma dead_letter_each_keeps:
  "P (tk_db w) \<Longrightarrow> (\<forall>c\<in>set cs. buriable (ac_command_id c)) \<Longrightarrow> P (tk_db (dead_letter_each E S cs w))"
proof (induction cs arbitrary: w)
  case (Cons c cs)
  let ?u = "(status_only (ac_command_id c) DeadLettered)\<lparr>cu_last_error := Some ''max retry attempts exhausted''\<rparr>"
  obtain q u where q: "store_call S (update_command_status E ?u) w = (q, u)" by fastforce
  obtain q' v where q': "store_call S (insert_dead_letter E (exhausted_dead_letter c)) u = (q', v)" by fastforce
  have u: "P (tk_db u)" by (rule call_keeps [OF q Cons.prems(1)]) (use Cons.prems(2) bury in simp)
  have v: "P (tk_db v)" by (rule call_keeps [OF q' u]) (rule letter)
  show ?case using Cons.IH [OF u] Cons.IH [OF v] Cons.prems(2) q q' by (cases q) simp_all
qed simp

lemma requeue_each_keeps:
  "P (tk_db w) \<Longrightarrow> (\<forall>c\<in>set cs. requeueable (ac_command_id c) (tk_db w)) \<Longrightarrow>
     distinct (map ac_command_id cs) \<Longrightarrow> P (tk_db (requeue_each E S cs w))"
proof (induction cs arbitrary: w)
  case (Cons c cs)
  let ?op = "update_command_status E (status_only (ac_command_id c) Pending)"
  let ?rest = "\<lambda>s. P s \<and> (\<forall>d\<in>set cs. requeueable (ac_command_id d) s)"
  let ?s = "sc_others S (tk_calls w) (tk_db w)"
  obtain q u where q: "store_call S ?op w = (q, u)" by fastforce
  have before: "?rest ?s" "requeueable (ac_command_id c) ?s"
    using Cons.prems(1,2) others requeueable_others by simp_all
  have other: "ac_command_id d \<noteq> ac_command_id c" if "d \<in> set cs" for d
    using that Cons.prems(3) by (metis distinct.simps(2) imageI list.set_map list.simps(9))
  have "?rest (snd (?op ?s))"
    using before requeue requeueable_requeue other by metis
  moreover have "tk_db u = ?s \<or> tk_db u = snd (?op ?s)"
    using q by (auto simp: store_call_def Let_def split: call_fate.splits prod.splits)
  ultimately have "?rest (tk_db u)" using before(1) by metis
  with Cons.IH Cons.prems(3) q show ?case by simp
qed simp

lemma retry_cycle_keeps:
  assumes "P (tk_db w)"
  shows "P (tk_db (retry_cycle E S lim w))"
proof -
  obtain q1 w1 where q1: "store_call S (dead_letter_stale_pending_commands E PENDING_TTL_SECS lim) w = (q1, w1)"
    by fastforce
  have w1: "P (tk_db w1)" by (rule call_keeps [OF q1 assms]) (rule stale)
  obtain q2 w2 where q2: "store_query S (find_exhausted_retry_commands lim) w1 = (q2, w2)" by fastforce
  note sel2 = store_query_keeps [OF q2, of P, OF w1 others]
  define w3 where "w3 = (case q2 of Inl _ \<Rightarrow> w2 | Inr cs \<Rightarrow> dead_letter_each E S cs w2)"
  have w3: "P (tk_db w3)"
    using sel2 dead_letter_each_keeps select_bury by (fastforce simp: w3_def split: sum.splits)
  obtain nw w4 where w4: "task_now E w3 = (nw, w4)" by fastforce
  obtain q5 w5 where q5: "store_query S (find_retriable_commands nw lim) w4 = (q5, w5)" by fastforce
  note sel5 = store_query_keeps [OF q5, of P, OF task_now_keeps [OF w4 w3] others]
  have "retry_cycle E S lim w = (case q5 of Inl _ \<Rightarrow> w5 | Inr cs \<Rightarrow> requeue_each E S cs w5)"
    using w4 q5 by (simp add: retry_cycle_def q1 q2 w3_def Let_def sum.case_eq_if)
  then show ?thesis
    using sel5 requeue_each_keeps select_requeue select_distinct by (fastforce split: sum.splits)
qed

end

end
