(* ===== verification/Pipeline_Props.thy ===== *)
theory Pipeline_Props
  imports Pipeline_Invariants
begin

text \<open>
  What the pipeline's loops keep: every body is a sequence of store transactions, and the attempt
  budget of a command is never exceeded.
\<close>

section \<open>The loops are clients of the store\<close>

text \<open>The other tasks are clients of the session store too.\<close>

definition interferes :: "env \<Rightarrow> schedule \<Rightarrow> bool" where
  "interferes E S \<longleftrightarrow> (\<forall>n s. (session_step E)\<^sup>*\<^sup>* s (sc_others S n s))"

lemma session_step_after: "(session_step E)\<^sup>*\<^sup>* s0 s \<Longrightarrow> session_step E s t \<Longrightarrow> (session_step E)\<^sup>*\<^sup>* s0 t"
  by (rule rtranclp.rtrancl_into_rtrancl)

lemmas store_steps =
  session_step.intros(3,5,6,8,9,12,13,14,15) [OF surjective_pairing]

lemma tick_step: "session_step E s (tick s)"
  by (rule session_step.intros(23)) (rule now_tick)

lemma distinct_selected:
  assumes "commands_wf s" "sql_limit n (sort_key f (filter Q (command_rows s))) = Inr cs"
  shows "distinct (map ac_command_id cs)"
proof -
  have "distinct (map ac_command_id (command_rows s))"
    using assms(1) by (simp add: command_rows_ids commands_wf_def hm_wf_def)
  then show ?thesis using assms(2)
    by (auto simp: sql_limit_def distinct_map inj_on_def split: if_splits dest!: in_set_takeD)
qed

lemma find_retriable_distinct:
  "commands_wf s \<Longrightarrow> find_retriable_commands nw lim s = Inr cs \<Longrightarrow> distinct (map ac_command_id cs)"
  unfolding find_retriable_commands_def by (rule distinct_selected)

text \<open>The tables a task may find after starting from \<open>s0\<close>.\<close>

definition reached :: "env \<Rightarrow> schedule \<Rightarrow> session_db \<Rightarrow> session_db \<Rightarrow> bool" where
  "reached E S s0 s \<longleftrightarrow> interferes E S \<and> commands_wf s0 \<and> (session_step E)\<^sup>*\<^sup>* s0 s"

lemma reached_step: "reached E S s0 s \<Longrightarrow> session_step E s t \<Longrightarrow> reached E S s0 t"
  unfolding reached_def by (blast intro: session_step_after)

lemma reached_wf: "reached E S s0 s \<Longrightarrow> commands_wf s"
  unfolding reached_def using session_steps_evolve evolves_def by blast

lemma reached_others: "reached E S s0 s \<Longrightarrow> reached E S s0 (sc_others S n s)"
  unfolding reached_def interferes_def by (meson rtranclp_trans)

lemma reached_others_evolve: "reached E S s0 s \<Longrightarrow> evolves E s (sc_others S n s)"
  unfolding reached_def interferes_def by (blast intro: session_steps_evolve)

interpretation reach: loop_invariant E S "reached E S s0" "\<lambda>_ _. True" "\<lambda>_. True" "\<lambda>_. True" "\<lambda>_ _. True"
proof
  fix s n
  assume inv: "reached E S s0 s"
  note step = reached_step [OF inv]
  show "reached E S s0 (sc_others S n s)" by (rule reached_others [OF inv])
  show "evolves E s (sc_others S n s)" by (rule reached_others_evolve [OF inv])
  show "reached E S s0 (tick s)" by (rule step [OF tick_step])
  show "reached E S s0 (snd (update_session_heartbeat_for_epoch E key e s))" for key e
    by (rule step [OF store_steps(1)])
  show "reached E S s0 (snd (update_command_status E ((status_only cid DeadLettered)\<lparr>cu_last_error := err\<rparr>) s))" for cid err
    by (rule step [OF store_steps(2)]) (simp add: status_only_def)
  show "reached E S s0 (snd (update_command_status E (status_only cid Pending) s))" for cid
    by (rule step [OF store_steps(2)]) (simp add: status_only_def)
  show "reached E S s0 (snd (update_command_status_for_attempt E u a s))" if "batch_update u" for u a
    by (rule step [OF store_steps(3)]) (use that in \<open>simp add: batch_update_def\<close>)
  show "reached E S s0 (snd (assign_batch_leases E cids node s))" for cids node by (rule step [OF store_steps(4)])
  show "reached E S s0 (snd (mark_command_succeeded_for_attempt E cid a s))" for cid a by (rule step [OF store_steps(5)])
  show "reached E S s0 (snd (handle_lease_expiry E x s))" for x by (rule step [OF store_steps(6)])
  show "reached E S s0 (snd (insert_dead_letter E dl s))" for dl by (rule step [OF store_steps(7)])
  show "reached E S s0 (snd (dead_letter_command_for_attempt E dl a s))" for dl a by (rule step [OF store_steps(8)])
  show "reached E S s0 (snd (dead_letter_stale_pending_commands E age lim s))" for age lim
    by (rule step [OF store_steps(9)])
  show "distinct (map ac_command_id cs)" if "find_retriable_commands nw lim s = Inr cs" for nw lim cs
    by (rule find_retriable_distinct [OF reached_wf [OF inv] that])
qed simp_all

section \<open>The attempt budget\<close>

definition all_commands :: "(agent_command \<Rightarrow> bool) \<Rightarrow> session_db \<Rightarrow> bool" where
  "all_commands ok s \<longleftrightarrow> (\<forall>k c. get_command k s = Some c \<longrightarrow> ok c)"

text \<open>
  A command is never leased more often than it may be: a pending command has an attempt left.
  \<^verbatim>\<open>max_attempts\<close> is an \<^verbatim>\<open>i32\<close>.
\<close>

definition within_budget :: "agent_command \<Rightarrow> bool" where
  "within_budget c \<longleftrightarrow> ac_attempt_count c \<le> ac_max_attempts c \<and> ac_max_attempts c \<le> 2147483647 \<and>
     (ac_status c = Pending \<longrightarrow> ac_attempt_count c < ac_max_attempts c)"

lemma all_commands_cong:
  "agent_commands t = agent_commands s \<Longrightarrow> all_commands ok t = all_commands ok s"
  by (simp add: all_commands_def get_command_def)

lemma all_commands_set_command:
  "all_commands ok s \<Longrightarrow> (\<And>c. get_command k s = Some c \<Longrightarrow> ok c \<Longrightarrow> ok (f c)) \<Longrightarrow> all_commands ok (set_command k f s)"
  by (auto simp: all_commands_def get_command_set_command split: if_splits)

lemma agent_commands_set_session [simp]: "agent_commands (set_session k f s) = agent_commands s"
  by (simp add: set_session_def)

lemma agent_commands_release [simp]:
  "agent_commands (release_session_if_no_active_commands k e nw s) = agent_commands s"
  by (simp add: release_session_if_no_active_commands_def split: option.splits)

lemma agent_commands_tick [simp]: "agent_commands (tick s) = agent_commands s"
  by (simp add: tick_def)

lemma get_command_released [simp]:
  "get_command l (release_session_if_no_active_commands k e nw s) = get_command l s"
  by (simp add: get_command_def)

lemma all_commands_simps [simp]:
  "all_commands ok (tick s) = all_commands ok s"
  "all_commands ok (set_session k f s) = all_commands ok s"
  "all_commands ok (release_session_if_no_active_commands k e nw s) = all_commands ok s"
  by (rule all_commands_cong, simp)+

lemma insert_dead_letter_commands [simp]:
  "agent_commands (snd (insert_dead_letter_in_transaction E i nw s)) = agent_commands s"
  by (simp add: insert_dead_letter_in_transaction_def new_id_def Let_def)

lemma expire_session_commands [simp]: "agent_commands (snd (expire_session k e nw s)) = agent_commands s"
  by (simp add: expire_session_def split: option.splits)

text \<open>Every store call of the loops keeps the budget.\<close>

lemma mark_budget:
  "all_commands within_budget s \<Longrightarrow> all_commands within_budget (snd (mark_command_succeeded_for_attempt E cid a s))"
  by (auto simp: mark_command_succeeded_for_attempt_def now_tick Let_def within_budget_def
      intro!: all_commands_set_command split: option.splits)

lemma update_status_budget:
  assumes "all_commands within_budget s"
    and "cu_attempt_count u = None" "cu_status u \<noteq> Pending \<or> (\<forall>c. get_command (cu_command_id u) s = Some c \<longrightarrow> ac_attempt_count c < ac_max_attempts c)"
  shows "all_commands within_budget (snd (update_command_status_inner E u a s))"
  using assms
  by (auto simp: update_command_status_inner_def now_tick Let_def within_budget_def
      intro!: all_commands_set_command split: option.splits if_splits)

lemma dead_letter_budget:
  "all_commands within_budget s \<Longrightarrow> all_commands within_budget (snd (dead_letter_command_for_attempt E dl a s))"
  by (auto simp: dead_letter_command_for_attempt_def now_tick Let_def within_budget_def case_prod_unfold
      all_commands_cong [OF insert_dead_letter_commands]
      intro!: all_commands_set_command split: option.splits)

lemma heartbeat_budget:
  "all_commands within_budget s \<Longrightarrow> all_commands within_budget (snd (update_session_heartbeat_for_epoch E k e s))"
  by (auto simp: update_session_heartbeat_for_epoch_def now_tick Let_def split: option.splits)

lemma expiry_budget:
  "all_commands within_budget s \<Longrightarrow> all_commands within_budget (snd (handle_lease_expiry E x s))"
  by (auto simp: handle_lease_expiry_def now_tick Let_def within_budget_def case_prod_unfold
      all_commands_cong [OF insert_dead_letter_commands] all_commands_cong [OF expire_session_commands]
      intro!: all_commands_set_command split: option.splits sum.splits)

lemma insert_dead_letter_budget:
  "all_commands within_budget s \<Longrightarrow> all_commands within_budget (snd (insert_dead_letter E dl s))"
  by (simp add: insert_dead_letter_def now_tick Let_def case_prod_unfold
      all_commands_cong [OF insert_dead_letter_commands])

lemma stale_pending_budget:
  assumes "all_commands within_budget s"
  shows "all_commands within_budget (snd (dead_letter_stale_pending_commands E age lim s))"
proof -
  have "all_commands within_budget (fold (\<lambda>c. set_command (ac_command_id c)
      (\<lambda>c. c\<lparr>ac_status := DeadLettered, ac_last_error := Some ''TTL expired''\<rparr>)) cs u)"
    if "all_commands within_budget u" for cs :: "agent_command list" and u
    using that
  proof (induction cs arbitrary: u)
    case (Cons c cs)
    have "all_commands within_budget (set_command (ac_command_id c)
        (\<lambda>c. c\<lparr>ac_status := DeadLettered, ac_last_error := Some ''TTL expired''\<rparr>) u)"
      by (rule all_commands_set_command [OF Cons.prems]) (simp add: within_budget_def)
    then show ?case using Cons.IH by simp
  qed simp
  then show ?thesis using assms
    by (auto simp: dead_letter_stale_pending_commands_def now_tick Let_def split: sum.splits)
qed

lemma lease_command_budget: "within_budget c \<Longrightarrow> ac_status c = Pending \<Longrightarrow> within_budget (lease_command a e nw c)"
  by (auto simp: within_budget_def lease_command_def i32_succ_def)

lemma lease_budget:
  assumes "all_commands within_budget s" "commands_wf s"
  shows "all_commands within_budget (snd (assign_batch_leases E cids node s))"
proof (cases "assign_batch_leases E cids node s")
  case (Pair r t)
  show ?thesis
  proof (cases r)
    case (Inl e)
    with assms(1) show ?thesis
      using assign_batch_leases_Inl [OF Pair [unfolded Inl]] by (simp add: Pair all_commands_cong [of t s])
  next
    case (Inr as)
    note run = Pair [unfolded Inr]
    have "within_budget d" if d: "get_command k t = Some d" for k d
    proof (cases "k \<in> set cids")
      case True
      from assign_batch_leases_Inr [OF assms(2) run True] obtain c la where
        "get_command k s = Some c" "ac_command_id c = k" "ac_status c = Pending"
        "leased_as t (env_clock E (clock_reads s)) c la" by metis
      with d assms(1) show ?thesis by (auto simp: leased_as_def all_commands_def intro: lease_command_budget)
    next
      case False
      with d assign_batch_leases_frame(1) [OF assms(2) run False] assms(1) show ?thesis
        by (simp add: all_commands_def)
    qed
    then show ?thesis by (simp add: Pair all_commands_def)
  qed
qed

text \<open>
  What the budget needs of the other tasks: they keep it, and leave a row that waits for its retry
  on this node alone, since one retry scheduler runs.
\<close>

definition budget_rely :: "env \<Rightarrow> schedule \<Rightarrow> bool" where
  "budget_rely E S \<longleftrightarrow> (\<forall>n s. evolves E s (sc_others S n s) \<and>
     (commands_wf s \<longrightarrow> all_commands within_budget s \<longrightarrow> all_commands within_budget (sc_others S n s)) \<and>
     (\<forall>k c. commands_wf s \<longrightarrow> get_command k s = Some c \<longrightarrow> ac_status c = RetryScheduled \<longrightarrow> \<not> on_runtime_host c \<longrightarrow>
        get_command k (sc_others S n s) = Some c))"

definition budget_inv :: "env \<Rightarrow> schedule \<Rightarrow> session_db \<Rightarrow> bool" where
  "budget_inv E S s \<longleftrightarrow> budget_rely E S \<and> commands_wf s \<and> all_commands within_budget s"

definition retry_left :: "string \<Rightarrow> session_db \<Rightarrow> bool" where
  "retry_left cid s \<longleftrightarrow> (\<exists>c. get_command cid s = Some c \<and> ac_status c = RetryScheduled \<and>
     \<not> on_runtime_host c \<and> ac_attempt_count c < ac_max_attempts c)"

lemma evolves_wf: "evolves E s t \<Longrightarrow> commands_wf s \<Longrightarrow> commands_wf t"
  by (simp add: evolves_def)

lemma budget_inv_step:
  "budget_inv E S s \<Longrightarrow> evolves E s t \<Longrightarrow> (all_commands within_budget s \<Longrightarrow> commands_wf s \<Longrightarrow> all_commands within_budget t) \<Longrightarrow>
   budget_inv E S t"
  unfolding budget_inv_def by (blast intro: evolves_wf)

lemma budget_inv_others: "budget_inv E S s \<Longrightarrow> budget_inv E S (sc_others S n s)"
  unfolding budget_inv_def budget_rely_def by (blast intro: evolves_wf)

lemma command_row_get:
  assumes "commands_wf s" "c \<in> set (command_rows s)"
  shows "get_command (ac_command_id c) s = Some c"
proof -
  have "\<exists>k. get_command k s = Some c"
    using assms by (simp add: command_rows_def get_command_def hm_values_get commands_wf_def)
  then show ?thesis using assms(1) unfolding commands_wf_def by metis
qed

lemma find_retriable_left:
  assumes "commands_wf s" "find_retriable_commands nw lim s = Inr cs" "c \<in> set cs"
  shows "retry_left (ac_command_id c) s"
proof -
  have "c \<in> set (command_rows s)" "retry_due nw c" "\<not> on_runtime_host c"
    using assms(2,3) by (auto simp: find_retriable_commands_def sql_limit_def split: if_splits dest!: in_set_takeD)
  then show ?thesis using command_row_get [OF assms(1)] by (auto simp: retry_left_def retry_due_def)
qed

lemma retry_left_other:
  assumes "retry_left cid s" "cu_command_id u \<noteq> cid"
  shows "retry_left cid (snd (update_command_status E u s))"
proof -
  have "get_command cid (snd (update_command_status E u s)) = get_command cid s"
    using assms(2)
    by (auto simp: update_command_status_def update_command_status_inner_def now_tick Let_def
        get_command_set_command split: option.splits)
  then show ?thesis using assms(1) by (simp add: retry_left_def)
qed

interpretation budget: loop_invariant E S "budget_inv E S" "\<lambda>_ _. True" "\<lambda>_. True" "\<lambda>_. True" retry_left
proof
  fix s n
  assume inv: "budget_inv E S s"
  show "budget_inv E S (sc_others S n s)" by (rule budget_inv_others [OF inv])
  show "evolves E s (sc_others S n s)" using inv by (simp add: budget_inv_def budget_rely_def)
  show "budget_inv E S (tick s)"
    by (rule budget_inv_step [OF inv evolves_now [OF now_tick]]) simp
  show "budget_inv E S (snd (mark_command_succeeded_for_attempt E cid a s))" for cid a
    by (rule budget_inv_step [OF inv mark_command_succeeded_evolves [OF surjective_pairing] mark_budget])
  show "budget_inv E S (snd (dead_letter_command_for_attempt E dl a s))" for dl a
    by (rule budget_inv_step [OF inv dead_letter_command_evolves [OF surjective_pairing] dead_letter_budget])
  show "budget_inv E S (snd (update_session_heartbeat_for_epoch E key e s))" for key e
    by (rule budget_inv_step [OF inv update_session_heartbeat_evolves [OF surjective_pairing] heartbeat_budget])
  show "budget_inv E S (snd (update_command_status_for_attempt E u a s))" if "batch_update u" for u a
    unfolding update_command_status_for_attempt_def using that
    by (intro budget_inv_step [OF inv update_command_status_evolves [OF _ surjective_pairing]] update_status_budget)
       (auto simp: batch_update_def)
  show "budget_inv E S (snd (assign_batch_leases E cids node s))" for cids node
    by (rule budget_inv_step [OF inv assign_batch_leases_evolves [OF surjective_pairing] lease_budget])
  show "budget_inv E S (snd (handle_lease_expiry E x s))" for x
    by (rule budget_inv_step [OF inv handle_lease_expiry_evolves [OF surjective_pairing] expiry_budget])
  show "budget_inv E S (snd (insert_dead_letter E dl s))" for dl
    by (rule budget_inv_step [OF inv insert_dead_letter_evolves [OF surjective_pairing] insert_dead_letter_budget])
  show "budget_inv E S (snd (dead_letter_stale_pending_commands E age lim s))" for age lim
    by (rule budget_inv_step [OF inv dead_letter_stale_evolves [OF surjective_pairing] stale_pending_budget])
  show "budget_inv E S (snd (update_command_status E ((status_only cid DeadLettered)\<lparr>cu_last_error := err\<rparr>) s))" for cid err
    unfolding update_command_status_def
    by (intro budget_inv_step [OF inv update_command_status_evolves [OF _ surjective_pairing]] update_status_budget)
       (auto simp: status_only_def)
  show "budget_inv E S (snd (update_command_status E (status_only cid Pending) s))" if "retry_left cid s" for cid
    unfolding update_command_status_def using that
    by (intro budget_inv_step [OF inv update_command_status_evolves [OF _ surjective_pairing]] update_status_budget)
       (auto simp: status_only_def retry_left_def)
  show "distinct (map ac_command_id cs)" if "find_retriable_commands nw lim s = Inr cs" for nw lim cs
    using inv that by (auto simp: budget_inv_def intro: find_retriable_distinct)
  show "retry_left (ac_command_id c) s" if "find_retriable_commands nw lim s = Inr cs" "c \<in> set cs" for nw lim cs c
    using inv that find_retriable_left by (auto simp: budget_inv_def)
  show "retry_left cid (sc_others S n s)" if "retry_left cid s" for cid
    using inv that unfolding budget_inv_def budget_rely_def retry_left_def by blast
  show "retry_left cid (snd (update_command_status E (status_only d Pending) s))"
    if "retry_left cid s" "d \<noteq> cid" for cid d
    using that by (intro retry_left_other) (simp_all add: status_only_def)
qed simp_all

text \<open>
  C3: the attempt budget. No loop of the pipeline, whatever calls fail and whatever the other tasks
  do between its calls, gives a command more leases than its \<^verbatim>\<open>max_attempts\<close>, as long as
  the others keep the budget too and a single retry scheduler runs.
\<close>

theorem attempts_never_exceed_max:
  assumes "budget_rely E S" "commands_wf (tk_db w)" "all_commands within_budget (tk_db w)"
  shows "all_commands within_budget (tk_db (snd (dispatch_round E S lim node w))) \<and>
         all_commands within_budget (tk_db (snd (complete_batch E S task result w))) \<and>
         all_commands within_budget (tk_db (snd (heartbeat_tick E S task hb w))) \<and>
         all_commands within_budget (tk_db (lease_monitor_sweep E S timeout w)) \<and>
         all_commands within_budget (tk_db (retry_cycle E S lim w))"
proof -
  have inv: "budget_inv E S (tk_db w)" using assms by (simp add: budget_inv_def)
  have ok: "budget_inv E S s \<Longrightarrow> all_commands within_budget s" for s by (simp add: budget_inv_def)
  show ?thesis
    using budget.dispatch_round_keeps [OF surjective_pairing inv] budget.complete_batch_keeps [OF surjective_pairing inv]
      budget.heartbeat_tick_keeps [OF surjective_pairing inv] budget.lease_monitor_sweep_keeps [OF inv]
      budget.retry_cycle_keeps [OF inv] ok by blast
qed

text \<open>Another node's dispatcher is such a neighbour.\<close>

definition rival :: "env \<Rightarrow> string list \<Rightarrow> schedule" where
  "rival E cids = \<lparr>sc_others = (\<lambda>n s. snd (assign_batch_leases E cids ''node-2'' s)), sc_fate = (\<lambda>n. Answered)\<rparr>"

lemma lease_keeps_waiting:
  assumes "commands_wf s" "get_command k s = Some c" "ac_status c = RetryScheduled"
  shows "get_command k (snd (assign_batch_leases E cids node s)) = Some c"
proof (cases "assign_batch_leases E cids node s")
  case (Pair r t)
  show ?thesis
  proof (cases r)
    case (Inl e)
    then show ?thesis using assign_batch_leases_Inl [OF Pair [unfolded Inl]] assms(2) by (simp add: Pair get_command_def)
  next
    case (Inr as)
    note run = Pair [unfolded Inr]
    have "k \<notin> set cids"
    proof
      assume "k \<in> set cids"
      from assign_batch_leases_Inr [OF assms(1) run this] obtain d where "get_command k s = Some d" "ac_status d = Pending"
        by metis
      with assms(2,3) show False by simp
    qed
    then show ?thesis using assign_batch_leases_frame(1) [OF assms(1) run] assms(2) by (simp add: Pair)
  qed
qed

lemma rival_rely: "budget_rely E (rival E cids)"
  using lease_budget lease_keeps_waiting assign_batch_leases_evolves [OF surjective_pairing]
  by (simp add: budget_rely_def rival_def)

lemma all_commands_rows: "commands_wf s \<Longrightarrow> list_all ok (command_rows s) \<Longrightarrow> all_commands ok s"
  by (auto simp: all_commands_def list_all_iff command_rows_def get_command_def hm_values_get commands_wf_def)

text \<open>
  Why a single retry scheduler: its requeue names the command only, so a row that another node has
  leased, or dead-lettered, since the list was read becomes pending again, attempt and all.
\<close>

lemma requeue_ignores_status:
  assumes "get_command k s = Some c"
  shows "\<exists>d. get_command k (snd (update_command_status E (status_only k Pending) s)) = Some d \<and>
     ac_status d = Pending \<and> ac_current_attempt_id d = ac_current_attempt_id c"
  using assms
  by (auto simp: update_command_status_def update_command_status_inner_def status_only_def now_tick Let_def
      get_command_set_command split: option.splits if_splits)

text \<open>Two commands of one session, and the same ones leased as a batch, well after the lease ran out.\<close>

definition demo_second :: insert_command where
  "demo_second = (demo_input ''k2'')\<lparr>ic_message_id := ''m2''\<rparr>"

definition demo_two :: session_db where
  "demo_two = snd (insert_command demo_env demo_second demo_inserted)"

definition demo_leased_two :: session_db where
  "demo_leased_two = (snd (assign_batch_leases demo_env [''k'', ''k2''] ''node-1'' demo_two))\<lparr>clock_reads := 100\<rparr>"

lemma demo_two_wf: "commands_wf demo_two"
  unfolding demo_two_def by (rule evolves_wf [OF insert_command_evolves [OF surjective_pairing] demo_inserted_wf])

lemma demo_leased_two_wf: "commands_wf demo_leased_two"
proof -
  have "commands_wf (snd (assign_batch_leases demo_env [''k'', ''k2''] ''node-1'' demo_two))"
    by (rule evolves_wf [OF assign_batch_leases_evolves [OF surjective_pairing] demo_two_wf])
  then show ?thesis by (simp add: demo_leased_two_def commands_wf_def get_command_def)
qed

theorem attempts_never_exceed_max_witness:
  "all_commands within_budget (tk_db (snd (dispatch_round demo_env (rival demo_env [''k2'']) 50 ''node-1''
      \<lparr>tk_calls = 0, tk_db = demo_two\<rparr>))) \<and>
   map ac_status (command_rows (tk_db (snd (dispatch_round demo_env (rival demo_env [''k2'']) 50 ''node-1''
      \<lparr>tk_calls = 0, tk_db = demo_two\<rparr>)))) = [Pending, Leased]"
proof -
  have "list_all within_budget (command_rows demo_two)" by code_simp
  then have "all_commands within_budget (tk_db \<lparr>tk_calls = 0, tk_db = demo_two\<rparr>)"
    using all_commands_rows [OF demo_two_wf] by simp
  moreover have "commands_wf (tk_db \<lparr>tk_calls = 0, tk_db = demo_two\<rparr>)" using demo_two_wf by simp
  ultimately have "all_commands within_budget (tk_db (snd (dispatch_round demo_env (rival demo_env [''k2'']) 50 ''node-1''
      \<lparr>tk_calls = 0, tk_db = demo_two\<rparr>)))"
    using attempts_never_exceed_max [OF rival_rely] by blast
  then show ?thesis by (rule conjI) code_simp
qed

end
