(* ===== verification/Pipeline_Stranded.thy ===== *)
theory Pipeline_Stranded
  imports Pipeline_Props
begin

text \<open>
  The lease monitor: what one sweep takes back, and the lease it never takes back. A batch can hold
  several commands of one session; the monitor expires them one transaction at a time, and the
  first one already moves the session to the next epoch. When the monitor does not get to the
  others, they stay behind, and with them their agent.
\<close>

section \<open>Expired leases\<close>

lemma in_check_expired_leases:
  "x \<in> set (check_expired_leases nw timeout s) \<longleftrightarrow>
   (\<exists>c sr. c \<in> set (command_rows s) \<and> get_session (ac_session_key c) s = Some sr \<and> is_active (ac_status c) \<and>
      se_status sr = Active \<and> (case se_last_heartbeat_at sr of None \<Rightarrow> True | Some t \<Rightarrow> t < nw - secs timeout) \<and>
      x = \<lparr>el_session_key = se_session_key sr, el_command_id = ac_command_id c, el_epoch = se_epoch sr,
           el_attempt_count = ac_attempt_count c, el_max_attempts = ac_max_attempts c\<rparr>)"
proof -
  have eq: "x \<in> set (case r of None \<Rightarrow> [] | Some sr \<Rightarrow> if Q sr then [f sr] else []) \<longleftrightarrow> (\<exists>sr. r = Some sr \<and> Q sr \<and> x = f sr)"
    for r :: "session option" and Q f by (cases r) auto
  have con: "x \<in> set (concat (map f xs)) \<longleftrightarrow> (\<exists>c\<in>set xs. x \<in> set (f c))" for f and xs :: "agent_command list"
    by simp
  show ?thesis unfolding check_expired_leases_def Let_def con eq by blast
qed

section \<open>A lease that is never taken back\<close>

text \<open>
  A command is stranded when it still counts as running but its session has moved to a later epoch
  and is not active: the monitor of \<^verbatim>\<open>lease_monitor.rs\<close> only looks at active sessions and only
  accepts the session's epoch.
\<close>

definition stranded :: "string \<Rightarrow> string \<Rightarrow> session_db \<Rightarrow> bool" where
  "stranded k agent s \<longleftrightarrow> commands_wf s \<and>
     (\<exists>c se e. get_command k s = Some c \<and> ac_agent_id c = agent \<and> is_active (ac_status c) \<and>
        ac_current_epoch c = Some e \<and> get_session (ac_session_key c) s = Some se \<and>
        e < se_epoch se \<and> se_status se \<noteq> Active \<and>
        (\<forall>l d. get_command l s = Some d \<longrightarrow> ac_session_key d = ac_session_key c \<longrightarrow> ac_agent_id d = agent))"

definition undisturbed :: "(nat \<Rightarrow> call_fate) \<Rightarrow> schedule" where
  "undisturbed fate = \<lparr>sc_others = (\<lambda>n s. s), sc_fate = fate\<rparr>"

lemma undisturbed_others [simp]: "sc_others (undisturbed fate) n s = s"
  by (simp add: undisturbed_def)

text \<open>
  What keeps a command stranded: its row and the set of rows stay, and its session does not become active.
\<close>

definition calm :: "string \<Rightarrow> session_db \<Rightarrow> session_db \<Rightarrow> bool" where
  "calm k s t \<longleftrightarrow> get_command k t = get_command k s \<and>
     (\<forall>l. get_command l t = None \<longleftrightarrow> get_command l s = None) \<and>
     (\<forall>c se. get_command k s = Some c \<longrightarrow> get_session (ac_session_key c) s = Some se \<longrightarrow> se_status se \<noteq> Active \<longrightarrow>
        (\<exists>se'. get_session (ac_session_key c) t = Some se' \<and> se_status se' \<noteq> Active))"

lemma calm_refl: "calm k s s"
  by (simp add: calm_def)

lemma calm_frame:
  "calm k s t \<Longrightarrow> agent_commands u = agent_commands t \<Longrightarrow> session_registry u = session_registry t \<Longrightarrow> calm k s u"
  by (simp add: calm_def get_command_def get_session_def)

lemma calm_tick: "calm k s t \<Longrightarrow> calm k s (tick t)"
  by (erule calm_frame) (simp_all add: tick_def)

lemma calm_letter: "calm k s t \<Longrightarrow> calm k s (snd (insert_dead_letter_in_transaction E i nw t))"
  by (erule calm_frame) (simp_all add: insert_dead_letter_in_transaction_def new_id_def Let_def)

lemma calm_set_command: "calm k s t \<Longrightarrow> l \<noteq> k \<Longrightarrow> calm k s (set_command l f t)"
  by (simp add: calm_def get_command_set_command)

lemma calm_set_session:
  assumes "calm k s t" "\<And>se. se_status se \<noteq> Active \<Longrightarrow> se_status (f se) \<noteq> Active"
  shows "calm k s (set_session key f t)"
  using assms unfolding calm_def get_session_set_session get_command_set_session by fastforce

lemma calm_release: "calm k s t \<Longrightarrow> calm k s (release_session_if_no_active_commands key e nw t)"
  by (auto simp: release_session_if_no_active_commands_def intro: calm_set_session split: option.splits)

lemma calm_expire: "calm k s t \<Longrightarrow> calm k s (snd (expire_session key e nw t))"
  by (auto simp: expire_session_def intro: calm_set_session split: option.splits)

lemmas calm_intros = calm_refl calm_tick calm_letter calm_set_command calm_set_session calm_release calm_expire

lemma stranded_row:
  assumes "stranded k agent s"
  obtains c se e where "get_command k s = Some c" "ac_agent_id c = agent" "is_active (ac_status c)"
    "ac_current_epoch c = Some e" "get_session (ac_session_key c) s = Some se" "e < se_epoch se" "se_status se \<noteq> Active"
    "\<And>l d. get_command l s = Some d \<Longrightarrow> ac_session_key d = ac_session_key c \<Longrightarrow> ac_agent_id d = agent"
  using assms unfolding stranded_def by blast

lemma stranded_calm:
  assumes "stranded k agent s" "evolves E s t" "calm k s t"
  shows "stranded k agent t"
proof (rule stranded_row [OF assms(1)], goal_cases)
  case (1 c se e)
  obtain se' where se': "get_session (ac_session_key c) t = Some se'" "se_status se' \<noteq> Active"
    using assms(3) 1(1,5,7) unfolding calm_def by blast
  have epoch: "se_epoch se \<le> se_epoch se'"
    using assms(2) 1(5) se'(1) unfolding evolves_def by fastforce
  have agents: "ac_agent_id d = agent" if d: "get_command l t = Some d" "ac_session_key d = ac_session_key c" for l d
  proof -
    have "get_command l s \<noteq> None" using assms(3) d(1) unfolding calm_def by (metis option.distinct(1))
    then obtain d0 where d0: "get_command l s = Some d0" by blast
    with assms(2) obtain d' where "get_command l t = Some d'" "command_ident d' = command_ident d0"
      unfolding evolves_def by blast
    with d d0 1(8) show ?thesis by (auto simp: command_ident_def)
  qed
  have row: "get_command k t = Some c \<and> ac_agent_id c = agent \<and> is_active (ac_status c) \<and>
      ac_current_epoch c = Some e \<and> get_session (ac_session_key c) t = Some se' \<and> e < se_epoch se' \<and>
      se_status se' \<noteq> Active \<and>
      (\<forall>l d. get_command l t = Some d \<longrightarrow> ac_session_key d = ac_session_key c \<longrightarrow> ac_agent_id d = agent)"
    using 1(1-4,6) assms(3) se' epoch agents by (simp add: calm_def)
  have wf: "commands_wf t" using assms(1,2) by (auto simp: stranded_def intro: evolves_wf)
  show ?case unfolding stranded_def
    by (rule conjI [OF wf], rule exI [of _ c], rule exI [of _ se'], rule exI [of _ e], rule row)
qed

text \<open>Its attempt is fenced: it owns no epoch.\<close>

lemma stranded_fenced: "stranded k agent s \<Longrightarrow> get_command k s = Some c \<Longrightarrow> \<not> owns_attempt s c a"
  by (erule stranded_row) (auto simp: owns_attempt_def owns_epoch_def)

lemma owns_tick [simp]: "owns_attempt (tick s) c a = owns_attempt s c a"
  by (simp add: owns_epoch_def owns_attempt_def)

text \<open>The fenced calls leave it alone, the others are made for other commands.\<close>

lemma calm_mark:
  "stranded k agent s \<Longrightarrow> calm k s (snd (mark_command_succeeded_for_attempt E cid a s))"
  by (auto simp: mark_command_succeeded_for_attempt_def now_tick Let_def stranded_fenced
      intro!: calm_intros split: option.splits)

lemma calm_committed:
  "stranded k agent s \<Longrightarrow> calm k s (snd (mark_command_committed_for_attempt E cid a s))"
  by (auto simp: mark_command_committed_for_attempt_def now_tick Let_def stranded_fenced
      intro!: calm_intros split: option.splits)

lemma calm_dead_letter:
  "stranded k agent s \<Longrightarrow> calm k s (snd (dead_letter_command_for_attempt E dl a s))"
  by (auto simp: dead_letter_command_for_attempt_def now_tick Let_def stranded_fenced case_prod_unfold
      intro!: calm_intros split: option.splits)

lemma calm_update:
  assumes "stranded k agent s" "a = None \<Longrightarrow> cu_command_id u \<noteq> k"
  shows "calm k s (snd (update_command_status_inner E u a s))"
  using assms(2) stranded_fenced [OF assms(1)]
  by (auto simp: update_command_status_inner_def now_tick Let_def
      intro!: calm_intros split: option.splits if_splits)

lemma calm_heartbeat: "calm k s (snd (update_session_heartbeat_for_epoch E key e s))"
  by (auto simp: update_session_heartbeat_for_epoch_def now_tick Let_def intro!: calm_intros split: option.splits)

lemma calm_insert_letter: "calm k s (snd (insert_dead_letter E dl s))"
  by (auto simp: insert_dead_letter_def now_tick Let_def case_prod_unfold intro!: calm_intros)

lemma calm_expiry: "el_command_id x \<noteq> k \<Longrightarrow> calm k s (snd (handle_lease_expiry E x s))"
  by (auto simp: handle_lease_expiry_def now_tick Let_def case_prod_unfold
      intro!: calm_intros split: option.splits sum.splits)

lemma stranded_active:
  assumes "stranded k agent s" "c \<in> set (command_rows s)" "ac_command_id c = k"
  shows "is_active (ac_status c)"
proof -
  have "get_command k s = Some c"
    using assms command_row_get by (auto simp: stranded_def)
  with stranded_row [OF assms(1)] show ?thesis by (metis option.inject)
qed

lemma calm_stale_pending:
  assumes "stranded k agent s"
  shows "calm k s (snd (dead_letter_stale_pending_commands E age lim s))"
proof -
  have "calm k s (fold (\<lambda>c. set_command (ac_command_id c) f) cs u)"
    if "calm k s u" "\<forall>c\<in>set cs. ac_command_id c \<noteq> k" for cs u f
    using that by (induction cs arbitrary: u) (auto intro: calm_set_command)
  note fold = this
  show ?thesis
  proof (cases "lim < 0")
    case False
    have rows: "command_rows (tick s) = command_rows s" by (simp add: command_rows_def)
    have "snd (dead_letter_stale_pending_commands E age lim s) =
        fold (\<lambda>c. set_command (ac_command_id c) (\<lambda>c. c\<lparr>ac_status := DeadLettered, ac_last_error := Some ''TTL expired''\<rparr>))
          (take (nat lim) (sort_key ac_created_at (filter (\<lambda>c. ac_status c = Pending \<and>
             ac_created_at c < env_clock E (clock_reads s) - secs age) (command_rows s)))) (tick s)"
      using False by (simp add: dead_letter_stale_pending_commands_def now_tick Let_def sql_limit_def rows)
    also have "calm k s \<dots>"
      by (rule fold) (use stranded_active [OF assms] in \<open>fastforce intro!: calm_intros dest!: in_set_takeD\<close>)+
    finally show ?thesis .
  qed (simp add: dead_letter_stale_pending_commands_def now_tick Let_def sql_limit_def calm_intros)
qed

definition elsewhere :: "string \<Rightarrow> string list \<Rightarrow> session_db \<Rightarrow> bool" where
  "elsewhere k cids s \<longleftrightarrow> (\<exists>c. get_command k s = Some c \<and>
     (\<forall>cid\<in>set cids. \<exists>d. get_command cid s = Some d \<and> ac_session_key d \<noteq> ac_session_key c))"

lemma elsewhere_evolves:
  assumes "elsewhere k cids s" "evolves E s t"
  shows "elsewhere k cids t"
proof -
  have key: "\<exists>d'. get_command l t = Some d' \<and> ac_session_key d' = ac_session_key d" if "get_command l s = Some d" for l d
    using that assms(2) unfolding evolves_def by (fastforce simp: command_ident_def)
  from assms(1) obtain c where c: "get_command k s = Some c"
      "\<forall>cid\<in>set cids. \<exists>d. get_command cid s = Some d \<and> ac_session_key d \<noteq> ac_session_key c"
    unfolding elsewhere_def by blast
  from key [OF c(1)] obtain c' where c': "get_command k t = Some c'" "ac_session_key c' = ac_session_key c" by blast
  have "\<exists>d. get_command cid t = Some d \<and> ac_session_key d \<noteq> ac_session_key c'" if "cid \<in> set cids" for cid
    using c(2) that key c'(2) by metis
  with c'(1) show ?thesis unfolding elsewhere_def by blast
qed

lemma calm_lease:
  assumes "stranded k agent s" "elsewhere k cids s"
  shows "calm k s (snd (assign_batch_leases E cids node s))"
proof (cases "assign_batch_leases E cids node s")
  case (Pair r t)
  have wf: "commands_wf s" using assms(1) by (simp add: stranded_def)
  obtain c where c: "get_command k s = Some c"
      "\<forall>cid\<in>set cids. \<exists>d. get_command cid s = Some d \<and> ac_session_key d \<noteq> ac_session_key c"
    using assms(2) unfolding elsewhere_def by blast
  show ?thesis
  proof (cases r)
    case (Inl e)
    then show ?thesis using assign_batch_leases_Inl [OF Pair [unfolded Inl]]
      by (auto simp: Pair intro: calm_frame [OF calm_refl])
  next
    case (Inr as)
    note frame = assign_batch_leases_frame [OF wf Pair [unfolded Inr]]
    have "k \<notin> set cids" using c by auto
    moreover have "get_session (ac_session_key c) t = get_session (ac_session_key c) s"
      by (rule frame(2)) (use c(2) in force)
    moreover have "get_command l t = None \<longleftrightarrow> get_command l s = None" for l
    proof (cases "l \<in> set cids")
      case True
      then obtain d la where "get_command l s = Some d" "ac_command_id d = l" "leased_as t (env_clock E (clock_reads s)) d la"
        using assign_batch_leases_Inr [OF wf Pair [unfolded Inr]] by metis
      then show ?thesis by (auto simp: leased_as_def)
    qed (use frame(1) in simp)
    ultimately show ?thesis using c(1) frame(1) by (simp add: Pair calm_def)
  qed
qed

text \<open>It blocks its agent's queue, and the monitor does not list it.\<close>

lemma stranded_blocks:
  assumes "stranded k agent s"
  shows "\<exists>c\<in>set (command_rows s). ac_agent_id c = agent \<and> blocking (ac_status c)"
proof (rule stranded_row [OF assms], goal_cases)
  case (1 c se e)
  have "c \<in> set (command_rows s)"
    using 1(1) assms by (auto simp: command_rows_def get_command_def hm_values_get commands_wf_def stranded_def)
  with 1 show ?case by (auto simp: blocking_def)
qed

lemma stranded_not_expired:
  assumes "stranded k agent s" "x \<in> set (check_expired_leases nw timeout s)"
  shows "el_command_id x \<noteq> k"
proof
  assume x: "el_command_id x = k"
  from assms(2) obtain d sr where d: "d \<in> set (command_rows s)" "get_session (ac_session_key d) s = Some sr"
      "se_status sr = Active" "el_command_id x = ac_command_id d"
    by (auto simp: in_check_expired_leases)
  then have "get_command k s = Some d"
    using assms(1) x command_row_get by (auto simp: stranded_def)
  with d(2,3) show False using stranded_row [OF assms(1)] by (metis option.inject)
qed

interpretation strand: loop_invariant E "undisturbed fate" "stranded k agent"
  "elsewhere k" "\<lambda>x. el_command_id x \<noteq> k" "\<lambda>cid. cid \<noteq> k" "\<lambda>cid _. cid \<noteq> k"
proof
  fix s n
  assume inv: "stranded k agent s"
  note step = stranded_calm [OF inv]
  have wf: "commands_wf s" using inv by (simp add: stranded_def)
  show "stranded k agent (sc_others (undisturbed fate) n s)" using inv by simp
  show "evolves E s (sc_others (undisturbed fate) n s)" by simp
  show "stranded k agent (tick s)" by (rule step [OF evolves_now [OF now_tick]]) (intro calm_intros)
  show "stranded k agent (snd (mark_command_succeeded_for_attempt E cid a s))" for cid a
    by (rule step [OF mark_command_succeeded_evolves [OF surjective_pairing] calm_mark [OF inv]])
  show "stranded k agent (snd (update_command_status_for_attempt E u a s))" if "batch_update u" for u a
    unfolding update_command_status_for_attempt_def
    by (rule step [OF update_command_status_evolves [OF _ surjective_pairing] calm_update [OF inv]])
       (use that in \<open>simp_all add: batch_update_def\<close>)
  show "stranded k agent (snd (dead_letter_command_for_attempt E dl a s))" for dl a
    by (rule step [OF dead_letter_command_evolves [OF surjective_pairing] calm_dead_letter [OF inv]])
  show "stranded k agent (snd (update_session_heartbeat_for_epoch E key e s))" for key e
    by (rule step [OF update_session_heartbeat_evolves [OF surjective_pairing] calm_heartbeat])
  show "stranded k agent (snd (assign_batch_leases E cids node s))" if "elsewhere k cids s" for cids node
    by (rule step [OF assign_batch_leases_evolves [OF surjective_pairing] calm_lease [OF inv that]])
  show "stranded k agent (snd (handle_lease_expiry E x s))" if "el_command_id x \<noteq> k" for x
    by (rule step [OF handle_lease_expiry_evolves [OF surjective_pairing] calm_expiry [OF that]])
  show "stranded k agent (snd (update_command_status E ((status_only cid DeadLettered)\<lparr>cu_last_error := err\<rparr>) s))"
    if "cid \<noteq> k" for cid err
    unfolding update_command_status_def
    by (rule step [OF update_command_status_evolves [OF _ surjective_pairing] calm_update [OF inv]])
       (use that in \<open>simp_all add: status_only_def\<close>)
  show "stranded k agent (snd (update_command_status E (status_only cid Pending) s))" if "cid \<noteq> k" for cid
    unfolding update_command_status_def
    by (rule step [OF update_command_status_evolves [OF _ surjective_pairing] calm_update [OF inv]])
       (use that in \<open>simp_all add: status_only_def\<close>)
  show "stranded k agent (snd (insert_dead_letter E dl s))" for dl
    by (rule step [OF insert_dead_letter_evolves [OF surjective_pairing] calm_insert_letter])
  show "stranded k agent (snd (dead_letter_stale_pending_commands E age lim s))" for age lim
    by (rule step [OF dead_letter_stale_evolves [OF surjective_pairing] calm_stale_pending [OF inv]])
  show "distinct (map ac_command_id cs)" if "find_retriable_commands nw lim s = Inr cs" for nw lim cs
    by (rule find_retriable_distinct [OF wf that])
  obtain b where blocked: "b \<in> set (command_rows s)" "ac_agent_id b = agent" "blocking (ac_status b)"
    using stranded_blocks [OF inv] by blast
  obtain c where c: "get_command k s = Some c" "ac_agent_id c = agent"
    and agents: "\<And>l d. get_command l s = Some d \<Longrightarrow> ac_session_key d = ac_session_key c \<Longrightarrow> ac_agent_id d = agent"
    using stranded_row [OF inv] by (metis option.inject)
  show "ac_command_id d \<noteq> k" if "find_exhausted_retry_commands lim s = Inr cs" "d \<in> set cs" for lim cs d
    using that stranded_active [OF inv, of d]
    by (auto simp: find_exhausted_retry_commands_def sql_limit_def split: if_splits dest!: in_set_takeD)
  show "ac_command_id d \<noteq> k" if "find_retriable_commands nw lim s = Inr cs" "d \<in> set cs" for nw lim cs d
    using that stranded_active [OF inv, of d]
    by (auto simp: find_retriable_commands_def retry_due_def sql_limit_def split: if_splits dest!: in_set_takeD)
  show "elsewhere k (map ac_command_id members) s"
    if "find_pending_commands lim s = Inr cs" "set members \<subseteq> set cs" for lim cs members
  proof -
    have "\<exists>d'. get_command (ac_command_id d) s = Some d' \<and> ac_session_key d' \<noteq> ac_session_key c"
      if "d \<in> set members" for d
    proof -
      have d: "d \<in> set (command_rows s)"
          "\<not> list_ex (\<lambda>c2. ac_agent_id c2 = ac_agent_id d \<and> blocking (ac_status c2)) (command_rows s)"
        using find_pending_commands_sound [OF \<open>find_pending_commands lim s = Inr cs\<close>, of d] that
          \<open>set members \<subseteq> set cs\<close> by (auto simp: eligible_commands_def)
      have "ac_agent_id d \<noteq> agent"
        using d(2) blocked by (auto simp: list_ex_iff)
      then show ?thesis using agents command_row_get [OF wf d(1)] by blast
    qed
    then show ?thesis using c(1) by (auto simp: elsewhere_def)
  qed
  show "el_command_id x \<noteq> k" if "x \<in> set (check_expired_leases nw timeout s)" for nw timeout x
    by (rule stranded_not_expired [OF inv that])
qed (auto intro: elsewhere_evolves)


section \<open>Rounds\<close>

text \<open>
  The pipeline and its clients, one body at a time: the loops, running batches, the writer, new
  sessions and commands. A session belongs to one agent (its key names the agent).
\<close>

inductive pipeline_round :: "env \<Rightarrow> session_db \<Rightarrow> session_db \<Rightarrow> bool" for E where
  dispatch: "dispatch_round E (undisturbed fate) lim node \<lparr>tk_calls = 0, tk_db = s\<rparr> = (tasks, w) \<Longrightarrow>
    pipeline_round E s (tk_db w)"
| complete: "complete_batch E (undisturbed fate) task result \<lparr>tk_calls = 0, tk_db = s\<rparr> = (sent, w) \<Longrightarrow>
    pipeline_round E s (tk_db w)"
| heartbeat: "heartbeat_tick E (undisturbed fate) task hb \<lparr>tk_calls = 0, tk_db = s\<rparr> = (hb', w) \<Longrightarrow>
    pipeline_round E s (tk_db w)"
| monitor: "pipeline_round E s (tk_db (lease_monitor_sweep E (undisturbed fate) timeout \<lparr>tk_calls = 0, tk_db = s\<rparr>))"
| retry: "pipeline_round E s (tk_db (retry_cycle E (undisturbed fate) lim \<lparr>tk_calls = 0, tk_db = s\<rparr>))"
| committed: "pipeline_round E s (snd (mark_command_committed_for_attempt E cid a s))"
| session: "pipeline_round E s (snd (upsert_session E key agent conversation s))"
| arrive: "(\<And>l c. get_command l s = Some c \<Longrightarrow> ac_session_key c = ic_session_key input \<Longrightarrow>
      ac_agent_id c = ic_agent_id input) \<Longrightarrow> pipeline_round E s (snd (insert_command E input s))"

lemma calm_upsert: "calm k s (snd (upsert_session E key agent conversation s))"
  by (auto simp: calm_def upsert_session_def now_tick Let_def get_session_def get_command_def tick_def
      split: option.splits)

lemma stranded_arrive:
  assumes "stranded k agent s"
    and "\<And>l c. get_command l s = Some c \<Longrightarrow> ac_session_key c = ic_session_key input \<Longrightarrow> ac_agent_id c = ic_agent_id input"
  shows "stranded k agent (snd (insert_command E input s))"
proof (rule stranded_row [OF assms(1)], goal_cases)
  case (1 c se e)
  let ?t = "snd (insert_command E input s)"
  have ev: "evolves E s ?t" by (rule insert_command_evolves [OF surjective_pairing])
  have new: "get_command l ?t = get_command l s \<or>
      (l = ic_command_id input \<and> get_command l s = None \<and> (\<exists>d. get_command l ?t = Some d \<and>
         ac_session_key d = ic_session_key input \<and> ac_agent_id d = ic_agent_id input))" for l
    by (auto simp: insert_command_def now_tick Let_def command_of_input_def unique_violation_def get_command_def
        split: option.splits sum.splits if_splits)
  have sessions: "get_session key ?t = get_session key s" for key
    by (auto simp: insert_command_def now_tick Let_def get_session_def tick_def split: option.splits sum.splits)
  have agents: "ac_agent_id d = agent" if "get_command l ?t = Some d" "ac_session_key d = ac_session_key c" for l d
    using new [of l] that assms(2) [OF 1(1)] 1(2,8) by auto
  have row: "get_command k ?t = Some c \<and> ac_agent_id c = agent \<and> is_active (ac_status c) \<and>
      ac_current_epoch c = Some e \<and> get_session (ac_session_key c) ?t = Some se \<and> e < se_epoch se \<and>
      se_status se \<noteq> Active \<and>
      (\<forall>l d. get_command l ?t = Some d \<longrightarrow> ac_session_key d = ac_session_key c \<longrightarrow> ac_agent_id d = agent)"
    using 1(1-7) new [of k] agents by (simp add: sessions)
  have wf: "commands_wf ?t" using ev assms(1) by (auto simp: stranded_def intro: evolves_wf)
  show ?case unfolding stranded_def
    by (rule conjI [OF wf], rule exI [of _ c], rule exI [of _ se], rule exI [of _ e], rule row)
qed

lemma pipeline_round_stranded: "pipeline_round E s t \<Longrightarrow> stranded k agent s \<Longrightarrow> stranded k agent t"
proof (induction rule: pipeline_round.induct)
  case (dispatch fate lim node s tasks w)
  then show ?case using strand.dispatch_round_keeps by fastforce
next
  case (complete fate task result s sent w)
  then show ?case using strand.complete_batch_keeps by fastforce
next
  case (heartbeat fate task hb s hb' w)
  then show ?case using strand.heartbeat_tick_keeps by fastforce
next
  case (monitor s fate timeout)
  then show ?case by (intro strand.lease_monitor_sweep_keeps) simp
next
  case (retry s fate lim)
  then show ?case by (intro strand.retry_cycle_keeps) simp
next
  case (committed s cid a)
  show ?case
    by (rule stranded_calm [OF committed mark_command_committed_evolves [OF surjective_pairing] calm_committed [OF committed]])
next
  case (session s key agent' conversation)
  then show ?case by (rule stranded_calm [OF _ upsert_session_evolves [OF surjective_pairing] calm_upsert])
next
  case (arrive s input)
  then show ?case using stranded_arrive by blast
qed



text \<open>A body that nobody disturbs and whose calls all succeed.\<close>

abbreviation alone :: schedule where
  "alone \<equiv> undisturbed (\<lambda>_. Answered)"

lemma store_call_alone [simp]:
  "store_call alone op w = (fst (op (tk_db w)), \<lparr>tk_calls = Suc (tk_calls w), tk_db = snd (op (tk_db w))\<rparr>)"
  by (simp add: store_call_def undisturbed_def Let_def case_prod_unfold)

lemma store_query_alone [simp]:
  "store_query alone q w = (q (tk_db w), \<lparr>tk_calls = Suc (tk_calls w), tk_db = tk_db w\<rparr>)"
  by (simp add: store_query_def)

text \<open>The monitor dies after it expired the first member of a batch of two.\<close>

definition demo_crash :: "nat \<Rightarrow> call_fate" where
  "demo_crash n = (if n < 2 then Answered else Unreached)"

definition demo_stranded :: session_db where
  "demo_stranded = tk_db (lease_monitor_sweep demo_env (undisturbed demo_crash) 60 \<lparr>tk_calls = 0, tk_db = demo_leased_two\<rparr>)"

lemma undisturbed_interferes: "interferes E (undisturbed fate)"
  by (simp add: interferes_def)

lemma demo_stranded_stranded: "stranded ''k2'' ''a'' demo_stranded"
proof -
  have "reached demo_env (undisturbed demo_crash) demo_leased_two demo_leased_two"
    using demo_leased_two_wf undisturbed_interferes by (simp add: reached_def)
  then have wf: "commands_wf demo_stranded"
    unfolding demo_stranded_def by (intro reached_wf [OF reach.lease_monitor_sweep_keeps]) simp
  have "map_option (\<lambda>c. (ac_agent_id c, is_active (ac_status c), ac_current_epoch c, ac_session_key c))
      (get_command ''k2'' demo_stranded) = Some (''a'', True, Some 1, ''a:c'')" by code_simp
  then obtain c where c: "get_command ''k2'' demo_stranded = Some c" "ac_agent_id c = ''a''" "is_active (ac_status c)"
      "ac_current_epoch c = Some 1" "ac_session_key c = ''a:c''" by auto
  have "map_option (\<lambda>se. (se_epoch se, se_status se)) (get_session ''a:c'' demo_stranded) = Some (2, Idle)" by code_simp
  then obtain se where se: "get_session ''a:c'' demo_stranded = Some se" "se_epoch se = 2" "se_status se = Idle" by auto
  have "list_all (\<lambda>d. ac_agent_id d = ''a'') (command_rows demo_stranded)" by code_simp
  then have "all_commands (\<lambda>d. ac_agent_id d = ''a'') demo_stranded" by (rule all_commands_rows [OF wf])
  then have row: "get_command ''k2'' demo_stranded = Some c \<and> ac_agent_id c = ''a'' \<and> is_active (ac_status c) \<and>
      ac_current_epoch c = Some 1 \<and> get_session (ac_session_key c) demo_stranded = Some se \<and> 1 < se_epoch se \<and>
      se_status se \<noteq> Active \<and> (\<forall>l d. get_command l demo_stranded = Some d \<longrightarrow>
        ac_session_key d = ac_session_key c \<longrightarrow> ac_agent_id d = ''a'')"
    using c se by (simp add: all_commands_def)
  show ?thesis unfolding stranded_def
    by (rule conjI [OF wf], rule exI [of _ c], rule exI [of _ se], rule exI [of _ 1], rule row)
qed


section \<open>What a sweep takes back\<close>

text \<open>The row an expiry leaves.\<close>

definition expired_row :: "timestamp \<Rightarrow> agent_command \<Rightarrow> agent_command" where
  "expired_row nw c =
     (if is_exhausted (ac_attempt_count c) (ac_max_attempts c)
      then c\<lparr>ac_status := DeadLettered, ac_next_retry_at := None, ac_current_attempt_id := None,
             ac_last_error := Some ''max attempts exceeded after lease expiry'', ac_updated_at := nw\<rparr>
      else c\<lparr>ac_status := RetryScheduled, ac_next_retry_at := Some (next_retry_at nw (ac_attempt_count c)),
             ac_current_attempt_id := None, ac_last_error := Some ''lease expired'', ac_updated_at := nw\<rparr>)"

lemma expire_session_simps [simp]:
  "get_command l (snd (expire_session key e nw s)) = get_command l s"
  "dead_letters (snd (expire_session key e nw s)) = dead_letters s"
  by (simp_all add: expire_session_def set_session_def get_command_def split: option.splits)

lemma expire_session_ok: "e \<noteq> INT4_MAX \<Longrightarrow> fst (expire_session key e nw s) = Inr ()"
  by (simp add: expire_session_def split: option.splits)

lemma dead_letters_insert [simp]:
  "set (dead_letters (snd (insert_dead_letter_in_transaction E i nw s))) =
     insert (fst (insert_dead_letter_in_transaction E i nw s)) (set (dead_letters s))"
  "dl_source_id (fst (insert_dead_letter_in_transaction E i nw s)) = id_source_id i"
  by (auto simp: insert_dead_letter_in_transaction_def new_id_def Let_def)

lemma get_command_letter [simp]:
  "get_command l (snd (insert_dead_letter_in_transaction E i nw s)) = get_command l s"
  by (simp add: get_command_def)

lemma dead_letters_set [simp]:
  "dead_letters (set_command k f s) = dead_letters s" "dead_letters (set_session k g s) = dead_letters s"
  "dead_letters (tick s) = dead_letters s"
  by (simp_all add: set_command_def set_session_def tick_def)

lemma handle_lease_expiry_other:
  "el_command_id x \<noteq> k \<Longrightarrow> get_command k (snd (handle_lease_expiry E x s)) = get_command k s"
  "set (dead_letters s) \<subseteq> set (dead_letters (snd (handle_lease_expiry E x s)))"
  by (auto simp: handle_lease_expiry_def now_tick Let_def case_prod_unfold get_command_set_command
      split: option.splits sum.splits)

lemma handle_lease_expiry_takes:
  assumes "get_command (el_command_id x) s = Some c" "is_active (ac_status c)"
    and "ac_current_epoch c = Some (el_epoch x)" "el_epoch x \<noteq> INT4_MAX"
  shows "get_command (el_command_id x) (snd (handle_lease_expiry E x s)) =
      Some (expired_row (env_clock E (clock_reads s)) c)"
    and "is_exhausted (ac_attempt_count c) (ac_max_attempts c) \<Longrightarrow>
      \<exists>d\<in>set (dead_letters (snd (handle_lease_expiry E x s))). dl_source_id d = el_command_id x"
  using assms expire_session_ok [OF assms(4), of "ac_session_key c" "env_clock E (clock_reads s)" "tick s"]
  by (auto simp: handle_lease_expiry_def now_tick Let_def case_prod_unfold get_command_set_command expired_row_def
      split: sum.splits)

lemma expire_each_other:
  "k \<notin> el_command_id ` set xs \<Longrightarrow> get_command k (tk_db (expire_each E alone xs w)) = get_command k (tk_db w)"
  by (induction xs arbitrary: w) (simp_all add: handle_lease_expiry_other(1) [OF not_sym])

lemma expire_each_letters: "set (dead_letters (tk_db w)) \<subseteq> set (dead_letters (tk_db (expire_each E alone xs w)))"
proof (induction xs arbitrary: w)
  case (Cons x xs)
  show ?case
    using Cons [of "\<lparr>tk_calls = Suc (tk_calls w), tk_db = snd (handle_lease_expiry E x (tk_db w))\<rparr>"]
      handle_lease_expiry_other(2) [of "tk_db w" E x] by auto
qed simp

lemma expire_each_takes:
  assumes "distinct (map el_command_id xs)" "x \<in> set xs" "get_command (el_command_id x) (tk_db w) = Some c"
    and "is_active (ac_status c)" "ac_current_epoch c = Some (el_epoch x)" "el_epoch x \<noteq> INT4_MAX"
  shows "\<exists>nw. get_command (el_command_id x) (tk_db (expire_each E alone xs w)) = Some (expired_row nw c) \<and>
     (is_exhausted (ac_attempt_count c) (ac_max_attempts c) \<longrightarrow>
        (\<exists>d\<in>set (dead_letters (tk_db (expire_each E alone xs w))). dl_source_id d = el_command_id x))"
  using assms(1-3)
proof (induction xs arbitrary: w)
  case (Cons y xs)
  let ?u = "\<lparr>tk_calls = Suc (tk_calls w), tk_db = snd (handle_lease_expiry E y (tk_db w))\<rparr>"
  show ?case
  proof (cases "x = y")
    case True
    then have "el_command_id x \<notin> el_command_id ` set xs" using Cons.prems(1) by simp
    with expire_each_other [of "el_command_id x" xs E ?u] expire_each_letters [of ?u E xs] True show ?thesis
      using handle_lease_expiry_takes [OF Cons.prems(3) assms(4-6), of E] by fastforce
  next
    case False
    then have "el_command_id y \<noteq> el_command_id x" using Cons.prems(1,2) by (auto simp: image_iff)
    with False Cons.prems Cons.IH [of ?u] show ?thesis by (simp add: handle_lease_expiry_other(1))
  qed
qed simp

lemma check_expired_distinct:
  assumes "commands_wf s"
  shows "distinct (map el_command_id (check_expired_leases nw timeout s))"
proof -
  let ?f = "\<lambda>c. case get_session (ac_session_key c) s of
      None \<Rightarrow> [] | Some sr \<Rightarrow> if is_active (ac_status c) \<and> se_status sr = Active \<and>
        (case se_last_heartbeat_at sr of None \<Rightarrow> True | Some t \<Rightarrow> t < nw - secs timeout)
      then [\<lparr>el_session_key = se_session_key sr, el_command_id = ac_command_id c, el_epoch = se_epoch sr,
             el_attempt_count = ac_attempt_count c, el_max_attempts = ac_max_attempts c\<rparr>] else []"
  have "distinct (map el_command_id (concat (map ?f cs))) \<and>
      set (map el_command_id (concat (map ?f cs))) \<subseteq> set (map ac_command_id cs)"
    if "distinct (map ac_command_id cs)" for cs
    using that by (induction cs) (auto split: option.splits)
  moreover have "distinct (map ac_command_id (command_rows s))"
    using assms by (simp add: command_rows_ids commands_wf_def hm_wf_def)
  ultimately show ?thesis unfolding check_expired_leases_def Let_def by blast
qed

text \<open>
  C38: a sweep takes expired leases back. Every command that is leased or running under its
  session's current epoch while the session's heartbeat is older than the timeout (or missing) is
  rescheduled with its backoff, or dead-lettered when its attempts are used up, by one undisturbed
  sweep, and its attempt is fenced.
\<close>

theorem lease_sweep_recovers:
  assumes "commands_wf (tk_db w)" "get_command k (tk_db w) = Some c" "is_active (ac_status c)"
    and "get_session (ac_session_key c) (tk_db w) = Some sr" "se_status sr = Active"
    and "ac_current_epoch c = Some (se_epoch sr)" "se_epoch sr < INT4_MAX"
    and "case se_last_heartbeat_at sr of None \<Rightarrow> True
         | Some t \<Rightarrow> t < env_clock E (clock_reads (tk_db w)) - secs timeout"
  shows "\<exists>nw. get_command k (tk_db (lease_monitor_sweep E alone timeout w)) = Some (expired_row nw c) \<and>
     (is_exhausted (ac_attempt_count c) (ac_max_attempts c) \<longrightarrow>
        (\<exists>d\<in>set (dead_letters (tk_db (lease_monitor_sweep E alone timeout w))). dl_source_id d = k))"
proof -
  let ?nw = "env_clock E (clock_reads (tk_db w))"
  let ?s = "tick (tk_db w)"
  let ?x = "\<lparr>el_session_key = se_session_key sr, el_command_id = ac_command_id c, el_epoch = se_epoch sr,
             el_attempt_count = ac_attempt_count c, el_max_attempts = ac_max_attempts c\<rparr>"
  have c: "c \<in> set (command_rows ?s)" "ac_command_id c = k"
    using assms(1,2)
    by (auto simp: command_rows_def get_command_def hm_values_get commands_wf_def)
  have x: "?x \<in> set (check_expired_leases ?nw timeout ?s)"
    unfolding in_check_expired_leases using c(1) assms(3-5,8) by auto
  have "lease_monitor_sweep E alone timeout w =
      expire_each E alone (check_expired_leases ?nw timeout ?s) \<lparr>tk_calls = Suc (tk_calls w), tk_db = ?s\<rparr>"
    by (simp add: lease_monitor_sweep_def task_now_def now_tick Let_def)
  then show ?thesis
    using expire_each_takes [OF check_expired_distinct x, of "\<lparr>tk_calls = Suc (tk_calls w), tk_db = ?s\<rparr>" c E]
      assms(1-3,6,7) c(2) by simp
qed

theorem lease_sweep_recovers_witness:
  "\<exists>nw c. get_command ''k2'' demo_leased_two = Some c \<and>
     get_command ''k2'' (tk_db (lease_monitor_sweep demo_env alone 60 \<lparr>tk_calls = 0, tk_db = demo_leased_two\<rparr>)) =
       Some (expired_row nw c)"
proof -
  have "map_option (\<lambda>c. (is_active (ac_status c), ac_current_epoch c, ac_session_key c))
      (get_command ''k2'' demo_leased_two) = Some (True, Some 1, ''a:c'')" by code_simp
  then obtain c where c: "get_command ''k2'' demo_leased_two = Some c" "is_active (ac_status c)"
      "ac_current_epoch c = Some 1" "ac_session_key c = ''a:c''" by auto
  have "map_option (\<lambda>se. (se_epoch se, se_status se, se_last_heartbeat_at se)) (get_session ''a:c'' demo_leased_two) =
      Some (1, Active, Some (secs 3))" by code_simp
  then obtain sr where sr: "get_session ''a:c'' demo_leased_two = Some sr" "se_epoch sr = 1" "se_status sr = Active"
      "se_last_heartbeat_at sr = Some (secs 3)" by auto
  have "secs 3 < env_clock demo_env (clock_reads demo_leased_two) - secs 60" by code_simp
  then have "\<exists>nw. get_command ''k2'' (tk_db (lease_monitor_sweep demo_env alone 60
      \<lparr>tk_calls = 0, tk_db = demo_leased_two\<rparr>)) = Some (expired_row nw c)"
    using lease_sweep_recovers [of "\<lparr>tk_calls = 0, tk_db = demo_leased_two\<rparr>" "''k2''" c sr demo_env 60]
      c sr demo_leased_two_wf by (auto simp: INT4_MAX_def)
  with c(1) show ?thesis by blast
qed

end
