(* ===== verification/Pipeline_Settle.thy ===== *)
theory Pipeline_Settle
  imports Pipeline_Stranded
begin

text \<open>
  From the lease of a batch to its settlement: every command of a dispatched batch is marked
  succeeded, scheduled for a retry or dead-lettered when the executor returns, and one result goes
  to the writer; the heartbeats of the batch keep the monitor away while it runs.
\<close>

section \<open>Holding a lease\<close>

definition holds_lease :: "session_db \<Rightarrow> agent_command \<Rightarrow> bool" where
  "holds_lease s c \<longleftrightarrow>
     (\<exists>row a. get_command (ac_command_id c) s = Some row \<and> ac_current_attempt_id c = Some a \<and>
        owns_attempt s row a \<and> is_active (ac_status row))"

text \<open>A transaction that changes one command, and no session's epoch.\<close>

definition touches_only :: "string \<Rightarrow> session_db \<Rightarrow> session_db \<Rightarrow> bool" where
  "touches_only cid s t \<longleftrightarrow> (\<forall>l. l \<noteq> cid \<longrightarrow> get_command l t = get_command l s) \<and>
     (\<forall>key. map_option se_epoch (get_session key t) = map_option se_epoch (get_session key s)) \<and>
     set (dead_letters s) \<subseteq> set (dead_letters t)"

lemma owns_attempt_epochs:
  "(\<And>key. map_option se_epoch (get_session key t) = map_option se_epoch (get_session key s)) \<Longrightarrow>
     owns_attempt t c a = owns_attempt s c a"
proof -
  assume eq: "\<And>key. map_option se_epoch (get_session key t) = map_option se_epoch (get_session key s)"
  have own: "owns_epoch u c \<longleftrightarrow> (\<exists>e. map_option se_epoch (get_session (ac_session_key c) u) = Some e \<and>
      ac_current_epoch c = Some e)" for u
    by (auto simp: owns_epoch_def split: option.splits)
  show ?thesis by (simp only: owns_attempt_def own eq)
qed

lemma holds_lease_other: "touches_only cid s t \<Longrightarrow> ac_command_id c \<noteq> cid \<Longrightarrow> holds_lease s c \<Longrightarrow> holds_lease t c"
  unfolding holds_lease_def touches_only_def using owns_attempt_epochs [of t s] by metis

lemma touches_only_refl: "touches_only cid s s"
  by (simp add: touches_only_def)

lemma touches_only_tick: "touches_only cid s t \<Longrightarrow> touches_only cid s (tick t)"
  by (simp add: touches_only_def)

lemma touches_only_set_command: "touches_only cid s t \<Longrightarrow> touches_only cid s (set_command cid f t)"
  by (simp add: touches_only_def get_command_set_command)

lemma touches_only_set_session:
  "touches_only cid s t \<Longrightarrow> (\<And>se. se_epoch (f se) = se_epoch se) \<Longrightarrow> touches_only cid s (set_session key f t)"
  by (simp add: touches_only_def get_session_set_session option.map_comp comp_def)

lemma touches_only_release: "touches_only cid s t \<Longrightarrow> touches_only cid s (release_session_if_no_active_commands key e nw t)"
  by (auto simp: release_session_if_no_active_commands_def intro: touches_only_set_session split: option.splits)

lemma touches_only_letter: "touches_only cid s t \<Longrightarrow> touches_only cid s (snd (insert_dead_letter_in_transaction E i nw t))"
  by (auto simp: touches_only_def get_session_def insert_dead_letter_in_transaction_def new_id_def Let_def get_command_def)

lemmas touches_only_intros = touches_only_refl touches_only_tick touches_only_set_command touches_only_set_session
  touches_only_release touches_only_letter

section \<open>Settling a member\<close>

definition failure_text :: "agent_result \<Rightarrow> string" where
  "failure_text result = (case ar_error result of Some e \<Rightarrow> e | None \<Rightarrow> ''agent execution failed'')"

text \<open>What a member of a batch has become.\<close>

definition settled :: "agent_result \<Rightarrow> session_db \<Rightarrow> agent_command \<Rightarrow> bool" where
  "settled result s c \<longleftrightarrow>
     (\<exists>row. get_command (ac_command_id c) s = Some row \<and>
        (if ar_status result = ResultSucceeded then ac_status row = Succeeded
         else if should_retry_failed_command c (is_auto_retriable_error (ar_error result))
         then ac_status row = RetryScheduled \<and>
              (\<exists>nw. ac_next_retry_at row = Some (next_retry_at nw (ac_attempt_count c)))
         else ac_status row = DeadLettered \<and> ac_last_error row = Some (failure_text result) \<and>
              (\<exists>d\<in>set (dead_letters s). dl_source_id d = ac_command_id c \<and> dl_error d = failure_text result)))"

lemma settled_not_active:
  "settled result s c \<Longrightarrow> get_command (ac_command_id c) s = Some row \<Longrightarrow> \<not> is_active (ac_status row)"
  by (auto simp: settled_def split: if_splits)

lemma settled_frame:
  "settled result s c \<Longrightarrow> get_command (ac_command_id c) t = get_command (ac_command_id c) s \<Longrightarrow>
     set (dead_letters s) \<subseteq> set (dead_letters t) \<Longrightarrow> settled result t c"
  by (auto simp: settled_def split: if_splits)

lemma mark_settles:
  assumes "holds_lease s c" "ac_current_attempt_id c = Some a" "ar_status result = ResultSucceeded"
  shows "\<exists>t. mark_command_succeeded_for_attempt E (ac_command_id c) a s = (Inr (), t) \<and>
     touches_only (ac_command_id c) s t \<and> settled result t c"
  using assms
  by (auto simp: holds_lease_def mark_command_succeeded_for_attempt_def now_tick Let_def settled_def
      get_command_set_command intro!: touches_only_intros)

lemma retry_settles:
  assumes "holds_lease s c" "ac_current_attempt_id c = Some a" "ar_status result \<noteq> ResultSucceeded"
    and "should_retry_failed_command c (is_auto_retriable_error (ar_error result))"
  shows "\<exists>t. update_command_status_for_attempt E
       ((status_only (ac_command_id c) RetryScheduled)
          \<lparr>cu_last_error := ar_error result, cu_next_retry_at := Some (Some (next_retry_at nw (ac_attempt_count c)))\<rparr>) a s =
       (Inr (), t) \<and> touches_only (ac_command_id c) s t \<and> settled result t c"
  using assms
  by (auto simp: holds_lease_def update_command_status_for_attempt_def update_command_status_inner_def status_only_def
      now_tick Let_def settled_def get_command_set_command intro!: touches_only_intros)

lemma letter_settles:
  assumes "holds_lease s c" "ac_current_attempt_id c = Some a" "ar_status result \<noteq> ResultSucceeded"
    and "\<not> should_retry_failed_command c (is_auto_retriable_error (ar_error result))"
  shows "\<exists>d t. dead_letter_command_for_attempt E (failed_dead_letter result c) a s = (Inr d, t) \<and>
     touches_only (ac_command_id c) s t \<and> settled result t c"
proof -
  let ?i = "failed_dead_letter result c"
  from assms(1,2) obtain row where row: "get_command (ac_command_id c) s = Some row" "owns_attempt s row a"
    unfolding holds_lease_def by auto
  let ?nw = "env_clock E (clock_reads s)"
  let ?u = "release_session_if_no_active_commands (ac_session_key row) (ac_current_epoch row) ?nw
      (set_command (ac_command_id c) (\<lambda>c. c\<lparr>ac_status := DeadLettered, ac_next_retry_at := None,
         ac_current_attempt_id := None, ac_last_error := Some (failure_text result), ac_updated_at := ?nw\<rparr>) (tick s))"
  let ?r = "insert_dead_letter_in_transaction E ?i ?nw ?u"
  have i: "id_source_id ?i = ac_command_id c" "id_error ?i = failure_text result"
    by (simp_all add: failed_dead_letter_def failure_text_def Let_def)
  have run: "dead_letter_command_for_attempt E ?i a s = (Inr (fst ?r), snd ?r)"
    using row by (simp add: dead_letter_command_for_attempt_def i now_tick Let_def case_prod_unfold)
  have "dl_source_id (fst ?r) = ac_command_id c" "dl_error (fst ?r) = failure_text result"
      "fst ?r \<in> set (dead_letters (snd ?r))"
    using i by (simp_all add: insert_dead_letter_in_transaction_def new_id_def Let_def)
  then have "settled result (snd ?r) c"
    using row assms(3,4) by (auto simp: settled_def get_command_set_command)
  moreover have "touches_only (ac_command_id c) s (snd ?r)" by (intro touches_only_intros)
  ultimately show ?thesis using run by blast
qed

section \<open>Settling a batch\<close>

text \<open>
  What the completion relies on: the other tasks take no lease of the batch away while it is held
  (they may send its heartbeats), leave its settled rows alone and delete no dead letters.
\<close>

definition lets_finish :: "agent_command list \<Rightarrow> schedule \<Rightarrow> bool" where
  "lets_finish cs S \<longleftrightarrow> (\<forall>n. sc_fate S n = Answered) \<and>
     (\<forall>n s. set (dead_letters s) \<subseteq> set (dead_letters (sc_others S n s)) \<and>
        (\<forall>c\<in>set cs. (holds_lease s c \<longrightarrow> holds_lease (sc_others S n s) c) \<and>
           (\<forall>row. get_command (ac_command_id c) s = Some row \<longrightarrow> \<not> is_active (ac_status row) \<longrightarrow>
              get_command (ac_command_id c) (sc_others S n s) = Some row)))"

lemma lets_finish_settled:
  assumes "lets_finish cs S" "c \<in> set cs" "settled result s c"
  shows "settled result (sc_others S n s) c"
proof -
  obtain row where row: "get_command (ac_command_id c) s = Some row" using assms(3) by (auto simp: settled_def)
  then have "get_command (ac_command_id c) (sc_others S n s) = Some row"
    using assms(1,2) settled_not_active [OF assms(3) row] unfolding lets_finish_def by blast
  with row assms(1) show ?thesis
    by (intro settled_frame [OF assms(3)]) (simp_all add: lets_finish_def)
qed

lemma store_call_answered:
  "sc_fate S (tk_calls w) = Answered \<Longrightarrow> op (sc_others S (tk_calls w) (tk_db w)) = (r, t) \<Longrightarrow>
     store_call S op w = (r, \<lparr>tk_calls = Suc (tk_calls w), tk_db = t\<rparr>)"
  by (simp add: store_call_def Let_def)

text \<open>The state of a batch half way: some members settled, the others still holding their lease.\<close>

definition halfway :: "agent_result \<Rightarrow> agent_command list \<Rightarrow> agent_command list \<Rightarrow> session_db \<Rightarrow> bool" where
  "halfway result finished rest s \<longleftrightarrow> list_all (settled result s) finished \<and> list_all (holds_lease s) rest"

lemma halfway_others:
  assumes "lets_finish cs S" "set finished \<union> set rest \<subseteq> set cs" "halfway result finished rest s"
  shows "halfway result finished rest (sc_others S n s)"
  using assms lets_finish_settled [OF assms(1)] unfolding halfway_def list_all_iff lets_finish_def by blast

lemma halfway_step:
  assumes "halfway result finished (c # rest) s" "touches_only (ac_command_id c) s t" "settled result t c"
    and "ac_command_id c \<notin> ac_command_id ` (set finished \<union> set rest)"
  shows "halfway result (finished @ [c]) rest t"
proof -
  have "settled result t d" if "d \<in> set finished" for d
  proof (rule settled_frame)
    have "ac_command_id d \<noteq> ac_command_id c" using assms(4) that by (metis UnI1 imageI)
    then show "get_command (ac_command_id d) t = get_command (ac_command_id d) s" "set (dead_letters s) \<subseteq> set (dead_letters t)"
      using assms(2) by (simp_all add: touches_only_def)
    show "settled result s d" using assms(1) that by (simp add: halfway_def list_all_iff)
  qed
  moreover have "holds_lease t d" if "d \<in> set rest" for d
  proof (rule holds_lease_other [OF assms(2)])
    show "ac_command_id d \<noteq> ac_command_id c" using assms(4) that by (metis UnI2 imageI)
    show "holds_lease s d" using assms(1) that by (simp add: halfway_def list_all_iff)
  qed
  ultimately show ?thesis using assms(3) by (simp add: halfway_def list_all_iff)
qed

lemma finish_succeeded_settles:
  assumes "lets_finish cs S" "ar_status result = ResultSucceeded"
  shows "set finished \<union> set rest \<subseteq> set cs \<Longrightarrow> distinct (map ac_command_id (finished @ rest)) \<Longrightarrow>
     halfway result finished rest (tk_db w) \<Longrightarrow>
     \<exists>w'. finish_succeeded E S p rest w =
            (Some (map (\<lambda>c. \<lparr>car_command_id = ac_command_id c, car_attempt_id = the (ac_current_attempt_id c)\<rparr>)
                     (filter (\<lambda>c. ac_command_id c \<noteq> p) rest)), w') \<and>
          halfway result (finished @ rest) [] (tk_db w')"
proof (induction rest arbitrary: finished w)
  case (Cons c rest)
  let ?s = "sc_others S (tk_calls w) (tk_db w)"
  have half: "halfway result finished (c # rest) ?s" using halfway_others [OF assms(1) Cons.prems(1,3)] .
  then obtain a where a: "ac_current_attempt_id c = Some a" "holds_lease ?s c"
    by (auto simp: halfway_def holds_lease_def)
  obtain t where t: "mark_command_succeeded_for_attempt E (ac_command_id c) a ?s = (Inr (), t)"
      "touches_only (ac_command_id c) ?s t" "settled result t c"
    using mark_settles [OF a(2,1) assms(2)] by blast
  let ?w = "\<lparr>tk_calls = Suc (tk_calls w), tk_db = t\<rparr>"
  have call: "store_call S (mark_command_succeeded_for_attempt E (ac_command_id c) a) w = (Inr (), ?w)"
    by (rule store_call_answered) (use assms(1) t(1) in \<open>simp_all add: lets_finish_def\<close>)
  have "halfway result (finished @ [c]) rest (tk_db ?w)"
    using halfway_step [OF half t(2,3)] Cons.prems(2) by auto
  then obtain w' where "finish_succeeded E S p rest ?w =
      (Some (map (\<lambda>c. \<lparr>car_command_id = ac_command_id c, car_attempt_id = the (ac_current_attempt_id c)\<rparr>)
                     (filter (\<lambda>c. ac_command_id c \<noteq> p) rest)), w')"
      "halfway result ((finished @ [c]) @ rest) [] (tk_db w')"
    using Cons.IH [of "finished @ [c]" ?w] Cons.prems(1,2) by auto
  then show ?case using a(1) call by simp
qed simp

lemma halfway_tick: "halfway result finished rest s \<Longrightarrow> halfway result finished rest (tick s)"
  by (auto simp: halfway_def list_all_iff holds_lease_def intro: settled_frame)

lemma finish_failed_member_settles:
  assumes "lets_finish cs S" "ar_status result \<noteq> ResultSucceeded"
    and "set finished \<union> set (c # rest) \<subseteq> set cs" "distinct (map ac_command_id (finished @ c # rest))"
    and "halfway result finished (c # rest) (tk_db w)" "ac_current_attempt_id c = Some a"
  shows "\<exists>w'. finish_failed_member E S result c a w = (Inr (), w') \<and> halfway result (finished @ [c]) rest (tk_db w')"
proof -
  have step: "halfway result (finished @ [c]) rest t"
    if "halfway result finished (c # rest) s" "touches_only (ac_command_id c) s t" "settled result t c" for s t
    using halfway_step [OF that] assms(4) by auto
  have fate: "sc_fate S n = Answered" for n using assms(1) by (simp add: lets_finish_def)
  show ?thesis
  proof (cases "should_retry_failed_command c (is_auto_retriable_error (ar_error result))")
    case True
    let ?nw = "env_clock E (clock_reads (tk_db w))"
    let ?u = "w\<lparr>tk_db := tick (tk_db w)\<rparr>"
    let ?s = "sc_others S (tk_calls ?u) (tk_db ?u)"
    have half: "halfway result finished (c # rest) ?s"
      by (rule halfway_others [OF assms(1,3)]) (use halfway_tick [OF assms(5)] in simp)
    then have "holds_lease ?s c" by (simp add: halfway_def)
    from retry_settles [OF this assms(6,2) True, of E ?nw] obtain t where
      t: "update_command_status_for_attempt E ((status_only (ac_command_id c) RetryScheduled)
            \<lparr>cu_last_error := ar_error result, cu_next_retry_at := Some (Some (next_retry_at ?nw (ac_attempt_count c)))\<rparr>) a ?s =
          (Inr (), t)" "touches_only (ac_command_id c) ?s t" "settled result t c" by blast
    have "finish_failed_member E S result c a w = (Inr (), \<lparr>tk_calls = Suc (tk_calls w), tk_db = t\<rparr>)"
      using True t(1) by (simp add: finish_failed_member_def task_now_def now_tick store_call_def fate)
    with step [OF half t(2,3)] show ?thesis by simp
  next
    case False
    let ?s = "sc_others S (tk_calls w) (tk_db w)"
    have half: "halfway result finished (c # rest) ?s" by (rule halfway_others [OF assms(1,3,5)])
    then have "holds_lease ?s c" by (simp add: halfway_def)
    from letter_settles [OF this assms(6,2) False, of E] obtain d t where
      t: "dead_letter_command_for_attempt E (failed_dead_letter result c) a ?s = (Inr d, t)"
        "touches_only (ac_command_id c) ?s t" "settled result t c" by blast
    have "finish_failed_member E S result c a w = (Inr (), \<lparr>tk_calls = Suc (tk_calls w), tk_db = t\<rparr>)"
      using False t(1) by (simp add: finish_failed_member_def store_call_def fate)
    with step [OF half t(2,3)] show ?thesis by simp
  qed
qed

lemma finish_failed_settles:
  assumes "lets_finish cs S" "ar_status result \<noteq> ResultSucceeded"
  shows "set finished \<union> set rest \<subseteq> set cs \<Longrightarrow> distinct (map ac_command_id (finished @ rest)) \<Longrightarrow>
     halfway result finished rest (tk_db w) \<Longrightarrow>
     \<exists>w'. finish_failed E S result p rest w = (True, w') \<and> halfway result (finished @ rest) [] (tk_db w')"
proof (induction rest arbitrary: finished w)
  case (Cons c rest)
  from Cons.prems(3) obtain a where a: "ac_current_attempt_id c = Some a"
    by (auto simp: halfway_def holds_lease_def)
  obtain u where u: "finish_failed_member E S result c a w = (Inr (), u)" "halfway result (finished @ [c]) rest (tk_db u)"
    using finish_failed_member_settles [OF assms Cons.prems a] by blast
  then have "\<exists>w'. finish_failed E S result p rest u = (True, w') \<and> halfway result ((finished @ [c]) @ rest) [] (tk_db w')"
    using Cons.prems(1,2) by (intro Cons.IH) auto
  with a u(1) show ?case by simp
qed simp

section \<open>From lease to settlement\<close>

text \<open>The result that goes to the writer: the secondaries it may commit.\<close>

definition secondaries :: "batch_task \<Rightarrow> command_attempt_ref list" where
  "secondaries task =
     map (\<lambda>c. \<lparr>car_command_id = ac_command_id c, car_attempt_id = the (ac_current_attempt_id c)\<rparr>)
       (filter (\<lambda>c. ac_command_id c \<noteq> bt_primary_id task) (bt_group task))"

lemma complete_batch_settles:
  assumes "lets_finish (bt_group task) S" "distinct (map ac_command_id (bt_group task))"
    and "bt_primary_id task \<in> ac_command_id ` set (bt_group task)" "\<forall>c\<in>set (bt_group task). holds_lease (tk_db w) c"
  shows "\<exists>w'. complete_batch E S task result w =
       (Some (if ar_status result = ResultSucceeded
              then result\<lparr>ar_secondary_command_attempts := secondaries task\<rparr> else result), w') \<and>
     (\<forall>c\<in>set (bt_group task). settled result (tk_db w') c)"
proof -
  let ?p = "bt_primary_id task" and ?g = "bt_group task"
  from assms(3) obtain c where find: "find (\<lambda>c. ac_command_id c = ?p) ?g = Some c"
    by (cases "find (\<lambda>c. ac_command_id c = ?p) ?g") (auto simp: find_None_iff)
  then have c: "c \<in> set ?g" "ac_command_id c = ?p" by (auto simp: find_Some_iff)
  have og: "ordered_group task = c # filter (\<lambda>c. ac_command_id c \<noteq> ?p) ?g" by (simp add: ordered_group_def find)
  have set_og: "set (ordered_group task) = set ?g"
  proof -
    have "d = c" if "d \<in> set ?g" "ac_command_id d = ?p" for d
      using assms(2) that c by (auto simp: distinct_map inj_on_def)
    then show ?thesis using c(1) by (auto simp: og)
  qed
  have dist: "distinct (map ac_command_id (ordered_group task))"
    using assms(2) c(2) by (auto simp: og distinct_map inj_on_def)
  have half: "halfway result [] (ordered_group task) (tk_db w)"
    using assms(4) by (simp add: halfway_def list_all_iff set_og)
  show ?thesis
  proof (cases "ar_status result = ResultSucceeded")
    case True
    have "filter (\<lambda>c. ac_command_id c \<noteq> ?p) (ordered_group task) = filter (\<lambda>c. ac_command_id c \<noteq> ?p) ?g"
      by (simp add: og c(2))
    with finish_succeeded_settles [OF assms(1) True, of "[]" "ordered_group task" w E ?p] dist half set_og
    obtain w' where "finish_succeeded E S ?p (ordered_group task) w = (Some (secondaries task), w')"
        "halfway result (ordered_group task) [] (tk_db w')"
      by (auto simp: secondaries_def)
    with True set_og show ?thesis by (simp add: complete_batch_def halfway_def list_all_iff)
  next
    case False
    with finish_failed_settles [OF assms(1) False, of "[]" "ordered_group task" w E ?p] dist half set_og
    obtain w' where "finish_failed E S result ?p (ordered_group task) w = (True, w')"
        "halfway result (ordered_group task) [] (tk_db w')" by auto
    with False set_og show ?thesis by (simp add: complete_batch_def halfway_def list_all_iff)
  qed
qed

text \<open>A spawned batch holds every lease it was given.\<close>

lemma those_map_Some: "those (map f xs) = Some ys \<longleftrightarrow> map f xs = map Some ys"
  by (induction xs arbitrary: ys) (auto split: option.splits simp: Cons_eq_map_conv map_eq_Cons_conv)

lemma those_zip:
  assumes "those (map f xs) = Some ys"
  shows "length ys = length xs" "p \<in> set (zip xs ys) \<Longrightarrow> f (fst p) = Some (snd p)"
proof -
  from assms have eq: "map f xs = map Some ys" by (simp add: those_map_Some)
  from arg_cong [OF eq, of length] show "length ys = length xs" by simp
  assume "p \<in> set (zip xs ys)"
  then obtain i where i: "i < length xs" "i < length ys" "p = (xs ! i, ys ! i)" by (auto simp: set_zip)
  from arg_cong [OF eq, of "\<lambda>zs. zs ! i"] i show "f (fst p) = Some (snd p)" by simp
qed

lemma leased_batch_holds:
  assumes "commands_wf s" "assign_batch_leases E (map ac_command_id members) node s = (Inr leases, t)"
    and "those (map (\<lambda>c. hm_get leases (ac_command_id c)) members) = Some assignments"
  shows "\<forall>c\<in>set (map with_lease (zip members assignments)). holds_lease t c"
proof
  fix c assume "c \<in> set (map with_lease (zip members assignments))"
  then obtain m la where m: "(m, la) \<in> set (zip members assignments)" "c = with_lease (m, la)" by auto
  then have la: "hm_get leases (ac_command_id m) = Some la" using those_zip(2) [OF assms(3) m(1)] by simp
  have "ac_command_id m \<in> set (map ac_command_id members)" using m(1) by (auto dest: set_zip_leftD)
  from assign_batch_leases_Inr [OF assms(1,2) this] la obtain d se where
    "ac_command_id d = ac_command_id m" "leased_as t (env_clock E (clock_reads s)) d la"
    "get_session (ac_session_key d) t = Some se" "se_epoch se = la_epoch la" by (metis option.inject)
  then show "holds_lease t c"
    by (auto simp: holds_lease_def m(2) with_lease_def leased_as_def lease_command_def owns_attempt_def owns_epoch_def)
qed

lemma started_holds:
  assumes "holds_lease s c" "update_command_status_for_attempt E (status_only cid Started) a s = (r, t)"
  shows "holds_lease t c"
proof (cases "ac_command_id c = cid")
  case False
  have "touches_only cid s t"
    using assms(2)
    by (auto simp: update_command_status_for_attempt_def update_command_status_inner_def now_tick Let_def status_only_def
        split: option.splits if_splits intro!: touches_only_intros)
  from holds_lease_other [OF this False assms(1)] show ?thesis .
next
  case True
  obtain row b where row: "get_command cid s = Some row" "ac_current_attempt_id c = Some b" "owns_attempt s row b"
      "is_active (ac_status row)"
    using assms(1) True unfolding holds_lease_def by blast
  have "get_command cid t = Some row \<or> (\<exists>nw. get_command cid t = Some (row\<lparr>ac_status := Started, ac_updated_at := nw\<rparr>))"
    using assms(2) row(1)
    by (auto simp: update_command_status_for_attempt_def update_command_status_inner_def now_tick Let_def status_only_def
        get_command_set_command split: option.splits if_splits)
  moreover have "session_registry t = session_registry s"
    using assms(2)
    by (auto simp: update_command_status_for_attempt_def update_command_status_inner_def now_tick Let_def status_only_def
        set_command_def tick_def split: option.splits if_splits)
  ultimately obtain row' where "get_command cid t = Some row'" "owns_attempt t row' b" "is_active (ac_status row')"
    using row(3,4) by (auto simp: owns_attempt_def owns_epoch_def get_session_def split: option.splits)
  then show ?thesis using row(2) True by (auto simp: holds_lease_def)
qed

text \<open>What a spawned batch looks like.\<close>

lemma dispatch_group_Some:
  assumes "dispatch_group E S node members w = (Some task, w1)" "members \<noteq> []"
  obtains leases assignments s t r where
    "assign_batch_leases E (map ac_command_id members) node s = (Inr leases, t)"
    "s = sc_others S (tk_calls w) (tk_db w)"
    "those (map (\<lambda>c. hm_get leases (ac_command_id c)) members) = Some assignments"
    "bt_group task = map with_lease (zip members assignments)" "bt_primary_id task = ac_command_id (hd members)"
    "update_command_status_for_attempt E (status_only (ac_command_id (hd members)) Started) (la_attempt_id (hd assignments))
       (sc_others S (Suc (tk_calls w)) t) = (r, tk_db w1)"
proof -
  have call: "op (sc_others S (tk_calls v) (tk_db v)) = (Inr x, tk_db v') \<and> tk_calls v' = Suc (tk_calls v)"
    if "store_call S op v = (Inr x, v')" for op :: "session_db \<Rightarrow> 'x session_result \<times> session_db" and v v' x
    using that by (auto simp: store_call_def Let_def split: call_fate.splits prod.splits)
  from assms(1) obtain leases u assignments v sessions where
    c1: "store_call S (assign_batch_leases E (map ac_command_id members) node) w = (Inr leases, u)"
    and th: "those (map (\<lambda>c. hm_get leases (ac_command_id c)) members) = Some assignments"
    and c2: "store_call S (update_command_status_for_attempt E (status_only (ac_command_id (hd members)) Started)
        (la_attempt_id (hd assignments))) u = (Inr v, w1)"
    and task: "bt_group task = map with_lease (zip members assignments)" "bt_primary_id task = ac_command_id (hd members)"
    by (auto simp: dispatch_group_def Let_def split: prod.splits sum.splits option.splits)
  show thesis
    by (rule that [OF _ refl th task]) (use call [OF c1] call [OF c2] in auto)
qed

text \<open>
  The branches for an omitted command and for conflicting epochs are never taken: a granted batch
  names every member, and members of one session get its one epoch.
\<close>

lemma collect_heartbeat_sessions_Some:
  assumes "\<forall>(c, la)\<in>set ps. la_epoch la = ep (ac_session_key c)" "\<forall>k e. hm_get sessions k = Some e \<longrightarrow> e = ep k"
  shows "\<exists>sessions'. collect_heartbeat_sessions ps sessions = Some sessions'"
  using assms
proof (induction ps arbitrary: sessions)
  case (Cons p ps)
  obtain c la where p: "p = (c, la)" by (cases p)
  with Cons show ?case by (auto split: option.splits)
qed simp

lemma granted_batch_complete:
  assumes "commands_wf s" "assign_batch_leases E (map ac_command_id members) node s = (Inr leases, t)"
    and "\<forall>c\<in>set members. get_command (ac_command_id c) s = Some c"
  obtains assignments sessions where
    "those (map (\<lambda>c. hm_get leases (ac_command_id c)) members) = Some assignments"
    "collect_heartbeat_sessions (zip members assignments) [] = Some sessions"
proof -
  let ?f = "\<lambda>c. hm_get leases (ac_command_id c)"
  have lease: "\<exists>la se. ?f c = Some la \<and> get_session (ac_session_key c) t = Some se \<and> la_epoch la = se_epoch se"
    if "c \<in> set members" for c
  proof -
    have "ac_command_id c \<in> set (map ac_command_id members)" using that by simp
    from assign_batch_leases_Inr [OF assms(1,2) this] assms(3) that show ?thesis by (metis option.inject)
  qed
  then have "map ?f members = map Some (map (the \<circ> ?f) members)" by fastforce
  then obtain as where as: "those (map ?f members) = Some as" by (metis those_map_Some)
  have "\<forall>(c, la)\<in>set (zip members as). la_epoch la = se_epoch (the (get_session (ac_session_key c) t))"
  proof (clarify)
    fix c la assume "(c, la) \<in> set (zip members as)"
    then have "?f c = Some la" "c \<in> set members" using those_zip(2) [OF as] by (auto dest: set_zip_leftD)
    with lease show "la_epoch la = se_epoch (the (get_session (ac_session_key c) t))" by fastforce
  qed
  from collect_heartbeat_sessions_Some [OF this, of "[]"] as that show thesis by auto
qed

lemma holder_starts:
  assumes "holds_lease s c" "ac_current_attempt_id c = Some a"
  shows "fst (update_command_status_for_attempt E (status_only (ac_command_id c) Started) a s) = Inr ()"
  using assms
  by (auto simp: holds_lease_def update_command_status_for_attempt_def update_command_status_inner_def status_only_def
      now_tick Let_def)

lemma dispatch_group_spawns:
  assumes "commands_wf s" "s = sc_others S (tk_calls w) (tk_db w)" "members \<noteq> []"
    and "assign_batch_leases E (map ac_command_id members) node s = (Inr leases, t)"
    and "\<forall>c\<in>set members. get_command (ac_command_id c) s = Some c"
    and "\<And>cs. lets_finish cs S"
  shows "\<exists>task w1. dispatch_group E S node members w = (Some task, w1)"
proof (rule granted_batch_complete [OF assms(1,4,5)], goal_cases)
  case (1 as sessions)
  have fate: "sc_fate S n = Answered" for n using assms(6) by (simp add: lets_finish_def)
  let ?g = "map with_lease (zip members as)"
  obtain m ms la las where m: "members = m # ms" "as = la # las"
    using assms(3) those_zip(1) [OF 1(1)] by (cases members; cases as) auto
  have "\<forall>c\<in>set ?g. holds_lease (sc_others S (Suc (tk_calls w)) t) c"
    using leased_batch_holds [OF assms(1,4) 1(1)] assms(6) [of ?g] unfolding lets_finish_def by blast
  then have "holds_lease (sc_others S (Suc (tk_calls w)) t) (with_lease (m, la))" by (simp add: m)
  from holder_starts [OF this, of "la_attempt_id la"]
  have "fst (update_command_status_for_attempt E (status_only (ac_command_id m) Started) (la_attempt_id la)
      (sc_others S (Suc (tk_calls w)) t)) = Inr ()" by (simp add: with_lease_def)
  then show ?case
    using assms(4) 1 by (simp add: dispatch_group_def store_call_def fate case_prod_unfold Let_def m flip: assms(2))
qed


section \<open>Heartbeats\<close>

definition alive :: "string \<Rightarrow> int \<Rightarrow> session_db \<Rightarrow> bool" where
  "alive key e s \<longleftrightarrow> (\<exists>se. get_session key s = Some se \<and> se_epoch se = e \<and> se_status se = Active)"

definition refreshed :: "timestamp \<Rightarrow> string \<Rightarrow> int \<Rightarrow> session_db \<Rightarrow> bool" where
  "refreshed h key e s \<longleftrightarrow> (\<exists>se t. get_session key s = Some se \<and> se_epoch se = e \<and> se_status se = Active \<and>
     se_last_heartbeat_at se = Some t \<and> h \<le> t)"

lemma heartbeat_session_frame:
  "l \<noteq> key \<Longrightarrow> get_session l (snd (update_session_heartbeat_for_epoch E key e s)) = get_session l s"
  "clock_reads (snd (update_session_heartbeat_for_epoch E key e s)) = Suc (clock_reads s)"
  by (auto simp: update_session_heartbeat_for_epoch_def now_tick Let_def get_session_set_session split: option.splits)
     (simp_all add: set_session_def tick_def)

lemma heartbeat_session_refreshes:
  "alive key e s \<Longrightarrow> fst (update_session_heartbeat_for_epoch E key e s) = Inr () \<and>
     refreshed (env_clock E (clock_reads s)) key e (snd (update_session_heartbeat_for_epoch E key e s))"
  by (auto simp: alive_def refreshed_def update_session_heartbeat_for_epoch_def now_tick Let_def get_session_set_session)

lemma heartbeat_each_keys: "heartbeat_each E S ps w = (ks, w') \<Longrightarrow> set ks \<subseteq> fst ` set ps"
proof (induction ps arbitrary: w ks)
  case (Cons p ps)
  obtain key e where p: "p = (key, e)" by (cases p)
  show ?case using Cons p by (fastforce simp: Let_def split: prod.splits sum.splits if_splits)
qed simp

lemma heartbeat_each_frame:
  "heartbeat_each E alone ps w = (ks, w') \<Longrightarrow> key \<notin> fst ` set ps \<Longrightarrow>
     get_session key (tk_db w') = get_session key (tk_db w)"
proof (induction ps arbitrary: w ks)
  case (Cons p ps)
  obtain k e where p: "p = (k, e)" by (cases p)
  obtain ks' where "heartbeat_each E alone ps
      \<lparr>tk_calls = Suc (tk_calls w), tk_db = snd (update_session_heartbeat_for_epoch E k e (tk_db w))\<rparr> = (ks', w')"
    using Cons.prems(1) by (auto simp: p Let_def split: prod.splits)
  with Cons.IH Cons.prems(2) p show ?case using heartbeat_session_frame(1) [of key k E e "tk_db w"] by force
qed simp

text \<open>A session the batch still owns is refreshed and stays in the batch's heartbeat.\<close>

lemma heartbeat_each_refreshes:
  assumes "mono (env_clock E)"
  shows "heartbeat_each E alone ps w = (ks, w') \<Longrightarrow> distinct (map fst ps) \<Longrightarrow> (key, e) \<in> set ps \<Longrightarrow>
     alive key e (tk_db w) \<Longrightarrow>
     key \<notin> set ks \<and> refreshed (env_clock E (clock_reads (tk_db w))) key e (tk_db w')"
proof (induction ps arbitrary: w ks)
  case (Cons p ps)
  obtain k f where p: "p = (k, f)" by (cases p)
  let ?op = "update_session_heartbeat_for_epoch E k f (tk_db w)"
  let ?u = "\<lparr>tk_calls = Suc (tk_calls w), tk_db = snd ?op\<rparr>"
  obtain ks' where rest: "heartbeat_each E alone ps ?u = (ks', w')"
    and ks: "ks = (case fst ?op of Inl x \<Rightarrow> if superseding x then k # ks' else ks' | Inr _ \<Rightarrow> ks')"
    using Cons.prems(1) by (auto simp: p Let_def split: prod.splits)
  show ?case
  proof (cases "k = key")
    case True
    have new: "key \<notin> fst ` set ps" using Cons.prems(2) p True by auto
    have "(key, e) = (k, f)" using Cons.prems(3) new p by (auto intro: rev_image_eqI)
    then have "fst ?op = Inr ()" "refreshed (env_clock E (clock_reads (tk_db w))) key e (snd ?op)"
      using heartbeat_session_refreshes Cons.prems(4) by auto
    with heartbeat_each_frame [OF rest new] heartbeat_each_keys [OF rest] new ks show ?thesis
      by (auto simp: refreshed_def)
  next
    case False
    have "alive key e (tk_db ?u)"
      using Cons.prems(4) heartbeat_session_frame(1) [of key k E f "tk_db w"] False by (simp add: alive_def)
    with Cons.IH [OF rest] Cons.prems(2,3) p False
    have "key \<notin> set ks'" "refreshed (env_clock E (Suc (clock_reads (tk_db w)))) key e (tk_db w')"
      by (auto simp: heartbeat_session_frame(2))
    moreover have "env_clock E (clock_reads (tk_db w)) \<le> env_clock E (Suc (clock_reads (tk_db w)))"
      using assms by (simp add: mono_def)
    ultimately show ?thesis using ks False by (auto simp: refreshed_def split: sum.splits)
  qed
qed simp

lemma status_only_sessions:
  "st \<notin> {RetryScheduled, DeadLettered, Committed} \<Longrightarrow>
     get_session key (snd (update_command_status_for_attempt E (status_only cid st) a s)) = get_session key s"
  by (auto simp: update_command_status_for_attempt_def update_command_status_inner_def status_only_def now_tick Let_def
      split: option.splits if_splits)

lemma hm_remove_keeps: "key \<notin> set ks \<Longrightarrow> hm_wf m \<Longrightarrow> hm_get (fold hm_remove ks m) key = hm_get m key"
  by (induction ks arbitrary: m) auto

text \<open>A refreshed session's commands are not listed before its timeout has passed.\<close>

lemma refreshed_not_expired:
  assumes "commands_wf s" "refreshed h key e s" "nw \<le> h + secs timeout"
    and "get_command k s = Some c" "ac_session_key c = key"
  shows "k \<notin> el_command_id ` set (check_expired_leases nw timeout s)"
proof
  assume "k \<in> el_command_id ` set (check_expired_leases nw timeout s)"
  then obtain d sr where d: "d \<in> set (command_rows s)" "ac_command_id d = k"
      "get_session (ac_session_key d) s = Some sr"
      "case se_last_heartbeat_at sr of None \<Rightarrow> True | Some t \<Rightarrow> t < nw - secs timeout"
    by (auto simp: in_check_expired_leases)
  then have "d = c" using command_row_get [OF assms(1) d(1)] assms(4) by simp
  with d(3,4) assms(2,3,5) show False by (auto simp: refreshed_def)
qed


section \<open>A run\<close>

text \<open>The batch of two, dispatched while its session's heartbeat goes on, whose executor times out.\<close>

definition demo_beats :: schedule where
  "demo_beats = \<lparr>sc_others = (\<lambda>n s. snd (update_session_heartbeat_for_epoch demo_env ''a:c'' 1 s)), sc_fate = (\<lambda>n. Answered)\<rparr>"

definition demo_members :: "agent_command list" where
  "demo_members = command_rows demo_two"

definition demo_dispatch :: "batch_task option \<times> task_state" where
  "demo_dispatch = dispatch_group demo_env demo_beats ''node-1'' demo_members \<lparr>tk_calls = 0, tk_db = demo_two\<rparr>"

definition demo_timeout :: "string + turn_output" where
  "demo_timeout = Inl ''CLI timeout [kind=timeout]''"

lemma heartbeat_commands:
  "get_command l (snd (update_session_heartbeat_for_epoch E key e s)) = get_command l s"
  "dead_letters (snd (update_session_heartbeat_for_epoch E key e s)) = dead_letters s"
  by (auto simp: update_session_heartbeat_for_epoch_def now_tick Let_def split: option.splits)

lemma heartbeat_lets_finish:
  "lets_finish cs \<lparr>sc_others = (\<lambda>n s. snd (update_session_heartbeat_for_epoch E key e s)), sc_fate = (\<lambda>n. Answered)\<rparr>"
proof -
  let ?t = "\<lambda>s. snd (update_session_heartbeat_for_epoch E key e s)"
  have "map_option se_epoch (get_session k (?t s)) = map_option se_epoch (get_session k s)" for k s
    by (auto simp: update_session_heartbeat_for_epoch_def now_tick Let_def get_session_set_session split: option.splits)
  then have "owns_attempt (?t s) c a = owns_attempt s c a" for s c a by (rule owns_attempt_epochs)
  then show ?thesis by (simp add: lets_finish_def holds_lease_def heartbeat_commands)
qed

lemma demo_dispatch_spawns: "\<exists>task w1. demo_dispatch = (Some task, w1)"
proof -
  let ?s = "snd (update_session_heartbeat_for_epoch demo_env ''a:c'' 1 demo_two)"
  let ?run = "assign_batch_leases demo_env (map ac_command_id demo_members) ''node-1'' ?s"
  have wf: "commands_wf ?s" by (rule evolves_wf [OF update_session_heartbeat_evolves [OF surjective_pairing] demo_two_wf])
  have "isl (fst ?run) = False" by code_simp
  then obtain leases where "fst ?run = Inr leases" by (cases "fst ?run") auto
  then have run: "?run = (Inr leases, snd ?run)" by (simp add: prod_eq_iff)
  have some: "demo_members \<noteq> []" by code_simp
  have rows: "\<forall>c\<in>set demo_members. get_command (ac_command_id c) ?s = Some c"
    using command_row_get [OF demo_two_wf] by (simp add: demo_members_def heartbeat_commands)
  have s: "?s = sc_others demo_beats (tk_calls \<lparr>tk_calls = 0, tk_db = demo_two\<rparr>) (tk_db \<lparr>tk_calls = 0, tk_db = demo_two\<rparr>)"
    by (simp add: demo_beats_def)
  show ?thesis unfolding demo_dispatch_def
    by (rule dispatch_group_spawns [OF wf s some run rows])
       (simp only: demo_beats_def heartbeat_lets_finish)
qed



end
