(* ===== verification/Board_State.thy ===== *)
theory Board_State
  imports Pg_Directory Event_Store Chat_State
begin

text \<open>
  The channel task board of \<^verbatim>\<open>crates/choruz-application/src/db_service/group_workflow_tasks.rs\<close>, part
  one: the tables it reads and writes, transactions, the checks on requests, the redaction of event
  payloads, the status an event stands for, and the membership joins.
  A transaction is one atomic function of the tables; on error its writes are undone and only the
  identifiers it drew stay drawn. \<^verbatim>\<open>NOW()\<close> is the time at which the transaction began.
\<close>

section \<open>Requests and rows\<close>

datatype 'a nullable_patch = Unchanged | Clear | SetTo 'a

record create_channel_task_request =
  cq_task_key :: "string option"
  cq_title :: string
  cq_assignee_principal_id :: "string option"
  cq_status :: "channel_task_status option"
  cq_context_label :: "string option"
  cq_idempotency_key :: string

record create_channel_task_from_message_request =
  fm_message_id :: string
  fm_title :: string
  fm_assignee_principal_id :: string
  fm_context_label :: "string option"
  fm_idempotency_key :: "string option"

record patch_channel_task_request =
  pr_status :: "channel_task_status option"
  pr_assignee_principal_id :: "string option"
  pr_blocked_reason :: "string nullable_patch"
  pr_context_label :: "string nullable_patch"

record workflow_task_participant_input =
  pi_principal_id :: string
  pi_role_key :: string
  pi_responsibility :: "string option"
  pi_required :: bool

record create_group_workflow_task_request =
  gc_task_key :: string
  gc_title :: string
  gc_assignee_principal_id :: string
  gc_source_message_id :: "string option"
  gc_participants :: "workflow_task_participant_input list"

record update_group_workflow_task_request =
  gu_title :: "string option"
  gu_status :: "string option"
  gu_assignee_principal_id :: "string option"
  gu_participants :: "workflow_task_participant_input list option"

text \<open>The request's \<^verbatim>\<open>actor_principal_id\<close> is read by no function here and left out.\<close>

record append_group_workflow_event_request =
  aq_kind :: string
  aq_task_key :: "string option"
  aq_source_message_id :: "string option"
  aq_payload :: json

record task_row =
  gt_id :: string
  gt_conversation_id :: string
  gt_task_key :: string
  gt_title :: string
  gt_status :: string
  gt_assignee_principal_id :: string
  gt_blocked_reason :: "string option"
  gt_source_kind :: string
  gt_context_label :: "string option"
  gt_idempotency_key :: "string option"
  gt_idempotency_payload_hash :: "string option"
  gt_version :: int
  gt_source_message_id :: "string option"
  gt_created_by :: "string option"
  gt_created_at :: timestamp
  gt_updated_at :: timestamp

record participant_row =
  gp_id :: string
  gp_task_id :: string
  gp_principal_id :: string
  gp_role_key :: string
  gp_responsibility :: "string option"
  gp_required :: bool

record workflow_event_row =
  ge_id :: string
  ge_conversation_id :: string
  ge_task_id :: "string option"
  ge_source_message_id :: "string option"
  ge_actor_principal_id :: "string option"
  ge_kind :: string
  ge_payload :: json
  ge_resulting_version :: "int option"
  ge_created_at :: timestamp

text \<open>
  The tables: principals, conversations, their members and policies and companies are only read
  here; the conversation log of the event store receives the announcements.
\<close>

record board_db = event_db +
  bd_principals :: "(string, pg_principal) hash_map"
  bd_conversations :: "(string, pg_conversation) hash_map"
  bd_members :: "pg_member list"
  bd_policies :: "(string, pg_conversation_policy) hash_map"
  bd_company_members :: "(string \<times> string) list"
  bd_companies :: "(string, timestamp option) hash_map"
  gw_tasks :: "task_row list"
  gw_participants :: "participant_row list"
  gw_events :: "workflow_event_row list"
  gw_sequence :: "(string, int) hash_map"

definition log_of :: "board_db \<Rightarrow> event_db" where
  "log_of s = event_db.truncate s"

lemma log_of_simps [simp]: "conversation_events (log_of s) = conversation_events s" "event_outbox (log_of s) = event_outbox s"
  by (simp_all add: log_of_def event_db.truncate_def)

type_synonym 'a board_op = "(board_db, app_error, 'a) st_exec"

record board_env = env +
  be_json_text :: "json \<Rightarrow> string option"
  be_sha256_hex :: "string \<Rightarrow> string"
  be_time_text :: "timestamp \<Rightarrow> string"

definition transact :: "board_env \<Rightarrow> (timestamp \<Rightarrow> 'a board_op) \<Rightarrow> 'a board_op" where
  "transact E body s =
     (let (nw, s0) = now E s
      in case body nw s0 of
           (Ret x, t) \<Rightarrow> (Ret x, t)
         | (Fail e, t) \<Rightarrow> (Fail e, s0\<lparr>ids_drawn := ids_drawn t\<rparr>)
         | (Panic m, t) \<Rightarrow> (Panic m, s0\<lparr>ids_drawn := ids_drawn t\<rparr>))"

text \<open>An error that the caller looks at.\<close>

definition st_try :: "('s, 'e, 'a) st_exec \<Rightarrow> ('s, 'e, 'e + 'a) st_exec" where
  "st_try m s =
     (case m s of (Ret x, t) \<Rightarrow> (Ret (Inr x), t) | (Fail e, t) \<Rightarrow> (Ret (Inl e), t) | (Panic p, t) \<Rightarrow> (Panic p, t))"

definition db_error :: "string \<Rightarrow> app_error" where
  "db_error context = Internal (context @ '': db error'')"

section \<open>Checks on requests\<close>

definition validate_required_text :: "string \<Rightarrow> string \<Rightarrow> unit app_result" where
  "validate_required_text field v = (if trim v = [] then Inl (Validation (field @ '' is required'')) else Inr ())"

definition validate_optional_text :: "string \<Rightarrow> string option \<Rightarrow> unit app_result" where
  "validate_optional_text field v = (case v of None \<Rightarrow> Inr () | Some t \<Rightarrow> validate_required_text field t)"

definition validate_task_key :: "string \<Rightarrow> unit app_result" where
  "validate_task_key task_key =
     (case validate_required_text ''task_key'' task_key of
        Inl e \<Rightarrow> Inl e
      | Inr _ \<Rightarrow> if length task_key > 128 then Inl (Validation ''task_key is too long'') else Inr ())"

definition validate_meaningful_title :: "string \<Rightarrow> unit app_result" where
  "validate_meaningful_title title =
     (case validate_required_text ''title'' title of
        Inl e \<Rightarrow> Inl e
      | Inr _ \<Rightarrow>
          if list_ex is_ascii_alphanumeric title then Inr ()
          else Inl (Validation ''title must include at least one letter or number''))"

definition VALID_TASK_STATUSES :: "string list" where
  "VALID_TASK_STATUSES = [''todo'', ''in_progress'', ''blocked'', ''in_review'', ''done'']"

definition validate_task_status :: "string \<Rightarrow> unit app_result" where
  "validate_task_status status =
     (if status \<in> set VALID_TASK_STATUSES then Inr ()
      else Inl (Validation (''invalid workflow task status: '' @ status)))"

definition validate_object_payload :: "json \<Rightarrow> unit app_result" where
  "validate_object_payload payload =
     (if as_object payload \<noteq> None then Inr ()
      else Inl (Validation ''workflow event payload must be a JSON object''))"

definition owner_is_synchronized :: app_error where
  "owner_is_synchronized = Validation ''owner participant is synchronized from assignee_principal_id''"

definition validate_non_owner_participant :: "workflow_task_participant_input \<Rightarrow> unit app_result" where
  "validate_non_owner_participant participant =
     (if pi_role_key participant = ''owner'' then Inl owner_is_synchronized else Inr ())"

fun validate_non_owner_participants :: "workflow_task_participant_input list \<Rightarrow> unit app_result" where
  "validate_non_owner_participants [] = Inr ()"
| "validate_non_owner_participants (p # ps) =
     (case validate_non_owner_participant p of Inl e \<Rightarrow> Inl e | Inr _ \<Rightarrow> validate_non_owner_participants ps)"

fun is_unchanged :: "'a nullable_patch \<Rightarrow> bool" where
  "is_unchanged Unchanged = True"
| "is_unchanged _ = False"

definition validate_patch_request :: "patch_channel_task_request \<Rightarrow> unit app_result" where
  "validate_patch_request request =
     (case validate_optional_text ''assignee_principal_id'' (pr_assignee_principal_id request) of
        Inl e \<Rightarrow> Inl e
      | Inr _ \<Rightarrow>
     (case (case pr_blocked_reason request of SetTo r \<Rightarrow> validate_required_text ''blocked_reason'' r | _ \<Rightarrow> Inr ()) of
        Inl e \<Rightarrow> Inl e
      | Inr _ \<Rightarrow>
     (case (case pr_context_label request of SetTo l \<Rightarrow> validate_required_text ''context_label'' l | _ \<Rightarrow> Inr ()) of
        Inl e \<Rightarrow> Inl e
      | Inr _ \<Rightarrow>
          if pr_status request = None \<and> pr_assignee_principal_id request = None \<and>
             is_unchanged (pr_blocked_reason request) \<and> is_unchanged (pr_context_label request)
          then Inl (Validation ''patch must include at least one mutable channel task field'')
          else Inr ())))"

fun apply_nullable_patch :: "string option \<Rightarrow> string nullable_patch \<Rightarrow> string option" where
  "apply_nullable_patch current Unchanged = current"
| "apply_nullable_patch current Clear = None"
| "apply_nullable_patch current (SetTo v) = Some v"

section \<open>Payloads of workflow events\<close>

definition sensitive_keys :: "string list" where
  "sensitive_keys =
     [''previous'', ''new'', ''private'', ''reasoncode'', ''workflowauthority'', ''workflowdiagnostic'', ''taskid'',
      ''sourcemessageid'', ''token'', ''accesstoken'', ''refreshtoken'', ''apikey'', ''authorization'', ''password'',
      ''secret'', ''privatenote'', ''note'', ''path'', ''workspacepath'', ''filepath'', ''directory'']"

definition is_sensitive_workflow_payload_key :: "string \<Rightarrow> bool" where
  "is_sensitive_workflow_payload_key key \<longleftrightarrow>
     to_lowercase (filter is_ascii_alphanumeric key) \<in> set sensitive_keys"

lemma size_json_member: "p \<in> set m \<Longrightarrow> size (snd p) < size (JObj m)"
proof (induction m)
  case (Cons q m)
  then show ?case by (cases q) auto
qed simp

lemma size_json_element: "v \<in> set vs \<Longrightarrow> size v < size (JArr vs)"
  by (induction vs) auto

function redact_workflow_event_payload :: "json \<Rightarrow> json" where
  "redact_workflow_event_payload (JObj m) =
     JObj (map (\<lambda>p. (fst p, redact_workflow_event_payload (snd p)))
            (filter (\<lambda>p. \<not> is_sensitive_workflow_payload_key (fst p)) m))"
| "redact_workflow_event_payload (JArr vs) = JArr (map redact_workflow_event_payload vs)"
| "redact_workflow_event_payload JNull = JNull"
| "redact_workflow_event_payload (JBool b) = JBool b"
| "redact_workflow_event_payload (JInt i) = JInt i"
| "redact_workflow_event_payload (JFloat f) = JFloat f"
| "redact_workflow_event_payload (JStr t) = JStr t"
  by pat_completeness auto

termination
  by (relation "measure size") (auto dest: size_json_member size_json_element)

definition sanitize_workflow_event_payload :: "json \<Rightarrow> json" where
  "sanitize_workflow_event_payload payload = redact_workflow_event_payload payload"

definition trusted_authority :: json where
  "trusted_authority = jobj [(''type'', JStr ''trusted_system'')]"

definition trusted_system_workflow_payload :: "json \<Rightarrow> json" where
  "trusted_system_workflow_payload payload =
     obj_insert ''workflow_authority'' trusted_authority (sanitize_workflow_event_payload payload)"

definition workflow_diagnostic_payload :: "json \<Rightarrow> string \<Rightarrow> string option \<Rightarrow> string option \<Rightarrow> json" where
  "workflow_diagnostic_payload payload reason_code status_effect detail =
     obj_insert ''workflow_diagnostic''
       (jobj [(''reason_code'', JStr reason_code), (''status_effect'', jopt_str status_effect),
              (''detail'', jopt_str detail)])
       (sanitize_workflow_event_payload payload)"

section \<open>The status an event stands for\<close>

datatype workflow_status_effect = UpdateStatus channel_task_status | KnownNoop | Unsupported

fun status_effect :: "workflow_status_effect \<Rightarrow> channel_task_status option" where
  "status_effect (UpdateStatus st) = Some st"
| "status_effect _ = None"

datatype explicit_status = AbsentStatus | SupportedStatus channel_task_status | UnsupportedStatus

definition workflow_status_value :: "string \<Rightarrow> channel_task_status option" where
  "workflow_status_value status =
     (if status \<in> set [''pending'', ''todo''] then Some Todo
      else if status = ''in_progress'' then Some InProgress
      else if status \<in> set [''blocked'', ''needs_human''] then Some Blocked
      else if status \<in> set [''needs_approval'', ''in_review''] then Some InReview
      else if status \<in> set [''completed'', ''done''] then Some Done
      else None)"

fun json_pointer :: "json \<Rightarrow> string list \<Rightarrow> json option" where
  "json_pointer j [] = Some j"
| "json_pointer j (k # ks) = (case json_get j k of None \<Rightarrow> None | Some v \<Rightarrow> json_pointer v ks)"

text \<open>\<^verbatim>\<open>Option::or_else\<close> over the places a value may stand\<close>

fun first_some :: "'a option list \<Rightarrow> 'a option" where
  "first_some [] = None"
| "first_some (Some x # _) = Some x"
| "first_some (None # xs) = first_some xs"

definition explicit_workflow_status :: "json \<Rightarrow> explicit_status" where
  "explicit_workflow_status payload =
     (case Option.bind (first_some [json_get payload ''status'', json_pointer payload [''workflow'', ''status''],
              json_pointer payload [''new'', ''status''], json_pointer payload [''workflow'', ''new'', ''status'']]) as_str of
        None \<Rightarrow> AbsentStatus
      | Some status \<Rightarrow>
          (case workflow_status_value status of
             Some st \<Rightarrow> SupportedStatus st | None \<Rightarrow> UnsupportedStatus))"

definition workflow_next_role_is_review_like :: "json \<Rightarrow> bool" where
  "workflow_next_role_is_review_like payload =
     (case Option.bind (first_some [json_get payload ''next_role'',
              json_pointer payload [''workflow'', ''next_role'']]) as_str of
        None \<Rightarrow> False
      | Some role \<Rightarrow> role \<in> set [''reviewer'', ''review'', ''quality'', ''quality_check'', ''approver''])"

definition status_for_workflow_event :: "string \<Rightarrow> json \<Rightarrow> workflow_status_effect" where
  "status_for_workflow_event kind payload =
     (if kind = ''task.created'' then
        (case explicit_workflow_status payload of
           AbsentStatus \<Rightarrow> UpdateStatus Todo
         | SupportedStatus st \<Rightarrow> UpdateStatus st
         | UnsupportedStatus \<Rightarrow> Unsupported)
      else if kind \<in> set [''task.started'', ''task.cleared'', ''task.feedback''] then UpdateStatus InProgress
      else if kind = ''task.ready_for_next_step'' then
        (if workflow_next_role_is_review_like payload then UpdateStatus InReview else UpdateStatus InProgress)
      else if kind \<in> set [''task.blocked'', ''external_check.failed'', ''human_input_needed''] then UpdateStatus Blocked
      else if kind = ''approval_required'' then UpdateStatus InReview
      else if kind = ''task.completed'' then UpdateStatus Done
      else if kind = ''external_check.passed'' then KnownNoop
      else Unsupported)"

definition workflow_kind_allows_owner_or_coordinator :: "string \<Rightarrow> bool" where
  "workflow_kind_allows_owner_or_coordinator workflow_kind \<longleftrightarrow> workflow_kind \<in> set
     [''task.created'', ''task.started'', ''task.ready_for_next_step'', ''task.feedback'', ''task.cleared'',
      ''task.blocked'', ''human_input_needed'', ''approval_required'', ''task.completed'']"

definition workflow_kind_requires_agent_owner_or_coordinator :: "string \<Rightarrow> bool" where
  "workflow_kind_requires_agent_owner_or_coordinator workflow_kind \<longleftrightarrow>
     workflow_kind \<in> set [''external_check.failed'', ''external_check.passed'']"

section \<open>Membership\<close>

definition active_member :: "board_db \<Rightarrow> string \<Rightarrow> string \<Rightarrow> bool" where
  "active_member s conv pid \<longleftrightarrow>
     list_ex (\<lambda>cm. pm_conv_id cm = conv \<and> pm_principal_id cm = pid \<and> pm_removed_at cm = None) (bd_members s)"

definition live :: "pg_principal \<Rightarrow> bool" where
  "live p \<longleftrightarrow> \<not> pp_disabled p \<and> pp_deleted_at p = None"

definition hidden_agent :: "pg_principal \<Rightarrow> bool" where
  "hidden_agent p \<longleftrightarrow> pp_type p = ''agent'' \<and> pp_channel_visibility p = ''internal''"

definition company_access :: "board_db \<Rightarrow> string \<Rightarrow> string \<Rightarrow> bool" where
  "company_access s workspace_id pid \<longleftrightarrow>
     (workspace_id, pid) \<in> set (bd_company_members s) \<and> hm_get (bd_companies s) workspace_id = Some None"

text \<open>
  The join of a principal with a conversation it is an active member of, when the principal is live
  and satisfies the condition on both rows.
\<close>

definition member_row ::
  "board_db \<Rightarrow> string \<Rightarrow> string \<Rightarrow> (pg_conversation \<Rightarrow> pg_principal \<Rightarrow> bool) \<Rightarrow> pg_principal option" where
  "member_row s conv pid cond =
     (case (hm_get (bd_principals s) pid, hm_get (bd_conversations s) conv) of
        (Some p, Some c) \<Rightarrow> if active_member s conv pid \<and> live p \<and> cond c p then Some p else None
      | _ \<Rightarrow> None)"

definition same_workspace :: "pg_conversation \<Rightarrow> pg_principal \<Rightarrow> bool" where
  "same_workspace c p \<longleftrightarrow> pp_workspace_id p = pc_workspace_id c"

definition visible_member :: "pg_conversation \<Rightarrow> pg_principal \<Rightarrow> bool" where
  "visible_member c p \<longleftrightarrow> same_workspace c p \<and> \<not> hidden_agent p"

definition member_or_company :: "board_db \<Rightarrow> string \<Rightarrow> pg_conversation \<Rightarrow> pg_principal \<Rightarrow> bool" where
  "member_or_company s pid c p \<longleftrightarrow>
     same_workspace c p \<or> pp_type p = ''human'' \<and> company_access s (pc_workspace_id c) pid"

definition validate_workflow_event_actor_tx :: "string \<Rightarrow> string \<Rightarrow> unit board_op" where
  "validate_workflow_event_actor_tx conversation_id actor_principal_id =
     st_bind (st_ask (\<lambda>_. validate_required_text ''actor_principal_id'' actor_principal_id)) (\<lambda>_.
       st_ask (\<lambda>s. case member_row s conversation_id actor_principal_id visible_member of
         Some _ \<Rightarrow> Inr ()
       | None \<Rightarrow> Inl (Validation ''actor_principal_id must be an active visible conversation member'')))"

definition require_channel_task_member_access_tx :: "string \<Rightarrow> string \<Rightarrow> string board_op" where
  "require_channel_task_member_access_tx actor_id conversation_id =
     st_bind (st_ask (\<lambda>_. validate_required_text ''actor_id'' actor_id)) (\<lambda>_.
       st_ask (\<lambda>s. case member_row s conversation_id actor_id (member_or_company s actor_id) of
         Some p \<Rightarrow> Inr (pp_type p)
       | None \<Rightarrow> Inl (Forbidden ''principal is not a member of this conversation'')))"

definition has_visible_agent :: "board_db \<Rightarrow> string \<Rightarrow> bool" where
  "has_visible_agent s conversation_id \<longleftrightarrow>
     list_ex (\<lambda>cm. pm_conv_id cm = conversation_id \<and> pm_removed_at cm = None \<and>
       (case hm_get (bd_principals s) (pm_principal_id cm) of
          Some p \<Rightarrow> pp_type p = ''agent'' \<and> pp_channel_visibility p \<noteq> ''internal'' \<and> live p | None \<Rightarrow> False))
       (bd_members s)"

definition require_channel_task_conversation_eligible_tx :: "string \<Rightarrow> unit board_op" where
  "require_channel_task_conversation_eligible_tx conversation_id =
     st_ask (\<lambda>s. case hm_get (bd_conversations s) conversation_id of
         None \<Rightarrow> Inl (db_error ''check channel task conversation eligibility'')
       | Some c \<Rightarrow>
           if pc_type c = ''group'' \<or> (pc_type c = ''direct'' \<and> has_visible_agent s conversation_id) then Inr ()
           else Inl (Forbidden ''channel tasks require a group or direct conversation involving an agent''))"

definition visible_group_agent :: "pg_conversation \<Rightarrow> pg_principal \<Rightarrow> bool" where
  "visible_group_agent c p \<longleftrightarrow> pc_type c = ''group'' \<and> same_workspace c p \<and> pp_type p = ''agent'' \<and>
     pp_channel_visibility p \<noteq> ''internal''"

definition require_visible_group_agent_actor_tx :: "string \<Rightarrow> string \<Rightarrow> unit board_op" where
  "require_visible_group_agent_actor_tx actor_id conversation_id =
     st_bind (st_ask (\<lambda>_. validate_required_text ''actor_id'' actor_id)) (\<lambda>_.
       st_ask (\<lambda>s. case member_row s conversation_id actor_id visible_group_agent of
         Some _ \<Rightarrow> Inr ()
       | None \<Rightarrow> Inl (Forbidden ''generic channel task creation is only available to visible group agents'')))"

definition validate_visible_channel_task_assignee_tx :: "string \<Rightarrow> string \<Rightarrow> bool \<Rightarrow> bool \<Rightarrow> unit board_op" where
  "validate_visible_channel_task_assignee_tx conversation_id principal_id allow_human allow_agent =
     st_bind (st_ask (\<lambda>_. validate_required_text ''assignee_principal_id'' principal_id)) (\<lambda>_.
       st_ask (\<lambda>s. case member_row s conversation_id principal_id visible_member of
         None \<Rightarrow> Inl (Validation ''assignee must be a visible active conversation member'')
       | Some p \<Rightarrow>
           if pp_type p = ''human'' \<and> allow_human \<or> pp_type p = ''agent'' \<and> allow_agent then Inr ()
           else Inl (Validation ''assignee type is not allowed for this channel task mutation'')))"

definition visible_message :: "board_db \<Rightarrow> string \<Rightarrow> string \<Rightarrow> bool" where
  "visible_message s conversation_id message_id \<longleftrightarrow>
     list_ex (\<lambda>e. ev_conversation_id e = conversation_id \<and> ev_event_id e = message_id \<and> message_like (ev_event_type e))
       (conversation_events s)"

definition validate_visible_message_source_tx :: "string \<Rightarrow> string \<Rightarrow> unit board_op" where
  "validate_visible_message_source_tx conversation_id message_id =
     st_guard (\<lambda>s. visible_message s conversation_id message_id)
       (Validation ''source message must be a visible message in the same conversation'')"

definition actor_has_workflow_role :: "board_db \<Rightarrow> string \<Rightarrow> string \<Rightarrow> string list \<Rightarrow> bool" where
  "actor_has_workflow_role s task_id actor_id allowed_roles \<longleftrightarrow>
     list_ex (\<lambda>r. gp_task_id r = task_id \<and> gp_principal_id r = actor_id \<and> gp_role_key r \<in> set allowed_roles)
       (gw_participants s)"

definition is_configured_channel_task_coordinator :: "board_db \<Rightarrow> string \<Rightarrow> string \<Rightarrow> bool" where
  "is_configured_channel_task_coordinator s actor_id conversation_id \<longleftrightarrow>
     (case hm_get (bd_policies s) conversation_id of
        Some r \<Rightarrow> px_default_coordinator_agent_id r = Some actor_id | None \<Rightarrow> False)"

text \<open>Who is a member does not depend on the board's own tables.\<close>

lemma active_member_frame [simp]:
  "active_member (s\<lparr>ids_drawn := n\<rparr>) = active_member s" "active_member (s\<lparr>clock_reads := c\<rparr>) = active_member s"
  "active_member (s\<lparr>gw_tasks := ts\<rparr>) = active_member s" "active_member (s\<lparr>gw_participants := ps\<rparr>) = active_member s"
  "active_member (s\<lparr>gw_events := es\<rparr>) = active_member s" "active_member (s\<lparr>gw_sequence := q\<rparr>) = active_member s"
  "active_member (s\<lparr>conversation_events := l\<rparr>) = active_member s"
  by (simp_all add: active_member_def fun_eq_iff)

lemma company_access_frame [simp]:
  "company_access (s\<lparr>ids_drawn := n\<rparr>) = company_access s" "company_access (s\<lparr>clock_reads := c\<rparr>) = company_access s"
  "company_access (s\<lparr>gw_tasks := ts\<rparr>) = company_access s" "company_access (s\<lparr>gw_participants := ps\<rparr>) = company_access s"
  "company_access (s\<lparr>gw_events := es\<rparr>) = company_access s" "company_access (s\<lparr>gw_sequence := q\<rparr>) = company_access s"
  "company_access (s\<lparr>conversation_events := l\<rparr>) = company_access s"
  by (simp_all add: company_access_def fun_eq_iff)

lemma member_row_frame [simp]:
  "member_row (s\<lparr>ids_drawn := n\<rparr>) = member_row s" "member_row (s\<lparr>clock_reads := c\<rparr>) = member_row s"
  "member_row (s\<lparr>gw_tasks := ts\<rparr>) = member_row s" "member_row (s\<lparr>gw_participants := ps\<rparr>) = member_row s"
  "member_row (s\<lparr>gw_events := es\<rparr>) = member_row s" "member_row (s\<lparr>gw_sequence := q\<rparr>) = member_row s"
  "member_row (s\<lparr>conversation_events := l\<rparr>) = member_row s"
  by (simp_all add: member_row_def fun_eq_iff split: option.split)

lemma member_or_company_frame [simp]:
  "member_or_company (s\<lparr>ids_drawn := n\<rparr>) = member_or_company s" "member_or_company (s\<lparr>clock_reads := c\<rparr>) = member_or_company s"
  "member_or_company (s\<lparr>gw_tasks := ts\<rparr>) = member_or_company s"
  "member_or_company (s\<lparr>gw_participants := ps\<rparr>) = member_or_company s"
  "member_or_company (s\<lparr>gw_events := es\<rparr>) = member_or_company s"
  "member_or_company (s\<lparr>gw_sequence := q\<rparr>) = member_or_company s"
  "member_or_company (s\<lparr>conversation_events := l\<rparr>) = member_or_company s"
  by (simp_all add: member_or_company_def fun_eq_iff)

end
