(* ===== verification/Board_Tasks.thy ===== *)
theory Board_Tasks
  imports Board_State
begin

text \<open>
  The channel task board, part two: the operations of \<^verbatim>\<open>group_workflow_tasks.rs\<close>. The functions ending in
  \<open>_tx\<close> run inside a transaction; the others are calls of the service. Where a call reads
  before its transaction begins, the argument \<open>others\<close> is what other calls commit in between.
  Metrics and log lines are left out.
\<close>

section \<open>Snapshots\<close>

datatype channel_task_source_kind = AgentSource | MessageSource

fun source_kind_as_str :: "channel_task_source_kind \<Rightarrow> string" where
  "source_kind_as_str AgentSource = ''agent''"
| "source_kind_as_str MessageSource = ''message''"

definition source_kind_from_str :: "string \<Rightarrow> string + channel_task_source_kind" where
  "source_kind_from_str v =
     (if v = ''agent'' then Inr AgentSource
      else if v = ''message'' then Inr MessageSource
      else Inl (''invalid channel task source kind: '' @ v))"

definition task_status_from_str :: "string \<Rightarrow> string + channel_task_status" where
  "task_status_from_str v =
     (case channel_task_status_from_db_value v of
        Some st \<Rightarrow> Inr st | None \<Rightarrow> Inl (''invalid channel task status: '' @ v))"

record channel_task_snapshot =
  ts_task_id :: string
  ts_conversation_id :: string
  ts_task_key :: string
  ts_title :: string
  ts_status :: channel_task_status
  ts_assignee_principal_id :: "string option"
  ts_assignee_type :: "principal_type option"
  ts_assignee_name :: "string option"
  ts_blocked_reason :: "string option"
  ts_context_label :: "string option"
  ts_source_kind :: channel_task_source_kind
  ts_source_message_id :: "string option"
  ts_created_by :: "string option"
  ts_created_by_type :: "principal_type option"
  ts_updated_by :: "string option"
  ts_updated_by_type :: "principal_type option"
  ts_version :: int
  ts_created_at :: timestamp
  ts_updated_at :: timestamp

definition parse_principal_type_opt :: "string option \<Rightarrow> principal_type option app_result" where
  "parse_principal_type_opt v =
     (case v of
        None \<Rightarrow> Inr None
      | Some t \<Rightarrow>
          if t = ''human'' then Inr (Some Human)
          else if t = ''agent'' then Inr (Some Agent)
          else Inl (Internal (''invalid principal type in channel task projection: '' @ t)))"

text \<open>The two left joins with \<^verbatim>\<open>principal\<close>: the assignee and the creator, when they may be shown.\<close>

definition shown_assignee :: "board_db \<Rightarrow> task_row \<Rightarrow> pg_principal option" where
  "shown_assignee s t = member_row s (gt_conversation_id t) (gt_assignee_principal_id t) visible_member"

definition shown_creator :: "board_db \<Rightarrow> task_row \<Rightarrow> (string \<times> pg_principal) option" where
  "shown_creator s t =
     (case gt_created_by t of
        None \<Rightarrow> None
      | Some pid \<Rightarrow>
          map_option (\<lambda>p. (pid, p))
            (member_row s (gt_conversation_id t) pid (\<lambda>c p. member_or_company s pid c p \<and> \<not> hidden_agent p)))"

definition channel_task_snapshot_from_row :: "board_db \<Rightarrow> task_row \<Rightarrow> channel_task_snapshot app_result" where
  "channel_task_snapshot_from_row s t =
     (case task_status_from_str (gt_status t) of
        Inl e \<Rightarrow> Inl (Internal e)
      | Inr status \<Rightarrow>
     (case source_kind_from_str (gt_source_kind t) of
        Inl e \<Rightarrow> Inl (Internal e)
      | Inr source_kind \<Rightarrow>
     (case parse_principal_type_opt (map_option pp_type (shown_assignee s t)) of
        Inl e \<Rightarrow> Inl e
      | Inr assignee_type \<Rightarrow>
     (case parse_principal_type_opt (map_option (pp_type \<circ> snd) (shown_creator s t)) of
        Inl e \<Rightarrow> Inl e
      | Inr created_by_type \<Rightarrow>
          Inr \<lparr>ts_task_id = gt_id t, ts_conversation_id = gt_conversation_id t, ts_task_key = gt_task_key t,
               ts_title = gt_title t, ts_status = status,
               ts_assignee_principal_id = map_option (\<lambda>_. gt_assignee_principal_id t) (shown_assignee s t),
               ts_assignee_type = assignee_type, ts_assignee_name = map_option pp_name (shown_assignee s t),
               ts_blocked_reason = gt_blocked_reason t, ts_context_label = gt_context_label t,
               ts_source_kind = source_kind,
               ts_source_message_id =
                 (case gt_source_message_id t of
                    Some m \<Rightarrow> if visible_message s (gt_conversation_id t) m then Some m else None
                  | None \<Rightarrow> None),
               ts_created_by = map_option fst (shown_creator s t), ts_created_by_type = created_by_type,
               ts_updated_by = None, ts_updated_by_type = None, ts_version = gt_version t,
               ts_created_at = gt_created_at t, ts_updated_at = gt_updated_at t\<rparr>))))"

definition task_with_id :: "board_db \<Rightarrow> string \<Rightarrow> task_row option" where
  "task_with_id s task_id = find (\<lambda>t. gt_id t = task_id) (gw_tasks s)"

text \<open>\<^verbatim>\<open>JOIN conversation c\<close>: no row when the conversation is gone.\<close>

definition channel_task_snapshot_select :: "board_db \<Rightarrow> (task_row \<Rightarrow> bool) \<Rightarrow> task_row list" where
  "channel_task_snapshot_select s cond =
     filter (\<lambda>t. cond t \<and> hm_get (bd_conversations s) (gt_conversation_id t) \<noteq> None) (gw_tasks s)"

definition channel_task_snapshot_tx :: "string \<Rightarrow> channel_task_snapshot board_op" where
  "channel_task_snapshot_tx task_id =
     st_ask (\<lambda>s. case channel_task_snapshot_select s (\<lambda>t. gt_id t = task_id) of
         [] \<Rightarrow> Inl (NotFound ''channel task not found'')
       | t # _ \<Rightarrow> channel_task_snapshot_from_row s t)"

section \<open>Writing rows\<close>

definition lock_group_workflow_task_tx :: "string \<Rightarrow> task_row board_op" where
  "lock_group_workflow_task_tx task_id =
     st_ask (\<lambda>s. case task_with_id s task_id of
         None \<Rightarrow> Inl (NotFound ''channel task not found'') | Some t \<Rightarrow> Inr t)"

definition put_participant :: "participant_row \<Rightarrow> participant_row list \<Rightarrow> participant_row list" where
  "put_participant r rows =
     (let same = (\<lambda>q. gp_task_id q = gp_task_id r \<and> gp_principal_id q = gp_principal_id r \<and> gp_role_key q = gp_role_key r)
      in if list_ex same rows
         then map (\<lambda>q. if same q then q\<lparr>gp_responsibility := gp_responsibility r, gp_required := gp_required r\<rparr> else q) rows
         else rows @ [r])"

definition insert_task_participant_tx ::
  "board_env \<Rightarrow> string \<Rightarrow> string \<Rightarrow> workflow_task_participant_input \<Rightarrow> bool \<Rightarrow> unit board_op" where
  "insert_task_participant_tx E conversation_id task_id participant allow_owner =
     st_bind (st_ask (\<lambda>_. validate_required_text ''principal_id'' (pi_principal_id participant))) (\<lambda>_.
     st_bind (st_ask (\<lambda>_. validate_required_text ''role_key'' (pi_role_key participant))) (\<lambda>_.
     st_bind (st_guard (\<lambda>_. \<not> (pi_role_key participant = ''owner'' \<and> \<not> allow_owner)) owner_is_synchronized) (\<lambda>_.
     st_bind (st_draw (new_id E)) (\<lambda>participant_id.
     st_bind (st_get (\<lambda>s. member_row s conversation_id (pi_principal_id participant) same_workspace)) (\<lambda>found.
       let row = \<lparr>gp_id = participant_id, gp_task_id = task_id, gp_principal_id = pi_principal_id participant,
                  gp_role_key = pi_role_key participant, gp_responsibility = pi_responsibility participant,
                  gp_required = pi_required participant\<rparr>
       in if found = None
          then st_lift (Fail (Validation (''participant '' @ pi_principal_id participant @
                 '' must be an active conversation member in the same workspace'')))
          else st_bind (st_guard (\<lambda>s. \<not> list_ex (\<lambda>q. gp_id q = participant_id) (gw_participants s))
                         (db_error ''insert workflow participant'')) (\<lambda>_.
               st_upd (\<lambda>s. s\<lparr>gw_participants := put_participant row (gw_participants s)\<rparr>)))))))"

fun insert_task_participants_tx ::
  "board_env \<Rightarrow> string \<Rightarrow> string \<Rightarrow> workflow_task_participant_input list \<Rightarrow> unit board_op" where
  "insert_task_participants_tx E conversation_id task_id [] = st_ret ()"
| "insert_task_participants_tx E conversation_id task_id (p # ps) =
     st_bind (insert_task_participant_tx E conversation_id task_id p False) (\<lambda>_.
       insert_task_participants_tx E conversation_id task_id ps)"

definition replace_non_owner_task_participants_tx ::
  "board_env \<Rightarrow> string \<Rightarrow> string \<Rightarrow> workflow_task_participant_input list \<Rightarrow> unit board_op" where
  "replace_non_owner_task_participants_tx E conversation_id task_id participants =
     st_bind (st_upd (\<lambda>s. s\<lparr>gw_participants :=
       filter (\<lambda>q. \<not> (gp_task_id q = task_id \<and> gp_role_key q \<noteq> ''owner'')) (gw_participants s)\<rparr>)) (\<lambda>_.
     insert_task_participants_tx E conversation_id task_id participants)"

definition sync_owner_participant_tx :: "board_env \<Rightarrow> string \<Rightarrow> string \<Rightarrow> string \<Rightarrow> unit board_op" where
  "sync_owner_participant_tx E conversation_id task_id assignee_principal_id =
     st_bind (st_upd (\<lambda>s. s\<lparr>gw_participants :=
       filter (\<lambda>q. \<not> (gp_task_id q = task_id \<and> gp_role_key q = ''owner'')) (gw_participants s)\<rparr>)) (\<lambda>_.
     insert_task_participant_tx E conversation_id task_id
       \<lparr>pi_principal_id = assignee_principal_id, pi_role_key = ''owner'', pi_responsibility = None, pi_required = True\<rparr>
       True)"

definition insert_workflow_event_tx ::
  "board_env \<Rightarrow> timestamp \<Rightarrow> string \<Rightarrow> string option \<Rightarrow> string option \<Rightarrow> string option \<Rightarrow> string \<Rightarrow> json \<Rightarrow> int option \<Rightarrow>
    workflow_event_row board_op" where
  "insert_workflow_event_tx E nw conversation_id task_id source_message_id actor_principal_id kind payload resulting_version =
     st_bind (st_draw (new_id E)) (\<lambda>event_id.
       let row = \<lparr>ge_id = event_id, ge_conversation_id = conversation_id, ge_task_id = task_id,
                  ge_source_message_id = source_message_id, ge_actor_principal_id = actor_principal_id, ge_kind = kind,
                  ge_payload = payload, ge_resulting_version = resulting_version, ge_created_at = nw\<rparr>
       in st_bind (st_guard (\<lambda>s. as_object payload \<noteq> None \<and> \<not> list_ex (\<lambda>e. ge_id e = event_id) (gw_events s))
                    (db_error ''insert workflow event'')) (\<lambda>_.
          st_bind (st_upd (\<lambda>s. s\<lparr>gw_events := gw_events s @ [row]\<rparr>)) (\<lambda>_. st_ret row)))"

fun principal_type_as_str :: "principal_type \<Rightarrow> string" where
  "principal_type_as_str Human = ''human''"
| "principal_type_as_str Agent = ''agent''"

definition optional_field :: "string \<Rightarrow> string option \<Rightarrow> (string \<times> json) list" where
  "optional_field k v = (case v of None \<Rightarrow> [] | Some t \<Rightarrow> [(k, JStr t)])"

definition snapshot_json :: "board_env \<Rightarrow> channel_task_snapshot \<Rightarrow> json" where
  "snapshot_json E ts =
     jobj ([(''task_id'', JStr (ts_task_id ts)), (''conversation_id'', JStr (ts_conversation_id ts)),
            (''task_key'', JStr (ts_task_key ts)), (''title'', JStr (ts_title ts)),
            (''status'', JStr (channel_task_status_as_str (ts_status ts)))] @
           optional_field ''assignee_principal_id'' (ts_assignee_principal_id ts) @
           optional_field ''assignee_type'' (map_option principal_type_as_str (ts_assignee_type ts)) @
           optional_field ''assignee_name'' (ts_assignee_name ts) @
           optional_field ''blocked_reason'' (ts_blocked_reason ts) @
           optional_field ''context_label'' (ts_context_label ts) @
           [(''source_kind'', JStr (source_kind_as_str (ts_source_kind ts)))] @
           optional_field ''source_message_id'' (ts_source_message_id ts) @
           optional_field ''created_by'' (ts_created_by ts) @
           optional_field ''created_by_type'' (map_option principal_type_as_str (ts_created_by_type ts)) @
           optional_field ''updated_by'' (ts_updated_by ts) @
           optional_field ''updated_by_type'' (map_option principal_type_as_str (ts_updated_by_type ts)) @
           [(''version'', JInt (ts_version ts)), (''created_at'', JStr (be_time_text E (ts_created_at ts))),
            (''updated_at'', JStr (be_time_text E (ts_updated_at ts)))])"

text \<open>
  A board change is announced in the conversation log, and never in the outbox the router reads.
\<close>

definition fanout_metadata :: "board_env \<Rightarrow> string \<Rightarrow> channel_task_snapshot \<Rightarrow> json" where
  "fanout_metadata E event_type task =
     jobj [(''event_type'', JStr event_type), (''conversation_id'', JStr (ts_conversation_id task)),
           (''task_id'', JStr (ts_task_id task)), (''version'', JInt (ts_version task)),
           (''updated_at'', JStr (be_time_text E (ts_updated_at task))), (''task'', snapshot_json E task)]"

definition insert_channel_task_fanout_event_tx ::
  "board_env \<Rightarrow> timestamp \<Rightarrow> string \<Rightarrow> string option \<Rightarrow> string \<Rightarrow> string \<Rightarrow> channel_task_snapshot board_op" where
  "insert_channel_task_fanout_event_tx E nw conversation_id actor_principal_id event_type task_id =
     st_bind (channel_task_snapshot_tx task_id) (\<lambda>task.
     st_bind (st_draw (new_id E)) (\<lambda>event_id.
     st_bind (st_get (\<lambda>s. next_seq conversation_id (log_of s))) (\<lambda>seq.
     st_bind (st_guard (\<lambda>s. seq \<le> INT8_MAX \<and> \<not> list_ex (\<lambda>e. ev_event_id e = event_id) (conversation_events s))
               (db_error ''insert channel task fanout event'')) (\<lambda>_.
     st_bind (st_upd (\<lambda>s. s\<lparr>conversation_events := conversation_events s @
       [\<lparr>ev_conversation_id = conversation_id, ev_seq = seq, ev_event_id = event_id, ev_event_type = event_type,
         ev_sender_id = (case actor_principal_id of Some a \<Rightarrow> a | None \<Rightarrow> ''system''), ev_content = None,
         ev_content_type = ''application/vnd.choruz.channel-task+json'',
         ev_metadata = fanout_metadata E event_type task, ev_client_msg_id = None, ev_turn_id = None,
         ev_reply_event_id = None, ev_created_at = nw\<rparr>]\<rparr>)) (\<lambda>_.
     st_ret task)))))"

end
