(* ===== verification/Board_Service.thy ===== *)
theory Board_Service
  imports Board_Tasks
begin

text \<open>
  The channel task board, part three: allocation of task keys, the two ways to create a board task,
  patches, and the reads of the board.
\<close>

section \<open>Reading access\<close>

definition get_principal :: "board_db \<Rightarrow> string \<Rightarrow> pg_principal app_result" where
  "get_principal s pid =
     (case hm_get (bd_principals s) pid of
        None \<Rightarrow> Inl (NotFound ''principal not found'')
      | Some p \<Rightarrow>
          if pp_disabled p \<or> pp_deleted_at p \<noteq> None then Inl (Forbidden ''principal is disabled'') else Inr p)"

definition get_conversation :: "board_db \<Rightarrow> string \<Rightarrow> pg_conversation app_result" where
  "get_conversation s conv =
     (case hm_get (bd_conversations s) conv of None \<Rightarrow> Inl (NotFound ''conversation not found'') | Some c \<Rightarrow> Inr c)"

definition workspace_access :: "board_db \<Rightarrow> string \<Rightarrow> pg_principal \<Rightarrow> string \<Rightarrow> bool" where
  "workspace_access s pid p workspace_id =
     (if pp_workspace_id p = workspace_id
      then (case hm_get (bd_companies s) workspace_id of Some deleted_at \<Rightarrow> deleted_at = None | None \<Rightarrow> True)
      else company_access s workspace_id pid)"

definition require_channel_task_conversation_access :: "string \<Rightarrow> string \<Rightarrow> unit board_op" where
  "require_channel_task_conversation_access actor_id conversation_id =
     st_bind (st_ask (\<lambda>s. get_principal s actor_id)) (\<lambda>p.
     st_bind (st_ask (\<lambda>s. get_conversation s conversation_id)) (\<lambda>c.
       st_guard (\<lambda>s. active_member s conversation_id actor_id \<and> workspace_access s actor_id p (pc_workspace_id c))
         (Forbidden ''principal is not a member of this conversation'')))"

definition require_group_conversation :: "string \<Rightarrow> unit board_op" where
  "require_group_conversation conversation_id =
     st_bind (st_ask (\<lambda>s. get_conversation s conversation_id)) (\<lambda>c.
       st_guard (\<lambda>_. pc_type c = ''group'') (Validation ''workflow tasks require a group conversation''))"

definition get_channel_task_snapshot :: "string \<Rightarrow> string \<Rightarrow> channel_task_snapshot board_op" where
  "get_channel_task_snapshot actor_id task_id =
     st_bind (channel_task_snapshot_tx task_id) (\<lambda>task.
     st_bind (require_channel_task_conversation_access actor_id (ts_conversation_id task)) (\<lambda>_. st_ret task))"

fun result_map :: "('a \<Rightarrow> 'b app_result) \<Rightarrow> 'a list \<Rightarrow> 'b list app_result" where
  "result_map f [] = Inr []"
| "result_map f (x # xs) =
     (case f x of Inl e \<Rightarrow> Inl e
      | Inr y \<Rightarrow> (case result_map f xs of Inl e \<Rightarrow> Inl e | Inr ys \<Rightarrow> Inr (y # ys)))"

definition board_order :: "task_row list \<Rightarrow> task_row list" where
  "board_order ts = sort_key gt_created_at (sort_key gt_task_key ts)"

definition list_channel_tasks :: "string \<Rightarrow> string \<Rightarrow> channel_task_snapshot list board_op" where
  "list_channel_tasks actor_id conversation_id =
     st_bind (require_channel_task_conversation_access actor_id conversation_id) (\<lambda>_.
     st_ask (\<lambda>s. result_map (channel_task_snapshot_from_row s)
       (board_order (channel_task_snapshot_select s (\<lambda>t. gt_conversation_id t = conversation_id)))))"

section \<open>Task keys\<close>

definition ALLOCATE_TASK_KEY_MAX_ATTEMPTS :: nat where
  "ALLOCATE_TASK_KEY_MAX_ATTEMPTS = 64"

definition GENERATED_TASK_INSERT_MAX_ATTEMPTS :: nat where
  "GENERATED_TASK_INSERT_MAX_ATTEMPTS = 8"

definition task_key_prefix :: string where
  "task_key_prefix = ''TASK-''"

definition next_channel_task_sequence_tx :: "string \<Rightarrow> int board_op" where
  "next_channel_task_sequence_tx conversation_id =
     st_bind (st_get (\<lambda>s. case hm_get (gw_sequence s) conversation_id of Some n \<Rightarrow> n + 1 | None \<Rightarrow> 2)) (\<lambda>next_value.
     st_bind (st_guard (\<lambda>_. next_value \<le> INT8_MAX) (db_error ''next channel task sequence'')) (\<lambda>_.
     st_bind (st_upd (\<lambda>s. s\<lparr>gw_sequence := hm_insert conversation_id next_value (gw_sequence s)\<rparr>)) (\<lambda>_.
       st_ret (next_value - 1))))"

definition key_taken :: "board_db \<Rightarrow> string \<Rightarrow> string \<Rightarrow> bool" where
  "key_taken s conversation_id task_key \<longleftrightarrow>
     list_ex (\<lambda>t. gt_conversation_id t = conversation_id \<and> gt_task_key t = task_key) (gw_tasks s)"

text \<open>\<^verbatim>\<open>(regexp_match(task_key, '^TASK-([0-9]+)$'))[1]::bigint\<close>\<close>

definition task_key_number :: "string \<Rightarrow> int option" where
  "task_key_number task_key =
     (let ds = drop (length task_key_prefix) task_key
      in if starts_with task_key task_key_prefix \<and> ds \<noteq> [] \<and> list_all is_ascii_digit ds
         then Some (int (parse_digits ds)) else None)"

definition conversation_key_numbers :: "board_db \<Rightarrow> string \<Rightarrow> int list" where
  "conversation_key_numbers s conversation_id =
     List.map_filter (\<lambda>t. task_key_number (gt_task_key t))
       (filter (\<lambda>t. gt_conversation_id t = conversation_id) (gw_tasks s))"

definition allocate_task_key_after_existing_max_tx :: "string \<Rightarrow> string board_op" where
  "allocate_task_key_after_existing_max_tx conversation_id =
     st_bind (st_get (\<lambda>s. conversation_key_numbers s conversation_id)) (\<lambda>numbers.
     let candidate = fold max numbers 0 + 1 in
     st_bind (st_get (\<lambda>s. case hm_get (gw_sequence s) conversation_id of
         None \<Rightarrow> candidate + 1 | Some n \<Rightarrow> max (n + 1) (candidate + 1))) (\<lambda>next_value.
     st_bind (st_guard (\<lambda>_. list_all (\<lambda>n. n \<le> INT8_MAX) numbers \<and> candidate + 1 \<le> INT8_MAX \<and> next_value \<le> INT8_MAX)
               (db_error ''advance channel task sequence'')) (\<lambda>_.
     st_bind (st_upd (\<lambda>s. s\<lparr>gw_sequence := hm_insert conversation_id next_value (gw_sequence s)\<rparr>)) (\<lambda>_.
       st_ret (task_key_prefix @ show_int (next_value - 1))))))"

fun allocate_unused_task_key_attempts :: "nat \<Rightarrow> string \<Rightarrow> string board_op" where
  "allocate_unused_task_key_attempts 0 conversation_id = allocate_task_key_after_existing_max_tx conversation_id"
| "allocate_unused_task_key_attempts (Suc n) conversation_id =
     st_bind (next_channel_task_sequence_tx conversation_id) (\<lambda>sequence.
     let candidate = task_key_prefix @ show_int sequence in
     st_bind (st_get (\<lambda>s. key_taken s conversation_id candidate)) (\<lambda>taken.
       if taken then allocate_unused_task_key_attempts n conversation_id else st_ret candidate))"

definition allocate_unused_task_key_tx :: "string \<Rightarrow> string board_op" where
  "allocate_unused_task_key_tx = allocate_unused_task_key_attempts ALLOCATE_TASK_KEY_MAX_ATTEMPTS"

section \<open>Inserting tasks\<close>

definition find_message_derived_task :: "board_db \<Rightarrow> string \<Rightarrow> string \<Rightarrow> string \<Rightarrow> string option" where
  "find_message_derived_task s conversation_id actor_id message_id =
     map_option gt_id (find (\<lambda>t. gt_conversation_id t = conversation_id \<and> gt_source_kind t = ''message'' \<and>
       gt_source_message_id t = Some message_id \<and> gt_created_by t = Some actor_id) (gw_tasks s))"

definition find_agent_idempotent_task ::
  "board_db \<Rightarrow> string \<Rightarrow> string \<Rightarrow> string \<Rightarrow> (string \<times> string option) option" where
  "find_agent_idempotent_task s conversation_id actor_id idempotency_key =
     map_option (\<lambda>t. (gt_id t, gt_idempotency_payload_hash t))
       (find (\<lambda>t. gt_conversation_id t = conversation_id \<and> gt_created_by t = Some actor_id \<and>
          gt_idempotency_key t = Some idempotency_key) (gw_tasks s))"

text \<open>The unique indexes of the task table: a row may not agree with another on any of them.\<close>

definition same_idempotency :: "task_row \<Rightarrow> task_row \<Rightarrow> bool" where
  "same_idempotency t u \<longleftrightarrow> gt_conversation_id t = gt_conversation_id u \<and> gt_created_by t = gt_created_by u \<and>
     gt_created_by t \<noteq> None \<and> gt_idempotency_key t = gt_idempotency_key u \<and> gt_idempotency_key t \<noteq> None"

definition same_message :: "task_row \<Rightarrow> task_row \<Rightarrow> bool" where
  "same_message t u \<longleftrightarrow> gt_source_kind t = ''message'' \<and> gt_source_kind u = ''message'' \<and>
     gt_source_message_id t = gt_source_message_id u \<and> gt_source_message_id t \<noteq> None \<and>
     gt_created_by t = gt_created_by u \<and> gt_created_by t \<noteq> None"

definition clashes :: "task_row \<Rightarrow> task_row \<Rightarrow> bool" where
  "clashes t u \<longleftrightarrow> gt_id t = gt_id u \<or>
     gt_conversation_id t = gt_conversation_id u \<and> gt_task_key t = gt_task_key u \<or>
     same_idempotency t u \<or> same_message t u"

text \<open>\<^verbatim>\<open>INSERT ... ON CONFLICT DO NOTHING RETURNING id\<close>\<close>

definition insert_task_or_nothing :: "task_row \<Rightarrow> bool board_op" where
  "insert_task_or_nothing row =
     st_bind (st_get (\<lambda>s. list_ex (clashes row) (gw_tasks s))) (\<lambda>conflict.
       if conflict then st_ret False
       else st_bind (st_upd (\<lambda>s. s\<lparr>gw_tasks := gw_tasks s @ [row]\<rparr>)) (\<lambda>_. st_ret True))"

text \<open>With the idempotency index as arbiter; any other clash is a unique violation.\<close>

definition insert_task_with_key :: "task_row \<Rightarrow> bool board_op" where
  "insert_task_with_key row =
     st_bind (st_get (\<lambda>s. list_ex (same_idempotency row) (gw_tasks s))) (\<lambda>used.
       if used then st_ret False
       else st_bind (st_guard (\<lambda>s. \<not> list_ex (clashes row) (gw_tasks s)) (Conflict ''channel task key already exists'')) (\<lambda>_.
            st_bind (st_upd (\<lambda>s. s\<lparr>gw_tasks := gw_tasks s @ [row]\<rparr>)) (\<lambda>_. st_ret True)))"

definition retries_exhausted :: app_error where
  "retries_exhausted = Internal ''could not create channel task after retrying generated task keys''"

definition idempotency_conflict :: app_error where
  "idempotency_conflict = Conflict ''idempotency_key was already used for a different channel task payload''"

definition message_task_row ::
  "timestamp \<Rightarrow> string \<Rightarrow> string \<Rightarrow> string \<Rightarrow> string \<Rightarrow> create_channel_task_from_message_request \<Rightarrow> task_row" where
  "message_task_row nw actor_id conversation_id task_id task_key request =
     \<lparr>gt_id = task_id, gt_conversation_id = conversation_id, gt_task_key = task_key, gt_title = fm_title request,
      gt_status = ''todo'', gt_assignee_principal_id = fm_assignee_principal_id request, gt_blocked_reason = None,
      gt_source_kind = ''message'', gt_context_label = fm_context_label request,
      gt_idempotency_key = fm_idempotency_key request, gt_idempotency_payload_hash = None, gt_version = 1,
      gt_source_message_id = Some (fm_message_id request), gt_created_by = Some actor_id,
      gt_created_at = nw, gt_updated_at = nw\<rparr>"

text \<open>The loop over generated keys: the id of the new task, or of the one found instead.\<close>

fun insert_message_task ::
  "nat \<Rightarrow> board_env \<Rightarrow> timestamp \<Rightarrow> string \<Rightarrow> string \<Rightarrow> create_channel_task_from_message_request \<Rightarrow>
    (bool \<times> string) board_op" where
  "insert_message_task 0 E nw actor_id conversation_id request = st_lift (Fail retries_exhausted)"
| "insert_message_task (Suc n) E nw actor_id conversation_id request =
     st_bind (allocate_unused_task_key_tx conversation_id) (\<lambda>task_key.
     st_bind (st_draw (new_id E)) (\<lambda>task_id.
     st_bind (insert_task_or_nothing (message_task_row nw actor_id conversation_id task_id task_key request)) (\<lambda>inserted.
       if inserted then st_ret (True, task_id)
       else st_bind (st_get (\<lambda>s. find_message_derived_task s conversation_id actor_id (fm_message_id request))) (\<lambda>existing.
            case existing of
              Some existing_id \<Rightarrow> st_ret (False, existing_id)
            | None \<Rightarrow>
                st_bind (st_guard (\<lambda>s. case fm_idempotency_key request of
                      Some k \<Rightarrow> find_agent_idempotent_task s conversation_id actor_id k = None | None \<Rightarrow> True)
                    (Conflict ''channel task key or idempotency key already exists'')) (\<lambda>_.
                insert_message_task n E nw actor_id conversation_id request)))))"

text \<open>A created task: the owner's row, the event, the announcement.\<close>

definition announce_created ::
  "board_env \<Rightarrow> timestamp \<Rightarrow> string \<Rightarrow> string \<Rightarrow> string \<Rightarrow> string option \<Rightarrow> string \<Rightarrow> (string \<times> json) list \<Rightarrow>
    channel_task_snapshot board_op" where
  "announce_created E nw actor_id conversation_id task_id source_message_id assignee_principal_id new_values =
     st_bind (sync_owner_participant_tx E conversation_id task_id assignee_principal_id) (\<lambda>_.
     st_bind (insert_workflow_event_tx E nw conversation_id (Some task_id) source_message_id (Some actor_id)
                ''channel_task.created'' (jobj [(''new'', jobj new_values)]) (Some 1)) (\<lambda>_.
     insert_channel_task_fanout_event_tx E nw conversation_id (Some actor_id) ''channel_task.created'' task_id))"

definition create_channel_task_from_message ::
  "board_env \<Rightarrow> string \<Rightarrow> string \<Rightarrow> create_channel_task_from_message_request \<Rightarrow>
    (bool \<times> channel_task_snapshot) board_op" where
  "create_channel_task_from_message E actor_id conversation_id request =
     st_bind (st_ask (\<lambda>_. validate_required_text ''title'' (fm_title request))) (\<lambda>_.
     st_bind (st_ask (\<lambda>_. validate_required_text ''message_id'' (fm_message_id request))) (\<lambda>_.
     st_bind (st_ask (\<lambda>_. validate_required_text ''assignee_principal_id'' (fm_assignee_principal_id request))) (\<lambda>_.
     st_bind (st_ask (\<lambda>_. validate_optional_text ''context_label'' (fm_context_label request))) (\<lambda>_.
     st_bind (st_ask (\<lambda>s. get_principal s actor_id)) (\<lambda>actor.
     st_bind (st_guard (\<lambda>_. pp_type actor \<noteq> ''agent'')
                (Forbidden ''only humans can create channel tasks from messages'')) (\<lambda>_.
     st_bind (transact E (\<lambda>nw.
       st_bind (require_channel_task_member_access_tx actor_id conversation_id) (\<lambda>_.
       st_bind (require_channel_task_conversation_eligible_tx conversation_id) (\<lambda>_.
       st_bind (validate_visible_channel_task_assignee_tx conversation_id (fm_assignee_principal_id request) True True) (\<lambda>_.
       st_bind (validate_visible_message_source_tx conversation_id (fm_message_id request)) (\<lambda>_.
       st_bind (st_get (\<lambda>s. find_message_derived_task s conversation_id actor_id (fm_message_id request))) (\<lambda>existing.
         case existing of
           Some existing_id \<Rightarrow> st_ret (Inl existing_id)
         | None \<Rightarrow>
             st_bind (insert_message_task GENERATED_TASK_INSERT_MAX_ATTEMPTS E nw actor_id conversation_id request) (\<lambda>p.
               case p of (created, task_id) \<Rightarrow>
                 if \<not> created then st_ret (Inl task_id)
                 else st_bind (announce_created E nw actor_id conversation_id task_id (Some (fm_message_id request))
                        (fm_assignee_principal_id request)
                        [(''status'', JStr ''todo''), (''assignee_principal_id'', JStr (fm_assignee_principal_id request)),
                         (''context_label'', jopt_str (fm_context_label request)), (''source_kind'', JStr ''message''),
                         (''source_message_id'', JStr (fm_message_id request))]) (\<lambda>task.
                      st_ret (Inr task)))))))))) (\<lambda>outcome.
       case outcome of
         Inr task \<Rightarrow> st_ret (True, task)
       | Inl existing_id \<Rightarrow>
           st_bind (get_channel_task_snapshot actor_id existing_id) (\<lambda>task. st_ret (False, task)))))))))"

definition channel_task_create_payload_hash ::
  "board_env \<Rightarrow> string \<Rightarrow> string \<Rightarrow> string \<Rightarrow> channel_task_status \<Rightarrow> string option \<Rightarrow> string app_result" where
  "channel_task_create_payload_hash E task_key title assignee_principal_id status context_label =
     (case be_json_text E (jobj
             [(''assignee_principal_id'', JStr assignee_principal_id), (''context_label'', jopt_str context_label),
              (''source_kind'', JStr ''agent''), (''status'', JStr (channel_task_status_as_str status)),
              (''task_key'', JStr task_key), (''title'', JStr title)]) of
        None \<Rightarrow> Inl (Internal ''serialize channel task idempotency payload: error'')
      | Some bytes \<Rightarrow> Inr (be_sha256_hex E bytes))"

definition agent_task_row ::
  "timestamp \<Rightarrow> string \<Rightarrow> string \<Rightarrow> string \<Rightarrow> string \<Rightarrow> string \<Rightarrow> channel_task_status \<Rightarrow> string \<Rightarrow>
    create_channel_task_request \<Rightarrow> task_row" where
  "agent_task_row nw actor_id conversation_id task_id task_key assignee_principal_id status payload_hash request =
     \<lparr>gt_id = task_id, gt_conversation_id = conversation_id, gt_task_key = task_key, gt_title = cq_title request,
      gt_status = channel_task_status_as_str status, gt_assignee_principal_id = assignee_principal_id,
      gt_blocked_reason = None, gt_source_kind = ''agent'', gt_context_label = cq_context_label request,
      gt_idempotency_key = Some (cq_idempotency_key request), gt_idempotency_payload_hash = Some payload_hash,
      gt_version = 1, gt_source_message_id = None, gt_created_by = Some actor_id, gt_created_at = nw, gt_updated_at = nw\<rparr>"

text \<open>A task with the request's idempotency key: it must carry the request's payload.\<close>

definition reuse_if_same :: "string \<Rightarrow> string \<times> string option \<Rightarrow> string board_op" where
  "reuse_if_same payload_hash existing =
     (case existing of (existing_id, existing_hash) \<Rightarrow>
        if existing_hash = Some payload_hash then st_ret existing_id else st_lift (Fail idempotency_conflict))"

fun insert_agent_task ::
  "nat \<Rightarrow> board_env \<Rightarrow> timestamp \<Rightarrow> string \<Rightarrow> string \<Rightarrow> string \<Rightarrow> channel_task_status \<Rightarrow> string \<Rightarrow>
    create_channel_task_request \<Rightarrow> (bool \<times> string) board_op" where
  "insert_agent_task 0 E nw actor_id conversation_id assignee status payload_hash request = st_lift (Fail retries_exhausted)"
| "insert_agent_task (Suc n) E nw actor_id conversation_id assignee status payload_hash request =
     st_bind (st_draw (new_id E)) (\<lambda>task_id.
     st_bind (case cq_task_key request of Some key \<Rightarrow> st_ret key | None \<Rightarrow> allocate_unused_task_key_tx conversation_id) (\<lambda>task_key.
     let row = agent_task_row nw actor_id conversation_id task_id task_key assignee status payload_hash request in
     st_bind (if cq_task_key request \<noteq> None then insert_task_with_key row else insert_task_or_nothing row) (\<lambda>inserted.
       if inserted then st_ret (True, task_id)
       else st_bind (st_get (\<lambda>s. find_agent_idempotent_task s conversation_id actor_id (cq_idempotency_key request))) (\<lambda>existing.
            case existing of
              Some e \<Rightarrow> st_bind (reuse_if_same payload_hash e) (\<lambda>existing_id. st_ret (False, existing_id))
            | None \<Rightarrow>
                if cq_task_key request \<noteq> None then st_lift (Fail idempotency_conflict)
                else insert_agent_task n E nw actor_id conversation_id assignee status payload_hash request))))"

text \<open>The assignee is checked and the task inserted, unless one with the key has appeared.\<close>

definition insert_new_channel_task ::
  "board_env \<Rightarrow> timestamp \<Rightarrow> string \<Rightarrow> string \<Rightarrow> string \<Rightarrow> channel_task_status \<Rightarrow> string \<Rightarrow>
    create_channel_task_request \<Rightarrow> (string + channel_task_snapshot) board_op" where
  "insert_new_channel_task E nw actor_id conversation_id assignee status payload_hash request =
     st_bind (insert_agent_task (if cq_task_key request \<noteq> None then 1 else GENERATED_TASK_INSERT_MAX_ATTEMPTS)
                E nw actor_id conversation_id assignee status payload_hash request) (\<lambda>p.
       case p of (created, task_id) \<Rightarrow>
         if \<not> created then st_ret (Inl task_id)
         else st_bind (announce_created E nw actor_id conversation_id task_id None assignee
                [(''status'', JStr (channel_task_status_as_str status)), (''assignee_principal_id'', JStr assignee),
                 (''context_label'', jopt_str (cq_context_label request)), (''source_kind'', JStr ''agent'')]) (\<lambda>task.
              st_ret (Inr task)))"

text \<open>The transaction: the id of a task found instead, or the new task.\<close>

definition create_channel_task_body ::
  "board_env \<Rightarrow> timestamp \<Rightarrow> string \<Rightarrow> string \<Rightarrow> string \<Rightarrow> channel_task_status \<Rightarrow> string \<Rightarrow>
    create_channel_task_request \<Rightarrow> (string + channel_task_snapshot) board_op" where
  "create_channel_task_body E nw actor_id conversation_id assignee status payload_hash request =
     (let find_existing = st_get (\<lambda>s. find_agent_idempotent_task s conversation_id actor_id (cq_idempotency_key request)) in
      st_bind (require_visible_group_agent_actor_tx actor_id conversation_id) (\<lambda>_.
      st_bind find_existing (\<lambda>existing.
      case existing of
        Some e \<Rightarrow> st_bind (reuse_if_same payload_hash e) (\<lambda>existing_id. st_ret (Inl existing_id))
      | None \<Rightarrow>
      st_bind (st_try (validate_visible_channel_task_assignee_tx conversation_id assignee False True)) (\<lambda>checked.
      case checked of
        Inl error \<Rightarrow>
          st_bind find_existing (\<lambda>existing. case existing of
            Some e \<Rightarrow> st_bind (reuse_if_same payload_hash e) (\<lambda>existing_id. st_ret (Inl existing_id))
          | None \<Rightarrow> st_lift (Fail error))
      | Inr _ \<Rightarrow> insert_new_channel_task E nw actor_id conversation_id assignee status payload_hash request))))"

definition create_channel_task ::
  "board_env \<Rightarrow> string \<Rightarrow> string \<Rightarrow> create_channel_task_request \<Rightarrow> (bool \<times> channel_task_snapshot) board_op" where
  "create_channel_task E actor_id conversation_id request =
     (let status = (case cq_status request of Some st \<Rightarrow> st | None \<Rightarrow> Todo);
          assignee = (case cq_assignee_principal_id request of Some a \<Rightarrow> a | None \<Rightarrow> actor_id)
      in
      st_bind (st_ask (\<lambda>_. case cq_task_key request of Some key \<Rightarrow> validate_task_key key | None \<Rightarrow> Inr ())) (\<lambda>_.
      st_bind (st_ask (\<lambda>_. validate_meaningful_title (cq_title request))) (\<lambda>_.
      st_bind (st_ask (\<lambda>_. validate_required_text ''idempotency_key'' (cq_idempotency_key request))) (\<lambda>_.
      st_bind (st_ask (\<lambda>_. validate_optional_text ''context_label'' (cq_context_label request))) (\<lambda>_.
      st_bind (st_ask (\<lambda>_. channel_task_create_payload_hash E (case cq_task_key request of Some k \<Rightarrow> k | None \<Rightarrow> [])
                 (cq_title request) assignee status (cq_context_label request))) (\<lambda>payload_hash.
      st_bind (transact E (\<lambda>nw. create_channel_task_body E nw actor_id conversation_id assignee status payload_hash request)) (\<lambda>outcome.
        case outcome of
          Inr task \<Rightarrow> st_ret (True, task)
        | Inl existing_id \<Rightarrow>
            st_bind (get_channel_task_snapshot actor_id existing_id) (\<lambda>task. st_ret (False, task)))))))))"

end
