(* ===== verification/Board_Workflow.thy ===== *)
theory Board_Workflow
  imports Board_Service
begin

text \<open>
  The channel task board, part four: patches, workflow events, the task calls of the workflow layer and
  the history of a task as it is shown.
\<close>

section \<open>Patches\<close>

definition authorize_channel_task_patch_tx ::
  "string \<Rightarrow> string \<Rightarrow> task_row \<Rightarrow> patch_channel_task_request \<Rightarrow> bool board_op" where
  "authorize_channel_task_patch_tx actor_id actor_type existing request =
     (if actor_type = ''human'' then st_ret False
      else if actor_type = ''agent'' then
        st_bind (require_visible_group_agent_actor_tx actor_id (gt_conversation_id existing)) (\<lambda>_.
        st_bind (st_get (\<lambda>s. is_configured_channel_task_coordinator s actor_id (gt_conversation_id existing))) (\<lambda>is_coordinator.
        let is_owner = (gt_assignee_principal_id existing = actor_id) in
        if \<not> is_owner \<and> \<not> is_coordinator
        then st_lift (Fail (Forbidden ''agent can update only owned group tasks or tasks in a coordinated group''))
        else if pr_assignee_principal_id request \<noteq> None \<and> \<not> is_owner \<and> \<not> is_coordinator
        then st_lift (Fail (Forbidden ''agent can transfer only owned group tasks or tasks in a coordinated group''))
        else st_ret is_coordinator))
      else st_lift (Fail (Forbidden ''unsupported actor type for channel task mutation'')))"

definition workflow_actor_authorized :: "board_db \<Rightarrow> string \<Rightarrow> string \<Rightarrow> task_row \<Rightarrow> string \<Rightarrow> unit app_result" where
  "workflow_actor_authorized s actor_id actor_type existing workflow_kind =
     (let is_owner = gt_assignee_principal_id existing = actor_id \<or>
            actor_has_workflow_role s (gt_id existing) actor_id [''owner''];
          is_configured_coordinator = is_configured_channel_task_coordinator s actor_id (gt_conversation_id existing);
          is_task_role_coordinator = actor_has_workflow_role s (gt_id existing) actor_id [''coordinator''];
          is_coordinator = is_configured_coordinator \<or> actor_type \<noteq> ''agent'' \<and> is_task_role_coordinator;
          is_owner_or_coordinator = is_owner \<or> is_coordinator
      in if workflow_kind_requires_agent_owner_or_coordinator workflow_kind
         then (if actor_type = ''agent'' \<and> is_owner_or_coordinator then Inr ()
               else Inl (Forbidden ''workflow metadata external check requires an agent owner or coordinator''))
         else if is_owner_or_coordinator \<and> workflow_kind_allows_owner_or_coordinator workflow_kind then Inr ()
         else if workflow_kind = ''task.feedback'' \<and>
                 actor_has_workflow_role s (gt_id existing) actor_id [''reviewer'', ''quality_check'', ''approver''] then Inr ()
         else Inl (Forbidden
                (if actor_type = ''agent'' then ''workflow metadata actor is not authorized for this task role''
                 else if actor_type = ''human'' then ''workflow metadata human actor is not an owner or coordinator''
                 else ''unsupported workflow metadata actor type'')))"

definition authorize_workflow_metadata_patch_tx :: "string \<Rightarrow> string \<Rightarrow> task_row \<Rightarrow> string \<Rightarrow> unit board_op" where
  "authorize_workflow_metadata_patch_tx actor_id actor_type existing workflow_kind =
     st_ask (\<lambda>s. workflow_actor_authorized s actor_id actor_type existing workflow_kind)"

definition update_task :: "string \<Rightarrow> (task_row \<Rightarrow> task_row) \<Rightarrow> board_db \<Rightarrow> board_db" where
  "update_task task_id f s = s\<lparr>gw_tasks := map (\<lambda>t. if gt_id t = task_id then f t else t) (gw_tasks s)\<rparr>"

text \<open>\<^verbatim>\<open>UPDATE group_workflow_task SET ..., version = version + 1, updated_at = NOW() ... RETURNING\<close>\<close>

definition update_task_row_tx :: "string \<Rightarrow> timestamp \<Rightarrow> string \<Rightarrow> (task_row \<Rightarrow> task_row) \<Rightarrow> task_row board_op" where
  "update_task_row_tx context nw task_id f =
     (let g = (\<lambda>t. (f t)\<lparr>gt_version := gt_version t + 1, gt_updated_at := nw\<rparr>) in
      st_bind (st_ask (\<lambda>s. case task_with_id s task_id of
          None \<Rightarrow> Inl (db_error context)
        | Some t \<Rightarrow> if gt_version t = INT8_MAX then Inl (db_error context) else Inr (g t))) (\<lambda>row.
      st_bind (st_upd (update_task task_id g)) (\<lambda>_. st_ret row)))"

definition task_values :: "string \<Rightarrow> string \<Rightarrow> string option \<Rightarrow> string option \<Rightarrow> json" where
  "task_values status assignee_principal_id blocked_reason context_label =
     jobj [(''status'', JStr status), (''assignee_principal_id'', JStr assignee_principal_id),
           (''blocked_reason'', jopt_str blocked_reason), (''context_label'', jopt_str context_label)]"

definition patched_payload :: "string option \<Rightarrow> task_row \<Rightarrow> task_row \<Rightarrow> json \<Rightarrow> json" where
  "patched_payload actor_principal_id existing row base_payload =
     obj_insert ''new'' (task_values (gt_status row) (gt_assignee_principal_id row) (gt_blocked_reason row) (gt_context_label row))
       (obj_insert ''previous''
         (task_values (gt_status existing) (gt_assignee_principal_id existing) (gt_blocked_reason existing)
            (gt_context_label existing))
         (let payload = sanitize_workflow_event_payload base_payload
          in if actor_principal_id = None then obj_insert ''workflow_authority'' trusted_authority payload else payload))"

definition apply_authorized_channel_task_patch_tx ::
  "board_env \<Rightarrow> timestamp \<Rightarrow> string option \<Rightarrow> task_row \<Rightarrow> patch_channel_task_request \<Rightarrow> string \<Rightarrow> string option \<Rightarrow> json \<Rightarrow>
    workflow_event_row board_op" where
  "apply_authorized_channel_task_patch_tx E nw actor_principal_id existing request event_kind source_message_id base_payload =
     (let status = (case pr_status request of Some st \<Rightarrow> channel_task_status_as_str st | None \<Rightarrow> gt_status existing);
          assignee = (case pr_assignee_principal_id request of Some a \<Rightarrow> a | None \<Rightarrow> gt_assignee_principal_id existing);
          blocked_reason = apply_nullable_patch (gt_blocked_reason existing) (pr_blocked_reason request);
          context_label = apply_nullable_patch (gt_context_label existing) (pr_context_label request)
      in
      st_bind (update_task_row_tx ''patch channel task'' nw (gt_id existing) (\<lambda>t.
         t\<lparr>gt_status := status, gt_assignee_principal_id := assignee, gt_blocked_reason := blocked_reason,
           gt_context_label := context_label\<rparr>)) (\<lambda>row.
      st_bind (sync_owner_participant_tx E (gt_conversation_id existing) (gt_id existing) assignee) (\<lambda>_.
      insert_workflow_event_tx E nw (gt_conversation_id existing) (Some (gt_id existing)) source_message_id
        actor_principal_id event_kind (patched_payload actor_principal_id existing row base_payload)
        (Some (gt_version row)))))"

definition apply_channel_task_patch_tx ::
  "board_env \<Rightarrow> timestamp \<Rightarrow> string \<Rightarrow> task_row \<Rightarrow> patch_channel_task_request \<Rightarrow> string option \<Rightarrow> string \<Rightarrow> string option \<Rightarrow>
    json \<Rightarrow> workflow_event_row board_op" where
  "apply_channel_task_patch_tx E nw actor_id existing request workflow_kind event_kind source_message_id base_payload =
     st_bind (require_channel_task_member_access_tx actor_id (gt_conversation_id existing)) (\<lambda>actor_type.
     st_bind (case workflow_kind of
         Some kind \<Rightarrow> st_bind (authorize_workflow_metadata_patch_tx actor_id actor_type existing kind) (\<lambda>_. st_ret False)
       | None \<Rightarrow> authorize_channel_task_patch_tx actor_id actor_type existing request) (\<lambda>agent_coordinator_authorized.
     st_bind (case pr_assignee_principal_id request of
         None \<Rightarrow> st_ret ()
       | Some assignee \<Rightarrow>
           validate_visible_channel_task_assignee_tx (gt_conversation_id existing) assignee
             (actor_type = ''human'' \<and> \<not> agent_coordinator_authorized) True) (\<lambda>_.
     apply_authorized_channel_task_patch_tx E nw (Some actor_id) existing request event_kind source_message_id base_payload)))"

definition patch_channel_task ::
  "board_env \<Rightarrow> string \<Rightarrow> string \<Rightarrow> patch_channel_task_request \<Rightarrow> channel_task_snapshot board_op" where
  "patch_channel_task E actor_id task_id request =
     st_bind (st_ask (\<lambda>_. validate_patch_request request)) (\<lambda>_.
     transact E (\<lambda>nw.
       st_bind (lock_group_workflow_task_tx task_id) (\<lambda>existing.
       st_bind (require_channel_task_member_access_tx actor_id (gt_conversation_id existing)) (\<lambda>_.
       st_bind (apply_channel_task_patch_tx E nw actor_id existing request None ''channel_task.updated''
                  (gt_source_message_id existing) (jobj [])) (\<lambda>event.
       if ge_resulting_version event \<noteq> None
       then insert_channel_task_fanout_event_tx E nw (gt_conversation_id existing) (Some actor_id) ''channel_task.updated'' task_id
       else channel_task_snapshot_tx task_id)))))"

section \<open>Workflow events\<close>

definition status_patch :: "channel_task_status \<Rightarrow> patch_channel_task_request" where
  "status_patch st =
     \<lparr>pr_status = Some st, pr_assignee_principal_id = None, pr_blocked_reason = Unchanged, pr_context_label = Unchanged\<rparr>"

text \<open>An event that changes no task, with the reason.\<close>

definition diagnostic_event ::
  "board_env \<Rightarrow> timestamp \<Rightarrow> task_row \<Rightarrow> string option \<Rightarrow> string \<Rightarrow> string option \<Rightarrow> json \<Rightarrow> string \<Rightarrow> string option \<Rightarrow>
    string option \<Rightarrow> workflow_event_row board_op" where
  "diagnostic_event E nw task actor kind source_message_id payload reason_code effect detail =
     insert_workflow_event_tx E nw (gt_conversation_id task) (Some (gt_id task)) source_message_id actor kind
       (workflow_diagnostic_payload payload reason_code effect detail) None"

definition apply_workflow_status_update_tx ::
  "board_env \<Rightarrow> timestamp \<Rightarrow> task_row \<Rightarrow> string \<Rightarrow> string \<Rightarrow> string option \<Rightarrow> workflow_status_effect \<Rightarrow> json \<Rightarrow>
    workflow_event_row board_op" where
  "apply_workflow_status_update_tx E nw task actor_id kind source_message_id status_update payload =
     (case status_update of
        UpdateStatus status \<Rightarrow>
          st_bind (lock_group_workflow_task_tx (gt_id task)) (\<lambda>locked_task.
          st_bind (st_try (apply_channel_task_patch_tx E nw actor_id locked_task (status_patch status) (Some kind) kind
                     source_message_id payload)) (\<lambda>r.
          case r of
            Inr event \<Rightarrow> st_ret event
          | Inl (Forbidden detail) \<Rightarrow>
              diagnostic_event E nw locked_task (Some actor_id) kind source_message_id payload ''workflow_status_unauthorized''
                (Some (channel_task_status_as_str status)) (Some detail)
          | Inl e \<Rightarrow> st_lift (Fail e)))
      | KnownNoop \<Rightarrow>
          st_bind (lock_group_workflow_task_tx (gt_id task)) (\<lambda>locked_task.
          st_bind (require_channel_task_member_access_tx actor_id (gt_conversation_id locked_task)) (\<lambda>actor_type.
          st_bind (st_try (authorize_workflow_metadata_patch_tx actor_id actor_type locked_task kind)) (\<lambda>r.
          case r of
            Inr _ \<Rightarrow>
              diagnostic_event E nw locked_task (Some actor_id) kind source_message_id payload ''workflow_status_noop'' None None
          | Inl (Forbidden detail) \<Rightarrow>
              diagnostic_event E nw locked_task (Some actor_id) kind source_message_id payload ''workflow_status_unauthorized''
                None (Some detail)
          | Inl e \<Rightarrow> st_lift (Fail e))))
      | Unsupported \<Rightarrow>
          diagnostic_event E nw task (Some actor_id) kind source_message_id payload ''workflow_status_unsupported'' None None)"

definition untrusted_kind :: string where
  "untrusted_kind = ''trusted system workflow metadata is not authorized for this kind''"

definition apply_trusted_workflow_status_update_tx ::
  "board_env \<Rightarrow> timestamp \<Rightarrow> task_row \<Rightarrow> string \<Rightarrow> string option \<Rightarrow> workflow_status_effect \<Rightarrow> json \<Rightarrow>
    workflow_event_row board_op" where
  "apply_trusted_workflow_status_update_tx E nw task kind source_message_id status_update payload =
     (let trusted = trusted_system_workflow_payload payload in
      case status_update of
        UpdateStatus status \<Rightarrow>
          if workflow_kind_requires_agent_owner_or_coordinator kind
          then st_bind (lock_group_workflow_task_tx (gt_id task)) (\<lambda>locked_task.
               apply_authorized_channel_task_patch_tx E nw None locked_task (status_patch status) kind source_message_id trusted)
          else diagnostic_event E nw task None kind source_message_id trusted ''workflow_status_unauthorized''
                 (Some (channel_task_status_as_str status)) (Some untrusted_kind)
      | KnownNoop \<Rightarrow>
          if workflow_kind_requires_agent_owner_or_coordinator kind
          then st_bind (lock_group_workflow_task_tx (gt_id task)) (\<lambda>locked_task.
               diagnostic_event E nw locked_task None kind source_message_id trusted ''workflow_status_noop'' None None)
          else diagnostic_event E nw task None kind source_message_id trusted ''workflow_status_unauthorized'' None
                 (Some untrusted_kind)
      | Unsupported \<Rightarrow>
          diagnostic_event E nw task None kind source_message_id trusted ''workflow_status_unsupported'' None None)"

definition announce_updated ::
  "board_env \<Rightarrow> timestamp \<Rightarrow> string \<Rightarrow> string option \<Rightarrow> string \<Rightarrow> workflow_event_row \<Rightarrow> workflow_event_row board_op" where
  "announce_updated E nw conversation_id actor task_id event =
     (if ge_resulting_version event \<noteq> None
      then st_bind (insert_channel_task_fanout_event_tx E nw conversation_id actor ''channel_task.updated'' task_id) (\<lambda>_.
           st_ret event)
      else st_ret event)"

definition get_task :: "string \<Rightarrow> task_row board_op" where
  "get_task task_id =
     st_ask (\<lambda>s. case task_with_id s task_id of
         None \<Rightarrow> Inl (NotFound ''workflow task not found'') | Some t \<Rightarrow> Inr t)"

definition append_group_workflow_event ::
  "board_env \<Rightarrow> (board_db \<Rightarrow> board_db) \<Rightarrow> string \<Rightarrow> string \<Rightarrow> append_group_workflow_event_request \<Rightarrow>
    workflow_event_row board_op" where
  "append_group_workflow_event E others task_id default_actor_id request =
     st_bind (st_ask (\<lambda>_. validate_required_text ''kind'' (aq_kind request))) (\<lambda>_.
     st_bind (st_ask (\<lambda>_. validate_object_payload (aq_payload request))) (\<lambda>_.
     st_bind (get_task task_id) (\<lambda>task.
     st_bind (st_guard (\<lambda>_. case aq_task_key request of Some key \<Rightarrow> key = gt_task_key task | None \<Rightarrow> True)
                (Validation ''task_key does not match workflow task'')) (\<lambda>_.
     st_bind (st_upd others) (\<lambda>_.
     transact E (\<lambda>nw.
       st_bind (validate_workflow_event_actor_tx (gt_conversation_id task) default_actor_id) (\<lambda>_.
       st_bind (apply_workflow_status_update_tx E nw task default_actor_id (aq_kind request) (aq_source_message_id request)
                  (status_for_workflow_event (aq_kind request) (aq_payload request)) (aq_payload request)) (\<lambda>event.
       announce_updated E nw (gt_conversation_id task) (Some default_actor_id) (gt_id task) event))))))))"

definition find_task_id_by_workflow_reference ::
  "string \<Rightarrow> string option \<Rightarrow> string option \<Rightarrow> string option board_op" where
  "find_task_id_by_workflow_reference conversation_id task_id task_key =
     st_bind (st_ask (\<lambda>_. case task_key of Some key \<Rightarrow> validate_task_key key | None \<Rightarrow> Inr ())) (\<lambda>_.
     let task_id = (case task_id of Some i \<Rightarrow> if trim i = [] then None else Some (trim i) | None \<Rightarrow> None) in
     if task_id = None \<and> task_key = None then st_ret None
     else st_get (\<lambda>s. map_option gt_id (find (\<lambda>t. gt_conversation_id t = conversation_id \<and>
            (case task_id of Some i \<Rightarrow> gt_id t = i | None \<Rightarrow> True) \<and>
            (case task_key of Some key \<Rightarrow> gt_task_key t = key | None \<Rightarrow> True)) (gw_tasks s))))"

definition resolve_workflow_task :: "string \<Rightarrow> append_group_workflow_event_request \<Rightarrow> task_row option board_op" where
  "resolve_workflow_task conversation_id request =
     st_bind (find_task_id_by_workflow_reference conversation_id (get_str (aq_payload request) ''task_id'') (aq_task_key request)) (\<lambda>found.
     case found of
       None \<Rightarrow> st_ret None
     | Some task_id \<Rightarrow> st_bind (get_task task_id) (\<lambda>task. st_ret (Some task)))"

definition append_group_workflow_event_for_conversation ::
  "board_env \<Rightarrow> (board_db \<Rightarrow> board_db) \<Rightarrow> string \<Rightarrow> string \<Rightarrow> append_group_workflow_event_request \<Rightarrow>
    workflow_event_row board_op" where
  "append_group_workflow_event_for_conversation E others conversation_id default_actor_id request =
     (let status_update = status_for_workflow_event (aq_kind request) (aq_payload request) in
      st_bind (st_ask (\<lambda>_. validate_required_text ''kind'' (aq_kind request))) (\<lambda>_.
      st_bind (st_ask (\<lambda>_. validate_object_payload (aq_payload request))) (\<lambda>_.
      st_bind (require_group_conversation conversation_id) (\<lambda>_.
      st_bind (resolve_workflow_task conversation_id request) (\<lambda>resolved.
      st_bind (st_upd others) (\<lambda>_.
      transact E (\<lambda>nw.
        st_bind (validate_workflow_event_actor_tx conversation_id default_actor_id) (\<lambda>_.
        case resolved of
          Some task \<Rightarrow>
            st_bind (apply_workflow_status_update_tx E nw task default_actor_id (aq_kind request)
                       (aq_source_message_id request) status_update (aq_payload request)) (\<lambda>event.
            announce_updated E nw conversation_id (Some default_actor_id) (gt_id task) event)
        | None \<Rightarrow>
            insert_workflow_event_tx E nw conversation_id None (aq_source_message_id request) (Some default_actor_id)
              (aq_kind request)
              (workflow_diagnostic_payload (aq_payload request) ''workflow_task_unresolved''
                 (map_option channel_task_status_as_str (status_effect status_update)) None) None))))))))"

definition append_group_workflow_event_for_conversation_trusted_system ::
  "board_env \<Rightarrow> (board_db \<Rightarrow> board_db) \<Rightarrow> string \<Rightarrow> append_group_workflow_event_request \<Rightarrow> workflow_event_row board_op" where
  "append_group_workflow_event_for_conversation_trusted_system E others conversation_id request =
     (let status_update = status_for_workflow_event (aq_kind request) (aq_payload request) in
      st_bind (st_ask (\<lambda>_. validate_required_text ''kind'' (aq_kind request))) (\<lambda>_.
      st_bind (st_ask (\<lambda>_. validate_object_payload (aq_payload request))) (\<lambda>_.
      st_bind (require_group_conversation conversation_id) (\<lambda>_.
      st_bind (resolve_workflow_task conversation_id request) (\<lambda>resolved.
      st_bind (st_upd others) (\<lambda>_.
      transact E (\<lambda>nw.
        case resolved of
          Some task \<Rightarrow>
            st_bind (apply_trusted_workflow_status_update_tx E nw task (aq_kind request) (aq_source_message_id request)
                       status_update (aq_payload request)) (\<lambda>event.
            announce_updated E nw conversation_id None (gt_id task) event)
        | None \<Rightarrow>
            insert_workflow_event_tx E nw conversation_id None (aq_source_message_id request) None (aq_kind request)
              (workflow_diagnostic_payload (trusted_system_workflow_payload (aq_payload request)) ''workflow_task_unresolved''
                 (map_option channel_task_status_as_str (status_effect status_update)) None) None)))))))"

end
