(* ===== verification/Board_Calls.thy ===== *)
theory Board_Calls
  imports Board_Workflow
begin

text \<open>
  The channel task board, part five: the task calls of the workflow layer, and a task's history as it is
  shown and exported.
\<close>

section \<open>Tasks of the workflow layer\<close>

text \<open>A task with its participants and events, as these calls return it.\<close>

record workflow_task_view =
  tv_task :: task_row
  tv_participants :: "participant_row list"
  tv_events :: "workflow_event_row list"

definition list_task_participants :: "board_db \<Rightarrow> string \<Rightarrow> participant_row list" where
  "list_task_participants s task_id =
     sort_key gp_role_key (sort_key gp_principal_id (filter (\<lambda>q. gp_task_id q = task_id) (gw_participants s)))"

definition event_order :: "workflow_event_row list \<Rightarrow> workflow_event_row list" where
  "event_order es = sort_key ge_created_at (sort_key ge_id es)"

definition list_task_events :: "board_db \<Rightarrow> string \<Rightarrow> workflow_event_row list" where
  "list_task_events s task_id = event_order (filter (\<lambda>e. ge_task_id e = Some task_id) (gw_events s))"

definition get_group_workflow_task :: "string \<Rightarrow> workflow_task_view board_op" where
  "get_group_workflow_task task_id =
     st_bind (get_task task_id) (\<lambda>t.
     st_get (\<lambda>s. \<lparr>tv_task = t, tv_participants = list_task_participants s (gt_id t),
                   tv_events = list_task_events s (gt_id t)\<rparr>))"

definition list_group_workflow_tasks :: "board_db \<Rightarrow> string \<Rightarrow> workflow_task_view list" where
  "list_group_workflow_tasks s conversation_id =
     map (\<lambda>t. \<lparr>tv_task = t, tv_participants = list_task_participants s (gt_id t), tv_events = []\<rparr>)
       (board_order (filter (\<lambda>t. gt_conversation_id t = conversation_id) (gw_tasks s)))"

definition workflow_task_row ::
  "timestamp \<Rightarrow> string \<Rightarrow> string \<Rightarrow> string \<Rightarrow> create_group_workflow_task_request \<Rightarrow> task_row" where
  "workflow_task_row nw conversation_id created_by task_id request =
     \<lparr>gt_id = task_id, gt_conversation_id = conversation_id, gt_task_key = gc_task_key request, gt_title = gc_title request,
      gt_status = ''todo'', gt_assignee_principal_id = gc_assignee_principal_id request, gt_blocked_reason = None,
      gt_source_kind = ''agent'', gt_context_label = None, gt_idempotency_key = None,
      gt_idempotency_payload_hash = None, gt_version = 1, gt_source_message_id = gc_source_message_id request,
      gt_created_by = Some created_by, gt_created_at = nw, gt_updated_at = nw\<rparr>"

definition create_group_workflow_task ::
  "board_env \<Rightarrow> string \<Rightarrow> string \<Rightarrow> create_group_workflow_task_request \<Rightarrow> workflow_task_view board_op" where
  "create_group_workflow_task E conversation_id created_by request =
     st_bind (st_ask (\<lambda>_. validate_task_key (gc_task_key request))) (\<lambda>_.
     st_bind (st_ask (\<lambda>_. validate_required_text ''title'' (gc_title request))) (\<lambda>_.
     st_bind (st_ask (\<lambda>_. validate_required_text ''assignee_principal_id'' (gc_assignee_principal_id request))) (\<lambda>_.
     st_bind (st_ask (\<lambda>_. validate_non_owner_participants (gc_participants request))) (\<lambda>_.
     st_bind (require_group_conversation conversation_id) (\<lambda>_.
     st_bind (st_draw (new_id E)) (\<lambda>task_id.
     st_bind (transact E (\<lambda>nw.
       let row = workflow_task_row nw conversation_id created_by task_id request in
       st_bind (st_guard (\<lambda>s. hm_get (bd_principals s) (gc_assignee_principal_id request) \<noteq> None \<and>
                  hm_get (bd_principals s) created_by \<noteq> None) (db_error ''create workflow task'')) (\<lambda>_.
       st_bind (st_guard (\<lambda>s. \<not> list_ex (clashes row) (gw_tasks s)) (Conflict ''workflow task key already exists'')) (\<lambda>_.
       st_bind (st_upd (\<lambda>s. s\<lparr>gw_tasks := gw_tasks s @ [row]\<rparr>)) (\<lambda>_.
       st_bind (replace_non_owner_task_participants_tx E conversation_id task_id (gc_participants request)) (\<lambda>_.
       st_bind (sync_owner_participant_tx E conversation_id task_id (gc_assignee_principal_id request)) (\<lambda>_.
       st_ret row)))))) ) (\<lambda>row.
     st_get (\<lambda>s. \<lparr>tv_task = row, tv_participants = list_task_participants s task_id, tv_events = []\<rparr>))))))))"

definition update_group_workflow_task ::
  "board_env \<Rightarrow> (board_db \<Rightarrow> board_db) \<Rightarrow> string \<Rightarrow> update_group_workflow_task_request \<Rightarrow> workflow_task_view board_op" where
  "update_group_workflow_task E others task_id request =
     st_bind (st_ask (\<lambda>_. validate_optional_text ''title'' (gu_title request))) (\<lambda>_.
     st_bind (st_ask (\<lambda>_. case gu_status request of Some st \<Rightarrow> validate_task_status st | None \<Rightarrow> Inr ())) (\<lambda>_.
     st_bind (st_ask (\<lambda>_. validate_optional_text ''assignee_principal_id'' (gu_assignee_principal_id request))) (\<lambda>_.
     st_bind (st_ask (\<lambda>_. case gu_participants request of Some ps \<Rightarrow> validate_non_owner_participants ps | None \<Rightarrow> Inr ())) (\<lambda>_.
     st_bind (get_task task_id) (\<lambda>existing.
     let title = (case gu_title request of Some v \<Rightarrow> v | None \<Rightarrow> gt_title existing);
         status = (case gu_status request of Some v \<Rightarrow> v | None \<Rightarrow> gt_status existing);
         assignee = (case gu_assignee_principal_id request of Some v \<Rightarrow> v | None \<Rightarrow> gt_assignee_principal_id existing)
     in
     st_bind (st_upd others) (\<lambda>_.
     st_bind (transact E (\<lambda>nw.
       st_bind (st_guard (\<lambda>s. hm_get (bd_principals s) assignee \<noteq> None) (db_error ''update workflow task'')) (\<lambda>_.
       st_bind (update_task_row_tx ''update workflow task'' nw task_id (\<lambda>t.
         t\<lparr>gt_title := title, gt_status := status, gt_assignee_principal_id := assignee\<rparr>)) (\<lambda>row.
       st_bind (case gu_participants request of
           Some ps \<Rightarrow> replace_non_owner_task_participants_tx E (gt_conversation_id existing) task_id ps
         | None \<Rightarrow> st_ret ()) (\<lambda>_.
       st_bind (sync_owner_participant_tx E (gt_conversation_id existing) task_id assignee) (\<lambda>_. st_ret row)))))) (\<lambda>row.
     st_get (\<lambda>s. \<lparr>tv_task = row, tv_participants = list_task_participants s task_id,
                   tv_events = list_task_events s task_id\<rparr>))))))))"

definition replace_group_workflow_task_participants ::
  "board_env \<Rightarrow> string \<Rightarrow> workflow_task_participant_input list \<Rightarrow> participant_row list board_op" where
  "replace_group_workflow_task_participants E task_id participants =
     st_bind (transact E (\<lambda>nw.
       st_bind (lock_group_workflow_task_tx task_id) (\<lambda>task.
       st_bind (st_ask (\<lambda>_. validate_non_owner_participants participants)) (\<lambda>_.
       st_bind (replace_non_owner_task_participants_tx E (gt_conversation_id task) task_id participants) (\<lambda>_.
       sync_owner_participant_tx E (gt_conversation_id task) task_id (gt_assignee_principal_id task)))))) (\<lambda>_.
     st_get (\<lambda>s. list_task_participants s task_id))"

definition add_group_workflow_task_participant ::
  "board_env \<Rightarrow> (board_db \<Rightarrow> board_db) \<Rightarrow> string \<Rightarrow> workflow_task_participant_input \<Rightarrow> participant_row list board_op" where
  "add_group_workflow_task_participant E others task_id participant =
     st_bind (get_task task_id) (\<lambda>task.
     st_bind (st_upd others) (\<lambda>_.
     st_bind (transact E (\<lambda>nw.
       st_bind (st_ask (\<lambda>_. validate_non_owner_participant participant)) (\<lambda>_.
       insert_task_participant_tx E (gt_conversation_id task) task_id participant False))) (\<lambda>_.
     st_get (\<lambda>s. list_task_participants s task_id))))"

definition remove_group_workflow_task_participant ::
  "(board_db \<Rightarrow> board_db) \<Rightarrow> string \<Rightarrow> string \<Rightarrow> string \<Rightarrow> participant_row list board_op" where
  "remove_group_workflow_task_participant others task_id principal_id role_key =
     st_bind (get_task task_id) (\<lambda>_.
     st_bind (st_ask (\<lambda>_. validate_required_text ''principal_id'' principal_id)) (\<lambda>_.
     st_bind (st_ask (\<lambda>_. validate_required_text ''role_key'' role_key)) (\<lambda>_.
     st_bind (st_guard (\<lambda>_. role_key \<noteq> ''owner'') owner_is_synchronized) (\<lambda>_.
     st_bind (st_upd others) (\<lambda>_.
     st_bind (st_upd (\<lambda>s. s\<lparr>gw_participants :=
       filter (\<lambda>q. \<not> (gp_task_id q = task_id \<and> gp_principal_id q = principal_id \<and> gp_role_key q = role_key))
         (gw_participants s)\<rparr>)) (\<lambda>_.
     st_get (\<lambda>s. list_task_participants s task_id)))))))"

section \<open>A task's history\<close>

record channel_task_event_visible_values =
  vv_status :: "channel_task_status option"
  vv_assignee_principal_id :: "string nullable_patch"
  vv_blocked_reason :: "string nullable_patch"
  vv_context_label :: "string nullable_patch"
  vv_source_kind :: "channel_task_source_kind option"
  vv_source_message_id :: "string nullable_patch"

record channel_task_event_projection =
  cp_event_id :: string
  cp_task_id :: "string option"
  cp_kind :: string
  cp_actor_principal_id :: "string option"
  cp_actor_type :: "principal_type option"
  cp_created_at :: timestamp
  cp_resulting_version :: "int option"
  cp_previous :: "channel_task_event_visible_values option"
  cp_new :: "channel_task_event_visible_values option"
  cp_workflow_kind :: "string option"
  cp_status_effect :: "channel_task_status option"
  cp_reason_code :: "string option"

text \<open>Reading the values back from JSON: an absent field, \<^verbatim>\<open>null\<close>, a string of the right form, or an error.\<close>

definition visible_values_error :: app_error where
  "visible_values_error = Internal ''parse channel task event visible values: error''"

definition nullable_field :: "json \<Rightarrow> string \<Rightarrow> string nullable_patch app_result" where
  "nullable_field j k =
     (case json_get j k of
        None \<Rightarrow> Inr Unchanged
      | Some JNull \<Rightarrow> Inr Clear
      | Some (JStr v) \<Rightarrow> Inr (SetTo v)
      | Some _ \<Rightarrow> Inl visible_values_error)"

definition enum_field :: "(string \<Rightarrow> string + 'a) \<Rightarrow> json \<Rightarrow> string \<Rightarrow> 'a option app_result" where
  "enum_field from_str j k =
     (case json_get j k of
        None \<Rightarrow> Inr None
      | Some JNull \<Rightarrow> Inr None
      | Some (JStr v) \<Rightarrow> (case from_str v of Inr x \<Rightarrow> Inr (Some x) | Inl _ \<Rightarrow> Inl visible_values_error)
      | Some _ \<Rightarrow> Inl visible_values_error)"

definition visible_values_from_json :: "json \<Rightarrow> channel_task_event_visible_values app_result" where
  "visible_values_from_json j =
     (if as_object j = None then Inl visible_values_error else
      case enum_field task_status_from_str j ''status'' of Inl e \<Rightarrow> Inl e | Inr status \<Rightarrow>
     (case nullable_field j ''assignee_principal_id'' of Inl e \<Rightarrow> Inl e | Inr assignee \<Rightarrow>
     (case nullable_field j ''blocked_reason'' of Inl e \<Rightarrow> Inl e | Inr blocked_reason \<Rightarrow>
     (case nullable_field j ''context_label'' of Inl e \<Rightarrow> Inl e | Inr context_label \<Rightarrow>
     (case enum_field source_kind_from_str j ''source_kind'' of Inl e \<Rightarrow> Inl e | Inr source_kind \<Rightarrow>
     (case nullable_field j ''source_message_id'' of Inl e \<Rightarrow> Inl e | Inr source_message_id \<Rightarrow>
        Inr \<lparr>vv_status = status, vv_assignee_principal_id = assignee, vv_blocked_reason = blocked_reason,
             vv_context_label = context_label, vv_source_kind = source_kind,
             vv_source_message_id = source_message_id\<rparr>))))))"

definition hide_unless :: "string option \<Rightarrow> string nullable_patch \<Rightarrow> string nullable_patch" where
  "hide_unless visible_id v = (case v of SetTo i \<Rightarrow> if visible_id \<noteq> Some i then Unchanged else v | _ \<Rightarrow> v)"

definition parse_event_visible_values ::
  "json option \<Rightarrow> string option \<Rightarrow> string option \<Rightarrow> channel_task_event_visible_values option app_result" where
  "parse_event_visible_values v visible_assignee_id visible_source_message_id =
     (case v of
        None \<Rightarrow> Inr None
      | Some j \<Rightarrow>
          (case visible_values_from_json j of
             Inl e \<Rightarrow> Inl e
           | Inr values \<Rightarrow>
               Inr (Some (values
                 \<lparr>vv_assignee_principal_id := hide_unless visible_assignee_id (vv_assignee_principal_id values),
                  vv_source_message_id := hide_unless visible_source_message_id (vv_source_message_id values)\<rparr>))))"

text \<open>The left joins of the history queries: an id written in the payload, when it may be shown.\<close>

definition shown_principal :: "board_db \<Rightarrow> string \<Rightarrow> string option \<Rightarrow> (string \<times> pg_principal) option" where
  "shown_principal s conv pid =
     (case pid of
        None \<Rightarrow> None
      | Some i \<Rightarrow> map_option (\<lambda>p. (i, p)) (member_row s conv i visible_member))"

definition payload_text :: "workflow_event_row \<Rightarrow> string \<Rightarrow> string \<Rightarrow> string option" where
  "payload_text e part field = Option.bind (json_pointer (ge_payload e) [part, field]) as_str"

definition shown_assignee_id :: "board_db \<Rightarrow> workflow_event_row \<Rightarrow> string \<Rightarrow> string option" where
  "shown_assignee_id s e part =
     map_option fst (shown_principal s (ge_conversation_id e) (payload_text e part ''assignee_principal_id''))"

definition shown_source_id :: "board_db \<Rightarrow> workflow_event_row \<Rightarrow> string \<Rightarrow> string option" where
  "shown_source_id s e part =
     (case payload_text e part ''source_message_id'' of
        Some m \<Rightarrow> if visible_message s (ge_conversation_id e) m then Some m else None
      | None \<Rightarrow> None)"

definition channel_task_event_projection_from_row ::
  "board_db \<Rightarrow> workflow_event_row \<Rightarrow> channel_task_event_projection app_result" where
  "channel_task_event_projection_from_row s e =
     (let actor = shown_principal s (ge_conversation_id e) (ge_actor_principal_id e) in
      case parse_event_visible_values (json_get (ge_payload e) ''previous'')
             (shown_assignee_id s e ''previous'') (shown_source_id s e ''previous'') of
        Inl err \<Rightarrow> Inl err
      | Inr previous \<Rightarrow>
     (case parse_event_visible_values (json_get (ge_payload e) ''new'')
             (shown_assignee_id s e ''new'') (shown_source_id s e ''new'') of
        Inl err \<Rightarrow> Inl err
      | Inr new_values \<Rightarrow>
     (case parse_principal_type_opt (map_option (pp_type \<circ> snd) actor) of
        Inl err \<Rightarrow> Inl err
      | Inr actor_type \<Rightarrow>
          Inr \<lparr>cp_event_id = ge_id e, cp_task_id = ge_task_id e, cp_kind = ''channel_task.workflow_event'',
               cp_actor_principal_id = map_option fst actor, cp_actor_type = actor_type,
               cp_created_at = ge_created_at e, cp_resulting_version = ge_resulting_version e,
               cp_previous = previous, cp_new = new_values, cp_workflow_kind = Some (ge_kind e),
               cp_status_effect = Option.bind new_values vv_status, cp_reason_code = None\<rparr>)))"

definition shown_in_history :: "workflow_event_row \<Rightarrow> bool" where
  "shown_in_history e \<longleftrightarrow> json_get (ge_payload e) ''workflow_diagnostic'' = None \<or>
     payload_text e ''workflow_diagnostic'' ''reason_code'' = Some ''workflow_status_noop''"

definition CHANNEL_TASK_RECENT_EVENT_LIMIT :: nat where
  "CHANNEL_TASK_RECENT_EVENT_LIMIT = 50"

definition recent_events :: "board_db \<Rightarrow> string \<Rightarrow> string \<Rightarrow> workflow_event_row list" where
  "recent_events s task_id conversation_id =
     rev (take CHANNEL_TASK_RECENT_EVENT_LIMIT (rev (event_order
       (filter (\<lambda>e. ge_task_id e = Some task_id \<and> ge_conversation_id e = conversation_id \<and> shown_in_history e)
          (gw_events s)))))"

definition get_channel_task_detail ::
  "string \<Rightarrow> string \<Rightarrow> (channel_task_snapshot \<times> channel_task_event_projection list) board_op" where
  "get_channel_task_detail actor_id task_id =
     st_bind (channel_task_snapshot_tx task_id) (\<lambda>task.
     st_bind (require_channel_task_conversation_access actor_id (ts_conversation_id task)) (\<lambda>_.
     st_bind (st_ask (\<lambda>s. result_map (channel_task_event_projection_from_row s)
       (recent_events s task_id (ts_conversation_id task)))) (\<lambda>events.
     st_ret (task, events))))"

text \<open>
  The export: every task of a conversation with its history. The events come in the order of their
  tasks, then of their own time and id; grouping them by task keeps that order.
\<close>

definition exported_events :: "board_db \<Rightarrow> string \<Rightarrow> workflow_event_row list" where
  "exported_events s conversation_id =
     (let task_of = (\<lambda>e. the (Option.bind (ge_task_id e) (task_with_id s)))
      in sort_key (gt_created_at \<circ> task_of) (sort_key (gt_task_key \<circ> task_of) (event_order
           (filter (\<lambda>e. ge_conversation_id e = conversation_id \<and> shown_in_history e \<and>
              (case Option.bind (ge_task_id e) (task_with_id s) of
                 Some t \<Rightarrow> gt_conversation_id t = ge_conversation_id e | None \<Rightarrow> False)) (gw_events s)))))"

definition list_channel_task_exports ::
  "board_db \<Rightarrow> string \<Rightarrow> (channel_task_snapshot \<times> channel_task_event_projection list) list app_result" where
  "list_channel_task_exports s conversation_id =
     (case result_map (channel_task_snapshot_from_row s)
             (board_order (channel_task_snapshot_select s (\<lambda>t. gt_conversation_id t = conversation_id))) of
        Inl e \<Rightarrow> Inl e
      | Inr tasks \<Rightarrow>
          if tasks = [] then Inr []
          else (case result_map (channel_task_event_projection_from_row s) (exported_events s conversation_id) of
                  Inl e \<Rightarrow> Inl e
                | Inr events \<Rightarrow>
                    Inr (map (\<lambda>task. (task, filter (\<lambda>ev. cp_task_id ev = Some (ts_task_id task)) events)) tasks)))"

end
