(* ===== verification/Board_Rules.thy ===== *)
theory Board_Rules
  imports Board_Calls
begin

text \<open>
  What a successful step of a board transaction does: inversion rules for the sequencing operators
  (collection \<open>runs\<close>), and the effect of each function that writes.
\<close>

named_theorems runs \<open>runs of board operations, step by step\<close>

section \<open>Inversion\<close>

lemma st_bind_Fail:
  "st_bind m f s = (Fail e, t) \<longleftrightarrow> m s = (Fail e, t) \<or> (\<exists>x u. m s = (Ret x, u) \<and> f x u = (Fail e, t))"
  by (auto simp: st_bind_def split: prod.splits exec.splits)

lemma st_bind_Panic:
  "st_bind m f s = (Panic p, t) \<longleftrightarrow> m s = (Panic p, t) \<or> (\<exists>x u. m s = (Ret x, u) \<and> f x u = (Panic p, t))"
  by (auto simp: st_bind_def split: prod.splits exec.splits)

lemma st_ask_runs [runs]:
  "st_ask h s = (Ret x, t) \<longleftrightarrow> h s = Inr x \<and> t = s"
  "st_ask h s = (Fail e, t) \<longleftrightarrow> h s = Inl e \<and> t = s"
  "st_ask h s = (Panic p, t) \<longleftrightarrow> False"
  by (auto simp: st_ask_def)

lemma st_get_runs [runs]:
  "st_get h s = (Ret x, t) \<longleftrightarrow> x = h s \<and> t = s"
  "st_get h s = (Fail e, t) \<longleftrightarrow> False"
  "st_get h s = (Panic p, t) \<longleftrightarrow> False"
  by (auto simp: st_get_def)

lemma st_guard_runs [runs]:
  "st_guard P err s = (Ret x, t) \<longleftrightarrow> P s \<and> t = s"
  "st_guard P err s = (Fail e, t) \<longleftrightarrow> \<not> P s \<and> e = err \<and> t = s"
  "st_guard P err s = (Panic p, t) \<longleftrightarrow> False"
  by (auto simp: st_guard_def)

lemma st_upd_runs [runs]:
  "st_upd f s = (Ret x, t) \<longleftrightarrow> t = f s"
  "st_upd f s = (Fail e, t) \<longleftrightarrow> False"
  "st_upd f s = (Panic p, t) \<longleftrightarrow> False"
  by (auto simp: st_upd_def)

lemma st_new_id_runs [runs]:
  "st_draw (new_id E) s = (Ret x, t) \<longleftrightarrow> x = env_uuid E (ids_drawn s) \<and> t = s\<lparr>ids_drawn := Suc (ids_drawn s)\<rparr>"
  "st_draw (new_id E) s = (Fail e, t) \<longleftrightarrow> False"
  "st_draw (new_id E) s = (Panic p, t) \<longleftrightarrow> False"
  by (auto simp: st_draw_def new_id_def)

lemma st_try_runs [runs]:
  "st_try m s = (Ret r, t) \<longleftrightarrow> (\<exists>x. m s = (Ret x, t) \<and> r = Inr x) \<or> (\<exists>e. m s = (Fail e, t) \<and> r = Inl e)"
  "st_try m s = (Fail e, t) \<longleftrightarrow> False"
  "st_try m s = (Panic p, t) \<longleftrightarrow> m s = (Panic p, t)"
  by (auto simp: st_try_def split: prod.splits exec.splits)

lemmas [runs] = st_bind_Ret st_bind_Fail st_bind_Panic

text \<open>A transaction: it commits what its body did, or leaves the tables as they were.\<close>

definition drawn :: "board_db \<Rightarrow> board_db \<Rightarrow> bool" where
  "drawn s t \<longleftrightarrow> s\<lparr>ids_drawn := 0, clock_reads := 0\<rparr> = t\<lparr>ids_drawn := 0, clock_reads := 0\<rparr>"

lemma drawn_refl [simp]: "drawn s s"
  by (simp add: drawn_def)

lemma drawn_trans: "drawn s t \<Longrightarrow> drawn t u \<Longrightarrow> drawn s u"
  by (simp add: drawn_def)

lemma drawn_steps [simp]:
  "drawn s (t\<lparr>ids_drawn := n\<rparr>) \<longleftrightarrow> drawn s t" "drawn s (t\<lparr>clock_reads := c\<rparr>) \<longleftrightarrow> drawn s t"
  "drawn (t\<lparr>ids_drawn := n\<rparr>) s \<longleftrightarrow> drawn t s" "drawn (t\<lparr>clock_reads := c\<rparr>) s \<longleftrightarrow> drawn t s"
  by (simp_all add: drawn_def)

lemma drawn_tables:
  assumes "drawn s t"
  shows "gw_tasks t = gw_tasks s" "gw_participants t = gw_participants s" "gw_events t = gw_events s"
    "gw_sequence t = gw_sequence s" "conversation_events t = conversation_events s" "event_outbox t = event_outbox s"
    "bd_principals t = bd_principals s" "bd_conversations t = bd_conversations s" "bd_members t = bd_members s"
    "bd_policies t = bd_policies s" "bd_company_members t = bd_company_members s" "bd_companies t = bd_companies s"
  using assms unfolding drawn_def
  by (auto dest: arg_cong [of _ _ gw_tasks] arg_cong [of _ _ gw_participants] arg_cong [of _ _ gw_events]
      arg_cong [of _ _ gw_sequence] arg_cong [of _ _ conversation_events] arg_cong [of _ _ event_outbox]
      arg_cong [of _ _ bd_principals] arg_cong [of _ _ bd_conversations] arg_cong [of _ _ bd_members]
      arg_cong [of _ _ bd_policies] arg_cong [of _ _ bd_company_members] arg_cong [of _ _ bd_companies])

lemma transact_Ret:
  "transact E body s = (Ret x, t) \<longleftrightarrow>
     body (env_clock E (clock_reads s)) (s\<lparr>clock_reads := Suc (clock_reads s)\<rparr>) = (Ret x, t)"
  by (auto simp: transact_def now_def Let_def split: prod.splits exec.splits)

lemma transact_fails:
  assumes "transact E body s = (r, t)" "\<And>x. r \<noteq> Ret x"
  shows "drawn s t"
  using assms by (auto simp: transact_def now_def Let_def split: prod.splits exec.splits)

lemma transact_Fail:
  "transact E body s = (Fail e, t) \<Longrightarrow>
     \<exists>u. body (env_clock E (clock_reads s)) (s\<lparr>clock_reads := Suc (clock_reads s)\<rparr>) = (Fail e, u)"
  by (auto simp: transact_def now_def Let_def split: prod.splits exec.splits)

section \<open>Operations that only read\<close>

definition reads :: "'a board_op \<Rightarrow> bool" where
  "reads m \<longleftrightarrow> (\<forall>s r t. m s = (r, t) \<longrightarrow> t = s)"

lemma reads_runs: "reads m \<Longrightarrow> m s = (r, t) \<Longrightarrow> t = s"
  by (simp add: reads_def)

lemma reads_intros [intro!]:
  "reads (st_ask h)" "reads (st_get g)" "reads (st_guard P e)" "reads (st_ret x)" "reads (st_lift q)"
  "reads m \<Longrightarrow> (\<And>x. reads (f x)) \<Longrightarrow> reads (st_bind m f)"
  "reads m \<Longrightarrow> reads n \<Longrightarrow> reads (if b then m else n)"
  "reads m \<Longrightarrow> reads (st_try m)"
proof -
  show "reads (st_bind m f)" if "reads m" "\<And>x. reads (f x)" for m :: "'x board_op" and f :: "'x \<Rightarrow> 'y board_op"
    using that by (fastforce simp: reads_def st_bind_def split: prod.splits exec.splits)
  show "reads (st_try m)" if "reads m" for m :: "'x board_op"
    using that by (fastforce simp: reads_def st_try_def split: prod.splits exec.splits)
qed (auto simp: reads_def st_ask_def st_get_def st_guard_def st_ret_def st_lift_def)

lemma reads_option [intro!]:
  "(x = None \<Longrightarrow> reads m) \<Longrightarrow> (\<And>y. x = Some y \<Longrightarrow> reads (f y)) \<Longrightarrow> reads (case x of None \<Rightarrow> m | Some y \<Rightarrow> f y)"
  by (cases x) simp_all

lemma checks_read [intro!, simp]:
  "reads (validate_workflow_event_actor_tx c a)"
  "reads (require_channel_task_member_access_tx a c)"
  "reads (require_channel_task_conversation_eligible_tx c)"
  "reads (require_visible_group_agent_actor_tx a c)"
  "reads (validate_visible_channel_task_assignee_tx c a h g)"
  "reads (validate_visible_message_source_tx c m)"
  "reads (lock_group_workflow_task_tx i)" "reads (channel_task_snapshot_tx i)" "reads (get_task i)"
  "reads (require_channel_task_conversation_access a c)" "reads (require_group_conversation c)"
  "reads (get_channel_task_snapshot a i)"
  "reads (authorize_workflow_metadata_patch_tx a ty row k)"
  "reads (reuse_if_same hash p)" "reads (find_task_id_by_workflow_reference c oi ok)"
  unfolding validate_workflow_event_actor_tx_def require_channel_task_member_access_tx_def
    require_channel_task_conversation_eligible_tx_def require_visible_group_agent_actor_tx_def
    validate_visible_channel_task_assignee_tx_def validate_visible_message_source_tx_def
    lock_group_workflow_task_tx_def channel_task_snapshot_tx_def get_task_def
    require_channel_task_conversation_access_def require_group_conversation_def get_channel_task_snapshot_def
    authorize_workflow_metadata_patch_tx_def reuse_if_same_def find_task_id_by_workflow_reference_def Let_def
  by (auto split: prod.split)

lemma authorize_patch_reads [intro!, simp]: "reads (authorize_channel_task_patch_tx a ty row r)"
  unfolding authorize_channel_task_patch_tx_def Let_def by auto

lemma resolve_reads [intro!, simp]: "reads (resolve_workflow_task c r)"
  unfolding resolve_workflow_task_def by auto

section \<open>Errors\<close>

definition errors :: "(app_error \<Rightarrow> bool) \<Rightarrow> 'a board_op \<Rightarrow> bool" where
  "errors P m \<longleftrightarrow> (\<forall>s e t. m s = (Fail e, t) \<longrightarrow> P e)"

lemma errorsD: "errors P m \<Longrightarrow> m s = (Fail e, t) \<Longrightarrow> P e"
  unfolding errors_def by blast

lemma errors_intros [intro!]:
  "errors P (st_ret x)" "errors P (st_get g)" "errors P (st_upd f)" "errors P (st_draw (new_id E))" "errors P (st_try m)"
  "P e \<Longrightarrow> errors P (st_guard b e)" "P e \<Longrightarrow> errors P (st_lift (Fail e))"
  "(\<And>s e. h s = Inl e \<Longrightarrow> P e) \<Longrightarrow> errors P (st_ask h)"
  "errors P n \<Longrightarrow> (\<And>x. errors P (f' x)) \<Longrightarrow> errors P (st_bind n f')"
  "errors P l \<Longrightarrow> errors P r \<Longrightarrow> errors P (if c then l else r)"
  unfolding errors_def by (auto simp: runs) blast+

lemma errors_option [intro!]:
  "(x = None \<Longrightarrow> errors P m) \<Longrightarrow> (\<And>y. x = Some y \<Longrightarrow> errors P (f y)) \<Longrightarrow> errors P (case x of None \<Rightarrow> m | Some y \<Rightarrow> f y)"
  by (cases x) simp_all

section \<open>Effects\<close>

lemma log_of_ids [simp]:
  "next_seq c (log_of (s\<lparr>ids_drawn := n\<rparr>)) = next_seq c (log_of s)"
  by (simp add: next_seq_def conversation_seqs_def)

definition owner_of :: "string \<Rightarrow> participant_row \<Rightarrow> bool" where
  "owner_of task_id q \<longleftrightarrow> gp_task_id q = task_id \<and> gp_role_key q = ''owner''"

lemma insert_task_participant_Ret:
  assumes "insert_task_participant_tx E conv tid p b s = (Ret x, t)"
  obtains row where "t = s\<lparr>ids_drawn := Suc (ids_drawn s), gw_participants := put_participant row (gw_participants s)\<rparr>"
    "gp_task_id row = tid" "gp_principal_id row = pi_principal_id p" "gp_role_key row = pi_role_key p"
    "pi_role_key p = ''owner'' \<longrightarrow> b" "member_row s conv (pi_principal_id p) same_workspace \<noteq> None"
proof
  let ?row = "\<lparr>gp_id = env_uuid E (ids_drawn s), gp_task_id = tid, gp_principal_id = pi_principal_id p,
      gp_role_key = pi_role_key p, gp_responsibility = pi_responsibility p, gp_required = pi_required p\<rparr>"
  have "\<not> (pi_role_key p = ''owner'' \<and> \<not> b)" "member_row s conv (pi_principal_id p) same_workspace \<noteq> None"
    "t = s\<lparr>ids_drawn := Suc (ids_drawn s), gw_participants := put_participant ?row (gw_participants s)\<rparr>"
    using assms by (simp_all add: insert_task_participant_tx_def runs Let_def split: if_splits)
  then show "t = s\<lparr>ids_drawn := Suc (ids_drawn s), gw_participants := put_participant ?row (gw_participants s)\<rparr>"
    "pi_role_key p = ''owner'' \<longrightarrow> b" "member_row s conv (pi_principal_id p) same_workspace \<noteq> None"
    by blast+
qed simp_all

lemma sync_owner_participant_Ret:
  assumes "sync_owner_participant_tx E conv tid a s = (Ret x, t)"
  obtains row where "t = s\<lparr>ids_drawn := Suc (ids_drawn s),
      gw_participants := filter (\<lambda>q. \<not> owner_of tid q) (gw_participants s) @ [row]\<rparr>"
    "owner_of tid row" "gp_principal_id row = a" "member_row s conv a same_workspace \<noteq> None"
proof -
  let ?u = "s\<lparr>gw_participants := filter (\<lambda>q. \<not> owner_of tid q) (gw_participants s)\<rparr>"
  have run: "insert_task_participant_tx E conv tid
     \<lparr>pi_principal_id = a, pi_role_key = ''owner'', pi_responsibility = None, pi_required = True\<rparr> True ?u = (Ret x, t)"
    using assms by (simp add: sync_owner_participant_tx_def runs owner_of_def)
  show thesis
  proof (rule insert_task_participant_Ret [OF run], goal_cases)
    case (1 row)
    have "put_participant row (gw_participants ?u) = gw_participants ?u @ [row]"
      using 1(2,4) by (auto simp: put_participant_def Let_def owner_of_def list_ex_iff)
    with 1 show ?case by (intro that [of row]) (simp_all add: owner_of_def)
  qed
qed

lemma insert_workflow_event_Ret:
  "insert_workflow_event_tx E nw conv tid src actor kind payload version s = (Ret row, t) \<longleftrightarrow>
     row = \<lparr>ge_id = env_uuid E (ids_drawn s), ge_conversation_id = conv, ge_task_id = tid, ge_source_message_id = src,
            ge_actor_principal_id = actor, ge_kind = kind, ge_payload = payload, ge_resulting_version = version,
            ge_created_at = nw\<rparr> \<and>
     as_object payload \<noteq> None \<and> env_uuid E (ids_drawn s) \<notin> ge_id ` set (gw_events s) \<and>
     t = s\<lparr>ids_drawn := Suc (ids_drawn s), gw_events := gw_events s @ [row]\<rparr>"
  by (auto simp: insert_workflow_event_tx_def runs Let_def list_ex_iff image_iff)

lemma fanout_Ret:
  assumes "insert_channel_task_fanout_event_tx E nw conv actor ty tid s = (Ret snap, t)"
  obtains ev where "t = s\<lparr>ids_drawn := Suc (ids_drawn s),
      conversation_events := conversation_events s @ [ev]\<rparr>"
    "channel_task_snapshot_tx tid s = (Ret snap, s)"
    "ev_conversation_id ev = conv" "ev_seq ev = next_seq conv (log_of s)" "ev_event_type ev = ty"
    "ev_event_id ev \<notin> ev_event_id ` set (conversation_events s)"
    "ev_turn_id ev = None" "ev_client_msg_id ev = None" "ev_metadata ev = fanout_metadata E ty snap"
proof -
  let ?ev = "\<lparr>ev_conversation_id = conv, ev_seq = next_seq conv (log_of s), ev_event_id = env_uuid E (ids_drawn s),
         ev_event_type = ty, ev_sender_id = (case actor of Some a \<Rightarrow> a | None \<Rightarrow> ''system''), ev_content = None,
         ev_content_type = ''application/vnd.choruz.channel-task+json'', ev_metadata = fanout_metadata E ty snap,
         ev_client_msg_id = None, ev_turn_id = None, ev_reply_event_id = None, ev_created_at = nw\<rparr>"
  have "u = s" if "channel_task_snapshot_tx tid s = (r, u)" for r u using reads_runs that checks_read(8) by blast
  with assms have "channel_task_snapshot_tx tid s = (Ret snap, s)"
    "t = s\<lparr>ids_drawn := Suc (ids_drawn s), conversation_events := conversation_events s @ [?ev]\<rparr>"
    "ev_event_id ?ev \<notin> ev_event_id ` set (conversation_events s)"
    by (auto simp: insert_channel_task_fanout_event_tx_def runs list_ex_iff image_iff log_of_ids)
  then show thesis by (intro that [of ?ev]) simp_all
qed

end
