(* ===== verification/Board_Inv.thy ===== *)
theory Board_Inv
  imports Board_Rules
begin

text \<open>
  The invariant of the task board and its preservation by the transactions' building blocks: rows agree on no
  unique index, every task has exactly one owner row, its assignee, and a task's events carry
  increasing versions up to the current one.
\<close>

section \<open>The invariant\<close>

text \<open>What a task keeps for good.\<close>

definition task_ident :: "task_row \<Rightarrow> string \<times> string \<times> string \<times> string option \<times> string option \<times> string option \<times>
    string \<times> string option \<times> timestamp" where
  "task_ident t = (gt_id t, gt_conversation_id t, gt_task_key t, gt_created_by t, gt_idempotency_key t,
     gt_idempotency_payload_hash t, gt_source_kind t, gt_source_message_id t, gt_created_at t)"

definition row_ok :: "task_row \<Rightarrow> bool" where
  "row_ok t \<longleftrightarrow> gt_status t \<in> set VALID_TASK_STATUSES \<and> gt_source_kind t \<in> {''agent'', ''message''} \<and> 1 \<le> gt_version t"

definition tasks_wf :: "board_db \<Rightarrow> bool" where
  "tasks_wf s \<longleftrightarrow> sorted_wrt (\<lambda>t u. \<not> clashes t u) (gw_tasks s) \<and> list_all row_ok (gw_tasks s)"

definition owners :: "board_db \<Rightarrow> string \<Rightarrow> string list" where
  "owners s i = map gp_principal_id (filter (owner_of i) (gw_participants s))"

definition owners_wf :: "board_db \<Rightarrow> bool" where
  "owners_wf s \<longleftrightarrow> (\<forall>t\<in>set (gw_tasks s). owners s (gt_id t) = [gt_assignee_principal_id t])"

definition history :: "board_db \<Rightarrow> string \<Rightarrow> int list" where
  "history s i = List.map_filter ge_resulting_version (filter (\<lambda>e. ge_task_id e = Some i) (gw_events s))"

definition history_wf :: "board_db \<Rightarrow> bool" where
  "history_wf s \<longleftrightarrow> distinct (map ge_id (gw_events s)) \<and>
     (\<forall>e\<in>set (gw_events s). \<forall>i. ge_task_id e = Some i \<longrightarrow> i \<in> gt_id ` set (gw_tasks s)) \<and>
     (\<forall>t\<in>set (gw_tasks s). sorted_wrt (<) (history s (gt_id t)) \<and> (\<forall>v\<in>set (history s (gt_id t)). v \<le> gt_version t))"

definition board_wf :: "board_db \<Rightarrow> bool" where
  "board_wf s \<longleftrightarrow> tasks_wf s \<and> owners_wf s \<and> history_wf s \<and> events_wf (log_of s)"

lemmas board_wf_defs = board_wf_def tasks_wf_def owners_wf_def history_wf_def owners_def history_def

lemma board_wf_cong:
  assumes "gw_tasks t = gw_tasks s" "gw_participants t = gw_participants s" "gw_events t = gw_events s"
    "conversation_events t = conversation_events s"
  shows "board_wf t = board_wf s"
  using assms by (simp add: board_wf_defs events_wf_def)

lemma board_wf_drawn: "drawn s t \<Longrightarrow> board_wf t = board_wf s"
  by (rule board_wf_cong) (simp_all add: drawn_tables)

lemma board_wf_world [simp]:
  "board_wf (s\<lparr>ids_drawn := n\<rparr>) = board_wf s" "board_wf (s\<lparr>clock_reads := c\<rparr>) = board_wf s"
  "board_wf (s\<lparr>gw_sequence := q\<rparr>) = board_wf s"
  by (rule board_wf_cong; simp)+

lemma board_wf_log:
  assumes "board_wf s" "gw_tasks t = gw_tasks s" "gw_participants t = gw_participants s" "gw_events t = gw_events s"
    "events_wf (log_of t)"
  shows "board_wf t"
  using assms by (simp add: board_wf_defs)

section \<open>Task rows\<close>

lemma same_idempotency_sym: "same_idempotency t u = same_idempotency u t"
  unfolding same_idempotency_def by metis

lemma same_message_sym: "same_message t u = same_message u t"
  unfolding same_message_def by metis

lemma clashes_sym: "clashes t u = clashes u t"
  unfolding clashes_def same_idempotency_sym [of t u] same_message_sym [of t u] by metis

lemma clashes_ident: "task_ident t = task_ident t' \<Longrightarrow> clashes t u = clashes t' u"
  by (simp add: clashes_def same_idempotency_def same_message_def task_ident_def)

lemma clashes_same_id: "gt_id t = gt_id u \<Longrightarrow> clashes t u"
  by (simp add: clashes_def)

lemma tasks_wf_distinct: "tasks_wf s \<Longrightarrow> distinct (map gt_id (gw_tasks s))"
proof -
  have "sorted_wrt (\<lambda>t u. \<not> clashes t u) ts \<Longrightarrow> distinct (map gt_id ts)" for ts
    by (induction ts) (auto simp: clashes_def)
  then show "tasks_wf s \<Longrightarrow> distinct (map gt_id (gw_tasks s))" by (simp add: tasks_wf_def)
qed

lemma task_with_id_Some: "task_with_id s i = Some t \<Longrightarrow> t \<in> set (gw_tasks s) \<and> gt_id t = i"
  by (auto simp: task_with_id_def find_Some_iff)

lemma task_with_id_wf: "tasks_wf s \<Longrightarrow> t \<in> set (gw_tasks s) \<Longrightarrow> task_with_id s (gt_id t) = Some t"
proof -
  have "distinct (map gt_id ts) \<Longrightarrow> t \<in> set ts \<Longrightarrow> find (\<lambda>u. gt_id u = gt_id t) ts = Some t" for ts
    by (induction ts) force+
  then show "tasks_wf s \<Longrightarrow> t \<in> set (gw_tasks s) \<Longrightarrow> task_with_id s (gt_id t) = Some t"
    using tasks_wf_distinct by (simp add: task_with_id_def)
qed

lemma tasks_wf_append:
  assumes "tasks_wf s" "\<not> list_ex (clashes row) (gw_tasks s)" "row_ok row" "gw_tasks t = gw_tasks s @ [row]"
  shows "tasks_wf t"
  using assms by (auto simp: tasks_wf_def sorted_wrt_append list_ex_iff clashes_sym)

lemma sorted_wrt_map_same:
  "sorted_wrt P xs \<Longrightarrow> (\<And>x y. x \<in> set xs \<Longrightarrow> y \<in> set xs \<Longrightarrow> P (f x) (f y) = P x y) \<Longrightarrow> sorted_wrt P (map f xs)"
  by (induction xs) auto

lemma tasks_wf_update:
  assumes "tasks_wf s" "task_with_id s i = Some t" "task_ident u = task_ident t" "row_ok u"
  shows "tasks_wf (update_task i (\<lambda>_. u) s)"
proof -
  let ?f = "\<lambda>x. if gt_id x = i then u else x"
  have same: "task_ident (?f x) = task_ident x" if "x \<in> set (gw_tasks s)" for x
    using that task_with_id_wf [OF assms(1) that] assms(2,3) by auto
  have "clashes (?f x) (?f y) = clashes x y" if "x \<in> set (gw_tasks s)" "y \<in> set (gw_tasks s)" for x y
    using same that clashes_ident clashes_sym by metis
  then have "sorted_wrt (\<lambda>t u. \<not> clashes t u) (map ?f (gw_tasks s))"
    using assms(1) unfolding tasks_wf_def by (intro sorted_wrt_map_same) auto
  then show ?thesis using assms(1,4) by (auto simp: tasks_wf_def update_task_def list_all_iff)
qed

section \<open>Building blocks\<close>

lemma history_append:
  "history (s\<lparr>gw_events := gw_events s @ [e]\<rparr>) i =
     history s i @ (if ge_task_id e = Some i then (case ge_resulting_version e of Some v \<Rightarrow> [v] | None \<Rightarrow> []) else [])"
  by (simp add: history_def List.map_filter_def split: option.split)

lemma fanout_wf:
  assumes "insert_channel_task_fanout_event_tx E nw conv actor ty tid s = (Ret snap, t)" "board_wf s"
  shows "board_wf t"
proof (rule fanout_Ret [OF assms(1)], goal_cases)
  case (1 ev)
  have "events_wf (log_of t)"
  proof (rule events_wf_append [of "log_of s" ev])
    show "events_wf (log_of s)" using assms(2) by (simp add: board_wf_def)
  qed (use 1(1,3,4,6,7,8) in simp_all)
  with 1(1) assms(2) show ?case by (intro board_wf_log [of s t]) simp_all
qed

text \<open>An event that carries no version, for a task that exists or for none.\<close>

lemma plain_event_wf:
  assumes "insert_workflow_event_tx E nw conv tid src actor kind payload None s = (Ret ev, t)" "board_wf s"
    "\<And>i. tid = Some i \<Longrightarrow> i \<in> gt_id ` set (gw_tasks s)"
  shows "board_wf t"
proof -
  note ev = assms(1) [unfolded insert_workflow_event_Ret]
  then have t: "gw_tasks t = gw_tasks s" "gw_participants t = gw_participants s" "gw_events t = gw_events s @ [ev]"
    "conversation_events t = conversation_events s" by simp_all
  have "history t i = history s i" for i
    using history_append [of s ev i] ev by (simp add: history_def)
  then show ?thesis
    using assms(2,3) ev t by (auto simp: board_wf_def tasks_wf_def owners_wf_def owners_def history_wf_def events_wf_def)
qed

text \<open>The owner row of one task changes, the others' stay.\<close>

lemma owners_sync:
  assumes "gw_participants t = filter (\<lambda>q. \<not> owner_of i q) (gw_participants s) @ [row]" "owner_of i row"
  shows "owners t j = (if j = i then [gp_principal_id row] else owners s j)"
proof -
  have "filter (owner_of j) (filter (\<lambda>q. \<not> owner_of i q) ps) = filter (owner_of j) ps" if "j \<noteq> i" for ps
    using that by (induction ps) (auto simp: owner_of_def)
  moreover have "filter (owner_of i) (filter (\<lambda>q. \<not> owner_of i q) ps) = []" for ps
    by (induction ps) auto
  moreover have "owner_of j row \<longleftrightarrow> j = i" using assms(2) by (auto simp: owner_of_def)
  ultimately show ?thesis using assms by (auto simp: owners_def)
qed

text \<open>The row that is updated is the one with the id.\<close>

lemma update_task_row_Ret:
  assumes "update_task_row_tx context nw i f s = (Ret row, t)" "tasks_wf s"
  obtains old where "task_with_id s i = Some old" "gt_version old \<noteq> INT8_MAX"
    "row = (f old)\<lparr>gt_version := gt_version old + 1, gt_updated_at := nw\<rparr>" "t = update_task i (\<lambda>_. row) s"
proof -
  let ?g = "\<lambda>t. (f t)\<lparr>gt_version := gt_version t + 1, gt_updated_at := nw\<rparr>"
  obtain old where old: "task_with_id s i = Some old" "gt_version old \<noteq> INT8_MAX" "row = ?g old" "t = update_task i ?g s"
    using assms(1) by (auto simp: update_task_row_tx_def runs Let_def split: option.splits if_splits)
  have "update_task i ?g s = update_task i (\<lambda>_. ?g old) s"
  proof -
    have "u = old" if "u \<in> set (gw_tasks s)" "gt_id u = i" for u
      using task_with_id_wf [OF assms(2)] that old(1) by force
    then have "map (\<lambda>t. if gt_id t = i then ?g t else t) (gw_tasks s) = map (\<lambda>t. if gt_id t = i then ?g old else t) (gw_tasks s)"
      by (intro map_cong) auto
    then show ?thesis by (simp add: update_task_def)
  qed
  with old that show thesis by metis
qed

text \<open>
  A row is created, or takes a new version: with the owner row and at most one event of that version
  the board is well-formed again.
\<close>

lemma board_wf_insert:
  assumes "board_wf s" "\<not> list_ex (clashes row) (gw_tasks s)" "row_ok row" "gt_version row = 1"
    and "gw_tasks t = gw_tasks s @ [row]" "conversation_events t = conversation_events s"
    and "\<And>j. owners t j = (if j = gt_id row then [gt_assignee_principal_id row] else owners s j)"
    and "gw_events t = gw_events s @ es" "distinct (map ge_id (gw_events t))"
    and "es = [] \<or> (\<exists>e. es = [e] \<and> ge_task_id e = Some (gt_id row) \<and> ge_resulting_version e = Some 1)"
  shows "board_wf t"
proof -
  have new: "gt_id row \<notin> gt_id ` set (gw_tasks s)"
    using assms(2) by (auto simp: list_ex_iff clashes_def)
  have "ge_task_id e \<noteq> Some (gt_id row)" if "e \<in> set (gw_events s)" for e
    using that new assms(1) by (auto simp: board_wf_def history_wf_def)
  then have none: "history s (gt_id row) = []"
    by (simp add: history_def List.map_filter_def filter_False)
  have hist: "history t j = (if j = gt_id row then map (\<lambda>_. 1) es else history s j)" for j
    using assms(8,10) none by (auto simp: history_def map_filter_append List.map_filter_def)
  have "tasks_wf t" by (rule tasks_wf_append [OF _ assms(2,3,5)]) (use assms(1) in \<open>simp add: board_wf_def\<close>)
  moreover have other: "gt_id u \<noteq> gt_id row" if "u \<in> set (gw_tasks s)" for u
    using new that by (metis imageI)
  have "owners_wf t" using assms(1,5,7) other by (auto simp: board_wf_def owners_wf_def)
  moreover have "history_wf t"
    using assms(1,4,5,8-10) other by (auto simp: board_wf_def history_wf_def hist)
  moreover have "events_wf (log_of t)" using assms(1,6) by (simp add: board_wf_def events_wf_def)
  ultimately show ?thesis by (simp add: board_wf_def)
qed

lemma board_wf_new_version:
  assumes "board_wf s" "task_with_id s i = Some old" "task_ident row = task_ident old" "row_ok row"
    and "gt_version row = gt_version old + 1"
    and "gw_tasks t = gw_tasks (update_task i (\<lambda>_. row) s)" "conversation_events t = conversation_events s"
    and "\<And>j. owners t j = (if j = i then [gt_assignee_principal_id row] else owners s j)"
    and "gw_events t = gw_events s @ es" "distinct (map ge_id (gw_events t))"
    and "es = [] \<or> (\<exists>e. es = [e] \<and> ge_task_id e = Some i \<and> ge_resulting_version e = Some (gt_version row))"
  shows "board_wf t"
proof -
  have old: "old \<in> set (gw_tasks s)" "gt_id old = i" using task_with_id_Some [OF assms(2)] by simp_all
  have rid: "gt_id row = i" using assms(3) old(2) by (simp add: task_ident_def)
  have tasks: "set (gw_tasks t) \<subseteq> insert row {u \<in> set (gw_tasks s). gt_id u \<noteq> i}"
    using assms(6) by (auto simp: update_task_def)
  have ids: "gt_id ` set (gw_tasks t) = gt_id ` set (gw_tasks s)"
  proof -
    have "gt_id (if gt_id u = i then row else u) = gt_id u" for u using rid by simp
    then have "map gt_id (gw_tasks t) = map gt_id (gw_tasks s)" by (simp add: assms(6) update_task_def)
    then show ?thesis by (metis set_map)
  qed
  have hist: "history t j = history s j @ (if j = i then map (\<lambda>_. gt_version row) es else [])" for j
    using assms(9,11) by (auto simp: history_def map_filter_append List.map_filter_def)
  have below: "v < gt_version row" if "v \<in> set (history s i)" for v
    using that assms(1,5) old by (fastforce simp: board_wf_def history_wf_def)
  have sorted: "sorted_wrt (<) (history s j)" if "j \<in> gt_id ` set (gw_tasks s)" for j
    using that assms(1) by (auto simp: board_wf_def history_wf_def)
  have "tasks_wf t" using assms(1-4,6) tasks_wf_update by (simp add: board_wf_def tasks_wf_def)
  moreover have "owners_wf t" using assms(1,8) tasks rid by (auto simp: board_wf_def owners_wf_def)
  moreover have "sorted_wrt (<) (history t (gt_id u)) \<and> (\<forall>v\<in>set (history t (gt_id u)). v \<le> gt_version u)"
    if u: "u \<in> set (gw_tasks t)" for u
  proof (cases "gt_id u = i")
    case True
    with u tasks have "u = row" by auto
    have "sorted_wrt (<) (history s i)" using sorted old by blast
    then show ?thesis using assms(11) below by (auto simp: hist rid \<open>u = row\<close> sorted_wrt_append less_imp_le)
  next
    case False
    with u tasks rid have "u \<in> set (gw_tasks s)" by auto
    then show ?thesis using assms(1) False by (simp add: hist board_wf_def history_wf_def)
  qed
  then have "history_wf t"
    using assms(1,9,10,11) ids old unfolding history_wf_def by (auto simp: board_wf_def history_wf_def)
  moreover have "events_wf (log_of t)" using assms(1,7) by (simp add: board_wf_def events_wf_def)
  ultimately show ?thesis by (simp add: board_wf_def)
qed

end
