(* ===== verification/Board_Create.thy ===== *)
theory Board_Create
  imports Board_Inv
begin

text \<open>
  Creating board tasks: generated keys are unused, the retry limit is never reached, and repeating a
  request gives back the task it created.
\<close>

section \<open>Generated keys\<close>

text \<open>A generated key is read back as its number.\<close>

lemma task_key_number_show: "0 \<le> n \<Longrightarrow> task_key_number (task_key_prefix @ show_int n) = Some n"
  by (simp add: task_key_number_def show_int_def Let_def starts_with_def show_nat_not_Nil show_nat_digits parse_show_nat)

lemma fold_max_upper: "x \<in> set xs \<Longrightarrow> x \<le> fold max xs (n :: int)" "n \<le> fold max xs n"
  using fold_max_ge [of _ n xs] by auto

lemma next_sequence_Ret:
  "next_channel_task_sequence_tx conv s = (Ret n, t) \<Longrightarrow> \<exists>q. t = s\<lparr>gw_sequence := q\<rparr>"
  by (auto simp: next_channel_task_sequence_tx_def runs)

lemma allocate_after_max_Ret:
  assumes "allocate_task_key_after_existing_max_tx conv s = (Ret k, t)"
  shows "(\<exists>q. t = s\<lparr>gw_sequence := q\<rparr>) \<and> \<not> key_taken s conv k"
proof -
  let ?top = "fold max (conversation_key_numbers s conv) 0"
  define n where "n = (case hm_get (gw_sequence s) conv of None \<Rightarrow> ?top + 1 + 1 | Some m \<Rightarrow> max (m + 1) (?top + 1 + 1))"
  have n: "k = task_key_prefix @ show_int (n - 1)" "?top + 2 \<le> n" "\<exists>q. t = s\<lparr>gw_sequence := q\<rparr>"
  proof -
    show "?top + 2 \<le> n" by (simp add: n_def max_def split: option.split)
    have "k = task_key_prefix @ show_int (n - 1) \<and> t = s\<lparr>gw_sequence := hm_insert conv n (gw_sequence s)\<rparr>"
      using assms by (simp add: allocate_task_key_after_existing_max_tx_def runs Let_def flip: n_def)
    then show "k = task_key_prefix @ show_int (n - 1)" "\<exists>q. t = s\<lparr>gw_sequence := q\<rparr>" by blast+
  qed
  have "0 \<le> ?top" by (rule fold_max_upper)
  have "\<not> key_taken s conv k"
  proof
    assume "key_taken s conv k"
    then obtain u where u: "u \<in> set (gw_tasks s)" "gt_conversation_id u = conv" "gt_task_key u = k"
      by (auto simp: key_taken_def list_ex_iff)
    have "task_key_number (gt_task_key u) = Some (n - 1)"
      using task_key_number_show n(1,2) u(3) \<open>0 \<le> ?top\<close> by simp
    then have "n - 1 \<in> set (conversation_key_numbers s conv)"
      using u(1,2) by (auto simp: conversation_key_numbers_def set_map_filter)
    from fold_max_upper(1) [OF this, of 0] n(2) show False by simp
  qed
  with n(3) show ?thesis by simp
qed

lemma allocate_key_Ret:
  "allocate_unused_task_key_attempts n conv s = (Ret k, t) \<Longrightarrow> (\<exists>q. t = s\<lparr>gw_sequence := q\<rparr>) \<and> \<not> key_taken s conv k"
proof (induction n arbitrary: s)
  case 0
  then show ?case using allocate_after_max_Ret by simp
next
  case (Suc n)
  then obtain i u where u: "next_channel_task_sequence_tx conv s = (Ret i, u)"
    and rest: "if key_taken u conv (task_key_prefix @ show_int i)
       then allocate_unused_task_key_attempts n conv u = (Ret k, t)
       else k = task_key_prefix @ show_int i \<and> t = u"
    by (auto simp: runs Let_def split: if_splits)
  obtain q where q: "u = s\<lparr>gw_sequence := q\<rparr>" using next_sequence_Ret [OF u] by blast
  have same: "key_taken u conv = key_taken s conv" by (simp add: q key_taken_def fun_eq_iff)
  show ?case
  proof (cases "key_taken u conv (task_key_prefix @ show_int i)")
    case True
    with rest Suc.IH [of u] obtain p where "t = u\<lparr>gw_sequence := p\<rparr>" "\<not> key_taken u conv k" by auto
    then show ?thesis using q same by auto
  qed (use rest q same in auto)
qed

lemma allocate_errors: "errors (\<lambda>e. e \<noteq> retries_exhausted) (allocate_unused_task_key_attempts n conv)"
proof (induction n)
  case 0
  then show ?case
    by (auto simp: allocate_task_key_after_existing_max_tx_def Let_def db_error_def retries_exhausted_def)
next
  case (Suc n)
  then show ?case
    by (auto simp: next_channel_task_sequence_tx_def Let_def db_error_def retries_exhausted_def)
qed

section \<open>Inserting\<close>

lemma insert_task_or_nothing_Ret:
  "insert_task_or_nothing row s = (Ret b, t) \<longleftrightarrow>
     (if list_ex (clashes row) (gw_tasks s) then \<not> b \<and> t = s else b \<and> t = s\<lparr>gw_tasks := gw_tasks s @ [row]\<rparr>)"
  by (auto simp: insert_task_or_nothing_def runs)

lemma insert_task_with_key_Ret:
  "insert_task_with_key row s = (Ret b, t) \<longleftrightarrow>
     (if list_ex (same_idempotency row) (gw_tasks s) then \<not> b \<and> t = s
      else b \<and> \<not> list_ex (clashes row) (gw_tasks s) \<and> t = s\<lparr>gw_tasks := gw_tasks s @ [row]\<rparr>)"
  by (auto simp: insert_task_with_key_def runs)

text \<open>Only the task table, the key sequence and the identifiers drawn may differ.\<close>

definition inserting :: "board_db \<Rightarrow> board_db \<Rightarrow> bool" where
  "inserting s t \<longleftrightarrow>
     s\<lparr>ids_drawn := 0, gw_sequence := [], gw_tasks := []\<rparr> = t\<lparr>ids_drawn := 0, gw_sequence := [], gw_tasks := []\<rparr>"

lemma inserting_steps [simp]:
  "inserting s s" "inserting s (t\<lparr>ids_drawn := n\<rparr>) = inserting s t" "inserting s (t\<lparr>gw_sequence := q\<rparr>) = inserting s t"
  "inserting s (t\<lparr>gw_tasks := ts\<rparr>) = inserting s t" "inserting (s\<lparr>ids_drawn := n\<rparr>) t = inserting s t"
  "inserting (s\<lparr>gw_sequence := q\<rparr>) t = inserting s t"
  by (simp_all add: inserting_def)

lemma inserting_tables:
  assumes "inserting s t"
  shows "gw_participants t = gw_participants s" "gw_events t = gw_events s"
    "conversation_events t = conversation_events s" "event_outbox t = event_outbox s"
    "bd_principals t = bd_principals s" "bd_conversations t = bd_conversations s" "bd_members t = bd_members s"
    "bd_policies t = bd_policies s" "bd_company_members t = bd_company_members s" "bd_companies t = bd_companies s"
  using assms unfolding inserting_def
  by (auto dest: arg_cong [of _ _ gw_participants] arg_cong [of _ _ gw_events]
      arg_cong [of _ _ conversation_events] arg_cong [of _ _ event_outbox]
      arg_cong [of _ _ bd_principals] arg_cong [of _ _ bd_conversations] arg_cong [of _ _ bd_members]
      arg_cong [of _ _ bd_policies] arg_cong [of _ _ bd_company_members] arg_cong [of _ _ bd_companies])

text \<open>
  The loop that inserts an agent's task creates one row that agrees with no other, or finds the task
  with the request's idempotency key and payload.
\<close>

lemma find_agent_cong: "gw_tasks t = gw_tasks s \<Longrightarrow> find_agent_idempotent_task t = find_agent_idempotent_task s"
  by (simp add: find_agent_idempotent_task_def fun_eq_iff)

lemma reuse_if_same_Ret: "reuse_if_same h p s = (Ret i, t) \<longleftrightarrow> p = (i, Some h) \<and> t = s"
  by (cases p) (auto simp: reuse_if_same_def)

lemma insert_agent_task_Ret:
  "insert_agent_task n E nw actor conv a st h req s = (Ret (c, i), t) \<Longrightarrow>
     inserting s t \<and>
     (if c then \<exists>k. gw_tasks t = gw_tasks s @ [agent_task_row nw actor conv i k a st h req] \<and>
                  \<not> list_ex (clashes (agent_task_row nw actor conv i k a st h req)) (gw_tasks s)
      else gw_tasks t = gw_tasks s \<and> find_agent_idempotent_task s conv actor (cq_idempotency_key req) = Some (i, Some h))"
proof (induction n arbitrary: s)
  case (Suc n)
  let ?s1 = "s\<lparr>ids_drawn := Suc (ids_drawn s)\<rparr>"
  let ?row = "\<lambda>k. agent_task_row nw actor conv (env_uuid E (ids_drawn s)) k a st h req"
  obtain k u where k: "(case cq_task_key req of Some key \<Rightarrow> st_ret key | None \<Rightarrow> allocate_unused_task_key_tx conv) ?s1 = (Ret k, u)"
    and rest: "st_bind (if cq_task_key req \<noteq> None then insert_task_with_key (?row k) else insert_task_or_nothing (?row k))
       (\<lambda>inserted. if inserted then st_ret (True, env_uuid E (ids_drawn s))
         else st_bind (st_get (\<lambda>s. find_agent_idempotent_task s conv actor (cq_idempotency_key req))) (\<lambda>existing.
            case existing of
              Some e \<Rightarrow> st_bind (reuse_if_same h e) (\<lambda>existing_id. st_ret (False, existing_id))
            | None \<Rightarrow> if cq_task_key req \<noteq> None then st_lift (Fail idempotency_conflict)
                else insert_agent_task n E nw actor conv a st h req)) u = (Ret (c, i), t)"
    using Suc.prems by (auto simp: runs Let_def)
  have u: "inserting s u" "gw_tasks u = gw_tasks s"
    using k by (auto simp: allocate_unused_task_key_tx_def split: option.splits dest!: allocate_key_Ret)
  from rest obtain b v where b: "(if cq_task_key req \<noteq> None then insert_task_with_key (?row k) else insert_task_or_nothing (?row k)) u = (Ret b, v)"
    and rest: "(if b then st_ret (True, env_uuid E (ids_drawn s))
         else st_bind (st_get (\<lambda>s. find_agent_idempotent_task s conv actor (cq_idempotency_key req))) (\<lambda>existing.
            case existing of
              Some e \<Rightarrow> st_bind (reuse_if_same h e) (\<lambda>existing_id. st_ret (False, existing_id))
            | None \<Rightarrow> if cq_task_key req \<noteq> None then st_lift (Fail idempotency_conflict)
                else insert_agent_task n E nw actor conv a st h req)) v = (Ret (c, i), t)"
    by (auto simp: st_bind_Ret)
  show ?case
  proof (cases b)
    case True
    then have "c" "i = env_uuid E (ids_drawn s)" "t = v" using rest by simp_all
    moreover have "v = u\<lparr>gw_tasks := gw_tasks u @ [?row k]\<rparr>" "\<not> list_ex (clashes (?row k)) (gw_tasks u)"
      using b True by (auto simp: insert_task_with_key_Ret insert_task_or_nothing_Ret split: if_splits)
    ultimately show ?thesis using u by auto
  next
    case False
    then have v: "v = u" using b by (auto simp: insert_task_with_key_Ret insert_task_or_nothing_Ret split: if_splits)
    have same: "find_agent_idempotent_task v = find_agent_idempotent_task s" using find_agent_cong u(2) v by blast
    show ?thesis
    proof (cases "find_agent_idempotent_task s conv actor (cq_idempotency_key req)")
      case None
      with rest False same have "insert_agent_task n E nw actor conv a st h req v = (Ret (c, i), t)"
        by (auto simp: runs split: if_splits)
      from Suc.IH [OF this] show ?thesis using u v same by (auto simp: inserting_def split: if_splits)
    next
      case (Some e)
      with rest False same have "c = False" "e = (i, Some h)" "t = v" by (auto simp: runs reuse_if_same_Ret)
      then show ?thesis using u v Some by simp
    qed
  qed
qed simp

lemma find_message_cong: "gw_tasks t = gw_tasks s \<Longrightarrow> find_message_derived_task t = find_message_derived_task s"
  by (simp add: find_message_derived_task_def fun_eq_iff)

lemma insert_message_task_Ret:
  "insert_message_task n E nw actor conv req s = (Ret (c, i), t) \<Longrightarrow>
     inserting s t \<and>
     (if c then \<exists>k. gw_tasks t = gw_tasks s @ [message_task_row nw actor conv i k req] \<and>
                  \<not> list_ex (clashes (message_task_row nw actor conv i k req)) (gw_tasks s)
      else gw_tasks t = gw_tasks s \<and> find_message_derived_task s conv actor (fm_message_id req) = Some i)"
proof (induction n arbitrary: s)
  case (Suc n)
  let ?row = "\<lambda>k u. message_task_row nw actor conv (env_uuid E (ids_drawn u)) k req"
  obtain k u where k: "allocate_unused_task_key_tx conv s = (Ret k, u)"
    and rest: "insert_message_task (Suc n) E nw actor conv req s = (Ret (c, i), t)"
    using Suc.prems by (auto simp: runs)
  have u: "inserting s u" "gw_tasks u = gw_tasks s"
    using k by (auto simp: allocate_unused_task_key_tx_def dest!: allocate_key_Ret)
  let ?v = "u\<lparr>ids_drawn := Suc (ids_drawn u)\<rparr>"
  have same: "find_message_derived_task ?v = find_message_derived_task s"
    by (rule find_message_cong) (simp add: u(2))
  show ?case
  proof (cases "list_ex (clashes (?row k u)) (gw_tasks s)")
    case False
    with rest k u(2) have "c" "i = env_uuid E (ids_drawn u)" "t = ?v\<lparr>gw_tasks := gw_tasks s @ [?row k u]\<rparr>"
      by (auto simp: runs insert_task_or_nothing_Ret)
    with False u show ?thesis by auto
  next
    case clash: True
    show ?thesis
    proof (cases "find_message_derived_task s conv actor (fm_message_id req)")
      case None
      with rest k u(2) clash same have "insert_message_task n E nw actor conv req ?v = (Ret (c, i), t)"
        by (auto simp: runs insert_task_or_nothing_Ret)
      from Suc.IH [OF this] show ?thesis using u same by (auto simp: inserting_def split: if_splits)
    next
      case (Some e)
      with rest k u(2) clash same have "c = False" "e = i" "t = ?v"
        by (auto simp: runs insert_task_or_nothing_Ret)
      then show ?thesis using u Some by simp
    qed
  qed
qed simp

text \<open>The rest of a creation completes the new row's records.\<close>

lemma announce_created_Ret:
  assumes "announce_created E nw actor conv i src a vals u = (Ret snap, t)"
  obtains owner ev w where "owner_of i owner" "gp_principal_id owner = a"
    "gw_participants w = filter (\<lambda>q. \<not> owner_of i q) (gw_participants u) @ [owner]"
    "gw_tasks w = gw_tasks u" "conversation_events w = conversation_events u" "event_outbox w = event_outbox u"
    "gw_events w = gw_events u @ [ev]" "ge_id ev \<notin> ge_id ` set (gw_events u)"
    "ge_task_id ev = Some i" "ge_resulting_version ev = Some 1" "ge_actor_principal_id ev = Some actor"
    "ge_payload ev = jobj [(''new'', jobj vals)]"
    "insert_channel_task_fanout_event_tx E nw conv (Some actor) ''channel_task.created'' i w = (Ret snap, t)"
proof -
  obtain x v ev w where v: "sync_owner_participant_tx E conv i a u = (Ret x, v)"
    and w: "insert_workflow_event_tx E nw conv (Some i) src (Some actor) ''channel_task.created''
        (jobj [(''new'', jobj vals)]) (Some 1) v = (Ret ev, w)"
    and f: "insert_channel_task_fanout_event_tx E nw conv (Some actor) ''channel_task.created'' i w = (Ret snap, t)"
    using assms by (auto simp: announce_created_def runs)
  show thesis
  proof (rule sync_owner_participant_Ret [OF v], goal_cases)
    case (1 owner)
    note w = w [unfolded insert_workflow_event_Ret]
    show ?case by (rule that [of owner w ev, OF _ _ _ _ _ _ _ _ _ _ _ _ f]) (use w 1 in simp_all)
  qed
qed

lemma announce_created_wf:
  assumes "announce_created E nw actor conv (gt_id row) src (gt_assignee_principal_id row) vals u = (Ret snap, t)"
    and "board_wf s" "\<not> list_ex (clashes row) (gw_tasks s)" "row_ok row" "gt_version row = 1"
    and "gw_tasks u = gw_tasks s @ [row]" "gw_participants u = gw_participants s" "gw_events u = gw_events s"
      "conversation_events u = conversation_events s"
  shows "board_wf t"
proof (rule announce_created_Ret [OF assms(1)], goal_cases)
  case (1 owner ev w)
  have "distinct (map ge_id (gw_events s))" using assms(2) by (simp add: board_wf_def history_wf_def)
  then have "distinct (map ge_id (gw_events w))" using 1(7,8) assms(8) by auto
  moreover have "owners w j = (if j = gt_id row then [gt_assignee_principal_id row] else owners s j)" for j
    using owners_sync [of w "gt_id row" s owner] 1(1-3) assms(7) by simp
  ultimately have "board_wf w"
    using 1 assms by (intro board_wf_insert [of s row w "[ev]"]) simp_all
  then show ?case using fanout_wf [OF 1(13)] by blast
qed

text \<open>A created task's row is the request's.\<close>

lemma status_as_str_valid: "channel_task_status_as_str st \<in> set VALID_TASK_STATUSES"
  by (cases st) (simp_all add: VALID_TASK_STATUSES_def)

lemma created_rows_ok:
  "row_ok (agent_task_row nw actor conv i k a st h req)" "row_ok (message_task_row nw actor conv i k mreq)"
  by (simp_all add: row_ok_def agent_task_row_def message_task_row_def status_as_str_valid)
     (simp add: VALID_TASK_STATUSES_def)

end
