(* ===== verification/Board_Steps.thy ===== *)
theory Board_Steps
  imports Board_Create
begin

text \<open>
  Every call of the task board keeps its invariant and only adds to it: tasks stay with their identity and
  never lose a version, events and the conversation log only grow, and the outbox is not written.
\<close>

section \<open>Patches\<close>

text \<open>The row a patch leaves, and who may make it.\<close>

definition patched_row :: "timestamp \<Rightarrow> task_row \<Rightarrow> patch_channel_task_request \<Rightarrow> task_row" where
  "patched_row nw existing request = existing
     \<lparr>gt_status := (case pr_status request of Some st \<Rightarrow> channel_task_status_as_str st | None \<Rightarrow> gt_status existing),
      gt_assignee_principal_id :=
        (case pr_assignee_principal_id request of Some a \<Rightarrow> a | None \<Rightarrow> gt_assignee_principal_id existing),
      gt_blocked_reason := apply_nullable_patch (gt_blocked_reason existing) (pr_blocked_reason request),
      gt_context_label := apply_nullable_patch (gt_context_label existing) (pr_context_label request),
      gt_version := gt_version existing + 1, gt_updated_at := nw\<rparr>"

lemma patched_row_ident [simp]:
  "task_ident (patched_row nw t r) = task_ident t" "gt_version (patched_row nw t r) = gt_version t + 1"
  "gt_id (patched_row nw t r) = gt_id t" "gt_conversation_id (patched_row nw t r) = gt_conversation_id t"
  by (simp_all add: patched_row_def task_ident_def)

lemma patched_row_ok: "row_ok t \<Longrightarrow> row_ok (patched_row nw t r)"
  by (auto simp: row_ok_def patched_row_def status_as_str_valid split: option.splits)

lemma apply_authorized_Ret:
  assumes "apply_authorized_channel_task_patch_tx E nw actor existing req kind src base s = (Ret ev, t)"
    and "tasks_wf s" "task_with_id s (gt_id existing) = Some existing"
  obtains owner where
    "gw_tasks t = gw_tasks (update_task (gt_id existing) (\<lambda>_. patched_row nw existing req) s)"
    "gw_participants t = filter (\<lambda>q. \<not> owner_of (gt_id existing) q) (gw_participants s) @ [owner]"
    "owner_of (gt_id existing) owner" "gp_principal_id owner = gt_assignee_principal_id (patched_row nw existing req)"
    "gw_events t = gw_events s @ [ev]" "ge_id ev \<notin> ge_id ` set (gw_events s)"
    "ge_task_id ev = Some (gt_id existing)" "ge_resulting_version ev = Some (gt_version existing + 1)"
    "ge_actor_principal_id ev = actor" "ge_kind ev = kind" "ge_conversation_id ev = gt_conversation_id existing"
    "ge_payload ev = patched_payload actor existing (patched_row nw existing req) base"
    "conversation_events t = conversation_events s" "event_outbox t = event_outbox s"
    "member_row t = member_row s"
    "member_row s (gt_conversation_id existing) (gt_assignee_principal_id (patched_row nw existing req)) same_workspace \<noteq> None"
proof -
  let ?f = "\<lambda>t. t\<lparr>gt_status := (case pr_status req of Some st \<Rightarrow> channel_task_status_as_str st | None \<Rightarrow> gt_status existing),
      gt_assignee_principal_id := (case pr_assignee_principal_id req of Some a \<Rightarrow> a | None \<Rightarrow> gt_assignee_principal_id existing),
      gt_blocked_reason := apply_nullable_patch (gt_blocked_reason existing) (pr_blocked_reason req),
      gt_context_label := apply_nullable_patch (gt_context_label existing) (pr_context_label req)\<rparr>"
  let ?a = "case pr_assignee_principal_id req of Some a \<Rightarrow> a | None \<Rightarrow> gt_assignee_principal_id existing"
  obtain row u x v where
    u: "update_task_row_tx ''patch channel task'' nw (gt_id existing) ?f s = (Ret row, u)" and
    v: "sync_owner_participant_tx E (gt_conversation_id existing) (gt_id existing) ?a u = (Ret x, v)" and
    w: "insert_workflow_event_tx E nw (gt_conversation_id existing) (Some (gt_id existing)) src actor kind
       (patched_payload actor existing row base) (Some (gt_version row)) v = (Ret ev, t)"
    using assms(1) by (auto simp: apply_authorized_channel_task_patch_tx_def runs Let_def)
  show thesis
  proof (rule update_task_row_Ret [OF u assms(2)], rule sync_owner_participant_Ret [OF v], goal_cases)
    case (1 old owner)
    have old: "old = existing" using 1(1) assms(3) by simp
    have row: "row = patched_row nw existing req" unfolding 1(3) old by (simp add: patched_row_def)
    have a: "gt_assignee_principal_id row = ?a" by (simp add: row patched_row_def split: option.split)
    note w = w [unfolded insert_workflow_event_Ret]
    show ?case
      by (rule that [of owner]) (use w 1(4-) row a in \<open>simp_all add: update_task_def\<close>)
  qed
qed

lemma apply_authorized_wf:
  assumes "apply_authorized_channel_task_patch_tx E nw actor existing req kind src base s = (Ret ev, t)"
    and "board_wf s" "task_with_id s (gt_id existing) = Some existing"
  shows "board_wf t"
proof -
  have wf: "tasks_wf s" using assms(2) by (simp add: board_wf_def)
  show ?thesis
  proof (rule apply_authorized_Ret [OF assms(1) wf assms(3)], goal_cases)
    case (1 owner)
    have "distinct (map ge_id (gw_events s))" using assms(2) by (simp add: board_wf_def history_wf_def)
    then have "distinct (map ge_id (gw_events t))" using 1(5,6) by auto
    moreover have "owners t j = (if j = gt_id existing then [gt_assignee_principal_id (patched_row nw existing req)]
        else owners s j)" for j
      using owners_sync [OF 1(2,3)] 1(4) by simp
    moreover have "row_ok existing" using wf task_with_id_Some [OF assms(3)] by (simp add: tasks_wf_def list_all_iff)
    ultimately show ?case
      using 1 assms(2,3)
      by (intro board_wf_new_version [of s "gt_id existing" existing "patched_row nw existing req" t "[ev]"])
         (simp_all add: patched_row_ok)
  qed
qed

lemmas check_runs = checks_read [THEN reads_runs] authorize_patch_reads [THEN reads_runs] resolve_reads [THEN reads_runs]

lemma lock_Ret: "lock_group_workflow_task_tx i s = (Ret row, t) \<longleftrightarrow> task_with_id s i = Some row \<and> t = s"
  by (auto simp: lock_group_workflow_task_tx_def runs split: option.splits)

lemma get_task_Ret: "get_task i s = (Ret row, t) \<longleftrightarrow> task_with_id s i = Some row \<and> t = s"
  by (auto simp: get_task_def runs split: option.splits)

lemma member_access_Ret:
  "require_channel_task_member_access_tx actor conv s = (Ret ty, t) \<longleftrightarrow>
     (\<exists>p. member_row s conv actor (member_or_company s actor) = Some p \<and> pp_type p = ty) \<and> trim actor \<noteq> [] \<and> t = s"
  by (auto simp: require_channel_task_member_access_tx_def runs validate_required_text_def split: option.splits if_splits)

text \<open>Who may change a task: a human who has access, the agent it is assigned to, or the coordinator.\<close>

definition may_patch :: "board_db \<Rightarrow> string \<Rightarrow> task_row \<Rightarrow> bool" where
  "may_patch s actor t \<longleftrightarrow>
     (\<exists>p. member_row s (gt_conversation_id t) actor (member_or_company s actor) = Some p \<and>
        (pp_type p = ''human'' \<or>
         pp_type p = ''agent'' \<and> member_row s (gt_conversation_id t) actor visible_group_agent \<noteq> None \<and>
         (gt_assignee_principal_id t = actor \<or> is_configured_channel_task_coordinator s actor (gt_conversation_id t))))"

text \<open>Whom a task may be given to: a visible member, and by an agent only another agent.\<close>

definition may_assign :: "board_db \<Rightarrow> string \<Rightarrow> task_row \<Rightarrow> string \<Rightarrow> bool" where
  "may_assign s actor t a \<longleftrightarrow>
     (\<exists>q. member_row s (gt_conversation_id t) a visible_member = Some q \<and>
        (pp_type q = ''agent'' \<or> pp_type q = ''human'' \<and>
           (\<exists>p. member_row s (gt_conversation_id t) actor (member_or_company s actor) = Some p \<and> pp_type p = ''human'')))"

lemma apply_patch_Ret:
  assumes "apply_channel_task_patch_tx E nw actor existing req wk kind src base s = (Ret ev, t)"
  shows "apply_authorized_channel_task_patch_tx E nw (Some actor) existing req kind src base s = (Ret ev, t)"
    "\<And>a. pr_assignee_principal_id req = Some a \<Longrightarrow> may_assign s actor existing a"
    "wk = None \<Longrightarrow> may_patch s actor existing"
    "\<And>k. wk = Some k \<Longrightarrow> \<exists>p. member_row s (gt_conversation_id existing) actor (member_or_company s actor) = Some p \<and>
       workflow_actor_authorized s actor (pp_type p) existing k = Inr ()"
proof -
  obtain ty u where ty: "require_channel_task_member_access_tx actor (gt_conversation_id existing) s = (Ret ty, u)"
    and rest: "apply_channel_task_patch_tx E nw actor existing req wk kind src base s = (Ret ev, t)"
    using assms by (auto simp: apply_channel_task_patch_tx_def runs)
  obtain p where p: "member_row s (gt_conversation_id existing) actor (member_or_company s actor) = Some p" "pp_type p = ty"
    and u: "u = s" using ty by (auto simp: member_access_Ret)
  let ?auth = "case wk of Some k \<Rightarrow> st_bind (authorize_workflow_metadata_patch_tx actor ty existing k) (\<lambda>_. st_ret False)
       | None \<Rightarrow> authorize_channel_task_patch_tx actor ty existing req"
  let ?check = "\<lambda>co. case pr_assignee_principal_id req of
         None \<Rightarrow> st_ret ()
       | Some a \<Rightarrow> validate_visible_channel_task_assignee_tx (gt_conversation_id existing) a (ty = ''human'' \<and> \<not> co) True"
  obtain co v x w where v: "?auth s = (Ret co, v)" and w: "?check co v = (Ret x, w)"
    and fin: "apply_authorized_channel_task_patch_tx E nw (Some actor) existing req kind src base w = (Ret ev, t)"
    using rest ty u by (auto simp: apply_channel_task_patch_tx_def st_bind_Ret)
  have "reads ?auth" "reads (?check co)" by auto
  then have vw: "v = s" "w = s" using v w reads_runs by metis+
  show "apply_authorized_channel_task_patch_tx E nw (Some actor) existing req kind src base s = (Ret ev, t)"
    using fin vw by simp
  show "may_assign s actor existing a" if "pr_assignee_principal_id req = Some a" for a
    using w vw that p by (auto simp: validate_visible_channel_task_assignee_tx_def runs may_assign_def split: option.splits if_splits)
  show "may_patch s actor existing" if "wk = None"
    using v vw that p
    by (auto simp: authorize_channel_task_patch_tx_def require_visible_group_agent_actor_tx_def runs may_patch_def Let_def
        split: option.splits if_splits)
  show "\<exists>p. member_row s (gt_conversation_id existing) actor (member_or_company s actor) = Some p \<and>
       workflow_actor_authorized s actor (pp_type p) existing k = Inr ()" if "wk = Some k" for k
    using v vw that p by (auto simp: authorize_workflow_metadata_patch_tx_def runs)
qed

end
