(* ===== verification/Board_Calls_Inv.thy ===== *)
theory Board_Calls_Inv
  imports Board_Steps
begin

text \<open>
  The step relation of the task board and the two things every call guarantees: the invariant is
  kept, and the board only grows.
\<close>

section \<open>Workflow events\<close>

text \<open>An operation that, when it fails with one of the given errors, has written nothing.\<close>

definition fails_clean :: "(app_error \<Rightarrow> bool) \<Rightarrow> 'a board_op \<Rightarrow> bool" where
  "fails_clean P m \<longleftrightarrow> (\<forall>s e t. m s = (Fail e, t) \<longrightarrow> P e \<longrightarrow> t = s)"

lemma fails_clean_reads: "reads m \<Longrightarrow> fails_clean P m"
  by (auto simp: fails_clean_def reads_def)

lemma fails_clean_errors: "errors (\<lambda>e. \<not> P e) m \<Longrightarrow> fails_clean P m"
  unfolding fails_clean_def errors_def by blast

lemma fails_clean_bind: "reads m \<Longrightarrow> (\<And>x. fails_clean P (f x)) \<Longrightarrow> fails_clean P (st_bind m f)"
  unfolding fails_clean_def by (auto simp: runs dest: reads_runs)

definition is_forbidden :: "app_error \<Rightarrow> bool" where
  "is_forbidden e \<longleftrightarrow> (\<exists>d. e = Forbidden d)"

lemma writes_not_forbidden:
  "errors (\<lambda>e. \<not> is_forbidden e) (insert_task_participant_tx E c i p b)"
  "errors (\<lambda>e. \<not> is_forbidden e) (sync_owner_participant_tx E c i a)"
  "errors (\<lambda>e. \<not> is_forbidden e) (insert_workflow_event_tx E nw c oi src actor k payload v)"
  "errors (\<lambda>e. \<not> is_forbidden e) (update_task_row_tx ctx nw i f)"
  unfolding insert_task_participant_tx_def sync_owner_participant_tx_def insert_workflow_event_tx_def
    update_task_row_tx_def Let_def
  by (auto simp: is_forbidden_def db_error_def owner_is_synchronized_def validate_required_text_def split: if_splits option.splits)

lemma apply_authorized_not_forbidden:
  "errors (\<lambda>e. \<not> is_forbidden e) (apply_authorized_channel_task_patch_tx E nw actor existing req kind src base)"
  unfolding apply_authorized_channel_task_patch_tx_def Let_def by (auto simp: writes_not_forbidden)

lemma apply_patch_forbidden_clean:
  "fails_clean is_forbidden (apply_channel_task_patch_tx E nw actor existing req wk kind src base)"
  unfolding apply_channel_task_patch_tx_def
  by (intro fails_clean_bind fails_clean_errors [OF apply_authorized_not_forbidden]) auto

text \<open>What a member's event does: it patches the task's status, or only leaves a note.\<close>

lemma workflow_update_cases:
  assumes "apply_workflow_status_update_tx E nw task actor kind src eff payload s = (Ret ev, t)"
  obtains (patch) st existing p where "eff = UpdateStatus st" "task_with_id s (gt_id task) = Some existing"
      "apply_authorized_channel_task_patch_tx E nw (Some actor) existing (status_patch st) kind src payload s = (Ret ev, t)"
      "member_row s (gt_conversation_id existing) actor (member_or_company s actor) = Some p"
      "workflow_actor_authorized s actor (pp_type p) existing kind = Inr ()"
  | (remark) row reason effect detail where "gt_id row = gt_id task"
      "diagnostic_event E nw row (Some actor) kind src payload reason effect detail s = (Ret ev, t)"
proof (cases eff)
  case (UpdateStatus st)
  then obtain existing r u where ex: "task_with_id s (gt_id task) = Some existing"
    and r: "(\<exists>x. apply_channel_task_patch_tx E nw actor existing (status_patch st) (Some kind) kind src payload s = (Ret x, u) \<and> r = Inr x) \<or>
       (\<exists>e. apply_channel_task_patch_tx E nw actor existing (status_patch st) (Some kind) kind src payload s = (Fail e, u) \<and> r = Inl e)"
    and fin: "(case r of Inr event \<Rightarrow> st_ret event
          | Inl (Forbidden detail) \<Rightarrow>
              diagnostic_event E nw existing (Some actor) kind src payload ''workflow_status_unauthorized''
                (Some (channel_task_status_as_str st)) (Some detail)
          | Inl e \<Rightarrow> st_lift (Fail e)) u = (Ret ev, t)"
    using assms by (auto simp: apply_workflow_status_update_tx_def st_bind_Ret lock_Ret st_try_runs)
  show thesis
  proof (cases r)
    case (Inr x)
    with r fin have run: "apply_channel_task_patch_tx E nw actor existing (status_patch st) (Some kind) kind src payload s = (Ret ev, t)"
      by auto
    from apply_patch_Ret(4) [OF run refl] obtain p where
      "member_row s (gt_conversation_id existing) actor (member_or_company s actor) = Some p"
      "workflow_actor_authorized s actor (pp_type p) existing kind = Inr ()" by blast
    with patch [OF UpdateStatus ex apply_patch_Ret(1) [OF run]] show thesis by blast
  next
    case (Inl e)
    with fin obtain d where e: "e = Forbidden d" by (cases e) simp_all
    with Inl r have "apply_channel_task_patch_tx E nw actor existing (status_patch st) (Some kind) kind src payload s = (Fail (Forbidden d), u)"
      by auto
    then have "u = s" using apply_patch_forbidden_clean unfolding fails_clean_def is_forbidden_def by blast
    with fin Inl e task_with_id_Some [OF ex] show thesis by (intro remark [of existing]) auto
  qed
next
  case KnownNoop
  then show thesis
    using assms
    by (auto simp: apply_workflow_status_update_tx_def st_bind_Ret lock_Ret st_try_runs member_access_Ret
        authorize_workflow_metadata_patch_tx_def st_ask_runs split: app_error.splits
        intro: remark dest!: task_with_id_Some)
next
  case Unsupported
  then show thesis using assms remark [of task] by (auto simp: apply_workflow_status_update_tx_def)
qed

end
