(* ===== verification/Board_Grows.thy ===== *)
theory Board_Grows
  imports Board_Calls_Inv "HOL-Library.Sublist"
begin

text \<open>
  What every call of the task board guarantees to the calls it is interleaved with: tasks keep their identity, a
  changed task has a higher version, and the history and the conversation log are only extended.
\<close>

section \<open>The guarantee\<close>

definition later :: "task_row \<Rightarrow> task_row \<Rightarrow> bool" where
  "later t u \<longleftrightarrow> u = t \<or> task_ident u = task_ident t \<and> gt_version t < gt_version u"

definition grows :: "board_db \<Rightarrow> board_db \<Rightarrow> bool" where
  "grows s t \<longleftrightarrow>
     (\<exists>ts new. gw_tasks t = ts @ new \<and> list_all2 later (gw_tasks s) ts) \<and>
     prefix (gw_events s) (gw_events t) \<and> prefix (conversation_events s) (conversation_events t)"

lemma later_refl [simp]: "later t t"
  by (simp add: later_def)

lemma later_trans: "later t u \<Longrightarrow> later u v \<Longrightarrow> later t v"
  by (auto simp: later_def)

lemma grows_same:
  "gw_tasks t = gw_tasks s \<Longrightarrow> prefix (gw_events s) (gw_events t) \<Longrightarrow>
    prefix (conversation_events s) (conversation_events t) \<Longrightarrow> grows s t"
  unfolding grows_def by (metis append_Nil2 later_refl list_all2_refl)

lemma grows_self [simp]: "grows s s"
  by (rule grows_same) simp_all

lemma grows_trans:
  assumes "grows s t" "grows t u"
  shows "grows s u"
proof -
  obtain ts new us more where t: "gw_tasks t = ts @ new" "list_all2 later (gw_tasks s) ts"
    and u: "gw_tasks u = us @ more" "list_all2 later (ts @ new) us"
    using assms unfolding grows_def by metis
  obtain us1 us2 where us: "us = us1 @ us2" "list_all2 later ts us1"
    using u(2) by (auto simp: list_all2_append1)
  have "list_all2 later (gw_tasks s) us1"
    by (rule list_all2_trans [OF later_trans t(2) us(2)])
  moreover have "gw_tasks u = us1 @ (us2 @ more)" using u(1) us(1) by simp
  ultimately show ?thesis
    using assms unfolding grows_def by (meson prefix_order.trans)
qed

lemma grows_drawn: "drawn s t \<Longrightarrow> grows s t"
  by (rule grows_same) (simp_all add: drawn_tables)

lemma grows_world [simp]:
  "grows (s\<lparr>clock_reads := c\<rparr>) t = grows s t" "grows s (t\<lparr>clock_reads := c\<rparr>) = grows s t"
  "grows (s\<lparr>ids_drawn := n\<rparr>) t = grows s t" "grows s (t\<lparr>ids_drawn := n\<rparr>) = grows s t"
  by (simp_all add: grows_def)

lemma grows_task:
  assumes "grows s t" "task_with_id s i = Some x"
  shows "\<exists>y. task_with_id t i = Some y \<and> later x y"
proof -
  have "\<exists>y. find P (ts @ new) = Some y \<and> later x y"
    if "find P xs = Some x" "list_all2 later xs ts" "P = (\<lambda>t. gt_id t = i)" for P xs ts new
    using that(2,1) by (induction rule: list_all2_induct) (auto simp: that(3) later_def task_ident_def split: if_splits)
  then show ?thesis using assms unfolding grows_def task_with_id_def by metis
qed

lemma grows_ids: "grows s t \<Longrightarrow> i \<in> gt_id ` set (gw_tasks s) \<Longrightarrow> i \<in> gt_id ` set (gw_tasks t)"
proof -
  have "i \<in> gt_id ` set xs \<Longrightarrow> i \<in> gt_id ` set ts" if "list_all2 later xs ts" for xs ts
    using that by (induction rule: list_all2_induct) (auto simp: later_def task_ident_def)
  then show "grows s t \<Longrightarrow> i \<in> gt_id ` set (gw_tasks s) \<Longrightarrow> i \<in> gt_id ` set (gw_tasks t)"
    unfolding grows_def by (metis image_Un set_append UnI1)
qed

section \<open>Operations that only add\<close>

definition growing :: "'a board_op \<Rightarrow> bool" where
  "growing m \<longleftrightarrow> (\<forall>s r t. m s = (r, t) \<longrightarrow> grows s t)"

lemma growingD: "growing m \<Longrightarrow> m s = (r, t) \<Longrightarrow> grows s t"
  unfolding growing_def by blast

lemma growing_reads [intro]: "reads m \<Longrightarrow> growing m"
  unfolding growing_def by (metis grows_self reads_runs)

lemma growing_upd [intro!]: "(\<And>s. grows s (f s)) \<Longrightarrow> growing (st_upd f)"
  by (simp add: growing_def st_upd_def)

lemma growing_draw [intro!]: "growing (st_draw (new_id E))"
  by (auto simp: growing_def st_draw_def new_id_def intro: grows_same)

lemma growing_bind [intro!]: "growing m \<Longrightarrow> (\<And>x. growing (f x)) \<Longrightarrow> growing (st_bind m f)"
  unfolding growing_def by (fastforce simp: st_bind_def split: prod.splits exec.splits intro: grows_trans)

lemma growing_cases [intro!]:
  "(b \<Longrightarrow> growing m) \<Longrightarrow> (\<not> b \<Longrightarrow> growing n) \<Longrightarrow> growing (if b then m else n)"
  "(x = None \<Longrightarrow> growing n) \<Longrightarrow> (\<And>y. x = Some y \<Longrightarrow> growing (g y)) \<Longrightarrow> growing (case x of None \<Rightarrow> n | Some y \<Rightarrow> g y)"
  "(\<And>e. z = Inl e \<Longrightarrow> growing (h e)) \<Longrightarrow> (\<And>y. z = Inr y \<Longrightarrow> growing (g y)) \<Longrightarrow> growing (case z of Inl e \<Rightarrow> h e | Inr y \<Rightarrow> g y)"
  "(\<And>a c. p = (a, c) \<Longrightarrow> growing (k a c)) \<Longrightarrow> growing (case p of (a, c) \<Rightarrow> k a c)"
  by (cases b; cases x; cases z; cases p; simp)+

lemma growing_try [intro!]: "growing m \<Longrightarrow> growing (st_try m)"
  unfolding growing_def by (fastforce simp: st_try_def split: prod.splits exec.splits)

lemma growing_transact [intro!]: "(\<And>nw. growing (body nw)) \<Longrightarrow> growing (transact E body)"
  unfolding growing_def transact_def now_def Let_def
  by (auto split: prod.splits exec.splits intro: grows_same) (metis grows_world(1))

lemma growing_basic [intro!]:
  "growing (st_ask h)" "growing (st_get g)" "growing (st_guard P e)" "growing (st_ret x)" "growing (st_lift q)"
  by (rule growing_reads, rule reads_intros)+

lemma growing_update_task_row [intro!]:
  assumes "\<And>t. task_ident (f t) = task_ident t"
  shows "growing (update_task_row_tx context nw i f)"
proof -
  let ?g = "\<lambda>t. (f t)\<lparr>gt_version := gt_version t + 1, gt_updated_at := nw\<rparr>"
  have ident: "task_ident (?g t) = task_ident t" for t
    using assms [of t] by (simp add: task_ident_def)
  have "grows s (update_task i ?g s)" for s
  proof -
    have "list_all2 later (gw_tasks s) (gw_tasks (update_task i ?g s))"
      by (auto simp: update_task_def later_def ident list_all2_conv_all_nth)
    then show ?thesis unfolding grows_def by (auto simp: update_task_def)
  qed
  then show ?thesis unfolding update_task_row_tx_def Let_def by (intro growing_bind growing_upd growing_basic)
qed

lemma grows_insert: "grows s (s\<lparr>gw_tasks := gw_tasks s @ [row]\<rparr>)"
  unfolding grows_def by (auto intro!: list_all2_refl)

lemma growing_writes [intro!]:
  "growing (insert_task_participant_tx E c i p b)" "growing (sync_owner_participant_tx E c i a)"
  "growing (insert_workflow_event_tx E nw c oi src actor k payload v)"
  "growing (insert_channel_task_fanout_event_tx E nw c actor ty i)"
  "growing (insert_task_or_nothing row)" "growing (insert_task_with_key row)"
  "growing (next_channel_task_sequence_tx c)" "growing (allocate_task_key_after_existing_max_tx c)"
proof -
  show "growing (insert_task_or_nothing row)" "growing (insert_task_with_key row)"
    unfolding insert_task_or_nothing_def insert_task_with_key_def by (auto intro!: grows_insert)
qed (unfold insert_task_participant_tx_def sync_owner_participant_tx_def insert_workflow_event_tx_def
      insert_channel_task_fanout_event_tx_def next_channel_task_sequence_tx_def
      allocate_task_key_after_existing_max_tx_def Let_def, auto intro: grows_same)

lemma growing_allocate [intro!]: "growing (allocate_unused_task_key_attempts n c)"
  by (induction n) (auto simp: Let_def)

lemma growing_participants [intro!]:
  "growing (insert_task_participants_tx E c i ps)" "growing (replace_non_owner_task_participants_tx E c i ps)"
proof -
  show "growing (insert_task_participants_tx E c i ps)" for ps by (induction ps) auto
  then show "growing (replace_non_owner_task_participants_tx E c i ps)"
    unfolding replace_non_owner_task_participants_tx_def by (auto intro: grows_same)
qed

lemma growing_insert_tasks [intro!]:
  "growing (insert_message_task n E nw actor c mreq)" "growing (insert_agent_task n E nw actor c a st h req)"
  by (induction n) (auto simp: allocate_unused_task_key_tx_def Let_def)

lemma growing_patch [intro!]:
  "growing (apply_authorized_channel_task_patch_tx E nw actor existing r k src base)"
  "growing (apply_channel_task_patch_tx E nw a existing r wk k src base)"
proof -
  show patch: "growing (apply_authorized_channel_task_patch_tx E nw actor existing r k src base)" for actor
    unfolding apply_authorized_channel_task_patch_tx_def Let_def by (auto simp: task_ident_def)
  show "growing (apply_channel_task_patch_tx E nw a existing r wk k src base)"
    unfolding apply_channel_task_patch_tx_def by (auto intro!: patch)
qed

lemma growing_update [intro!]:
  "growing (apply_workflow_status_update_tx E nw task a k src eff payload)"
  "growing (apply_trusted_workflow_status_update_tx E nw task k src eff payload)"
  "growing (announce_updated E nw c actor i event)" "growing (announce_created E nw a c i src p vals)"
  unfolding apply_workflow_status_update_tx_def apply_trusted_workflow_status_update_tx_def announce_updated_def
    announce_created_def diagnostic_event_def Let_def
  by (auto split: workflow_status_effect.split sum.split app_error.split)

text \<open>Every call; what happens between its read and its transaction must add only, too.\<close>

lemma growing_calls:
  "growing (create_channel_task E a c req)" "growing (create_channel_task_from_message E a c mreq)"
  "growing (patch_channel_task E a i preq)" "growing (create_group_workflow_task E c a greq)"
  "growing (replace_group_workflow_task_participants E i ps)"
  unfolding create_channel_task_def create_channel_task_body_def insert_new_channel_task_def create_channel_task_from_message_def patch_channel_task_def
    create_group_workflow_task_def replace_group_workflow_task_participants_def Let_def
  by (auto intro: grows_same grows_insert)

end
