(* ===== verification/Board_Machine.thy ===== *)
theory Board_Machine
  imports Board_Grows
begin

text \<open>
  The board as a state machine: every call keeps the invariant, whatever other calls commit between its read
  and its transaction, and the properties of all runs.
\<close>

section \<open>Calls that keep the invariant\<close>

text \<open>From a state, on every outcome, or on success only.\<close>

definition keeps :: "'a board_op \<Rightarrow> board_db \<Rightarrow> bool" where
  "keeps m s \<longleftrightarrow> (\<forall>r t. m s = (r, t) \<longrightarrow> board_wf s \<longrightarrow> board_wf t)"

definition commits :: "'a board_op \<Rightarrow> board_db \<Rightarrow> bool" where
  "commits m s \<longleftrightarrow> (\<forall>x t. m s = (Ret x, t) \<longrightarrow> board_wf s \<longrightarrow> board_wf t)"

lemma keepsD: "keeps m s \<Longrightarrow> m s = (r, t) \<Longrightarrow> board_wf s \<Longrightarrow> board_wf t"
  unfolding keeps_def by blast

lemma commitsI: "(\<And>x t. m s = (Ret x, t) \<Longrightarrow> board_wf s \<Longrightarrow> board_wf t) \<Longrightarrow> commits m s"
  unfolding commits_def by blast

lemma keeps_reads: "reads m \<Longrightarrow> keeps m s"
  unfolding keeps_def by (metis reads_runs)

lemma commits_reads: "reads m \<Longrightarrow> commits m s"
  unfolding commits_def by (metis reads_runs)

lemma keeps_bind: "keeps m s \<Longrightarrow> (\<And>x t. m s = (Ret x, t) \<Longrightarrow> keeps (f x) t) \<Longrightarrow> keeps (st_bind m f) s"
  unfolding keeps_def by (auto simp: st_bind_def split: prod.splits exec.splits)

lemma commits_bind: "commits m s \<Longrightarrow> (\<And>x t. m s = (Ret x, t) \<Longrightarrow> commits (f x) t) \<Longrightarrow> commits (st_bind m f) s"
  unfolding commits_def by (auto simp: st_bind_Ret)

lemma keeps_bind_reads: "reads m \<Longrightarrow> (\<And>x. m s = (Ret x, s) \<Longrightarrow> keeps (f x) s) \<Longrightarrow> keeps (st_bind m f) s"
  by (rule keeps_bind [OF keeps_reads]) (auto dest: reads_runs)

lemma commits_bind_reads: "reads m \<Longrightarrow> (\<And>x. m s = (Ret x, s) \<Longrightarrow> commits (f x) s) \<Longrightarrow> commits (st_bind m f) s"
  by (rule commits_bind [OF commits_reads]) (auto dest: reads_runs)

lemma keeps_upd: "(board_wf s \<Longrightarrow> board_wf (f s)) \<Longrightarrow> keeps (st_upd f) s"
  by (simp add: keeps_def st_upd_def)

lemma keeps_draw: "keeps (st_draw (new_id E)) s"
  by (simp add: keeps_def st_draw_def new_id_def)

lemma keeps_transact:
  assumes "\<And>nw c. commits (body nw) (s\<lparr>clock_reads := c\<rparr>)"
  shows "keeps (transact E body) s"
  unfolding keeps_def
proof (intro allI impI)
  fix r t assume run: "transact E body s = (r, t)" and wf: "board_wf s"
  show "board_wf t"
  proof (cases r)
    case (Ret x)
    then have "body (env_clock E (clock_reads s)) (s\<lparr>clock_reads := Suc (clock_reads s)\<rparr>) = (Ret x, t)"
      using run by (simp add: transact_Ret)
    then show ?thesis using wf assms unfolding commits_def by (metis board_wf_world(2))
  qed (use run wf transact_fails board_wf_drawn in blast)+
qed

text \<open>A transaction followed by a read of what it left.\<close>

lemma keeps_then_reads: "keeps m s \<Longrightarrow> (\<And>x. reads (f x)) \<Longrightarrow> keeps (st_bind m f) s"
  by (blast intro: keeps_bind keeps_reads)

section \<open>Participants\<close>

lemma put_non_owner:
  assumes "gp_role_key r \<noteq> ''owner''"
  shows "map gp_principal_id (filter (owner_of i) (put_participant r ps)) = map gp_principal_id (filter (owner_of i) ps)"
proof -
  let ?upd = "\<lambda>q. if gp_task_id q = gp_task_id r \<and> gp_principal_id q = gp_principal_id r \<and> gp_role_key q = gp_role_key r
      then q\<lparr>gp_responsibility := gp_responsibility r, gp_required := gp_required r\<rparr> else q"
  have "map gp_principal_id (filter (owner_of i) (map ?upd ps)) = map gp_principal_id (filter (owner_of i) ps)"
    by (induction ps) (auto simp: owner_of_def)
  then show ?thesis using assms by (simp add: put_participant_def Let_def owner_of_def)
qed

text \<open>Only the rows of participants that own nothing may differ.\<close>

definition same_owners :: "board_db \<Rightarrow> board_db \<Rightarrow> bool" where
  "same_owners s t \<longleftrightarrow> s\<lparr>ids_drawn := 0, gw_participants := []\<rparr> = t\<lparr>ids_drawn := 0, gw_participants := []\<rparr> \<and>
     owners t = owners s"

lemma same_owners_tables:
  assumes "same_owners s t"
  shows "gw_tasks t = gw_tasks s" "gw_events t = gw_events s" "conversation_events t = conversation_events s"
    "owners t = owners s" "bd_principals t = bd_principals s" "bd_conversations t = bd_conversations s"
    "bd_members t = bd_members s"
  using assms unfolding same_owners_def
  by (auto dest: arg_cong [of _ _ gw_tasks] arg_cong [of _ _ gw_events] arg_cong [of _ _ conversation_events]
      arg_cong [of _ _ bd_principals] arg_cong [of _ _ bd_conversations] arg_cong [of _ _ bd_members])

lemma same_owners_trans: "same_owners s t \<Longrightarrow> same_owners t u \<Longrightarrow> same_owners s u"
  by (simp add: same_owners_def)

lemma board_wf_same_owners: "same_owners s t \<Longrightarrow> board_wf s \<Longrightarrow> board_wf t"
  using same_owners_tables [of s t]
  by (simp add: board_wf_def tasks_wf_def owners_wf_def history_wf_def history_def events_wf_def)

lemma insert_participant_same_owners:
  assumes "insert_task_participant_tx E c i p False s = (Ret x, t)"
  shows "same_owners s t"
  using assms by (rule insert_task_participant_Ret) (auto simp: same_owners_def owners_def put_non_owner)

lemma remove_non_owners_same:
  assumes "\<And>q. P q \<Longrightarrow> gp_role_key q \<noteq> ''owner''"
  shows "same_owners s (s\<lparr>gw_participants := filter (\<lambda>q. \<not> P q) (gw_participants s)\<rparr>)"
proof -
  have "filter (owner_of j) (filter (\<lambda>q. \<not> P q) ps) = filter (owner_of j) ps" for j ps
    using assms by (induction ps) (auto simp: owner_of_def)
  then show ?thesis by (simp add: same_owners_def owners_def fun_eq_iff)
qed

lemma replace_participants_same_owners:
  assumes "replace_non_owner_task_participants_tx E c i ps s = (Ret x, t)"
  shows "same_owners s t"
proof -
  let ?s = "s\<lparr>gw_participants := filter (\<lambda>q. \<not> (gp_task_id q = i \<and> gp_role_key q \<noteq> ''owner'')) (gw_participants s)\<rparr>"
  have run: "insert_task_participants_tx E c i ps ?s = (Ret x, t)"
    using assms by (simp add: replace_non_owner_task_participants_tx_def runs)
  have "same_owners u t" if "insert_task_participants_tx E c i ps u = (Ret x, t)" for u
    using that
  proof (induction ps arbitrary: u)
    case (Cons p ps)
    then show ?case by (auto simp: runs dest!: insert_participant_same_owners intro: same_owners_trans)
  qed (auto simp: same_owners_def)
  from same_owners_trans [OF remove_non_owners_same this [OF run]] show ?thesis by simp
qed

text \<open>Writing the owner row again changes no owner of a well-formed board.\<close>

lemma resync_owner_wf:
  assumes "sync_owner_participant_tx E c (gt_id row) (gt_assignee_principal_id row) s = (Ret x, t)"
    and "board_wf s" "row \<in> set (gw_tasks s)"
  shows "board_wf t"
  using assms(1)
proof (rule sync_owner_participant_Ret, goal_cases)
  case (1 owner)
  have "owners t j = owners s j" for j
    using owners_sync [of t "gt_id row" s owner j] 1 assms(2,3) by (auto simp: board_wf_def owners_wf_def)
  then show ?case using 1(1) assms(2)
    by (simp add: board_wf_def tasks_wf_def owners_wf_def history_wf_def history_def events_wf_def)
qed

section \<open>Creating tasks\<close>

definition inserts_for :: "string \<Rightarrow> (bool \<times> string) board_op \<Rightarrow> bool" where
  "inserts_for p m \<longleftrightarrow> (\<forall>s created i t. m s = (Ret (created, i), t) \<longrightarrow> inserting s t \<and>
     (if created then \<exists>row. gw_tasks t = gw_tasks s @ [row] \<and> \<not> list_ex (clashes row) (gw_tasks s) \<and> row_ok row \<and>
          gt_version row = 1 \<and> gt_id row = i \<and> gt_assignee_principal_id row = p
      else gw_tasks t = gw_tasks s))"

lemma insert_agent_task_inserts: "inserts_for p (insert_agent_task n E nw a c p st h req)"
  unfolding inserts_for_def
proof (intro allI impI)
  fix s created i t assume "insert_agent_task n E nw a c p st h req s = (Ret (created, i), t)"
  from insert_agent_task_Ret [OF this] created_rows_ok(1)
  show "inserting s t \<and>
     (if created then \<exists>row. gw_tasks t = gw_tasks s @ [row] \<and> \<not> list_ex (clashes row) (gw_tasks s) \<and> row_ok row \<and>
          gt_version row = 1 \<and> gt_id row = i \<and> gt_assignee_principal_id row = p
      else gw_tasks t = gw_tasks s)"
    by (auto split: if_splits) (auto simp: agent_task_row_def)
qed

lemma insert_message_task_inserts: "inserts_for (fm_assignee_principal_id req) (insert_message_task n E nw a c req)"
  unfolding inserts_for_def
proof (intro allI impI)
  fix s created i t assume "insert_message_task n E nw a c req s = (Ret (created, i), t)"
  from insert_message_task_Ret [OF this] created_rows_ok(2)
  show "inserting s t \<and>
     (if created then \<exists>row. gw_tasks t = gw_tasks s @ [row] \<and> \<not> list_ex (clashes row) (gw_tasks s) \<and> row_ok row \<and>
          gt_version row = 1 \<and> gt_id row = i \<and> gt_assignee_principal_id row = fm_assignee_principal_id req
      else gw_tasks t = gw_tasks s)"
    by (auto split: if_splits) (auto simp: message_task_row_def)
qed

lemma insert_then_announce_commits:
  assumes "inserts_for p m"
  shows "commits (st_bind m (\<lambda>q. case q of (created, i) \<Rightarrow>
            if \<not> created then st_ret (Inl i)
            else st_bind (announce_created E nw a c i src p vals) (\<lambda>task. st_ret (Inr task)))) s"
proof (rule commitsI)
  fix x t assume "st_bind m (\<lambda>q. case q of (created, i) \<Rightarrow>
            if \<not> created then st_ret (Inl i)
            else st_bind (announce_created E nw a c i src p vals) (\<lambda>task. st_ret (Inr task))) s = (Ret x, t)"
    and wf: "board_wf s"
  then obtain created i v where v: "m s = (Ret (created, i), v)"
    and rest: "if created then \<exists>task. announce_created E nw a c i src p vals v = (Ret task, t) else t = v"
    by (auto simp: runs split: if_splits)
  have ins: "inserting s v" "created \<Longrightarrow> \<exists>row. gw_tasks v = gw_tasks s @ [row] \<and> \<not> list_ex (clashes row) (gw_tasks s) \<and>
      row_ok row \<and> gt_version row = 1 \<and> gt_id row = i \<and> gt_assignee_principal_id row = p"
    "\<not> created \<Longrightarrow> gw_tasks v = gw_tasks s"
    using assms v unfolding inserts_for_def by (auto split: if_splits)
  note same = inserting_tables [OF ins(1)]
  show "board_wf t"
  proof (cases created)
    case True
    with ins(2) rest obtain row task where row: "gw_tasks v = gw_tasks s @ [row]" "\<not> list_ex (clashes row) (gw_tasks s)"
      "row_ok row" "gt_version row = 1" "gt_id row = i" "gt_assignee_principal_id row = p"
      and task: "announce_created E nw a c i src p vals v = (Ret task, t)" by auto
    show ?thesis
      by (rule announce_created_wf [OF task [folded row(5,6)] wf row(2-4,1) same(1-3)])
  next
    case False
    with ins(3) rest wf show ?thesis using board_wf_cong [of v s] same by simp
  qed
qed

lemmas commits_creation =
  insert_then_announce_commits [OF insert_agent_task_inserts] insert_then_announce_commits [OF insert_message_task_inserts]

lemma commits_option:
  "(x = None \<Longrightarrow> commits m s) \<Longrightarrow> (\<And>y. x = Some y \<Longrightarrow> commits (f y) s) \<Longrightarrow> commits (case x of None \<Rightarrow> m | Some y \<Rightarrow> f y) s"
  by (cases x) simp_all

lemma commits_sum:
  "(\<And>e. x = Inl e \<Longrightarrow> commits (g e) s) \<Longrightarrow> (\<And>y. x = Inr y \<Longrightarrow> commits (f y) s) \<Longrightarrow>
    commits (case x of Inl e \<Rightarrow> g e | Inr y \<Rightarrow> f y) s"
  by (cases x) simp_all

lemma reads_sum [intro!]:
  "(\<And>e. x = Inl e \<Longrightarrow> reads (g e)) \<Longrightarrow> (\<And>y. x = Inr y \<Longrightarrow> reads (f y)) \<Longrightarrow> reads (case x of Inl e \<Rightarrow> g e | Inr y \<Rightarrow> f y)"
  by (cases x) simp_all

lemma create_channel_task_keeps: "keeps (create_channel_task E a c req) s"
  unfolding create_channel_task_def create_channel_task_body_def insert_new_channel_task_def Let_def
  by (intro keeps_bind_reads keeps_then_reads keeps_transact commits_bind_reads commits_option commits_sum
      commits_creation commits_reads) auto

lemma create_channel_task_from_message_keeps: "keeps (create_channel_task_from_message E a c mreq) s"
  unfolding create_channel_task_from_message_def Let_def
  by (intro keeps_bind_reads keeps_then_reads keeps_transact commits_bind_reads commits_option commits_sum
      commits_creation commits_reads) auto

section \<open>Patches and workflow events\<close>

lemma commits_fanout: "commits (insert_channel_task_fanout_event_tx E nw c actor ty i) s"
  using fanout_wf by (blast intro: commitsI)

lemma commits_announce_updated: "commits (announce_updated E nw c actor i ev) s"
  unfolding announce_updated_def
  by (auto intro!: commits_bind [OF commits_fanout] commits_reads [OF reads_intros(4)])

lemma commits_diagnostic:
  assumes "gt_id row \<in> gt_id ` set (gw_tasks s)"
  shows "commits (diagnostic_event E nw row actor k src payload reason eff detail) s"
  unfolding diagnostic_event_def using plain_event_wf assms by (blast intro: commitsI)

lemma commits_unresolved: "commits (insert_workflow_event_tx E nw c None src actor k payload None) s"
  using plain_event_wf by (blast intro: commitsI)

lemma commits_authorized:
  assumes "task_with_id s (gt_id existing) = Some existing"
  shows "commits (apply_authorized_channel_task_patch_tx E nw actor existing req k src base) s"
  using apply_authorized_wf assms by (blast intro: commitsI)

lemma commits_workflow_update:
  assumes "gt_id task \<in> gt_id ` set (gw_tasks s)"
  shows "commits (apply_workflow_status_update_tx E nw task a k src eff payload) s"
proof (rule commitsI)
  fix ev t assume run: "apply_workflow_status_update_tx E nw task a k src eff payload s = (Ret ev, t)" and wf: "board_wf s"
  from run show "board_wf t"
  proof (cases rule: workflow_update_cases)
    case (patch st existing p)
    then show ?thesis using apply_authorized_wf [OF patch(3) wf] task_with_id_Some [OF patch(2)] by simp
  next
    case (remark row reason effect detail)
    then show ?thesis using commits_diagnostic [of row s] assms wf unfolding commits_def by metis
  qed
qed

lemma commits_trusted_update:
  assumes "gt_id task \<in> gt_id ` set (gw_tasks s)"
  shows "commits (apply_trusted_workflow_status_update_tx E nw task k src eff payload) s"
proof -
  have locked: "gt_id row \<in> gt_id ` set (gw_tasks s)" "task_with_id s (gt_id row) = Some row"
    if "lock_group_workflow_task_tx (gt_id task) s = (Ret row, s)" for row
    using that assms task_with_id_Some [of s "gt_id task" row] by (auto simp: lock_Ret)
  show ?thesis
    unfolding apply_trusted_workflow_status_update_tx_def Let_def
    by (cases eff) (auto intro!: commits_bind_reads commits_authorized commits_diagnostic assms locked)
qed

lemma patch_channel_task_keeps: "keeps (patch_channel_task E a i req) s"
proof -
  have patch: "commits (apply_channel_task_patch_tx E nw a existing req None ''channel_task.updated'' src base) u"
    if "lock_group_workflow_task_tx i u = (Ret existing, u)" for nw existing src base u
  proof (rule commitsI)
    fix ev t
    assume run: "apply_channel_task_patch_tx E nw a existing req None ''channel_task.updated'' src base u = (Ret ev, t)"
      and wf: "board_wf u"
    have "task_with_id u (gt_id existing) = Some existing"
      using that task_with_id_Some [of u i existing] by (auto simp: lock_Ret)
    then show "board_wf t" using apply_authorized_wf apply_patch_Ret(1) [OF run] wf by blast
  qed
  show ?thesis
    unfolding patch_channel_task_def
    by (auto intro!: keeps_bind_reads keeps_transact commits_bind_reads commits_bind [OF patch] commits_fanout
        commits_reads [OF checks_read(8)])
qed

text \<open>
  The calls that read the task before their transaction: what other calls commit in between must keep the
  invariant and only add.
\<close>

definition interferes :: "(board_db \<Rightarrow> board_db) \<Rightarrow> board_db \<Rightarrow> bool" where
  "interferes others s \<longleftrightarrow> (board_wf s \<longrightarrow> board_wf (others s)) \<and> grows s (others s)"

lemma keeps_others:
  assumes "interferes others s" "keeps (f ()) (others s)"
  shows "keeps (st_bind (st_upd others) f) s"
  using assms by (intro keeps_bind keeps_upd) (auto simp: interferes_def st_upd_runs)

lemma interferes_id:
  assumes "interferes others s" "task_with_id s i = Some task"
  shows "gt_id task \<in> gt_id ` set (gw_tasks (others s))"
  using assms task_with_id_Some [of s i task] grows_ids by (auto simp: interferes_def)

lemma append_group_workflow_event_keeps:
  assumes "interferes others s"
  shows "keeps (append_group_workflow_event E others i a req) s"
  unfolding append_group_workflow_event_def
  by (auto intro!: keeps_bind_reads keeps_others [OF assms] keeps_transact commits_bind_reads
      commits_bind [OF commits_workflow_update] commits_announce_updated interferes_id [OF assms] simp: get_task_Ret)

lemma resolve_Ret:
  "resolve_workflow_task c req s = (Ret (Some task), t) \<Longrightarrow> \<exists>i. task_with_id s i = Some task"
  by (auto simp: resolve_workflow_task_def find_task_id_by_workflow_reference_def Let_def runs get_task_Ret split: if_splits option.splits)

lemma append_for_conversation_keeps:
  assumes "interferes others s"
  shows "keeps (append_group_workflow_event_for_conversation E others c a req) s"
    "keeps (append_group_workflow_event_for_conversation_trusted_system E others c req) s"
proof -
  have there: "gt_id task \<in> gt_id ` set (gw_tasks (others s))"
    if "resolve_workflow_task c req s = (Ret (Some task), s)" for task
    using resolve_Ret [OF that] interferes_id [OF assms] by blast
  show "keeps (append_group_workflow_event_for_conversation E others c a req) s"
    unfolding append_group_workflow_event_for_conversation_def Let_def
    by (auto intro!: keeps_bind_reads keeps_others [OF assms] keeps_transact commits_bind_reads commits_option
        commits_bind [OF commits_workflow_update] commits_announce_updated commits_unresolved there)
  show "keeps (append_group_workflow_event_for_conversation_trusted_system E others c req) s"
    unfolding append_group_workflow_event_for_conversation_trusted_system_def Let_def
    by (auto intro!: keeps_bind_reads keeps_others [OF assms] keeps_transact commits_bind_reads commits_option
        commits_bind [OF commits_trusted_update] commits_announce_updated commits_unresolved there)
qed

section \<open>Tasks of the workflow layer\<close>

lemma keeps_wfI: "(board_wf s \<Longrightarrow> keeps m s) \<Longrightarrow> keeps m s"
  unfolding keeps_def by blast

lemma create_group_workflow_task_keeps: "keeps (create_group_workflow_task E c a req) s"
proof -
  have insert: "commits (st_bind (st_upd (\<lambda>s. s\<lparr>gw_tasks := gw_tasks s @ [row]\<rparr>)) (\<lambda>_.
       st_bind (replace_non_owner_task_participants_tx E c (gt_id row) ps) (\<lambda>_.
       st_bind (sync_owner_participant_tx E c (gt_id row) (gt_assignee_principal_id row)) (\<lambda>_. st_ret row)))) u"
    if row: "row_ok row" "gt_version row = 1" "\<not> list_ex (clashes row) (gw_tasks u)" for row ps u
  proof (rule commitsI)
    let ?v = "u\<lparr>gw_tasks := gw_tasks u @ [row]\<rparr>"
    fix x t assume "st_bind (st_upd (\<lambda>s. s\<lparr>gw_tasks := gw_tasks s @ [row]\<rparr>)) (\<lambda>_.
       st_bind (replace_non_owner_task_participants_tx E c (gt_id row) ps) (\<lambda>_.
       st_bind (sync_owner_participant_tx E c (gt_id row) (gt_assignee_principal_id row)) (\<lambda>_. st_ret row))) u = (Ret x, t)"
      and wf: "board_wf u"
    then obtain y w z where "replace_non_owner_task_participants_tx E c (gt_id row) ps ?v = (Ret y, w)"
      and sync: "sync_owner_participant_tx E c (gt_id row) (gt_assignee_principal_id row) w = (Ret z, t)"
      by (auto simp: runs)
    note w = same_owners_tables [OF replace_participants_same_owners [OF this(1)]]
    from sync show "board_wf t"
    proof (rule sync_owner_participant_Ret, goal_cases)
      case (1 owner)
      have "owners t j = (if j = gt_id row then [gt_assignee_principal_id row] else owners u j)" for j
        using owners_sync [of t "gt_id row" w owner j] 1 w(4) by (simp add: owners_def)
      moreover have "distinct (map ge_id (gw_events u))" using wf by (simp add: board_wf_def history_wf_def)
      ultimately show ?case
        using w 1(1) by (intro board_wf_insert [OF wf row(3,1,2), of t "[]"]) simp_all
    qed
  qed
  have row: "row_ok (workflow_task_row nw c a i req)" "gt_version (workflow_task_row nw c a i req) = 1"
    "gt_id (workflow_task_row nw c a i req) = i"
    "gt_assignee_principal_id (workflow_task_row nw c a i req) = gc_assignee_principal_id req" for nw i
    by (simp_all add: row_ok_def workflow_task_row_def VALID_TASK_STATUSES_def)
  have body: "commits (st_bind (st_upd (\<lambda>s. s\<lparr>gw_tasks := gw_tasks s @ [workflow_task_row nw c a i req]\<rparr>)) (\<lambda>_.
       st_bind (replace_non_owner_task_participants_tx E c i ps) (\<lambda>_.
       st_bind (sync_owner_participant_tx E c i (gc_assignee_principal_id req)) (\<lambda>_.
         st_ret (workflow_task_row nw c a i req))))) u"
    if "\<not> list_ex (clashes (workflow_task_row nw c a i req)) (gw_tasks u)" for nw i ps u
    by (rule insert [OF row(1,2) that, unfolded row(3,4)])
  show ?thesis
    unfolding create_group_workflow_task_def Let_def
    by (intro body keeps_bind_reads keeps_bind [OF keeps_draw] keeps_then_reads keeps_transact commits_bind_reads)
       (auto simp: st_guard_runs)
qed

lemma update_row_commits:
  assumes "st \<in> set VALID_TASK_STATUSES"
  shows "commits (st_bind (update_task_row_tx context nw i (\<lambda>t.
         t\<lparr>gt_title := title, gt_status := st, gt_assignee_principal_id := p\<rparr>)) (\<lambda>row.
       st_bind (case ops of Some ps \<Rightarrow> replace_non_owner_task_participants_tx E c i ps | None \<Rightarrow> st_ret ()) (\<lambda>_.
       st_bind (sync_owner_participant_tx E c i p) (\<lambda>_. st_ret row)))) s"
proof (rule commitsI)
  let ?f = "\<lambda>t. t\<lparr>gt_title := title, gt_status := st, gt_assignee_principal_id := p\<rparr>"
  fix x t assume "st_bind (update_task_row_tx context nw i ?f) (\<lambda>row.
       st_bind (case ops of Some ps \<Rightarrow> replace_non_owner_task_participants_tx E c i ps | None \<Rightarrow> st_ret ()) (\<lambda>_.
       st_bind (sync_owner_participant_tx E c i p) (\<lambda>_. st_ret row))) s = (Ret x, t)" and wf: "board_wf s"
  then obtain row u y v z where u: "update_task_row_tx context nw i ?f s = (Ret row, u)"
    and v: "(case ops of Some ps \<Rightarrow> replace_non_owner_task_participants_tx E c i ps | None \<Rightarrow> st_ret ()) u = (Ret y, v)"
    and sync: "sync_owner_participant_tx E c i p v = (Ret z, t)"
    by (auto simp: st_bind_Ret)
  have "same_owners u v"
    using v by (auto simp: same_owners_def dest!: replace_participants_same_owners split: option.splits)
  note v = same_owners_tables [OF this]
  have "tasks_wf s" using wf by (simp add: board_wf_def)
  from update_task_row_Ret [OF u this] obtain old where old: "task_with_id s i = Some old"
    "row = (?f old)\<lparr>gt_version := gt_version old + 1, gt_updated_at := nw\<rparr>" "u = update_task i (\<lambda>_. row) s" by metis
  have ok: "row_ok old" using wf task_with_id_Some [OF old(1)] by (simp add: board_wf_def tasks_wf_def list_all_iff)
  have ident: "task_ident row = task_ident old"
    using old(2) by (simp add: task_ident_def)
  then have "row_ok row" using ok assms old(2) by (auto simp: row_ok_def task_ident_def)
  from sync show "board_wf t"
  proof (rule sync_owner_participant_Ret, goal_cases)
    case (1 owner)
    have "owners t j = (if j = i then [gt_assignee_principal_id row] else owners s j)" for j
      using owners_sync [of t i v owner j] 1 v(4) old(2,3) by (simp add: owners_def update_task_def)
    moreover have "distinct (map ge_id (gw_events s))" using wf by (simp add: board_wf_def history_wf_def)
    ultimately show ?case
      using v 1(1) old \<open>row_ok row\<close> ident
      by (intro board_wf_new_version [OF wf old(1), of row t "[]"]) (simp_all add: update_task_def)
  qed
qed

lemma update_group_workflow_task_keeps:
  assumes "interferes others s"
  shows "keeps (update_group_workflow_task E others i req) s"
proof (rule keeps_wfI)
  assume wf: "board_wf s"
  have status: "gt_status row \<in> set VALID_TASK_STATUSES" if "get_task i s = (Ret row, s)" for row
    using that wf task_with_id_Some [of s i row] by (auto simp: get_task_Ret board_wf_def tasks_wf_def row_ok_def list_all_iff)
  show "keeps (update_group_workflow_task E others i req) s"
    unfolding update_group_workflow_task_def Let_def
    by (intro update_row_commits keeps_others [OF assms] keeps_bind_reads keeps_then_reads keeps_transact commits_bind_reads)
       (auto simp: st_ask_runs validate_task_status_def status split: option.splits if_splits)
qed

lemma participant_calls_keep:
  assumes "interferes others s"
  shows "keeps (replace_group_workflow_task_participants E i ps) s"
    "keeps (add_group_workflow_task_participant E others i p) s"
    "keeps (remove_group_workflow_task_participant others i a role) s"
proof -
  have body: "commits (st_bind (replace_non_owner_task_participants_tx E c (gt_id row) ps) (\<lambda>_.
       sync_owner_participant_tx E c (gt_id row) (gt_assignee_principal_id row))) u"
    if "row \<in> set (gw_tasks u)" for c row u
  proof (rule commitsI)
    fix x t assume "st_bind (replace_non_owner_task_participants_tx E c (gt_id row) ps) (\<lambda>_.
       sync_owner_participant_tx E c (gt_id row) (gt_assignee_principal_id row)) u = (Ret x, t)" and wf: "board_wf u"
    then obtain y v where "replace_non_owner_task_participants_tx E c (gt_id row) ps u = (Ret y, v)"
      and sync: "sync_owner_participant_tx E c (gt_id row) (gt_assignee_principal_id row) v = (Ret x, t)"
      by (auto simp: st_bind_Ret)
    note v = replace_participants_same_owners [OF this(1)]
    show "board_wf t"
      by (rule resync_owner_wf [OF sync board_wf_same_owners [OF v wf]]) (use that same_owners_tables [OF v] in simp)
  qed
  have locked: "row \<in> set (gw_tasks u) \<and> i = gt_id row" if "lock_group_workflow_task_tx i u = (Ret row, u)" for row u
    using that task_with_id_Some [of u i row] by (auto simp: lock_Ret)
  have body': "commits (st_bind (replace_non_owner_task_participants_tx E c i ps) (\<lambda>_.
       sync_owner_participant_tx E c i (gt_assignee_principal_id row))) u"
    if "lock_group_workflow_task_tx i u = (Ret row, u)" for c row u
    using body [of row u c] locked [OF that] by simp
  show "keeps (replace_group_workflow_task_participants E i ps) s"
    unfolding replace_group_workflow_task_participants_def
    by (intro body' keeps_then_reads keeps_transact commits_bind_reads) auto
  have add: "commits (insert_task_participant_tx E c i p False) u" for c u
    using insert_participant_same_owners board_wf_same_owners by (blast intro: commitsI)
  show "keeps (add_group_workflow_task_participant E others i p) s"
    unfolding add_group_workflow_task_participant_def
    by (intro add keeps_others [OF assms] keeps_bind_reads keeps_then_reads keeps_transact commits_bind_reads) auto
  have "board_wf (u\<lparr>gw_participants := filter (\<lambda>q. \<not> (gp_task_id q = i \<and> gp_principal_id q = a \<and> gp_role_key q = role))
         (gw_participants u)\<rparr>)" if "board_wf u" "role \<noteq> ''owner''" for u
    by (rule board_wf_same_owners [OF remove_non_owners_same]) (use that in auto)
  then show "keeps (remove_group_workflow_task_participant others i a role) s"
    unfolding remove_group_workflow_task_participant_def
    by (intro keeps_others [OF assms] keeps_bind_reads keeps_then_reads keeps_upd) (auto simp: st_guard_runs)
qed

end
