(* ===== verification/Board_Runs.thy ===== *)
theory Board_Runs
  imports Board_Machine
begin

text \<open>
  Runs of the board: the step relation of all its calls, with every call that reads before its transaction
  interleaved with runs of others, and what holds along every run.
\<close>

section \<open>The board's steps\<close>

text \<open>
  A step taken elsewhere in the application: principals, memberships, policies and companies change freely, the
  conversation log is extended; the board's own tables are written by its calls only.
\<close>

definition elsewhere :: "board_db \<Rightarrow> board_db \<Rightarrow> bool" where
  "elsewhere s t \<longleftrightarrow> gw_tasks t = gw_tasks s \<and> gw_participants t = gw_participants s \<and> gw_events t = gw_events s \<and>
     prefix (conversation_events s) (conversation_events t) \<and> (events_wf (log_of s) \<longrightarrow> events_wf (log_of t))"

inductive board_step :: "board_env \<Rightarrow> board_db \<Rightarrow> board_db \<Rightarrow> bool" for E where
  create: "create_channel_task E a c req s = (r, t) \<Longrightarrow> board_step E s t"
| from_message: "create_channel_task_from_message E a c mreq s = (r', t) \<Longrightarrow> board_step E s t"
| patch: "patch_channel_task E a i preq s = (r'', t) \<Longrightarrow> board_step E s t"
| create_workflow: "create_group_workflow_task E c a greq s = (v, t) \<Longrightarrow> board_step E s t"
| replace: "replace_group_workflow_task_participants E i ps s = (q, t) \<Longrightarrow> board_step E s t"
| update: "update_group_workflow_task E others i ureq s = (v, t) \<Longrightarrow>
    \<forall>u. (board_step E)\<^sup>*\<^sup>* u (others u) \<Longrightarrow> board_step E s t"
| add: "add_group_workflow_task_participant E others i p s = (q, t) \<Longrightarrow>
    \<forall>u. (board_step E)\<^sup>*\<^sup>* u (others u) \<Longrightarrow> board_step E s t"
| remove: "remove_group_workflow_task_participant others i a role s = (q, t) \<Longrightarrow>
    \<forall>u. (board_step E)\<^sup>*\<^sup>* u (others u) \<Longrightarrow> board_step E s t"
| append: "append_group_workflow_event E others i a wreq s = (w, t) \<Longrightarrow>
    \<forall>u. (board_step E)\<^sup>*\<^sup>* u (others u) \<Longrightarrow> board_step E s t"
| append_conversation: "append_group_workflow_event_for_conversation E others c a wreq s = (w, t) \<Longrightarrow>
    \<forall>u. (board_step E)\<^sup>*\<^sup>* u (others u) \<Longrightarrow> board_step E s t"
| append_trusted: "append_group_workflow_event_for_conversation_trusted_system E others c wreq s = (w, t) \<Longrightarrow>
    \<forall>u. (board_step E)\<^sup>*\<^sup>* u (others u) \<Longrightarrow> board_step E s t"
| outside: "elsewhere s t \<Longrightarrow> board_step E s t"

lemma growing_interleaved:
  assumes "\<And>u. grows u (others u)"
  shows "growing (update_group_workflow_task E others i ureq)" "growing (add_group_workflow_task_participant E others i p)"
    "growing (remove_group_workflow_task_participant others i a role)" "growing (append_group_workflow_event E others i a wreq)"
    "growing (append_group_workflow_event_for_conversation E others c a wreq)"
    "growing (append_group_workflow_event_for_conversation_trusted_system E others c wreq)"
proof -
  note others = growing_upd [OF assms]
  show "growing (update_group_workflow_task E others i ureq)"
    unfolding update_group_workflow_task_def Let_def
    by (auto simp: task_ident_def intro!: others growing_update_task_row)
  show "growing (add_group_workflow_task_participant E others i p)"
    unfolding add_group_workflow_task_participant_def by (auto intro!: others)
  show "growing (remove_group_workflow_task_participant others i a role)"
    unfolding remove_group_workflow_task_participant_def
    by (intro growing_bind growing_basic others growing_reads [OF checks_read(9)] growing_upd grows_same) simp_all
  show "growing (append_group_workflow_event E others i a wreq)"
    unfolding append_group_workflow_event_def by (auto intro!: others)
  show "growing (append_group_workflow_event_for_conversation E others c a wreq)"
    unfolding append_group_workflow_event_for_conversation_def Let_def by (auto intro!: others)
  show "growing (append_group_workflow_event_for_conversation_trusted_system E others c wreq)"
    unfolding append_group_workflow_event_for_conversation_trusted_system_def Let_def by (auto intro!: others)
qed

text \<open>What a run of others may do, from what each of their steps does.\<close>

lemma run_of_others:
  assumes "\<forall>u. (\<lambda>x y. board_step E x y \<and> (board_wf x \<longrightarrow> board_wf y) \<and> grows x y)\<^sup>*\<^sup>* u (others u)"
  shows "interferes others u" "grows u (others u)"
proof -
  have "(board_wf u \<longrightarrow> board_wf v) \<and> grows u v"
    if "(\<lambda>x y. board_step E x y \<and> (board_wf x \<longrightarrow> board_wf y) \<and> grows x y)\<^sup>*\<^sup>* u v" for v
    using that by (induction rule: rtranclp_induct) (auto intro: grows_trans)
  from this [OF spec [OF assms]] show "interferes others u" "grows u (others u)" by (simp_all add: interferes_def)
qed

lemma board_step_good: "board_step E s t \<Longrightarrow> (board_wf s \<longrightarrow> board_wf t) \<and> grows s t"
proof (induction rule: board_step.induct)
  case (create a c req s r t)
  then show ?case using keepsD [OF create_channel_task_keeps] growingD [OF growing_calls(1)] by blast
next
  case (from_message a c mreq s r' t)
  then show ?case using keepsD [OF create_channel_task_from_message_keeps] growingD [OF growing_calls(2)] by blast
next
  case (patch a i preq s r'' t)
  then show ?case using keepsD [OF patch_channel_task_keeps] growingD [OF growing_calls(3)] by blast
next
  case (create_workflow c a greq s v t)
  then show ?case using keepsD [OF create_group_workflow_task_keeps] growingD [OF growing_calls(4)] by blast
next
  case (replace i ps s q t)
  have "interferes (\<lambda>u. u) s" by (simp add: interferes_def)
  with replace show ?case using keepsD [OF participant_calls_keep(1)] growingD [OF growing_calls(5)] by blast
next
  case (update others i ureq s v t)
  note o = run_of_others [OF update(2)]
  show ?case using keepsD [OF update_group_workflow_task_keeps [OF o(1)] update(1)]
      growingD [OF growing_interleaved(1) [OF o(2)] update(1)] by blast
next
  case (add others i p s q t)
  note o = run_of_others [OF add(2)]
  show ?case using keepsD [OF participant_calls_keep(2) [OF o(1)] add(1)]
      growingD [OF growing_interleaved(2) [OF o(2)] add(1)] by blast
next
  case (remove others i a role s q t)
  note o = run_of_others [OF remove(2)]
  show ?case using keepsD [OF participant_calls_keep(3) [OF o(1)] remove(1)]
      growingD [OF growing_interleaved(3) [OF o(2)] remove(1)] by blast
next
  case (append others i a wreq s w t)
  note o = run_of_others [OF append(2)]
  show ?case using keepsD [OF append_group_workflow_event_keeps [OF o(1)] append(1)]
      growingD [OF growing_interleaved(4) [OF o(2)] append(1)] by blast
next
  case (append_conversation others c a wreq s w t)
  note o = run_of_others [OF append_conversation(2)]
  show ?case using keepsD [OF append_for_conversation_keeps(1) [OF o(1)] append_conversation(1)]
      growingD [OF growing_interleaved(5) [OF o(2)] append_conversation(1)] by blast
next
  case (append_trusted others c wreq s w t)
  note o = run_of_others [OF append_trusted(2)]
  show ?case using keepsD [OF append_for_conversation_keeps(2) [OF o(1)] append_trusted(1)]
      growingD [OF growing_interleaved(6) [OF o(2)] append_trusted(1)] by blast
next
  case (outside s t)
  have "board_wf t" if "board_wf s"
    by (rule board_wf_log [OF that]) (use outside that in \<open>auto simp: elsewhere_def board_wf_def\<close>)
  then show ?case using outside by (auto simp: elsewhere_def intro: grows_same)
qed

interpretation board: guaranteed_steps "board_step E" board_wf grows
  by unfold_locales (use board_step_good grows_trans in auto)

end
