(* ===== verification/Board_Props.thy ===== *)
theory Board_Props
  imports Board_Runs
begin

text \<open>
  The properties of the task board: its invariant over all runs, idempotent creation, unused keys, authorised
  patches and workflow events, and the stale write of the workflow layer's update.
\<close>

section \<open>A concrete board\<close>

definition demo_board_env :: board_env where
  "demo_board_env = \<lparr>env_uuid = (\<lambda>n. ''id-'' @ show_nat n), env_clock = (\<lambda>_. 0),
     be_json_text = (\<lambda>j. get_str j ''title''), be_sha256_hex = (\<lambda>t. t), be_time_text = (\<lambda>_. ''t'')\<rparr>"

definition demo_member :: "string \<Rightarrow> pg_member" where
  "demo_member pid = \<lparr>pm_conv_id = ''c'', pm_principal_id = pid, pm_joined_at = 0, pm_removed_at = None\<rparr>"

definition demo_board :: board_db where
  "demo_board =
     \<lparr>ids_drawn = 0, clock_reads = 0, conversation_events = [], event_outbox = [], outbox_id_seq = 0,
      outbox_dead_letters = [],
      bd_principals = [(''ada'', demo_pg_agent), (''bob'', demo_pg_agent), (''eve'', demo_pg_agent\<lparr>pp_type := ''human''\<rparr>)],
      bd_conversations = [(''c'', \<lparr>pc_workspace_id = ''ws'', pc_type = ''group'', pc_name = None\<rparr>)],
      bd_members = [demo_member ''ada'', demo_member ''bob'', demo_member ''eve''], bd_policies = [], bd_company_members = [],
      bd_companies = [], gw_tasks = [], gw_participants = [], gw_events = [], gw_sequence = []\<rparr>"

definition demo_request :: create_channel_task_request where
  "demo_request = \<lparr>cq_task_key = None, cq_title = ''build'', cq_assignee_principal_id = None, cq_status = None,
     cq_context_label = None, cq_idempotency_key = ''k''\<rparr>"

definition demo_created :: board_db where
  "demo_created = snd (create_channel_task demo_board_env ''ada'' ''c'' demo_request demo_board)"

lemma demo_board_wf: "board_wf demo_board"
  by (simp add: demo_board_def board_wf_defs events_wf_def)

lemma demo_create_runs: "map gt_task_key (gw_tasks demo_created) = [''TASK-1'']"
  by code_simp

lemma demo_steps_to_created: "board_step demo_board_env demo_board demo_created"
  unfolding demo_created_def by (rule board_step.create [OF surjective_pairing])

section \<open>Every run\<close>

text \<open>
  C5: Whatever calls the board serves and however they interleave, no two tasks share an id, a key in their
  conversation or an idempotency key, every task has a valid status and exactly one owner row, its assignee, and its
  history's versions increase up to its own; tasks stay with their identity, a changed task has a higher version, and
  history and conversation log are only extended.
\<close>

theorem board_invariant:
  assumes "(board_step E)\<^sup>*\<^sup>* s t" "board_wf s"
  shows "board_wf t \<and> grows s t"
  using board.run_keeps [OF assms] board.run_guarantees [OF assms(1)] by blast

theorem board_invariant_witness:
  "board_wf demo_created \<and> grows demo_board demo_created \<and> gw_tasks demo_created \<noteq> []"
proof -
  have "gw_tasks demo_created \<noteq> []" using demo_create_runs by auto
  then show ?thesis
    using board_invariant [OF r_into_rtranclp [of "board_step demo_board_env", OF demo_steps_to_created] demo_board_wf] by blast
qed

section \<open>Creating twice\<close>

text \<open>The hash of a request, its defaults filled in.\<close>

definition request_hash :: "board_env \<Rightarrow> string \<Rightarrow> create_channel_task_request \<Rightarrow> string app_result" where
  "request_hash E actor_id request =
     channel_task_create_payload_hash E (case cq_task_key request of Some k \<Rightarrow> k | None \<Rightarrow> []) (cq_title request)
       (case cq_assignee_principal_id request of Some a \<Rightarrow> a | None \<Rightarrow> actor_id)
       (case cq_status request of Some st \<Rightarrow> st | None \<Rightarrow> Todo) (cq_context_label request)"

lemma snapshot_row:
  assumes "channel_task_snapshot_tx i s = (Ret snap, t)"
  shows "\<exists>row\<in>set (gw_tasks s). gt_id row = i \<and> ts_task_id snap = i \<and> ts_task_key snap = gt_task_key row"
proof -
  obtain row rest where row: "channel_task_snapshot_select s (\<lambda>t. gt_id t = i) = row # rest"
    "channel_task_snapshot_from_row s row = Inr snap"
    using assms by (auto simp: channel_task_snapshot_tx_def st_ask_runs split: list.splits)
  have "row \<in> set (channel_task_snapshot_select s (\<lambda>t. gt_id t = i))" unfolding row(1) by simp
  then have "row \<in> set (gw_tasks s)" "gt_id row = i" by (simp_all add: channel_task_snapshot_select_def)
  moreover have "ts_task_id snap = gt_id row" "ts_task_key snap = gt_task_key row"
    using row(2) unfolding channel_task_snapshot_from_row_def by (auto split: sum.splits)
  ultimately show ?thesis by auto
qed

lemma snapshot_id: "channel_task_snapshot_tx i s = (Ret snap, t) \<Longrightarrow> ts_task_id snap = i"
  using snapshot_row by blast

lemma create_body_Ret:
  assumes "create_channel_task_body E nw a c p st h req s = (Ret outcome, t)"
  shows "case outcome of
      Inl i \<Rightarrow> find_agent_idempotent_task s c a (cq_idempotency_key req) = Some (i, Some h)
    | Inr snap \<Rightarrow> find_agent_idempotent_task s c a (cq_idempotency_key req) = None \<and>
        (\<exists>n i v vals. insert_agent_task n E nw a c p st h req s = (Ret (True, i), v) \<and>
           announce_created E nw a c i None p vals v = (Ret snap, t))"
proof (cases "find_agent_idempotent_task s c a (cq_idempotency_key req)")
  case (Some e)
  then show ?thesis
    using assms by (auto simp: create_channel_task_body_def Let_def runs reuse_if_same_Ret dest!: check_runs(4))
next
  case None
  then obtain checked u where u: "st_try (validate_visible_channel_task_assignee_tx c p False True) s = (Ret checked, u)"
    and run: "(case checked of
         Inl error \<Rightarrow> st_bind (st_get (\<lambda>s. find_agent_idempotent_task s c a (cq_idempotency_key req))) (\<lambda>existing.
            case existing of Some e \<Rightarrow> st_bind (reuse_if_same h e) (\<lambda>existing_id. st_ret (Inl existing_id))
            | None \<Rightarrow> st_lift (Fail error))
       | Inr _ \<Rightarrow> insert_new_channel_task E nw a c p st h req) u = (Ret outcome, t)"
    using assms by (auto simp: create_channel_task_body_def Let_def st_bind_Ret st_get_runs dest!: check_runs(4))
  have "u = s" using reads_runs [OF reads_intros(8) [OF checks_read(5)] u] .
  with run None have "insert_new_channel_task E nw a c p st h req s = (Ret outcome, t)"
    by (cases checked) (auto simp: st_bind_Ret st_get_runs)
  then obtain n created i v vals where v: "insert_agent_task n E nw a c p st h req s = (Ret (created, i), v)"
    and rest: "if created then \<exists>task. announce_created E nw a c i None p vals v = (Ret task, t) \<and> outcome = Inr task
       else outcome = Inl i"
    unfolding insert_new_channel_task_def
    by (auto simp: st_bind_Ret simp del: insert_agent_task.simps split: if_splits)
  show ?thesis
  proof (cases created)
    case False
    with insert_agent_task_Ret [OF v] rest show ?thesis by simp
  next
    case True
    with v rest None show ?thesis by auto blast
  qed
qed

lemma create_Ret:
  assumes "create_channel_task E a c req s = (Ret (created, snap), t)"
  obtains h nw outcome u where "request_hash E a req = Inr h"
    "create_channel_task_body E nw a c (case cq_assignee_principal_id req of Some p \<Rightarrow> p | None \<Rightarrow> a)
       (case cq_status req of Some st \<Rightarrow> st | None \<Rightarrow> Todo) h req (s\<lparr>clock_reads := Suc (clock_reads s)\<rparr>) = (Ret outcome, u)"
    "if created then outcome = Inr snap \<and> t = u
     else \<exists>i. outcome = Inl i \<and> get_channel_task_snapshot a i u = (Ret snap, t)"
proof -
  obtain h outcome u where h: "request_hash E a req = Inr h"
    and body: "transact E (\<lambda>nw. create_channel_task_body E nw a c (case cq_assignee_principal_id req of Some p \<Rightarrow> p | None \<Rightarrow> a)
       (case cq_status req of Some st \<Rightarrow> st | None \<Rightarrow> Todo) h req) s = (Ret outcome, u)"
    and out: "(case outcome of Inr task \<Rightarrow> st_ret (True, task)
        | Inl i \<Rightarrow> st_bind (get_channel_task_snapshot a i) (\<lambda>task. st_ret (False, task))) u = (Ret (created, snap), t)"
    using assms by (auto simp: create_channel_task_def request_hash_def Let_def st_bind_Ret st_ask_runs)
  show thesis
    by (rule that [OF h body [unfolded transact_Ret]])
       (use out in \<open>cases outcome; auto simp: st_bind_Ret\<close>)
qed

text \<open>A created task: its row, and what it is found by afterwards.\<close>

lemma create_created_row:
  assumes "create_channel_task E a c req s = (Ret (True, snap), t)"
  obtains h nw k p st where "request_hash E a req = Inr h"
    "find_agent_idempotent_task s c a (cq_idempotency_key req) = None"
    "gw_tasks t = gw_tasks s @ [agent_task_row nw a c (ts_task_id snap) k p st h req]" "ts_task_key snap = k"
    "\<not> list_ex (clashes (agent_task_row nw a c (ts_task_id snap) k p st h req)) (gw_tasks s)"
proof -
  let ?p = "case cq_assignee_principal_id req of Some a \<Rightarrow> a | None \<Rightarrow> a"
  let ?st = "case cq_status req of Some st \<Rightarrow> st | None \<Rightarrow> Todo"
  let ?s = "s\<lparr>clock_reads := Suc (clock_reads s)\<rparr>"
  obtain h nw where h: "request_hash E a req = Inr h"
    and body: "create_channel_task_body E nw a c ?p ?st h req ?s = (Ret (Inr snap), t)"
    by (rule create_Ret [OF assms]) auto
  from create_body_Ret [OF body] obtain n i v vals where
    none: "find_agent_idempotent_task ?s c a (cq_idempotency_key req) = None" and
    v: "insert_agent_task n E nw a c ?p ?st h req ?s = (Ret (True, i), v)" and
    ann: "announce_created E nw a c i None ?p vals v = (Ret snap, t)" by auto
  from insert_agent_task_Ret [OF v] obtain k where
    row: "gw_tasks v = gw_tasks s @ [agent_task_row nw a c i k ?p ?st h req]" and
    clash: "\<not> list_ex (clashes (agent_task_row nw a c i k ?p ?st h req)) (gw_tasks s)" by auto
  have none': "find_agent_idempotent_task s c a (cq_idempotency_key req) = None"
    using none by (simp add: find_agent_idempotent_task_def)
  show thesis
  proof (rule announce_created_Ret [OF ann], rule fanout_Ret, assumption, goal_cases)
    case (1 owner ev w an)
    from snapshot_row [OF 1(15)] obtain x where x: "x \<in> set (gw_tasks v)" "gt_id x = i" "ts_task_id snap = i"
      "ts_task_key snap = gt_task_key x" using 1(4) by auto
    have "gt_id y \<noteq> i" if "y \<in> set (gw_tasks s)" for y
      using clash that clashes_same_id [of _ y] by (auto simp: list_ex_iff agent_task_row_def)
    then have "x = agent_task_row nw a c i k ?p ?st h req" using x(1,2) row by auto
    then have "ts_task_key snap = k" using x(4) by (simp add: agent_task_row_def)
    then show ?case using that [OF h none'] row clash 1(4,14) x(3) by auto
  qed
qed

lemma create_created:
  assumes "create_channel_task E a c req s = (Ret (True, snap), t)"
  shows "\<exists>h. request_hash E a req = Inr h \<and>
     find_agent_idempotent_task t c a (cq_idempotency_key req) = Some (ts_task_id snap, Some h)"
proof (rule create_created_row [OF assms], goal_cases)
  case (1 h nw k p st)
  have "find P (xs @ [x]) = Some x" if "find P xs = None" "P x" for P xs and x :: task_row
    using that by (induction xs) (auto split: if_splits)
  then show ?case using 1 by (simp add: find_agent_idempotent_task_def agent_task_row_def)
qed

lemma grows_find:
  assumes "grows s t" "find P (gw_tasks s) = Some x" "\<And>u v. task_ident u = task_ident v \<Longrightarrow> P u = P v"
  shows "\<exists>y. find P (gw_tasks t) = Some y \<and> later x y"
proof -
  have "\<exists>y. find P (ts @ new) = Some y \<and> later x y" if "list_all2 later xs ts" "find P xs = Some x" for xs ts new
    using that
  proof (induction rule: list_all2_induct)
    case (Cons u xs v ts)
    have "v = u \<or> task_ident v = task_ident u" using Cons(1) by (auto simp: later_def)
    then have same: "P v = P u" using assms(3) [of v u] by auto
    show ?case
    proof (cases "P u")
      case True
      with Cons(1,4) same show ?thesis by simp
    next
      case False
      with Cons(3,4) same show ?thesis by simp
    qed
  qed simp
  moreover obtain ts new where "gw_tasks t = ts @ new" "list_all2 later (gw_tasks s) ts"
    using assms(1) unfolding grows_def by blast
  ultimately show ?thesis using assms(2) by simp
qed

lemma find_agent_kept:
  assumes "grows s t" "find_agent_idempotent_task s c a k = Some (i, h)"
  shows "find_agent_idempotent_task t c a k = Some (i, h)"
proof -
  let ?P = "\<lambda>t. gt_conversation_id t = c \<and> gt_created_by t = Some a \<and> gt_idempotency_key t = Some k"
  obtain x where x: "find ?P (gw_tasks s) = Some x" "gt_id x = i" "gt_idempotency_payload_hash x = h"
    using assms(2) by (auto simp: find_agent_idempotent_task_def)
  have "\<exists>y. find ?P (gw_tasks t) = Some y \<and> later x y"
    by (rule grows_find [OF assms(1) x(1)]) (auto simp: task_ident_def)
  then show ?thesis using x by (auto simp: find_agent_idempotent_task_def later_def task_ident_def)
qed

text \<open>Nothing but identifiers and the clock may change.\<close>

definition draws :: "'a board_op \<Rightarrow> board_db \<Rightarrow> bool" where
  "draws m s \<longleftrightarrow> (\<forall>r t. m s = (r, t) \<longrightarrow> drawn s t)"

lemma draws_rules:
  "reads m \<Longrightarrow> draws m s"
  "draws m s \<Longrightarrow> (\<And>x t. m s = (Ret x, t) \<Longrightarrow> draws (f x) t) \<Longrightarrow> draws (st_bind m f) s"
  "(\<And>nw n. draws (body nw) (s\<lparr>clock_reads := n\<rparr>)) \<Longrightarrow> draws (transact E body) s"
proof -
  show "reads m \<Longrightarrow> draws m s" unfolding draws_def by (metis drawn_refl reads_runs)
  show "draws (st_bind m f) s" if "draws m s" "\<And>x t. m s = (Ret x, t) \<Longrightarrow> draws (f x) t"
    for m :: "'x board_op" and f :: "'x \<Rightarrow> 'y board_op"
    using that unfolding draws_def
    by (auto simp: st_bind_def split: prod.splits exec.splits intro: drawn_trans)
  show "draws (transact E body) s" if "\<And>nw n. draws (body nw) (s\<lparr>clock_reads := n\<rparr>)" for body :: "timestamp \<Rightarrow> 'x board_op"
    using that unfolding draws_def transact_def now_def Let_def by (auto split: prod.splits exec.splits)
qed

lemma draws_bind_reads:
  assumes "reads m" "\<And>x. m s = (Ret x, s) \<Longrightarrow> draws (f x) s"
  shows "draws (st_bind m f) s"
  by (rule draws_rules(2) [OF draws_rules(1) [OF assms(1)]]) (use assms reads_runs in blast)

lemma create_body_found:
  assumes "find_agent_idempotent_task s c a (cq_idempotency_key req) = Some e"
  shows "create_channel_task_body E nw a c p st h req s =
    st_bind (require_visible_group_agent_actor_tx a c) (\<lambda>_. st_bind (reuse_if_same h e) (\<lambda>i. st_ret (Inl i))) s"
proof (cases "require_visible_group_agent_actor_tx a c s")
  case (Pair r t)
  then have "t = s" by (rule check_runs(4))
  with Pair assms show ?thesis
    by (cases r) (simp_all add: create_channel_task_body_def Let_def st_bind_def [of "require_visible_group_agent_actor_tx a c"]
        st_bind_def [of "st_get _"] st_get_def)
qed

lemma create_found:
  assumes "find_agent_idempotent_task s c a (cq_idempotency_key req) = Some (i, h)"
  shows "draws (create_channel_task E a c req) s"
    "create_channel_task E a c req s = (Ret (created, snap), t) \<Longrightarrow>
      \<not> created \<and> ts_task_id snap = i \<and> (\<exists>k. h = Some k \<and> request_hash E a req = Inr k)"
proof -
  have found: "find_agent_idempotent_task (s\<lparr>clock_reads := n\<rparr>) c a (cq_idempotency_key req) = Some (i, h)" for n
    using assms by (simp add: find_agent_idempotent_task_def)
  have "draws (create_channel_task_body E nw a c p st h' req) (s\<lparr>clock_reads := n\<rparr>)" for nw p st h' n
  proof -
    have "reads (st_bind (require_visible_group_agent_actor_tx a c) (\<lambda>_. st_bind (reuse_if_same h' (i, h)) (\<lambda>i. st_ret (Inl i))))"
      by auto
    then show ?thesis unfolding draws_def create_body_found [OF found] by (metis drawn_refl reads_runs)
  qed
  then have tx: "draws (transact E (\<lambda>nw. create_channel_task_body E nw a c p st h' req)) s" for p st h'
    by (rule draws_rules(3))
  show "draws (create_channel_task E a c req) s"
    unfolding create_channel_task_def Let_def
    by (intro draws_rules(2) [OF tx] draws_bind_reads draws_rules(1)) auto
  assume run: "create_channel_task E a c req s = (Ret (created, snap), t)"
  show "\<not> created \<and> ts_task_id snap = i \<and> (\<exists>k. h = Some k \<and> request_hash E a req = Inr k)"
  proof (rule create_Ret [OF run], goal_cases)
    case (1 k nw outcome u)
    from create_body_Ret [OF 1(2)] found have "outcome = Inl i" "h = Some k" by (cases outcome; auto)+
    with 1(1,3) show ?case
      by (auto simp: get_channel_task_snapshot_def st_bind_Ret snapshot_id split: if_splits)
  qed
qed

text \<open>The request that once succeeded succeeds again, for an actor who is still there.\<close>

lemma create_again:
  assumes "create_channel_task E a c req s = (Ret x, t)"
    and "find_agent_idempotent_task u c a (cq_idempotency_key req) = Some (i, Some h)" "request_hash E a req = Inr h"
    and "member_row u c a visible_group_agent \<noteq> None"
  shows "create_channel_task E a c req u =
    st_bind (get_channel_task_snapshot a i) (\<lambda>task. st_ret (False, task)) (u\<lparr>clock_reads := Suc (clock_reads u)\<rparr>)"
proof -
  let ?u = "u\<lparr>clock_reads := Suc (clock_reads u)\<rparr>"
  have ok: "(case cq_task_key req of Some key \<Rightarrow> validate_task_key key | None \<Rightarrow> Inr ()) = Inr ()"
    "validate_meaningful_title (cq_title req) = Inr ()"
    "validate_required_text ''idempotency_key'' (cq_idempotency_key req) = Inr ()"
    "validate_optional_text ''context_label'' (cq_context_label req) = Inr ()"
    using assms(1) by (auto simp: create_channel_task_def Let_def st_bind_Ret st_ask_runs)
  have "trim a \<noteq> []"
  proof -
    obtain h' nw outcome v p st where "create_channel_task_body E nw a c p st h' req (s\<lparr>clock_reads := Suc (clock_reads s)\<rparr>) = (Ret outcome, v)"
      using assms(1) create_Ret by (metis surj_pair)
    then show ?thesis
      unfolding create_channel_task_body_def Let_def st_bind_Ret require_visible_group_agent_actor_tx_def st_ask_runs
      by (auto simp: validate_required_text_def)
  qed
  then have "require_visible_group_agent_actor_tx a c ?u = (Ret (), ?u)"
    using assms(4) by (auto simp: require_visible_group_agent_actor_tx_def st_bind_def st_ask_def validate_required_text_def)
  moreover have "find_agent_idempotent_task ?u c a (cq_idempotency_key req) = Some (i, Some h)"
    using assms(2) by (simp add: find_agent_idempotent_task_def)
  ultimately have "create_channel_task_body E nw a c p st h req ?u = (Ret (Inl i), ?u)" for nw p st
    by (simp add: create_body_found st_bind_def reuse_if_same_def st_ret_def)
  then have "transact E (\<lambda>nw. create_channel_task_body E nw a c p st h req) u = (Ret (Inl i), ?u)" for p st
    by (simp add: transact_def now_def)
  with assms(3) show ?thesis
    by (simp add: create_channel_task_def Let_def st_bind_def [of "st_ask _"] st_bind_def [of "transact _ _"] st_ask_def ok
        request_hash_def)
qed


lemma demo_created_run:
  obtains snap where "create_channel_task demo_board_env ''ada'' ''c'' demo_request demo_board = (Ret (True, snap), demo_created)"
proof -
  have "case fst (create_channel_task demo_board_env ''ada'' ''c'' demo_request demo_board) of Ret (b, _) \<Rightarrow> b | _ \<Rightarrow> False"
    by code_simp
  then show thesis
    using that unfolding demo_created_def
    by (cases "create_channel_task demo_board_env ''ada'' ''c'' demo_request demo_board") (auto split: exec.splits)
qed


section \<open>Generated keys\<close>

definition ids_unused :: "board_env \<Rightarrow> board_db \<Rightarrow> bool" where
  "ids_unused E s \<longleftrightarrow> (\<forall>n\<ge>ids_drawn s. env_uuid E n \<notin> gt_id ` set (gw_tasks s))"

text \<open>With a new id and an unused key only the idempotency key can clash.\<close>

lemma agent_row_clash:
  assumes "list_ex (clashes (agent_task_row nw a c i k p st h req)) (gw_tasks s)" "i \<notin> gt_id ` set (gw_tasks s)"
    "\<not> key_taken s c k"
  shows "find_agent_idempotent_task s c a (cq_idempotency_key req) \<noteq> None"
proof -
  obtain u where u: "u \<in> set (gw_tasks s)" "clashes (agent_task_row nw a c i k p st h req) u"
    using assms(1) by (auto simp: list_ex_iff)
  have "gt_id u \<noteq> i" "\<not> (gt_conversation_id u = c \<and> gt_task_key u = k)"
    using u(1) assms(2,3) by (auto simp: key_taken_def list_ex_iff)
  then have "gt_conversation_id u = c \<and> gt_created_by u = Some a \<and> gt_idempotency_key u = Some (cq_idempotency_key req)"
    using u(2) by (auto simp: clashes_def same_idempotency_def same_message_def agent_task_row_def)
  then show ?thesis using u(1) by (auto simp: find_agent_idempotent_task_def find_None_iff)
qed

lemma errors_differ:
  "errors (\<lambda>e. e \<noteq> retries_exhausted) (insert_task_with_key row)"
  "errors (\<lambda>e. e \<noteq> retries_exhausted) (insert_task_or_nothing row)"
  "errors (\<lambda>e. e \<noteq> retries_exhausted) (reuse_if_same h x)"
  "errors (\<lambda>e. e \<noteq> retries_exhausted) (allocate_unused_task_key_tx c)"
proof -
  show "errors (\<lambda>e. e \<noteq> retries_exhausted) (allocate_unused_task_key_tx c)"
    unfolding allocate_unused_task_key_tx_def by (rule allocate_errors)
qed (auto simp: insert_task_with_key_def insert_task_or_nothing_def reuse_if_same_def idempotency_conflict_def
     retries_exhausted_def split: prod.splits)

lemma conflict_differs: "idempotency_conflict \<noteq> retries_exhausted"
  by (simp add: idempotency_conflict_def retries_exhausted_def)

lemma insert_agent_task_errors:
  assumes "insert_agent_task (Suc n) E nw a c p st h req s = (Fail e, t)" "ids_unused E s"
  shows "e \<noteq> retries_exhausted"
proof
  assume e: "e = retries_exhausted"
  let ?i = "env_uuid E (ids_drawn s)" and ?s = "s\<lparr>ids_drawn := Suc (ids_drawn s)\<rparr>"
  have i: "?i \<notin> gt_id ` set (gw_tasks s)" using assms(2) by (simp add: ids_unused_def)
  show False
  proof (cases "cq_task_key req")
    case (Some key)
    then show False
      using assms(1) e conflict_differs
      by (auto simp: runs Let_def split: option.splits if_splits dest!: errors_differ(1,3) [THEN errorsD])
  next
    case None
    have found: "find_agent_idempotent_task u c a (cq_idempotency_key req) \<noteq> None"
      if k: "allocate_unused_task_key_tx c ?s = (Ret k, u)"
        and clash: "list_ex (clashes (agent_task_row nw a c ?i k p st h req)) (gw_tasks u)" for k u
    proof -
      have u: "gw_tasks u = gw_tasks s" "\<not> key_taken s c k"
        using allocate_key_Ret [of ALLOCATE_TASK_KEY_MAX_ATTEMPTS c ?s k u] k
        by (auto simp: allocate_unused_task_key_tx_def key_taken_def)
      then show ?thesis
        using agent_row_clash [of nw a c ?i k p st h req s] clash i find_agent_cong [OF u(1)] by simp
    qed
    show False
      using assms(1) None e
      by (auto simp: st_bind_Fail st_new_id_runs Let_def insert_task_or_nothing_Ret st_get_runs simp del: insert_agent_task.simps(1)
          split: if_splits option.splits dest!: errors_differ [THEN errorsD] dest: found)
  qed
qed

lemma snapshot_errors:
  "errors (\<lambda>e. e \<noteq> retries_exhausted) (channel_task_snapshot_tx i)"
  "errors (\<lambda>e. e \<noteq> retries_exhausted) (get_channel_task_snapshot a i)"
proof -
  have "channel_task_snapshot_from_row s row \<noteq> Inl retries_exhausted" for s row
    by (auto simp: channel_task_snapshot_from_row_def task_status_from_str_def source_kind_from_str_def
        parse_principal_type_opt_def retries_exhausted_def split: option.splits sum.splits if_splits)
  moreover have "NotFound d \<noteq> retries_exhausted" for d by (simp add: retries_exhausted_def)
  ultimately show snap: "errors (\<lambda>e. e \<noteq> retries_exhausted) (channel_task_snapshot_tx i)"
    by (auto simp: channel_task_snapshot_tx_def split: list.splits)
  show "errors (\<lambda>e. e \<noteq> retries_exhausted) (get_channel_task_snapshot a i)"
    unfolding get_channel_task_snapshot_def require_channel_task_conversation_access_def
    by (auto intro!: snap [unfolded retries_exhausted_def] simp: get_principal_def get_conversation_def retries_exhausted_def split: option.splits if_splits)
qed

lemma announce_errors: "errors (\<lambda>e. e \<noteq> retries_exhausted) (announce_created E nw a c i src p vals)"
  unfolding announce_created_def sync_owner_participant_tx_def insert_task_participant_tx_def insert_workflow_event_tx_def
    insert_channel_task_fanout_event_tx_def Let_def
  by (auto intro!: snapshot_errors(1) [unfolded retries_exhausted_def] simp: validate_required_text_def owner_is_synchronized_def db_error_def retries_exhausted_def
      split: if_splits)

lemma create_body_errors:
  assumes "create_channel_task_body E nw a c p st h req s = (Fail e, t)" "ids_unused E s"
  shows "e \<noteq> retries_exhausted"
proof
  assume e: "e = retries_exhausted"
  have no: "require_visible_group_agent_actor_tx a c s \<noteq> (Fail e, t)"
    "validate_visible_channel_task_assignee_tx c p False True s \<noteq> (Fail e, t)" for s t
    by (auto simp: require_visible_group_agent_actor_tx_def validate_visible_channel_task_assignee_tx_def runs e
        validate_required_text_def retries_exhausted_def split: option.splits if_splits)
  have "(if cq_task_key req \<noteq> None then 1 else GENERATED_TASK_INSERT_MAX_ATTEMPTS) \<noteq> 0"
    by (simp add: GENERATED_TASK_INSERT_MAX_ATTEMPTS_def)
  then obtain n where n: "(if cq_task_key req \<noteq> None then 1 else GENERATED_TASK_INSERT_MAX_ATTEMPTS) = Suc n"
    using not0_implies_Suc by blast
  show False
  proof (cases "find_agent_idempotent_task s c a (cq_idempotency_key req)")
    case (Some x)
    then show False
      using assms(1) e no
      by (auto simp: create_body_found runs dest!: errors_differ(3) [THEN errorsD])
  next
    case None
    then obtain checked u where u: "st_try (validate_visible_channel_task_assignee_tx c p False True) s = (Ret checked, u)"
      and run: "(case checked of
         Inl error \<Rightarrow> st_bind (st_get (\<lambda>s. find_agent_idempotent_task s c a (cq_idempotency_key req))) (\<lambda>existing.
            case existing of Some e \<Rightarrow> st_bind (reuse_if_same h e) (\<lambda>existing_id. st_ret (Inl existing_id))
            | None \<Rightarrow> st_lift (Fail error))
       | Inr _ \<Rightarrow> insert_new_channel_task E nw a c p st h req) u = (Fail e, t)"
      using assms(1) no
      by (auto simp: create_channel_task_body_def Let_def st_bind_Fail st_get_runs st_try_runs(2) dest!: check_runs(4))
    have "u = s" using reads_runs [OF reads_intros(8) [OF checks_read(5)] u] .
    with run None u no have "insert_new_channel_task E nw a c p st h req s = (Fail e, t)"
      by (cases checked) (auto simp: st_bind_Fail st_get_runs st_try_runs)
    then show False
      unfolding insert_new_channel_task_def n
      using assms(2) e
      by (auto simp: st_bind_Fail simp del: insert_agent_task.simps split: if_splits
          dest!: insert_agent_task_errors announce_errors [THEN errorsD])
  qed
qed

lemma request_checks_differ:
  "validate_task_key k \<noteq> Inl retries_exhausted" "validate_meaningful_title ti \<noteq> Inl retries_exhausted"
  "validate_required_text field v \<noteq> Inl retries_exhausted" "validate_optional_text field ov \<noteq> Inl retries_exhausted"
  "channel_task_create_payload_hash E tk ti p st cl \<noteq> Inl retries_exhausted"
  by (auto simp: validate_task_key_def validate_meaningful_title_def validate_required_text_def validate_optional_text_def
      channel_task_create_payload_hash_def retries_exhausted_def split: option.splits sum.splits if_splits)



end
