(* ===== verification/Board_Access.thy ===== *)
theory Board_Access
  imports Board_Props
begin

text \<open>
  Who may change a task and what a change does: patches, workflow events, and the stale write of the workflow
  layer's update.
\<close>

section \<open>Patches\<close>

lemma task_with_id_update:
  assumes "task_with_id s i = Some old" "gt_id row = i"
  shows "task_with_id (update_task i (\<lambda>_. row) s) j = (if j = i then Some row else task_with_id s j)"
proof -
  have "find (\<lambda>t. gt_id t = i) (map (\<lambda>t. if gt_id t = i then row else t) ts) = Some row" if "find (\<lambda>t. gt_id t = i) ts = Some old" for ts
    using that assms(2) by (induction ts) (auto split: if_splits)
  moreover have "find (\<lambda>t. gt_id t = j) (map (\<lambda>t. if gt_id t = i then row else t) ts) = find (\<lambda>t. gt_id t = j) ts"
    if "j \<noteq> i" for ts
    using that assms(2) by (induction ts) auto
  ultimately show ?thesis using assms(1) by (auto simp: task_with_id_def update_task_def)
qed

lemma patch_Ret:
  assumes "patch_channel_task E actor i req s = (Ret snap, t)"
  obtains nw old ev u where "task_with_id s i = Some old"
    "apply_channel_task_patch_tx E nw actor old req None ''channel_task.updated'' (gt_source_message_id old) (jobj [])
       (s\<lparr>clock_reads := Suc (clock_reads s)\<rparr>) = (Ret ev, u)"
    "if ge_resulting_version ev \<noteq> None
     then insert_channel_task_fanout_event_tx E nw (gt_conversation_id old) (Some actor) ''channel_task.updated'' i u = (Ret snap, t)
     else channel_task_snapshot_tx i u = (Ret snap, t)"
  using assms
  by (auto simp: patch_channel_task_def st_bind_Ret st_ask_runs transact_Ret lock_Ret member_access_Ret task_with_id_def
      split: if_splits)

text \<open>
  C20: A patch of a channel task that succeeds was made by someone who may make it, gives the task only to someone it
  may be given to, and does exactly what was asked: the one row changes as requested with the next version, its owner row
  follows the assignee, one history event records the actor and the version, one announcement goes to the conversation
  log, and nothing is queued for the router.
\<close>

theorem patch_authorised_and_exact:
  assumes "board_wf s" "patch_channel_task E actor i req s = (Ret snap, t)"
  shows "\<exists>old nw ev an. task_with_id s i = Some old \<and> may_patch s actor old \<and>
     (\<forall>a. pr_assignee_principal_id req = Some a \<longrightarrow> may_assign s actor old a) \<and>
     (\<forall>j. task_with_id t j = (if j = i then Some (patched_row nw old req) else task_with_id s j)) \<and>
     owners t i = [gt_assignee_principal_id (patched_row nw old req)] \<and>
     gw_events t = gw_events s @ [ev] \<and> ge_actor_principal_id ev = Some actor \<and> ge_task_id ev = Some i \<and>
     ge_resulting_version ev = Some (gt_version old + 1) \<and>
     conversation_events t = conversation_events s @ [an] \<and> ev_conversation_id an = gt_conversation_id old \<and>
     ev_event_type an = ''channel_task.updated'' \<and> event_outbox t = event_outbox s"
proof (rule patch_Ret [OF assms(2)], goal_cases)
  case (1 nw old ev u)
  let ?s = "s\<lparr>clock_reads := Suc (clock_reads s)\<rparr>"
  note p = apply_patch_Ret [OF 1(2)]
  have i: "gt_id old = i" using task_with_id_Some [OF 1(1)] by simp
  have wf: "tasks_wf ?s" and old: "task_with_id ?s (gt_id old) = Some old"
    using assms(1) 1(1) i by (simp_all add: board_wf_def tasks_wf_def task_with_id_def)
  have may: "may_patch s actor old" "\<And>a. pr_assignee_principal_id req = Some a \<Longrightarrow> may_assign s actor old a"
    using p(2,3) by (auto simp: may_patch_def may_assign_def is_configured_channel_task_coordinator_def)
  show ?case
  proof (rule apply_authorized_Ret [OF p(1) wf old], goal_cases)
    case A: (1 owner)
    have fan: "insert_channel_task_fanout_event_tx E nw (gt_conversation_id old) (Some actor) ''channel_task.updated'' i u = (Ret snap, t)"
      using 1(3) A(8) by simp
    show ?case
    proof (rule fanout_Ret [OF fan], goal_cases)
      case F: (1 an)
      have rows: "task_with_id t j = (if j = i then Some (patched_row nw old req) else task_with_id s j)" for j
      proof -
        have "gw_tasks t = gw_tasks (update_task i (\<lambda>_. patched_row nw old req) s)"
          using F(1) A(1) i by (simp add: update_task_def)
        then show ?thesis
          using task_with_id_update [OF 1(1), of "patched_row nw old req" j] i by (simp add: task_with_id_def)
      qed
      have "owners u i = [gt_assignee_principal_id (patched_row nw old req)]"
        using owners_sync [of u i ?s owner i] A(2-4) i by simp
      then have owner: "owners t i = [gt_assignee_principal_id (patched_row nw old req)]"
        using F(1) by (simp add: owners_def)
      show ?thesis
        by (intro exI [of _ old] exI [of _ nw] exI [of _ ev] exI [of _ an] conjI allI impI)
           (use 1(1) may rows owner A i F in simp_all)
    qed
  qed
qed

definition demo_patch :: patch_channel_task_request where
  "demo_patch = \<lparr>pr_status = Some Done, pr_assignee_principal_id = None, pr_blocked_reason = Unchanged, pr_context_label = Unchanged\<rparr>"

definition demo_patched :: board_db where
  "demo_patched = snd (patch_channel_task demo_board_env ''ada'' ''id-0'' demo_patch demo_created)"

lemma demo_created_wf: "board_wf demo_created"
  by (rule board.step_keeps [OF demo_steps_to_created demo_board_wf])

lemma demo_patch_run:
  obtains snap where "patch_channel_task demo_board_env ''ada'' ''id-0'' demo_patch demo_created = (Ret snap, demo_patched)"
proof -
  have "case fst (patch_channel_task demo_board_env ''ada'' ''id-0'' demo_patch demo_created) of Ret _ \<Rightarrow> True | _ \<Rightarrow> False"
    by code_simp
  then show thesis
    using that unfolding demo_patched_def
    by (cases "patch_channel_task demo_board_env ''ada'' ''id-0'' demo_patch demo_created") (auto split: exec.splits)
qed

theorem patch_authorised_and_exact_witness:
  "\<exists>old nw. task_with_id demo_created ''id-0'' = Some old \<and> may_patch demo_created ''ada'' old \<and>
     task_with_id demo_patched ''id-0'' = Some (patched_row nw old demo_patch) \<and> length (gw_events demo_patched) = 2"
proof (rule demo_patch_run)
  fix snap assume run: "patch_channel_task demo_board_env ''ada'' ''id-0'' demo_patch demo_created = (Ret snap, demo_patched)"
  have "length (gw_events demo_patched) = 2" by code_simp
  then show ?thesis using patch_authorised_and_exact [OF demo_created_wf run] by auto
qed

section \<open>Workflow events\<close>

text \<open>What an event may do to the tasks of the board it finds when its transaction begins.\<close>

definition status_change :: "board_db \<Rightarrow> string \<Rightarrow> string \<Rightarrow> json \<Rightarrow> board_db \<Rightarrow> bool" where
  "status_change s actor kind payload t \<longleftrightarrow>
     (\<exists>st old p nw. status_for_workflow_event kind payload = UpdateStatus st \<and> old \<in> set (gw_tasks s) \<and>
        member_row s (gt_conversation_id old) actor (member_or_company s actor) = Some p \<and>
        workflow_actor_authorized s actor (pp_type p) old kind = Inr () \<and>
        gw_tasks t = gw_tasks (update_task (gt_id old) (\<lambda>_. patched_row nw old (status_patch st)) s))"

lemma announce_updated_tasks:
  "announce_updated E nw c actor i ev s = (Ret ev', t) \<Longrightarrow> gw_tasks t = gw_tasks s"
  by (auto simp: announce_updated_def st_bind_Ret split: if_splits elim: fanout_Ret)

lemma workflow_update_tasks:
  assumes "apply_workflow_status_update_tx E nw task a kind src (status_for_workflow_event kind payload) payload s = (Ret ev, t)"
    and "tasks_wf s"
  shows "gw_tasks t = gw_tasks s \<or> status_change s a kind payload t"
  using assms(1)
proof (cases rule: workflow_update_cases)
  case (patch st old p)
  have old: "old \<in> set (gw_tasks s)" "task_with_id s (gt_id old) = Some old"
    using task_with_id_Some [OF patch(2)] patch(2) by auto
  have "gw_tasks t = gw_tasks (update_task (gt_id old) (\<lambda>_. patched_row nw old (status_patch st)) s)"
    by (rule apply_authorized_Ret [OF patch(3) assms(2) old(2)]) assumption
  then show ?thesis using patch(1,4,5) old(1) unfolding status_change_def by blast
next
  case (remark row reason effect detail)
  then show ?thesis by (auto simp: diagnostic_event_def insert_workflow_event_Ret)
qed

text \<open>Where a call can leave the board.\<close>

definition yields :: "'a board_op \<Rightarrow> board_db \<Rightarrow> (board_db \<Rightarrow> bool) \<Rightarrow> bool" where
  "yields m s Q \<longleftrightarrow> (\<forall>r t. m s = (r, t) \<longrightarrow> Q t)"

lemma yields_reads: "reads m \<Longrightarrow> Q s \<Longrightarrow> (\<And>x. m s = (Ret x, s) \<Longrightarrow> yields (f x) s Q) \<Longrightarrow> yields (st_bind m f) s Q"
  unfolding yields_def by (auto simp: st_bind_def dest: reads_runs split: prod.splits exec.splits)

lemma yields_others: "yields (f ()) (others s) Q \<Longrightarrow> yields (st_bind (st_upd others) f) s Q"
  by (simp add: yields_def st_bind_def st_upd_def)

lemma yields_transact:
  assumes "\<And>t. drawn s t \<Longrightarrow> Q t" "\<And>nw n x t. body nw (s\<lparr>clock_reads := n\<rparr>) = (Ret x, t) \<Longrightarrow> Q t"
  shows "yields (transact E body) s Q"
  unfolding yields_def
proof (intro allI impI)
  fix r t assume run: "transact E body s = (r, t)"
  show "Q t"
  proof (cases r)
    case (Ret x)
    with run have "transact E body s = (Ret x, t)" by simp
    then show ?thesis using assms(2) unfolding transact_Ret by blast
  qed (use run transact_fails assms(1) in blast)+
qed

lemma status_change_clock [simp]: "status_change (s\<lparr>clock_reads := n\<rparr>) = status_change s"
  by (simp add: status_change_def fun_eq_iff workflow_actor_authorized_def actor_has_workflow_role_def
      is_configured_channel_task_coordinator_def update_task_def Let_def)


definition demo_event_request :: append_group_workflow_event_request where
  "demo_event_request = \<lparr>aq_kind = ''task.completed'', aq_task_key = Some ''TASK-1'', aq_source_message_id = None, aq_payload = jobj []\<rparr>"


section \<open>The workflow layer's update\<close>

text \<open>
  C34: The update of the workflow layer reads the task before its transaction and writes the title, status and assignee
  it read for every field the request leaves out: what other calls committed to those fields in between is overwritten.
\<close>

theorem update_writes_what_it_read:
  assumes "board_wf (others s)" "task_with_id s i = Some old"
    and "update_group_workflow_task E others i req s = (Ret view, t)"
  shows "\<exists>row. task_with_id t i = Some row \<and>
     gt_title row = (case gu_title req of Some v \<Rightarrow> v | None \<Rightarrow> gt_title old) \<and>
     gt_status row = (case gu_status req of Some v \<Rightarrow> v | None \<Rightarrow> gt_status old) \<and>
     gt_assignee_principal_id row = (case gu_assignee_principal_id req of Some v \<Rightarrow> v | None \<Rightarrow> gt_assignee_principal_id old)"
proof -
  let ?title = "case gu_title req of Some v \<Rightarrow> v | None \<Rightarrow> gt_title old"
  let ?status = "case gu_status req of Some v \<Rightarrow> v | None \<Rightarrow> gt_status old"
  let ?assignee = "case gu_assignee_principal_id req of Some v \<Rightarrow> v | None \<Rightarrow> gt_assignee_principal_id old"
  let ?f = "\<lambda>t. t\<lparr>gt_title := ?title, gt_status := ?status, gt_assignee_principal_id := ?assignee\<rparr>"
  let ?u = "(others s)\<lparr>clock_reads := Suc (clock_reads (others s))\<rparr>"
  obtain nw row u x v y where
    u: "update_task_row_tx ''update workflow task'' nw i ?f ?u = (Ret row, u)" and
    v: "(case gu_participants req of
           Some ps \<Rightarrow> replace_non_owner_task_participants_tx E (gt_conversation_id old) i ps
         | None \<Rightarrow> st_ret ()) u = (Ret x, v)" and
    sync: "sync_owner_participant_tx E (gt_conversation_id old) i ?assignee v = (Ret y, t)"
    using assms(2,3)
    by (auto simp: update_group_workflow_task_def Let_def st_bind_Ret st_ask_runs get_task_Ret st_upd_runs st_get_runs
        st_guard_runs transact_Ret)
  have wf: "tasks_wf ?u" using assms(1) by (simp add: board_wf_def tasks_wf_def)
  have "gw_tasks v = gw_tasks u"
    using v by (auto split: option.splits dest!: replace_participants_same_owners simp: same_owners_tables)
  moreover have "gw_tasks t = gw_tasks v" by (rule sync_owner_participant_Ret [OF sync]) simp
  ultimately have same: "task_with_id t i = task_with_id u i" by (simp add: task_with_id_def)
  show ?thesis
  proof (rule update_task_row_Ret [OF u wf], goal_cases)
    case (1 cur)
    have "gt_id row = i" using 1(3) task_with_id_Some [OF 1(1)] by simp
    then show ?case using same task_with_id_update [OF 1(1), of row i] 1(3,4) by simp
  qed
qed

text \<open>Ada completes the task while an update of its title is under way; the update makes it a todo again.\<close>

definition complete_meanwhile :: "board_db \<Rightarrow> board_db" where
  "complete_meanwhile u = snd (patch_channel_task demo_board_env ''ada'' ''id-0'' demo_patch u)"

definition demo_retitle :: update_group_workflow_task_request where
  "demo_retitle = \<lparr>gu_title = Some ''rebuild'', gu_status = None, gu_assignee_principal_id = None, gu_participants = None\<rparr>"

theorem update_writes_what_it_read_witness:
  "map gt_status (gw_tasks demo_created) = [''todo''] \<and> map gt_status (gw_tasks (complete_meanwhile demo_created)) = [''done''] \<and>
   (\<exists>row. task_with_id (snd (update_group_workflow_task demo_board_env complete_meanwhile ''id-0'' demo_retitle demo_created)) ''id-0'' =
      Some row \<and> gt_status row = ''todo'')"
proof -
  let ?run = "update_group_workflow_task demo_board_env complete_meanwhile ''id-0'' demo_retitle demo_created"
  have before: "map gt_status (gw_tasks demo_created) = [''todo'']" "map gt_id (gw_tasks demo_created) = [''id-0'']"
    and between: "map gt_status (gw_tasks (complete_meanwhile demo_created)) = [''done'']"
    and ok: "case fst ?run of Ret _ \<Rightarrow> True | _ \<Rightarrow> False" by code_simp+
  obtain old where old: "task_with_id demo_created ''id-0'' = Some old" "gt_status old = ''todo''"
    using before by (auto simp: task_with_id_def)
  have wf: "board_wf (complete_meanwhile demo_created)"
    unfolding complete_meanwhile_def
    by (rule board.step_keeps [OF board_step.patch [OF surjective_pairing] demo_created_wf])
  obtain view where "?run = (Ret view, snd ?run)" using ok by (cases ?run) (auto split: exec.splits)
  from update_writes_what_it_read [OF wf old(1) this] old(2) before between show ?thesis
    by (auto simp: demo_retitle_def)
qed

end
