(* ===== verification/Board_Redaction.thy ===== *)
theory Board_Redaction
  imports Board_Access
begin

text \<open>
  What the history of a task stores and shows: no payload of a stored event carries a sensitive key of the sender's at
  any depth, only the service marks an event as trusted, and a shown event names only principals who may be seen.
\<close>

section \<open>Redaction\<close>

function no_sensitive_key :: "json \<Rightarrow> bool" where
  "no_sensitive_key (JObj m) \<longleftrightarrow>
     (\<forall>p\<in>set m. \<not> is_sensitive_workflow_payload_key (fst p) \<and> no_sensitive_key (snd p))"
| "no_sensitive_key (JArr vs) \<longleftrightarrow> (\<forall>v\<in>set vs. no_sensitive_key v)"
| "no_sensitive_key JNull \<longleftrightarrow> True"
| "no_sensitive_key (JBool b) \<longleftrightarrow> True"
| "no_sensitive_key (JInt i) \<longleftrightarrow> True"
| "no_sensitive_key (JFloat f) \<longleftrightarrow> True"
| "no_sensitive_key (JStr t) \<longleftrightarrow> True"
  by pat_completeness auto
termination
  by (relation "measure size") (auto dest: size_json_member size_json_element)

lemma redact_no_sensitive_key: "no_sensitive_key (redact_workflow_event_payload j)"
  by (induction j rule: redact_workflow_event_payload.induct) auto

lemma redact_keeps_clean: "no_sensitive_key j \<Longrightarrow> redact_workflow_event_payload j = j"
proof (induction j rule: no_sensitive_key.induct)
  case (1 m)
  have "filter (\<lambda>p. \<not> is_sensitive_workflow_payload_key (fst p)) m = m"
    using 1(2) by (simp add: filter_id_conv)
  moreover have "map (\<lambda>p. (fst p, redact_workflow_event_payload (snd p))) m = m"
    using 1 by (intro map_idI) (auto simp: prod_eq_iff)
  ultimately show ?case by simp
next
  case (2 vs)
  then show ?case by (auto intro!: map_idI)
qed simp_all

definition service_keys :: "string list" where
  "service_keys = [''previous'', ''new'', ''workflow_authority'', ''workflow_diagnostic'']"

text \<open>A payload's entries: the service's own, the mark of trust only without an actor, or clean ones.\<close>

definition entry_ok :: "string option \<Rightarrow> string \<times> json \<Rightarrow> bool" where
  "entry_ok actor p \<longleftrightarrow> fst p \<in> set service_keys \<and> (fst p = ''workflow_authority'' \<longrightarrow> actor = None) \<or>
     \<not> is_sensitive_workflow_payload_key (fst p) \<and> no_sensitive_key (snd p)"

definition payload_ok :: "string option \<Rightarrow> json \<Rightarrow> bool" where
  "payload_ok actor j \<longleftrightarrow> (case as_object j of None \<Rightarrow> True | Some m \<Rightarrow> list_all (entry_ok actor) m)"

definition redacted :: "board_db \<Rightarrow> bool" where
  "redacted s \<longleftrightarrow> list_all (\<lambda>e. payload_ok (ge_actor_principal_id e) (ge_payload e)) (gw_events s)"

lemma bt_insert_entries: "set (bt_insert k v m) \<subseteq> insert (k, v) (set m)"
  by (auto simp: bt_insert_def dest: set_takeWhileD set_dropWhileD)

lemma payload_ok_insert: "payload_ok actor j \<Longrightarrow> entry_ok actor (k, v) \<Longrightarrow> payload_ok actor (obj_insert k v j)"
  using bt_insert_entries [of k v] by (cases j) (fastforce simp: payload_ok_def obj_insert_def list_all_iff)+

lemma payload_ok_sanitize: "payload_ok actor (sanitize_workflow_event_payload j)"
  using redact_no_sensitive_key [of j]
  by (cases "redact_workflow_event_payload j")
     (auto simp: payload_ok_def sanitize_workflow_event_payload_def list_all_iff entry_ok_def)

lemma entry_ok_service:
  "entry_ok actor (''previous'', v)" "entry_ok actor (''new'', v)" "entry_ok actor (''workflow_diagnostic'', v)"
  "entry_ok None (''workflow_authority'', v)"
  by (simp_all add: entry_ok_def service_keys_def)

lemma payload_ok_written:
  "payload_ok actor (workflow_diagnostic_payload j reason eff detail)" "payload_ok actor (patched_payload actor old row base)"
  "payload_ok actor (jobj [(''new'', v)])"
  by (auto simp: workflow_diagnostic_payload_def patched_payload_def Let_def
      intro!: payload_ok_insert payload_ok_sanitize entry_ok_service)
     (auto simp: jobj_def bt_of_list_def payload_ok_def bt_insert_def entry_ok_service)

section \<open>Along every run\<close>

definition redacting :: "'a board_op \<Rightarrow> bool" where
  "redacting m \<longleftrightarrow> (\<forall>s r t. m s = (r, t) \<longrightarrow> redacted s \<longrightarrow> redacted t)"

lemma redactingD: "redacting m \<Longrightarrow> m s = (r, t) \<Longrightarrow> redacted s \<Longrightarrow> redacted t"
  unfolding redacting_def by blast

lemma redacted_cong: "gw_events t = gw_events s \<Longrightarrow> redacted t = redacted s"
  by (simp add: redacted_def)

lemma redacted_world [simp]:
  "redacted (s\<lparr>clock_reads := c\<rparr>) = redacted s" "redacted (s\<lparr>ids_drawn := n\<rparr>) = redacted s"
  "redacted (s\<lparr>gw_tasks := ts\<rparr>) = redacted s" "redacted (s\<lparr>gw_participants := ps\<rparr>) = redacted s"
  "redacted (s\<lparr>gw_sequence := q\<rparr>) = redacted s" "redacted (s\<lparr>conversation_events := l\<rparr>) = redacted s"
  "redacted (update_task i f s) = redacted s"
  by (simp_all add: redacted_def update_task_def)

lemma redacting_reads [intro]: "reads m \<Longrightarrow> redacting m"
  unfolding redacting_def by (metis reads_runs)

lemma redacting_bind [intro!]: "redacting m \<Longrightarrow> (\<And>x. redacting (g x)) \<Longrightarrow> redacting (st_bind m g)"
  unfolding redacting_def by (fastforce simp: st_bind_def split: prod.splits exec.splits)

lemma redacting_try [intro!]: "redacting m \<Longrightarrow> redacting (st_try m)"
  unfolding redacting_def by (fastforce simp: st_try_def split: prod.splits exec.splits)

lemma redacting_basic [intro!]:
  "(\<And>s. redacted s \<Longrightarrow> redacted (f s)) \<Longrightarrow> redacting (st_upd f)" "redacting (st_draw (new_id E))"
  "redacting (st_ask h)" "redacting (st_get j)" "redacting (st_guard P e)" "redacting (st_ret x)" "redacting (st_lift q)"
  by (auto simp: redacting_def st_upd_def st_draw_def new_id_def st_ask_def st_get_def st_guard_def st_ret_def st_lift_def)

lemma redacting_cases [intro!]:
  "(b \<Longrightarrow> redacting m) \<Longrightarrow> (\<not> b \<Longrightarrow> redacting n) \<Longrightarrow> redacting (if b then m else n)"
  "(x = None \<Longrightarrow> redacting n) \<Longrightarrow> (\<And>y. x = Some y \<Longrightarrow> redacting (g y)) \<Longrightarrow> redacting (case x of None \<Rightarrow> n | Some y \<Rightarrow> g y)"
  "(\<And>e. z = Inl e \<Longrightarrow> redacting (h e)) \<Longrightarrow> (\<And>y. z = Inr y \<Longrightarrow> redacting (g y)) \<Longrightarrow> redacting (case z of Inl e \<Rightarrow> h e | Inr y \<Rightarrow> g y)"
  "(\<And>a c. p = (a, c) \<Longrightarrow> redacting (k a c)) \<Longrightarrow> redacting (case p of (a, c) \<Rightarrow> k a c)"
  by (cases b; cases x; cases z; cases p; simp)+

lemma redacting_transact [intro!]:
  assumes "\<And>nw. redacting (body nw)"
  shows "redacting (transact E body)"
  unfolding redacting_def
proof (intro allI impI)
  fix s r t assume run: "transact E body s = (r, t)" and ok: "redacted s"
  show "redacted t"
  proof (cases r)
    case (Ret x)
    with run have "transact E body s = (Ret x, t)" by simp
    then show ?thesis using redactingD [OF assms] ok unfolding transact_Ret by (metis redacted_world(1))
  qed (use run ok transact_fails drawn_tables(3) redacted_cong in blast)+
qed

lemma redacting_event [intro!]:
  assumes "payload_ok actor payload"
  shows "redacting (insert_workflow_event_tx E nw c i src actor k payload ver)"
proof -
  have "redacted (s\<lparr>gw_events := gw_events s @ [row]\<rparr>)"
    if "redacted s" "payload_ok (ge_actor_principal_id row) (ge_payload row)" for s row
    using that by (simp add: redacted_def)
  then show ?thesis unfolding insert_workflow_event_tx_def Let_def using assms by auto
qed

lemma redacting_writes [intro!]:
  "redacting (insert_task_participant_tx E c i p b)" "redacting (sync_owner_participant_tx E c i a)"
  "redacting (insert_channel_task_fanout_event_tx E nw c actor ty i)" "redacting (update_task_row_tx ctx nw i f)"
  "redacting (insert_task_or_nothing row)" "redacting (insert_task_with_key row)"
  "redacting (next_channel_task_sequence_tx c)" "redacting (allocate_task_key_after_existing_max_tx c)"
  unfolding insert_task_participant_tx_def sync_owner_participant_tx_def insert_channel_task_fanout_event_tx_def
    update_task_row_tx_def insert_task_or_nothing_def insert_task_with_key_def next_channel_task_sequence_tx_def
    allocate_task_key_after_existing_max_tx_def Let_def
  by auto

lemma redacting_participants [intro!]:
  "redacting (insert_task_participants_tx E c i ps)" "redacting (replace_non_owner_task_participants_tx E c i ps)"
proof -
  show "redacting (insert_task_participants_tx E c i ps)" for ps by (induction ps) auto
  then show "redacting (replace_non_owner_task_participants_tx E c i ps)"
    unfolding replace_non_owner_task_participants_tx_def by auto
qed

lemma redacting_inserts [intro!]:
  "redacting (allocate_unused_task_key_attempts n c)"
  "redacting (insert_message_task n E nw actor c mreq)" "redacting (insert_agent_task n E nw actor c a st h req)"
proof -
  show keys: "redacting (allocate_unused_task_key_attempts n c)" for n by (induction n) (auto simp: Let_def)
  show "redacting (insert_message_task n E nw actor c mreq)" "redacting (insert_agent_task n E nw actor c a st h req)"
    by (induction n) (auto simp: allocate_unused_task_key_tx_def Let_def intro!: keys)
qed

lemma redacting_changes [intro!]:
  "redacting (announce_created E nw a c i src p vals)" "redacting (announce_updated E nw c actor i ev)"
  "redacting (apply_authorized_channel_task_patch_tx E nw actor old r k src base)"
  "redacting (diagnostic_event E nw row actor k src payload reason eff detail)"
  unfolding announce_created_def announce_updated_def apply_authorized_channel_task_patch_tx_def diagnostic_event_def Let_def
  by (auto intro!: payload_ok_written)

lemma redacting_updates [intro!]:
  "redacting (apply_channel_task_patch_tx E nw a old r wk k src base)"
  "redacting (apply_trusted_workflow_status_update_tx E nw task k src eff payload)"
  "redacting (apply_workflow_status_update_tx E nw task a k src eff payload)"
proof -
  show patch: "redacting (apply_channel_task_patch_tx E nw a old r wk k src base)" for old r wk k src base
    unfolding apply_channel_task_patch_tx_def by auto
  show "redacting (apply_trusted_workflow_status_update_tx E nw task k src eff payload)"
    unfolding apply_trusted_workflow_status_update_tx_def Let_def by (auto split: workflow_status_effect.split)
  show "redacting (apply_workflow_status_update_tx E nw task a k src eff payload)"
    unfolding apply_workflow_status_update_tx_def
    by (auto intro!: patch split: workflow_status_effect.split sum.split app_error.split)
qed

lemma redacting_calls:
  "redacting (create_channel_task E a c req)" "redacting (create_channel_task_from_message E a c mreq)"
  "redacting (patch_channel_task E a i preq)" "redacting (create_group_workflow_task E c a greq)"
  "redacting (replace_group_workflow_task_participants E i ps)"
  unfolding create_channel_task_def create_channel_task_body_def insert_new_channel_task_def
    create_channel_task_from_message_def patch_channel_task_def create_group_workflow_task_def
    replace_group_workflow_task_participants_def Let_def
  by auto

lemma redacting_interleaved:
  assumes "\<And>u. redacted u \<Longrightarrow> redacted (others u)"
  shows "redacting (update_group_workflow_task E others i ureq)" "redacting (add_group_workflow_task_participant E others i p)"
    "redacting (remove_group_workflow_task_participant others i a role)"
    "redacting (append_group_workflow_event E others i a wreq)"
    "redacting (append_group_workflow_event_for_conversation E others c a wreq)"
    "redacting (append_group_workflow_event_for_conversation_trusted_system E others c wreq)"
  unfolding update_group_workflow_task_def add_group_workflow_task_participant_def
    remove_group_workflow_task_participant_def append_group_workflow_event_def
    append_group_workflow_event_for_conversation_def append_group_workflow_event_for_conversation_trusted_system_def Let_def
  by (auto intro!: payload_ok_written dest: assms)

lemma kept_along: "(\<lambda>x y. R x y \<and> (P x \<longrightarrow> P y))\<^sup>*\<^sup>* u v \<Longrightarrow> P u \<Longrightarrow> P v"
  by (induction rule: rtranclp_induct) auto

lemma board_step_redacted: "board_step E s t \<Longrightarrow> redacted s \<longrightarrow> redacted t"
proof (induction rule: board_step.induct)
  case (update others i ureq s v t)
  note others = kept_along [OF spec [OF update(2)]]
  show ?case using redactingD [OF redacting_interleaved(1) [OF others] update(1)] by blast
next
  case (add others i p s q t)
  note others = kept_along [OF spec [OF add(2)]]
  show ?case using redactingD [OF redacting_interleaved(2) [OF others] add(1)] by blast
next
  case (remove others i a role s q t)
  note others = kept_along [OF spec [OF remove(2)]]
  show ?case using redactingD [OF redacting_interleaved(3) [OF others] remove(1)] by blast
next
  case (append others i a wreq s w t)
  note others = kept_along [OF spec [OF append(2)]]
  show ?case using redactingD [OF redacting_interleaved(4) [OF others] append(1)] by blast
next
  case (append_conversation others c a wreq s w t)
  note others = kept_along [OF spec [OF append_conversation(2)]]
  show ?case using redactingD [OF redacting_interleaved(5) [OF others] append_conversation(1)] by blast
next
  case (append_trusted others c wreq s w t)
  note others = kept_along [OF spec [OF append_trusted(2)]]
  show ?case using redactingD [OF redacting_interleaved(6) [OF others] append_trusted(1)] by blast
next
  case (outside s t)
  then show ?case by (simp add: elsewhere_def redacted_def)
qed (auto dest: redacting_calls [THEN redactingD])

interpretation redaction: guaranteed_steps "board_step E" redacted "\<lambda>s t. redacted s \<longrightarrow> redacted t"
  by unfold_locales (use board_step_redacted in auto)


definition demo_leaky :: append_group_workflow_event_request where
  "demo_leaky = \<lparr>aq_kind = ''task.started'', aq_task_key = Some ''TASK-1'', aq_source_message_id = None,
     aq_payload = jobj [(''Api-Key'', JStr ''x''), (''workflow_authority'', JNull),
       (''meta'', jobj [(''password'', JStr ''y''), (''size'', JInt 3)])]\<rparr>"

definition demo_leaked :: board_db where
  "demo_leaked = snd (append_group_workflow_event_for_conversation demo_board_env (\<lambda>u. u) ''c'' ''ada'' demo_leaky demo_created)"


section \<open>What a history shows\<close>

text \<open>
  An event of a task's history as it is shown names an actor or an assignee only when that principal is now a live,
  visible member of the event's conversation.
\<close>

theorem history_shows_visible_only:
  assumes "channel_task_event_projection_from_row s e = Inr p"
  shows "(\<forall>a. cp_actor_principal_id p = Some a \<longrightarrow> member_row s (ge_conversation_id e) a visible_member \<noteq> None) \<and>
    (\<forall>vals a. cp_previous p = Some vals \<or> cp_new p = Some vals \<longrightarrow> vv_assignee_principal_id vals = SetTo a \<longrightarrow>
       member_row s (ge_conversation_id e) a visible_member \<noteq> None)"
proof -
  have parsed: "member_row s (ge_conversation_id e) a visible_member \<noteq> None"
    if "parse_event_visible_values (json_get (ge_payload e) part) (shown_assignee_id s e part) src = Inr (Some vals)"
      "vv_assignee_principal_id vals = SetTo a" for part src vals a
    using that
    by (auto simp: parse_event_visible_values_def hide_unless_def shown_assignee_id_def shown_principal_def
        split: option.splits sum.splits nullable_patch.splits if_splits)
  show ?thesis
    using assms parsed
    by (auto simp: channel_task_event_projection_from_row_def Let_def shown_principal_def split: option.splits sum.splits)
qed

end
