(* ===== verification/Cron_Schedule.thy ===== *)
theory Cron_Schedule
  imports Session_Models
begin

text \<open>
  When a scheduled job runs next: \<^verbatim>\<open>next_run_at\<close> of
  \<^verbatim>\<open>crates/choruz-application/src/schedule.rs\<close>. An interval is parsed and multiplied in
  \<^verbatim>\<open>i64\<close>, with every overflow an error. The time zone database, cron expressions, the parsing
  of an instant and the range of the calendar are those of the crates \<^verbatim>\<open>chrono\<close>,
  \<^verbatim>\<open>chrono_tz\<close> and \<^verbatim>\<open>croner\<close>: they are the fields of a \<open>calendar\<close>.
\<close>

section \<open>Integers of 64 bits\<close>

definition I64_MAX :: int where
  "I64_MAX = 9223372036854775807"

definition fits_i64 :: "int \<Rightarrow> bool" where
  "fits_i64 n \<longleftrightarrow> - I64_MAX - 1 \<le> n \<and> n \<le> I64_MAX"

text \<open>\<^verbatim>\<open>str::parse::<i64>\<close>: an optional sign, then at least one ASCII digit, no overflow.\<close>

definition digits_value :: "string \<Rightarrow> int option" where
  "digits_value ds = (if ds \<noteq> [] \<and> list_all is_ascii_digit ds then Some (int (parse_digits ds)) else None)"

definition parse_signed :: "string \<Rightarrow> int option" where
  "parse_signed s =
     (case s of
        CHR ''+'' # ds \<Rightarrow> digits_value ds
      | CHR ''-'' # ds \<Rightarrow> map_option uminus (digits_value ds)
      | _ \<Rightarrow> digits_value s)"

definition parse_i64 :: "string \<Rightarrow> int option" where
  "parse_i64 s = (case parse_signed s of Some n \<Rightarrow> if fits_i64 n then Some n else None | None \<Rightarrow> None)"

definition checked_mul :: "int \<Rightarrow> int \<Rightarrow> int option" where
  "checked_mul m n = (if fits_i64 (m * n) then Some (m * n) else None)"

section \<open>The next occurrence\<close>

record ('zone, 'pattern) calendar =
  cal_zone :: "string \<Rightarrow> 'zone option"
  cal_pattern :: "string \<Rightarrow> string + 'pattern"
  cal_next :: "'pattern \<Rightarrow> 'zone \<Rightarrow> timestamp \<Rightarrow> string + timestamp"
  cal_instant :: "string \<Rightarrow> timestamp option"
  cal_try_seconds :: "int \<Rightarrow> int option"
  cal_checked_add :: "timestamp \<Rightarrow> int \<Rightarrow> timestamp option"

definition invalid_schedule :: "string \<Rightarrow> app_error" where
  "invalid_schedule detail = Validation (''invalid schedule: '' @ detail)"

definition strip_suffix :: "char \<Rightarrow> string \<Rightarrow> string option" where
  "strip_suffix c s = (if s \<noteq> [] \<and> last s = c then Some (butlast s) else None)"

definition interval_unit :: "string \<Rightarrow> string \<times> int" where
  "interval_unit value =
     (case strip_suffix (CHR ''s'') value of Some number \<Rightarrow> (number, 1)
      | None \<Rightarrow>
     (case strip_suffix (CHR ''m'') value of Some number \<Rightarrow> (number, 60)
      | None \<Rightarrow>
     (case strip_suffix (CHR ''h'') value of Some number \<Rightarrow> (number, 3600)
      | None \<Rightarrow>
     (case strip_suffix (CHR ''d'') value of Some number \<Rightarrow> (number, 86400)
      | None \<Rightarrow> (value, 60)))))"

definition interval_seconds :: "string \<Rightarrow> int option" where
  "interval_seconds value =
     (case interval_unit (trim value) of
        (number, multiplier) \<Rightarrow>
          (case Option.bind (parse_i64 number) (\<lambda>n. checked_mul n multiplier) of
             Some n \<Rightarrow> if n > 0 then Some n else None
           | None \<Rightarrow> None))"

definition next_every :: "('z, 'p) calendar \<Rightarrow> string \<Rightarrow> timestamp \<Rightarrow> timestamp app_result" where
  "next_every C value after =
     (case interval_seconds value of
        None \<Rightarrow> Inl (invalid_schedule ''interval must be positive seconds, minutes, hours or days'')
      | Some seconds \<Rightarrow>
          (case cal_try_seconds C seconds of
             None \<Rightarrow> Inl (invalid_schedule ''interval is too large'')
           | Some duration \<Rightarrow>
               (case cal_checked_add C after duration of
                  None \<Rightarrow> Inl (invalid_schedule ''interval is too large'')
                | Some t \<Rightarrow> Inr t)))"

definition next_cron :: "('z, 'p) calendar \<Rightarrow> 'z \<Rightarrow> string \<Rightarrow> timestamp \<Rightarrow> timestamp app_result" where
  "next_cron C zone value after =
     (case cal_pattern C value of
        Inl e \<Rightarrow> Inl (invalid_schedule e)
      | Inr p \<Rightarrow>
          (case cal_next C p zone after of
             Inl e \<Rightarrow> Inl (invalid_schedule e)
           | Inr t \<Rightarrow> Inr t))"

definition next_run_at ::
  "('z, 'p) calendar \<Rightarrow> string \<Rightarrow> string \<Rightarrow> string option \<Rightarrow> timestamp \<Rightarrow> timestamp app_result" where
  "next_run_at C schedule_type value timezone after =
     (case cal_zone C (case timezone of None \<Rightarrow> ''UTC'' | Some z \<Rightarrow> z) of
        None \<Rightarrow> Inl (invalid_schedule ''timezone must be an IANA timezone'')
      | Some zone \<Rightarrow>
          (case (if schedule_type = ''cron'' then next_cron C zone value after
                 else if schedule_type = ''every'' then next_every C value after
                 else if schedule_type = ''at''
                 then (case cal_instant C value of
                         None \<Rightarrow> Inl (invalid_schedule ''timestamp must include its UTC offset'')
                       | Some t \<Rightarrow> Inr t)
                 else Inl (invalid_schedule ''type must be at, every or cron'')) of
             Inl e \<Rightarrow> Inl e
           | Inr t \<Rightarrow>
               if t \<le> after then Inl (invalid_schedule ''next occurrence must be in the future'') else Inr t))"

section \<open>Intervals are read as they are written\<close>

lemma fits_i64_iff: "fits_i64 n \<longleftrightarrow> - 9223372036854775808 \<le> n \<and> n \<le> 9223372036854775807"
  by (simp add: fits_i64_def I64_MAX_def)

lemma digits_value_show_nat: "digits_value (show_nat n) = Some (int n)"
  by (simp add: digits_value_def show_nat_not_Nil show_nat_digits parse_show_nat)

lemma digit_not_sign: "is_ascii_digit c \<Longrightarrow> c \<noteq> CHR ''+'' \<and> c \<noteq> CHR ''-''"
  by (auto simp: is_ascii_digit_def digit_alphabet_def)

lemma parse_signed_digits:
  assumes "list_all is_ascii_digit ds"
  shows "parse_signed ds = digits_value ds"
proof (cases ds)
  case (Cons c cs)
  with assms digit_not_sign [of c] have "c \<noteq> CHR ''+''" "c \<noteq> CHR ''-''" by auto
  then show ?thesis by (simp add: Cons parse_signed_def split: char.splits bool.splits)
qed (simp add: parse_signed_def)

lemma parse_signed_show_int: "parse_signed (show_int n) = Some n"
proof (cases "n < 0")
  case True
  then show ?thesis by (simp add: show_int_def parse_signed_def digits_value_show_nat)
next
  case False
  then show ?thesis
    by (simp add: show_int_def parse_signed_digits [OF show_nat_digits] digits_value_show_nat)
qed

text \<open>Every number of the type reads back as itself, and only those are accepted.\<close>

lemma parse_i64_show_int: "parse_i64 (show_int n) = (if fits_i64 n then Some n else None)"
  by (simp add: parse_i64_def parse_signed_show_int)

lemma show_int_not_Nil: "show_int n \<noteq> []"
  by (simp add: show_int_def show_nat_not_Nil)

lemma show_int_chars: "c \<in> set (show_int n) \<Longrightarrow> is_ascii_digit c \<or> c = CHR ''-''"
  using show_nat_digits by (auto simp: show_int_def list_all_iff split: if_splits)

lemma number_char: "is_ascii_digit c \<or> c = CHR ''-'' \<Longrightarrow> \<not> is_whitespace c \<and> c \<notin> set ''smhd''"
  by (auto simp: is_ascii_digit_def digit_alphabet_def is_whitespace_def)

lemma trim_padded:
  assumes "list_all is_whitespace ws" "list_all is_whitespace ws'" "s \<noteq> []"
    and "\<not> is_whitespace (hd s)" "\<not> is_whitespace (last s)"
  shows "trim (ws @ s @ ws') = s"
proof -
  have "dropWhile is_whitespace (ws @ s @ ws') = s @ ws'"
    using assms by (cases s) (simp_all add: list_all_iff dropWhile_append2)
  moreover have "dropWhile is_whitespace (rev ws' @ rev s) = rev s"
    using assms by (subst dropWhile_append2) (auto simp: list_all_iff hd_rev dropWhile_eq_self_iff)
  ultimately show ?thesis by (simp add: trim_def trim_start_def)
qed

text \<open>The suffixes an interval may carry and what they mean; without one the number counts minutes.\<close>

definition interval_units :: "(string \<times> int) list" where
  "interval_units = [(''s'', 1), (''m'', 60), (''h'', 3600), (''d'', 86400), ([], 60)]"

lemma interval_unit_show:
  assumes "(u, k) \<in> set interval_units"
  shows "interval_unit (show_int n @ u) = (show_int n, k)"
proof -
  have "last (show_int n) \<notin> set ''smhd''"
    using number_char [OF show_int_chars [OF last_in_set [OF show_int_not_Nil]]] by blast
  then show ?thesis
    using assms by (auto simp: interval_units_def interval_unit_def strip_suffix_def show_int_not_Nil)
qed

lemma interval_seconds_show:
  assumes "(u, k) \<in> set interval_units" "list_all is_whitespace ws" "list_all is_whitespace ws'"
  shows "interval_seconds (ws @ show_int n @ u @ ws') = (if 0 < n \<and> fits_i64 (n * k) then Some (n * k) else None)"
proof -
  have k: "1 \<le> k" using assms(1) by (auto simp: interval_units_def)
  have "\<not> is_whitespace (hd (show_int n @ u))"
    using number_char [OF show_int_chars [OF hd_in_set [OF show_int_not_Nil]]] by (simp add: show_int_not_Nil)
  moreover have "\<not> is_whitespace (last (show_int n @ u))"
    using number_char [OF show_int_chars [OF last_in_set [OF show_int_not_Nil]]] assms(1)
    by (auto simp: interval_units_def is_whitespace_def)
  ultimately have trim: "trim (ws @ show_int n @ u @ ws') = show_int n @ u"
    using trim_padded [OF assms(2,3), of "show_int n @ u"] by (simp add: show_int_not_Nil)
  have pos: "0 < n * k \<longleftrightarrow> 0 < n" using k by (simp add: zero_less_mult_iff)
  have fits: "fits_i64 n" if "0 < n" "fits_i64 (n * k)"
  proof -
    have "n \<le> n * k" using that(1) k by simp
    with that show ?thesis unfolding fits_i64_def by linarith
  qed
  show ?thesis
    using pos fits
    by (auto simp: interval_seconds_def trim interval_unit_show [OF assms(1)] parse_i64_show_int checked_mul_def)
qed

section \<open>What the next occurrence satisfies\<close>

lemma next_run_at_future: "next_run_at C ty v tz after = Inr t \<Longrightarrow> after < t"
  by (auto simp: next_run_at_def split: option.splits sum.splits if_splits)

lemma next_run_at_error: "next_run_at C ty v tz after = Inl e \<Longrightarrow> \<exists>d. e = invalid_schedule d"
  by (auto simp: next_run_at_def next_cron_def next_every_def split: option.splits sum.splits if_splits)

lemma next_run_at_type: "next_run_at C ty v tz after = Inr t \<Longrightarrow> ty \<in> set [''at'', ''every'', ''cron'']"
  by (auto simp: next_run_at_def split: option.splits sum.splits if_splits)

theorem next_run_at_interval:
  assumes "(u, k) \<in> set interval_units" "list_all is_whitespace ws" "list_all is_whitespace ws'"
    and "cal_zone C (case tz of None \<Rightarrow> ''UTC'' | Some z \<Rightarrow> z) = Some zone"
    and "\<And>n d. cal_try_seconds C n = Some d \<Longrightarrow> d = secs n"
    and "\<And>t d t'. cal_checked_add C t d = Some t' \<Longrightarrow> t' = t + d"
  shows "case next_run_at C ''every'' (ws @ show_int n @ u @ ws') tz after of
      Inr t \<Rightarrow> 0 < n \<and> t = after + secs (n * k)
    | Inl e \<Rightarrow> (\<exists>detail. e = invalid_schedule detail) \<and>
        (n \<le> 0 \<or> n * k > I64_MAX \<or> cal_try_seconds C (n * k) = None \<or> cal_checked_add C after (secs (n * k)) = None)"
proof -
  have k: "1 \<le> k" using assms(1) by (auto simp: interval_units_def)
  note seconds = interval_seconds_show [OF assms(1-3), of n]
  show ?thesis
  proof (cases "0 < n \<and> fits_i64 (n * k)")
    case False
    moreover have "n * k > I64_MAX" if "0 < n" "\<not> fits_i64 (n * k)"
      using that k mult_pos_pos [of n k] unfolding fits_i64_def I64_MAX_def by linarith
    ultimately show ?thesis by (auto simp: next_run_at_def next_every_def seconds assms(4))
  next
    case True
    have "0 < secs (n * k)" using True k by (simp add: secs_def)
    moreover have "d = secs (n * k)" if "cal_try_seconds C (n * k) = Some d" for d using assms(5) that .
    moreover have "t = after + secs (n * k)" if "cal_checked_add C after (secs (n * k)) = Some t" for t using assms(6) that .
    ultimately show ?thesis using True
      by (fastforce simp: next_run_at_def next_every_def seconds assms(4) split: option.splits)
  qed
qed

end
