(* ===== verification/Cron_Jobs.thy ===== *)
theory Cron_Jobs
  imports Cron_Schedule Session_Props Event_Store
begin

text \<open>
  Scheduled jobs of agents: the table \<^verbatim>\<open>agent_cron_job\<close>
  (\<^verbatim>\<open>migrations/V009__agent_cron.sql\<close>) and the operations of the API on it
  (\<^verbatim>\<open>services/choruz-api-gateway/src/handlers_cron.rs\<close>). The jobs stand beside the session tables
  and the event log, which the scheduler writes. The outcome of the access check every handler makes
  first (the agent's workspace, or an error) is the argument \<open>access\<close>, and a conversation of the
  directory is its workspace and its members, the argument \<open>conversation_of\<close>.
\<close>

section \<open>The table\<close>

record cron_job =
  cj_id :: string
  cj_agent_id :: string
  cj_conversation_id :: string
  cj_name :: string
  cj_description :: "string option"
  cj_schedule_type :: string
  cj_schedule_value :: string
  cj_schedule_timezone :: "string option"
  cj_message :: string
  cj_session_target :: string
  cj_delivery_mode :: string
  cj_enabled :: bool
  cj_running_at :: "timestamp option"
  cj_last_run_at :: "timestamp option"
  cj_next_run_at :: "timestamp option"
  cj_last_status :: "string option"
  cj_last_error :: "string option"
  cj_last_duration_ms :: "int option"
  cj_consecutive_errors :: int
  cj_timeout_seconds :: int
  cj_delete_after_run :: bool
  cj_created_at :: timestamp
  cj_updated_at :: timestamp

record cron_db =
  cron_jobs :: "(string, cron_job) hash_map"
  cron_sessions :: session_db
  cron_events :: event_db

definition get_job :: "string \<Rightarrow> cron_db \<Rightarrow> cron_job option" where
  "get_job i s = hm_get (cron_jobs s) i"

definition set_job :: "string \<Rightarrow> (cron_job \<Rightarrow> cron_job) \<Rightarrow> cron_db \<Rightarrow> cron_db" where
  "set_job i f s = s\<lparr>cron_jobs := hm_adjust i f (cron_jobs s)\<rparr>"

text \<open>The clock and fresh identifiers are those of the session tables' world.\<close>

definition cron_now :: "env \<Rightarrow> cron_db \<Rightarrow> timestamp \<times> cron_db" where
  "cron_now E s = (let (nw, ss) = now E (cron_sessions s) in (nw, s\<lparr>cron_sessions := ss\<rparr>))"

definition cron_new_id :: "env \<Rightarrow> cron_db \<Rightarrow> string \<times> cron_db" where
  "cron_new_id E s = (let (i, ss) = new_id E (cron_sessions s) in (i, s\<lparr>cron_sessions := ss\<rparr>))"

text \<open>The \<^verbatim>\<open>CHECK\<close> constraints of the table\<close>

definition job_checks :: "cron_job \<Rightarrow> bool" where
  "job_checks j \<longleftrightarrow> cj_schedule_type j \<in> set [''at'', ''every'', ''cron''] \<and>
     cj_session_target j \<in> set [''main'', ''isolated''] \<and> cj_delivery_mode j \<in> set [''announce'', ''none'']"

section \<open>Requests\<close>

record create_cron_job_request =
  cr_name :: string
  cr_schedule_type :: string
  cr_schedule_value :: string
  cr_schedule_timezone :: "string option"
  cr_message :: string
  cr_conversation_id :: "string option"
  cr_session_target :: string
  cr_delivery_mode :: string
  cr_timeout_seconds :: int
  cr_description :: "string option"
  cr_delete_after_run :: bool

record update_cron_job_request =
  ur_name :: "string option"
  ur_schedule_type :: "string option"
  ur_schedule_value :: "string option"
  ur_schedule_timezone :: "string option"
  ur_message :: "string option"
  ur_session_target :: "string option"
  ur_delivery_mode :: "string option"
  ur_enabled :: "bool option"
  ur_timeout_seconds :: "int option"
  ur_description :: "string option"
  ur_delete_after_run :: "bool option"

definition default_session_target :: string where
  "default_session_target = ''main''"

definition default_delivery_mode :: string where
  "default_delivery_mode = ''announce''"

definition default_timeout :: int where
  "default_timeout = 600"

section \<open>Handlers\<close>

text \<open>\<^verbatim>\<open>ORDER BY created_at DESC\<close>\<close>

definition list_cron_jobs :: "string app_result \<Rightarrow> string \<Rightarrow> cron_db \<Rightarrow> cron_job list app_result" where
  "list_cron_jobs access agent_id s =
     (case access of
        Inl e \<Rightarrow> Inl e
      | Inr _ \<Rightarrow>
          Inr (sort_key (\<lambda>j. - cj_created_at j) (filter (\<lambda>j. cj_agent_id j = agent_id) (hm_values (cron_jobs s)))))"

text \<open>A conversation, when one is given, has to be of the agent's workspace and include the agent.\<close>

definition check_cron_conversation ::
  "(string \<Rightarrow> (string \<times> string list) app_result) \<Rightarrow> string \<Rightarrow> string \<Rightarrow> string option \<Rightarrow> unit app_result" where
  "check_cron_conversation conversation_of workspace_id agent_id requested =
     (case requested of
        None \<Rightarrow> Inr ()
      | Some conversation_id \<Rightarrow>
          if conversation_id = [] then Inr ()
          else (case conversation_of conversation_id of
             Inl e \<Rightarrow> Inl e
           | Inr (workspace, members) \<Rightarrow>
               if workspace \<noteq> workspace_id \<or> agent_id \<notin> set members
               then Inl (Forbidden ''cron conversation must belong to the agent workspace and include the agent'')
               else Inr ()))"

definition new_cron_job :: "string \<Rightarrow> string \<Rightarrow> create_cron_job_request \<Rightarrow> timestamp \<Rightarrow> timestamp \<Rightarrow> cron_job" where
  "new_cron_job i agent_id body next_run nw =
     \<lparr>cj_id = i, cj_agent_id = agent_id,
      cj_conversation_id = (case cr_conversation_id body of None \<Rightarrow> [] | Some c \<Rightarrow> c),
      cj_name = cr_name body, cj_description = cr_description body, cj_schedule_type = cr_schedule_type body,
      cj_schedule_value = cr_schedule_value body, cj_schedule_timezone = cr_schedule_timezone body,
      cj_message = cr_message body, cj_session_target = cr_session_target body,
      cj_delivery_mode = cr_delivery_mode body, cj_enabled = True, cj_running_at = None, cj_last_run_at = None,
      cj_next_run_at = Some next_run, cj_last_status = None, cj_last_error = None, cj_last_duration_ms = None,
      cj_consecutive_errors = 0, cj_timeout_seconds = cr_timeout_seconds body,
      cj_delete_after_run = cr_delete_after_run body, cj_created_at = nw, cj_updated_at = nw\<rparr>"

definition create_cron_job ::
  "env \<Rightarrow> ('z, 'p) calendar \<Rightarrow> string app_result \<Rightarrow> (string \<Rightarrow> (string \<times> string list) app_result) \<Rightarrow> string \<Rightarrow>
   create_cron_job_request \<Rightarrow> cron_db \<Rightarrow> cron_job app_result \<times> cron_db" where
  "create_cron_job E C access conversation_of agent_id body s =
     (case access of
        Inl e \<Rightarrow> (Inl e, s)
      | Inr workspace_id \<Rightarrow>
     (case check_cron_conversation conversation_of workspace_id agent_id (cr_conversation_id body) of
        Inl e \<Rightarrow> (Inl e, s)
      | Inr _ \<Rightarrow>
          if cr_schedule_type body \<notin> set [''at'', ''every'', ''cron'']
          then (Inl (Validation (''schedule_type must be 'at', 'every', or 'cron'' @ [CHR 0x27])), s)
          else
            (let (i, s) = cron_new_id E s; (nw, s) = cron_now E s in
             case next_run_at C (cr_schedule_type body) (cr_schedule_value body) (cr_schedule_timezone body) nw of
               Inl e \<Rightarrow> (Inl e, s)
             | Inr next_run \<Rightarrow>
                 (let j = new_cron_job i agent_id body next_run nw in
                  if get_job i s \<noteq> None \<or> \<not> job_checks j
                  then (Inl (Internal ''insert cron job: constraint violation''), s)
                  else (Inr j, s\<lparr>cron_jobs := hm_insert i j (cron_jobs s)\<rparr>)))))"

definition owned_job :: "string \<Rightarrow> string \<Rightarrow> cron_db \<Rightarrow> cron_job option" where
  "owned_job agent_id job_id s =
     (case get_job job_id s of
        Some j \<Rightarrow> if cj_agent_id j = agent_id then Some j else None
      | None \<Rightarrow> None)"

definition cron_job_not_found :: "string \<Rightarrow> string \<Rightarrow> app_error" where
  "cron_job_not_found agent_id job_id = NotFound (''cron job '' @ job_id @ '' not found for agent '' @ agent_id)"

definition or_else :: "'a option \<Rightarrow> 'a option \<Rightarrow> 'a option" where
  "or_else x y = (case x of Some _ \<Rightarrow> x | None \<Rightarrow> y)"

definition coalesce :: "'a option \<Rightarrow> 'a \<Rightarrow> 'a" where
  "coalesce x y = (case x of Some v \<Rightarrow> v | None \<Rightarrow> y)"

definition schedule_changed :: "update_cron_job_request \<Rightarrow> bool" where
  "schedule_changed body \<longleftrightarrow>
     ur_schedule_type body \<noteq> None \<or> ur_schedule_value body \<noteq> None \<or> ur_schedule_timezone body \<noteq> None"

text \<open>The next occurrence under the new schedule, the fields not given taken from the row.\<close>

definition updated_next_run ::
  "env \<Rightarrow> ('z, 'p) calendar \<Rightarrow> string \<Rightarrow> string \<Rightarrow> update_cron_job_request \<Rightarrow> cron_db \<Rightarrow>
   timestamp option app_result \<times> cron_db" where
  "updated_next_run E C agent_id job_id body s =
     (if \<not> schedule_changed body then (Inr None, s)
      else case owned_job agent_id job_id s of
        None \<Rightarrow> (Inl (cron_job_not_found agent_id job_id), s)
      | Some j \<Rightarrow>
          (let (nw, s) = cron_now E s in
           case next_run_at C (coalesce (ur_schedule_type body) (cj_schedule_type j))
                  (coalesce (ur_schedule_value body) (cj_schedule_value j))
                  (or_else (ur_schedule_timezone body) (cj_schedule_timezone j)) nw of
             Inl e \<Rightarrow> (Inl e, s)
           | Inr t \<Rightarrow> (Inr (Some t), s)))"

definition patched_job :: "update_cron_job_request \<Rightarrow> timestamp option \<Rightarrow> timestamp \<Rightarrow> cron_job \<Rightarrow> cron_job" where
  "patched_job body new_next_run nw j =
     j\<lparr>cj_name := coalesce (ur_name body) (cj_name j),
       cj_schedule_type := coalesce (ur_schedule_type body) (cj_schedule_type j),
       cj_schedule_value := coalesce (ur_schedule_value body) (cj_schedule_value j),
       cj_schedule_timezone := or_else (ur_schedule_timezone body) (cj_schedule_timezone j),
       cj_message := coalesce (ur_message body) (cj_message j),
       cj_session_target := coalesce (ur_session_target body) (cj_session_target j),
       cj_delivery_mode := coalesce (ur_delivery_mode body) (cj_delivery_mode j),
       cj_enabled := coalesce (ur_enabled body) (cj_enabled j),
       cj_timeout_seconds := coalesce (ur_timeout_seconds body) (cj_timeout_seconds j),
       cj_description := or_else (ur_description body) (cj_description j),
       cj_delete_after_run := coalesce (ur_delete_after_run body) (cj_delete_after_run j),
       cj_next_run_at := or_else new_next_run (cj_next_run_at j),
       cj_updated_at := nw\<rparr>"

text \<open>\<open>others\<close>: what other calls commit between the two statements of the handler\<close>

definition update_cron_job ::
  "env \<Rightarrow> ('z, 'p) calendar \<Rightarrow> string app_result \<Rightarrow> (cron_db \<Rightarrow> cron_db) \<Rightarrow> string \<Rightarrow> string \<Rightarrow>
   update_cron_job_request \<Rightarrow> cron_db \<Rightarrow> unit app_result \<times> cron_db" where
  "update_cron_job E C access others agent_id job_id body s =
     (case access of
        Inl e \<Rightarrow> (Inl e, s)
      | Inr _ \<Rightarrow>
     (case updated_next_run E C agent_id job_id body s of
        (Inl e, s) \<Rightarrow> (Inl e, s)
      | (Inr new_next_run, s) \<Rightarrow>
          (let (nw, s) = cron_now E (others s) in
           case owned_job agent_id job_id s of
             None \<Rightarrow> (Inl (cron_job_not_found agent_id job_id), s)
           | Some j \<Rightarrow>
               if job_checks (patched_job body new_next_run nw j)
               then (Inr (), set_job job_id (patched_job body new_next_run nw) s)
               else (Inl (Internal ''update cron job: constraint violation''), s))))"

definition delete_cron_job ::
  "string app_result \<Rightarrow> string \<Rightarrow> string \<Rightarrow> cron_db \<Rightarrow> unit app_result \<times> cron_db" where
  "delete_cron_job access agent_id job_id s =
     (case access of
        Inl e \<Rightarrow> (Inl e, s)
      | Inr _ \<Rightarrow>
     (case owned_job agent_id job_id s of
        None \<Rightarrow> (Inl (cron_job_not_found agent_id job_id), s)
      | Some _ \<Rightarrow> (Inr (), s\<lparr>cron_jobs := hm_remove job_id (cron_jobs s)\<rparr>)))"

end
