(* ===== verification/Cron_Scheduler.thy ===== *)
theory Cron_Scheduler
  imports Cron_Jobs Pipeline_Loops
begin

text \<open>
  The scheduler of jobs, \<^verbatim>\<open>services/choruz-pipeline/src/cron_scheduler.rs\<close>: a check claims the
  due jobs in one statement, then for each claimed row dispatches the occurrence in one transaction
  (the session, the announcement, the command) and records the outcome in the job. Several schedulers
  run at once; between two database calls of one the others act, and a call may fail, so a check runs
  under a \<open>cron_schedule\<close>, as the loops of \<open>Pipeline_Loops\<close> do. The order in which a claim
  returns its rows is open in PostgreSQL; the model keeps the order of selection.
\<close>

section \<open>Claiming due jobs\<close>

definition CRON_STALE_CLAIM_AFTER :: int where
  "CRON_STALE_CLAIM_AFTER = secs 600"

definition due :: "timestamp \<Rightarrow> cron_job \<Rightarrow> bool" where
  "due nw j \<longleftrightarrow> cj_enabled j \<and>
     (case cj_running_at j of None \<Rightarrow> True | Some t \<Rightarrow> t < nw - CRON_STALE_CLAIM_AFTER) \<and>
     (case cj_next_run_at j of None \<Rightarrow> False | Some t \<Rightarrow> t \<le> nw)"

definition occurrence :: "cron_job \<Rightarrow> timestamp" where
  "occurrence j = (case cj_next_run_at j of None \<Rightarrow> 0 | Some t \<Rightarrow> t)"

text \<open>\<open>locked\<close>: the rows other transactions hold, which \<^verbatim>\<open>SKIP LOCKED\<close> passes over\<close>

definition due_jobs :: "string list \<Rightarrow> timestamp \<Rightarrow> cron_db \<Rightarrow> cron_job list" where
  "due_jobs locked nw s =
     take 10 (sort_key occurrence (filter (\<lambda>j. due nw j \<and> cj_id j \<notin> set locked) (hm_values (cron_jobs s))))"

definition claimed_job :: "timestamp \<Rightarrow> cron_job \<Rightarrow> cron_job" where
  "claimed_job nw j = j\<lparr>cj_running_at := Some (coalesce (cj_running_at j) nw), cj_updated_at := nw\<rparr>"

definition claim_due_jobs :: "env \<Rightarrow> string list \<Rightarrow> cron_db \<Rightarrow> cron_job list \<times> cron_db" where
  "claim_due_jobs E locked s =
     (let (nw, s) = cron_now E s; js = due_jobs locked nw s
      in (map (claimed_job nw) js, fold (\<lambda>j. set_job (cj_id j) (claimed_job nw)) js s))"

section \<open>Dispatching one occurrence\<close>

record cron_dispatch =
  cd_agent_id :: string
  cd_conversation_id :: string
  cd_session_key :: string
  cd_message_id :: string
  cd_job_id :: string
  cd_job_name :: string
  cd_message :: string
  cd_announce :: bool
  cd_command_id :: string
  cd_route_id :: string
  cd_turn_id :: string
  cd_prompt :: string
  cd_metadata :: json

definition timestamp_micros :: "timestamp \<Rightarrow> int" where
  "timestamp_micros t = t div 1000"

definition cron_message_id :: "string \<Rightarrow> int \<Rightarrow> string" where
  "cron_message_id job_id occurrence_micros = ''cron-'' @ job_id @ ''-'' @ show_int occurrence_micros"

definition cron_dispatch_of :: "string \<Rightarrow> string \<Rightarrow> string \<Rightarrow> cron_job \<Rightarrow> cron_dispatch" where
  "cron_dispatch_of command_id turn_id route_id j =
     \<lparr>cd_agent_id = cj_agent_id j, cd_conversation_id = cj_conversation_id j,
      cd_session_key = cj_agent_id j @ '':'' @ cj_conversation_id j,
      cd_message_id = cron_message_id (cj_id j) (timestamp_micros (occurrence j)),
      cd_job_id = cj_id j, cd_job_name = cj_name j, cd_message = cj_message j,
      cd_announce = (cj_delivery_mode j = ''announce''),
      cd_command_id = command_id, cd_route_id = route_id, cd_turn_id = turn_id,
      cd_prompt = ''[choruz-cron] job:'' @ cj_name j @ '' schedule:'' @ cj_schedule_value j @ '' | '' @ cj_message j,
      cd_metadata = jobj [(''cron_job_id'', JStr (cj_id j)), (''cron_job_name'', JStr (cj_name j))]\<rparr>"

datatype cron_error = CronDatabase string | InsertEvent string | ResolveHost session_error | InsertCommand string

text \<open>\<^verbatim>\<open>INSERT INTO session_registry ... ON CONFLICT (session_key) DO UPDATE\<close>\<close>

definition upsert_cron_session :: "timestamp \<Rightarrow> cron_dispatch \<Rightarrow> session_db \<Rightarrow> session_db" where
  "upsert_cron_session nw d s =
     (let se = (case get_session (cd_session_key d) s of
                  Some old \<Rightarrow> old\<lparr>se_updated_at := nw\<rparr>
                | None \<Rightarrow> \<lparr>se_session_key = cd_session_key d, se_agent_id = cd_agent_id d,
                     se_conversation_id = cd_conversation_id d, se_executor_node_id = None, se_epoch = 0,
                     se_status = Idle, se_workspace_snapshot_id = None, se_memory_context_id = None,
                     se_last_heartbeat_at = None, se_created_at = nw, se_updated_at = nw\<rparr>)
      in s\<lparr>session_registry := hm_insert (cd_session_key d) se (session_registry s)\<rparr>)"

definition announcement :: "timestamp \<Rightarrow> int \<Rightarrow> cron_dispatch \<Rightarrow> conversation_event_row" where
  "announcement nw seq d =
     \<lparr>ev_conversation_id = cd_conversation_id d, ev_seq = seq, ev_event_id = cd_message_id d,
      ev_event_type = ''message'', ev_sender_id = ''choruz-cron'', ev_content = Some (cd_message d),
      ev_content_type = ''text/plain'',
      ev_metadata = jobj [(''source'', JStr ''cron_scheduler''), (''cron_job_id'', JStr (cd_job_id d)),
        (''cron_job_name'', JStr (cd_job_name d))],
      ev_client_msg_id = None, ev_turn_id = None, ev_reply_event_id = None, ev_created_at = nw\<rparr>"

text \<open>\<^verbatim>\<open>INSERT INTO conversation_events ... ON CONFLICT (event_id) DO NOTHING\<close>\<close>

definition announce_occurrence :: "timestamp \<Rightarrow> cron_dispatch \<Rightarrow> event_db \<Rightarrow> cron_error + event_db" where
  "announce_occurrence nw d s =
     (let seq = next_seq (cd_conversation_id d) s in
      if seq > INT8_MAX then Inl (InsertEvent ''bigint out of range'')
      else if list_ex (\<lambda>e. ev_event_id e = cd_message_id d) (conversation_events s) then Inr s
      else Inr (s\<lparr>conversation_events := conversation_events s @ [announcement nw seq d]\<rparr>))"

definition cron_command :: "cron_dispatch \<Rightarrow> insert_command" where
  "cron_command d =
     \<lparr>ic_command_id = cd_command_id d, ic_route_id = cd_route_id d, ic_session_key = cd_session_key d,
      ic_agent_id = cd_agent_id d, ic_conversation_id = cd_conversation_id d, ic_message_id = cd_message_id d,
      ic_turn_id = cd_turn_id d, ic_prompt = cd_prompt d, ic_max_attempts = 3, ic_metadata = cd_metadata d\<rparr>"

definition insert_cron_command :: "timestamp \<Rightarrow> cron_dispatch \<Rightarrow> session_db \<Rightarrow> cron_error + session_db" where
  "insert_cron_command nw d s =
     (case find_by_message_agent (cd_message_id d) (cd_agent_id d) s of
        Some _ \<Rightarrow> Inr s
      | None \<Rightarrow>
          (case runtime_host_metadata (cd_agent_id d) (cd_metadata d) s of
             Inl e \<Rightarrow> Inl (ResolveHost e)
           | Inr metadata \<Rightarrow>
               (case unique_violation (cron_command d) s of
                  Some constraint \<Rightarrow> Inl (InsertCommand constraint)
                | None \<Rightarrow>
                    Inr (s\<lparr>agent_commands := hm_insert (cd_command_id d)
                       (command_of_input (cron_command d) metadata nw) (agent_commands s)\<rparr>))))"

text \<open>One transaction: an error rolls back what it wrote.\<close>

definition dispatch_cron_occurrence :: "env \<Rightarrow> cron_dispatch \<Rightarrow> cron_db \<Rightarrow> (cron_error + unit) \<times> cron_db" where
  "dispatch_cron_occurrence E d s =
     (let (nw, s) = cron_now E s; ss = upsert_cron_session nw d (cron_sessions s)
      in case (if cd_announce d then announce_occurrence nw d (cron_events s) else Inr (cron_events s)) of
           Inl e \<Rightarrow> (Inl e, s)
         | Inr es \<Rightarrow>
             (case insert_cron_command nw d ss of
                Inl e \<Rightarrow> (Inl e, s)
              | Inr ss' \<Rightarrow> (Inr (), s\<lparr>cron_sessions := ss', cron_events := es\<rparr>)))"

section \<open>Recording the outcome\<close>

definition clear_claim :: "string \<Rightarrow> cron_db \<Rightarrow> (cron_error + unit) \<times> cron_db" where
  "clear_claim job_id s = (Inr (), set_job job_id (\<lambda>j. j\<lparr>cj_running_at := None\<rparr>) s)"

definition settled_job :: "string \<Rightarrow> timestamp option \<Rightarrow> timestamp \<Rightarrow> cron_job \<Rightarrow> cron_job" where
  "settled_job schedule_type next_run nw j =
     (if schedule_type = ''at''
      then j\<lparr>cj_running_at := None, cj_last_run_at := Some nw, cj_enabled := False, cj_next_run_at := None,
             cj_updated_at := nw\<rparr>
      else j\<lparr>cj_running_at := None, cj_last_run_at := Some nw, cj_next_run_at := next_run, cj_updated_at := nw\<rparr>)"

definition settle_job ::
  "env \<Rightarrow> string \<Rightarrow> string \<Rightarrow> timestamp option \<Rightarrow> cron_db \<Rightarrow> (cron_error + unit) \<times> cron_db" where
  "settle_job E job_id schedule_type next_run s =
     (let (nw, s) = cron_now E s in (Inr (), set_job job_id (settled_job schedule_type next_run nw) s))"

section \<open>A check\<close>

record cron_schedule =
  cs_others :: "nat \<Rightarrow> cron_db \<Rightarrow> cron_db"
  cs_fate :: "nat \<Rightarrow> call_fate"
  cs_locked :: "nat \<Rightarrow> string list"

record cron_task =
  ct_calls :: nat
  ct_db :: cron_db

definition cron_call ::
  "cron_schedule \<Rightarrow> (cron_db \<Rightarrow> (cron_error + 'a) \<times> cron_db) \<Rightarrow> cron_task \<Rightarrow> (cron_error + 'a) \<times> cron_task" where
  "cron_call S op w =
     (let s = cs_others S (ct_calls w) (ct_db w); (r, t) = op s; n = Suc (ct_calls w)
      in case cs_fate S (ct_calls w) of
           Answered \<Rightarrow> (r, \<lparr>ct_calls = n, ct_db = t\<rparr>)
         | Unreached \<Rightarrow> (Inl (CronDatabase ''connection failed''), \<lparr>ct_calls = n, ct_db = s\<rparr>)
         | AnswerLost \<Rightarrow> (Inl (CronDatabase ''connection lost''), \<lparr>ct_calls = n, ct_db = t\<rparr>))"

text \<open>\<^verbatim>\<open>Utc::now()\<close> and fresh identifiers, outside a database call\<close>

definition on_db :: "(cron_db \<Rightarrow> 'a \<times> cron_db) \<Rightarrow> cron_task \<Rightarrow> 'a \<times> cron_task" where
  "on_db f w = (let (x, s) = f (ct_db w) in (x, w\<lparr>ct_db := s\<rparr>))"

definition following_run ::
  "env \<Rightarrow> ('z, 'p) calendar \<Rightarrow> cron_job \<Rightarrow> cron_task \<Rightarrow> timestamp option \<times> cron_task" where
  "following_run E C j w =
     (if cj_schedule_type j = ''at'' then (None, w)
      else let (nw, w) = on_db (cron_now E) w
           in (case next_run_at C (cj_schedule_type j) (cj_schedule_value j) (cj_schedule_timezone j) nw of
                 Inr t \<Rightarrow> Some t | Inl _ \<Rightarrow> None, w))"

definition dispatch_row ::
  "env \<Rightarrow> ('z, 'p) calendar \<Rightarrow> cron_schedule \<Rightarrow> cron_job \<Rightarrow> cron_task \<Rightarrow> cron_task" where
  "dispatch_row E C S j w =
     (let (command_id, w) = on_db (cron_new_id E) w;
          (turn_id, w) = on_db (cron_new_id E) w;
          (route_id, w) = on_db (cron_new_id E) w
      in case cron_call S (dispatch_cron_occurrence E (cron_dispatch_of command_id turn_id route_id j)) w of
           (Inl _, w) \<Rightarrow> snd (cron_call S (clear_claim (cj_id j)) w)
         | (Inr _, w) \<Rightarrow>
             (let (next_run, w) = following_run E C j w
              in snd (cron_call S (settle_job E (cj_id j) (cj_schedule_type j) next_run) w)))"

definition check_and_dispatch_due_jobs ::
  "env \<Rightarrow> ('z, 'p) calendar \<Rightarrow> cron_schedule \<Rightarrow> cron_task \<Rightarrow> (cron_error + unit) \<times> cron_task" where
  "check_and_dispatch_due_jobs E C S w =
     (case cron_call S (\<lambda>s. map_prod Inr id (claim_due_jobs E (cs_locked S (ct_calls w)) s)) w of
        (Inl e, w) \<Rightarrow> (Inl e, w)
      | (Inr rows, w) \<Rightarrow> (Inr (), fold (dispatch_row E C S) rows w))"

text \<open>\<^verbatim>\<open>run_cron_scheduler\<close>: a failed check is logged and the next one follows.\<close>

primrec run_cron_scheduler ::
  "env \<Rightarrow> ('z, 'p) calendar \<Rightarrow> cron_schedule \<Rightarrow> nat \<Rightarrow> cron_task \<Rightarrow> cron_task" where
  "run_cron_scheduler E C S 0 w = w"
| "run_cron_scheduler E C S (Suc n) w = run_cron_scheduler E C S n (snd (check_and_dispatch_due_jobs E C S w))"

end
