(* ===== verification/Cron_Runs.thy ===== *)
theory Cron_Runs
  imports Cron_Scheduler "HOL-Library.Sublist"
begin

text \<open>
  Runs of the schedulers: the step relation of every database call of the schedulers and of the API
  on jobs, interleaved with the transactions of the session store and with the other writers of the
  event log; what every step keeps and guarantees; and that a check of the scheduler is such a run,
  whatever the others do between its calls and whichever of its calls fail.
\<close>

section \<open>The invariant and the guarantee\<close>

definition jobs_wf :: "cron_db \<Rightarrow> bool" where
  "jobs_wf s \<longleftrightarrow> hm_wf (cron_jobs s) \<and> (\<forall>i j. get_job i s = Some j \<longrightarrow> cj_id j = i \<and> job_checks j)"

definition cron_wf :: "cron_db \<Rightarrow> bool" where
  "cron_wf s \<longleftrightarrow> jobs_wf s \<and> commands_wf (cron_sessions s) \<and> events_wf (cron_events s)"

definition cron_evolves :: "env \<Rightarrow> cron_db \<Rightarrow> cron_db \<Rightarrow> bool" where
  "cron_evolves E s t \<longleftrightarrow> evolves E (cron_sessions s) (cron_sessions t) \<and>
     prefix (conversation_events (cron_events s)) (conversation_events (cron_events t))"

definition cron_good :: "env \<Rightarrow> cron_db \<Rightarrow> cron_db \<Rightarrow> bool" where
  "cron_good E s t \<longleftrightarrow> cron_evolves E s t \<and> (cron_wf s \<longrightarrow> cron_wf t)"

lemma cron_evolves_trans: "cron_evolves E s t \<Longrightarrow> cron_evolves E t u \<Longrightarrow> cron_evolves E s u"
  by (auto simp: cron_evolves_def intro: evolves_trans prefix_order.trans)

lemma cron_good_refl [simp]: "cron_good E s s"
  by (simp add: cron_good_def cron_evolves_def)

lemma cron_good_trans: "cron_good E s t \<Longrightarrow> cron_good E t u \<Longrightarrow> cron_good E s u"
  by (auto simp: cron_good_def intro: cron_evolves_trans)

section \<open>Steps on the job table\<close>

lemma get_job_set_job [simp]: "get_job i (set_job k f s) = (if i = k then map_option f (get_job k s) else get_job i s)"
  by (simp add: get_job_def set_job_def hm_get_adjust)

lemma set_job_frame [simp]: "cron_sessions (set_job k f s) = cron_sessions s" "cron_events (set_job k f s) = cron_events s"
  by (simp_all add: set_job_def)

lemma jobs_wf_set_job:
  assumes "jobs_wf s" "\<And>j. get_job k s = Some j \<Longrightarrow> job_checks j \<Longrightarrow> cj_id (f j) = cj_id j \<and> job_checks (f j)"
  shows "jobs_wf (set_job k f s)"
  using assms by (auto simp: jobs_wf_def set_job_def get_job_def hm_get_adjust)

lemma cron_good_jobs:
  "cron_sessions t = cron_sessions s \<Longrightarrow> cron_events t = cron_events s \<Longrightarrow> (jobs_wf s \<Longrightarrow> jobs_wf t) \<Longrightarrow> cron_good E s t"
  by (simp add: cron_good_def cron_evolves_def cron_wf_def)

lemma cron_good_set_job:
  "(\<And>j. get_job k s = Some j \<Longrightarrow> job_checks j \<Longrightarrow> cj_id (f j) = cj_id j \<and> job_checks (f j)) \<Longrightarrow> cron_good E s (set_job k f s)"
  by (rule cron_good_jobs) (auto intro: jobs_wf_set_job)

lemma cron_good_sessions:
  assumes "cron_jobs t = cron_jobs s" "cron_events t = cron_events s" "evolves E (cron_sessions s) (cron_sessions t)"
  shows "cron_good E s t"
  using assms by (auto simp: cron_good_def cron_evolves_def cron_wf_def jobs_wf_def get_job_def evolves_def)

lemma cron_now_sessions:
  "cron_now E s = (env_clock E (clock_reads (cron_sessions s)), s\<lparr>cron_sessions := tick (cron_sessions s)\<rparr>)"
  by (simp add: cron_now_def now_tick)

lemma cron_good_now: "cron_now E s = (nw, t) \<Longrightarrow> cron_good E s t"
  by (auto simp: cron_now_def intro!: cron_good_sessions evolves_now split: prod.splits)

lemma cron_good_new_id: "cron_new_id E s = (i, t) \<Longrightarrow> cron_good E s t"
  by (auto simp: cron_new_id_def new_id_def intro!: cron_good_sessions evolves_frame)

lemma job_fields_kept [simp]:
  "cj_id (claimed_job nw j) = cj_id j" "job_checks (claimed_job nw j) = job_checks j"
  "cj_id (settled_job ty nx nw j) = cj_id j" "job_checks (settled_job ty nx nw j) = job_checks j"
  by (simp_all add: claimed_job_def settled_job_def job_checks_def)

lemma cron_good_claims: "cron_good E s (fold (\<lambda>j. set_job (cj_id j) (claimed_job nw)) js s)"
proof (induction js arbitrary: s)
  case (Cons j js)
  have "cron_good E s (set_job (cj_id j) (claimed_job nw) s)" by (rule cron_good_set_job) simp
  then show ?case using Cons cron_good_trans by fastforce
qed simp

lemma claim_good: "claim_due_jobs E locked s = (js, t) \<Longrightarrow> cron_good E s t"
  by (auto simp: claim_due_jobs_def Let_def split: prod.splits intro: cron_good_trans [OF cron_good_now cron_good_claims])

lemma clear_good: "clear_claim i s = (r, t) \<Longrightarrow> cron_good E s t"
  by (auto simp: clear_claim_def job_checks_def intro!: cron_good_set_job)

lemma settle_good: "settle_job E i ty nx s = (r, t) \<Longrightarrow> cron_good E s t"
  by (auto simp: settle_job_def Let_def split: prod.splits intro!: cron_good_trans [OF cron_good_now cron_good_set_job])

section \<open>Steps of the API\<close>

lemma create_good:
  assumes "create_cron_job E C access cv agent body s = (r, t)"
  shows "cron_good E s t"
proof -
  obtain i s1 nw s2 where draw: "cron_new_id E s = (i, s1)" "cron_now E s1 = (nw, s2)" by (meson surj_pair)
  note g = cron_good_trans [OF cron_good_new_id [OF draw(1)] cron_good_now [OF draw(2)]]
  have "cron_good E s2 (s2\<lparr>cron_jobs := hm_insert i j (cron_jobs s2)\<rparr>)" if "job_checks j" "cj_id j = i" for j
    using that by (auto intro!: cron_good_jobs simp: jobs_wf_def get_job_def)
  from cron_good_trans [OF g this] g assms show ?thesis
    by (auto simp: create_cron_job_def draw Let_def new_cron_job_def split: sum.splits if_splits)
qed

lemma updated_next_run_good: "updated_next_run E C agent i body s = (r, t) \<Longrightarrow> cron_good E s t"
  by (auto simp: updated_next_run_def Let_def split: prod.splits sum.splits option.splits if_splits intro: cron_good_now)

lemma update_good:
  assumes "update_cron_job E C access others agent i body s = (r, t)" "\<And>u. cron_good E u (others u)"
  shows "cron_good E s t"
proof -
  obtain n s1 nw s2 where run: "updated_next_run E C agent i body s = (n, s1)" "cron_now E (others s1) = (nw, s2)"
    by (meson surj_pair)
  note g1 = updated_next_run_good [OF run(1)]
  note g2 = cron_good_trans [OF g1 cron_good_trans [OF assms(2) cron_good_now [OF run(2)]]]
  have "cron_good E s2 (set_job i (patched_job body nx nw) s2)"
    if "owned_job agent i s2 = Some j" "job_checks (patched_job body nx nw j)" for nx j
    using that by (intro cron_good_set_job) (auto simp: owned_job_def patched_job_def split: option.splits if_splits)
  from cron_good_trans [OF g2 this] g1 g2 assms(1) show ?thesis
    by (auto simp: update_cron_job_def run Let_def split: sum.splits option.splits if_splits)
qed

lemma delete_good: "delete_cron_job access agent i s = (r, t) \<Longrightarrow> cron_good E s t"
  by (auto simp: delete_cron_job_def jobs_wf_def get_job_def split: sum.splits option.splits intro!: cron_good_jobs)

section \<open>The dispatch transaction\<close>

lemma evolves_env: "env_uuid F = env_uuid E \<Longrightarrow> evolves F s t = evolves E s t"
  by (simp add: evolves_def attempt_evolves_def)

lemma latest_binding_tick [simp]: "latest_binding a (tick s) = latest_binding a s"
  by (simp add: latest_binding_def tick_def)

lemma directory_tick [simp]:
  "disabled_principals (tick s) = disabled_principals s" "revoked_hosts (tick s) = revoked_hosts s"
  "command_rows (tick s) = command_rows s"
  by (simp_all add: tick_def command_rows_def)

lemma lookups_tick [simp]:
  "find_by_message_agent m a (tick s) = find_by_message_agent m a s"
  "runtime_host_metadata a md (tick s) = runtime_host_metadata a md s"
  "unique_violation input (tick s) = unique_violation input s"
  by (simp_all add: find_by_message_agent_def runtime_host_metadata_def unique_violation_def Let_def split: option.split)

lemma commands_tick [simp]:
  "agent_commands (tick s) = agent_commands s" "(tick s)\<lparr>agent_commands := m\<rparr> = tick (s\<lparr>agent_commands := m\<rparr>)"
  by (simp_all add: tick_def)

lemma cron_command_fields [simp]:
  "ic_message_id (cron_command d) = cd_message_id d" "ic_agent_id (cron_command d) = cd_agent_id d"
  "ic_metadata (cron_command d) = cd_metadata d"
  "ac_command_id (command_of_input (cron_command d) md nw) = cd_command_id d"
  "ac_message_id (command_of_input (cron_command d) md nw) = cd_message_id d"
  "ac_agent_id (command_of_input (cron_command d) md nw) = cd_agent_id d"
  by (simp_all add: cron_command_def command_of_input_def)

text \<open>The insertion is the one of the session store, at the transaction's time.\<close>

lemma insert_cron_command_store:
  assumes "insert_cron_command nw d s = Inr t"
  shows "\<exists>c. insert_command (E\<lparr>env_clock := \<lambda>_. nw\<rparr>) (cron_command d) s = (Inr c, tick t)"
  using assms
  by (auto simp: insert_cron_command_def insert_command_def now_tick Let_def split: option.splits sum.splits)

lemma insert_cron_command_evolves: "insert_cron_command nw d s = Inr t \<Longrightarrow> evolves E s t"
proof -
  assume "insert_cron_command nw d s = Inr t"
  then have "evolves E s (tick t)"
    using insert_cron_command_store [where E = E] insert_command_evolves evolves_env [of "E\<lparr>env_clock := \<lambda>_. nw\<rparr>" E] by fastforce
  moreover have "evolves E (tick t) t" by (rule evolves_frame) (simp_all add: tick_def)
  ultimately show ?thesis by (rule evolves_trans)
qed

lemma upsert_cron_session_evolves: "evolves E s (upsert_cron_session nw d s)"
  by (auto simp: upsert_cron_session_def Let_def evolves_def get_session_def get_command_def commands_wf_def
      split: option.splits)

lemma announce_Inr:
  assumes "announce_occurrence nw d s = Inr t"
  shows "t = s \<and> cd_message_id d \<in> ev_event_id ` set (conversation_events s) \<or>
    cd_message_id d \<notin> ev_event_id ` set (conversation_events s) \<and>
    t = s\<lparr>conversation_events := conversation_events s @ [announcement nw (next_seq (cd_conversation_id d) s) d]\<rparr>"
  using assms by (force simp: announce_occurrence_def Let_def list_ex_iff split: if_splits)

lemma announce_wf: "announce_occurrence nw d s = Inr t \<Longrightarrow> events_wf s \<Longrightarrow> events_wf t"
  by (drule announce_Inr)
     (auto intro!: events_wf_append [of s "announcement nw (next_seq (cd_conversation_id d) s) d"] simp: announcement_def)

lemma announce_prefix: "announce_occurrence nw d s = Inr t \<Longrightarrow> prefix (conversation_events s) (conversation_events t)"
  by (drule announce_Inr) auto

lemma dispatch_Inr:
  assumes "dispatch_cron_occurrence E d s = (Inr u, t)"
  obtains nw es ss where
    "cron_jobs t = cron_jobs s" "cron_events t = es" "cron_sessions t = ss"
    "if cd_announce d then announce_occurrence nw d (cron_events s) = Inr es else es = cron_events s"
    "insert_cron_command nw d (upsert_cron_session nw d (tick (cron_sessions s))) = Inr ss"
  using assms by (auto simp: dispatch_cron_occurrence_def cron_now_sessions Let_def split: sum.splits if_splits)

lemma dispatch_Inl:
  "dispatch_cron_occurrence E d s = (Inl e, t) \<Longrightarrow> t = s\<lparr>cron_sessions := tick (cron_sessions s)\<rparr>"
  by (auto simp: dispatch_cron_occurrence_def cron_now_sessions Let_def split: sum.splits if_splits)

lemma evolves_tick_refl: "evolves E s (tick s)"
  by (rule evolves_frame) (simp_all add: tick_def)

lemma dispatch_good:
  assumes "dispatch_cron_occurrence E d s = (r, t)"
  shows "cron_good E s t"
proof (cases r)
  case (Inl e)
  with assms dispatch_Inl show ?thesis by (fastforce intro: cron_good_sessions evolves_tick_refl)
next
  case (Inr u)
  with assms obtain nw es ss where d: "cron_jobs t = cron_jobs s" "cron_events t = es" "cron_sessions t = ss"
    "if cd_announce d then announce_occurrence nw d (cron_events s) = Inr es else es = cron_events s"
    "insert_cron_command nw d (upsert_cron_session nw d (tick (cron_sessions s))) = Inr ss"
    by (auto elim: dispatch_Inr)
  have "evolves E (cron_sessions s) (cron_sessions t)" unfolding d(3)
    by (rule evolves_trans [OF evolves_tick_refl evolves_trans [OF upsert_cron_session_evolves
          insert_cron_command_evolves [OF d(5)]]])
  moreover have "events_wf (cron_events s) \<longrightarrow> events_wf (cron_events t)"
    and "prefix (conversation_events (cron_events s)) (conversation_events (cron_events t))"
    using d(2,4) announce_wf announce_prefix by (auto split: if_splits)
  ultimately show ?thesis using d(1)
    by (auto simp: cron_good_def cron_evolves_def cron_wf_def jobs_wf_def get_job_def evolves_def)
qed

section \<open>Steps and runs\<close>

inductive cron_step :: "env \<Rightarrow> ('z, 'p) calendar \<Rightarrow> cron_db \<Rightarrow> cron_db \<Rightarrow> bool" for E C where
  claim: "claim_due_jobs E locked s = (js, t) \<Longrightarrow> cron_step E C s t"
| dispatch: "dispatch_cron_occurrence E d s = (r, t) \<Longrightarrow> cron_step E C s t"
| clear: "clear_claim i s = (r, t) \<Longrightarrow> cron_step E C s t"
| settle: "settle_job E i ty nx s = (r, t) \<Longrightarrow> cron_step E C s t"
| create: "create_cron_job E C access cv agent body s = (q, t) \<Longrightarrow> cron_step E C s t"
| update: "update_cron_job E C access others agent i ubody s = (v, t) \<Longrightarrow>
    \<forall>u. (cron_step E C)\<^sup>*\<^sup>* u (others u) \<Longrightarrow> cron_step E C s t"
| delete: "delete_cron_job access agent i s = (v, t) \<Longrightarrow> cron_step E C s t"
| sessions: "session_step E (cron_sessions s) ss \<Longrightarrow> cron_step E C s (s\<lparr>cron_sessions := ss\<rparr>)"
| events: "prefix (conversation_events (cron_events s)) (conversation_events es) \<Longrightarrow>
    (events_wf (cron_events s) \<longrightarrow> events_wf es) \<Longrightarrow> cron_step E C s (s\<lparr>cron_events := es\<rparr>)"
| draw_id: "cron_new_id E s = (x, t) \<Longrightarrow> cron_step E C s t"
| read_clock: "cron_now E s = (nw, t) \<Longrightarrow> cron_step E C s t"

lemma cron_step_good: "cron_step E C s t \<Longrightarrow> cron_good E s t"
proof (induction rule: cron_step.induct)
  case (update access others agent i ubody s v t)
  have "cron_good E u w" if "(\<lambda>s t. cron_step E C s t \<and> cron_good E s t)\<^sup>*\<^sup>* u w" for u w
    using that by (induction rule: rtranclp_induct) (auto intro: cron_good_trans)
  with update(2) show ?case by (intro update_good [OF update(1)]) blast
next
  case (sessions s ss)
  then show ?case by (intro cron_good_sessions) (auto intro: session_step_evolves)
next
  case (events s es)
  then show ?case by (simp add: cron_good_def cron_evolves_def cron_wf_def jobs_wf_def get_job_def)
qed (blast intro: claim_good dispatch_good clear_good settle_good create_good delete_good cron_good_now cron_good_new_id)+

interpretation cron: guaranteed_steps "cron_step E C" cron_wf "cron_evolves E"
  by unfold_locales (use cron_step_good cron_evolves_trans in \<open>auto simp: cron_good_def cron_evolves_def [of E s s for s]\<close>)

section \<open>A check of the scheduler is a run\<close>

definition cron_others :: "env \<Rightarrow> ('z, 'p) calendar \<Rightarrow> cron_schedule \<Rightarrow> bool" where
  "cron_others E C S \<longleftrightarrow> (\<forall>n s. (cron_step E C)\<^sup>*\<^sup>* s (cs_others S n s))"

lemma cron_call_run:
  assumes "cron_others E C S" "\<And>s r t. op s = (r, t) \<Longrightarrow> cron_step E C s t" "cron_call S op w = (r, w')"
  shows "(cron_step E C)\<^sup>*\<^sup>* (ct_db w) (ct_db w')"
proof -
  obtain r' t where op: "op (cs_others S (ct_calls w) (ct_db w)) = (r', t)" by (meson surj_pair)
  have "(cron_step E C)\<^sup>*\<^sup>* (ct_db w) (cs_others S (ct_calls w) (ct_db w))" using assms(1) by (simp add: cron_others_def)
  moreover note assms(2) [OF op]
  ultimately show ?thesis using assms(3) op
    by (auto simp: cron_call_def Let_def split: call_fate.splits intro: rtranclp.rtrancl_into_rtrancl)
qed

lemma on_db_run:
  assumes "\<And>s x t. f s = (x, t) \<Longrightarrow> cron_step E C s t" "on_db f w = (y, w')"
  shows "(cron_step E C)\<^sup>*\<^sup>* (ct_db w) (ct_db w')"
  using assms by (auto simp: on_db_def Let_def split: prod.splits)

lemma dispatch_row_run:
  assumes "cron_others E C S"
  shows "(cron_step E C)\<^sup>*\<^sup>* (ct_db w) (ct_db (dispatch_row E C S j w))"
proof -
  obtain c w1 tn w2 rt w3 where ids: "on_db (cron_new_id E) w = (c, w1)" "on_db (cron_new_id E) w1 = (tn, w2)"
      "on_db (cron_new_id E) w2 = (rt, w3)" by (meson surj_pair)
  obtain r w4 where call: "cron_call S (dispatch_cron_occurrence E (cron_dispatch_of c tn rt j)) w3 = (r, w4)" by (meson surj_pair)
  obtain nx w5 where nx: "following_run E C j w4 = (nx, w5)" by (meson surj_pair)
  have draws: "(cron_step E C)\<^sup>*\<^sup>* (ct_db v) (ct_db v')" if "on_db (cron_new_id E) v = (x, v')" for v x v'
    by (rule on_db_run [OF _ that]) (rule cron_step.draw_id)
  have clock: "(cron_step E C)\<^sup>*\<^sup>* (ct_db v) (ct_db v')" if "on_db (cron_now E) v = (x, v')" for v x v'
    by (rule on_db_run [OF _ that]) (rule cron_step.read_clock)
  have row: "(cron_step E C)\<^sup>*\<^sup>* (ct_db w3) (ct_db w4)"
    by (rule cron_call_run [OF assms _ call]) (rule cron_step.dispatch)
  have "(cron_step E C)\<^sup>*\<^sup>* (ct_db w) (ct_db w4)"
    using draws [OF ids(1)] draws [OF ids(2)] draws [OF ids(3)] row by (meson rtranclp_trans)
  moreover have "(cron_step E C)\<^sup>*\<^sup>* (ct_db w4) (ct_db w5)"
    using nx clock by (auto simp: following_run_def Let_def split: if_splits prod.splits)
  moreover have "(cron_step E C)\<^sup>*\<^sup>* (ct_db w4) (ct_db (snd (cron_call S (clear_claim i) w4)))"
    "(cron_step E C)\<^sup>*\<^sup>* (ct_db w5) (ct_db (snd (cron_call S (settle_job E i ty nx) w5)))" for i ty
    by (rule cron_call_run [OF assms _ prod.collapse [symmetric]], erule cron_step.clear cron_step.settle)+
  ultimately show ?thesis
    by (auto simp: dispatch_row_def ids call nx Let_def split: sum.splits intro: rtranclp_trans)
qed

lemma check_run:
  assumes "cron_others E C S"
  shows "(cron_step E C)\<^sup>*\<^sup>* (ct_db w) (ct_db (snd (check_and_dispatch_due_jobs E C S w)))"
proof -
  obtain r w1 where call: "cron_call S (\<lambda>s. map_prod Inr id (claim_due_jobs E (cs_locked S (ct_calls w)) s)) w = (r, w1)"
    by (meson surj_pair)
  have "(cron_step E C)\<^sup>*\<^sup>* (ct_db w) (ct_db w1)"
    by (rule cron_call_run [OF assms _ call]) (auto simp: map_prod_def split: prod.splits intro: cron_step.claim)
  moreover have "(cron_step E C)\<^sup>*\<^sup>* (ct_db u) (ct_db (fold (dispatch_row E C S) js u))" for js u
    by (induction js arbitrary: u) (auto intro: rtranclp_trans dispatch_row_run [OF assms])
  ultimately show ?thesis
    by (auto simp: check_and_dispatch_due_jobs_def call split: sum.splits intro: rtranclp_trans)
qed

lemma scheduler_run:
  assumes "cron_others E C S"
  shows "(cron_step E C)\<^sup>*\<^sup>* (ct_db w) (ct_db (run_cron_scheduler E C S n w))"
  by (induction n arbitrary: w) (auto intro: rtranclp_trans [OF check_run [OF assms]])

section \<open>A small table\<close>

lemma jobs_wf_list:
  "hm_wf (cron_jobs s) \<Longrightarrow> list_all (\<lambda>(i, j). cj_id j = i \<and> job_checks j) (cron_jobs s) \<Longrightarrow> jobs_wf s"
  by (force simp: jobs_wf_def get_job_def list_all_iff dest: map_of_SomeD)

definition demo_cron_env :: env where
  "demo_cron_env = \<lparr>env_uuid = (\<lambda>n. replicate n CHR ''u''), env_clock = (\<lambda>n. secs (100 + int n))\<rparr>"

definition demo_calendar :: "(unit, unit) calendar" where
  "demo_calendar = \<lparr>cal_zone = (\<lambda>_. Some ()), cal_pattern = (\<lambda>_. Inl ''pattern''), cal_next = (\<lambda>_ _ _. Inl ''pattern''),
     cal_instant = (\<lambda>_. None), cal_try_seconds = (\<lambda>n. Some (secs n)), cal_checked_add = (\<lambda>t d. Some (t + d))\<rparr>"

definition demo_job :: "string \<Rightarrow> string \<Rightarrow> timestamp \<Rightarrow> cron_job" where
  "demo_job i agent next_run =
     \<lparr>cj_id = i, cj_agent_id = agent, cj_conversation_id = ''c'', cj_name = ''report'', cj_description = None,
      cj_schedule_type = ''every'', cj_schedule_value = ''5m'', cj_schedule_timezone = None, cj_message = ''report'',
      cj_session_target = default_session_target, cj_delivery_mode = default_delivery_mode, cj_enabled = True,
      cj_running_at = None, cj_last_run_at = None, cj_next_run_at = Some next_run, cj_last_status = None,
      cj_last_error = None, cj_last_duration_ms = None, cj_consecutive_errors = 0, cj_timeout_seconds = default_timeout,
      cj_delete_after_run = False, cj_created_at = 0, cj_updated_at = 0\<rparr>"

definition demo_cron :: "cron_job list \<Rightarrow> cron_db" where
  "demo_cron js = \<lparr>cron_jobs = map (\<lambda>j. (cj_id j, j)) js,
     cron_sessions = demo_db\<lparr>disabled_principals := [''off'']\<rparr>,
     cron_events = \<lparr>ids_drawn = 0, clock_reads = 0, conversation_events = [], event_outbox = [], outbox_id_seq = 1,
       outbox_dead_letters = []\<rparr>\<rparr>"

lemma demo_cron_wf:
  assumes "distinct (map cj_id js)" "list_all job_checks js"
  shows "cron_wf (demo_cron js)"
proof -
  have "jobs_wf (demo_cron js)"
    using assms by (intro jobs_wf_list) (simp_all add: demo_cron_def hm_wf_def comp_def list_all_iff)
  then show ?thesis
    by (simp add: cron_wf_def demo_cron_def demo_db_def commands_wf_def get_command_def events_wf_def List.map_filter_def)
qed

lemma demo_cron_get:
  "distinct (map cj_id js) \<Longrightarrow> j \<in> set js \<Longrightarrow> get_job (cj_id j) (demo_cron js) = Some j"
  by (force simp: demo_cron_def get_job_def comp_def intro!: map_of_is_SomeI)

text \<open>Another scheduler makes a whole check before each call.\<close>

definition demo_alone :: cron_schedule where
  "demo_alone = \<lparr>cs_others = (\<lambda>_ s. s), cs_fate = (\<lambda>_. Answered), cs_locked = (\<lambda>_. [])\<rparr>"

definition demo_rival :: cron_schedule where
  "demo_rival = \<lparr>cs_others = (\<lambda>_ s. ct_db (snd (check_and_dispatch_due_jobs demo_cron_env demo_calendar demo_alone
       \<lparr>ct_calls = 0, ct_db = s\<rparr>))), cs_fate = (\<lambda>n. if n = 1 then AnswerLost else Answered), cs_locked = (\<lambda>_. [])\<rparr>"

lemma demo_rival_others: "cron_others demo_cron_env demo_calendar demo_rival"
proof -
  have "cron_others demo_cron_env demo_calendar demo_alone" by (simp add: cron_others_def demo_alone_def)
  from check_run [OF this, of "\<lparr>ct_calls = 0, ct_db = s\<rparr>" for s] show ?thesis
    by (simp add: cron_others_def demo_rival_def)
qed

end
