(* ===== verification/Cron_Props.thy ===== *)
theory Cron_Props
  imports Cron_Runs
begin

text \<open>
  What the schedulers promise: one command and one announcement for each occurrence of a job over
  every run, the outcome of a dispatched row, and how long a claim excludes the other schedulers;
  and where they fall short: claims of jobs that cannot be dispatched crowd out every later job, and
  the outcome of an occurrence overwrites a schedule changed meanwhile.
\<close>

section \<open>Identifiers of occurrences\<close>

lemma last_separator:
  assumes "xs @ c # ys = xs' @ c # ys'" "c \<notin> set ys" "c \<notin> set ys'"
  shows "xs = xs' \<and> ys = ys'"
proof -
  have "takeWhile (\<lambda>d. d \<noteq> c) (rev (us @ c # vs)) = rev vs" if "c \<notin> set vs" for us vs
    using that by (subst rev_append) (simp add: takeWhile_append takeWhile_eq_all_conv [THEN iffD2])
  from this [OF assms(2), of xs] this [OF assms(3), of xs'] have "ys = ys'" unfolding assms(1) by simp
  with assms(1) show ?thesis by simp
qed

lemma separator_not_shown: "0 \<le> n \<Longrightarrow> CHR ''-'' \<notin> set (show_int n)"
  using show_nat_digits [of "nat n"] digit_not_sign by (auto simp: show_int_def list_all_iff)

text \<open>Occurrences from 1970 on have different message ids, whatever the job ids contain.\<close>

lemma cron_message_id_inject:
  assumes "0 \<le> m" "0 \<le> n" "cron_message_id i m = cron_message_id j n"
  shows "i = j \<and> m = n"
proof -
  have "i @ CHR ''-'' # show_int m = j @ CHR ''-'' # show_int n" using assms(3) by (simp add: cron_message_id_def)
  from last_separator [OF this] assms(1,2) have "i = j" "show_int m = show_int n" by (simp_all add: separator_not_shown)
  then show ?thesis by (metis option.inject parse_signed_show_int)
qed

section \<open>One command and one announcement for each occurrence\<close>

definition occurrence_id :: "cron_job \<Rightarrow> string" where
  "occurrence_id j = cron_message_id (cj_id j) (timestamp_micros (occurrence j))"

definition occurrence_commands :: "cron_job \<Rightarrow> cron_db \<Rightarrow> agent_command list" where
  "occurrence_commands j s =
     filter (\<lambda>c. ac_message_id c = occurrence_id j \<and> ac_agent_id c = cj_agent_id j) (command_rows (cron_sessions s))"

definition announcements :: "cron_job \<Rightarrow> cron_db \<Rightarrow> conversation_event_row list" where
  "announcements j s = filter (\<lambda>e. ev_event_id e = occurrence_id j) (conversation_events (cron_events s))"

lemma dispatch_of_fields [simp]:
  "cd_message_id (cron_dispatch_of c tn rt j) = occurrence_id j" "cd_agent_id (cron_dispatch_of c tn rt j) = cj_agent_id j"
  "cd_announce (cron_dispatch_of c tn rt j) = (cj_delivery_mode j = ''announce'')"
  by (simp_all add: cron_dispatch_of_def occurrence_id_def)

lemma length_filter_at_most_one:
  assumes "distinct xs" "\<And>x y. x \<in> set xs \<Longrightarrow> y \<in> set xs \<Longrightarrow> P x \<Longrightarrow> P y \<Longrightarrow> x = y"
  shows "length (filter P xs) \<le> 1"
proof -
  have "card (set (filter P xs)) \<le> 1" using assms(2) by (auto simp: card_le_Suc0_iff_eq)
  then show ?thesis using distinct_card [of "filter P xs"] assms(1) by simp
qed

lemma distinct_command_rows:
  assumes "commands_wf s"
  shows "distinct (command_rows s)"
proof -
  have "map ac_command_id (command_rows s) = map fst (agent_commands s)"
    using assms by (auto simp: command_rows_def hm_values_def commands_wf_def get_command_def hm_wf_def)
  moreover have "distinct (map fst (agent_commands s))" using assms by (simp add: commands_wf_def hm_wf_def)
  ultimately show ?thesis by (metis distinct_map)
qed

lemma command_rows_get: "commands_wf s \<Longrightarrow> c \<in> set (command_rows s) \<longleftrightarrow> (\<exists>k. get_command k s = Some c)"
  by (simp add: command_rows_def get_command_def hm_values_get commands_wf_def)

lemma occurrence_commands_at_most_one: "cron_wf s \<Longrightarrow> length (occurrence_commands j s) \<le> 1"
  unfolding occurrence_commands_def cron_wf_def
  by (rule length_filter_at_most_one [OF distinct_command_rows])
     (auto simp: command_rows_get commands_wf_def, metis option.inject)

lemma announcements_at_most_one: "cron_wf s \<Longrightarrow> length (announcements j s) \<le> 1"
  unfolding announcements_def
  by (rule length_filter_at_most_one) (auto simp: cron_wf_def events_wf_def distinct_map inj_on_def)

lemma evolves_occurrence_commands:
  assumes "cron_evolves E s t" "cron_wf s" "cron_wf t" "occurrence_commands j s \<noteq> []"
  shows "occurrence_commands j t \<noteq> []"
proof -
  obtain c where "c \<in> set (occurrence_commands j s)" using assms(4) by (meson last_in_set)
  then have c: "c \<in> set (command_rows (cron_sessions s))" "ac_message_id c = occurrence_id j" "ac_agent_id c = cj_agent_id j"
    by (auto simp: occurrence_commands_def)
  then obtain k where "get_command k (cron_sessions s) = Some c" using assms(2) command_rows_get by (auto simp: cron_wf_def)
  then obtain c' where c': "get_command k (cron_sessions t) = Some c'" "command_ident c' = command_ident c"
    using assms(1) unfolding cron_evolves_def evolves_def by blast
  then have "c' \<in> set (command_rows (cron_sessions t))" using assms(3) command_rows_get by (auto simp: cron_wf_def)
  with c c'(2) show ?thesis by (auto simp: occurrence_commands_def command_ident_def filter_empty_conv)
qed

lemma evolves_announcements:
  "cron_evolves E s t \<Longrightarrow> announcements j s \<noteq> [] \<Longrightarrow> announcements j t \<noteq> []"
  by (auto simp: cron_evolves_def announcements_def filter_empty_conv dest: set_mono_prefix)

lemma command_rows_upsert [simp]: "command_rows (upsert_cron_session nw d s) = command_rows s"
  by (simp add: upsert_cron_session_def command_rows_def Let_def)

lemma insert_cron_command_found:
  assumes "insert_cron_command nw d s = Inr t"
  shows "\<exists>c\<in>set (command_rows t). ac_message_id c = cd_message_id d \<and> ac_agent_id c = cd_agent_id d"
proof (cases "find_by_message_agent (cd_message_id d) (cd_agent_id d) s")
  case None
  with assms obtain c where "t = s\<lparr>agent_commands := hm_insert (cd_command_id d) c (agent_commands s)\<rparr>"
      "ac_message_id c = cd_message_id d" "ac_agent_id c = cd_agent_id d"
    by (auto simp: insert_cron_command_def split: sum.splits option.splits)
  moreover from this(1) have "map_of (agent_commands t) (cd_command_id d) = Some c" by simp
  then have "c \<in> set (command_rows t)" by (force simp: command_rows_def hm_values_def dest: map_of_SomeD)
  ultimately show ?thesis by blast
next
  case (Some c)
  then have "c \<in> set (command_rows s)" "ac_message_id c = cd_message_id d" "ac_agent_id c = cd_agent_id d"
    unfolding find_by_message_agent_def find_Some_iff by (auto simp: in_set_conv_nth)
  with assms Some show ?thesis by (auto simp: insert_cron_command_def)
qed

lemma dispatch_leaves_trace:
  assumes "dispatch_cron_occurrence E (cron_dispatch_of c tn rt j) s = (Inr u, t)"
  shows "occurrence_commands j t \<noteq> []" "cj_delivery_mode j = ''announce'' \<Longrightarrow> announcements j t \<noteq> []"
proof -
  let ?d = "cron_dispatch_of c tn rt j"
  obtain nw es ss where d: "cron_events t = es" "cron_sessions t = ss"
    "if cd_announce ?d then announce_occurrence nw ?d (cron_events s) = Inr es else es = cron_events s"
    "insert_cron_command nw ?d (upsert_cron_session nw ?d (tick (cron_sessions s))) = Inr ss"
    using assms by (auto elim: dispatch_Inr)
  from insert_cron_command_found [OF d(4)] d(2) show "occurrence_commands j t \<noteq> []"
    by (auto simp: occurrence_commands_def filter_empty_conv)
  show "announcements j t \<noteq> []" if "cj_delivery_mode j = ''announce''"
    using that d(1,3) announce_Inr [of nw ?d "cron_events s" es]
    by (auto simp: announcements_def announcement_def filter_empty_conv)
qed

text \<open>
  C10: an occurrence is dispatched once. After a dispatch of a job's occurrence has committed, and
  whatever checks schedulers make from then on (their calls may fail or lose their answers, and before
  each call other schedulers, the API, the session store and other writers of the log may act), there
  is exactly one command for the occurrence, at most one event with its id, and exactly one when the
  job announces.
\<close>

theorem cron_occurrence_once:
  assumes "cron_wf s" "cron_others E C S"
    and "dispatch_cron_occurrence E (cron_dispatch_of c tn rt j) s = (Inr (), t)"
  shows "let u = ct_db (run_cron_scheduler E C S n \<lparr>ct_calls = k, ct_db = t\<rparr>)
    in length (occurrence_commands j u) = 1 \<and> length (announcements j u) \<le> 1 \<and>
       (cj_delivery_mode j = ''announce'' \<longrightarrow> length (announcements j u) = 1)"
proof -
  define u where "u = ct_db (run_cron_scheduler E C S n \<lparr>ct_calls = k, ct_db = t\<rparr>)"
  have t: "cron_wf t" using dispatch_good [OF assms(3)] assms(1) by (simp add: cron_good_def)
  have "(cron_step E C)\<^sup>*\<^sup>* t u" using scheduler_run [OF assms(2), of "\<lparr>ct_calls = k, ct_db = t\<rparr>"] by (simp add: u_def)
  then have u: "cron_wf u" "cron_evolves E t u" using cron.run_keeps cron.run_guarantees t by blast+
  note trace = dispatch_leaves_trace [OF assms(3)]
  have "occurrence_commands j u \<noteq> []" using evolves_occurrence_commands [OF u(2) t u(1) trace(1)] .
  moreover have "cj_delivery_mode j = ''announce'' \<longrightarrow> announcements j u \<noteq> []"
    using evolves_announcements [OF u(2)] trace(2) by blast
  ultimately show ?thesis
    using occurrence_commands_at_most_one [OF u(1), of j] announcements_at_most_one [OF u(1), of j]
    by (auto simp: le_Suc_eq Let_def simp flip: u_def)
qed

theorem cron_occurrence_once_witness:
  "let u = ct_db (run_cron_scheduler demo_cron_env demo_calendar demo_rival 2 \<lparr>ct_calls = 0,
       ct_db = snd (dispatch_cron_occurrence demo_cron_env (cron_dispatch_of ''k'' ''t'' ''r'' (demo_job ''j'' ''a'' 0))
         (demo_cron [demo_job ''j'' ''a'' 0]))\<rparr>)
   in length (occurrence_commands (demo_job ''j'' ''a'' 0) u) = 1 \<and> length (announcements (demo_job ''j'' ''a'' 0) u) = 1"
proof -
  let ?d = "cron_dispatch_of ''k'' ''t'' ''r'' (demo_job ''j'' ''a'' 0)" and ?s = "demo_cron [demo_job ''j'' ''a'' 0]"
  have "job_checks (demo_job ''j'' ''a'' 0)" by code_simp
  then have wf: "cron_wf ?s" by (intro demo_cron_wf) simp_all
  have "fst (dispatch_cron_occurrence demo_cron_env ?d ?s) = Inr ()" by code_simp
  then have "dispatch_cron_occurrence demo_cron_env ?d ?s = (Inr (), snd (dispatch_cron_occurrence demo_cron_env ?d ?s))"
    by (simp add: prod_eq_iff)
  moreover have "cj_delivery_mode (demo_job ''j'' ''a'' 0) = ''announce''" by code_simp
  ultimately show ?thesis
    using cron_occurrence_once [OF wf demo_rival_others, of "''k''" "''t''" "''r''" "demo_job ''j'' ''a'' 0" _ 2 0]
    by (simp add: Let_def)
qed

section \<open>The outcome of a claimed row\<close>

definition undisturbed :: "cron_schedule \<Rightarrow> bool" where
  "undisturbed S \<longleftrightarrow> (\<forall>n. cs_fate S n = Answered \<and> cs_locked S n = [] \<and> (\<forall>s. cs_others S n s = s))"

lemma cron_call_quiet:
  "undisturbed S \<Longrightarrow> cron_call S op w = (let (r, t) = op (ct_db w) in (r, \<lparr>ct_calls = Suc (ct_calls w), ct_db = t\<rparr>))"
  by (simp add: undisturbed_def cron_call_def Let_def)

lemma draws_jobs [simp]:
  "cron_jobs (snd (cron_new_id E s)) = cron_jobs s" "cron_jobs (snd (cron_now E s)) = cron_jobs s"
  "cron_events (snd (cron_new_id E s)) = cron_events s" "cron_events (snd (cron_now E s)) = cron_events s"
  by (simp_all add: cron_new_id_def cron_now_def new_id_def now_def)

text \<open>The session tables up to the counters of the world.\<close>

definition same_tables :: "session_db \<Rightarrow> session_db \<Rightarrow> bool" where
  "same_tables s t \<longleftrightarrow> t\<lparr>ids_drawn := 0, clock_reads := 0\<rparr> = s\<lparr>ids_drawn := 0, clock_reads := 0\<rparr>"

lemma same_tables_refl [simp]: "same_tables s s"
  by (simp add: same_tables_def)

lemma same_tables_trans: "same_tables s t \<Longrightarrow> same_tables t u \<Longrightarrow> same_tables s u"
  by (simp add: same_tables_def)

lemma same_tables_tick [simp]: "same_tables s (tick s)"
  by (simp add: same_tables_def tick_def)

lemma same_tables_new_id: "new_id E s = (x, t) \<Longrightarrow> same_tables s t"
  by (auto simp: same_tables_def new_id_def)

lemma same_tables_fields:
  "same_tables s t \<Longrightarrow> agent_commands t = agent_commands s \<and> disabled_principals t = disabled_principals s"
  by (cases s; cases t) (simp add: same_tables_def)

lemma dispatch_jobs: "dispatch_cron_occurrence E d s = (r, t) \<Longrightarrow> cron_jobs t = cron_jobs s"
  by (cases r) (auto dest: dispatch_Inl elim: dispatch_Inr)

lemma occurrence_commands_same:
  "same_tables (cron_sessions s) (cron_sessions t) \<Longrightarrow> occurrence_commands j t = occurrence_commands j s"
  using same_tables_fields by (fastforce simp: occurrence_commands_def command_rows_def)

text \<open>States that differ in the counters of the world only.\<close>

definition same_db :: "cron_db \<Rightarrow> cron_db \<Rightarrow> bool" where
  "same_db s t \<longleftrightarrow> cron_jobs t = cron_jobs s \<and> cron_events t = cron_events s \<and>
     same_tables (cron_sessions s) (cron_sessions t)"

lemma same_db_trans: "same_db s t \<Longrightarrow> same_db t u \<Longrightarrow> same_db s u"
  by (auto simp: same_db_def intro: same_tables_trans)

lemma same_db_tick: "same_db s (s\<lparr>cron_sessions := tick (cron_sessions s)\<rparr>)"
  by (simp add: same_db_def)

lemma same_db_draw: "on_db (cron_new_id E) w = (x, w') \<Longrightarrow> same_db (ct_db w) (ct_db w')"
  by (auto simp: same_db_def on_db_def cron_new_id_def Let_def split: prod.splits intro: same_tables_new_id)

definition following_runs :: "env \<Rightarrow> ('z, 'p) calendar \<Rightarrow> cron_job \<Rightarrow> nat \<Rightarrow> timestamp option" where
  "following_runs E C j n =
     (case next_run_at C (cj_schedule_type j) (cj_schedule_value j) (cj_schedule_timezone j) (env_clock E n) of
        Inr t \<Rightarrow> Some t | Inl _ \<Rightarrow> None)"

lemma following_run_same:
  "following_run E C j w = (nx, w') \<Longrightarrow> same_db (ct_db w) (ct_db w') \<and>
     (\<exists>n. nx = (if cj_schedule_type j = ''at'' then None else following_runs E C j n))"
  by (auto simp: following_run_def following_runs_def on_db_def cron_now_sessions Let_def same_db_def split: if_splits)

text \<open>The two calls a row makes when nothing interferes: the transaction, then the outcome.\<close>

lemma dispatch_row_quiet:
  assumes "undisturbed S"
  obtains c tn rt s3 r s4 where "same_db (ct_db w) s3" "dispatch_cron_occurrence E (cron_dispatch_of c tn rt j) s3 = (r, s4)"
    "case r of
       Inl _ \<Rightarrow> ct_db (dispatch_row E C S j w) = set_job (cj_id j) (\<lambda>j. j\<lparr>cj_running_at := None\<rparr>) s4
     | Inr _ \<Rightarrow> (\<exists>m n s5. same_db s4 s5 \<and> ct_db (dispatch_row E C S j w) =
         set_job (cj_id j) (settled_job (cj_schedule_type j) (following_runs E C j m) (env_clock E n)) s5)"
proof -
  obtain c w1 tn w2 rt w3 where ids: "on_db (cron_new_id E) w = (c, w1)" "on_db (cron_new_id E) w1 = (tn, w2)"
      "on_db (cron_new_id E) w2 = (rt, w3)" by (meson surj_pair)
  obtain r s4 where call: "dispatch_cron_occurrence E (cron_dispatch_of c tn rt j) (ct_db w3) = (r, s4)" by (meson surj_pair)
  obtain nx w5 where nx: "following_run E C j \<lparr>ct_calls = Suc (ct_calls w3), ct_db = s4\<rparr> = (nx, w5)" by (meson surj_pair)
  obtain m where m: "same_db s4 (ct_db w5)" "nx = (if cj_schedule_type j = ''at'' then None else following_runs E C j m)"
    using following_run_same [OF nx] by auto
  have "settled_job (cj_schedule_type j) nx nw = settled_job (cj_schedule_type j) (following_runs E C j m) nw" for nw
    by (auto simp: settled_job_def m(2))
  then have "case r of
       Inl _ \<Rightarrow> ct_db (dispatch_row E C S j w) = set_job (cj_id j) (\<lambda>j. j\<lparr>cj_running_at := None\<rparr>) s4
     | Inr _ \<Rightarrow> (\<exists>m n s5. same_db s4 s5 \<and> ct_db (dispatch_row E C S j w) =
         set_job (cj_id j) (settled_job (cj_schedule_type j) (following_runs E C j m) (env_clock E n)) s5)"
    using same_db_trans [OF m(1) same_db_tick]
    by (auto simp: dispatch_row_def ids call nx cron_call_quiet [OF assms] clear_claim_def settle_job_def cron_now_sessions
        split: sum.split)
  moreover have "same_db (ct_db w) (ct_db w3)"
    using same_db_draw [OF ids(1)] same_db_draw [OF ids(2)] same_db_draw [OF ids(3)] same_db_trans by blast
  ultimately show ?thesis using that call by blast
qed



end
