(* ===== verification/Cron_Claims.thy ===== *)
theory Cron_Claims
  imports Cron_Props
begin

text \<open>
  Claims of jobs: what a claim selects, how long it keeps the other schedulers away, and the two
  ways in which jobs suffer from it. A job that can never be dispatched is claimed again by every
  check, ten of them leave no room for any later job; and the outcome of an occurrence is written
  without looking at what became of the job since it was claimed.
\<close>

section \<open>What a claim selects\<close>

lemma values_ids:
  assumes "jobs_wf s"
  shows "map cj_id (hm_values (cron_jobs s)) = map fst (cron_jobs s)" "distinct (map cj_id (hm_values (cron_jobs s)))"
proof -
  show "map cj_id (hm_values (cron_jobs s)) = map fst (cron_jobs s)"
    using assms by (auto simp: hm_values_def jobs_wf_def get_job_def hm_wf_def)
  then show "distinct (map cj_id (hm_values (cron_jobs s)))" using assms by (simp add: jobs_wf_def hm_wf_def)
qed

lemma values_get: "jobs_wf s \<Longrightarrow> j \<in> set (hm_values (cron_jobs s)) \<longleftrightarrow> get_job (cj_id j) s = Some j"
  by (auto simp: jobs_wf_def get_job_def hm_values_get)

lemma due_jobs_distinct: "jobs_wf s \<Longrightarrow> distinct (map cj_id (due_jobs locked nw s))"
proof -
  assume "jobs_wf s"
  then have "distinct (map cj_id (filter P (hm_values (cron_jobs s))))" for P
    using values_ids(2) distinct_map_filter by blast
  then have "distinct (map cj_id (sort_key occurrence (filter P (hm_values (cron_jobs s)))))" for P
    by (simp add: distinct_map)
  from distinct_take [OF this] show ?thesis unfolding due_jobs_def take_map .
qed

lemma due_jobs_in: "jobs_wf s \<Longrightarrow> j \<in> set (due_jobs locked nw s) \<Longrightarrow> due nw j \<and> get_job (cj_id j) s = Some j"
  by (auto simp: due_jobs_def values_get dest!: in_set_takeD)

lemma claims_get:
  "distinct (map cj_id js) \<Longrightarrow> get_job i (fold (\<lambda>j. set_job (cj_id j) (claimed_job nw)) js s) =
     (if i \<in> cj_id ` set js then map_option (claimed_job nw) (get_job i s) else get_job i s)"
  by (induction js arbitrary: s) auto

lemma claims_wf: "jobs_wf s \<Longrightarrow> jobs_wf (fold (\<lambda>j. set_job (cj_id j) (claimed_job nw)) js s)"
proof (induction js arbitrary: s)
  case (Cons j js)
  have "jobs_wf (set_job (cj_id j) (claimed_job nw) s)" by (rule jobs_wf_set_job [OF Cons.prems]) simp
  then show ?case using Cons.IH by simp
qed simp

lemma claims_frame:
  "cron_sessions (fold (\<lambda>j. set_job (cj_id j) f) js s) = cron_sessions s"
  "cron_events (fold (\<lambda>j. set_job (cj_id j) f) js s) = cron_events s"
  by (induction js arbitrary: s) auto

section \<open>Jobs that cannot be dispatched\<close>

text \<open>
  An enabled job with an occurrence before \<open>bound\<close> that is not dispatched yet and whose agent is disabled.
\<close>

definition stuck :: "timestamp \<Rightarrow> cron_db \<Rightarrow> cron_job \<Rightarrow> bool" where
  "stuck bound s j \<longleftrightarrow> cj_enabled j \<and> (case cj_next_run_at j of None \<Rightarrow> False | Some t \<Rightarrow> t < bound) \<and>
     cj_agent_id j \<in> set (disabled_principals (cron_sessions s)) \<and> occurrence_commands j s = []"

lemma stuck_claim [simp]:
  "stuck bound s (claimed_job nw j) = stuck bound s j" "stuck bound s (j\<lparr>cj_running_at := None\<rparr>) = stuck bound s j"
  by (simp_all add: stuck_def claimed_job_def occurrence_commands_def occurrence_id_def occurrence_def)

lemma stuck_set_job [simp]: "stuck bound (set_job k f s) j = stuck bound s j"
  by (simp add: stuck_def occurrence_commands_def)

lemma stuck_same:
  "same_tables (cron_sessions s) (cron_sessions t) \<Longrightarrow> stuck bound t j = stuck bound s j"
  using same_tables_fields [of "cron_sessions s" "cron_sessions t"] by (simp add: stuck_def occurrence_commands_same)

lemma values_update: "set (hm_values (hm_insert k v m)) \<subseteq> insert v (set (hm_values m))"
  unfolding hm_values_def by (induction m) auto

lemma insert_cron_command_rows:
  assumes "insert_cron_command nw d s = Inr t"
  shows "disabled_principals t = disabled_principals s \<and>
    (\<forall>c\<in>set (command_rows t). c \<in> set (command_rows s) \<or>
       ac_agent_id c = cd_agent_id d \<and> cd_agent_id d \<notin> set (disabled_principals s))"
proof (cases "find_by_message_agent (cd_message_id d) (cd_agent_id d) s")
  case (Some c)
  with assms show ?thesis by (simp add: insert_cron_command_def)
next
  case None
  with assms obtain md where md: "runtime_host_metadata (cd_agent_id d) (cd_metadata d) s = Inr md"
      "t = s\<lparr>agent_commands := hm_insert (cd_command_id d) (command_of_input (cron_command d) md nw) (agent_commands s)\<rparr>"
    by (auto simp: insert_cron_command_def split: sum.splits option.splits)
  have "cd_agent_id d \<notin> set (disabled_principals s)" using md(1) by (auto simp: runtime_host_metadata_def)
  then show ?thesis
    using values_update [of "cd_command_id d" "command_of_input (cron_command d) md nw" "agent_commands s"]
    by (auto simp: md(2) command_rows_def)
qed

lemma disabled_upsert [simp]: "disabled_principals (upsert_cron_session nw d s) = disabled_principals s"
  by (simp add: upsert_cron_session_def Let_def)

lemma stuck_dispatch:
  assumes "stuck bound s j" "dispatch_cron_occurrence E d s = (r, t)"
  shows "stuck bound t j"
proof (cases r)
  case (Inl e)
  then have "t = s\<lparr>cron_sessions := tick (cron_sessions s)\<rparr>" using assms(2) dispatch_Inl by blast
  then show ?thesis using assms(1) stuck_same [of s t bound j] by simp
next
  case (Inr u)
  with assms(2) obtain nw ss where d: "cron_sessions t = ss"
      "insert_cron_command nw d (upsert_cron_session nw d (tick (cron_sessions s))) = Inr ss"
    by (auto elim: dispatch_Inr)
  note rows = insert_cron_command_rows [OF d(2)]
  then have "disabled_principals (cron_sessions t) = disabled_principals (cron_sessions s)" by (simp add: d(1))
  moreover have "occurrence_commands j t = []"
    using rows assms(1) by (auto simp: occurrence_commands_def stuck_def d(1) filter_empty_conv)
  ultimately show ?thesis using assms(1) by (simp add: stuck_def)
qed

lemma stuck_never_dispatched:
  "stuck bound s j \<Longrightarrow> dispatch_cron_occurrence E (cron_dispatch_of c tn rt j) s = (r, t) \<Longrightarrow> \<exists>e. r = Inl e"
  using stuck_dispatch [of bound s j E "cron_dispatch_of c tn rt j" r t] dispatch_leaves_trace(1) [of E c tn rt j s _ t]
  by (cases r) (auto simp: stuck_def)

section \<open>Ten of them starve the others\<close>

text \<open>
  The rows of \<open>B\<close> are stuck, and none is claimed except those still to be processed, \<open>rs\<close>.
\<close>

definition starving :: "timestamp \<Rightarrow> string set \<Rightarrow> string \<Rightarrow> cron_job \<Rightarrow> cron_job list \<Rightarrow> cron_db \<Rightarrow> bool" where
  "starving bound B v victim rs s \<longleftrightarrow> jobs_wf s \<and> get_job v s = Some victim \<and>
     (\<forall>i\<in>B. \<exists>j. get_job i s = Some j \<and> stuck bound s j \<and> (cj_running_at j = None \<or> i \<in> cj_id ` set rs)) \<and>
     distinct (map cj_id rs) \<and> (\<forall>j\<in>set rs. cj_id j \<noteq> v \<and> get_job (cj_id j) s = Some j)"

lemma dispatch_row_starving:
  assumes "undisturbed S" "starving bound B v victim (j # rs) (ct_db w)"
  shows "starving bound B v victim rs (ct_db (dispatch_row E C S j w))"
proof -
  let ?i = "cj_id j"
  obtain c tn rt s3 r s4 where row: "same_db (ct_db w) s3" "dispatch_cron_occurrence E (cron_dispatch_of c tn rt j) s3 = (r, s4)"
    "case r of
       Inl _ \<Rightarrow> ct_db (dispatch_row E C S j w) = set_job ?i (\<lambda>j. j\<lparr>cj_running_at := None\<rparr>) s4
     | Inr _ \<Rightarrow> (\<exists>m n s5. same_db s4 s5 \<and> ct_db (dispatch_row E C S j w) =
         set_job ?i (settled_job (cj_schedule_type j) (following_runs E C j m) (env_clock E n)) s5)"
    by (rule dispatch_row_quiet [OF assms(1)])
  have jobs4: "get_job k s4 = get_job k (ct_db w)" for k
    using dispatch_jobs [OF row(2)] row(1) by (simp add: get_job_def same_db_def)
  have stuck3: "stuck bound s3 b = stuck bound (ct_db w) b" for b using row(1) stuck_same by (auto simp: same_db_def)
  then have stuck4: "stuck bound s4 b" if "stuck bound (ct_db w) b" for b using that stuck_dispatch row(2) by blast
  obtain f s5 where t: "ct_db (dispatch_row E C S j w) = set_job ?i f s5" "same_db s4 s5"
      "\<And>k. cj_id (f k) = cj_id k" "\<And>k. job_checks (f k) = job_checks k"
      "stuck bound (ct_db w) j \<Longrightarrow> f = (\<lambda>j. j\<lparr>cj_running_at := None\<rparr>)"
  proof (cases r)
    case (Inl e)
    with row(3) that [of "\<lambda>j. j\<lparr>cj_running_at := None\<rparr>" s4] show ?thesis
      by (simp add: same_db_def job_checks_def)
  next
    case (Inr u)
    with row(2) stuck_never_dispatched stuck3 have "\<not> stuck bound (ct_db w) j" by blast
    with row(3) Inr that show ?thesis by force
  qed
  let ?t = "ct_db (dispatch_row E C S j w)"
  have get: "get_job k ?t = (if k = ?i then map_option f (get_job k (ct_db w)) else get_job k (ct_db w))" for k
    using t(2) jobs4 by (simp add: t(1) same_db_def get_job_def set_job_def hm_get_adjust)
  have stuck5: "stuck bound ?t b" if "stuck bound (ct_db w) b" for b
    using stuck4 [OF that] t(2) stuck_same [of s4 s5 bound b] by (simp add: t(1) same_db_def)
  have self: "get_job ?i (ct_db w) = Some j" and wf: "jobs_wf (ct_db w)" using assms(2) by (simp_all add: starving_def)
  have "hm_wf (cron_jobs ?t)"
    using wf t(2) dispatch_jobs [OF row(2)] row(1) by (simp add: t(1) set_job_def jobs_wf_def same_db_def)
  then have "jobs_wf ?t" using wf t(3,4) by (auto simp: jobs_wf_def get split: if_splits)
  moreover have "\<exists>b. get_job i ?t = Some b \<and> stuck bound ?t b \<and> (cj_running_at b = None \<or> i \<in> cj_id ` set rs)" if "i \<in> B" for i
  proof (cases "i = ?i")
    case True
    then have "stuck bound (ct_db w) j" using assms(2) that self by (auto simp: starving_def)
    then show ?thesis using True self stuck5 t(5) by (simp add: get)
  next
    case False
    then show ?thesis using assms(2) that stuck5 by (fastforce simp: starving_def get)
  qed
  moreover have head: "?i \<noteq> v" "get_job v (ct_db w) = Some victim" "?i \<notin> cj_id ` set rs" "distinct (map cj_id rs)"
    and rest: "k \<in> set rs \<Longrightarrow> cj_id k \<noteq> v \<and> get_job (cj_id k) (ct_db w) = Some k" for k
    using assms(2) by (simp_all add: starving_def)
  moreover have "get_job v ?t = Some victim" using head by (simp add: get)
  moreover have "get_job (cj_id k) ?t = Some k" if "k \<in> set rs" for k
  proof -
    have "cj_id k \<noteq> ?i" using head(3) that by (metis image_eqI)
    then show ?thesis using rest [OF that] by (simp add: get)
  qed
  ultimately show ?thesis unfolding starving_def by blast
qed

lemma dispatch_rows_starving:
  assumes "undisturbed S" "starving bound B v victim rs (ct_db w)"
  shows "starving bound B v victim [] (ct_db (fold (dispatch_row E C S) rs w))"
  using assms(2) by (induction rs arbitrary: w) (simp_all add: dispatch_row_starving [OF assms(1)])

text \<open>A claim passes over a job when ten stuck jobs are due before it.\<close>

lemma claim_passes_over:
  assumes "starving bound B v victim [] s" "10 \<le> card B" "cj_next_run_at victim = Some bound" "bound \<le> nw"
  shows "v \<notin> cj_id ` set (due_jobs [] nw s)"
proof
  let ?due = "filter (\<lambda>j. due nw j \<and> cj_id j \<notin> set []) (hm_values (cron_jobs s))"
  have wf: "jobs_wf s" and v: "get_job v s = Some victim" using assms(1) by (simp_all add: starving_def)
  assume "v \<in> cj_id ` set (due_jobs [] nw s)"
  then have victim: "victim \<in> set (take 10 (sort_key occurrence ?due))"
    unfolding due_jobs_def [symmetric] using due_jobs_in [OF wf] v by auto
  have in_due: "i \<in> cj_id ` set (due_jobs [] nw s) \<and> i \<noteq> v" if "i \<in> B" for i
  proof -
    have "\<exists>j. get_job i s = Some j \<and> stuck bound s j \<and> cj_running_at j = None"
      using assms(1) that by (simp add: starving_def)
    then obtain j where j: "get_job i s = Some j" "stuck bound s j" "cj_running_at j = None" by blast
    then have "cj_id j = i" using wf by (simp add: jobs_wf_def)
    moreover have "due nw j" using j(2,3) assms(4) by (auto simp: due_def stuck_def split: option.splits)
    ultimately have "j \<in> set ?due" using j(1) values_get [OF wf] by simp
    moreover have "occurrence j < occurrence victim"
      using j(2) assms(3) by (auto simp: stuck_def occurrence_def split: option.splits)
    ultimately have "j \<in> set (due_jobs [] nw s)" unfolding due_jobs_def by (rule sorted_take_closed [OF victim])
    moreover have "i \<noteq> v" using j(1,2) v assms(3) by (auto simp: stuck_def)
    ultimately show ?thesis using \<open>cj_id j = i\<close> by blast
  qed
  then have "insert v B \<subseteq> cj_id ` set (due_jobs [] nw s)" "v \<notin> B"
    using \<open>v \<in> cj_id ` set (due_jobs [] nw s)\<close> by auto
  moreover have "card (cj_id ` set (due_jobs [] nw s)) \<le> 10"
    by (rule order.trans [OF card_image_le order.trans [OF card_length]]) (simp_all add: due_jobs_def)
  ultimately show False
    using assms(2) card_mono [of "cj_id ` set (due_jobs [] nw s)" "insert v B"] finite_subset [of B]
    by (auto simp: card_insert_if)
qed

lemma check_starving:
  assumes "undisturbed S" "starving bound B v victim [] (ct_db w)" "10 \<le> card B" "cj_next_run_at victim = Some bound"
    and "\<And>n. bound \<le> env_clock E n"
  shows "starving bound B v victim [] (ct_db (snd (check_and_dispatch_due_jobs E C S w)))"
proof -
  let ?s = "ct_db w" and ?nw = "env_clock E (clock_reads (cron_sessions (ct_db w)))"
  let ?s1 = "?s\<lparr>cron_sessions := tick (cron_sessions ?s)\<rparr>"
  let ?js = "due_jobs [] ?nw ?s1"
  let ?s2 = "fold (\<lambda>j. set_job (cj_id j) (claimed_job ?nw)) ?js ?s1"
  have s1: "starving bound B v victim [] ?s1"
    using assms(2) stuck_same [of ?s ?s1] by (simp add: starving_def jobs_wf_def get_job_def)
  then have wf1: "jobs_wf ?s1" by (simp add: starving_def)
  note distinct = due_jobs_distinct [OF wf1]
  note get2 = claims_get [OF distinct]
  have "jobs_wf ?s2" by (rule claims_wf [OF wf1])
  moreover have "stuck bound ?s2 j = stuck bound ?s1 j" for j
    by (simp add: stuck_def occurrence_commands_def claims_frame)
  moreover have "v \<notin> cj_id ` set ?js" by (rule claim_passes_over [OF s1 assms(3,4,5)])
  moreover have "get_job (cj_id j) ?s1 = Some j" if "j \<in> set ?js" for j using due_jobs_in [OF wf1 that] by blast
  ultimately have "starving bound B v victim (map (claimed_job ?nw) ?js) ?s2"
    using s1 distinct by (fastforce simp: starving_def get2 image_image comp_def)
  from dispatch_rows_starving [OF assms(1), of bound B v victim _ "\<lparr>ct_calls = Suc (ct_calls w), ct_db = ?s2\<rparr>"] this
  show ?thesis using assms(1)
    by (simp add: check_and_dispatch_due_jobs_def cron_call_quiet claim_due_jobs_def cron_now_sessions Let_def undisturbed_def)
qed


text \<open>Ten jobs of a disabled agent, and a job of a working agent that is due a little later.\<close>

definition demo_stuck :: "string list" where
  "demo_stuck = [''b0'', ''b1'', ''b2'', ''b3'', ''b4'', ''b5'', ''b6'', ''b7'', ''b8'', ''b9'']"

definition demo_starved :: cron_db where
  "demo_starved = demo_cron (demo_job ''v'' ''a'' (secs 50) # map (\<lambda>i. demo_job i ''off'' (secs 10)) demo_stuck)"


section \<open>How long a claim excludes the others\<close>

theorem claim_excludes:
  assumes "jobs_wf s" "claim_due_jobs E locked s = (rows, t)" "row \<in> set rows"
  defines "nw \<equiv> env_clock E (clock_reads (cron_sessions s))"
  shows "\<exists>j. get_job (cj_id row) s = Some j \<and> due nw j \<and> row = claimed_job nw j \<and> get_job (cj_id row) t = Some row \<and>
    (cj_running_at j = None \<longrightarrow> (\<forall>nw'. due nw' row \<longrightarrow> nw + CRON_STALE_CLAIM_AFTER < nw')) \<and>
    (cj_running_at j \<noteq> None \<longrightarrow> (\<forall>nw'\<ge>nw. due nw' row))"
proof -
  let ?s1 = "s\<lparr>cron_sessions := tick (cron_sessions s)\<rparr>"
  let ?js = "due_jobs locked nw ?s1"
  have wf: "jobs_wf ?s1" using assms(1) by (simp add: jobs_wf_def get_job_def)
  have rows: "rows = map (claimed_job nw) ?js" "t = fold (\<lambda>j. set_job (cj_id j) (claimed_job nw)) ?js ?s1"
    using assms(2) by (simp_all add: claim_due_jobs_def cron_now_sessions Let_def nw_def)
  obtain j where j: "row = claimed_job nw j" "j \<in> set ?js" using assms(3) rows(1) by auto
  note in_s = due_jobs_in [OF wf j(2)]
  have "get_job (cj_id row) t = Some row"
    using in_s j claims_get [OF due_jobs_distinct [OF wf], of "cj_id j"] by (simp add: rows(2))
  moreover have "get_job (cj_id row) s = Some j" using in_s j(1) by (simp add: get_job_def)
  moreover have "nw + CRON_STALE_CLAIM_AFTER < nw'" if "cj_running_at j = None" "due nw' row" for nw'
    using that by (simp add: j(1) due_def claimed_job_def coalesce_def)
  moreover have "due nw' row" if "cj_running_at j \<noteq> None" "nw \<le> nw'" for nw'
    using in_s that by (auto simp: j(1) due_def claimed_job_def coalesce_def split: option.splits)
  ultimately show ?thesis using in_s j(1) by blast
qed

section \<open>An outcome overwrites a schedule changed meanwhile\<close>

text \<open>
  A one-shot job is claimed; before its outcome is recorded, its owner turns it into a repeating
  job and is told that it was updated. The outcome then disables the job and drops its next
  occurrence; a repeating job's new schedule is overwritten by the next occurrence of the old one.
\<close>

theorem settle_drops_reschedule:
  assumes "update_cron_job E C access others agent i body s = (Inr (), t)" "settle_job E i ty nx t = (r, u)"
    and "schedule_changed body"
  shows "\<exists>j k. get_job i t = Some j \<and> get_job i u = Some k \<and> (\<exists>n. cj_next_run_at j = Some n) \<and>
    cj_schedule_type k = cj_schedule_type j \<and> cj_schedule_value k = cj_schedule_value j \<and>
    (if ty = ''at'' then \<not> cj_enabled k \<and> cj_next_run_at k = None else cj_next_run_at k = nx)"
proof -
  obtain nx' s1 nw s2 where run: "updated_next_run E C agent i body s = (Inr nx', s1)" "cron_now E (others s1) = (nw, s2)"
    using assms(1) by (auto simp: update_cron_job_def Let_def split: sum.splits prod.splits)
  obtain j where j: "get_job i s2 = Some j" "t = set_job i (patched_job body nx' nw) s2"
    using assms(1) by (auto simp: update_cron_job_def run Let_def owned_job_def split: sum.splits option.splits if_splits)
  obtain n where "nx' = Some n" using run(1) assms(3)
    by (auto simp: updated_next_run_def Let_def split: option.splits sum.splits prod.splits)
  then have "cj_next_run_at (patched_job body nx' nw j) = Some n" by (simp add: patched_job_def or_else_def)
  moreover have "get_job i t = Some (patched_job body nx' nw j)" by (simp add: j)
  moreover from this assms(2) obtain nw' where
    "get_job i u = Some (settled_job ty nx nw' (patched_job body nx' nw j))"
    by (auto simp: settle_job_def cron_now_sessions Let_def get_job_def set_job_def hm_get_adjust)
  ultimately show ?thesis by (auto simp: settled_job_def)
qed

end
