(* ===== verification/Spec2Isabelle.thy ===== *)
theory Spec2Isabelle
  imports Choruz_Prelude Choruz_Json Choruz_Mentions Router_Models Router_Policy Router_Plan
    Router_Event Router_Memory Session_Models Session_Store Session_Props Session_Dispatch
    Pipeline_Sink Event_Store Router_Loop Writer
    Choruz_Auth Chat_State Chat_Principals Chat_Events Chat_Conversations Chat_Membership Chat_Index
    Chat_Props Chat_Errors Chat_Limits Chat_Delivery Tool_Gateway Tool_Props Executor_Wal
    Host_Completion Pg_Directory Pipeline_Loops Pipeline_Invariants Pipeline_Props Pipeline_Stranded
    Pipeline_Settle Board_State Board_Tasks Board_Service Board_Workflow Board_Calls Board_Rules Board_Inv Board_Create
    Board_Steps Board_Calls_Inv Board_Grows Board_Machine Board_Runs Board_Props Board_Access Board_Redaction
    Cron_Schedule Cron_Jobs Cron_Scheduler Cron_Runs Cron_Props Cron_Claims
begin

text \<open>
  A verification development for the message pipeline and chat core of Choruz, the chat server in which humans
  and AI agents share conversations. Paths below are relative to \<^verbatim>\<open>src/\<close>.

  \<^bold>\<open>The program.\<close> A message is appended to a conversation's event log together with an
  outbox entry (\<^verbatim>\<open>crates/choruz-store\<close>). The router claims outbox entries under a lease, decides
  which agents of the conversation the event triggers and writes visibility rows, decisions and
  agent commands (\<^verbatim>\<open>crates/choruz-router\<close>, with the PostgreSQL sink of
  \<^verbatim>\<open>services/choruz-pipeline\<close>). The session store hands commands to executors under leases fenced
  by a session epoch and an attempt id, retries and dead-letters them (\<^verbatim>\<open>crates/choruz-session\<close>).
  The writer turns a finished attempt's result into a reply event
  (\<^verbatim>\<open>crates/choruz-writer\<close>), which closes the loop. Beside the pipeline stands the chat
  application (\<^verbatim>\<open>crates/choruz-application\<close>, types in \<^verbatim>\<open>crates/choruz-domain\<close>): the in-memory
  principals, companies, conversations, audit log and event queues that the API serves, behind one
  write lock, with secrets and session tokens from \<^verbatim>\<open>crates/choruz-auth\<close>, and the task board that
  humans and agents share in a conversation, kept in PostgreSQL. Scheduled jobs of agents enter the
  pipeline from the side: a scheduler turns each due occurrence into a command and an announcement.

  \<^bold>\<open>Theories.\<close>
  \<^item> \<open>Choruz_Prelude\<close>: scalars, \<^verbatim>\<open>AppError\<close>, panicking and failing computations
    (\<open>exec\<close>, \<open>st_exec\<close>), identifiers and the clock as streams read from an environment, ASCII
    string operations, hash and B-tree maps with the interface locale \<open>rust_map\<close>, and the locale
    \<open>guaranteed_steps\<close> of step relations that keep an invariant and a guarantee.
    \<open>Choruz_Json\<close>: \<^verbatim>\<open>serde_json::Value\<close> as used by the code.
  \<^item> \<open>Choruz_Mentions\<close>: \<^verbatim>\<open>choruz-common/src/mentions.rs\<close>; the scan agrees with a
    declarative reading of a mention (C1).
  \<^item> \<open>Router_Models\<close>, \<open>Router_Policy\<close>, \<open>Router_Plan\<close>: \<^verbatim>\<open>models.rs\<close>,
    \<^verbatim>\<open>workflow.rs\<close>, \<^verbatim>\<open>policy.rs\<close> and the planner of \<^verbatim>\<open>router.rs\<close>, with the
    specification \<open>route_targets_spec\<close> of who is triggered and the refinement lemma
    \<open>plan_routes_refines\<close> (C2).
  \<^item> \<open>Router_Event\<close>, \<open>Router_Memory\<close>: \<^verbatim>\<open>route_event\<close> over any provider and sink, the
    in-memory provider and sink; the locales \<open>member_directory\<close> and \<open>decision_log\<close> carry the
    proofs for every sink (C4), and routing never panics.
  \<^item> \<open>Session_Models\<close>, \<open>Session_Store\<close>: \<^verbatim>\<open>models.rs\<close>, \<^verbatim>\<open>error.rs\<close>,
    \<^verbatim>\<open>retry.rs\<close> and the transactions of \<^verbatim>\<open>store.rs\<close> with the bounds of the retry schedule. \<open>Session_Props\<close>: the step
    relation of all transactions, epochs, fencing and idempotence over every interleaving (C8,
    C9). \<open>Session_Dispatch\<close>: fair dispatch and atomic batch leases (C11, C12).
  \<^item> \<open>Pipeline_Sink\<close>: \<^verbatim>\<open>PgDecisionSink\<close>, an \<open>idempotent_decision_log\<close> (C13, C14).
    \<open>Pg_Directory\<close>: \<^verbatim>\<open>PgMemberProvider\<close>, a \<open>member_directory\<close>; routing over both reaches only
    eligible agents (C6).
  \<^item> \<open>Event_Store\<close>: the event log and the outbox (C15). \<open>Router_Loop\<close>:
    \<^verbatim>\<open>run_router_loop\<close> and its dead-lettering (C18).
  \<^item> \<open>Writer\<close>: \<^verbatim>\<open>commit_result\<close> over the locale \<open>result_log\<close> with both of its stores
    (C19). \<open>Host_Completion\<close>: the transaction that completes a runtime host's command, over
    the session tables, the event log and the outbox (C39).
  \<^item> \<open>Choruz_Auth\<close>: \<^verbatim>\<open>choruz-auth/src/lib.rs\<close>; session tokens round-trip (C32).
  \<^item> \<open>Chat_State\<close>, \<open>Chat_Principals\<close>, \<open>Chat_Conversations\<close>, \<open>Chat_Events\<close>: the state of
    \<^verbatim>\<open>ChatApp\<close> and the operations of \<^verbatim>\<open>principals.rs\<close>, \<^verbatim>\<open>companies.rs\<close>,
    \<^verbatim>\<open>conversations.rs\<close>, \<^verbatim>\<open>events.rs\<close>, \<^verbatim>\<open>messages.rs\<close> and \<^verbatim>\<open>audit.rs\<close>. Each is a
    computation in the \<open>st_exec\<close> monad; its weakest-precondition rules (collection \<open>wp\<close>) drive
    the proofs.
  \<^item> \<open>Chat_Membership\<close>: the invariant \<open>chat_wf\<close> of the application state and that every
    operation keeps it. \<open>Chat_Index\<close>: the step relations \<open>edit_step\<close> and \<open>chat_step\<close> and the
    index of direct conversations. \<open>Chat_Props\<close>: humans in conversations, uniqueness of direct
    conversations, what deleting one breaks (C21 to C23). \<open>Chat_Errors\<close>: failed calls and
    panics (C24). \<open>Chat_Limits\<close>: the rate limit and message deduplication (C27).
    \<open>Chat_Delivery\<close>: event queues, acknowledgement and webhooks (C30).
  \<^item> \<open>Tool_Gateway\<close>: \<^verbatim>\<open>crates/choruz-tools\<close>, the registry, the effect journal and
    \<^verbatim>\<open>execute\<close>, as one function and as workers that interleave at each await. \<open>Tool_Props\<close>: the
    protocol \<open>key_step\<close> each worker refines, at most one execution, agreeing answers, and the
    calls that are never retried (C33, C35, C36).
  \<^item> \<open>Executor_Wal\<close>: the executor's SQLite log and its start-up recovery (C37).
  \<^item> \<open>Pipeline_Loops\<close>: the background loops of \<^verbatim>\<open>services/choruz-pipeline\<close>, dispatch with its
    heartbeats and the completion of a batch, the lease monitor and the retry scheduler, each a
    sequence of store calls run under a \<open>schedule\<close> (what the other tasks do before each call, and
    whether the call reaches the database and is answered). \<open>Pipeline_Invariants\<close>: the locales
    \<open>task_invariant\<close> and \<open>loop_invariant\<close>, which lift a property every store call keeps to every
    loop. \<open>Pipeline_Props\<close>: the attempt budget (C3). \<open>Pipeline_Stranded\<close>: the sweep that takes
    expired leases back, and the leases a failed sweep strands (C38, C26). \<open>Pipeline_Settle\<close>: a
    dispatched batch settles, and heartbeats keep the monitor away (C31, C29).
  \<^item> \<open>Board_State\<close> to \<open>Board_Calls\<close>: the channel task board of
    \<^verbatim>\<open>crates/choruz-application/src/db_service/group_workflow_tasks.rs\<close>, its tables and checks, task keys,
    creation, patches, workflow events, participants and the history shown. A call that reads before
    its transaction takes an argument \<open>others\<close>, what other calls commit in between. \<open>Board_Rules\<close>:
    inversion of runs. \<open>Board_Inv\<close>, \<open>Board_Create\<close>, \<open>Board_Steps\<close>, \<open>Board_Calls_Inv\<close>: the invariant
    \<open>board_wf\<close> and the effect of each transaction. \<open>Board_Grows\<close>, \<open>Board_Machine\<close>: every call adds
    only and keeps the invariant. \<open>Board_Runs\<close>: the step relation \<open>board_step\<close> with nested
    interference. \<open>Board_Props\<close>: the invariant over every run,
    idempotent creation, generated keys (C5, C7, C16). \<open>Board_Access\<close>: authorised patches and events,
    and the update that overwrites concurrent changes (C20, C28, C34). \<open>Board_Redaction\<close>: what a
    task's history stores and shows (C40).
  \<^item> \<open>Cron_Schedule\<close>, \<open>Cron_Jobs\<close>, \<open>Cron_Scheduler\<close>: scheduled jobs of agents, the next occurrence of
    a schedule (\<^verbatim>\<open>crates/choruz-application/src/schedule.rs\<close>; an interval is read as it is written), the
    jobs and their API (\<^verbatim>\<open>services/choruz-api-gateway/src/handlers_cron.rs\<close>) and the scheduler
    (\<^verbatim>\<open>services/choruz-pipeline/src/cron_scheduler.rs\<close>), which claims due jobs and writes commands into
    the session tables and announcements into the event log. \<open>Cron_Runs\<close>: the step relation of
    schedulers, API, session store and log, and that a scheduler's checks are runs of it.
    \<open>Cron_Props\<close>: one command and one announcement for each occurrence (C10), the outcome of a
    claimed row (C17). \<open>Cron_Claims\<close>: what a claim excludes, jobs that starve the others (C25), and
    schedules lost to the outcome of an occurrence.

  \<^bold>\<open>How code became definitions.\<close> A struct is a record, an enum a datatype, a table an association
  list keyed by its primary key. One SQL transaction is one function from the tables before to the
  result and the tables after; rows it locks stay locked until it commits, so transactions
  interleave only as wholes, and the step relation of \<open>Session_Props\<close> is closed under every order
  of them. \<^verbatim>\<open>Err\<close> is \<open>Inl\<close> (or \<open>Fail\<close>), an \<^verbatim>\<open>expect\<close> is a branch to
  \<open>Panic\<close>. \<^verbatim>\<open>INT\<close> and \<^verbatim>\<open>BIGINT\<close> columns overflow to a database error, as PostgreSQL
  does. Loops are structural recursion over the list they walk or over the attempts left
  (the task keys of the board), so no fuel is needed anywhere.

  \<^bold>\<open>Parameters.\<close> SHA-256, the text of a UUID, the printing of JSON values, errors and times are
  fields of environment records, and the calendar crates a field record of \<open>Cron_Schedule\<close>; fresh identifiers and the clock are streams indexed by the number
  of draws. Theorems that need fresh identifiers to be distinct say so and are instantiated with a
  concrete stream.

  \<^bold>\<open>Not modelled.\<close> Tracing and metrics (the board's rapid-update log included), connection pools, connection errors outside the pipeline's
  loops and the tool gateway, the sleep between polls, the processes of the executors and agents, HTTP and WebSocket services (of the gateway only the handlers of scheduled jobs, after their access check), and the clients.
\<close>

end
